(* ===== verification/Js_Prelude.thy ===== *)
theory Js_Prelude
  imports Main "HOL-Library.AList"
begin

text \<open>
  The parts of JavaScript the modelled sources use, with the lemmas the component theories
  share.  Objects are association lists in insertion order (\<open>AList.update\<close> overwrites in
  place or appends, as a property assignment does), strings are lists of ASCII characters, the
  numbers that occur are integers, and a thrown error is the left summand of a result.
\<close>

named_theorems js_obj \<open>objects as association lists\<close>
named_theorems js_str \<open>splitting, joining and comparing strings\<close>
named_theorems js_num \<open>numbers as strings\<close>

section \<open>Errors\<close>

datatype js_error = TypeError | SyntaxError | RangeError | URIError

type_synonym 'a js = "js_error + 'a"

definition rbind :: "'e + 'a \<Rightarrow> ('a \<Rightarrow> 'e + 'b) \<Rightarrow> 'e + 'b" where
  "rbind m f = (case m of Inl e \<Rightarrow> Inl e | Inr x \<Rightarrow> f x)"

lemma rbind_simps [simp]:
  "rbind (Inl e) f = Inl e"
  "rbind (Inr x) f = f x"
  by (simp_all add: rbind_def)

lemma rbind_eq_Inr [simp]: "rbind m f = Inr y \<longleftrightarrow> (\<exists>x. m = Inr x \<and> f x = Inr y)"
  by (cases m) auto

lemma rbind_eq_Inl: "rbind m f = Inl e \<longleftrightarrow> m = Inl e \<or> (\<exists>x. m = Inr x \<and> f x = Inl e)"
  by (cases m) auto

text \<open>A loop over a list that stops at the first thrown error.\<close>

fun rmap :: "('a \<Rightarrow> 'e + 'b) \<Rightarrow> 'a list \<Rightarrow> 'e + 'b list" where
  "rmap f [] = Inr []"
| "rmap f (x # xs) = rbind (f x) (\<lambda>y. rbind (rmap f xs) (\<lambda>ys. Inr (y # ys)))"

lemma rmap_Inr_iff: "rmap f xs = Inr ys \<longleftrightarrow> list_all2 (\<lambda>x y. f x = Inr y) xs ys"
  by (induction xs arbitrary: ys) (auto simp: list_all2_Cons1)

lemma rmap_total: "(\<And>x. x \<in> set xs \<Longrightarrow> f x = Inr (g x)) \<Longrightarrow> rmap f xs = Inr (map g xs)"
  by (induction xs) auto

section \<open>Values\<close>

datatype jsval =
    JUndef
  | JNull
  | JBool bool
  | JNum int
  | JStr string
  | JArr "jsval list"
  | JObj "(string \<times> jsval) list"

type_synonym jsobj = "(string \<times> jsval) list"

fun truthy :: "jsval \<Rightarrow> bool" where
  "truthy JUndef = False"
| "truthy JNull = False"
| "truthy (JBool b) = b"
| "truthy (JNum n) = (n \<noteq> 0)"
| "truthy (JStr s) = (s \<noteq> [])"
| "truthy (JArr xs) = True"
| "truthy (JObj fs) = True"

text \<open>Property access \<open>v[k]\<close> where the code has made sure \<open>v\<close> is an object.\<close>

definition obj_get :: "(string \<times> jsval) list \<Rightarrow> string \<Rightarrow> jsval" where
  "obj_get fs k = (case map_of fs k of None \<Rightarrow> JUndef | Some v \<Rightarrow> v)"

text \<open>The spread \<open>{ ...a, ...b }\<close>.\<close>

definition obj_spread :: "(string \<times> 'v) list \<Rightarrow> (string \<times> 'v) list \<Rightarrow> (string \<times> 'v) list" where
  "obj_spread a b = fold (\<lambda>(k, v) acc. AList.update k v acc) b a"

lemma map_of_update [js_obj, simp]: "map_of (AList.update k v al) = (map_of al)(k \<mapsto> v)"
  by (simp add: update_conv')

lemma map_of_fold_update:
  "map_of (fold (\<lambda>(k, v) acc. AList.update k v acc) b a) = map_of a ++ map_of (rev b)"
proof (induction b arbitrary: a)
  case Nil
  show ?case by simp
next
  case (Cons p b)
  obtain k v where p: "p = (k, v)" by (cases p)
  have "map_of (fold (\<lambda>(k, v) acc. AList.update k v acc) (p # b) a)
      = map_of (AList.update k v a) ++ map_of (rev b)"
    using Cons.IH [of "AList.update k v a"] by (simp add: p fun_upd_def)
  then show ?case by (simp add: p fun_eq_iff map_add_def split: option.split)
qed

lemma map_of_rev_distinct: "distinct (map fst b) \<Longrightarrow> map_of (rev b) = map_of b"
  by (induction b)
     (auto simp: map_of_append fun_eq_iff map_add_def rev_image_eqI split: option.split
       dest!: map_of_SomeD)

lemma map_of_obj_spread [js_obj]:
  "distinct (map fst b) \<Longrightarrow> map_of (obj_spread a b) = map_of a ++ map_of b"
  by (simp add: obj_spread_def map_of_fold_update map_of_rev_distinct)

lemma distinct_fold_update:
  "distinct (map fst a) \<Longrightarrow> distinct (map fst (fold (\<lambda>(k, v) acc. AList.update k v acc) b a))"
  by (induction b arbitrary: a) (auto simp: distinct_update split: prod.split)

lemma distinct_obj_spread [js_obj]:
  "distinct (map fst a) \<Longrightarrow> distinct (map fst (obj_spread a b))"
  by (simp add: obj_spread_def distinct_fold_update)

section \<open>Strings\<close>

text \<open>\<open>s.split(c)\<close> for a separator of one character.\<close>

fun js_split :: "char \<Rightarrow> string \<Rightarrow> string list" where
  "js_split c [] = [[]]"
| "js_split c (x # xs) =
     (if x = c then [] # js_split c xs
      else case js_split c xs of [] \<Rightarrow> [[x]] | w # ws \<Rightarrow> (x # w) # ws)"

text \<open>\<open>ws.join(sep)\<close>.\<close>

fun js_join :: "string \<Rightarrow> string list \<Rightarrow> string" where
  "js_join sep [] = []"
| "js_join sep [w] = w"
| "js_join sep (w # v # ws) = w @ sep @ js_join sep (v # ws)"

lemma js_split_nonempty [simp]: "js_split c s \<noteq> []"
  by (induction s) (auto split: list.split)

lemma js_join_split [js_str]: "js_join [c] (js_split c s) = s"
proof (induction s)
  case Nil
  show ?case by simp
next
  case (Cons x s)
  obtain w ws where w: "js_split c s = w # ws"
    using js_split_nonempty [of c s] by (cases "js_split c s") auto
  show ?case using Cons w by (cases ws) auto
qed

lemma js_split_no_sep [js_str]: "c \<notin> set s \<Longrightarrow> js_split c s = [s]"
  by (induction s) auto

lemma js_split_append [js_str]:
  "c \<notin> set w \<Longrightarrow> js_split c (w @ c # s) = w # js_split c s"
  by (induction w) (auto split: list.split)

lemma split_append_sep: "js_split c (a @ c # b) = js_split c a @ js_split c b"
  by (induction a) (auto split: list.split)

lemma js_split_join [js_str]:
  assumes "ws \<noteq> []" and "\<forall>w \<in> set ws. c \<notin> set w"
  shows "js_split c (js_join [c] ws) = ws"
  using assms
proof (induction "[c]" ws rule: js_join.induct)
  case (3 w v ws)
  then show ?case by (simp add: js_split_append)
qed (auto simp: js_split_no_sep)

lemma set_js_join: "set (js_join sep ws) \<subseteq> \<Union> (set ` set ws) \<union> set sep"
  by (induction sep ws rule: js_join.induct) auto

lemma js_split_parts [js_str]: "w \<in> set (js_split c s) \<Longrightarrow> c \<notin> set w"
proof (induction s arbitrary: w)
  case Nil
  then show ?case by simp
next
  case (Cons x s)
  obtain v vs where v: "js_split c s = v # vs"
    using js_split_nonempty [of c s] by (cases "js_split c s") auto
  have "c \<notin> set v" and "\<And>u. u \<in> set vs \<Longrightarrow> c \<notin> set u"
    using Cons.IH v by auto
  then show ?case using Cons.prems v by (auto split: if_splits)
qed

text \<open>\<open>s.startsWith(p)\<close> and \<open>s.includes(p)\<close>.\<close>

fun starts_with :: "string \<Rightarrow> string \<Rightarrow> bool" where
  "starts_with s [] = True"
| "starts_with [] (p # ps) = False"
| "starts_with (x # xs) (p # ps) = (x = p \<and> starts_with xs ps)"

lemma starts_with_iff [js_str]: "starts_with s p \<longleftrightarrow> (\<exists>t. s = p @ t)"
  by (induction s p rule: starts_with.induct) auto

fun str_includes :: "string \<Rightarrow> string \<Rightarrow> bool" where
  "str_includes [] p = (p = [])"
| "str_includes (x # xs) p = (starts_with (x # xs) p \<or> str_includes xs p)"

lemma str_includes_iff [js_str]: "str_includes s p \<longleftrightarrow> (\<exists>u v. s = u @ p @ v)"
proof (induction s)
  case Nil
  show ?case by auto
next
  case (Cons x s)
  show ?case (is "?l = ?r")
  proof
    assume ?l
    then consider t where "x # s = p @ t" | u v where "s = u @ p @ v"
      using Cons.IH by (auto simp: starts_with_iff)
    then show ?r
    proof cases
      case (1 t)
      then show ?thesis by (intro exI [of _ "[]"] exI [of _ t]) simp
    next
      case (2 u v)
      then show ?thesis by (intro exI [of _ "x # u"] exI [of _ v]) simp
    qed
  next
    assume ?r
    then obtain u v where uv: "x # s = u @ p @ v" by blast
    show ?l
    proof (cases u)
      case Nil
      with uv have "starts_with (x # s) p" by (auto simp: starts_with_iff)
      then show ?thesis by simp
    next
      case (Cons y u')
      with uv have "s = u' @ p @ v" by simp
      then show ?thesis using Cons.IH by auto
    qed
  qed
qed

text \<open>\<open>s.toLowerCase()\<close> and \<open>s.toUpperCase()\<close> on ASCII, \<open>s.trim()\<close>.\<close>

definition lower_char :: "char \<Rightarrow> char" where
  "lower_char c = (let n = of_char c :: nat in if 65 \<le> n \<and> n \<le> 90 then char_of (n + 32) else c)"

definition to_lower :: "string \<Rightarrow> string" where
  "to_lower s = map lower_char s"

definition is_space :: "char \<Rightarrow> bool" where
  "is_space c \<longleftrightarrow> (let n = of_char c :: nat in n = 32 \<or> (9 \<le> n \<and> n \<le> 13))"

definition js_trim :: "string \<Rightarrow> string" where
  "js_trim s = rev (dropWhile is_space (rev (dropWhile is_space s)))"

section \<open>Numbers and strings\<close>

fun the_default :: "'a \<Rightarrow> 'a option \<Rightarrow> 'a" where
  "the_default d None = d"
| "the_default d (Some x) = x"

definition is_digit :: "char \<Rightarrow> bool" where
  "is_digit c \<longleftrightarrow> (let n = of_char c :: nat in 48 \<le> n \<and> n \<le> 57)"

definition digit_val :: "char \<Rightarrow> nat" where
  "digit_val c = (of_char c :: nat) - 48"

definition digit_char :: "nat \<Rightarrow> char" where
  "digit_char d = (if d < 10 then char_of (48 + d) else char_of (87 + d))"

text \<open>\<open>parseInt(s, 10)\<close>: leading blanks, a sign, the longest run of digits; \<open>None\<close> is NaN.\<close>

definition digits_val :: "string \<Rightarrow> nat" where
  "digits_val ds = foldl (\<lambda>acc c. 10 * acc + digit_val c) 0 ds"

definition parse_nat :: "string \<Rightarrow> int option" where
  "parse_nat s = (case takeWhile is_digit s of [] \<Rightarrow> None | ds \<Rightarrow> Some (int (digits_val ds)))"

definition parse_int :: "string \<Rightarrow> int option" where
  "parse_int s =
     (case dropWhile is_space s of
        [] \<Rightarrow> None
      | c # r \<Rightarrow>
          if c = CHR ''-'' then map_option uminus (parse_nat r)
          else if c = CHR ''+'' then parse_nat r
          else parse_nat (c # r))"

text \<open>\<open>parseInt(s)\<close> without a base: a prefix \<open>0x\<close> after the sign chooses hexadecimal digits.\<close>

definition hex_digit :: "char \<Rightarrow> nat option" where
  "hex_digit c = (let n = of_char c :: nat in
     if 48 \<le> n \<and> n \<le> 57 then Some (n - 48)
     else if 97 \<le> n \<and> n \<le> 102 then Some (n - 87)
     else if 65 \<le> n \<and> n \<le> 70 then Some (n - 55) else None)"

definition hex_val :: "string \<Rightarrow> nat" where
  "hex_val ds = foldl (\<lambda>acc c. 16 * acc + the_default 0 (hex_digit c)) 0 ds"

definition parse_hex :: "string \<Rightarrow> int option" where
  "parse_hex s = (case takeWhile (\<lambda>c. hex_digit c \<noteq> None) s of [] \<Rightarrow> None | ds \<Rightarrow> Some (int (hex_val ds)))"

definition parse_unsigned :: "string \<Rightarrow> int option" where
  "parse_unsigned s =
     (case s of
        a # b # r \<Rightarrow> if a = CHR ''0'' \<and> (b = CHR ''x'' \<or> b = CHR ''X'') then parse_hex r else parse_nat s
      | _ \<Rightarrow> parse_nat s)"

definition parse_int_auto :: "string \<Rightarrow> int option" where
  "parse_int_auto s =
     (case dropWhile is_space s of
        [] \<Rightarrow> None
      | c # r \<Rightarrow>
          if c = CHR ''-'' then map_option uminus (parse_unsigned r)
          else if c = CHR ''+'' then parse_unsigned r
          else parse_unsigned (c # r))"

text \<open>\<open>n.toString(b)\<close> for a natural number and a base of at most 36.\<close>

fun to_base :: "nat \<Rightarrow> nat \<Rightarrow> string" where
  "to_base b n = (if n < b \<or> b < 2 then [digit_char n] else to_base b (n div b) @ [digit_char (n mod b)])"

declare to_base.simps [simp del]

definition show_int :: "int \<Rightarrow> string" where
  "show_int n = (if n < 0 then CHR ''-'' # to_base 10 (nat (- n)) else to_base 10 (nat n))"

lemma digit_char_less10 [js_num]: "d < 10 \<Longrightarrow> is_digit (digit_char d) \<and> digit_val (digit_char d) = d"
  by (simp add: digit_char_def is_digit_def digit_val_def)

lemma to_base_nonempty [simp]: "to_base b n \<noteq> []"
  by (subst to_base.simps) simp

lemma to_base10_digits [js_num]: "c \<in> set (to_base 10 n) \<Longrightarrow> is_digit c"
proof (induction n rule: less_induct)
  case (less n)
  show ?case
  proof (cases "n < 10")
    case True
    with less.prems show ?thesis by (simp add: to_base.simps [of 10 n] digit_char_less10)
  next
    case False
    with less.prems have "c \<in> set (to_base 10 (n div 10)) \<or> c = digit_char (n mod 10)"
      by (auto simp: to_base.simps [of 10 n])
    then show ?thesis using less.IH [of "n div 10"] False by (auto simp: digit_char_less10)
  qed
qed

lemma digits_val_snoc [js_num]: "digits_val (ds @ [c]) = 10 * digits_val ds + digit_val c"
  by (simp add: digits_val_def)

lemma digits_val_to_base [js_num]: "digits_val (to_base 10 n) = n"
proof (induction n rule: less_induct)
  case (less n)
  show ?case
  proof (cases "n < 10")
    case True
    then show ?thesis by (simp add: to_base.simps [of 10 n] digits_val_def digit_char_less10)
  next
    case False
    then have "digits_val (to_base 10 n) = 10 * digits_val (to_base 10 (n div 10)) + n mod 10"
      by (simp add: to_base.simps [of 10 n] digits_val_snoc digit_char_less10)
    also have "\<dots> = n" using less.IH [of "n div 10"] False by simp
    finally show ?thesis .
  qed
qed

lemma parse_nat_to_base [js_num]: "parse_nat (to_base 10 n) = Some (int n)"
proof -
  have "takeWhile is_digit (to_base 10 n) = to_base 10 n"
    by (rule takeWhile_eq_all_conv [THEN iffD2]) (auto simp: to_base10_digits)
  moreover obtain c r where "to_base 10 n = c # r" by (cases "to_base 10 n") auto
  ultimately show ?thesis
    using digits_val_to_base [of n] by (simp add: parse_nat_def)
qed

lemma digit_not_blank: "is_digit c \<Longrightarrow> \<not> is_space c \<and> c \<noteq> CHR ''-'' \<and> c \<noteq> CHR ''+''"
  by (auto simp: is_digit_def is_space_def Let_def)

text \<open>Printing an integer and parsing it back gives the integer.\<close>

lemma parse_int_show_int [js_num]: "parse_int (show_int n) = Some n"
proof (cases "n < 0")
  case True
  then show ?thesis
    by (simp add: show_int_def parse_int_def is_space_def parse_nat_to_base)
next
  case False
  obtain c r where cr: "to_base 10 (nat n) = c # r" by (cases "to_base 10 (nat n)") auto
  then have "is_digit c" using to_base10_digits [of c "nat n"] by simp
  then have "\<not> is_space c" and "c \<noteq> CHR ''-''" and "c \<noteq> CHR ''+''" by (simp_all add: digit_not_blank)
  then have "parse_int (c # r) = parse_nat (c # r)" by (simp add: parse_int_def)
  then show ?thesis using False cr parse_nat_to_base [of "nat n"] by (simp add: show_int_def)
qed

lemma show_int_inj: "show_int m = show_int n \<longleftrightarrow> m = n"
  by (metis option.inject parse_int_show_int)

lemma digit_char_hex: "d < 16 \<Longrightarrow> hex_digit (digit_char d) = Some d"
  by (simp add: digit_char_def hex_digit_def Let_def)

lemma hex_val_snoc [js_num]: "hex_val (ds @ [c]) = 16 * hex_val ds + the_default 0 (hex_digit c)"
  by (simp add: hex_val_def)

text \<open>Printing in base 16 and reading the digits gives the number.\<close>

lemma hex_val_to_base [js_num]: "hex_val (to_base 16 n) = n"
proof (induction n rule: less_induct)
  case (less n)
  show ?case
  proof (cases "n < 16")
    case True
    then show ?thesis by (simp add: to_base.simps [of 16 n] hex_val_def digit_char_hex)
  next
    case False
    then have "hex_val (to_base 16 n) = 16 * hex_val (to_base 16 (n div 16)) + n mod 16"
      by (simp add: to_base.simps [of 16 n] hex_val_snoc digit_char_hex)
    also have "\<dots> = n" using less.IH [of "n div 16"] False by simp
    finally show ?thesis .
  qed
qed

text \<open>Both readings of a plain decimal number agree.\<close>

lemma parse_unsigned_digits:
  "list_all is_digit s \<Longrightarrow> parse_unsigned s = parse_nat s"
  by (auto simp: parse_unsigned_def is_digit_def Let_def split: list.split)

lemma parse_int_auto_digits [js_num]:
  assumes "list_all is_digit s" and "s \<noteq> []"
  shows "parse_int_auto s = Some (int (digits_val s))"
proof -
  obtain c r where s: "s = c # r" using assms(2) by (cases s) auto
  then have "\<not> is_space c" "c \<noteq> CHR ''-''" "c \<noteq> CHR ''+''" using assms(1) digit_not_blank [of c] by simp_all
  moreover have "takeWhile is_digit s = s" using assms(1) by (simp add: takeWhile_eq_all_conv list_all_iff)
  ultimately show ?thesis
    using parse_unsigned_digits [OF assms(1)] by (simp add: parse_int_auto_def s parse_nat_def)
qed

section \<open>Numbers from other values\<close>

text \<open>\<open>Number(v)\<close> as \<open>>=\<close> applies it; \<open>None\<close> is NaN.  Arrays of more than one element and
  decimal strings with a fraction or an exponent are outside the model.\<close>

definition string_number :: "string \<Rightarrow> int option" where
  "string_number s =
     (let t = js_trim s
      in if t = [] then Some 0
         else let u = (if hd t = CHR ''-'' \<or> hd t = CHR ''+'' then tl t else t)
              in if u \<noteq> [] \<and> list_all is_digit u
                 then Some (if hd t = CHR ''-'' then - int (digits_val u) else int (digits_val u))
                 else None)"

fun to_number :: "jsval \<Rightarrow> int option" where
  "to_number JUndef = None"
| "to_number JNull = Some 0"
| "to_number (JBool b) = Some (if b then 1 else 0)"
| "to_number (JNum n) = Some n"
| "to_number (JStr s) = string_number s"
| "to_number (JArr []) = Some 0"
| "to_number (JArr [JNum n]) = Some n"
| "to_number (JArr _) = None"
| "to_number (JObj _) = None"

definition ge_zero :: "jsval \<Rightarrow> bool" where
  "ge_zero v = (case to_number v of Some n \<Rightarrow> 0 \<le> n | None \<Rightarrow> False)"

end
