(* ===== verification/Globals.thy ===== *)
theory Globals
  imports Js_Prelude
begin

text \<open>
  The mutable fields of Node's \<open>global\<close> object that the FireEdge server keeps between requests:
  the session store and its token index (\<open>server/utils/sessions.js\<close>), the pending second-factor
  secrets and the zones (\<open>server/routes/api/auth/utils.js\<close>), the resources a user may watch over
  the hook websocket (\<open>server/utils/opennebula.js\<close>) and the signing key
  (\<open>server/utils/server.js\<close>).
\<close>

text \<open>One element of \<open>global.sessionStore[user].tokens\<close>.\<close>

record token_entry =
  te_token :: string
  te_expires :: int

text \<open>One value of \<open>global.tokenIndex\<close>.\<close>

record token_pos =
  tp_user :: string
  tp_pos :: nat

text \<open>One element of \<open>global.zones\<close>.\<close>

record zone =
  zn_id :: string
  zn_name :: string
  zn_rpc :: string
  zn_zeromq :: string
  zn_fireedge :: "string option"

record globals =
  sessionStore :: "(string \<rightharpoonup> token_entry list) option"
  tokenIndex :: "(string \<rightharpoonup> token_pos) option"
  pending2FA :: "string \<rightharpoonup> string"
  zones :: "zone list option"
  resourcesHooks :: "string \<rightharpoonup> (string \<rightharpoonup> jsval)"
  FIREEDGE_KEY :: "string option"

definition initial_globals :: globals where
  "initial_globals =
     \<lparr>sessionStore = None, tokenIndex = None, pending2FA = Map.empty, zones = None,
      resourcesHooks = Map.empty, FIREEDGE_KEY = None\<rparr>"

end
