(* ===== verification/Sessions.thy ===== *)
theory Sessions
  imports Globals
begin

text \<open>
  The session store of the FireEdge server (\<open>server/utils/sessions.js\<close>) and the check that
  every authenticated route makes against it (\<open>validateUser\<close> of
  \<open>server/routes/entrypoints/Api/middlewares.js\<close>).  The store is an array of tokens per user; a
  second map remembers, for each token, its user and its position in that array.

  Time is in milliseconds, as in luxon; expiry times are in seconds, as in the code.  The two objects are maps: the
  keys that the code gives them are names of the form \<open>serveradmin:user\<close> and generated tokens, so
  that none of them is the name of a member of \<open>Object.prototype\<close>.
\<close>

named_theorems session_simps \<open>how the session operations act on the store and on the index\<close>

section \<open>Operations\<close>

definition ensureSessionStore :: "globals \<Rightarrow> globals" where
  "ensureSessionStore g =
     g\<lparr>sessionStore := Some (case sessionStore g of None \<Rightarrow> Map.empty | Some m \<Rightarrow> m),
       tokenIndex := Some (case tokenIndex g of None \<Rightarrow> Map.empty | Some m \<Rightarrow> m)\<rparr>"

text \<open>What a read of the two globals sees, absent ones being empty.\<close>

definition store :: "globals \<Rightarrow> string \<rightharpoonup> token_entry list" where
  "store g = (case sessionStore g of None \<Rightarrow> Map.empty | Some m \<Rightarrow> m)"

definition index :: "globals \<Rightarrow> string \<rightharpoonup> token_pos" where
  "index g = (case tokenIndex g of None \<Rightarrow> Map.empty | Some m \<Rightarrow> m)"

definition addUserSession :: "string \<Rightarrow> token_entry \<Rightarrow> globals \<Rightarrow> globals" where
  "addUserSession user te g0 =
     (let g = ensureSessionStore g0;
          tokens = (case store g user of None \<Rightarrow> [] | Some ts \<Rightarrow> ts);
          pushed = tokens @ [te];
          pos = length pushed - 1
      in g\<lparr>sessionStore := Some ((store g)(user \<mapsto> pushed)),
           tokenIndex := Some ((index g)(te_token te \<mapsto> \<lparr>tp_user = user, tp_pos = pos\<rparr>))\<rparr>)"

text \<open>\<open>tokens.splice(pos, 1)\<close>: nothing is removed when the position is past the end.\<close>

definition splice1 :: "nat \<Rightarrow> 'a list \<Rightarrow> 'a list" where
  "splice1 pos xs = take pos xs @ drop (Suc pos) xs"

definition removeUserSession :: "string \<Rightarrow> globals \<Rightarrow> globals" where
  "removeUserSession token g0 =
     (let g = ensureSessionStore g0
      in case index g token of
           None \<Rightarrow> g
         | Some i \<Rightarrow>
             (case store g (tp_user i) of
                None \<Rightarrow> g
              | Some ts \<Rightarrow>
                  let tokens = splice1 (tp_pos i) ts
                  in g\<lparr>sessionStore :=
                         Some ((store g)(tp_user i := (if length tokens = 0 then None else Some tokens))),
                       tokenIndex := Some ((index g)(token := None))\<rparr>))"

definition validateUser :: "int \<Rightarrow> string \<Rightarrow> string \<Rightarrow> globals \<Rightarrow> bool \<times> globals" where
  "validateUser now user token g0 =
     (let g = ensureSessionStore g0
      in (user \<noteq> [] \<and> token \<noteq> [] \<and>
          (case store g user of
             None \<Rightarrow> False
           | Some tokens \<Rightarrow>
               list_ex (\<lambda>te. te_expires te * 1000 > now \<and> te_token te = token) tokens), g))"

section \<open>The operations on the store and on the index\<close>

lemma ensure_reads [session_simps, simp]:
  "store (ensureSessionStore g) = store g"
  "index (ensureSessionStore g) = index g"
  by (simp_all add: ensureSessionStore_def store_def index_def)

definition tokens_of :: "globals \<Rightarrow> string \<Rightarrow> token_entry list" where
  "tokens_of g u = (case store g u of None \<Rightarrow> [] | Some ts \<Rightarrow> ts)"

lemma store_add [session_simps]:
  "store (addUserSession u te g) = (store g)(u \<mapsto> tokens_of g u @ [te])"
  by (simp add: addUserSession_def Let_def store_def [of "_\<lparr>sessionStore := _, tokenIndex := _\<rparr>"]
      tokens_of_def fun_eq_iff)

lemma index_add [session_simps]:
  "index (addUserSession u te g) =
     (index g)(te_token te \<mapsto> \<lparr>tp_user = u, tp_pos = length (tokens_of g u)\<rparr>)"
  by (simp add: addUserSession_def Let_def index_def [of "_\<lparr>sessionStore := _, tokenIndex := _\<rparr>"]
      tokens_of_def fun_eq_iff split: option.split)

lemma tokens_of_add [session_simps]:
  "tokens_of (addUserSession u te g) v = tokens_of g v @ (if v = u then [te] else [])"
  by (simp add: tokens_of_def store_add)

lemma store_remove [session_simps]:
  "store (removeUserSession t g) =
     (case index g t of
        None \<Rightarrow> store g
      | Some i \<Rightarrow>
          if store g (tp_user i) = None then store g
          else (store g)(tp_user i :=
                 (if splice1 (tp_pos i) (tokens_of g (tp_user i)) = [] then None
                  else Some (splice1 (tp_pos i) (tokens_of g (tp_user i))))))"
  by (simp add: removeUserSession_def Let_def store_def [of "_\<lparr>sessionStore := _, tokenIndex := _\<rparr>"]
      tokens_of_def fun_eq_iff split: option.split)

lemma index_remove [session_simps]:
  "index (removeUserSession t g) =
     (case index g t of
        None \<Rightarrow> index g
      | Some i \<Rightarrow> if store g (tp_user i) = None then index g else (index g)(t := None))"
  by (simp add: removeUserSession_def Let_def index_def [of "_\<lparr>sessionStore := _, tokenIndex := _\<rparr>"]
      fun_eq_iff split: option.split)

lemma tokens_of_remove [session_simps]:
  "tokens_of (removeUserSession t g) v =
     (case index g t of
        None \<Rightarrow> tokens_of g v
      | Some i \<Rightarrow>
          if v = tp_user i then splice1 (tp_pos i) (tokens_of g v) else tokens_of g v)"
  by (auto simp: tokens_of_def store_remove splice1_def split: option.split)

lemma set_splice1: "set (splice1 p xs) \<subseteq> set xs"
  by (auto simp: splice1_def dest: in_set_takeD in_set_dropD)

lemma splice1_past_end [simp]: "length xs \<le> p \<Longrightarrow> splice1 p xs = xs"
  by (simp add: splice1_def)

lemma splice1_last [simp]: "splice1 (length xs) (xs @ [x]) = xs"
  by (simp add: splice1_def)

section \<open>What the store promises its clients\<close>

text \<open>
  The abstract view of the store: which user holds which token until when.
\<close>

definition sessions :: "globals \<Rightarrow> (string \<times> token_entry) set" where
  "sessions g = {(u, te). te \<in> set (tokens_of g u)}"

definition session_valid :: "int \<Rightarrow> string \<Rightarrow> string \<Rightarrow> globals \<Rightarrow> bool" where
  "session_valid now u t g \<longleftrightarrow>
     u \<noteq> [] \<and> t \<noteq> [] \<and> (\<exists>te. (u, te) \<in> sessions g \<and> te_token te = t \<and> now < te_expires te * 1000)"

lemma validateUser_spec: "validateUser now u t g = (session_valid now u t g, ensureSessionStore g)"
  by (auto simp: validateUser_def session_valid_def sessions_def tokens_of_def Let_def list_ex_iff
      split: option.split)

lemma sessions_add: "sessions (addUserSession u te g) = insert (u, te) (sessions g)"
  by (auto simp: sessions_def tokens_of_add split: if_splits)

lemma sessions_remove: "sessions (removeUserSession t g) \<subseteq> sessions g"
  using set_splice1 by (fastforce simp: sessions_def tokens_of_remove split: option.splits if_splits)

text \<open>
  The contract the authentication code relies on: what a login grants, that no login takes
  another session away, and that no logout grants one.
\<close>

locale session_store =
  fixes add :: "string \<Rightarrow> token_entry \<Rightarrow> 'g \<Rightarrow> 'g"
    and remove :: "string \<Rightarrow> 'g \<Rightarrow> 'g"
    and valid :: "int \<Rightarrow> string \<Rightarrow> string \<Rightarrow> 'g \<Rightarrow> bool"
  assumes valid_add: "u \<noteq> [] \<Longrightarrow> te_token te \<noteq> [] \<Longrightarrow> now < te_expires te * 1000 \<Longrightarrow>
      valid now u (te_token te) (add u te g)"
    and valid_mono: "valid now u t g \<Longrightarrow> valid now u t (add v te g)"
    and valid_remove: "valid now u t (remove s g) \<Longrightarrow> valid now u t g"
    and valid_add_only: "valid now u t (add v te g) \<Longrightarrow>
      valid now u t g \<or> u = v \<and> t = te_token te \<and> now < te_expires te * 1000"
    and valid_time: "valid now u t g \<Longrightarrow> earlier \<le> now \<Longrightarrow> valid earlier u t g"
begin

lemma valid_adds: "valid now u t g \<Longrightarrow> valid now u t (fold (\<lambda>(v, te). add v te) xs g)"
  by (induction xs arbitrary: g) (auto intro: valid_mono)

lemma valid_removes: "valid now u t (fold remove ts g) \<Longrightarrow> valid now u t g"
  by (induction ts arbitrary: g) (auto dest: valid_remove)

lemma valid_adds_origin:
  "valid now u t (fold (\<lambda>(v, te). add v te) xs g) \<Longrightarrow>
     valid now u t g \<or> (\<exists>te. (u, te) \<in> set xs \<and> te_token te = t \<and> now < te_expires te * 1000)"
proof (induction xs arbitrary: g)
  case Nil
  then show ?case by simp
next
  case (Cons p xs)
  obtain v te where p: "p = (v, te)" by (cases p)
  from Cons.prems p have "valid now u t (fold (\<lambda>(v, te). add v te) xs (add v te g))" by simp
  from Cons.IH [OF this] show ?case
    using p by (auto dest: valid_add_only)
qed

end

interpretation fireedge: session_store addUserSession removeUserSession session_valid
proof unfold_locales
  fix now u t s g
  assume "session_valid now u t (removeUserSession s g)"
  then show "session_valid now u t g"
    using sessions_remove [of s g] by (auto simp: session_valid_def)
qed (auto simp: session_valid_def sessions_add)

section \<open>The index invariant\<close>

text \<open>
  Positions in the index point at the token they are for, and no user is kept with an empty
  array.
\<close>

definition index_ok :: "globals \<Rightarrow> bool" where
  "index_ok g \<longleftrightarrow>
     (\<forall>t i. index g t = Some i \<longrightarrow>
        tp_pos i < length (tokens_of g (tp_user i)) \<and> te_token (tokens_of g (tp_user i) ! tp_pos i) = t)"

definition no_empty_user :: "globals \<Rightarrow> bool" where
  "no_empty_user g \<longleftrightarrow> (\<forall>u. store g u \<noteq> Some [])"

text \<open>Every token is held once in the whole store, and is indexed.\<close>

definition token_unique :: "globals \<Rightarrow> bool" where
  "token_unique g \<longleftrightarrow>
     (\<forall>u. distinct (map te_token (tokens_of g u))) \<and>
     (\<forall>u te. te \<in> set (tokens_of g u) \<longrightarrow> (\<exists>i. index g (te_token te) = Some i \<and> tp_user i = u))"

lemma index_ok_add: "index_ok g \<Longrightarrow> index_ok (addUserSession u te g)"
  by (fastforce simp: index_ok_def index_add tokens_of_add nth_append)

lemma no_empty_user_add: "no_empty_user g \<Longrightarrow> no_empty_user (addUserSession u te g)"
  by (simp add: no_empty_user_def store_add)

lemma no_empty_user_remove: "no_empty_user g \<Longrightarrow> no_empty_user (removeUserSession t g)"
  by (auto simp: no_empty_user_def store_remove split: option.split)

lemma token_unique_add:
  assumes "token_unique g" and "index g (te_token te) = None"
  shows "token_unique (addUserSession u te g)"
proof -
  have fresh: "te_token te \<noteq> te_token x" if "x \<in> set (tokens_of g v)" for v x
    using assms that by (fastforce simp: token_unique_def)
  have "distinct (map te_token (tokens_of (addUserSession u te g) v))" for v
    using assms(1) fresh by (fastforce simp: token_unique_def tokens_of_add)
  moreover have "\<exists>i. index (addUserSession u te g) (te_token x) = Some i \<and> tp_user i = v"
    if "x \<in> set (tokens_of (addUserSession u te g) v)" for v x
    using that assms(1) fresh by (fastforce simp: token_unique_def tokens_of_add index_add split: if_splits)
  ultimately show ?thesis by (auto simp: token_unique_def)
qed

text \<open>With an exact index, removing a position removes exactly the entries of that token.\<close>

lemma set_remove_distinct:
  assumes "distinct (map f (a @ x # b))"
  shows "set (a @ b) = {y \<in> set (a @ x # b). f y \<noteq> f x}"
proof -
  have "f x \<notin> f ` (set a \<union> set b)" using assms by auto
  then have "\<And>y. y \<in> set a \<union> set b \<Longrightarrow> f y \<noteq> f x" by (metis imageI)
  then show ?thesis by auto
qed

lemma set_splice1_distinct:
  assumes "distinct (map f xs)" and "p < length xs"
  shows "set (splice1 p xs) = {x \<in> set xs. f x \<noteq> f (xs ! p)}"
  using set_remove_distinct [of f "take p xs" "xs ! p" "drop (Suc p) xs"] assms
  unfolding splice1_def by (simp only: id_take_nth_drop [OF assms(2), symmetric])

lemma sessions_remove_exact:
  assumes "index_ok g" and "token_unique g" and "index g t = Some i"
  shows "sessions (removeUserSession t g) = {(u, te) \<in> sessions g. te_token te \<noteq> t}"
proof -
  let ?ts = "tokens_of g (tp_user i)"
  from assms have p: "tp_pos i < length ?ts" and tok: "te_token (?ts ! tp_pos i) = t"
    and dist: "distinct (map te_token ?ts)"
    by (auto simp: index_ok_def token_unique_def)
  have other: "te_token te \<noteq> t" if "te \<in> set (tokens_of g v)" "v \<noteq> tp_user i" for v te
    using assms(2,3) that by (fastforce simp: token_unique_def)
  show ?thesis
    using assms(3) other set_splice1_distinct [OF dist p] tok
    by (auto simp: sessions_def tokens_of_remove split: if_splits)
qed

text \<open>Removing the last position of an array moves no other token.\<close>

lemma index_ok_remove_last:
  assumes "index_ok g" and "token_unique g" and "index g t = Some i"
    and "Suc (tp_pos i) = length (tokens_of g (tp_user i))"
  shows "index_ok (removeUserSession t g)"
proof -
  have nonempty: "store g (tp_user i) \<noteq> None"
    using assms(4) by (auto simp: tokens_of_def split: option.splits)
  have splice: "splice1 (tp_pos i) (tokens_of g (tp_user i)) = butlast (tokens_of g (tp_user i))"
    using assms(4) by (simp add: splice1_def butlast_conv_take flip: assms(4))
  have "tp_pos j < length (tokens_of (removeUserSession t g) (tp_user j)) \<and>
        te_token (tokens_of (removeUserSession t g) (tp_user j) ! tp_pos j) = s"
    if j: "index g s = Some j" and "s \<noteq> t" for s j
  proof -
    from assms(1) j have pj: "tp_pos j < length (tokens_of g (tp_user j))"
      and tj: "te_token (tokens_of g (tp_user j) ! tp_pos j) = s" by (auto simp: index_ok_def)
    have "tp_pos j \<noteq> tp_pos i" if "tp_user j = tp_user i"
      using assms(1,3) tj \<open>s \<noteq> t\<close> that by (auto simp: index_ok_def)
    then show ?thesis
      using pj tj assms(3,4) splice by (auto simp: tokens_of_remove nth_butlast)
  qed
  then show ?thesis using assms(3) nonempty by (auto simp: index_ok_def index_remove split: if_splits)
qed

section \<open>Runs of logins and logouts\<close>

inductive session_step :: "globals \<Rightarrow> globals \<Rightarrow> bool" where
  login: "session_step g (addUserSession u te g)"
| logout: "session_step g (removeUserSession t g)"
| check: "session_step g (snd (validateUser now u t g))"

inductive reachable :: "globals \<Rightarrow> bool" where
  start: "sessionStore g = None \<Longrightarrow> tokenIndex g = None \<Longrightarrow> reachable g"
| step: "reachable g \<Longrightarrow> session_step g h \<Longrightarrow> reachable h"

inductive_cases session_stepE: "session_step g h"

lemma session_step_no_empty: "session_step g h \<Longrightarrow> no_empty_user g \<Longrightarrow> no_empty_user h"
  by (erule session_stepE)
     (auto simp: no_empty_user_add no_empty_user_remove, auto simp: validateUser_def Let_def no_empty_user_def)

lemma reachable_no_empty: "reachable g \<Longrightarrow> no_empty_user g"
proof (induction rule: reachable.induct)
  case (start g)
  then show ?case by (simp add: no_empty_user_def store_def)
next
  case (step g h)
  then show ?case by (blast intro: session_step_no_empty)
qed

text \<open>
  The sessions a run of \<open>addUserSession\<close> adds.  A login calls it once, after it has taken the expired tokens of
  its user away with \<open>removeUserSession\<close> (\<open>getCreatedTokenOpennebula\<close>, theory \<open>Auth\<close>): a run of additions is
  what a run of logins does as long as no expired token is found.
\<close>

definition additions :: "(string \<times> token_entry) list \<Rightarrow> globals \<Rightarrow> globals" where
  "additions xs g = fold (\<lambda>(u, te). addUserSession u te) xs g"

lemma additions_invariants:
  assumes "index_ok g" and "token_unique g"
    and "distinct (map (\<lambda>(u, te). te_token te) xs)"
    and "\<forall>(u, te) \<in> set xs. index g (te_token te) = None"
  shows "index_ok (additions xs g) \<and> token_unique (additions xs g)"
  using assms
proof (induction xs arbitrary: g)
  case Nil
  then show ?case by (simp add: additions_def)
next
  case (Cons p xs)
  obtain u te where p: "p = (u, te)" by (cases p)
  let ?h = "addUserSession u te g"
  have "index_ok ?h" using Cons.prems(1) by (rule index_ok_add)
  moreover have "token_unique ?h"
    using Cons.prems(2,4) p by (intro token_unique_add) auto
  moreover have "\<forall>(v, tf) \<in> set xs. index ?h (te_token tf) = None"
    using Cons.prems(3,4) p by (force simp: index_add)
  ultimately have "index_ok (additions xs ?h) \<and> token_unique (additions xs ?h)"
    using Cons.prems(3) by (intro Cons.IH) auto
  then show ?case by (simp add: additions_def p)
qed

lemma sessions_additions: "sessions (additions xs g) = set xs \<union> sessions g"
proof (induction xs arbitrary: g)
  case Nil
  show ?case by (simp add: additions_def)
next
  case (Cons p xs)
  then show ?case by (cases p) (auto simp: additions_def sessions_add)
qed

lemma fresh_globals:
  assumes "sessionStore g = None" and "tokenIndex g = None"
  shows "index_ok g" and "token_unique g" and "sessions g = {}" and "index g t = None"
  using assms by (auto simp: index_ok_def token_unique_def sessions_def tokens_of_def store_def index_def)

section \<open>Properties\<close>

text \<open>
  C5. The store grants what was added to it and nothing else: after any run of \<open>addUserSession\<close>, from any
  store, \<open>validateUser\<close> accepts a user with a token at a time exactly when neither is empty and the run
  added that token for that user, or he held it before, with an expiry time still to come; the latest of
  the expiry times decides.  A login removes expired tokens besides, with \<open>removeUserSession\<close>; that part is
  not in the run.
\<close>

theorem login_honoured:
  "fst (validateUser now u t (additions xs g)) \<longleftrightarrow>
     u \<noteq> [] \<and> t \<noteq> [] \<and>
     (\<exists>te. ((u, te) \<in> set xs \<or> te \<in> set (tokens_of g u)) \<and> te_token te = t \<and> now < te_expires te * 1000)"
  by (auto simp: validateUser_spec session_valid_def sessions_additions) (auto simp: sessions_def)

text \<open>
  C20. Until the first removal the positions are exact: when sessions with distinct tokens were added to
  an empty store and none was taken away since, neither by a logout nor by a login that found an expired
  token, \<open>removeUserSession\<close> removes exactly the session of its token; every other one stays.
\<close>

theorem first_logout_exact:
  assumes "sessionStore g = None" and "tokenIndex g = None"
    and "distinct (map (\<lambda>(u, te). te_token te) xs)" and "(u, te) \<in> set xs"
  shows "sessions (removeUserSession (te_token te) (additions xs g)) = set xs - {(u, te)}"
proof -
  note fresh = fresh_globals [OF assms(1,2)]
  have inv: "index_ok (additions xs g)" "token_unique (additions xs g)"
    using additions_invariants [OF fresh(1,2) assms(3)] fresh(4) by auto
  have sess: "sessions (additions xs g) = set xs" by (simp add: sessions_additions fresh(3))
  then have "te \<in> set (tokens_of (additions xs g) u)" using assms(4) by (auto simp: sessions_def)
  then obtain i where "index (additions xs g) (te_token te) = Some i"
    using inv(2) unfolding token_unique_def by blast
  from sessions_remove_exact [OF inv this] sess
  have "sessions (removeUserSession (te_token te) (additions xs g))
      = {(v, tf) \<in> set xs. te_token tf \<noteq> te_token te}" by auto
  also have "\<dots> = set xs - {(u, te)}"
    using assms(3,4) by (auto simp: distinct_map inj_on_def)
  finally show ?thesis .
qed

theorem first_logout_exact_witness:
  "sessions (removeUserSession ''a''
     (additions [(''u'', \<lparr>te_token = ''a'', te_expires = 9\<rparr>), (''u'', \<lparr>te_token = ''b'', te_expires = 9\<rparr>)]
       initial_globals))
   = {(''u'', \<lparr>te_token = ''b'', te_expires = 9\<rparr>)}"
  using first_logout_exact [of initial_globals
      "[(''u'', \<lparr>te_token = ''a'', te_expires = 9\<rparr>), (''u'', \<lparr>te_token = ''b'', te_expires = 9\<rparr>)]"
      "''u''" "\<lparr>te_token = ''a'', te_expires = 9\<rparr>"]
  by (simp add: initial_globals_def)

text \<open>
  The second logout of the same user goes wrong: \<open>splice\<close> moves the later tokens down and the
  index keeps their old positions.  After three logins of one user, logging out the first and
  then the second token leaves the second one accepted and takes the third one, which nobody
  logged out, away.
\<close>

theorem second_logout_revokes_wrong_token:
  "let te = (\<lambda>t. \<lparr>te_token = t, te_expires = 9\<rparr>);
       g = additions [(''u'', te ''a''), (''u'', te ''b''), (''u'', te ''c'')] initial_globals;
       h = removeUserSession ''b'' (removeUserSession ''a'' g)
   in fst (validateUser 0 ''u'' ''b'' h) \<and> \<not> fst (validateUser 0 ''u'' ''c'' h) \<and>
      fst (validateUser 0 ''u'' ''c'' g) \<and> index h ''b'' = None"
  by (simp add: Let_def additions_def initial_globals_def addUserSession_def removeUserSession_def
      validateUser_def store_def index_def splice1_def ensureSessionStore_def)

text \<open>
  In every state the server can reach, logging in and at once logging out again gives back the
  store as it was.
\<close>

theorem login_logout_roundtrip:
  assumes "reachable g"
  shows "store (removeUserSession (te_token te) (addUserSession u te g)) = store g"
proof -
  have "store g u \<noteq> Some []" using reachable_no_empty [OF assms] by (simp add: no_empty_user_def)
  then show ?thesis
    by (auto simp: store_remove index_add store_add tokens_of_add tokens_of_def fun_eq_iff split: option.split)
qed

theorem login_logout_roundtrip_witness:
  "store (removeUserSession ''t'' (addUserSession ''u'' \<lparr>te_token = ''t'', te_expires = 9\<rparr> initial_globals))
   = store initial_globals"
proof -
  have "reachable initial_globals" by (rule reachable.start) (simp_all add: initial_globals_def)
  from login_logout_roundtrip [OF this, of "\<lparr>te_token = ''t'', te_expires = 9\<rparr>" "''u''"]
  show ?thesis by simp
qed

text \<open>
  Logouts never let anybody in: whoever \<open>validateUser\<close> accepts after any sequence of logouts
  was accepted before it.
\<close>

theorem logouts_grant_nothing:
  assumes "fst (validateUser now u t (fold removeUserSession ts g))"
  shows "fst (validateUser now u t g)"
  using assms fireedge.valid_removes by (simp add: validateUser_spec)

theorem logouts_grant_nothing_witness:
  "fst (validateUser 0 ''u'' ''b''
     (additions [(''u'', \<lparr>te_token = ''a'', te_expires = 9\<rparr>), (''u'', \<lparr>te_token = ''b'', te_expires = 9\<rparr>)]
       initial_globals))"
  by (rule logouts_grant_nothing [where ts = "[''a'']"])
     (simp add: additions_def initial_globals_def addUserSession_def removeUserSession_def
      validateUser_def store_def index_def splice1_def ensureSessionStore_def)

end
