(* ===== verification/Http.thy ===== *)
theory Http
  imports Globals
begin

text \<open>
  The request and response helpers of \<open>server/utils/server.js\<close>, the status codes of
  \<open>server/utils/constants/http-codes.js\<close>, the upload grouping of \<open>server/routes/api/index.js\<close>
  and the choice of the OpenNebula zone (\<open>getZone\<close> of
  \<open>server/routes/entrypoints/Api/middlewares.js\<close>).
\<close>

section \<open>Status codes and responses\<close>

record http_code =
  hc_id :: int
  hc_message :: string

definition badRequest :: http_code where "badRequest = \<lparr>hc_id = 400, hc_message = ''Bad Request''\<rparr>"
definition unauthorized :: http_code where "unauthorized = \<lparr>hc_id = 401, hc_message = ''Unauthorized''\<rparr>"
definition notFound :: http_code where "notFound = \<lparr>hc_id = 404, hc_message = ''Not Found''\<rparr>"
definition conflict :: http_code where "conflict = \<lparr>hc_id = 409, hc_message = ''Conflict''\<rparr>"
definition methodNotAllowed :: http_code where "methodNotAllowed = \<lparr>hc_id = 405, hc_message = ''Method not Allowed''\<rparr>"
definition internalServerError :: http_code where
  "internalServerError = \<lparr>hc_id = 500, hc_message = ''Internal Server Error''\<rparr>"
definition serviceUnavailable :: http_code where
  "serviceUnavailable = \<lparr>hc_id = 503, hc_message = ''Service Unavailable''\<rparr>"
definition noContent :: http_code where "noContent = \<lparr>hc_id = 204, hc_message = ''No content''\<rparr>"
definition accepted :: http_code where "accepted = \<lparr>hc_id = 202, hc_message = ''Accepted''\<rparr>"
definition ok :: http_code where "ok = \<lparr>hc_id = 200, hc_message = ''OK''\<rparr>"

definition httpCodes :: "http_code list" where
  "httpCodes = [badRequest, unauthorized, notFound, conflict, methodNotAllowed, internalServerError,
     serviceUnavailable, noContent, accepted, ok]"

lemmas http_code_defs = badRequest_def unauthorized_def notFound_def conflict_def
  methodNotAllowed_def internalServerError_def serviceUnavailable_def noContent_def accepted_def ok_def

text \<open>The object \<open>httpResponse\<close> returns; \<open>None\<close> is an absent property.\<close>

record http_result =
  hr_id :: int
  hr_message :: "string option"
  hr_data :: "jsval option"
  hr_file :: "string option"

definition of_code :: "http_code \<Rightarrow> http_result" where
  "of_code c = \<lparr>hr_id = hc_id c, hr_message = Some (hc_message c), hr_data = None, hr_file = None\<rparr>"

definition httpResponse :: "http_code option \<Rightarrow> jsval \<Rightarrow> string \<Rightarrow> string \<Rightarrow> http_result" where
  "httpResponse response data message file =
     (let data = (if data = JUndef then JStr [] else data);
          r0 = (case response of
                  None \<Rightarrow> (of_code internalServerError)\<lparr>hr_data := Some data\<rparr>
                | Some c \<Rightarrow> of_code c);
          r1 = (if truthy data \<or> data = JNum 0 then r0\<lparr>hr_data := Some data\<rparr> else r0);
          r2 = (if message \<noteq> [] then r1\<lparr>hr_message := Some message\<rparr> else r1)
      in if file \<noteq> [] then
           r2\<lparr>hr_message := (case hr_message r2 of Some m \<Rightarrow> (if m \<noteq> [] then None else Some m) | None \<Rightarrow> None),
              hr_data := (case hr_data r2 of Some d \<Rightarrow> (if truthy d then None else Some d) | None \<Rightarrow> None),
              hr_file := Some file\<rparr>
         else r2)"

lemma httpResponse_id [simp]: "hr_id (httpResponse (Some c) d m f) = hc_id c"
  by (simp add: httpResponse_def Let_def of_code_def)

lemma httpResponse_default_id [simp]: "hr_id (httpResponse None d m f) = 500"
  by (simp add: httpResponse_def Let_def of_code_def internalServerError_def)

section \<open>HTTP verbs\<close>

definition httpMethods :: "string list" where
  "httpMethods = [''GET'', ''POST'', ''PUT'', ''DELETE'', ''PATCH'']"

definition validateHttpMethod :: "string \<Rightarrow> string option" where
  "validateHttpMethod m = (if m \<noteq> [] \<and> m \<in> set httpMethods then Some (to_lower m) else None)"

section \<open>Request parameters\<close>

text \<open>One parameter of a route or of an OpenNebula command.\<close>

record param_spec =
  ps_from :: "string option"
  ps_default :: jsval
  ps_arrayDefault :: jsval
  ps_all :: bool

type_synonym params = "(string \<times> param_spec) list"

text \<open>The data a request offers: \<open>RESOURCE\<close> (path), \<open>QUERY\<close>, \<open>POST_BODY\<close> and \<open>files\<close>.\<close>

type_synonym data_source = "(string \<times> jsval) list"

fun prop_get :: "jsval \<Rightarrow> string \<Rightarrow> jsval" where
  "prop_get (JObj fs) k = obj_get fs k"
| "prop_get _ k = JUndef"

definition getRequestFiles :: "params option \<Rightarrow> string list option" where
  "getRequestFiles params =
     (case params of
        None \<Rightarrow> None
      | Some ps \<Rightarrow>
          if length ps > 0
          then Some (map fst (filter (\<lambda>(k, p). k \<noteq> [] \<and> ps_from p = Some ''files'') ps))
          else None)"

definition getRequestParameters :: "params \<Rightarrow> data_source \<Rightarrow> jsobj" where
  "getRequestParameters ps req =
     (if length ps > 0 then
        fold (\<lambda>(param, value) rtn.
          (case ps_from value of
             None \<Rightarrow> rtn
           | Some src \<Rightarrow>
               if param \<noteq> [] \<and> src \<noteq> [] \<and> truthy (obj_get req src)
               then AList.update param
                      (if ps_all value then obj_get req src else prop_get (obj_get req src) param) rtn
               else rtn)) ps []
      else [])"

text \<open>The uploads of a request, grouped by form field.\<close>

record upload =
  up_fieldname :: string
  up_path :: string

definition parseFiles :: "upload list \<Rightarrow> (string \<times> upload list) list" where
  "parseFiles files =
     fold (\<lambda>file rtn.
       if up_fieldname file \<noteq> [] then
         (case map_of rtn (up_fieldname file) of
            Some fs \<Rightarrow> AList.update (up_fieldname file) (fs @ [file]) rtn
          | None \<Rightarrow> AList.update (up_fieldname file) [file] rtn)
       else rtn) files []"

section \<open>Zones\<close>

definition getDataZone :: "string \<Rightarrow> zone list \<Rightarrow> globals \<Rightarrow> zone option" where
  "getDataZone zone configuredZones g =
     (let zs = (case zones g of Some zs \<Rightarrow> zs | None \<Rightarrow> configuredZones)
      in case parse_int zone of
           Some _ \<Rightarrow> List.find (\<lambda>zn. zn_id zn \<noteq> [] \<and> zn_id zn = zone) zs
         | None \<Rightarrow> (case zs of [] \<Rightarrow> None | z # _ \<Rightarrow> Some z))"

text \<open>The part of \<open>fireedge-server.conf\<close> that \<open>getZone\<close> reads, with the entries of \<open>default_zone\<close> that a zone
  has too (its \<open>rpc\<close> is overwritten at once); an empty string is an absent entry.\<close>

record zone_config =
  one_xmlrpc :: string
  subscriber_endpoint :: string
  dz_id :: string
  dz_name :: string
  dz_endpoint :: string
  dz_zeromq :: string
  dz_fireedge :: "string option"

text \<open>\<open>getZone\<close> also rewrites the first element of the module's \<open>defaultOpennebulaZones\<close>.\<close>

definition getZone :: "zone_config \<Rightarrow> string \<Rightarrow> zone list \<Rightarrow> globals \<Rightarrow> zone option \<times> zone list" where
  "getZone cfg selectedZone defaultZones g =
     (let zone = (if selectedZone \<noteq> [] then selectedZone else if dz_id cfg \<noteq> [] then dz_id cfg else ''0'');
          defaults =
            (case defaultZones of
               z # zs \<Rightarrow>
                 if one_xmlrpc cfg \<noteq> [] \<and> zn_rpc z \<noteq> [] then
                   (let z1 = (if dz_id cfg \<noteq> [] \<and> dz_name cfg \<noteq> [] \<and> dz_endpoint cfg \<noteq> []
                              then \<lparr>zn_id = dz_id cfg, zn_name = dz_name cfg, zn_rpc = [],
                                    zn_zeromq = dz_zeromq cfg, zn_fireedge = dz_fireedge cfg\<rparr>
                              else z);
                        z2 = z1\<lparr>zn_rpc := one_xmlrpc cfg\<rparr>;
                        z3 = (if subscriber_endpoint cfg \<noteq> [] then z2\<lparr>zn_zeromq := subscriber_endpoint cfg\<rparr> else z2)
                    in z3 # zs)
                 else z # zs
             | [] \<Rightarrow> [])
      in (getDataZone zone defaults g, defaults))"

definition defaultOpennebulaZones :: "zone list" where
  "defaultOpennebulaZones =
     [\<lparr>zn_id = ''0'', zn_name = ''OpenNebula'', zn_rpc = ''http://localhost:2633/RPC2'',
       zn_zeromq = [], zn_fireedge = None\<rparr>]"

section \<open>Lemmas\<close>

lemma getRequestParameters_fold:
  "map_of (fold (\<lambda>(param, value) rtn.
      (case ps_from value of
         None \<Rightarrow> rtn
       | Some src \<Rightarrow>
           if param \<noteq> [] \<and> src \<noteq> [] \<and> truthy (obj_get req src)
           then AList.update param
                  (if ps_all value then obj_get req src else prop_get (obj_get req src) param) rtn
           else rtn)) ps acc) k =
   (case map_of (rev (filter (\<lambda>(p, v). p \<noteq> [] \<and> (\<exists>src. ps_from v = Some src \<and> src \<noteq> [] \<and> truthy (obj_get req src))) ps)) k of
      None \<Rightarrow> map_of acc k
    | Some v \<Rightarrow> Some (if ps_all v then obj_get req (the (ps_from v))
                     else prop_get (obj_get req (the (ps_from v))) k))"
proof (induction ps arbitrary: acc)
  case Nil
  show ?case by simp
next
  case (Cons p ps)
  obtain n v where p: "p = (n, v)" by (cases p)
  show ?case
    by (cases "ps_from v")
       (auto simp: p Cons.IH map_of_append map_add_def fun_upd_def split: option.split)
qed

lemma parseFiles_fold:
  assumes "\<forall>(k, fs) \<in> set acc. fs \<noteq> []" and "distinct (map fst acc)" and "f \<noteq> []"
  shows "map_of (fold (\<lambda>file rtn.
       if up_fieldname file \<noteq> [] then
         (case map_of rtn (up_fieldname file) of
            Some fs \<Rightarrow> AList.update (up_fieldname file) (fs @ [file]) rtn
          | None \<Rightarrow> AList.update (up_fieldname file) [file] rtn)
       else rtn) files acc) f =
     (let old = (case map_of acc f of None \<Rightarrow> [] | Some fs \<Rightarrow> fs);
          new = filter (\<lambda>u. up_fieldname u = f) files
      in if old @ new = [] then None else Some (old @ new))"
  using assms
proof (induction files arbitrary: acc)
  case Nil
  then show ?case by (auto dest: map_of_SomeD split: option.split)
next
  case (Cons x files)
  let ?n = "up_fieldname x"
  let ?acc = "if ?n \<noteq> [] then
         (case map_of acc ?n of
            Some fs \<Rightarrow> AList.update ?n (fs @ [x]) acc
          | None \<Rightarrow> AList.update ?n [x] acc)
       else acc"
  have nonempty: "fs \<noteq> []" if "(k, fs) \<in> set (AList.update ?n v acc)" "v \<noteq> []" for k fs v
  proof -
    have "distinct (map fst (AList.update ?n v acc))" using Cons.prems(2) by (rule distinct_update)
    then have "map_of (AList.update ?n v acc) k = Some fs" using that(1) by (rule map_of_is_SomeI)
    then show ?thesis using that(2) Cons.prems(1) by (auto split: if_splits dest!: map_of_SomeD)
  qed
  have "\<forall>(k, fs) \<in> set ?acc. fs \<noteq> []"
    using Cons.prems(1) nonempty by (auto split: option.splits if_splits)
  moreover have "distinct (map fst ?acc)"
    using Cons.prems(2) by (auto simp: distinct_update split: option.split)
  ultimately show ?case
    using Cons.IH [of ?acc] Cons.prems(3) by (auto simp: Let_def fun_upd_def split: option.split)
qed

section \<open>Properties\<close>

text \<open>
  C7. A handler sees the parameters its route declares and no others: for a route whose parameters have
  distinct names, \<open>getRequestParameters\<close> gives a name a value exactly when it is declared with a source
  the request has data for, and the value is that source's own (or the whole source for \<open>all\<close>).
\<close>

theorem request_parameters_exact:
  assumes "distinct (map fst ps)"
  shows "map_of (getRequestParameters ps req) k =
    (case map_of ps k of
       None \<Rightarrow> None
     | Some v \<Rightarrow>
         (case ps_from v of
            None \<Rightarrow> None
          | Some src \<Rightarrow>
              if k \<noteq> [] \<and> src \<noteq> [] \<and> truthy (obj_get req src)
              then Some (if ps_all v then obj_get req src else prop_get (obj_get req src) k) else None))"
proof -
  let ?P = "\<lambda>(p :: string, v). p \<noteq> [] \<and> (\<exists>src. ps_from v = Some src \<and> src \<noteq> [] \<and> truthy (obj_get req src))"
  have d: "distinct (map fst (filter ?P ps))" using assms by (rule distinct_map_filter)
  have fil: "map_of (filter ?P ps) k = (case map_of ps k of None \<Rightarrow> None | Some v \<Rightarrow> if ?P (k, v) then Some v else None)"
    using assms by (induction ps) (auto simp: map_of_eq_None_iff [symmetric] split: option.splits)
  show ?thesis
    using getRequestParameters_fold [of req ps "[]" k]
    by (auto simp: getRequestParameters_def map_of_rev_distinct [OF d] fil split: option.splits)
qed

theorem request_parameters_exact_witness:
  "map_of (getRequestParameters [(''id'', \<lparr>ps_from = Some ''resource'', ps_default = JNum 0, ps_arrayDefault = JUndef, ps_all = False\<rparr>)]
     [(''resource'', JObj [(''id'', JStr ''7''), (''admin'', JBool True)])]) ''admin'' = None"
  using request_parameters_exact [of "[(''id'', \<lparr>ps_from = Some ''resource'', ps_default = JNum 0, ps_arrayDefault = JUndef, ps_all = False\<rparr>)]"
    "[(''resource'', JObj [(''id'', JStr ''7''), (''admin'', JBool True)])]" "''admin''"]
  by simp

text \<open>
  No upload is lost, added or moved: \<open>parseFiles\<close> gives a form field exactly the files sent under it,
  in the order they came.
\<close>

theorem parse_files_groups:
  assumes "f \<noteq> []"
  shows "(case map_of (parseFiles files) f of None \<Rightarrow> [] | Some fs \<Rightarrow> fs) = filter (\<lambda>u. up_fieldname u = f) files"
  using parseFiles_fold [of "[]" f files] assms by (auto simp: parseFiles_def Let_def)

theorem parse_files_groups_witness:
  "(case map_of (parseFiles [\<lparr>up_fieldname = ''a'', up_path = ''1''\<rparr>, \<lparr>up_fieldname = ''b'', up_path = ''2''\<rparr>,
       \<lparr>up_fieldname = ''a'', up_path = ''3''\<rparr>]) ''a'' of None \<Rightarrow> [] | Some fs \<Rightarrow> fs)
   = [\<lparr>up_fieldname = ''a'', up_path = ''1''\<rparr>, \<lparr>up_fieldname = ''a'', up_path = ''3''\<rparr>]"
  using parse_files_groups [of "''a''"] by simp

text \<open>
  A request for a zone never goes to another one: when the selected zone is a number, \<open>getZone\<close>
  answers with a zone of exactly that identifier or with none, and the zones learned from OpenNebula
  take precedence over the configured ones.
\<close>

theorem selected_zone_or_none:
  assumes "selected \<noteq> []" and "parse_int selected = Some n"
  shows "(case fst (getZone cfg selected defaults g) of
      None \<Rightarrow> True
    | Some z \<Rightarrow> zn_id z = selected \<and> (case zones g of Some zs \<Rightarrow> z \<in> set zs | None \<Rightarrow> True))"
  using assms by (auto simp: getZone_def getDataZone_def Let_def find_Some_iff split: option.splits)

theorem selected_zone_or_none_witness:
  "(case fst (getZone \<lparr>one_xmlrpc = ''http://one/RPC2'', subscriber_endpoint = [], dz_id = [], dz_name = [], dz_endpoint = [], dz_zeromq = [], dz_fireedge = None\<rparr>
       ''101'' defaultOpennebulaZones initial_globals) of
      None \<Rightarrow> True
    | Some z \<Rightarrow> zn_id z = ''101'' \<and> (case zones initial_globals of Some zs \<Rightarrow> z \<in> set zs | None \<Rightarrow> True))"
proof -
  have "parse_int ''101'' = Some 101"
    by (simp add: parse_int_def is_space_def parse_nat_def is_digit_def digits_val_def digit_val_def)
  then show ?thesis by (intro selected_zone_or_none) simp_all
qed

end
