(* ===== verification/Json.thy ===== *)
theory Json
  imports Js_Prelude
begin

text \<open>
  \<open>JSON.stringify\<close> and \<open>JSON.parse\<close> on the values the modelled code passes through them: cookies,
  request bodies and label trees.  Numbers are integers (a fraction or an exponent is outside the
  model and does not parse), characters are those of an 8-bit string (a \<open>\u\<close> escape above 255
  does not parse).  The fields of an object are listed in the order in which they are written: that JavaScript lists
  names that are array indices first is left to the code that reads such names.  The parser reads tokens; its fuel is the number of tokens, which is enough
  for every text \<open>stringify\<close> writes.
\<close>

named_theorems json_simps \<open>how the lexer and the parser read what stringify writes\<close>

section \<open>Writing\<close>

definition dquote :: char where "dquote = CHR 0x22"
definition bslash :: char where "bslash = CHR 0x5C"

definition json_escape_char :: "char \<Rightarrow> string" where
  "json_escape_char c =
     (let n = of_char c :: nat
      in if n = 34 then [bslash, dquote]
         else if n = 92 then [bslash, bslash]
         else if n = 8 then [bslash, CHR ''b'']
         else if n = 9 then [bslash, CHR ''t'']
         else if n = 10 then [bslash, CHR ''n'']
         else if n = 12 then [bslash, CHR ''f'']
         else if n = 13 then [bslash, CHR ''r'']
         else if n < 32 then [bslash, CHR ''u'', CHR ''0'', CHR ''0'', digit_char (n div 16), digit_char (n mod 16)]
         else [c])"

definition json_quote :: "string \<Rightarrow> string" where
  "json_quote s = dquote # concat (map json_escape_char s) @ [dquote]"

text \<open>A property whose value is \<open>undefined\<close> is left out; in an array it is written as null.\<close>

fun json_stringify :: "jsval \<Rightarrow> string" where
  "json_stringify JUndef = ''null''"
| "json_stringify JNull = ''null''"
| "json_stringify (JBool b) = (if b then ''true'' else ''false'')"
| "json_stringify (JNum n) = show_int n"
| "json_stringify (JStr s) = json_quote s"
| "json_stringify (JArr xs) = ''['' @ js_join '','' (map json_stringify xs) @ '']''"
| "json_stringify (JObj fs) =
     ''{'' @ js_join '','' (map (\<lambda>(k, v). json_quote k @ '':'' @ json_stringify v)
                            (filter (\<lambda>(k, v). v \<noteq> JUndef) fs)) @ ''}''"

section \<open>Reading\<close>

datatype jtok = TLBrace | TRBrace | TLBrack | TRBrack | TColon | TComma
  | TStr string | TNum int | TTrue | TFalse | TNull

definition hex_val :: "char \<Rightarrow> nat option" where
  "hex_val c =
     (let n = of_char c :: nat
      in if 48 \<le> n \<and> n \<le> 57 then Some (n - 48)
         else if 97 \<le> n \<and> n \<le> 102 then Some (n - 87)
         else if 65 \<le> n \<and> n \<le> 70 then Some (n - 55)
         else None)"

text \<open>The value of four hexadecimal digits, when it is a character of the model.\<close>

definition hex4 :: "char \<Rightarrow> char \<Rightarrow> char \<Rightarrow> char \<Rightarrow> char option" where
  "hex4 a b c d =
     (case (hex_val a, hex_val b, hex_val c, hex_val d) of
        (Some i, Some j, Some k, Some l) \<Rightarrow>
          (let n = 4096 * i + 256 * j + 16 * k + l in if n < 256 then Some (char_of n) else None)
      | _ \<Rightarrow> None)"

definition simple_escape :: "char \<Rightarrow> char option" where
  "simple_escape e =
     (if e = dquote \<or> e = bslash \<or> e = CHR ''/'' then Some e
      else if e = CHR ''b'' then Some (char_of (8::nat))
      else if e = CHR ''t'' then Some (char_of (9::nat))
      else if e = CHR ''n'' then Some (char_of (10::nat))
      else if e = CHR ''f'' then Some (char_of (12::nat))
      else if e = CHR ''r'' then Some (char_of (13::nat))
      else None)"

definition push_char :: "char \<Rightarrow> (string \<times> string) option \<Rightarrow> (string \<times> string) option" where
  "push_char c r = map_option (\<lambda>(s, t). (c # s, t)) r"

text \<open>The rest of a string literal after its opening quote.\<close>

fun lex_str :: "string \<Rightarrow> (string \<times> string) option" where
  "lex_str [] = None"
| "lex_str (c # r) =
     (if c = dquote then Some ([], r)
      else if c = bslash then
        (case r of
           [] \<Rightarrow> None
         | e # r1 \<Rightarrow>
             if e = CHR ''u'' then
               (case r1 of
                  a # b # d # f # r2 \<Rightarrow>
                    (case hex4 a b d f of None \<Rightarrow> None | Some h \<Rightarrow> push_char h (lex_str r2))
                | _ \<Rightarrow> None)
             else (case simple_escape e of None \<Rightarrow> None | Some h \<Rightarrow> push_char h (lex_str r1)))
      else if (of_char c :: nat) < 32 then None
      else push_char c (lex_str r))"

lemma lex_str_shorter: "lex_str s = Some (w, t) \<Longrightarrow> length t < length s"
proof (induction s arbitrary: w rule: lex_str.induct)
  case 1
  then show ?case by simp
next
  case (2 c r)
  then show ?case
    by (auto simp: push_char_def split: if_splits list.splits option.splits) fastforce+
qed

definition lex_num :: "string \<Rightarrow> (int \<times> string) option" where
  "lex_num s =
     (let neg = (s \<noteq> [] \<and> hd s = CHR ''-'');
          u = (if neg then tl s else s);
          ds = takeWhile is_digit u;
          rest = dropWhile is_digit u
      in if ds = [] \<or> (length ds > 1 \<and> hd ds = CHR ''0'') \<or>
            (rest \<noteq> [] \<and> hd rest \<in> {CHR ''.'', CHR ''e'', CHR ''E''})
         then None
         else Some ((if neg then - int (digits_val ds) else int (digits_val ds)), rest))"

lemma lex_num_shorter: "lex_num s = Some (n, t) \<Longrightarrow> length t < length s"
proof -
  assume a: "lex_num s = Some (n, t)"
  let ?u = "if s \<noteq> [] \<and> hd s = CHR ''-'' then tl s else s"
  have len: "length ?u \<le> length s" by simp
  from a have "takeWhile is_digit ?u \<noteq> []" and t: "t = dropWhile is_digit ?u"
    by (auto simp: lex_num_def Let_def split: if_splits)
  moreover have "length ?u = length (takeWhile is_digit ?u) + length (dropWhile is_digit ?u)"
    by (metis length_append takeWhile_dropWhile_id)
  ultimately have "length t < length ?u" by (cases "takeWhile is_digit ?u") simp_all
  then show "length t < length s" using len by (rule less_le_trans)
qed

definition is_json_space :: "char \<Rightarrow> bool" where
  "is_json_space c \<longleftrightarrow> (of_char c :: nat) \<in> {32, 9, 10, 13}"

definition json_punct :: "char \<Rightarrow> jtok option" where
  "json_punct c =
     (if c = CHR ''{'' then Some TLBrace else if c = CHR ''}'' then Some TRBrace
      else if c = CHR ''['' then Some TLBrack else if c = CHR '']'' then Some TRBrack
      else if c = CHR '':'' then Some TColon else if c = CHR '','' then Some TComma else None)"

function json_lex :: "string \<Rightarrow> jtok list option" where
  "json_lex [] = Some []"
| "json_lex (c # r) =
     (if is_json_space c then json_lex r
      else case json_punct c of
        Some p \<Rightarrow> map_option ((#) p) (json_lex r)
      | None \<Rightarrow>
          if c = dquote then
            (case lex_str r of None \<Rightarrow> None
             | Some (w, t) \<Rightarrow> map_option ((#) (TStr w)) (json_lex t))
          else if starts_with (c # r) ''true'' then map_option ((#) TTrue) (json_lex (drop 3 r))
          else if starts_with (c # r) ''false'' then map_option ((#) TFalse) (json_lex (drop 4 r))
          else if starts_with (c # r) ''null'' then map_option ((#) TNull) (json_lex (drop 3 r))
          else (case lex_num (c # r) of None \<Rightarrow> None
                | Some (n, t) \<Rightarrow> map_option ((#) (TNum n)) (json_lex t)))"
  by pat_completeness auto
termination
  by (relation "measure length") (auto dest: lex_str_shorter lex_num_shorter)

text \<open>A value, the rest of an array after its first element, the rest of an object.\<close>

fun json_val :: "nat \<Rightarrow> jtok list \<Rightarrow> (jsval \<times> jtok list) option"
and json_elems :: "nat \<Rightarrow> jsval list \<Rightarrow> jtok list \<Rightarrow> (jsval list \<times> jtok list) option"
and json_members :: "nat \<Rightarrow> jsobj \<Rightarrow> jtok list \<Rightarrow> (jsobj \<times> jtok list) option" where
  "json_val 0 ts = None"
| "json_val (Suc n) ts =
     (case ts of
        TStr s # r \<Rightarrow> Some (JStr s, r)
      | TNum i # r \<Rightarrow> Some (JNum i, r)
      | TTrue # r \<Rightarrow> Some (JBool True, r)
      | TFalse # r \<Rightarrow> Some (JBool False, r)
      | TNull # r \<Rightarrow> Some (JNull, r)
      | TLBrack # TRBrack # r \<Rightarrow> Some (JArr [], r)
      | TLBrack # r \<Rightarrow> map_option (\<lambda>(xs, t). (JArr xs, t)) (json_elems n [] r)
      | TLBrace # TRBrace # r \<Rightarrow> Some (JObj [], r)
      | TLBrace # r \<Rightarrow> map_option (\<lambda>(fs, t). (JObj fs, t)) (json_members n [] r)
      | _ \<Rightarrow> None)"
| "json_elems 0 acc ts = None"
| "json_elems (Suc n) acc ts =
     (case json_val n ts of
        Some (v, TComma # r) \<Rightarrow> json_elems n (acc @ [v]) r
      | Some (v, TRBrack # r) \<Rightarrow> Some (acc @ [v], r)
      | _ \<Rightarrow> None)"
| "json_members 0 acc ts = None"
| "json_members (Suc n) acc ts =
     (case ts of
        TStr k # TColon # r \<Rightarrow>
          (case json_val n r of
             Some (v, TComma # t) \<Rightarrow> json_members n (AList.update k v acc) t
           | Some (v, TRBrace # t) \<Rightarrow> Some (AList.update k v acc, t)
           | _ \<Rightarrow> None)
      | _ \<Rightarrow> None)"

definition json_parse :: "string \<Rightarrow> jsval js" where
  "json_parse s =
     (case json_lex s of
        None \<Rightarrow> Inl SyntaxError
      | Some ts \<Rightarrow>
          (case json_val (Suc (2 * length ts)) ts of
             Some (v, []) \<Rightarrow> Inr v
           | _ \<Rightarrow> Inl SyntaxError))"

section \<open>Reading back what was written\<close>

text \<open>The values \<open>stringify\<close> keeps: nothing undefined, and no key twice in an object.\<close>

fun json_ok :: "jsval \<Rightarrow> bool" where
  "json_ok JUndef = False"
| "json_ok (JArr xs) = list_all json_ok xs"
| "json_ok (JObj fs) = (distinct (map fst fs) \<and> list_all (\<lambda>(k, v). json_ok v) fs)"
| "json_ok _ = True"


subsection \<open>Strings and numbers\<close>

lemma hex_val_digit_char: "d < 16 \<Longrightarrow> hex_val (digit_char d) = Some d"
  by (simp add: digit_char_def hex_val_def Let_def)

lemma hex4_low: "n < 32 \<Longrightarrow> hex4 (CHR ''0'') (CHR ''0'') (digit_char (n div 16)) (digit_char (n mod 16)) = Some (char_of n)"
proof -
  assume "n < 32"
  then have "n div 16 < 16" by simp
  moreover have "hex_val (CHR ''0'') = Some 0" by (simp add: hex_val_def)
  ultimately show ?thesis using \<open>n < 32\<close> by (simp add: hex4_def hex_val_digit_char)
qed

lemma char_eqI: "(of_char c :: nat) = n \<Longrightarrow> c = char_of n"
  by (metis char_of_char)

lemma char_of_quotes: "char_of (34::nat) = CHR 0x22" "char_of (92::nat) = CHR 0x5C"
  by code_simp+

lemma lex_str_escaped [json_simps]: "lex_str (json_escape_char c @ s) = push_char c (lex_str s)"
proof -
  let ?n = "of_char c :: nat"
  have "c \<noteq> dquote" if "?n \<noteq> 34" using that by (auto simp: dquote_def)
  moreover have "c \<noteq> bslash" if "?n \<noteq> 92" using that by (auto simp: bslash_def)
  moreover have "bslash \<noteq> dquote" by (simp add: dquote_def bslash_def)
  ultimately show ?thesis
    using hex4_low [of ?n]
    by (auto simp: json_escape_char_def Let_def simple_escape_def dquote_def bslash_def char_of_quotes dest!: char_eqI)
qed

lemma lex_str_quoted [json_simps]:
  "lex_str (concat (map json_escape_char s) @ dquote # r) = Some (s, r)"
  by (induction s) (simp_all add: lex_str_escaped push_char_def)

lemma json_lex_quote [json_simps]:
  "json_lex (json_quote s @ r) = map_option ((#) (TStr s)) (json_lex r)"
  by (simp add: json_quote_def lex_str_quoted is_json_space_def json_punct_def dquote_def [symmetric])
     (simp add: dquote_def)


subsection \<open>Tokens\<close>

fun sep_toks :: "jtok list list \<Rightarrow> jtok list" where
  "sep_toks [] = []"
| "sep_toks [x] = x"
| "sep_toks (x # y # zs) = x @ TComma # sep_toks (y # zs)"

fun json_toks :: "jsval \<Rightarrow> jtok list" where
  "json_toks JUndef = [TNull]"
| "json_toks JNull = [TNull]"
| "json_toks (JBool b) = [if b then TTrue else TFalse]"
| "json_toks (JNum n) = [TNum n]"
| "json_toks (JStr s) = [TStr s]"
| "json_toks (JArr xs) = TLBrack # sep_toks (map json_toks xs) @ [TRBrack]"
| "json_toks (JObj fs) = TLBrace # sep_toks (map (\<lambda>(k, v). TStr k # TColon # json_toks v) fs) @ [TRBrace]"

text \<open>What may follow a value inside a text: nothing, a comma or a rbr bracket.\<close>

definition json_delim :: "string \<Rightarrow> bool" where
  "json_delim r \<longleftrightarrow> r = [] \<or> hd r \<in> {CHR '','', CHR '']'', CHR ''}''}"

lemma append_single [json_simps]: "(@) [x] = (#) x"
  by (simp add: fun_eq_iff)

lemma json_lex_punct [json_simps]:
  "json_punct c = Some p \<Longrightarrow> json_lex (c # r) = map_option ((#) p) (json_lex r)"
  by (auto simp: json_punct_def is_json_space_def split: if_splits)

lemma json_lex_literal [json_simps]:
  "json_lex (CHR ''t'' # CHR ''r'' # CHR ''u'' # CHR ''e'' # r) = map_option ((#) TTrue) (json_lex r)"
  "json_lex (CHR ''f'' # CHR ''a'' # CHR ''l'' # CHR ''s'' # CHR ''e'' # r) = map_option ((#) TFalse) (json_lex r)"
  "json_lex (CHR ''n'' # CHR ''u'' # CHR ''l'' # CHR ''l'' # r) = map_option ((#) TNull) (json_lex r)"
  by (simp_all add: is_json_space_def json_punct_def dquote_def)

lemma delim_not_digit: "json_delim r \<Longrightarrow> dropWhile is_digit (to_base 10 n @ r) = r"
proof -
  assume r: "json_delim r"
  have "\<forall>c \<in> set (to_base 10 n). is_digit c" by (simp add: to_base10_digits)
  then have "dropWhile is_digit (to_base 10 n @ r) = dropWhile is_digit r"
    by (simp add: dropWhile_append2)
  also have "\<dots> = r" using r by (cases r) (auto simp: json_delim_def is_digit_def Let_def)
  finally show ?thesis .
qed

lemma delim_take_digits: "json_delim r \<Longrightarrow> takeWhile is_digit (to_base 10 n @ r) = to_base 10 n"
  using delim_not_digit [of r n]
  by (metis append_same_eq takeWhile_dropWhile_id)

lemma to_base_lead: "length (to_base 10 n) > 1 \<Longrightarrow> hd (to_base 10 n) \<noteq> CHR ''0''"
proof (induction n rule: less_induct)
  case (less n)
  have "\<not> n < 10" using less.prems by (auto simp: to_base.simps [of 10 n] split: if_splits)
  then have b: "to_base 10 n = to_base 10 (n div 10) @ [digit_char (n mod 10)]"
    by (simp add: to_base.simps [of 10 n])
  show ?case
  proof (cases "length (to_base 10 (n div 10)) > 1")
    case True
    then show ?thesis using less.IH [of "n div 10"] \<open>\<not> n < 10\<close> b by simp
  next
    case False
    have "n div 10 < 10"
    proof (rule ccontr)
      assume "\<not> n div 10 < 10"
      then have "to_base 10 (n div 10) = to_base 10 (n div 10 div 10) @ [digit_char (n div 10 mod 10)]"
        by (simp add: to_base.simps [of 10 "n div 10"])
      then have "length (to_base 10 (n div 10)) = Suc (length (to_base 10 (n div 10 div 10)))" by simp
      then show False using False by (metis One_nat_def length_greater_0_conv not_less_eq to_base_nonempty)
    qed
    moreover have "0 < n div 10" using \<open>\<not> n < 10\<close> by simp
    ultimately show ?thesis
      using b digit_char_less10 [of "n div 10"]
      by (auto simp: to_base.simps [of 10 "n div 10"] digit_val_def)
  qed
qed

lemma lex_num_show_int [json_simps]: "json_delim r \<Longrightarrow> lex_num (show_int n @ r) = Some (n, r)"
proof -
  assume r: "json_delim r"
  have rest: "r = [] \<or> hd r \<notin> {CHR ''.'', CHR ''e'', CHR ''E''}" using r by (auto simp: json_delim_def)
  have head: "hd (to_base 10 m @ r) \<noteq> CHR ''-''" for m
    using to_base10_digits [of "hd (to_base 10 m)" m] by (auto simp: digit_not_blank)
  have lead: "\<not> (length (to_base 10 m) > 1 \<and> hd (to_base 10 m) = CHR ''0'')" for m
    using to_base_lead by blast
  show ?thesis
  proof (cases "n < 0")
    case True
    then have s: "show_int n @ r = CHR ''-'' # to_base 10 (nat (- n)) @ r" by (simp add: show_int_def)
    show ?thesis unfolding s using True rest lead [of "nat (- n)"]
      by (auto simp: lex_num_def Let_def delim_not_digit [OF r] delim_take_digits [OF r] digits_val_to_base
          simp del: dropWhile_eq_Nil_conv)
  next
    case False
    then have s: "show_int n @ r = to_base 10 (nat n) @ r" by (simp add: show_int_def)
    show ?thesis unfolding s using False rest lead [of "nat n"] head [of "nat n"]
      by (auto simp: lex_num_def Let_def delim_not_digit [OF r] delim_take_digits [OF r] digits_val_to_base
          simp del: dropWhile_eq_Nil_conv)
  qed
qed

lemma json_lex_number [json_simps]:
  assumes "json_delim r"
  shows "json_lex (show_int n @ r) = map_option ((#) (TNum n)) (json_lex r)"
proof -
  obtain c t where ct: "show_int n = c # t" by (cases "show_int n") (auto simp: show_int_def split: if_splits)
  have "c = CHR ''-'' \<or> is_digit c"
    using ct to_base10_digits [of c "nat n"] by (auto simp: show_int_def split: if_splits)
  then have "\<not> is_json_space c" "json_punct c = None" "c \<noteq> dquote"
    "c \<noteq> CHR ''t''" "c \<noteq> CHR ''f''" "c \<noteq> CHR ''n''"
    by (auto simp: is_digit_def is_json_space_def json_punct_def dquote_def Let_def)
  then show ?thesis
    using lex_num_show_int [OF assms, of n] by (simp add: ct)
qed


lemma json_lex_list:
  assumes "xs \<noteq> []" and "json_delim r"
    and "\<And>x t. x \<in> set xs \<Longrightarrow> json_delim t \<Longrightarrow> json_lex (f x @ t) = map_option ((@) (g x)) (json_lex t)"
  shows "json_lex (js_join '','' (map f xs) @ r) = map_option ((@) (sep_toks (map g xs))) (json_lex r)"
  using assms
proof (induction xs rule: list_nonempty_induct)
  case (single x)
  then show ?case by simp
next
  case (cons x xs)
  obtain y ys where xs: "xs = y # ys" using cons.hyps by (cases xs) auto
  let ?t = "js_join '','' (map f xs) @ r"
  have "json_delim (CHR '','' # ?t)" by (simp add: json_delim_def)
  then have "json_lex (f x @ CHR '','' # ?t) = map_option ((@) (g x)) (json_lex (CHR '','' # ?t))"
    using cons.prems(2) by simp
  also have "json_lex (CHR '','' # ?t) = map_option ((#) TComma) (json_lex ?t)"
    by (rule json_lex_punct) (simp add: json_punct_def)
  also have "json_lex ?t = map_option ((@) (sep_toks (map g xs))) (json_lex r)"
    using cons.IH cons.prems by simp
  finally show ?case by (simp add: xs option.map_comp o_def)
qed

lemma json_lex_stringify:
  "json_ok v \<Longrightarrow> json_delim r \<Longrightarrow> json_lex (json_stringify v @ r) = map_option ((@) (json_toks v)) (json_lex r)"
proof (induction v arbitrary: r rule: json_stringify.induct)
  case (6 xs)
  have lbr: "json_lex (CHR ''['' # t) = map_option ((#) TLBrack) (json_lex t)" for t
    by (rule json_lex_punct) (simp add: json_punct_def)
  have rbr: "json_lex (CHR '']'' # t) = map_option ((#) TRBrack) (json_lex t)" for t
    by (rule json_lex_punct) (simp add: json_punct_def)
  show ?case
  proof (cases "xs = []")
    case True
    then show ?thesis by (simp add: lbr rbr option.map_comp o_def del: json_lex.simps)
  next
    case False
    have "json_lex (js_join '','' (map json_stringify xs) @ CHR '']'' # r)
        = map_option ((@) (sep_toks (map json_toks xs))) (json_lex (CHR '']'' # r))"
      using False 6 by (intro json_lex_list) (auto simp: json_delim_def list_all_iff)
    then show ?thesis by (simp add: lbr rbr option.map_comp o_def del: json_lex.simps)
  qed
next
  case (7 fs)
  have lbr: "json_lex (CHR ''{'' # t) = map_option ((#) TLBrace) (json_lex t)" for t
    by (rule json_lex_punct) (simp add: json_punct_def)
  have rbr: "json_lex (CHR ''}'' # t) = map_option ((#) TRBrace) (json_lex t)" for t
    by (rule json_lex_punct) (simp add: json_punct_def)
  have colon: "json_lex (CHR '':'' # t) = map_option ((#) TColon) (json_lex t)" for t
    by (rule json_lex_punct) (simp add: json_punct_def)
  have nodrop: "filter (\<lambda>(k, v). v \<noteq> JUndef) fs = fs"
    using 7(2) by (induction fs) auto
  have ok: "json_ok w" if "(k, w) \<in> set fs" for k w using that 7(2) by (auto simp: list_all_iff)
  show ?case
  proof (cases "fs = []")
    case True
    then show ?thesis by (simp add: lbr rbr option.map_comp o_def del: json_lex.simps)
  next
    case False
    have "json_lex (js_join '','' (map (\<lambda>(k, v). json_quote k @ '':'' @ json_stringify v) fs) @ CHR ''}'' # r)
        = map_option ((@) (sep_toks (map (\<lambda>(k, v). TStr k # TColon # json_toks v) fs)))
            (json_lex (CHR ''}'' # r))"
    proof (rule json_lex_list [OF False])
      show "json_delim (CHR ''}'' # r)" by (simp add: json_delim_def)
    next
      fix x t
      assume x: "x \<in> set fs" and t: "json_delim t"
      obtain k w where kw: "x = (k, w)" by (cases x)
      have mem: "x \<in> set (filter (\<lambda>(k, v). v \<noteq> JUndef) fs)" using x nodrop by simp
      have "json_lex (json_stringify w @ t) = map_option ((@) (json_toks w)) (json_lex t)"
        using 7(1) [OF mem kw [symmetric] ok t] x kw by simp
      then show "json_lex ((case x of (k, v) \<Rightarrow> json_quote k @ '':'' @ json_stringify v) @ t)
          = map_option ((@) (case x of (k, v) \<Rightarrow> TStr k # TColon # json_toks v)) (json_lex t)"
        by (cases "json_lex t") (simp_all add: kw json_lex_quote colon del: json_lex.simps)
    qed
    then show ?thesis by (simp add: nodrop lbr rbr option.map_comp o_def del: json_lex.simps)
  qed
qed (simp_all add: json_simps del: json_lex.simps)


subsection \<open>Values\<close>

lemma json_toks_head: "json_toks v \<noteq> [] \<and> hd (json_toks v) \<noteq> TRBrack"
  by (cases v) auto

lemma sep_toks_head:
  assumes "xs \<noteq> []" and "\<forall>x \<in> set xs. x \<noteq> [] \<and> hd x \<noteq> t"
  shows "sep_toks xs \<noteq> [] \<and> hd (sep_toks xs) \<noteq> t"
  using assms by (cases xs rule: sep_toks.cases) auto

lemma json_elems_toks:
  assumes "xs \<noteq> []"
    and "\<And>x n t. x \<in> set xs \<Longrightarrow> length (json_toks x) \<le> n \<Longrightarrow> json_val n (json_toks x @ t) = Some (x, t)"
    and "length (sep_toks (map json_toks xs)) < n"
  shows "json_elems n acc (sep_toks (map json_toks xs) @ TRBrack # r) = Some (acc @ xs, r)"
  using assms
proof (induction xs arbitrary: n acc rule: list_nonempty_induct)
  case (single x)
  then show ?case by (cases n) auto
next
  case (cons x xs)
  obtain y ys where xs: "xs = y # ys" using cons.hyps by (cases xs) auto
  obtain m where n: "n = Suc m" using cons.prems(2) by (cases n) auto
  have "json_elems m (acc @ [x]) (sep_toks (map json_toks xs) @ TRBrack # r) = Some ((acc @ [x]) @ xs, r)"
    using cons.prems xs n by (intro cons.IH) auto
  moreover have "json_val m (json_toks x @ TComma # sep_toks (map json_toks xs) @ TRBrack # r)
      = Some (x, TComma # sep_toks (map json_toks xs) @ TRBrack # r)"
    using cons.prems xs n by auto
  ultimately show ?case by (simp add: n xs)
qed

lemma update_fresh: "k \<notin> fst ` set al \<Longrightarrow> AList.update k v al = al @ [(k, v)]"
  by (induction al) auto

abbreviation member_toks :: "string \<times> jsval \<Rightarrow> jtok list" where
  "member_toks \<equiv> (\<lambda>(k, v). TStr k # TColon # json_toks v)"

lemma json_members_toks:
  assumes "fs \<noteq> []"
    and "\<And>k v n t. (k, v) \<in> set fs \<Longrightarrow> length (json_toks v) \<le> n \<Longrightarrow> json_val n (json_toks v @ t) = Some (v, t)"
    and "length (sep_toks (map member_toks fs)) < n"
    and "distinct (map fst (acc @ fs))"
  shows "json_members n acc (sep_toks (map member_toks fs) @ TRBrace # r) = Some (acc @ fs, r)"
  using assms
proof (induction fs arbitrary: n acc rule: list_nonempty_induct)
  case (single x)
  obtain k v where x: "x = (k, v)" by (cases x)
  obtain m where n: "n = Suc m" using single by (cases n) auto
  have "json_val m (json_toks v @ TRBrace # r) = Some (v, TRBrace # r)" using single x n by auto
  moreover have "AList.update k v acc = acc @ [(k, v)]" using single x by (auto intro: update_fresh)
  ultimately show ?case by (simp add: x n)
next
  case (cons x fs)
  obtain k v where x: "x = (k, v)" by (cases x)
  obtain y ys where fs: "fs = y # ys" using cons.hyps by (cases fs) auto
  obtain m where n: "n = Suc m" using cons.prems(2) by (cases n) auto
  let ?t = "sep_toks (map member_toks fs) @ TRBrace # r"
  have "json_val m (json_toks v @ TComma # ?t) = Some (v, TComma # ?t)"
    using cons.prems(2) x fs n by (intro cons.prems(1) [of k]) auto
  moreover have "AList.update k v acc = acc @ [(k, v)]" using cons.prems x by (auto intro: update_fresh)
  moreover have "json_members m (acc @ [(k, v)]) ?t = Some ((acc @ [(k, v)]) @ fs, r)"
    using cons.prems x fs n by (intro cons.IH) auto
  ultimately show ?case by (simp add: x n fs)
qed

lemma json_val_toks:
  "json_ok v \<Longrightarrow> length (json_toks v) \<le> n \<Longrightarrow> json_val n (json_toks v @ t) = Some (v, t)"
proof (induction v arbitrary: n t rule: json_toks.induct)
  case (6 xs)
  obtain m where n: "n = Suc m" using 6(3) by (cases n) auto
  show ?case
  proof (cases "xs = []")
    case False
    have "json_elems m [] (sep_toks (map json_toks xs) @ TRBrack # t) = Some ([] @ xs, t)"
      using False 6 n by (intro json_elems_toks) (auto simp: list_all_iff)
    moreover obtain a b where "sep_toks (map json_toks xs) = a # b" "a \<noteq> TRBrack"
      using sep_toks_head [of "map json_toks xs" TRBrack] False json_toks_head
      by (cases "sep_toks (map json_toks xs)") auto
    ultimately show ?thesis by (cases a) (auto simp: n)
  qed (simp add: n)
next
  case (7 fs)
  obtain m where n: "n = Suc m" using 7(3) by (cases n) auto
  show ?case
  proof (cases "fs = []")
    case False
    have "json_members m [] (sep_toks (map member_toks fs) @ TRBrace # t) = Some ([] @ fs, t)"
      using False 7(1) [OF _ refl] 7(2,3) n by (intro json_members_toks) (auto simp: list_all_iff)
    moreover have "\<forall>x \<in> set (map member_toks fs). x \<noteq> [] \<and> hd x \<noteq> TRBrace" by auto
    then obtain a b where "sep_toks (map member_toks fs) = a # b" "a \<noteq> TRBrace"
      using sep_toks_head [of "map member_toks fs" TRBrace] False
      by (cases "sep_toks (map member_toks fs)") auto
    ultimately show ?thesis by (cases a) (auto simp: n)
  qed (simp add: n)
qed (auto dest!: Suc_le_D)

theorem json_roundtrip: "json_ok v \<Longrightarrow> json_parse (json_stringify v) = Inr v"
  using json_lex_stringify [of v "[]"] json_val_toks [of v "Suc (2 * length (json_toks v))" "[]"]
  by (simp add: json_parse_def json_delim_def)

text \<open>An encoding with a partial decoder: what a client needs to trust the values it stores.\<close>

locale codec =
  fixes enc :: "'a \<Rightarrow> 'b"
    and dec :: "'b \<Rightarrow> 'e + 'a"
    and ok :: "'a \<Rightarrow> bool"
  assumes dec_enc: "ok x \<Longrightarrow> dec (enc x) = Inr x"
begin

lemma enc_inj: "ok x \<Longrightarrow> ok y \<Longrightarrow> enc x = enc y \<Longrightarrow> x = y"
  using dec_enc by (metis sum.inject(2))

lemma dec_complete: "ok x \<Longrightarrow> \<exists>s. dec s = Inr x"
  using dec_enc by blast

end

interpretation json: codec json_stringify json_parse json_ok
  by unfold_locales (rule json_roundtrip)

end
