(* ===== verification/Uri.thy ===== *)
theory Uri
  imports Json
begin

text \<open>
  \<open>encodeURIComponent\<close> and \<open>decodeURIComponent\<close> on ASCII text, as \<open>res.cookie\<close> writes a cookie and
  the websocket handshake and the platform's file server read one.  A byte above 127 would be
  part of a UTF-8 sequence; such sequences are outside the model and do not decode.
\<close>

definition uri_unreserved :: "char \<Rightarrow> bool" where
  "uri_unreserved c \<longleftrightarrow>
     (let n = of_char c :: nat
      in (48 \<le> n \<and> n \<le> 57) \<or> (65 \<le> n \<and> n \<le> 90) \<or> (97 \<le> n \<and> n \<le> 122) \<or>
         n \<in> {45, 95, 46, 33, 126, 42, 39, 40, 41})"

definition upper_hex :: "nat \<Rightarrow> char" where
  "upper_hex d = (if d < 10 then char_of (48 + d) else char_of (55 + d))"

definition uri_encode_char :: "char \<Rightarrow> string" where
  "uri_encode_char c =
     (if uri_unreserved c then [c]
      else [CHR ''%'', upper_hex (of_char c div 16), upper_hex (of_char c mod 16)])"

definition encodeURIComponent :: "string \<Rightarrow> string" where
  "encodeURIComponent s = concat (map uri_encode_char s)"

fun decodeURIComponent :: "string \<Rightarrow> string js" where
  "decodeURIComponent [] = Inr []"
| "decodeURIComponent (c # r) =
     (if c = CHR ''%'' then
        (case r of
           a # b # r1 \<Rightarrow>
             (case (hex_val a, hex_val b) of
                (Some i, Some j) \<Rightarrow>
                  if 16 * i + j < 128
                  then rbind (decodeURIComponent r1) (\<lambda>t. Inr (char_of (16 * i + j) # t))
                  else Inl URIError
              | _ \<Rightarrow> Inl URIError)
         | _ \<Rightarrow> Inl URIError)
      else rbind (decodeURIComponent r) (\<lambda>t. Inr (c # t)))"

definition ascii :: "string \<Rightarrow> bool" where
  "ascii s \<longleftrightarrow> list_all (\<lambda>c. (of_char c :: nat) < 128) s"

lemma hex_val_upper_hex: "d < 16 \<Longrightarrow> hex_val (upper_hex d) = Some d"
  by (simp add: upper_hex_def hex_val_def Let_def)

lemma decode_encoded_char:
  assumes "(of_char c :: nat) < 128"
  shows "decodeURIComponent (uri_encode_char c @ s) = rbind (decodeURIComponent s) (\<lambda>t. Inr (c # t))"
proof (cases "uri_unreserved c")
  case True
  then have "c \<noteq> CHR ''%''" by (auto simp: uri_unreserved_def)
  then show ?thesis using True by (simp add: uri_encode_char_def)
next
  case False
  have "(of_char c :: nat) div 16 < 16" using assms by simp
  moreover have "16 * ((of_char c :: nat) div 16) + of_char c mod 16 = of_char c" by simp
  ultimately show ?thesis using assms False by (simp add: uri_encode_char_def hex_val_upper_hex)
qed

lemma decode_encode: "ascii s \<Longrightarrow> decodeURIComponent (encodeURIComponent s) = Inr s"
  by (induction s) (simp_all add: ascii_def encodeURIComponent_def decode_encoded_char)

interpretation uri: codec encodeURIComponent decodeURIComponent ascii
  by unfold_locales (rule decode_encode)

text \<open>An encoded component has no separator of the cookie header in it.\<close>

lemma encode_char_plain:
  assumes "(of_char c :: nat) < 128" and "x \<in> set (uri_encode_char c)"
  shows "x \<noteq> CHR '';'' \<and> x \<noteq> CHR ''='' \<and> \<not> is_space x"
proof -
  have hex: "upper_hex d \<noteq> CHR '';'' \<and> upper_hex d \<noteq> CHR ''='' \<and> \<not> is_space (upper_hex d)" if "d < 16" for d
  proof -
    have "hex_val (upper_hex d) = Some d" using that by (rule hex_val_upper_hex)
    moreover have "hex_val (CHR '';'') = None" "hex_val (CHR ''='') = None" by (simp_all add: hex_val_def)
    moreover have "hex_val y = None" if "is_space y" for y
      using that by (auto simp: hex_val_def is_space_def Let_def)
    ultimately show ?thesis by (metis option.distinct(1))
  qed
  show ?thesis
  proof (cases "uri_unreserved c")
    case True
    then have "x = c" using assms(2) by (simp add: uri_encode_char_def)
    moreover have "c \<noteq> CHR '';''" using True by (auto simp: uri_unreserved_def)
    moreover have "c \<noteq> CHR ''=''" using True by (auto simp: uri_unreserved_def)
    moreover have "\<not> is_space c" using True by (auto simp: uri_unreserved_def is_space_def Let_def)
    ultimately show ?thesis by simp
  next
    case False
    then have "x \<in> {CHR ''%'', upper_hex (of_char c div 16), upper_hex (of_char c mod 16)}"
      using assms(2) by (simp add: uri_encode_char_def)
    moreover have "\<not> is_space (CHR ''%'')" by (simp add: is_space_def)
    moreover have "(of_char c :: nat) div 16 < 16" using assms(1) by simp
    ultimately show ?thesis using hex [of "of_char c mod 16"] hex [of "of_char c div 16"] by fastforce
  qed
qed

lemma encode_plain:
  assumes "ascii s" and "x \<in> set (encodeURIComponent s)"
  shows "x \<noteq> CHR '';'' \<and> x \<noteq> CHR ''='' \<and> \<not> is_space x"
  using assms encode_char_plain by (auto simp: encodeURIComponent_def ascii_def list_all_iff)

end
