(* ===== verification/Jwt.thy ===== *)
theory Jwt
  imports Sessions Http Uri
begin

text \<open>
  Session tokens (\<open>server/utils/jwt.js\<close>) and the authentication middleware of the API
  (\<open>validateSession\<close> of \<open>server/routes/entrypoints/Api/middlewares.js\<close>).  The JWT library
  (jwt-simple) is a parameter: an encoder and a decoder that may throw.
\<close>

record jwt_payload =
  jp_iss :: string
  jp_aud :: string
  jp_jti :: string

record jwt_lib =
  jwt_encode :: "jwt_payload \<Rightarrow> string \<Rightarrow> string"
  jwt_decode :: "string \<Rightarrow> string \<Rightarrow> jwt_payload option"

datatype jwt_error = JWTError | MissingFireEdgeKeyError

section \<open>Operations\<close>

text \<open>\<open>global.paths.FIREEDGE_KEY\<close> is used when it is set and not empty.\<close>

definition signing_key :: "globals \<Rightarrow> string option" where
  "signing_key g = (case FIREEDGE_KEY g of Some k \<Rightarrow> if k \<noteq> [] then Some k else None | None \<Rightarrow> None)"

definition jwtEncode :: "jwt_lib \<Rightarrow> globals \<Rightarrow> jwt_payload \<Rightarrow> string option" where
  "jwtEncode lib g payload =
     (case signing_key g of Some k \<Rightarrow> Some (jwt_encode lib payload k) | None \<Rightarrow> None)"

definition createJWT :: "jwt_lib \<Rightarrow> globals \<Rightarrow> string \<Rightarrow> string \<Rightarrow> string \<Rightarrow> string option" where
  "createJWT lib g uid user token =
     (if uid \<noteq> [] \<and> user \<noteq> [] \<and> token \<noteq> []
      then jwtEncode lib g \<lparr>jp_iss = uid, jp_aud = user, jp_jti = token\<rparr>
      else None)"

definition jwtDecode :: "jwt_lib \<Rightarrow> globals \<Rightarrow> string \<Rightarrow> jwt_error + jwt_payload" where
  "jwtDecode lib g token =
     (case signing_key g of
        Some k \<Rightarrow> (case jwt_decode lib token k of Some p \<Rightarrow> Inr p | None \<Rightarrow> Inl JWTError)
      | None \<Rightarrow> Inl MissingFireEdgeKeyError)"

definition complete_payload :: "jwt_payload \<Rightarrow> jwt_payload option" where
  "complete_payload p = (if jp_iss p = [] \<or> jp_aud p = [] \<or> jp_jti p = [] then None else Some p)"

text \<open>
  \<open>validateAuth\<close> reads the value of the session cookie: a JSON text, or the object the cookie
  parser already made of it.  Every error inside is caught and logged.
\<close>

definition validateAuth :: "jwt_lib \<Rightarrow> globals \<Rightarrow> jsval \<Rightarrow> jwt_payload option" where
  "validateAuth lib g cookie =
     (if truthy cookie then
        (case (case cookie of JStr s \<Rightarrow> json_parse s | v \<Rightarrow> Inr v) of
           Inl _ \<Rightarrow> None
         | Inr parsed \<Rightarrow>
             (case prop_get parsed ''token'' of
                JStr token \<Rightarrow>
                  if token = [] then None
                  else (case jwtDecode lib g token of Inl _ \<Rightarrow> None | Inr p \<Rightarrow> complete_payload p)
              | _ \<Rightarrow> None))
      else None)"

text \<open>The credentials \<open>validateSession\<close> leaves in \<open>req.auth\<close>.\<close>

record req_auth =
  ra_id :: string
  ra_user :: string
  ra_password :: string

datatype session_outcome =
    Next "req_auth option"
  | Rejected http_result
  | Expired

definition validateSession ::
  "jwt_lib \<Rightarrow> int \<Rightarrow> bool \<Rightarrow> jsval \<Rightarrow> globals \<Rightarrow> session_outcome \<times> globals" where
  "validateSession lib now auth cookie g =
     (if \<not> auth then (Next None, g)
      else case validateAuth lib g cookie of
        None \<Rightarrow> (Rejected (httpResponse (Some unauthorized) JUndef [] []), g)
      | Some p \<Rightarrow>
          (let (valid, g') = validateUser now (jp_aud p) (jp_jti p) g
           in if valid
              then (Next (Some \<lparr>ra_id = jp_iss p, ra_user = jp_aud p, ra_password = jp_jti p\<rparr>), g')
              else (Expired, g')))"

section \<open>The library's contract\<close>

text \<open>What the code relies on: a token decodes under the key it was made with to its payload.\<close>

definition jwt_correct :: "jwt_lib \<Rightarrow> bool" where
  "jwt_correct lib \<longleftrightarrow> (\<forall>p k. jwt_decode lib (jwt_encode lib p k) k = Some p)"

text \<open>A concrete library: the three claims and the key, each quoted, in one JSON array.\<close>

definition plain_jwt :: jwt_lib where
  "plain_jwt =
     \<lparr>jwt_encode = (\<lambda>p k. json_stringify (JArr [JStr (jp_iss p), JStr (jp_aud p), JStr (jp_jti p), JStr k])),
      jwt_decode = (\<lambda>s k. case json_parse s of
          Inr (JArr [JStr i, JStr a, JStr j, JStr k']) \<Rightarrow>
            if k' = k then Some \<lparr>jp_iss = i, jp_aud = a, jp_jti = j\<rparr> else None
        | _ \<Rightarrow> None)\<rparr>"

lemma plain_jwt_correct: "jwt_correct plain_jwt"
  unfolding jwt_correct_def plain_jwt_def by (simp add: json_roundtrip del: json_stringify.simps)

lemma jwtDecode_jwtEncode:
  "jwt_correct lib \<Longrightarrow> jwtEncode lib g p = Some t \<Longrightarrow> jwtDecode lib g t = Inr p"
  by (auto simp: jwtEncode_def jwtDecode_def jwt_correct_def split: option.splits)

lemma createJWT_Some:
  "createJWT lib g i u k = Some t \<Longrightarrow>
     i \<noteq> [] \<and> u \<noteq> [] \<and> k \<noteq> [] \<and> jwtEncode lib g \<lparr>jp_iss = i, jp_aud = u, jp_jti = k\<rparr> = Some t"
  by (auto simp: createJWT_def split: if_splits)

text \<open>The value \<open>auth\<close> puts into the session cookie.\<close>

definition session_cookie :: "string \<Rightarrow> jsval" where
  "session_cookie jwt = JStr (json_stringify (JObj [(''token'', JStr jwt)]))"

lemma validateAuth_session_cookie:
  assumes "jwt \<noteq> []"
  shows "validateAuth lib g (session_cookie jwt) =
     (case jwtDecode lib g jwt of Inl _ \<Rightarrow> None | Inr p \<Rightarrow> complete_payload p)"
proof -
  have "json_parse (json_stringify (JObj [(''token'', JStr jwt)])) = Inr (JObj [(''token'', JStr jwt)])"
    by (rule json_roundtrip) simp
  then show ?thesis
    using assms
    by (simp add: validateAuth_def session_cookie_def obj_get_def del: json_stringify.simps)
       (simp add: json_quote_def)
qed

end
