(* ===== verification/Hook_Sockets.thy ===== *)
theory Hook_Sockets
  imports Jwt
begin

text \<open>
  The hook websocket: which resources a user may watch is remembered when the user asks for their
  information (\<open>fillResourceforHookConnection\<close> of \<open>server/utils/opennebula.js\<close>) and checked when
  a socket connects (the websocket functions of \<open>server/utils/server.js\<close>, chained in
  \<open>server/routes/websockets/opennebula/hooks.js\<close>).
\<close>

section \<open>Remembering the resources a user asked for\<close>

definition is_word_char :: "char \<Rightarrow> bool" where
  "is_word_char c \<longleftrightarrow>
     (let n = of_char c :: nat
      in (48 \<le> n \<and> n \<le> 57) \<or> (65 \<le> n \<and> n \<le> 90) \<or> (97 \<le> n \<and> n \<le> 122) \<or> n = 95)"

text \<open>
  \<open>action.match(/^(\w+).info$/)\<close>: the dot is not escaped, so one character of any kind but a line
  break stands before \<open>info\<close>; the group is all that comes before it.
\<close>

definition info_action :: "string \<Rightarrow> string option" where
  "info_action s =
     (let w = take (length s - 5) s; d = drop (length s - 5) s
      in if length s > 5 \<and> tl d = ''info'' \<and> (of_char (hd d) :: nat) \<notin> {10, 13} \<and> list_all is_word_char w
         then Some w else None)"

definition hookObjectNames :: "(string \<times> string) list" where
  "hookObjectNames = [(''vn'', ''net'')]"

definition fillResourceforHookConnection ::
  "string \<Rightarrow> string \<Rightarrow> jsval list \<Rightarrow> globals \<Rightarrow> globals" where
  "fillResourceforHookConnection username action parameters g =
     (case (info_action action, parameters) of
        (Some resourceName, p # _) \<Rightarrow>
          if username \<noteq> [] \<and> action \<noteq> [] \<and> resourceName \<noteq> [] \<and> ge_zero p then
            (let ensuredName = (case map_of hookObjectNames resourceName of
                                  Some n \<Rightarrow> n | None \<Rightarrow> resourceName);
                 hooks = (case resourcesHooks g username of Some h \<Rightarrow> h | None \<Rightarrow> Map.empty)
             in g\<lparr>resourcesHooks := (resourcesHooks g)(username \<mapsto> hooks(ensuredName \<mapsto> p))\<rparr>)
          else g
      | _ \<Rightarrow> g)"

section \<open>Connecting\<close>

definition defaultJwtCookieName :: string where
  "defaultJwtCookieName = ''FireedgeToken''"

text \<open>
  The query and the cookie header of a socket handshake.  A query parameter is absent, a text, or, when the
  query repeats it, the array of its texts.
\<close>

datatype query_value = Absent | Single string | Repeated "string list"

fun query_truthy :: "query_value \<Rightarrow> bool" where
  "query_truthy Absent = False"
| "query_truthy (Single s) = (s \<noteq> [])"
| "query_truthy (Repeated ss) = True"

text \<open>The text \<open>parseInt\<close> reads, and \<open>toLowerCase\<close>, which an array and nothing do not have.\<close>

fun query_text :: "query_value \<Rightarrow> string" where
  "query_text Absent = ''undefined''"
| "query_text (Single s) = s"
| "query_text (Repeated ss) = js_join '','' ss"

fun query_lower :: "query_value \<Rightarrow> string js" where
  "query_lower (Single s) = Inr (to_lower s)"
| "query_lower _ = Inl TypeError"

record handshake =
  hs_cookie :: "string option"
  hs_id :: query_value
  hs_resource :: query_value

text \<open>\<open>validateAuthWebsocket\<close> returns a session, \<open>false\<close>, or nothing when an error was caught.\<close>

datatype ws_auth = WsSession jwt_payload | WsFalse | WsUndefined

definition find_cookie :: "string \<Rightarrow> string option" where
  "find_cookie cookies =
     map_option (drop (length defaultJwtCookieName + 1))
       (List.find (\<lambda>v. starts_with v (defaultJwtCookieName @ ''='')) (map js_trim (js_split (CHR '';'') cookies)))"

definition validateAuthWebsocket :: "jwt_lib \<Rightarrow> globals \<Rightarrow> handshake \<Rightarrow> ws_auth" where
  "validateAuthWebsocket lib g hs =
     (case hs_cookie hs of
        None \<Rightarrow> WsUndefined
      | Some cookies \<Rightarrow>
          if cookies = [] then WsFalse
          else (case find_cookie cookies of
             None \<Rightarrow> WsFalse
           | Some encoded \<Rightarrow>
               if encoded = [] then WsFalse
               else (case rbind (decodeURIComponent encoded) json_parse of
                  Inl _ \<Rightarrow> WsUndefined
                | Inr JNull \<Rightarrow> WsUndefined
                | Inr parsed \<Rightarrow>
                    (case prop_get parsed ''token'' of
                       JStr token \<Rightarrow>
                         (case jwtDecode lib g token of
                            Inl _ \<Rightarrow> WsUndefined
                          | Inr p \<Rightarrow> (case complete_payload p of Some q \<Rightarrow> WsSession q | None \<Rightarrow> WsFalse))
                     | _ \<Rightarrow> WsUndefined))))"

text \<open>The user a socket speaks for; reading \<open>aud\<close> of nothing throws.\<close>

definition getResourceDataForRequest :: "jwt_lib \<Rightarrow> globals \<Rightarrow> handshake \<Rightarrow> (query_value \<times> query_value \<times> string) js" where
  "getResourceDataForRequest lib g hs =
     (case validateAuthWebsocket lib g hs of
        WsSession p \<Rightarrow> Inr (hs_id hs, hs_resource hs, jp_aud p)
      | WsFalse \<Rightarrow> Inr (hs_id hs, hs_resource hs, [])
      | WsUndefined \<Rightarrow> Inl TypeError)"

datatype ws_step = WsNext | WsDisconnect

definition middlewareValidateAuthWebsocket :: "jwt_lib \<Rightarrow> globals \<Rightarrow> handshake \<Rightarrow> ws_step" where
  "middlewareValidateAuthWebsocket lib g hs =
     (case validateAuthWebsocket lib g hs of WsSession _ \<Rightarrow> WsNext | _ \<Rightarrow> WsDisconnect)"

definition middlewareValidateResourceForHookConnection ::
  "jwt_lib \<Rightarrow> globals \<Rightarrow> handshake \<Rightarrow> ws_step js" where
  "middlewareValidateResourceForHookConnection lib g hs =
     rbind (getResourceDataForRequest lib g hs) (\<lambda>(rid, resource, username).
       if query_truthy rid \<and> query_truthy resource \<and> username \<noteq> [] then
         (case resourcesHooks g username of
            None \<Rightarrow> Inr WsDisconnect
          | Some h \<Rightarrow>
              rbind (query_lower resource) (\<lambda>kind.
                let watched = (case h kind of None \<Rightarrow> JUndef | Some v \<Rightarrow> v)
                in if ge_zero watched \<and> (case parse_int (query_text rid) of Some n \<Rightarrow> watched = JNum n | None \<Rightarrow> False)
                   then Inr WsNext else Inr WsDisconnect))
       else Inr WsDisconnect)"

text \<open>\<open>app.use(auth).use(resource)\<close>: the second middleware runs when the first calls \<open>next\<close>.\<close>

definition hook_connect :: "jwt_lib \<Rightarrow> globals \<Rightarrow> handshake \<Rightarrow> ws_step js" where
  "hook_connect lib g hs =
     (case middlewareValidateAuthWebsocket lib g hs of
        WsDisconnect \<Rightarrow> Inr WsDisconnect
      | WsNext \<Rightarrow> middlewareValidateResourceForHookConnection lib g hs)"

section \<open>Lemmas\<close>

text \<open>What the server lets a user watch.\<close>

definition watches :: "globals \<Rightarrow> string \<Rightarrow> string \<Rightarrow> int \<Rightarrow> bool" where
  "watches g u r n \<longleftrightarrow> (\<exists>h. resourcesHooks g u = Some h \<and> h r = Some (JNum n)) \<and> 0 \<le> n"

lemma validateAuthWebsocket_payload:
  "validateAuthWebsocket lib g hs = WsSession p \<Longrightarrow> jp_aud p \<noteq> []"
  by (auto simp: validateAuthWebsocket_def complete_payload_def
      split: option.splits if_splits sum.splits jsval.splits)

lemma validateAuthWebsocket_cong:
  assumes "FIREEDGE_KEY g = FIREEDGE_KEY h"
  shows "validateAuthWebsocket lib g = validateAuthWebsocket lib h"
proof -
  from assms have dec: "jwtDecode lib g = jwtDecode lib h" by (simp add: jwtDecode_def signing_key_def fun_eq_iff)
  show ?thesis unfolding validateAuthWebsocket_def [abs_def] dec ..
qed

lemma hook_connect_session:
  assumes "validateAuthWebsocket lib g hs = WsSession p"
  shows "hook_connect lib g hs =
    (if query_truthy (hs_id hs) \<and> query_truthy (hs_resource hs) then
       (case resourcesHooks g (jp_aud p) of
          None \<Rightarrow> Inr WsDisconnect
        | Some h \<Rightarrow>
            rbind (query_lower (hs_resource hs)) (\<lambda>kind.
              let watched = (case h kind of None \<Rightarrow> JUndef | Some v \<Rightarrow> v)
              in if ge_zero watched \<and> (case parse_int (query_text (hs_id hs)) of Some n \<Rightarrow> watched = JNum n | None \<Rightarrow> False)
                 then Inr WsNext else Inr WsDisconnect))
     else Inr WsDisconnect)"
  using assms validateAuthWebsocket_payload [OF assms]
  by (simp add: hook_connect_def middlewareValidateAuthWebsocket_def middlewareValidateResourceForHookConnection_def
      getResourceDataForRequest_def)

lemma hook_connect_refused:
  "\<not> (\<exists>p. validateAuthWebsocket lib g hs = WsSession p) \<Longrightarrow> hook_connect lib g hs = Inr WsDisconnect"
  by (auto simp: hook_connect_def middlewareValidateAuthWebsocket_def split: ws_auth.split)

lemma query_blank: "\<not> query_truthy q \<Longrightarrow> parse_int (query_text q) = None"
  by (cases q) (simp_all add: parse_int_def parse_nat_def is_space_def is_digit_def)

lemma hook_connect_iff:
  "hook_connect lib g hs = Inr WsNext \<longleftrightarrow>
     (\<exists>p kind n. validateAuthWebsocket lib g hs = WsSession p \<and> hs_resource hs = Single kind \<and> kind \<noteq> [] \<and>
        parse_int (query_text (hs_id hs)) = Some n \<and> watches g (jp_aud p) (to_lower kind) n)"
proof (cases "\<exists>p. validateAuthWebsocket lib g hs = WsSession p")
  case True
  then obtain p where p: "validateAuthWebsocket lib g hs = WsSession p" ..
  show ?thesis
    by (cases "hs_resource hs")
       (auto simp: hook_connect_session [OF p] p watches_def ge_zero_def Let_def
         dest: query_blank split: option.splits if_splits)
qed (use hook_connect_refused [of lib g hs] in auto)

text \<open>The gate throws only for a repeated kind.\<close>

lemma hook_connect_throws:
  "hook_connect lib g hs = Inl e \<longleftrightarrow>
     e = TypeError \<and> query_truthy (hs_id hs) \<and> (\<exists>kinds. hs_resource hs = Repeated kinds) \<and>
     (\<exists>p. validateAuthWebsocket lib g hs = WsSession p \<and> resourcesHooks g (jp_aud p) \<noteq> None)"
proof (cases "\<exists>p. validateAuthWebsocket lib g hs = WsSession p")
  case True
  then obtain p where p: "validateAuthWebsocket lib g hs = WsSession p" ..
  show ?thesis
    by (cases "hs_resource hs")
       (auto simp: hook_connect_session [OF p] p Let_def split: option.splits if_splits)
qed (use hook_connect_refused [of lib g hs] in auto)

lemma watches_fill:
  assumes "info_action action = Some r" and "r \<noteq> []" and "u \<noteq> []" and "0 \<le> n"
  shows "watches (fillResourceforHookConnection u action (JNum n # ps) g) v s m \<longleftrightarrow>
     (if v = u \<and> s = (case map_of hookObjectNames r of Some x \<Rightarrow> x | None \<Rightarrow> r) then m = n
      else watches g v s m)"
proof -
  have "action \<noteq> []" using assms(1) by (auto simp: info_action_def)
  then show ?thesis using assms
    by (auto simp: fillResourceforHookConnection_def watches_def ge_zero_def Let_def fun_upd_def split: option.splits)
qed

lemma fill_frame:
  "sessionStore (fillResourceforHookConnection u a ps g) = sessionStore g"
  "tokenIndex (fillResourceforHookConnection u a ps g) = tokenIndex g"
  "FIREEDGE_KEY (fillResourceforHookConnection u a ps g) = FIREEDGE_KEY g"
  by (simp_all add: fillResourceforHookConnection_def Let_def split: option.split list.split)

section \<open>Properties\<close>

subsection \<open>Histories of info calls\<close>

text \<open>A call OpenNebula answered: the user, the action and its parameters; and what it leaves remembered.\<close>

type_synonym info_call = "string \<times> string \<times> jsval list"

definition infos :: "info_call list \<Rightarrow> globals \<Rightarrow> globals" where
  "infos = fold (\<lambda>(u, a, ps). fillResourceforHookConnection u a ps)"

definition hook_kind :: "string \<Rightarrow> string" where
  "hook_kind r = (case map_of hookObjectNames r of Some n \<Rightarrow> n | None \<Rightarrow> r)"

definition asks_about :: "info_call \<Rightarrow> string \<Rightarrow> string \<Rightarrow> bool" where
  "asks_about c u kind =
     (case c of (v, action, ps) \<Rightarrow>
        v = u \<and> u \<noteq> [] \<and>
        (case info_action action of None \<Rightarrow> False | Some r \<Rightarrow> r \<noteq> [] \<and> hook_kind r = kind) \<and>
        (case ps of [] \<Rightarrow> False | p # _ \<Rightarrow> ge_zero p))"

definition last_asked :: "info_call list \<Rightarrow> string \<Rightarrow> string \<Rightarrow> jsval option" where
  "last_asked cs u kind = map_option (\<lambda>(_, _, ps). hd ps) (List.find (\<lambda>c. asks_about c u kind) (rev cs))"

definition hook_of :: "globals \<Rightarrow> string \<Rightarrow> string \<Rightarrow> jsval option" where
  "hook_of g u kind = (case resourcesHooks g u of None \<Rightarrow> None | Some h \<Rightarrow> h kind)"

lemma info_action_nonempty: "info_action a = Some r \<Longrightarrow> a \<noteq> []"
  by (auto simp: info_action_def)

lemma hook_of_fill:
  "hook_of (fillResourceforHookConnection v a ps g) u kind =
     (if asks_about (v, a, ps) u kind then Some (hd ps) else hook_of g u kind)"
  by (auto simp: hook_of_def asks_about_def hook_kind_def fillResourceforHookConnection_def Let_def
      dest: info_action_nonempty split: option.splits list.splits)

lemma infos_append: "infos (cs @ [(v, a, ps)]) g = fillResourceforHookConnection v a ps (infos cs g)"
  by (simp add: infos_def)

lemma hook_of_infos:
  "hook_of (infos cs g) u kind = (case last_asked cs u kind of Some p \<Rightarrow> Some p | None \<Rightarrow> hook_of g u kind)"
proof (induction cs rule: rev_induct)
  case Nil
  show ?case by (simp add: infos_def last_asked_def)
next
  case (snoc c cs)
  obtain v a ps where c: "c = (v, a, ps)" by (cases c)
  show ?case unfolding c infos_append hook_of_fill using snoc.IH by (simp add: last_asked_def)
qed

lemma infos_frame: "FIREEDGE_KEY (infos cs g) = FIREEDGE_KEY g"
  by (induction cs arbitrary: g) (auto simp: infos_def fill_frame)

lemma last_asked_props:
  assumes "last_asked cs u kind = Some p" shows "ge_zero p" and "kind \<noteq> []"
proof -
  from assms obtain v a ps where f: "List.find (\<lambda>c. asks_about c u kind) (rev cs) = Some (v, a, ps)" and p: "p = hd ps"
    by (auto simp: last_asked_def)
  from f have "asks_about (v, a, ps) u kind" by (auto simp: find_Some_iff)
  with p show "ge_zero p" and "kind \<noteq> []"
    by (auto simp: asks_about_def hook_kind_def hookObjectNames_def split: list.splits option.splits if_splits)
qed

lemma resourcesHooks_infos:
  assumes "resourcesHooks g = Map.empty"
  shows "resourcesHooks (infos cs g) u = None \<longleftrightarrow> (\<forall>c \<in> set cs. \<forall>kind. \<not> asks_about c u kind)"
proof (induction cs rule: rev_induct)
  case Nil
  show ?case using assms by (simp add: infos_def)
next
  case (snoc c cs)
  obtain v a ps where c: "c = (v, a, ps)" by (cases c)
  have "resourcesHooks (fillResourceforHookConnection v a ps h) u = None \<longleftrightarrow>
      resourcesHooks h u = None \<and> (\<forall>kind. \<not> asks_about (v, a, ps) u kind)" for h
    by (auto simp: asks_about_def hook_kind_def fillResourceforHookConnection_def Let_def
        dest: info_action_nonempty split: option.splits list.splits)
  then show ?case unfolding c infos_append using snoc.IH by auto
qed

text \<open>
  C8. A hook socket is let through only for the object its user asked about last: after any history of
  calls on a server that starts with nothing remembered, the socket goes through exactly when the cookie
  carries a complete signed token, the handshake names one kind, and the last object of this kind whose
  information the token's user asked for has the number the handshake names.  Connecting throws exactly
  when the handshake gives an object and repeats the kind, and the token's user has asked about something
  before.
\<close>

theorem hook_socket_gate:
  assumes "resourcesHooks g = Map.empty"
  shows "(hook_connect lib (infos cs g) hs = Inr WsNext \<longleftrightarrow>
      (\<exists>p kind n. validateAuthWebsocket lib g hs = WsSession p \<and> hs_resource hs = Single kind \<and>
         parse_int (query_text (hs_id hs)) = Some n \<and> last_asked cs (jp_aud p) (to_lower kind) = Some (JNum n))) \<and>
    ((\<exists>e. hook_connect lib (infos cs g) hs = Inl e) \<longleftrightarrow>
      (\<exists>p kinds. validateAuthWebsocket lib g hs = WsSession p \<and> hs_resource hs = Repeated kinds \<and>
         query_truthy (hs_id hs) \<and> (\<exists>c \<in> set cs. \<exists>kind. asks_about c (jp_aud p) kind)))"
proof -
  have auth: "validateAuthWebsocket lib (infos cs g) hs = validateAuthWebsocket lib g hs"
    using validateAuthWebsocket_cong [OF infos_frame] by simp
  have hook: "hook_of (infos cs g) u kind = last_asked cs u kind" for u kind
    unfolding hook_of_infos using assms by (simp add: hook_of_def split: option.split)
  have watch: "watches (infos cs g) u (to_lower kind) n \<and> kind \<noteq> [] \<longleftrightarrow> last_asked cs u (to_lower kind) = Some (JNum n)"
    for u kind n
    using last_asked_props [of cs u "to_lower kind" "JNum n"]
    by (auto simp: watches_def hook [symmetric] hook_of_def to_lower_def ge_zero_def split: option.splits)
  have "(hook_connect lib (infos cs g) hs = Inr WsNext) \<longleftrightarrow>
      (\<exists>p kind n. validateAuthWebsocket lib g hs = WsSession p \<and> hs_resource hs = Single kind \<and>
         parse_int (query_text (hs_id hs)) = Some n \<and> last_asked cs (jp_aud p) (to_lower kind) = Some (JNum n))"
    unfolding hook_connect_iff auth watch [symmetric] by blast
  moreover have "(\<exists>e. hook_connect lib (infos cs g) hs = Inl e) \<longleftrightarrow>
      (\<exists>p kinds. validateAuthWebsocket lib g hs = WsSession p \<and> hs_resource hs = Repeated kinds \<and>
         query_truthy (hs_id hs) \<and> (\<exists>c \<in> set cs. \<exists>kind. asks_about c (jp_aud p) kind))"
    unfolding hook_connect_throws auth resourcesHooks_infos [OF assms] by blast
  ultimately show ?thesis ..
qed

text \<open>
  Only the last object of a kind is remembered: after a user asks for an object's information, his
  sockets for that kind go through for this object and for no other, and nobody else's permissions change.
\<close>

theorem hook_follows_last_info:
  assumes "info_action action = Some r" and "r \<noteq> []" and "u \<noteq> []" and "0 \<le> n"
    and "validateAuthWebsocket lib (fillResourceforHookConnection u action (JNum n # ps) g) hs = WsSession p"
    and "hs_resource hs = Single kind" and "to_lower kind = hook_kind r"
  shows "hook_connect lib (fillResourceforHookConnection u action (JNum n # ps) g) hs = Inr WsNext \<longleftrightarrow>
    (if jp_aud p = u then parse_int (query_text (hs_id hs)) = Some n
     else \<exists>m. parse_int (query_text (hs_id hs)) = Some m \<and> watches g (jp_aud p) (to_lower kind) m)"
proof -
  have "kind \<noteq> []"
    using assms(2,7) by (auto simp: to_lower_def hook_kind_def hookObjectNames_def split: if_splits)
  then show ?thesis
    unfolding hook_connect_iff watches_fill [OF assms(1-4)] using assms(5-7) by (auto simp: hook_kind_def)
qed

lemma js_trim_plain: "list_all (\<lambda>c. \<not> is_space c) s \<Longrightarrow> js_trim s = s"
proof -
  assume a: "list_all (\<lambda>c. \<not> is_space c) s"
  have "dropWhile is_space t = t" if "list_all (\<lambda>c. \<not> is_space c) t" for t using that by (cases t) auto
  then show "js_trim s = s" using a by (simp add: js_trim_def list_all_rev)
qed

text \<open>The cookie \<open>auth\<close> sets, as the browser sends it back with the handshake.\<close>

lemma websocket_session_cookie:
  assumes "ascii (json_stringify (JObj [(''token'', JStr jwt)]))" and "jwtDecode lib g jwt = Inr p" and "complete_payload p = Some q"
    and "hs_cookie hs = Some (defaultJwtCookieName @ ''='' @ encodeURIComponent (json_stringify (JObj [(''token'', JStr jwt)])))"
  shows "validateAuthWebsocket lib g hs = WsSession q"
proof -
  let ?e = "encodeURIComponent (json_stringify (JObj [(''token'', JStr jwt)]))"
  have name: "list_all (\<lambda>c. \<not> is_space c \<and> c \<noteq> CHR '';'') (defaultJwtCookieName @ ''='')"
    by (simp add: defaultJwtCookieName_def is_space_def)
  have plain: "list_all (\<lambda>c. \<not> is_space c \<and> c \<noteq> CHR '';'') (defaultJwtCookieName @ ''='' @ ?e)"
    using name encode_plain [OF assms(1)] by (auto simp: list_all_iff)
  then have "js_split (CHR '';'') (defaultJwtCookieName @ ''='' @ ?e) = [defaultJwtCookieName @ ''='' @ ?e]"
    by (intro js_split_no_sep) (auto simp: list_all_iff)
  moreover have "js_trim (defaultJwtCookieName @ ''='' @ ?e) = defaultJwtCookieName @ ''='' @ ?e"
    using plain by (intro js_trim_plain) (auto simp: list_all_iff)
  ultimately have "find_cookie (defaultJwtCookieName @ ''='' @ ?e) = Some ?e"
    by (simp add: find_cookie_def starts_with_iff)
  moreover have dec: "decodeURIComponent ?e = Inr (json_stringify (JObj [(''token'', JStr jwt)]))"
      "json_parse (json_stringify (JObj [(''token'', JStr jwt)])) = Inr (JObj [(''token'', JStr jwt)])"
    using decode_encode [OF assms(1)] json_roundtrip [of "JObj [(''token'', JStr jwt)]"] by (simp_all del: json_stringify.simps)
  moreover have "?e \<noteq> []" using dec by (auto simp: json_parse_def)
  ultimately show ?thesis
    using assms(2-4) by (simp add: validateAuthWebsocket_def obj_get_def del: json_stringify.simps)
qed

definition hook_lib :: jwt_lib where
  "hook_lib = \<lparr>jwt_encode = (\<lambda>p k. ''t''), jwt_decode = (\<lambda>s k. Some \<lparr>jp_iss = ''2'', jp_aud = ''bob'', jp_jti = ''x''\<rparr>)\<rparr>"

definition hook_handshake :: handshake where
  "hook_handshake = \<lparr>hs_cookie = Some (''FireedgeToken='' @ encodeURIComponent (json_stringify (JObj [(''token'', JStr ''t'')]))),
     hs_id = Single ''7'', hs_resource = Single ''VM''\<rparr>"

lemma hook_handshake_session:
  assumes "FIREEDGE_KEY g = Some ''k''"
  shows "validateAuthWebsocket hook_lib g hook_handshake = WsSession \<lparr>jp_iss = ''2'', jp_aud = ''bob'', jp_jti = ''x''\<rparr>"
proof -
  have key: "jwtDecode hook_lib g ''t'' = Inr \<lparr>jp_iss = ''2'', jp_aud = ''bob'', jp_jti = ''x''\<rparr>"
    using assms by (simp add: jwtDecode_def signing_key_def hook_lib_def)
  have "ascii (json_stringify (JObj [(''token'', JStr ''t'')]))"
    by (simp add: ascii_def json_quote_def json_escape_char_def dquote_def)
  then show ?thesis
    by (rule websocket_session_cookie [OF _ key])
       (simp_all add: complete_payload_def hook_handshake_def defaultJwtCookieName_def del: json_stringify.simps)
qed

definition hook_history :: "info_call list" where
  "hook_history = [(''bob'', ''vm.info'', [JNum 5]), (''bob'', ''vm.info'', [JNum 7]), (''eve'', ''vm.info'', [JNum 9])]"

theorem hook_socket_gate_witness:
  "hook_connect hook_lib (infos hook_history (initial_globals\<lparr>FIREEDGE_KEY := Some ''k''\<rparr>)) hook_handshake = Inr WsNext \<and>
   hook_connect hook_lib (infos hook_history (initial_globals\<lparr>FIREEDGE_KEY := Some ''k''\<rparr>))
     (hook_handshake\<lparr>hs_id := Single ''5''\<rparr>) \<noteq> Inr WsNext"
proof -
  let ?g = "initial_globals\<lparr>FIREEDGE_KEY := Some ''k''\<rparr>"
  have empty: "resourcesHooks ?g = Map.empty" by (simp add: initial_globals_def)
  have key: "FIREEDGE_KEY ?g = Some ''k''" by simp
  have ses: "validateAuthWebsocket hook_lib ?g (hook_handshake\<lparr>hs_id := i\<rparr>) =
      WsSession \<lparr>jp_iss = ''2'', jp_aud = ''bob'', jp_jti = ''x''\<rparr>" for i
    using hook_handshake_session [OF key] by (simp add: validateAuthWebsocket_def)
  have res: "hs_resource (hook_handshake\<lparr>hs_id := i\<rparr>) = Single ''VM''" for i by (simp add: hook_handshake_def)
  have last: "last_asked hook_history ''bob'' (to_lower ''VM'') = Some (JNum 7)" by code_simp
  have num: "parse_int ''7'' = Some 7" "parse_int ''5'' = Some 5" by code_simp+
  have same: "hook_handshake\<lparr>hs_id := Single ''7''\<rparr> = hook_handshake" by (simp add: hook_handshake_def)
  note gate = hook_socket_gate [OF empty, of hook_lib hook_history "hook_handshake\<lparr>hs_id := i\<rparr>" for i, unfolded ses res]
  show ?thesis
    using gate [of "Single ''7''"] gate [of "Single ''5''"] last num
    by (simp add: same) (simp add: hook_handshake_def)
qed

theorem hook_follows_last_info_witness:
  "hook_connect hook_lib (fillResourceforHookConnection ''bob'' ''vm.info'' [JNum 7] (initial_globals\<lparr>FIREEDGE_KEY := Some ''k''\<rparr>))
     hook_handshake = Inr WsNext"
proof -
  let ?g = "fillResourceforHookConnection ''bob'' ''vm.info'' [JNum 7] (initial_globals\<lparr>FIREEDGE_KEY := Some ''k''\<rparr>)"
  have act: "info_action ''vm.info'' = Some ''vm''" by (simp add: info_action_def is_word_char_def)
  have ses: "validateAuthWebsocket hook_lib ?g hook_handshake = WsSession \<lparr>jp_iss = ''2'', jp_aud = ''bob'', jp_jti = ''x''\<rparr>"
    by (rule hook_handshake_session) (simp add: fill_frame)
  have "parse_int (query_text (hs_id hook_handshake)) = Some 7"
    by (simp add: hook_handshake_def parse_int_def is_space_def parse_nat_def is_digit_def digits_val_def digit_val_def)
  moreover have "hs_resource hook_handshake = Single ''VM''" by (simp add: hook_handshake_def)
  moreover have "to_lower ''VM'' = hook_kind ''vm''"
    by (simp add: hook_kind_def hookObjectNames_def) code_simp
  ultimately show ?thesis
    using hook_follows_last_info [OF act _ _ _ ses] by simp
qed

text \<open>
  Hook sockets do not ask for a live session: they check the signature of the token only, so logging
  out, or the session's expiry, changes nothing for them.
\<close>

theorem hook_socket_ignores_logout:
  "hook_connect lib (removeUserSession token g) hs = hook_connect lib g hs"
proof -
  have "FIREEDGE_KEY (removeUserSession token g) = FIREEDGE_KEY g \<and> resourcesHooks (removeUserSession token g) = resourcesHooks g"
    by (simp add: removeUserSession_def ensureSessionStore_def Let_def split: option.split)
  then have dec: "jwtDecode lib (removeUserSession token g) = jwtDecode lib g"
    and hooks: "resourcesHooks (removeUserSession token g) = resourcesHooks g"
    by (simp_all add: jwtDecode_def signing_key_def fun_eq_iff)
  show ?thesis
    unfolding hook_connect_def middlewareValidateAuthWebsocket_def middlewareValidateResourceForHookConnection_def
      getResourceDataForRequest_def validateAuthWebsocket_def dec hooks ..
qed

end
