(* ===== verification/Command_Base.thy ===== *)
theory Command_Base
  imports Http
begin

text \<open>
  The shape of an OpenNebula command (\<open>server/utils/constants/commands\<close>): the HTTP verb it is
  reached with and its XML-RPC parameters, in call order, each with the part of the request it is
  read from and its default.
\<close>

named_theorems command_tables \<open>well-formedness of the command tables\<close>

record command =
  cm_httpMethod :: string
  cm_params :: params

type_synonym command_table = "(string \<times> command) list"

text \<open>The three sources of \<open>defaults.from\<close>.\<close>

definition from_resource :: string where "from_resource = ''RESOURCE''"
definition from_query :: string where "from_query = ''QUERY''"
definition from_postBody :: string where "from_postBody = ''POST_BODY''"

lemmas from_defs = from_resource_def from_query_def from_postBody_def

definition arg :: "string \<Rightarrow> jsval \<Rightarrow> param_spec" where
  "arg src d = \<lparr>ps_from = Some src, ps_default = d, ps_arrayDefault = JUndef, ps_all = False\<rparr>"

definition array_arg :: "string \<Rightarrow> jsval \<Rightarrow> jsval \<Rightarrow> param_spec" where
  "array_arg src d e = \<lparr>ps_from = Some src, ps_default = d, ps_arrayDefault = e, ps_all = False\<rparr>"

text \<open>An object literal: a key written twice keeps its first place and its last value.\<close>

definition obj_literal :: "(string \<times> 'v) list \<Rightarrow> (string \<times> 'v) list" where
  "obj_literal xs = obj_spread [] xs"

lemma obj_spread_fresh:
  assumes "distinct (map fst b)" and "fst ` set a \<inter> fst ` set b = {}"
  shows "obj_spread a b = a @ b"
  using assms
proof (induction b arbitrary: a)
  case Nil
  show ?case by (simp add: obj_spread_def)
next
  case (Cons p b)
  obtain k v where p: "p = (k, v)" by (cases p)
  have "k \<notin> fst ` set a" using Cons.prems p by auto
  then have "AList.update k v a = a @ [p]" by (induction a) (auto simp: p)
  then have "obj_spread a (p # b) = obj_spread (a @ [p]) b" by (simp add: obj_spread_def p)
  also have "\<dots> = (a @ [p]) @ b" using Cons.prems by (intro Cons.IH) auto
  finally show ?case by simp
qed

lemma obj_literal_distinct: "distinct (map fst xs) \<Longrightarrow> obj_literal xs = xs"
  using obj_spread_fresh [of xs "[]"] by (simp add: obj_literal_def)

text \<open>
  Facts about all entries of a table survive the construction of the table: an entry of the object
  is an entry of the text.
\<close>

lemma set_update: "set (AList.update k v al) \<subseteq> insert (k, v) (set al)"
  by (induction al) auto

lemma set_obj_spread: "set (obj_spread a b) \<subseteq> set a \<union> set b"
proof (induction b arbitrary: a)
  case Nil
  show ?case by (simp add: obj_spread_def)
next
  case (Cons p b)
  obtain k v where p: "p = (k, v)" by (cases p)
  have "set (obj_spread a (p # b)) \<subseteq> set (AList.update k v a) \<union> set b"
    using Cons.IH [of "AList.update k v a"] by (simp add: obj_spread_def p)
  then show ?case using set_update [of k v a] by (auto simp: p)
qed

lemma list_all_obj_spread: "list_all P a \<Longrightarrow> list_all P b \<Longrightarrow> list_all P (obj_spread a b)"
  using set_obj_spread [of a b] by (auto simp: list_all_iff)

lemma list_all_obj_literal: "list_all P xs \<Longrightarrow> list_all P (obj_literal xs)"
  by (simp add: obj_literal_def list_all_obj_spread)

lemma distinct_obj_literal: "distinct (map fst (obj_literal xs))"
  by (simp add: obj_literal_def distinct_obj_spread)

lemma map_of_obj_literal: "map_of (obj_literal xs) = map_of (rev xs)"
  by (simp add: obj_literal_def obj_spread_def map_of_fold_update)

text \<open>
  What the router needs of a command: a resource and a method with one dot between them and no
  slash in them, a known verb, parameters with different names, and for each of them a name, a source and a default.
\<close>

definition command_ok :: "string \<times> command \<Rightarrow> bool" where
  "command_ok cc =
     ((case js_split (CHR ''.'') (fst cc) of
         [r, m] \<Rightarrow> r \<noteq> [] \<and> m \<noteq> [] \<and> CHR ''/'' \<notin> set r \<and> CHR ''/'' \<notin> set m
       | _ \<Rightarrow> False) \<and>
      cm_httpMethod (snd cc) \<in> set httpMethods \<and>
      distinct (map fst (cm_params (snd cc))) \<and>
      list_all (\<lambda>(k, p). k \<noteq> [] \<and> (ps_from p = Some from_resource \<or> ps_from p = Some from_query \<or>
                 ps_from p = Some from_postBody) \<and> ps_default p \<noteq> JUndef) (cm_params (snd cc)))"

end
