(* ===== verification/Commands_A.thy ===== *)
theory Commands_A
  imports Command_Base
begin

text \<open>
  The command tables of \<open>server/utils/constants/commands\<close> for
  acl, backupjobs, cluster, datastore, document, group, secgroup, hook, host, image,
  one definition per command, in the order of the files, and their well-formedness.
\<close>

section \<open>acl.js\<close>

definition cmd_ACL_ADDRULE :: command where
  "cmd_ACL_ADDRULE = \<lparr>cm_httpMethod = ''POST'', cm_params =
      [(''user'', arg from_postBody (JStr ''0x100000000'')),
       (''resource'', arg from_postBody (JStr ''0x1000000000'')),
       (''right'', arg from_postBody (JStr ''0x1'')),
       (''zone'', arg from_postBody (JStr ''0x100000000''))]\<rparr>"

definition cmd_ACL_DELRULE :: command where
  "cmd_ACL_DELRULE = \<lparr>cm_httpMethod = ''DELETE'', cm_params =
      [(''id'', arg from_resource (JNum (-1)))]\<rparr>"

definition cmd_ACL_INFO :: command where
  "cmd_ACL_INFO = \<lparr>cm_httpMethod = ''GET'', cm_params =
      []\<rparr>"

definition acl_Commands :: command_table where
  "acl_Commands = obj_literal
     [(''acl.addrule'', cmd_ACL_ADDRULE),
      (''acl.delrule'', cmd_ACL_DELRULE),
      (''acl.info'', cmd_ACL_INFO)]"

lemmas acl_Commands_defs = cmd_ACL_ADDRULE_def cmd_ACL_DELRULE_def cmd_ACL_INFO_def

section \<open>backupjobs.js\<close>

definition cmd_BACKUPJOB_ALLOCATE :: command where
  "cmd_BACKUPJOB_ALLOCATE = \<lparr>cm_httpMethod = ''POST'', cm_params =
      [(''template'', arg from_postBody (JStr []))]\<rparr>"

definition cmd_BACKUPJOB_DELETE :: command where
  "cmd_BACKUPJOB_DELETE = \<lparr>cm_httpMethod = ''DELETE'', cm_params =
      [(''id'', arg from_resource (JNum (-1)))]\<rparr>"

definition cmd_BACKUPJOB_INFO :: command where
  "cmd_BACKUPJOB_INFO = \<lparr>cm_httpMethod = ''GET'', cm_params =
      [(''id'', arg from_resource (JNum (-1))),
       (''decrypt'', arg from_query (JBool False))]\<rparr>"

definition cmd_BACKUPJOB_UPDATE :: command where
  "cmd_BACKUPJOB_UPDATE = \<lparr>cm_httpMethod = ''PUT'', cm_params =
      [(''id'', arg from_resource (JNum (-1))),
       (''template'', arg from_postBody (JStr [])),
       (''replace'', arg from_postBody (JNum 0))]\<rparr>"

definition cmd_BACKUPJOB_RENAME :: command where
  "cmd_BACKUPJOB_RENAME = \<lparr>cm_httpMethod = ''PUT'', cm_params =
      [(''id'', arg from_resource (JNum (-1))),
       (''name'', arg from_postBody (JStr []))]\<rparr>"

definition cmd_BACKUPJOB_CHOWN :: command where
  "cmd_BACKUPJOB_CHOWN = \<lparr>cm_httpMethod = ''PUT'', cm_params =
      [(''id'', arg from_resource (JNum (-1))),
       (''user'', arg from_postBody (JNum (-1))),
       (''group'', arg from_postBody (JNum (-1)))]\<rparr>"

definition cmd_BACKUPJOB_CHMOD :: command where
  "cmd_BACKUPJOB_CHMOD = \<lparr>cm_httpMethod = ''PUT'', cm_params =
      [(''id'', arg from_resource (JNum (-1))),
       (''ownerUse'', arg from_postBody (JNum (-1))),
       (''ownerManage'', arg from_postBody (JNum (-1))),
       (''ownerAdmin'', arg from_postBody (JNum (-1))),
       (''groupUse'', arg from_postBody (JNum (-1))),
       (''groupManage'', arg from_postBody (JNum (-1))),
       (''groupAdmin'', arg from_postBody (JNum (-1))),
       (''otherUse'', arg from_postBody (JNum (-1))),
       (''otherManage'', arg from_postBody (JNum (-1))),
       (''otherAdmin'', arg from_postBody (JNum (-1)))]\<rparr>"

definition cmd_BACKUPJOB_LOCK :: command where
  "cmd_BACKUPJOB_LOCK = \<lparr>cm_httpMethod = ''PUT'', cm_params =
      [(''id'', arg from_resource (JNum (-1))),
       (''level'', arg from_postBody (JNum 4)),
       (''test'', arg from_postBody (JBool False))]\<rparr>"

definition cmd_BACKUPJOB_UNLOCK :: command where
  "cmd_BACKUPJOB_UNLOCK = \<lparr>cm_httpMethod = ''PUT'', cm_params =
      [(''id'', arg from_resource (JNum (-1)))]\<rparr>"

definition cmd_BACKUPJOB_BACKUP :: command where
  "cmd_BACKUPJOB_BACKUP = \<lparr>cm_httpMethod = ''PUT'', cm_params =
      [(''id'', arg from_resource (JNum (-1)))]\<rparr>"

definition cmd_BACKUPJOB_CANCEL :: command where
  "cmd_BACKUPJOB_CANCEL = \<lparr>cm_httpMethod = ''PUT'', cm_params =
      [(''id'', arg from_resource (JNum (-1)))]\<rparr>"

definition cmd_BACKUPJOB_RETRY :: command where
  "cmd_BACKUPJOB_RETRY = \<lparr>cm_httpMethod = ''PUT'', cm_params =
      [(''id'', arg from_resource (JNum (-1)))]\<rparr>"

definition cmd_BACKUPJOB_PRIORITY :: command where
  "cmd_BACKUPJOB_PRIORITY = \<lparr>cm_httpMethod = ''PUT'', cm_params =
      [(''id'', arg from_resource (JNum (-1))),
       (''priority'', arg from_postBody (JNum 0))]\<rparr>"

definition cmd_BACKUPJOB_SCHED_ADD :: command where
  "cmd_BACKUPJOB_SCHED_ADD = \<lparr>cm_httpMethod = ''POST'', cm_params =
      [(''id'', arg from_resource (JNum (-1))),
       (''template'', arg from_postBody (JStr []))]\<rparr>"

definition cmd_BACKUPJOB_SCHED_DELETE :: command where
  "cmd_BACKUPJOB_SCHED_DELETE = \<lparr>cm_httpMethod = ''DELETE'', cm_params =
      [(''id'', arg from_resource (JNum (-1))),
       (''schedId'', arg from_postBody (JNum 0))]\<rparr>"

definition cmd_BACKUPJOB_SCHED_UPDATE :: command where
  "cmd_BACKUPJOB_SCHED_UPDATE = \<lparr>cm_httpMethod = ''PUT'', cm_params =
      [(''id'', arg from_resource (JNum (-1))),
       (''schedId'', arg from_postBody (JNum 0)),
       (''template'', arg from_postBody (JStr []))]\<rparr>"

definition cmd_BACKUPJOB_POOL_INFO :: command where
  "cmd_BACKUPJOB_POOL_INFO = \<lparr>cm_httpMethod = ''GET'', cm_params =
      [(''filter'', arg from_query (JNum (-2))),
       (''start'', arg from_query (JNum (-1))),
       (''end'', arg from_query (JNum (-1)))]\<rparr>"

definition backupjobs_Commands :: command_table where
  "backupjobs_Commands = obj_literal
     [(''backupjob.allocate'', cmd_BACKUPJOB_ALLOCATE),
      (''backupjob.delete'', cmd_BACKUPJOB_DELETE),
      (''backupjob.info'', cmd_BACKUPJOB_INFO),
      (''backupjob.update'', cmd_BACKUPJOB_UPDATE),
      (''backupjob.rename'', cmd_BACKUPJOB_RENAME),
      (''backupjob.chown'', cmd_BACKUPJOB_CHOWN),
      (''backupjob.chmod'', cmd_BACKUPJOB_CHMOD),
      (''backupjob.lock'', cmd_BACKUPJOB_LOCK),
      (''backupjob.unlock'', cmd_BACKUPJOB_UNLOCK),
      (''backupjob.backup'', cmd_BACKUPJOB_BACKUP),
      (''backupjob.cancel'', cmd_BACKUPJOB_CANCEL),
      (''backupjob.retry'', cmd_BACKUPJOB_RETRY),
      (''backupjob.priority'', cmd_BACKUPJOB_PRIORITY),
      (''backupjob.schedadd'', cmd_BACKUPJOB_SCHED_ADD),
      (''backupjob.scheddelete'', cmd_BACKUPJOB_SCHED_DELETE),
      (''backupjob.schedupdate'', cmd_BACKUPJOB_SCHED_UPDATE),
      (''backupjobpool.info'', cmd_BACKUPJOB_POOL_INFO)]"

lemmas backupjobs_Commands_defs = cmd_BACKUPJOB_ALLOCATE_def cmd_BACKUPJOB_DELETE_def cmd_BACKUPJOB_INFO_def cmd_BACKUPJOB_UPDATE_def cmd_BACKUPJOB_RENAME_def cmd_BACKUPJOB_CHOWN_def cmd_BACKUPJOB_CHMOD_def cmd_BACKUPJOB_LOCK_def cmd_BACKUPJOB_UNLOCK_def cmd_BACKUPJOB_BACKUP_def cmd_BACKUPJOB_CANCEL_def cmd_BACKUPJOB_RETRY_def cmd_BACKUPJOB_PRIORITY_def cmd_BACKUPJOB_SCHED_ADD_def cmd_BACKUPJOB_SCHED_DELETE_def cmd_BACKUPJOB_SCHED_UPDATE_def cmd_BACKUPJOB_POOL_INFO_def

section \<open>cluster.js\<close>

definition cmd_CLUSTER_ALLOCATE :: command where
  "cmd_CLUSTER_ALLOCATE = \<lparr>cm_httpMethod = ''PUT'', cm_params =
      [(''name'', arg from_postBody (JStr []))]\<rparr>"

definition cmd_CLUSTER_DELETE :: command where
  "cmd_CLUSTER_DELETE = \<lparr>cm_httpMethod = ''DELETE'', cm_params =
      [(''id'', arg from_resource (JNum (-1)))]\<rparr>"

definition cmd_CLUSTER_UPDATE :: command where
  "cmd_CLUSTER_UPDATE = \<lparr>cm_httpMethod = ''PUT'', cm_params =
      [(''id'', arg from_resource (JNum (-1))),
       (''template'', arg from_postBody (JStr [])),
       (''replace'', arg from_postBody (JNum 0))]\<rparr>"

definition cmd_CLUSTER_ADDHOST :: command where
  "cmd_CLUSTER_ADDHOST = \<lparr>cm_httpMethod = ''POST'', cm_params =
      [(''id'', arg from_resource (JNum (-1))),
       (''host'', arg from_postBody (JNum 0))]\<rparr>"

definition cmd_CLUSTER_DELHOST :: command where
  "cmd_CLUSTER_DELHOST = \<lparr>cm_httpMethod = ''DELETE'', cm_params =
      [(''id'', arg from_resource (JNum (-1))),
       (''host'', arg from_postBody (JNum 0))]\<rparr>"

definition cmd_CLUSTER_ADDDATASTORE :: command where
  "cmd_CLUSTER_ADDDATASTORE = \<lparr>cm_httpMethod = ''PUT'', cm_params =
      [(''id'', arg from_resource (JNum (-1))),
       (''datastore'', arg from_postBody (JNum 0))]\<rparr>"

definition cmd_CLUSTER_DELDATASTORE :: command where
  "cmd_CLUSTER_DELDATASTORE = \<lparr>cm_httpMethod = ''DELETE'', cm_params =
      [(''id'', arg from_resource (JNum (-1))),
       (''datastore'', arg from_postBody (JNum 0))]\<rparr>"

definition cmd_CLUSTER_ADDVNET :: command where
  "cmd_CLUSTER_ADDVNET = \<lparr>cm_httpMethod = ''PUT'', cm_params =
      [(''id'', arg from_resource (JNum (-1))),
       (''vnet'', arg from_postBody (JNum 0))]\<rparr>"

definition cmd_CLUSTER_DELVNET :: command where
  "cmd_CLUSTER_DELVNET = \<lparr>cm_httpMethod = ''DELETE'', cm_params =
      [(''id'', arg from_resource (JNum (-1))),
       (''vnet'', arg from_postBody (JNum 0))]\<rparr>"

definition cmd_CLUSTER_RENAME :: command where
  "cmd_CLUSTER_RENAME = \<lparr>cm_httpMethod = ''PUT'', cm_params =
      [(''id'', arg from_resource (JNum (-1))),
       (''name'', arg from_postBody (JStr []))]\<rparr>"

definition cmd_CLUSTER_OPTIMIZE :: command where
  "cmd_CLUSTER_OPTIMIZE = \<lparr>cm_httpMethod = ''GET'', cm_params =
      [(''id'', arg from_resource (JNum (-1)))]\<rparr>"

definition cmd_CLUSTER_PLANAPPLY :: command where
  "cmd_CLUSTER_PLANAPPLY = \<lparr>cm_httpMethod = ''POST'', cm_params =
      [(''id'', arg from_resource (JNum (-1)))]\<rparr>"

definition cmd_CLUSTER_PLANDELETE :: command where
  "cmd_CLUSTER_PLANDELETE = \<lparr>cm_httpMethod = ''DELETE'', cm_params =
      [(''id'', arg from_resource (JNum (-1)))]\<rparr>"

definition cmd_CLUSTER_INFO :: command where
  "cmd_CLUSTER_INFO = \<lparr>cm_httpMethod = ''GET'', cm_params =
      [(''id'', arg from_resource (JNum (-1))),
       (''decrypt'', arg from_query (JBool False))]\<rparr>"

definition cmd_CLUSTER_POOL_INFO :: command where
  "cmd_CLUSTER_POOL_INFO = \<lparr>cm_httpMethod = ''GET'', cm_params =
      [(''zone'', arg from_query (JNum 0))]\<rparr>"

definition cluster_Commands :: command_table where
  "cluster_Commands = obj_literal
     [(''cluster.allocate'', cmd_CLUSTER_ALLOCATE),
      (''cluster.delete'', cmd_CLUSTER_DELETE),
      (''cluster.update'', cmd_CLUSTER_UPDATE),
      (''cluster.addhost'', cmd_CLUSTER_ADDHOST),
      (''cluster.delhost'', cmd_CLUSTER_DELHOST),
      (''cluster.adddatastore'', cmd_CLUSTER_ADDDATASTORE),
      (''cluster.deldatastore'', cmd_CLUSTER_DELDATASTORE),
      (''cluster.addvnet'', cmd_CLUSTER_ADDVNET),
      (''cluster.delvnet'', cmd_CLUSTER_DELVNET),
      (''cluster.rename'', cmd_CLUSTER_RENAME),
      (''cluster.optimize'', cmd_CLUSTER_OPTIMIZE),
      (''cluster.planexecute'', cmd_CLUSTER_PLANAPPLY),
      (''cluster.plandelete'', cmd_CLUSTER_PLANDELETE),
      (''cluster.info'', cmd_CLUSTER_INFO),
      (''clusterpool.info'', cmd_CLUSTER_POOL_INFO)]"

lemmas cluster_Commands_defs = cmd_CLUSTER_ALLOCATE_def cmd_CLUSTER_DELETE_def cmd_CLUSTER_UPDATE_def cmd_CLUSTER_ADDHOST_def cmd_CLUSTER_DELHOST_def cmd_CLUSTER_ADDDATASTORE_def cmd_CLUSTER_DELDATASTORE_def cmd_CLUSTER_ADDVNET_def cmd_CLUSTER_DELVNET_def cmd_CLUSTER_RENAME_def cmd_CLUSTER_OPTIMIZE_def cmd_CLUSTER_PLANAPPLY_def cmd_CLUSTER_PLANDELETE_def cmd_CLUSTER_INFO_def cmd_CLUSTER_POOL_INFO_def

section \<open>datastore.js\<close>

definition cmd_DATASTORE_ALLOCATE :: command where
  "cmd_DATASTORE_ALLOCATE = \<lparr>cm_httpMethod = ''POST'', cm_params =
      [(''template'', arg from_postBody (JStr [])),
       (''cluster'', arg from_postBody (JNum (-1)))]\<rparr>"

definition cmd_DATASTORE_DELETE :: command where
  "cmd_DATASTORE_DELETE = \<lparr>cm_httpMethod = ''DELETE'', cm_params =
      [(''id'', arg from_resource (JNum (-1)))]\<rparr>"

definition cmd_DATASTORE_UPDATE :: command where
  "cmd_DATASTORE_UPDATE = \<lparr>cm_httpMethod = ''PUT'', cm_params =
      [(''id'', arg from_resource (JNum (-1))),
       (''template'', arg from_postBody (JStr [])),
       (''replace'', arg from_postBody (JNum 0))]\<rparr>"

definition cmd_DATASTORE_CHMOD :: command where
  "cmd_DATASTORE_CHMOD = \<lparr>cm_httpMethod = ''PUT'', cm_params =
      [(''id'', arg from_resource (JNum (-1))),
       (''ownerUse'', arg from_postBody (JNum (-1))),
       (''ownerManage'', arg from_postBody (JNum (-1))),
       (''ownerAdmin'', arg from_postBody (JNum (-1))),
       (''groupUse'', arg from_postBody (JNum (-1))),
       (''groupManage'', arg from_postBody (JNum (-1))),
       (''groupAdmin'', arg from_postBody (JNum (-1))),
       (''otherUse'', arg from_postBody (JNum (-1))),
       (''otherManage'', arg from_postBody (JNum (-1))),
       (''otherAdmin'', arg from_postBody (JNum (-1)))]\<rparr>"

definition cmd_DATASTORE_CHOWN :: command where
  "cmd_DATASTORE_CHOWN = \<lparr>cm_httpMethod = ''PUT'', cm_params =
      [(''id'', arg from_resource (JNum (-1))),
       (''user'', arg from_postBody (JNum (-1))),
       (''group'', arg from_postBody (JNum (-1)))]\<rparr>"

definition cmd_DATASTORE_RENAME :: command where
  "cmd_DATASTORE_RENAME = \<lparr>cm_httpMethod = ''PUT'', cm_params =
      [(''id'', arg from_resource (JNum (-1))),
       (''name'', arg from_postBody (JStr []))]\<rparr>"

definition cmd_DATASTORE_ENABLE :: command where
  "cmd_DATASTORE_ENABLE = \<lparr>cm_httpMethod = ''PUT'', cm_params =
      [(''id'', arg from_resource (JNum (-1))),
       (''enable'', arg from_postBody (JBool True))]\<rparr>"

definition cmd_DATASTORE_INFO :: command where
  "cmd_DATASTORE_INFO = \<lparr>cm_httpMethod = ''GET'', cm_params =
      [(''id'', arg from_resource (JNum (-1))),
       (''decrypt'', arg from_query (JBool False))]\<rparr>"

definition cmd_DATASTORE_POOL_INFO :: command where
  "cmd_DATASTORE_POOL_INFO = \<lparr>cm_httpMethod = ''GET'', cm_params =
      [(''zone'', arg from_query (JNum 0))]\<rparr>"

definition datastore_Commands :: command_table where
  "datastore_Commands = obj_literal
     [(''datastore.allocate'', cmd_DATASTORE_ALLOCATE),
      (''datastore.delete'', cmd_DATASTORE_DELETE),
      (''datastore.update'', cmd_DATASTORE_UPDATE),
      (''datastore.chmod'', cmd_DATASTORE_CHMOD),
      (''datastore.chown'', cmd_DATASTORE_CHOWN),
      (''datastore.rename'', cmd_DATASTORE_RENAME),
      (''datastore.enable'', cmd_DATASTORE_ENABLE),
      (''datastore.info'', cmd_DATASTORE_INFO),
      (''datastorepool.info'', cmd_DATASTORE_POOL_INFO)]"

lemmas datastore_Commands_defs = cmd_DATASTORE_ALLOCATE_def cmd_DATASTORE_DELETE_def cmd_DATASTORE_UPDATE_def cmd_DATASTORE_CHMOD_def cmd_DATASTORE_CHOWN_def cmd_DATASTORE_RENAME_def cmd_DATASTORE_ENABLE_def cmd_DATASTORE_INFO_def cmd_DATASTORE_POOL_INFO_def

section \<open>document.js\<close>

definition cmd_DOCUMENT_ALLOCATE :: command where
  "cmd_DOCUMENT_ALLOCATE = \<lparr>cm_httpMethod = ''POST'', cm_params =
      [(''template'', arg from_postBody (JStr [])),
       (''type'', arg from_postBody (JNum 0))]\<rparr>"

definition cmd_DOCUMENT_CLONE :: command where
  "cmd_DOCUMENT_CLONE = \<lparr>cm_httpMethod = ''POST'', cm_params =
      [(''id'', arg from_resource (JNum (-1))),
       (''name'', arg from_postBody (JStr []))]\<rparr>"

definition cmd_DOCUMENT_DELETE :: command where
  "cmd_DOCUMENT_DELETE = \<lparr>cm_httpMethod = ''DELETE'', cm_params =
      [(''id'', arg from_resource (JNum (-1)))]\<rparr>"

definition cmd_DOCUMENT_UPDATE :: command where
  "cmd_DOCUMENT_UPDATE = \<lparr>cm_httpMethod = ''PUT'', cm_params =
      [(''id'', arg from_resource (JNum (-1))),
       (''template'', arg from_postBody (JStr [])),
       (''replace'', arg from_postBody (JNum 0))]\<rparr>"

definition cmd_DOCUMENT_CHMOD :: command where
  "cmd_DOCUMENT_CHMOD = \<lparr>cm_httpMethod = ''PUT'', cm_params =
      [(''id'', arg from_resource (JNum (-1))),
       (''ownerUse'', arg from_postBody (JNum (-1))),
       (''ownerManage'', arg from_postBody (JNum (-1))),
       (''ownerAdmin'', arg from_postBody (JNum (-1))),
       (''groupUse'', arg from_postBody (JNum (-1))),
       (''groupManage'', arg from_postBody (JNum (-1))),
       (''groupAdmin'', arg from_postBody (JNum (-1))),
       (''otherUse'', arg from_postBody (JNum (-1))),
       (''otherManage'', arg from_postBody (JNum (-1))),
       (''otherAdmin'', arg from_postBody (JNum (-1)))]\<rparr>"

definition cmd_DOCUMENT_CHOWN :: command where
  "cmd_DOCUMENT_CHOWN = \<lparr>cm_httpMethod = ''PUT'', cm_params =
      [(''id'', arg from_resource (JNum (-1))),
       (''user'', arg from_postBody (JNum (-1))),
       (''group'', arg from_postBody (JNum (-1)))]\<rparr>"

definition cmd_DOCUMENT_RENAME :: command where
  "cmd_DOCUMENT_RENAME = \<lparr>cm_httpMethod = ''PUT'', cm_params =
      [(''id'', arg from_resource (JNum (-1))),
       (''name'', arg from_postBody (JStr []))]\<rparr>"

definition cmd_DOCUMENT_INFO :: command where
  "cmd_DOCUMENT_INFO = \<lparr>cm_httpMethod = ''GET'', cm_params =
      [(''id'', arg from_resource (JNum (-1))),
       (''decrypt'', arg from_query (JBool False))]\<rparr>"

definition cmd_DOCUMENT_LOCK :: command where
  "cmd_DOCUMENT_LOCK = \<lparr>cm_httpMethod = ''PUT'', cm_params =
      [(''id'', arg from_resource (JNum (-1))),
       (''lock'', arg from_postBody (JNum 4))]\<rparr>"

definition cmd_DOCUMENT_UNLOCK :: command where
  "cmd_DOCUMENT_UNLOCK = \<lparr>cm_httpMethod = ''PUT'', cm_params =
      [(''id'', arg from_resource (JNum (-1)))]\<rparr>"

definition cmd_DOCUMENT_POOL_INFO :: command where
  "cmd_DOCUMENT_POOL_INFO = \<lparr>cm_httpMethod = ''GET'', cm_params =
      [(''filter'', arg from_query (JNum (-2))),
       (''start'', arg from_query (JNum (-1))),
       (''end'', arg from_query (JNum (-1))),
       (''type'', arg from_query (JNum 100))]\<rparr>"

definition document_Commands :: command_table where
  "document_Commands = obj_literal
     [(''document.allocate'', cmd_DOCUMENT_ALLOCATE),
      (''document.clone'', cmd_DOCUMENT_CLONE),
      (''document.delete'', cmd_DOCUMENT_DELETE),
      (''document.update'', cmd_DOCUMENT_UPDATE),
      (''document.chmod'', cmd_DOCUMENT_CHMOD),
      (''document.chown'', cmd_DOCUMENT_CHOWN),
      (''document.rename'', cmd_DOCUMENT_RENAME),
      (''document.info'', cmd_DOCUMENT_INFO),
      (''document.lock'', cmd_DOCUMENT_LOCK),
      (''document.unlock'', cmd_DOCUMENT_UNLOCK),
      (''documentpool.info'', cmd_DOCUMENT_POOL_INFO)]"

lemmas document_Commands_defs = cmd_DOCUMENT_ALLOCATE_def cmd_DOCUMENT_CLONE_def cmd_DOCUMENT_DELETE_def cmd_DOCUMENT_UPDATE_def cmd_DOCUMENT_CHMOD_def cmd_DOCUMENT_CHOWN_def cmd_DOCUMENT_RENAME_def cmd_DOCUMENT_INFO_def cmd_DOCUMENT_LOCK_def cmd_DOCUMENT_UNLOCK_def cmd_DOCUMENT_POOL_INFO_def

section \<open>group.js\<close>

definition cmd_GROUP_ALLOCATE :: command where
  "cmd_GROUP_ALLOCATE = \<lparr>cm_httpMethod = ''POST'', cm_params =
      [(''name'', arg from_postBody (JStr []))]\<rparr>"

definition cmd_GROUP_DELETE :: command where
  "cmd_GROUP_DELETE = \<lparr>cm_httpMethod = ''DELETE'', cm_params =
      [(''id'', arg from_resource (JNum (-1)))]\<rparr>"

definition cmd_GROUP_INFO :: command where
  "cmd_GROUP_INFO = \<lparr>cm_httpMethod = ''GET'', cm_params =
      [(''id'', arg from_resource (JNum (-1))),
       (''decrypt'', arg from_query (JBool False))]\<rparr>"

definition cmd_GROUP_UPDATE :: command where
  "cmd_GROUP_UPDATE = \<lparr>cm_httpMethod = ''PUT'', cm_params =
      [(''id'', arg from_resource (JNum (-1))),
       (''template'', arg from_postBody (JStr [])),
       (''replace'', arg from_postBody (JNum 0))]\<rparr>"

definition cmd_GROUP_ADDADMIN :: command where
  "cmd_GROUP_ADDADMIN = \<lparr>cm_httpMethod = ''POST'', cm_params =
      [(''id'', arg from_resource (JNum (-1))),
       (''user'', arg from_postBody (JNum 0))]\<rparr>"

definition cmd_GROUP_DELADMIN :: command where
  "cmd_GROUP_DELADMIN = \<lparr>cm_httpMethod = ''DELETE'', cm_params =
      [(''id'', arg from_resource (JNum (-1))),
       (''user'', arg from_postBody (JNum 0))]\<rparr>"

definition cmd_GROUP_QUOTA :: command where
  "cmd_GROUP_QUOTA = \<lparr>cm_httpMethod = ''PUT'', cm_params =
      [(''id'', arg from_resource (JNum (-1))),
       (''template'', arg from_postBody (JStr []))]\<rparr>"

definition cmd_GROUP_POOL_INFO :: command where
  "cmd_GROUP_POOL_INFO = \<lparr>cm_httpMethod = ''GET'', cm_params =
      []\<rparr>"

definition cmd_GROUP_QUOTA_INFO :: command where
  "cmd_GROUP_QUOTA_INFO = \<lparr>cm_httpMethod = ''GET'', cm_params =
      []\<rparr>"

definition cmd_GROUP_QUOTA_UPDATE :: command where
  "cmd_GROUP_QUOTA_UPDATE = \<lparr>cm_httpMethod = ''PUT'', cm_params =
      [(''template'', arg from_postBody (JStr []))]\<rparr>"

definition group_Commands :: command_table where
  "group_Commands = obj_literal
     [(''group.allocate'', cmd_GROUP_ALLOCATE),
      (''group.delete'', cmd_GROUP_DELETE),
      (''group.info'', cmd_GROUP_INFO),
      (''group.update'', cmd_GROUP_UPDATE),
      (''group.addadmin'', cmd_GROUP_ADDADMIN),
      (''group.deladmin'', cmd_GROUP_DELADMIN),
      (''group.quota'', cmd_GROUP_QUOTA),
      (''grouppool.info'', cmd_GROUP_POOL_INFO),
      (''groupquota.info'', cmd_GROUP_QUOTA_INFO),
      (''groupquota.update'', cmd_GROUP_QUOTA_UPDATE)]"

lemmas group_Commands_defs = cmd_GROUP_ALLOCATE_def cmd_GROUP_DELETE_def cmd_GROUP_INFO_def cmd_GROUP_UPDATE_def cmd_GROUP_ADDADMIN_def cmd_GROUP_DELADMIN_def cmd_GROUP_QUOTA_def cmd_GROUP_POOL_INFO_def cmd_GROUP_QUOTA_INFO_def cmd_GROUP_QUOTA_UPDATE_def

section \<open>secgroup.js\<close>

definition cmd_SECGROUP_ALLOCATE :: command where
  "cmd_SECGROUP_ALLOCATE = \<lparr>cm_httpMethod = ''POST'', cm_params =
      [(''template'', arg from_postBody (JStr []))]\<rparr>"

definition cmd_SECGROUP_CLONE :: command where
  "cmd_SECGROUP_CLONE = \<lparr>cm_httpMethod = ''POST'', cm_params =
      [(''id'', arg from_resource (JNum (-1))),
       (''name'', arg from_postBody (JStr []))]\<rparr>"

definition cmd_SECGROUP_DELETE :: command where
  "cmd_SECGROUP_DELETE = \<lparr>cm_httpMethod = ''DELETE'', cm_params =
      [(''id'', arg from_resource (JNum (-1)))]\<rparr>"

definition cmd_SECGROUP_UPDATE :: command where
  "cmd_SECGROUP_UPDATE = \<lparr>cm_httpMethod = ''PUT'', cm_params =
      [(''id'', arg from_resource (JNum (-1))),
       (''template'', arg from_postBody (JStr [])),
       (''replace'', arg from_postBody (JNum 0))]\<rparr>"

definition cmd_SECGROUP_COMMIT :: command where
  "cmd_SECGROUP_COMMIT = \<lparr>cm_httpMethod = ''PUT'', cm_params =
      [(''id'', arg from_resource (JNum (-1))),
       (''recover'', arg from_postBody (JBool False))]\<rparr>"

definition cmd_SECGROUP_CHMOD :: command where
  "cmd_SECGROUP_CHMOD = \<lparr>cm_httpMethod = ''PUT'', cm_params =
      [(''id'', arg from_resource (JNum (-1))),
       (''ownerUse'', arg from_postBody (JNum (-1))),
       (''ownerManage'', arg from_postBody (JNum (-1))),
       (''ownerAdmin'', arg from_postBody (JNum (-1))),
       (''groupUse'', arg from_postBody (JNum (-1))),
       (''groupManage'', arg from_postBody (JNum (-1))),
       (''groupAdmin'', arg from_postBody (JNum (-1))),
       (''otherUse'', arg from_postBody (JNum (-1))),
       (''otherManage'', arg from_postBody (JNum (-1))),
       (''otherAdmin'', arg from_postBody (JNum (-1)))]\<rparr>"

definition cmd_SECGROUP_CHOWN :: command where
  "cmd_SECGROUP_CHOWN = \<lparr>cm_httpMethod = ''PUT'', cm_params =
      [(''id'', arg from_resource (JNum (-1))),
       (''user'', arg from_postBody (JNum (-1))),
       (''group'', arg from_postBody (JNum (-1)))]\<rparr>"

definition cmd_SECGROUP_RENAME :: command where
  "cmd_SECGROUP_RENAME = \<lparr>cm_httpMethod = ''PUT'', cm_params =
      [(''id'', arg from_resource (JNum (-1))),
       (''name'', arg from_postBody (JStr []))]\<rparr>"

definition cmd_SECGROUP_INFO :: command where
  "cmd_SECGROUP_INFO = \<lparr>cm_httpMethod = ''GET'', cm_params =
      [(''id'', arg from_resource (JNum (-1))),
       (''decrypt'', arg from_query (JBool False))]\<rparr>"

definition cmd_SECGROUP_POOL_INFO :: command where
  "cmd_SECGROUP_POOL_INFO = \<lparr>cm_httpMethod = ''GET'', cm_params =
      [(''filter'', arg from_query (JNum (-2))),
       (''start'', arg from_query (JNum (-1))),
       (''end'', arg from_query (JNum (-1)))]\<rparr>"

definition secgroup_Commands :: command_table where
  "secgroup_Commands = obj_literal
     [(''secgroup.allocate'', cmd_SECGROUP_ALLOCATE),
      (''secgroup.clone'', cmd_SECGROUP_CLONE),
      (''secgroup.delete'', cmd_SECGROUP_DELETE),
      (''secgroup.update'', cmd_SECGROUP_UPDATE),
      (''secgroup.commit'', cmd_SECGROUP_COMMIT),
      (''secgroup.chmod'', cmd_SECGROUP_CHMOD),
      (''secgroup.chown'', cmd_SECGROUP_CHOWN),
      (''secgroup.rename'', cmd_SECGROUP_RENAME),
      (''secgroup.info'', cmd_SECGROUP_INFO),
      (''secgrouppool.info'', cmd_SECGROUP_POOL_INFO)]"

lemmas secgroup_Commands_defs = cmd_SECGROUP_ALLOCATE_def cmd_SECGROUP_CLONE_def cmd_SECGROUP_DELETE_def cmd_SECGROUP_UPDATE_def cmd_SECGROUP_COMMIT_def cmd_SECGROUP_CHMOD_def cmd_SECGROUP_CHOWN_def cmd_SECGROUP_RENAME_def cmd_SECGROUP_INFO_def cmd_SECGROUP_POOL_INFO_def

section \<open>hook.js\<close>

definition cmd_HOOK_ALLOCATE :: command where
  "cmd_HOOK_ALLOCATE = \<lparr>cm_httpMethod = ''POST'', cm_params =
      [(''template'', arg from_postBody (JStr []))]\<rparr>"

definition cmd_HOOK_DELETE :: command where
  "cmd_HOOK_DELETE = \<lparr>cm_httpMethod = ''DELETE'', cm_params =
      [(''id'', arg from_resource (JNum (-1)))]\<rparr>"

definition cmd_HOOK_DELETE_again :: command where
  "cmd_HOOK_DELETE_again = \<lparr>cm_httpMethod = ''PUT'', cm_params =
      [(''id'', arg from_resource (JNum (-1))),
       (''template'', arg from_postBody (JStr [])),
       (''replace'', arg from_postBody (JNum 0))]\<rparr>"

definition cmd_HOOK_RENAME :: command where
  "cmd_HOOK_RENAME = \<lparr>cm_httpMethod = ''PUT'', cm_params =
      [(''id'', arg from_resource (JNum (-1))),
       (''name'', arg from_postBody (JStr []))]\<rparr>"

definition cmd_HOOK_INFO :: command where
  "cmd_HOOK_INFO = \<lparr>cm_httpMethod = ''GET'', cm_params =
      [(''id'', arg from_resource (JNum (-1))),
       (''decrypt'', arg from_query (JBool False))]\<rparr>"

definition cmd_HOOK_LOCK :: command where
  "cmd_HOOK_LOCK = \<lparr>cm_httpMethod = ''PUT'', cm_params =
      [(''id'', arg from_resource (JNum (-1))),
       (''lock'', arg from_postBody (JNum 4))]\<rparr>"

definition cmd_HOOK_UNLOCK :: command where
  "cmd_HOOK_UNLOCK = \<lparr>cm_httpMethod = ''PUT'', cm_params =
      [(''id'', arg from_resource (JNum (-1)))]\<rparr>"

definition cmd_HOOK_RETRY :: command where
  "cmd_HOOK_RETRY = \<lparr>cm_httpMethod = ''POST'', cm_params =
      [(''id'', arg from_resource (JNum (-1))),
       (''execution'', arg from_postBody (JNum 0))]\<rparr>"

definition cmd_HOOK_POOL_INFO :: command where
  "cmd_HOOK_POOL_INFO = \<lparr>cm_httpMethod = ''GET'', cm_params =
      [(''filter'', arg from_query (JNum (-2))),
       (''start'', arg from_query (JNum (-1))),
       (''end'', arg from_query (JNum (-1)))]\<rparr>"

definition cmd_HOOK_LOG_INFO :: command where
  "cmd_HOOK_LOG_INFO = \<lparr>cm_httpMethod = ''GET'', cm_params =
      [(''minimun'', arg from_postBody (JStr [])),
       (''maximun'', arg from_postBody (JStr [])),
       (''id'', arg from_postBody (JStr [])),
       (''execution'', arg from_postBody (JNum 0))]\<rparr>"

definition hook_Commands :: command_table where
  "hook_Commands = obj_literal
     [(''hook.allocate'', cmd_HOOK_ALLOCATE),
      (''hook.delete'', cmd_HOOK_DELETE),
      (''hook.delete'', cmd_HOOK_DELETE_again),
      (''hook.rename'', cmd_HOOK_RENAME),
      (''hook.info'', cmd_HOOK_INFO),
      (''hook.lock'', cmd_HOOK_LOCK),
      (''hook.unlock'', cmd_HOOK_UNLOCK),
      (''hook.retry'', cmd_HOOK_RETRY),
      (''hookpool.info'', cmd_HOOK_POOL_INFO),
      (''hooklog.info'', cmd_HOOK_LOG_INFO)]"

lemmas hook_Commands_defs = cmd_HOOK_ALLOCATE_def cmd_HOOK_DELETE_def cmd_HOOK_DELETE_again_def cmd_HOOK_RENAME_def cmd_HOOK_INFO_def cmd_HOOK_LOCK_def cmd_HOOK_UNLOCK_def cmd_HOOK_RETRY_def cmd_HOOK_POOL_INFO_def cmd_HOOK_LOG_INFO_def

section \<open>host.js\<close>

definition cmd_HOST_ALLOCATE :: command where
  "cmd_HOST_ALLOCATE = \<lparr>cm_httpMethod = ''PUT'', cm_params =
      [(''hostname'', arg from_postBody (JStr [])),
       (''imMad'', arg from_postBody (JStr [])),
       (''vmmMad'', arg from_postBody (JStr [])),
       (''cluster'', arg from_postBody (JNum (-1)))]\<rparr>"

definition cmd_HOST_DELETE :: command where
  "cmd_HOST_DELETE = \<lparr>cm_httpMethod = ''DELETE'', cm_params =
      [(''id'', arg from_resource (JNum (-1)))]\<rparr>"

definition cmd_HOST_STATUS :: command where
  "cmd_HOST_STATUS = \<lparr>cm_httpMethod = ''PUT'', cm_params =
      [(''id'', arg from_resource (JNum (-1))),
       (''status'', arg from_postBody (JNum 0))]\<rparr>"

definition cmd_HOST_UPDATE :: command where
  "cmd_HOST_UPDATE = \<lparr>cm_httpMethod = ''PUT'', cm_params =
      [(''id'', arg from_resource (JNum (-1))),
       (''template'', arg from_postBody (JStr [])),
       (''replace'', arg from_postBody (JNum 0))]\<rparr>"

definition cmd_HOST_RENAME :: command where
  "cmd_HOST_RENAME = \<lparr>cm_httpMethod = ''PUT'', cm_params =
      [(''id'', arg from_resource (JNum (-1))),
       (''name'', arg from_postBody (JStr []))]\<rparr>"

definition cmd_HOST_INFO :: command where
  "cmd_HOST_INFO = \<lparr>cm_httpMethod = ''GET'', cm_params =
      [(''id'', arg from_resource (JNum (-1))),
       (''decrypt'', arg from_query (JBool False))]\<rparr>"

definition cmd_HOST_MONITORING :: command where
  "cmd_HOST_MONITORING = \<lparr>cm_httpMethod = ''GET'', cm_params =
      [(''id'', arg from_resource (JNum (-1)))]\<rparr>"

definition cmd_HOST_POOL_INFO :: command where
  "cmd_HOST_POOL_INFO = \<lparr>cm_httpMethod = ''GET'', cm_params =
      [(''zone'', arg from_query (JNum 0))]\<rparr>"

definition cmd_HOST_POOL_MONITORING :: command where
  "cmd_HOST_POOL_MONITORING = \<lparr>cm_httpMethod = ''GET'', cm_params =
      [(''seconds'', arg from_query (JNum (-1)))]\<rparr>"

definition host_Commands :: command_table where
  "host_Commands = obj_literal
     [(''host.allocate'', cmd_HOST_ALLOCATE),
      (''host.delete'', cmd_HOST_DELETE),
      (''host.status'', cmd_HOST_STATUS),
      (''host.update'', cmd_HOST_UPDATE),
      (''host.rename'', cmd_HOST_RENAME),
      (''host.info'', cmd_HOST_INFO),
      (''host.monitoring'', cmd_HOST_MONITORING),
      (''hostpool.info'', cmd_HOST_POOL_INFO),
      (''hostpool.monitoring'', cmd_HOST_POOL_MONITORING)]"

lemmas host_Commands_defs = cmd_HOST_ALLOCATE_def cmd_HOST_DELETE_def cmd_HOST_STATUS_def cmd_HOST_UPDATE_def cmd_HOST_RENAME_def cmd_HOST_INFO_def cmd_HOST_MONITORING_def cmd_HOST_POOL_INFO_def cmd_HOST_POOL_MONITORING_def

section \<open>image.js\<close>

definition cmd_IMAGE_ALLOCATE :: command where
  "cmd_IMAGE_ALLOCATE = \<lparr>cm_httpMethod = ''POST'', cm_params =
      [(''template'', arg from_postBody (JStr [])),
       (''datastore'', arg from_postBody (JNum 0)),
       (''capacity'', arg from_postBody (JBool False))]\<rparr>"

definition cmd_IMAGE_CLONE :: command where
  "cmd_IMAGE_CLONE = \<lparr>cm_httpMethod = ''POST'', cm_params =
      [(''id'', arg from_resource (JNum (-1))),
       (''name'', arg from_postBody (JStr [])),
       (''datastore'', arg from_postBody (JNum (-1)))]\<rparr>"

definition cmd_IMAGE_DELETE :: command where
  "cmd_IMAGE_DELETE = \<lparr>cm_httpMethod = ''DELETE'', cm_params =
      [(''id'', arg from_resource (JNum (-1))),
       (''force'', arg from_postBody (JBool False))]\<rparr>"

definition cmd_IMAGE_ENABLE :: command where
  "cmd_IMAGE_ENABLE = \<lparr>cm_httpMethod = ''PUT'', cm_params =
      [(''id'', arg from_resource (JNum (-1))),
       (''enable'', arg from_postBody (JBool True))]\<rparr>"

definition cmd_IMAGE_PERSISTENT :: command where
  "cmd_IMAGE_PERSISTENT = \<lparr>cm_httpMethod = ''PUT'', cm_params =
      [(''id'', arg from_resource (JNum (-1))),
       (''persistent'', arg from_postBody (JBool True))]\<rparr>"

definition cmd_IMAGE_CHTYPE :: command where
  "cmd_IMAGE_CHTYPE = \<lparr>cm_httpMethod = ''PUT'', cm_params =
      [(''id'', arg from_resource (JNum (-1))),
       (''type'', arg from_postBody (JStr []))]\<rparr>"

definition cmd_IMAGE_UPDATE :: command where
  "cmd_IMAGE_UPDATE = \<lparr>cm_httpMethod = ''PUT'', cm_params =
      [(''id'', arg from_resource (JNum (-1))),
       (''template'', arg from_postBody (JStr [])),
       (''replace'', arg from_postBody (JNum 0))]\<rparr>"

definition cmd_IMAGE_CHMOD :: command where
  "cmd_IMAGE_CHMOD = \<lparr>cm_httpMethod = ''PUT'', cm_params =
      [(''id'', arg from_resource (JNum (-1))),
       (''ownerUse'', arg from_postBody (JNum (-1))),
       (''ownerManage'', arg from_postBody (JNum (-1))),
       (''ownerAdmin'', arg from_postBody (JNum (-1))),
       (''groupUse'', arg from_postBody (JNum (-1))),
       (''groupManage'', arg from_postBody (JNum (-1))),
       (''groupAdmin'', arg from_postBody (JNum (-1))),
       (''otherUse'', arg from_postBody (JNum (-1))),
       (''otherManage'', arg from_postBody (JNum (-1))),
       (''otherAdmin'', arg from_postBody (JNum (-1)))]\<rparr>"

definition cmd_IMAGE_CHOWN :: command where
  "cmd_IMAGE_CHOWN = \<lparr>cm_httpMethod = ''PUT'', cm_params =
      [(''id'', arg from_resource (JNum (-1))),
       (''user'', arg from_postBody (JNum (-1))),
       (''group'', arg from_postBody (JNum (-1)))]\<rparr>"

definition cmd_IMAGE_RENAME :: command where
  "cmd_IMAGE_RENAME = \<lparr>cm_httpMethod = ''PUT'', cm_params =
      [(''id'', arg from_resource (JNum (-1))),
       (''name'', arg from_postBody (JStr []))]\<rparr>"

definition cmd_IMAGE_SNAPDEL :: command where
  "cmd_IMAGE_SNAPDEL = \<lparr>cm_httpMethod = ''DELETE'', cm_params =
      [(''id'', arg from_resource (JNum (-1))),
       (''snapshot'', arg from_postBody (JNum 0))]\<rparr>"

definition cmd_IMAGE_SNAPREV :: command where
  "cmd_IMAGE_SNAPREV = \<lparr>cm_httpMethod = ''PUT'', cm_params =
      [(''id'', arg from_resource (JNum (-1))),
       (''snapshot'', arg from_postBody (JNum 0))]\<rparr>"

definition cmd_IMAGE_SNAPFLAT :: command where
  "cmd_IMAGE_SNAPFLAT = \<lparr>cm_httpMethod = ''PUT'', cm_params =
      [(''id'', arg from_resource (JNum (-1))),
       (''snapshot'', arg from_postBody (JNum 0))]\<rparr>"

definition cmd_IMAGE_INFO :: command where
  "cmd_IMAGE_INFO = \<lparr>cm_httpMethod = ''GET'', cm_params =
      [(''id'', arg from_resource (JNum (-1))),
       (''decrypt'', arg from_query (JBool False))]\<rparr>"

definition cmd_IMAGE_LOCK :: command where
  "cmd_IMAGE_LOCK = \<lparr>cm_httpMethod = ''PUT'', cm_params =
      [(''id'', arg from_resource (JNum (-1))),
       (''lock'', arg from_postBody (JNum 4))]\<rparr>"

definition cmd_IMAGE_UNLOCK :: command where
  "cmd_IMAGE_UNLOCK = \<lparr>cm_httpMethod = ''PUT'', cm_params =
      [(''id'', arg from_resource (JNum (-1)))]\<rparr>"

definition cmd_IMAGE_RESTORE :: command where
  "cmd_IMAGE_RESTORE = \<lparr>cm_httpMethod = ''POST'', cm_params =
      [(''id'', arg from_resource (JNum (-1))),
       (''datastore'', arg from_postBody (JNum (-1))),
       (''options'', arg from_postBody (JStr []))]\<rparr>"

definition cmd_IMAGE_POOL_INFO :: command where
  "cmd_IMAGE_POOL_INFO = \<lparr>cm_httpMethod = ''GET'', cm_params =
      [(''filter'', arg from_query (JNum (-2))),
       (''start'', arg from_query (JNum (-1))),
       (''end'', arg from_query (JNum (-1)))]\<rparr>"

definition image_Commands :: command_table where
  "image_Commands = obj_literal
     [(''image.allocate'', cmd_IMAGE_ALLOCATE),
      (''image.clone'', cmd_IMAGE_CLONE),
      (''image.delete'', cmd_IMAGE_DELETE),
      (''image.enable'', cmd_IMAGE_ENABLE),
      (''image.persistent'', cmd_IMAGE_PERSISTENT),
      (''image.chtype'', cmd_IMAGE_CHTYPE),
      (''image.update'', cmd_IMAGE_UPDATE),
      (''image.chmod'', cmd_IMAGE_CHMOD),
      (''image.chown'', cmd_IMAGE_CHOWN),
      (''image.rename'', cmd_IMAGE_RENAME),
      (''image.snapshotdelete'', cmd_IMAGE_SNAPDEL),
      (''image.snapshotrevert'', cmd_IMAGE_SNAPREV),
      (''image.snapshotflatten'', cmd_IMAGE_SNAPFLAT),
      (''image.info'', cmd_IMAGE_INFO),
      (''image.lock'', cmd_IMAGE_LOCK),
      (''image.unlock'', cmd_IMAGE_UNLOCK),
      (''image.restore'', cmd_IMAGE_RESTORE),
      (''imagepool.info'', cmd_IMAGE_POOL_INFO)]"

lemmas image_Commands_defs = cmd_IMAGE_ALLOCATE_def cmd_IMAGE_CLONE_def cmd_IMAGE_DELETE_def cmd_IMAGE_ENABLE_def cmd_IMAGE_PERSISTENT_def cmd_IMAGE_CHTYPE_def cmd_IMAGE_UPDATE_def cmd_IMAGE_CHMOD_def cmd_IMAGE_CHOWN_def cmd_IMAGE_RENAME_def cmd_IMAGE_SNAPDEL_def cmd_IMAGE_SNAPREV_def cmd_IMAGE_SNAPFLAT_def cmd_IMAGE_INFO_def cmd_IMAGE_LOCK_def cmd_IMAGE_UNLOCK_def cmd_IMAGE_RESTORE_def cmd_IMAGE_POOL_INFO_def

section \<open>Well-formedness\<close>

lemma acl_Commands_ok [command_tables]: "list_all command_ok acl_Commands"
  unfolding acl_Commands_def
  by (rule list_all_obj_literal)
     (simp add: command_ok_def acl_Commands_defs arg_def array_arg_def httpMethods_def)

lemma backupjobs_Commands_ok [command_tables]: "list_all command_ok backupjobs_Commands"
  unfolding backupjobs_Commands_def
  by (rule list_all_obj_literal)
     (simp add: command_ok_def backupjobs_Commands_defs arg_def array_arg_def httpMethods_def)

lemma cluster_Commands_ok [command_tables]: "list_all command_ok cluster_Commands"
  unfolding cluster_Commands_def
  by (rule list_all_obj_literal)
     (simp add: command_ok_def cluster_Commands_defs arg_def array_arg_def httpMethods_def)

lemma datastore_Commands_ok [command_tables]: "list_all command_ok datastore_Commands"
  unfolding datastore_Commands_def
  by (rule list_all_obj_literal)
     (simp add: command_ok_def datastore_Commands_defs arg_def array_arg_def httpMethods_def)

lemma document_Commands_ok [command_tables]: "list_all command_ok document_Commands"
  unfolding document_Commands_def
  by (rule list_all_obj_literal)
     (simp add: command_ok_def document_Commands_defs arg_def array_arg_def httpMethods_def)

lemma group_Commands_ok [command_tables]: "list_all command_ok group_Commands"
  unfolding group_Commands_def
  by (rule list_all_obj_literal)
     (simp add: command_ok_def group_Commands_defs arg_def array_arg_def httpMethods_def)

lemma secgroup_Commands_ok [command_tables]: "list_all command_ok secgroup_Commands"
  unfolding secgroup_Commands_def
  by (rule list_all_obj_literal)
     (simp add: command_ok_def secgroup_Commands_defs arg_def array_arg_def httpMethods_def)

lemma hook_Commands_ok [command_tables]: "list_all command_ok hook_Commands"
  unfolding hook_Commands_def
  by (rule list_all_obj_literal)
     (simp add: command_ok_def hook_Commands_defs arg_def array_arg_def httpMethods_def)

lemma host_Commands_ok [command_tables]: "list_all command_ok host_Commands"
  unfolding host_Commands_def
  by (rule list_all_obj_literal)
     (simp add: command_ok_def host_Commands_defs arg_def array_arg_def httpMethods_def)

lemma image_Commands_ok [command_tables]: "list_all command_ok image_Commands"
  unfolding image_Commands_def
  by (rule list_all_obj_literal)
     (simp add: command_ok_def image_Commands_defs arg_def array_arg_def httpMethods_def)

end
