(* ===== verification/Commands_B.thy ===== *)
theory Commands_B
  imports Command_Base
begin

text \<open>
  The command tables of \<open>server/utils/constants/commands\<close> for
  market, marketapp, system, template, user, vdc,
  one definition per command, in the order of the files, and their well-formedness.
\<close>

section \<open>market.js\<close>

definition cmd_MARKET_ALLOCATE :: command where
  "cmd_MARKET_ALLOCATE = \<lparr>cm_httpMethod = ''POST'', cm_params =
      [(''template'', arg from_postBody (JStr []))]\<rparr>"

definition cmd_MARKET_DELETE :: command where
  "cmd_MARKET_DELETE = \<lparr>cm_httpMethod = ''DELETE'', cm_params =
      [(''id'', arg from_resource (JNum (-1)))]\<rparr>"

definition cmd_MARKET_UPDATE :: command where
  "cmd_MARKET_UPDATE = \<lparr>cm_httpMethod = ''PUT'', cm_params =
      [(''id'', arg from_resource (JNum (-1))),
       (''template'', arg from_postBody (JStr [])),
       (''update'', arg from_postBody (JNum 0))]\<rparr>"

definition cmd_MARKET_CHMOD :: command where
  "cmd_MARKET_CHMOD = \<lparr>cm_httpMethod = ''PUT'', cm_params =
      [(''id'', arg from_resource (JNum (-1))),
       (''ownerUse'', arg from_postBody (JNum (-1))),
       (''ownerManage'', arg from_postBody (JNum (-1))),
       (''ownerAdmin'', arg from_postBody (JNum (-1))),
       (''groupUse'', arg from_postBody (JNum (-1))),
       (''groupManage'', arg from_postBody (JNum (-1))),
       (''groupAdmin'', arg from_postBody (JNum (-1))),
       (''otherUse'', arg from_postBody (JNum (-1))),
       (''otherManage'', arg from_postBody (JNum (-1))),
       (''otherAdmin'', arg from_postBody (JNum (-1)))]\<rparr>"

definition cmd_MARKET_CHOWN :: command where
  "cmd_MARKET_CHOWN = \<lparr>cm_httpMethod = ''PUT'', cm_params =
      [(''id'', arg from_resource (JNum (-1))),
       (''user'', arg from_postBody (JNum (-1))),
       (''group'', arg from_postBody (JNum (-1)))]\<rparr>"

definition cmd_MARKET_RENAME :: command where
  "cmd_MARKET_RENAME = \<lparr>cm_httpMethod = ''PUT'', cm_params =
      [(''id'', arg from_resource (JNum (-1))),
       (''name'', arg from_postBody (JStr []))]\<rparr>"

definition cmd_MARKET_ENABLE :: command where
  "cmd_MARKET_ENABLE = \<lparr>cm_httpMethod = ''PUT'', cm_params =
      [(''id'', arg from_resource (JNum (-1))),
       (''enable'', arg from_postBody (JBool True))]\<rparr>"

definition cmd_MARKET_INFO :: command where
  "cmd_MARKET_INFO = \<lparr>cm_httpMethod = ''GET'', cm_params =
      [(''id'', arg from_resource (JNum (-1))),
       (''decrypt'', arg from_query (JBool False))]\<rparr>"

definition cmd_MARKET_POOL_INFO :: command where
  "cmd_MARKET_POOL_INFO = \<lparr>cm_httpMethod = ''GET'', cm_params =
      []\<rparr>"

definition market_Commands :: command_table where
  "market_Commands = obj_literal
     [(''market.allocate'', cmd_MARKET_ALLOCATE),
      (''market.delete'', cmd_MARKET_DELETE),
      (''market.update'', cmd_MARKET_UPDATE),
      (''market.chmod'', cmd_MARKET_CHMOD),
      (''market.chown'', cmd_MARKET_CHOWN),
      (''market.rename'', cmd_MARKET_RENAME),
      (''market.enable'', cmd_MARKET_ENABLE),
      (''market.info'', cmd_MARKET_INFO),
      (''marketpool.info'', cmd_MARKET_POOL_INFO)]"

lemmas market_Commands_defs = cmd_MARKET_ALLOCATE_def cmd_MARKET_DELETE_def cmd_MARKET_UPDATE_def cmd_MARKET_CHMOD_def cmd_MARKET_CHOWN_def cmd_MARKET_RENAME_def cmd_MARKET_ENABLE_def cmd_MARKET_INFO_def cmd_MARKET_POOL_INFO_def

section \<open>marketapp.js\<close>

definition cmd_MARKETAPP_ALLOCATE :: command where
  "cmd_MARKETAPP_ALLOCATE = \<lparr>cm_httpMethod = ''PUT'', cm_params =
      [(''template'', arg from_postBody (JStr [])),
       (''id'', arg from_resource (JNum (-1)))]\<rparr>"

definition cmd_MARKETAPP_DELETE :: command where
  "cmd_MARKETAPP_DELETE = \<lparr>cm_httpMethod = ''DELETE'', cm_params =
      [(''id'', arg from_resource (JNum (-1)))]\<rparr>"

definition cmd_MARKETAPP_ENABLE :: command where
  "cmd_MARKETAPP_ENABLE = \<lparr>cm_httpMethod = ''PUT'', cm_params =
      [(''id'', arg from_resource (JNum (-1))),
       (''enable'', arg from_postBody (JBool True))]\<rparr>"

definition cmd_MARKETAPP_UPDATE :: command where
  "cmd_MARKETAPP_UPDATE = \<lparr>cm_httpMethod = ''PUT'', cm_params =
      [(''id'', arg from_resource (JNum (-1))),
       (''template'', arg from_postBody (JStr [])),
       (''replace'', arg from_postBody (JNum 0))]\<rparr>"

definition cmd_MARKETAPP_CHMOD :: command where
  "cmd_MARKETAPP_CHMOD = \<lparr>cm_httpMethod = ''PUT'', cm_params =
      [(''id'', arg from_resource (JNum (-1))),
       (''ownerUse'', arg from_postBody (JNum (-1))),
       (''ownerManage'', arg from_postBody (JNum (-1))),
       (''ownerAdmin'', arg from_postBody (JNum (-1))),
       (''groupUse'', arg from_postBody (JNum (-1))),
       (''groupManage'', arg from_postBody (JNum (-1))),
       (''groupAdmin'', arg from_postBody (JNum (-1))),
       (''otherUse'', arg from_postBody (JNum (-1))),
       (''otherManage'', arg from_postBody (JNum (-1))),
       (''otherAdmin'', arg from_postBody (JNum (-1)))]\<rparr>"

definition cmd_MARKETAPP_CHOWN :: command where
  "cmd_MARKETAPP_CHOWN = \<lparr>cm_httpMethod = ''PUT'', cm_params =
      [(''id'', arg from_resource (JNum (-1))),
       (''user'', arg from_postBody (JNum (-1))),
       (''group'', arg from_postBody (JNum (-1)))]\<rparr>"

definition cmd_MARKETAPP_RENAME :: command where
  "cmd_MARKETAPP_RENAME = \<lparr>cm_httpMethod = ''PUT'', cm_params =
      [(''id'', arg from_resource (JNum (-1))),
       (''name'', arg from_postBody (JStr []))]\<rparr>"

definition cmd_MARKETAPP_INFO :: command where
  "cmd_MARKETAPP_INFO = \<lparr>cm_httpMethod = ''GET'', cm_params =
      [(''id'', arg from_resource (JNum (-1)))]\<rparr>"

definition cmd_MARKETAPP_LOCK :: command where
  "cmd_MARKETAPP_LOCK = \<lparr>cm_httpMethod = ''PUT'', cm_params =
      [(''id'', arg from_resource (JNum (-1))),
       (''lock'', arg from_postBody (JNum 4))]\<rparr>"

definition cmd_MARKETAPP_UNLOCK :: command where
  "cmd_MARKETAPP_UNLOCK = \<lparr>cm_httpMethod = ''PUT'', cm_params =
      [(''id'', arg from_resource (JNum (-1)))]\<rparr>"

definition cmd_MARKETAPP_POOL_INFO :: command where
  "cmd_MARKETAPP_POOL_INFO = \<lparr>cm_httpMethod = ''GET'', cm_params =
      [(''filter'', arg from_query (JNum (-2))),
       (''start'', arg from_query (JNum (-1))),
       (''end'', arg from_query (JNum (-1)))]\<rparr>"

definition marketapp_Commands :: command_table where
  "marketapp_Commands = obj_literal
     [(''marketapp.allocate'', cmd_MARKETAPP_ALLOCATE),
      (''marketapp.delete'', cmd_MARKETAPP_DELETE),
      (''marketapp.enable'', cmd_MARKETAPP_ENABLE),
      (''marketapp.update'', cmd_MARKETAPP_UPDATE),
      (''marketapp.chmod'', cmd_MARKETAPP_CHMOD),
      (''marketapp.chown'', cmd_MARKETAPP_CHOWN),
      (''marketapp.rename'', cmd_MARKETAPP_RENAME),
      (''marketapp.info'', cmd_MARKETAPP_INFO),
      (''marketapp.lock'', cmd_MARKETAPP_LOCK),
      (''marketapp.unlock'', cmd_MARKETAPP_UNLOCK),
      (''marketapppool.info'', cmd_MARKETAPP_POOL_INFO)]"

lemmas marketapp_Commands_defs = cmd_MARKETAPP_ALLOCATE_def cmd_MARKETAPP_DELETE_def cmd_MARKETAPP_ENABLE_def cmd_MARKETAPP_UPDATE_def cmd_MARKETAPP_CHMOD_def cmd_MARKETAPP_CHOWN_def cmd_MARKETAPP_RENAME_def cmd_MARKETAPP_INFO_def cmd_MARKETAPP_LOCK_def cmd_MARKETAPP_UNLOCK_def cmd_MARKETAPP_POOL_INFO_def

section \<open>system.js\<close>

definition cmd_SYSTEM_VERSION :: command where
  "cmd_SYSTEM_VERSION = \<lparr>cm_httpMethod = ''GET'', cm_params =
      []\<rparr>"

definition cmd_SYSTEM_CONFIG :: command where
  "cmd_SYSTEM_CONFIG = \<lparr>cm_httpMethod = ''GET'', cm_params =
      []\<rparr>"

definition system_Commands :: command_table where
  "system_Commands = obj_literal
     [(''system.version'', cmd_SYSTEM_VERSION),
      (''system.config'', cmd_SYSTEM_CONFIG)]"

lemmas system_Commands_defs = cmd_SYSTEM_VERSION_def cmd_SYSTEM_CONFIG_def

section \<open>template.js\<close>

definition cmd_TEMPLATE_ALLOCATE :: command where
  "cmd_TEMPLATE_ALLOCATE = \<lparr>cm_httpMethod = ''PUT'', cm_params =
      [(''template'', arg from_postBody (JStr []))]\<rparr>"

definition cmd_TEMPLATE_CLONE :: command where
  "cmd_TEMPLATE_CLONE = \<lparr>cm_httpMethod = ''POST'', cm_params =
      [(''id'', arg from_resource (JNum (-1))),
       (''name'', arg from_postBody (JStr [])),
       (''image'', arg from_postBody (JBool False))]\<rparr>"

definition cmd_TEMPLATE_DELETE :: command where
  "cmd_TEMPLATE_DELETE = \<lparr>cm_httpMethod = ''DELETE'', cm_params =
      [(''id'', arg from_resource (JNum (-1))),
       (''image'', arg from_query (JBool False))]\<rparr>"

definition cmd_TEMPLATE_INSTANTIATE :: command where
  "cmd_TEMPLATE_INSTANTIATE = \<lparr>cm_httpMethod = ''PUT'', cm_params =
      [(''id'', arg from_resource (JNum (-1))),
       (''name'', arg from_postBody (JStr [])),
       (''hold'', arg from_postBody (JBool False)),
       (''template'', arg from_postBody (JStr [])),
       (''persistent'', arg from_postBody (JBool False))]\<rparr>"

definition cmd_TEMPLATE_UPDATE :: command where
  "cmd_TEMPLATE_UPDATE = \<lparr>cm_httpMethod = ''PUT'', cm_params =
      [(''id'', arg from_resource (JNum (-1))),
       (''template'', arg from_postBody (JStr [])),
       (''replace'', arg from_postBody (JNum 0))]\<rparr>"

definition cmd_TEMPLATE_CHMOD :: command where
  "cmd_TEMPLATE_CHMOD = \<lparr>cm_httpMethod = ''PUT'', cm_params =
      [(''id'', arg from_resource (JNum (-1))),
       (''ownerUse'', arg from_postBody (JNum (-1))),
       (''ownerManage'', arg from_postBody (JNum (-1))),
       (''ownerAdmin'', arg from_postBody (JNum (-1))),
       (''groupUse'', arg from_postBody (JNum (-1))),
       (''groupManage'', arg from_postBody (JNum (-1))),
       (''groupAdmin'', arg from_postBody (JNum (-1))),
       (''otherUse'', arg from_postBody (JNum (-1))),
       (''otherManage'', arg from_postBody (JNum (-1))),
       (''otherAdmin'', arg from_postBody (JNum (-1))),
       (''image'', arg from_postBody (JBool False))]\<rparr>"

definition cmd_TEMPLATE_CHOWN :: command where
  "cmd_TEMPLATE_CHOWN = \<lparr>cm_httpMethod = ''PUT'', cm_params =
      [(''id'', arg from_resource (JNum (-1))),
       (''user'', arg from_postBody (JNum (-1))),
       (''group'', arg from_postBody (JNum (-1)))]\<rparr>"

definition cmd_TEMPLATE_RENAME :: command where
  "cmd_TEMPLATE_RENAME = \<lparr>cm_httpMethod = ''PUT'', cm_params =
      [(''id'', arg from_resource (JNum (-1))),
       (''name'', arg from_postBody (JStr []))]\<rparr>"

definition cmd_TEMPLATE_LOCK :: command where
  "cmd_TEMPLATE_LOCK = \<lparr>cm_httpMethod = ''PUT'', cm_params =
      [(''id'', arg from_resource (JNum (-1))),
       (''level'', arg from_postBody (JNum 4)),
       (''test'', arg from_postBody (JBool False))]\<rparr>"

definition cmd_TEMPLATE_UNLOCK :: command where
  "cmd_TEMPLATE_UNLOCK = \<lparr>cm_httpMethod = ''GET'', cm_params =
      [(''id'', arg from_resource (JNum (-1)))]\<rparr>"

definition cmd_TEMPLATE_INFO :: command where
  "cmd_TEMPLATE_INFO = \<lparr>cm_httpMethod = ''GET'', cm_params =
      [(''id'', arg from_resource (JNum (-1))),
       (''extended'', arg from_query (JBool False)),
       (''decrypt'', arg from_query (JBool False))]\<rparr>"

definition cmd_TEMPLATE_POOL_INFO :: command where
  "cmd_TEMPLATE_POOL_INFO = \<lparr>cm_httpMethod = ''GET'', cm_params =
      [(''filter'', arg from_query (JNum (-2))),
       (''start'', arg from_query (JNum (-1))),
       (''end'', arg from_query (JNum (-1)))]\<rparr>"

definition template_Commands :: command_table where
  "template_Commands = obj_literal
     [(''template.allocate'', cmd_TEMPLATE_ALLOCATE),
      (''template.clone'', cmd_TEMPLATE_CLONE),
      (''template.delete'', cmd_TEMPLATE_DELETE),
      (''template.instantiate'', cmd_TEMPLATE_INSTANTIATE),
      (''template.update'', cmd_TEMPLATE_UPDATE),
      (''template.chmod'', cmd_TEMPLATE_CHMOD),
      (''template.chown'', cmd_TEMPLATE_CHOWN),
      (''template.rename'', cmd_TEMPLATE_RENAME),
      (''template.lock'', cmd_TEMPLATE_LOCK),
      (''template.unlock'', cmd_TEMPLATE_UNLOCK),
      (''template.info'', cmd_TEMPLATE_INFO),
      (''templatepool.info'', cmd_TEMPLATE_POOL_INFO)]"

lemmas template_Commands_defs = cmd_TEMPLATE_ALLOCATE_def cmd_TEMPLATE_CLONE_def cmd_TEMPLATE_DELETE_def cmd_TEMPLATE_INSTANTIATE_def cmd_TEMPLATE_UPDATE_def cmd_TEMPLATE_CHMOD_def cmd_TEMPLATE_CHOWN_def cmd_TEMPLATE_RENAME_def cmd_TEMPLATE_LOCK_def cmd_TEMPLATE_UNLOCK_def cmd_TEMPLATE_INFO_def cmd_TEMPLATE_POOL_INFO_def

section \<open>user.js\<close>

definition cmd_USER_ALLOCATE :: command where
  "cmd_USER_ALLOCATE = \<lparr>cm_httpMethod = ''POST'', cm_params =
      [(''username'', arg from_postBody (JStr [])),
       (''password'', arg from_postBody (JStr [])),
       (''driver'', arg from_postBody (JStr [])),
       (''group'', array_arg from_postBody (JArr []) (JNum 0))]\<rparr>"

definition cmd_USER_DELETE :: command where
  "cmd_USER_DELETE = \<lparr>cm_httpMethod = ''DELETE'', cm_params =
      [(''id'', arg from_resource (JNum (-1)))]\<rparr>"

definition cmd_USER_PASSWD :: command where
  "cmd_USER_PASSWD = \<lparr>cm_httpMethod = ''PUT'', cm_params =
      [(''id'', arg from_resource (JNum (-1))),
       (''password'', arg from_postBody (JStr []))]\<rparr>"

definition cmd_USER_LOGIN :: command where
  "cmd_USER_LOGIN = \<lparr>cm_httpMethod = ''POST'', cm_params =
      [(''user'', arg from_postBody (JStr [])),
       (''token'', arg from_postBody (JStr [])),
       (''expire'', arg from_postBody (JNum 0)),
       (''gid'', arg from_postBody (JNum (-1)))]\<rparr>"

definition cmd_USER_UPDATE :: command where
  "cmd_USER_UPDATE = \<lparr>cm_httpMethod = ''PUT'', cm_params =
      [(''id'', arg from_resource (JNum (-1))),
       (''template'', arg from_postBody (JStr [])),
       (''replace'', arg from_postBody (JNum 0))]\<rparr>"

definition cmd_USER_CHAUTH :: command where
  "cmd_USER_CHAUTH = \<lparr>cm_httpMethod = ''PUT'', cm_params =
      [(''id'', arg from_postBody (JNum (-1))),
       (''driver'', arg from_postBody (JStr [])),
       (''password'', arg from_postBody (JStr []))]\<rparr>"

definition cmd_USER_QUOTA :: command where
  "cmd_USER_QUOTA = \<lparr>cm_httpMethod = ''PUT'', cm_params =
      [(''id'', arg from_resource (JNum (-1))),
       (''template'', arg from_postBody (JStr []))]\<rparr>"

definition cmd_USER_CHGRP :: command where
  "cmd_USER_CHGRP = \<lparr>cm_httpMethod = ''PUT'', cm_params =
      [(''id'', arg from_resource (JNum (-1))),
       (''group'', arg from_postBody (JNum 0))]\<rparr>"

definition cmd_USER_ADDGROUP :: command where
  "cmd_USER_ADDGROUP = \<lparr>cm_httpMethod = ''POST'', cm_params =
      [(''id'', arg from_resource (JNum (-1))),
       (''group'', arg from_postBody (JNum 0))]\<rparr>"

definition cmd_USER_DELGROUP :: command where
  "cmd_USER_DELGROUP = \<lparr>cm_httpMethod = ''DELETE'', cm_params =
      [(''id'', arg from_resource (JNum (-1))),
       (''group'', arg from_query (JNum 0))]\<rparr>"

definition cmd_USER_ENABLE :: command where
  "cmd_USER_ENABLE = \<lparr>cm_httpMethod = ''PUT'', cm_params =
      [(''id'', arg from_resource (JNum (-1))),
       (''enable'', arg from_postBody (JBool True))]\<rparr>"

definition cmd_USER_INFO :: command where
  "cmd_USER_INFO = \<lparr>cm_httpMethod = ''GET'', cm_params =
      [(''id'', arg from_resource (JNum (-1))),
       (''decrypt'', arg from_query (JBool False))]\<rparr>"

definition cmd_USER_POOL_INFO :: command where
  "cmd_USER_POOL_INFO = \<lparr>cm_httpMethod = ''GET'', cm_params =
      []\<rparr>"

definition cmd_USER_QUOTA_INFO :: command where
  "cmd_USER_QUOTA_INFO = \<lparr>cm_httpMethod = ''GET'', cm_params =
      []\<rparr>"

definition cmd_USER_QUOTA_UPDATE :: command where
  "cmd_USER_QUOTA_UPDATE = \<lparr>cm_httpMethod = ''PUT'', cm_params =
      [(''template'', arg from_postBody (JStr []))]\<rparr>"

definition user_Commands :: command_table where
  "user_Commands = obj_literal
     [(''user.allocate'', cmd_USER_ALLOCATE),
      (''user.delete'', cmd_USER_DELETE),
      (''user.passwd'', cmd_USER_PASSWD),
      (''user.login'', cmd_USER_LOGIN),
      (''user.update'', cmd_USER_UPDATE),
      (''user.chauth'', cmd_USER_CHAUTH),
      (''user.quota'', cmd_USER_QUOTA),
      (''user.chgrp'', cmd_USER_CHGRP),
      (''user.addgroup'', cmd_USER_ADDGROUP),
      (''user.delgroup'', cmd_USER_DELGROUP),
      (''user.enable'', cmd_USER_ENABLE),
      (''user.info'', cmd_USER_INFO),
      (''userpool.info'', cmd_USER_POOL_INFO),
      (''userquota.info'', cmd_USER_QUOTA_INFO),
      (''userquota.update'', cmd_USER_QUOTA_UPDATE)]"

lemmas user_Commands_defs = cmd_USER_ALLOCATE_def cmd_USER_DELETE_def cmd_USER_PASSWD_def cmd_USER_LOGIN_def cmd_USER_UPDATE_def cmd_USER_CHAUTH_def cmd_USER_QUOTA_def cmd_USER_CHGRP_def cmd_USER_ADDGROUP_def cmd_USER_DELGROUP_def cmd_USER_ENABLE_def cmd_USER_INFO_def cmd_USER_POOL_INFO_def cmd_USER_QUOTA_INFO_def cmd_USER_QUOTA_UPDATE_def

section \<open>vdc.js\<close>

definition cmd_VDC_ALLOCATE :: command where
  "cmd_VDC_ALLOCATE = \<lparr>cm_httpMethod = ''POST'', cm_params =
      [(''template'', arg from_postBody (JStr []))]\<rparr>"

definition cmd_VDC_DELETE :: command where
  "cmd_VDC_DELETE = \<lparr>cm_httpMethod = ''DELETE'', cm_params =
      [(''id'', arg from_resource (JNum (-1)))]\<rparr>"

definition cmd_VDC_UPDATE :: command where
  "cmd_VDC_UPDATE = \<lparr>cm_httpMethod = ''PUT'', cm_params =
      [(''id'', arg from_resource (JNum (-1))),
       (''template'', arg from_postBody (JStr [])),
       (''replace'', arg from_postBody (JNum 0))]\<rparr>"

definition cmd_VDC_RENAME :: command where
  "cmd_VDC_RENAME = \<lparr>cm_httpMethod = ''PUT'', cm_params =
      [(''id'', arg from_resource (JNum (-1))),
       (''name'', arg from_postBody (JStr []))]\<rparr>"

definition cmd_VDC_INFO :: command where
  "cmd_VDC_INFO = \<lparr>cm_httpMethod = ''GET'', cm_params =
      [(''id'', arg from_resource (JNum (-1))),
       (''decrypt'', arg from_query (JBool False))]\<rparr>"

definition cmd_VDC_POOL_INFO :: command where
  "cmd_VDC_POOL_INFO = \<lparr>cm_httpMethod = ''GET'', cm_params =
      []\<rparr>"

definition cmd_VDC_ADDGROUP :: command where
  "cmd_VDC_ADDGROUP = \<lparr>cm_httpMethod = ''POST'', cm_params =
      [(''id'', arg from_resource (JNum (-1))),
       (''group'', arg from_postBody (JNum 0))]\<rparr>"

definition cmd_VDC_DELGROUP :: command where
  "cmd_VDC_DELGROUP = \<lparr>cm_httpMethod = ''DELETE'', cm_params =
      [(''id'', arg from_resource (JNum (-1))),
       (''group'', arg from_query (JNum 0))]\<rparr>"

definition cmd_VDC_ADDCLUSTER :: command where
  "cmd_VDC_ADDCLUSTER = \<lparr>cm_httpMethod = ''POST'', cm_params =
      [(''id'', arg from_resource (JNum (-1))),
       (''zone'', arg from_postBody (JNum 0)),
       (''cluster'', arg from_postBody (JNum 0))]\<rparr>"

definition cmd_VDC_DELCLUSTER :: command where
  "cmd_VDC_DELCLUSTER = \<lparr>cm_httpMethod = ''DELETE'', cm_params =
      [(''id'', arg from_resource (JNum (-1))),
       (''zone'', arg from_query (JNum 0)),
       (''cluster'', arg from_query (JNum 0))]\<rparr>"

definition cmd_VDC_ADDHOST :: command where
  "cmd_VDC_ADDHOST = \<lparr>cm_httpMethod = ''POST'', cm_params =
      [(''id'', arg from_resource (JNum (-1))),
       (''zone'', arg from_postBody (JNum 0)),
       (''host'', arg from_postBody (JNum 0))]\<rparr>"

definition cmd_VDC_DELHOST :: command where
  "cmd_VDC_DELHOST = \<lparr>cm_httpMethod = ''DELETE'', cm_params =
      [(''id'', arg from_resource (JNum (-1))),
       (''zone'', arg from_postBody (JNum 0)),
       (''host'', arg from_postBody (JNum 0))]\<rparr>"

definition cmd_VDC_ADDDATASTORE :: command where
  "cmd_VDC_ADDDATASTORE = \<lparr>cm_httpMethod = ''POST'', cm_params =
      [(''id'', arg from_resource (JNum (-1))),
       (''zone'', arg from_postBody (JNum 0)),
       (''datastore'', arg from_postBody (JNum 0))]\<rparr>"

definition cmd_VDC_DELDATASTORE :: command where
  "cmd_VDC_DELDATASTORE = \<lparr>cm_httpMethod = ''DELETE'', cm_params =
      [(''id'', arg from_resource (JNum (-1))),
       (''zone'', arg from_postBody (JNum 0)),
       (''datastore'', arg from_postBody (JNum 0))]\<rparr>"

definition cmd_VDC_ADDVNET :: command where
  "cmd_VDC_ADDVNET = \<lparr>cm_httpMethod = ''POST'', cm_params =
      [(''id'', arg from_resource (JNum (-1))),
       (''zone'', arg from_postBody (JNum 0)),
       (''vnet'', arg from_postBody (JNum 0))]\<rparr>"

definition cmd_VDC_DELVNET :: command where
  "cmd_VDC_DELVNET = \<lparr>cm_httpMethod = ''DELETE'', cm_params =
      [(''id'', arg from_resource (JNum (-1))),
       (''zone'', arg from_query (JNum 0)),
       (''vnet'', arg from_query (JNum 0))]\<rparr>"

definition vdc_Commands :: command_table where
  "vdc_Commands = obj_literal
     [(''vdc.allocate'', cmd_VDC_ALLOCATE),
      (''vdc.delete'', cmd_VDC_DELETE),
      (''vdc.update'', cmd_VDC_UPDATE),
      (''vdc.rename'', cmd_VDC_RENAME),
      (''vdc.info'', cmd_VDC_INFO),
      (''vdcpool.info'', cmd_VDC_POOL_INFO),
      (''vdc.addgroup'', cmd_VDC_ADDGROUP),
      (''vdc.delgroup'', cmd_VDC_DELGROUP),
      (''vdc.addcluster'', cmd_VDC_ADDCLUSTER),
      (''vdc.delcluster'', cmd_VDC_DELCLUSTER),
      (''vdc.addhost'', cmd_VDC_ADDHOST),
      (''vdc.delhost'', cmd_VDC_DELHOST),
      (''vdc.adddatastore'', cmd_VDC_ADDDATASTORE),
      (''vdc.deldatastore'', cmd_VDC_DELDATASTORE),
      (''vdc.addvnet'', cmd_VDC_ADDVNET),
      (''vdc.delvnet'', cmd_VDC_DELVNET)]"

lemmas vdc_Commands_defs = cmd_VDC_ALLOCATE_def cmd_VDC_DELETE_def cmd_VDC_UPDATE_def cmd_VDC_RENAME_def cmd_VDC_INFO_def cmd_VDC_POOL_INFO_def cmd_VDC_ADDGROUP_def cmd_VDC_DELGROUP_def cmd_VDC_ADDCLUSTER_def cmd_VDC_DELCLUSTER_def cmd_VDC_ADDHOST_def cmd_VDC_DELHOST_def cmd_VDC_ADDDATASTORE_def cmd_VDC_DELDATASTORE_def cmd_VDC_ADDVNET_def cmd_VDC_DELVNET_def

section \<open>Well-formedness\<close>

lemma market_Commands_ok [command_tables]: "list_all command_ok market_Commands"
  unfolding market_Commands_def
  by (rule list_all_obj_literal)
     (simp add: command_ok_def market_Commands_defs arg_def array_arg_def httpMethods_def)

lemma marketapp_Commands_ok [command_tables]: "list_all command_ok marketapp_Commands"
  unfolding marketapp_Commands_def
  by (rule list_all_obj_literal)
     (simp add: command_ok_def marketapp_Commands_defs arg_def array_arg_def httpMethods_def)

lemma system_Commands_ok [command_tables]: "list_all command_ok system_Commands"
  unfolding system_Commands_def
  by (rule list_all_obj_literal)
     (simp add: command_ok_def system_Commands_defs arg_def array_arg_def httpMethods_def)

lemma template_Commands_ok [command_tables]: "list_all command_ok template_Commands"
  unfolding template_Commands_def
  by (rule list_all_obj_literal)
     (simp add: command_ok_def template_Commands_defs arg_def array_arg_def httpMethods_def)

lemma user_Commands_ok [command_tables]: "list_all command_ok user_Commands"
  unfolding user_Commands_def
  by (rule list_all_obj_literal)
     (simp add: command_ok_def user_Commands_defs arg_def array_arg_def httpMethods_def)

lemma vdc_Commands_ok [command_tables]: "list_all command_ok vdc_Commands"
  unfolding vdc_Commands_def
  by (rule list_all_obj_literal)
     (simp add: command_ok_def vdc_Commands_defs arg_def array_arg_def httpMethods_def)

end
