(* ===== verification/Commands_C.thy ===== *)
theory Commands_C
  imports Command_Base
begin

text \<open>
  The command tables of \<open>server/utils/constants/commands\<close> for
  vm, vmgroup, vn, vntemplate, vrouter, zone,
  one definition per command, in the order of the files, and their well-formedness.
\<close>

section \<open>vm.js\<close>

definition cmd_VM_ALLOCATE :: command where
  "cmd_VM_ALLOCATE = \<lparr>cm_httpMethod = ''PUT'', cm_params =
      [(''template'', arg from_postBody (JStr [])),
       (''status'', arg from_postBody (JBool False))]\<rparr>"

definition cmd_VM_DEPLOY :: command where
  "cmd_VM_DEPLOY = \<lparr>cm_httpMethod = ''PUT'', cm_params =
      [(''id'', arg from_resource (JNum (-1))),
       (''host'', arg from_postBody (JNum (-1))),
       (''enforce'', arg from_postBody (JBool False)),
       (''datastore'', arg from_postBody (JNum (-1)))]\<rparr>"

definition cmd_VM_ACTION :: command where
  "cmd_VM_ACTION = \<lparr>cm_httpMethod = ''PUT'', cm_params =
      [(''action'', arg from_postBody (JStr ''stop'')),
       (''id'', arg from_resource (JNum (-1)))]\<rparr>"

definition cmd_VM_MIGRATE :: command where
  "cmd_VM_MIGRATE = \<lparr>cm_httpMethod = ''PUT'', cm_params =
      [(''id'', arg from_resource (JNum (-1))),
       (''host'', arg from_postBody (JNum (-1))),
       (''live'', arg from_postBody (JBool False)),
       (''enforce'', arg from_postBody (JBool False)),
       (''datastore'', arg from_postBody (JNum (-1))),
       (''type'', arg from_postBody (JNum 0))]\<rparr>"

definition cmd_VM_DISK_SAVEAS :: command where
  "cmd_VM_DISK_SAVEAS = \<lparr>cm_httpMethod = ''PUT'', cm_params =
      [(''id'', arg from_resource (JNum (-1))),
       (''disk'', arg from_postBody (JNum 0)),
       (''name'', arg from_postBody (JStr [])),
       (''type'', arg from_postBody (JStr [])),
       (''snapshot'', arg from_postBody (JNum (-1)))]\<rparr>"

definition cmd_VM_DISK_SNAP_CREATE :: command where
  "cmd_VM_DISK_SNAP_CREATE = \<lparr>cm_httpMethod = ''POST'', cm_params =
      [(''id'', arg from_resource (JNum (-1))),
       (''disk'', arg from_postBody (JNum 0)),
       (''name'', arg from_postBody (JStr []))]\<rparr>"

definition cmd_VM_DISK_SNAP_DELETE :: command where
  "cmd_VM_DISK_SNAP_DELETE = \<lparr>cm_httpMethod = ''DELETE'', cm_params =
      [(''id'', arg from_resource (JNum (-1))),
       (''disk'', arg from_query (JNum 0)),
       (''snapshot'', arg from_query (JNum 0))]\<rparr>"

definition cmd_VM_DISK_SNAP_REVERT :: command where
  "cmd_VM_DISK_SNAP_REVERT = \<lparr>cm_httpMethod = ''PUT'', cm_params =
      [(''id'', arg from_resource (JNum (-1))),
       (''disk'', arg from_postBody (JNum 0)),
       (''snapshot'', arg from_postBody (JNum 0))]\<rparr>"

definition cmd_VM_DISK_SNAP_RENAME :: command where
  "cmd_VM_DISK_SNAP_RENAME = \<lparr>cm_httpMethod = ''PUT'', cm_params =
      [(''id'', arg from_resource (JNum (-1))),
       (''disk'', arg from_postBody (JNum 0)),
       (''snapshot'', arg from_postBody (JNum 0)),
       (''name'', arg from_postBody (JStr []))]\<rparr>"

definition cmd_VM_DISK_ATTACH :: command where
  "cmd_VM_DISK_ATTACH = \<lparr>cm_httpMethod = ''PUT'', cm_params =
      [(''id'', arg from_resource (JNum (-1))),
       (''template'', arg from_postBody (JStr []))]\<rparr>"

definition cmd_VM_DISK_DETACH :: command where
  "cmd_VM_DISK_DETACH = \<lparr>cm_httpMethod = ''PUT'', cm_params =
      [(''id'', arg from_resource (JNum (-1))),
       (''disk'', arg from_postBody (JNum 0))]\<rparr>"

definition cmd_VM_DISK_RESIZE :: command where
  "cmd_VM_DISK_RESIZE = \<lparr>cm_httpMethod = ''PUT'', cm_params =
      [(''id'', arg from_resource (JNum (-1))),
       (''disk'', arg from_postBody (JNum 0)),
       (''size'', arg from_postBody (JStr []))]\<rparr>"

definition cmd_VM_NIC_ATTACH :: command where
  "cmd_VM_NIC_ATTACH = \<lparr>cm_httpMethod = ''PUT'', cm_params =
      [(''id'', arg from_resource (JNum (-1))),
       (''template'', arg from_postBody (JStr []))]\<rparr>"

definition cmd_VM_NIC_DETACH :: command where
  "cmd_VM_NIC_DETACH = \<lparr>cm_httpMethod = ''PUT'', cm_params =
      [(''id'', arg from_resource (JNum (-1))),
       (''nic'', arg from_postBody (JNum 0))]\<rparr>"

definition cmd_VM_NIC_UPDATE :: command where
  "cmd_VM_NIC_UPDATE = \<lparr>cm_httpMethod = ''PUT'', cm_params =
      [(''id'', arg from_resource (JNum (-1))),
       (''nic'', arg from_postBody (JNum 0)),
       (''template'', arg from_postBody (JStr [])),
       (''append'', arg from_postBody (JNum 0))]\<rparr>"

definition cmd_VM_SEC_GROUP_ATTACH :: command where
  "cmd_VM_SEC_GROUP_ATTACH = \<lparr>cm_httpMethod = ''PUT'', cm_params =
      [(''id'', arg from_resource (JNum (-1))),
       (''nic'', arg from_postBody (JNum 0)),
       (''secgroup'', arg from_postBody (JNum 0))]\<rparr>"

definition cmd_VM_SEC_GROUP_DETACH :: command where
  "cmd_VM_SEC_GROUP_DETACH = \<lparr>cm_httpMethod = ''PUT'', cm_params =
      [(''id'', arg from_resource (JNum (-1))),
       (''nic'', arg from_postBody (JNum 0)),
       (''secgroup'', arg from_postBody (JNum 0))]\<rparr>"

definition cmd_VM_CHMOD :: command where
  "cmd_VM_CHMOD = \<lparr>cm_httpMethod = ''PUT'', cm_params =
      [(''id'', arg from_resource (JNum (-1))),
       (''ownerUse'', arg from_postBody (JNum (-1))),
       (''ownerManage'', arg from_postBody (JNum (-1))),
       (''ownerAdmin'', arg from_postBody (JNum (-1))),
       (''groupUse'', arg from_postBody (JNum (-1))),
       (''groupManage'', arg from_postBody (JNum (-1))),
       (''groupAdmin'', arg from_postBody (JNum (-1))),
       (''otherUse'', arg from_postBody (JNum (-1))),
       (''otherManage'', arg from_postBody (JNum (-1))),
       (''otherAdmin'', arg from_postBody (JNum (-1)))]\<rparr>"

definition cmd_VM_CHOWN :: command where
  "cmd_VM_CHOWN = \<lparr>cm_httpMethod = ''PUT'', cm_params =
      [(''id'', arg from_resource (JNum (-1))),
       (''user'', arg from_postBody (JNum (-1))),
       (''group'', arg from_postBody (JNum (-1)))]\<rparr>"

definition cmd_VM_RENAME :: command where
  "cmd_VM_RENAME = \<lparr>cm_httpMethod = ''PUT'', cm_params =
      [(''id'', arg from_resource (JNum (-1))),
       (''name'', arg from_postBody (JStr []))]\<rparr>"

definition cmd_VM_SNAP_CREATE :: command where
  "cmd_VM_SNAP_CREATE = \<lparr>cm_httpMethod = ''POST'', cm_params =
      [(''id'', arg from_resource (JNum (-1))),
       (''name'', arg from_postBody (JStr []))]\<rparr>"

definition cmd_VM_SNAP_REVERT :: command where
  "cmd_VM_SNAP_REVERT = \<lparr>cm_httpMethod = ''POST'', cm_params =
      [(''id'', arg from_resource (JNum (-1))),
       (''snapshot'', arg from_postBody (JNum 0))]\<rparr>"

definition cmd_VM_SNAP_DELETE :: command where
  "cmd_VM_SNAP_DELETE = \<lparr>cm_httpMethod = ''DELETE'', cm_params =
      [(''id'', arg from_resource (JNum (-1))),
       (''snapshot'', arg from_postBody (JNum 0))]\<rparr>"

definition cmd_VM_RESIZE :: command where
  "cmd_VM_RESIZE = \<lparr>cm_httpMethod = ''PUT'', cm_params =
      [(''id'', arg from_resource (JNum (-1))),
       (''template'', arg from_postBody (JStr [])),
       (''enforce'', arg from_postBody (JBool False))]\<rparr>"

definition cmd_VM_UPDATE :: command where
  "cmd_VM_UPDATE = \<lparr>cm_httpMethod = ''PUT'', cm_params =
      [(''id'', arg from_resource (JNum (-1))),
       (''template'', arg from_postBody (JStr [])),
       (''replace'', arg from_postBody (JNum 0))]\<rparr>"

definition cmd_VM_CONF_UPDATE :: command where
  "cmd_VM_CONF_UPDATE = \<lparr>cm_httpMethod = ''PUT'', cm_params =
      [(''id'', arg from_resource (JNum (-1))),
       (''template'', arg from_postBody (JStr [])),
       (''replace'', arg from_postBody (JNum 1))]\<rparr>"

definition cmd_VM_RECOVER :: command where
  "cmd_VM_RECOVER = \<lparr>cm_httpMethod = ''PUT'', cm_params =
      [(''id'', arg from_resource (JNum (-1))),
       (''operation'', arg from_postBody (JNum 1))]\<rparr>"

definition cmd_VM_RESTORE :: command where
  "cmd_VM_RESTORE = \<lparr>cm_httpMethod = ''POST'', cm_params =
      [(''id'', arg from_postBody (JNum (-1))),
       (''imageId'', arg from_postBody (JNum (-1))),
       (''incrementId'', arg from_postBody (JNum (-1))),
       (''diskId'', arg from_postBody (JNum (-1)))]\<rparr>"

definition cmd_VM_INFO :: command where
  "cmd_VM_INFO = \<lparr>cm_httpMethod = ''GET'', cm_params =
      [(''id'', arg from_resource (JNum (-1))),
       (''decrypt'', arg from_query (JBool False))]\<rparr>"

definition cmd_VM_MONITORING :: command where
  "cmd_VM_MONITORING = \<lparr>cm_httpMethod = ''GET'', cm_params =
      [(''id'', arg from_resource (JNum (-1)))]\<rparr>"

definition cmd_VM_LOCK :: command where
  "cmd_VM_LOCK = \<lparr>cm_httpMethod = ''PUT'', cm_params =
      [(''id'', arg from_resource (JNum (-1))),
       (''level'', arg from_postBody (JNum 4)),
       (''test'', arg from_postBody (JBool False))]\<rparr>"

definition cmd_VM_UNLOCK :: command where
  "cmd_VM_UNLOCK = \<lparr>cm_httpMethod = ''PUT'', cm_params =
      [(''id'', arg from_resource (JNum (-1)))]\<rparr>"

definition cmd_VM_SCHED_ADD :: command where
  "cmd_VM_SCHED_ADD = \<lparr>cm_httpMethod = ''POST'', cm_params =
      [(''id'', arg from_resource (JNum (-1))),
       (''template'', arg from_postBody (JStr []))]\<rparr>"

definition cmd_VM_SCHED_UPDATE :: command where
  "cmd_VM_SCHED_UPDATE = \<lparr>cm_httpMethod = ''PUT'', cm_params =
      [(''id'', arg from_resource (JNum (-1))),
       (''schedId'', arg from_postBody (JNum 0)),
       (''template'', arg from_postBody (JStr []))]\<rparr>"

definition cmd_VM_SCHED_DELETE :: command where
  "cmd_VM_SCHED_DELETE = \<lparr>cm_httpMethod = ''DELETE'', cm_params =
      [(''id'', arg from_resource (JNum (-1))),
       (''schedId'', arg from_postBody (JNum 0))]\<rparr>"

definition cmd_VM_BACKUP :: command where
  "cmd_VM_BACKUP = \<lparr>cm_httpMethod = ''POST'', cm_params =
      [(''id'', arg from_resource (JNum (-1))),
       (''dsId'', arg from_postBody (JNum 0)),
       (''reset'', arg from_postBody (JBool False))]\<rparr>"

definition cmd_VM_POOL_INFO :: command where
  "cmd_VM_POOL_INFO = \<lparr>cm_httpMethod = ''GET'', cm_params =
      [(''filter'', arg from_query (JNum (-2))),
       (''start'', arg from_query (JNum (-1))),
       (''end'', arg from_query (JNum (-1))),
       (''state'', arg from_query (JNum (-1))),
       (''filterByKey'', arg from_query (JStr []))]\<rparr>"

definition cmd_VM_POOL_INFO_EXTENDED :: command where
  "cmd_VM_POOL_INFO_EXTENDED = \<lparr>cm_httpMethod = ''GET'', cm_params =
      [(''filter'', arg from_query (JNum (-2))),
       (''start'', arg from_query (JNum (-1))),
       (''end'', arg from_query (JNum (-1))),
       (''state'', arg from_query (JNum (-1))),
       (''filterBykey'', arg from_query (JStr []))]\<rparr>"

definition cmd_VM_POOL_MONITORING :: command where
  "cmd_VM_POOL_MONITORING = \<lparr>cm_httpMethod = ''GET'', cm_params =
      [(''filter'', arg from_query (JNum (-2))),
       (''seconds'', arg from_query (JNum (-1)))]\<rparr>"

definition cmd_VM_POOL_ACCOUNTING :: command where
  "cmd_VM_POOL_ACCOUNTING = \<lparr>cm_httpMethod = ''GET'', cm_params =
      [(''filter'', arg from_query (JNum (-3))),
       (''start'', arg from_query (JNum (-1))),
       (''end'', arg from_query (JNum (-1)))]\<rparr>"

definition cmd_VM_POOL_SHOWBACK :: command where
  "cmd_VM_POOL_SHOWBACK = \<lparr>cm_httpMethod = ''GET'', cm_params =
      [(''filter'', arg from_query (JNum (-2))),
       (''startMonth'', arg from_query (JNum (-1))),
       (''startYear'', arg from_query (JNum (-1))),
       (''endMonth'', arg from_query (JNum (-1))),
       (''endYear'', arg from_query (JNum (-1)))]\<rparr>"

definition cmd_VM_POOL_CALCULATE_SHOWBACK :: command where
  "cmd_VM_POOL_CALCULATE_SHOWBACK = \<lparr>cm_httpMethod = ''GET'', cm_params =
      [(''startMonth'', arg from_query (JNum (-1))),
       (''startYear'', arg from_query (JNum (-1))),
       (''endMonth'', arg from_query (JNum (-1))),
       (''endYear'', arg from_query (JNum (-1)))]\<rparr>"

definition cmd_VM_PCI_ATTACH :: command where
  "cmd_VM_PCI_ATTACH = \<lparr>cm_httpMethod = ''PUT'', cm_params =
      [(''id'', arg from_resource (JNum (-1))),
       (''template'', arg from_postBody (JStr []))]\<rparr>"

definition cmd_VM_PCI_DETACH :: command where
  "cmd_VM_PCI_DETACH = \<lparr>cm_httpMethod = ''PUT'', cm_params =
      [(''id'', arg from_resource (JNum (-1))),
       (''pci'', arg from_postBody (JNum 0))]\<rparr>"

definition vm_Commands :: command_table where
  "vm_Commands = obj_literal
     [(''vm.allocate'', cmd_VM_ALLOCATE),
      (''vm.deploy'', cmd_VM_DEPLOY),
      (''vm.action'', cmd_VM_ACTION),
      (''vm.migrate'', cmd_VM_MIGRATE),
      (''vm.disksaveas'', cmd_VM_DISK_SAVEAS),
      (''vm.disksnapshotcreate'', cmd_VM_DISK_SNAP_CREATE),
      (''vm.disksnapshotdelete'', cmd_VM_DISK_SNAP_DELETE),
      (''vm.disksnapshotrevert'', cmd_VM_DISK_SNAP_REVERT),
      (''vm.disksnapshotrename'', cmd_VM_DISK_SNAP_RENAME),
      (''vm.attach'', cmd_VM_DISK_ATTACH),
      (''vm.detach'', cmd_VM_DISK_DETACH),
      (''vm.diskresize'', cmd_VM_DISK_RESIZE),
      (''vm.attachnic'', cmd_VM_NIC_ATTACH),
      (''vm.detachnic'', cmd_VM_NIC_DETACH),
      (''vm.updatenic'', cmd_VM_NIC_UPDATE),
      (''vm.attachsg'', cmd_VM_SEC_GROUP_ATTACH),
      (''vm.detachsg'', cmd_VM_SEC_GROUP_DETACH),
      (''vm.chmod'', cmd_VM_CHMOD),
      (''vm.chown'', cmd_VM_CHOWN),
      (''vm.rename'', cmd_VM_RENAME),
      (''vm.snapshotcreate'', cmd_VM_SNAP_CREATE),
      (''vm.snapshotrevert'', cmd_VM_SNAP_REVERT),
      (''vm.snapshotdelete'', cmd_VM_SNAP_DELETE),
      (''vm.resize'', cmd_VM_RESIZE),
      (''vm.update'', cmd_VM_UPDATE),
      (''vm.updateconf'', cmd_VM_CONF_UPDATE),
      (''vm.recover'', cmd_VM_RECOVER),
      (''vm.restore'', cmd_VM_RESTORE),
      (''vm.info'', cmd_VM_INFO),
      (''vm.monitoring'', cmd_VM_MONITORING),
      (''vm.lock'', cmd_VM_LOCK),
      (''vm.unlock'', cmd_VM_UNLOCK),
      (''vm.schedadd'', cmd_VM_SCHED_ADD),
      (''vm.schedupdate'', cmd_VM_SCHED_UPDATE),
      (''vm.scheddelete'', cmd_VM_SCHED_DELETE),
      (''vm.backup'', cmd_VM_BACKUP),
      (''vmpool.info'', cmd_VM_POOL_INFO),
      (''vmpool.infoextended'', cmd_VM_POOL_INFO_EXTENDED),
      (''vmpool.monitoring'', cmd_VM_POOL_MONITORING),
      (''vmpool.accounting'', cmd_VM_POOL_ACCOUNTING),
      (''vmpool.showback'', cmd_VM_POOL_SHOWBACK),
      (''vmpool.calculateshowback'', cmd_VM_POOL_CALCULATE_SHOWBACK),
      (''vm.attachpci'', cmd_VM_PCI_ATTACH),
      (''vm.detachpci'', cmd_VM_PCI_DETACH)]"

lemmas vm_Commands_defs = cmd_VM_ALLOCATE_def cmd_VM_DEPLOY_def cmd_VM_ACTION_def cmd_VM_MIGRATE_def cmd_VM_DISK_SAVEAS_def cmd_VM_DISK_SNAP_CREATE_def cmd_VM_DISK_SNAP_DELETE_def cmd_VM_DISK_SNAP_REVERT_def cmd_VM_DISK_SNAP_RENAME_def cmd_VM_DISK_ATTACH_def cmd_VM_DISK_DETACH_def cmd_VM_DISK_RESIZE_def cmd_VM_NIC_ATTACH_def cmd_VM_NIC_DETACH_def cmd_VM_NIC_UPDATE_def cmd_VM_SEC_GROUP_ATTACH_def cmd_VM_SEC_GROUP_DETACH_def cmd_VM_CHMOD_def cmd_VM_CHOWN_def cmd_VM_RENAME_def cmd_VM_SNAP_CREATE_def cmd_VM_SNAP_REVERT_def cmd_VM_SNAP_DELETE_def cmd_VM_RESIZE_def cmd_VM_UPDATE_def cmd_VM_CONF_UPDATE_def cmd_VM_RECOVER_def cmd_VM_RESTORE_def cmd_VM_INFO_def cmd_VM_MONITORING_def cmd_VM_LOCK_def cmd_VM_UNLOCK_def cmd_VM_SCHED_ADD_def cmd_VM_SCHED_UPDATE_def cmd_VM_SCHED_DELETE_def cmd_VM_BACKUP_def cmd_VM_POOL_INFO_def cmd_VM_POOL_INFO_EXTENDED_def cmd_VM_POOL_MONITORING_def cmd_VM_POOL_ACCOUNTING_def cmd_VM_POOL_SHOWBACK_def cmd_VM_POOL_CALCULATE_SHOWBACK_def cmd_VM_PCI_ATTACH_def cmd_VM_PCI_DETACH_def

section \<open>vmgroup.js\<close>

definition cmd_VM_GROUP_ALLOCATE :: command where
  "cmd_VM_GROUP_ALLOCATE = \<lparr>cm_httpMethod = ''POST'', cm_params =
      [(''template'', arg from_postBody (JStr []))]\<rparr>"

definition cmd_VM_GROUP_ROLEADD :: command where
  "cmd_VM_GROUP_ROLEADD = \<lparr>cm_httpMethod = ''PUT'', cm_params =
      [(''id'', arg from_resource (JNum (-1))),
       (''template'', arg from_postBody (JStr []))]\<rparr>"

definition cmd_VM_GROUP_ROLEDELETE :: command where
  "cmd_VM_GROUP_ROLEDELETE = \<lparr>cm_httpMethod = ''DELETE'', cm_params =
      [(''id'', arg from_resource (JNum (-1))),
       (''roleId'', arg from_postBody (JNum (-1)))]\<rparr>"

definition cmd_VM_GROUP_ROLEUPDATE :: command where
  "cmd_VM_GROUP_ROLEUPDATE = \<lparr>cm_httpMethod = ''PUT'', cm_params =
      [(''id'', arg from_resource (JNum (-1))),
       (''roleId'', arg from_postBody (JNum (-1))),
       (''template'', arg from_postBody (JStr []))]\<rparr>"

definition cmd_VM_GROUP_DELETE :: command where
  "cmd_VM_GROUP_DELETE = \<lparr>cm_httpMethod = ''DELETE'', cm_params =
      [(''id'', arg from_resource (JNum (-1)))]\<rparr>"

definition cmd_VM_GROUP_UPDATE :: command where
  "cmd_VM_GROUP_UPDATE = \<lparr>cm_httpMethod = ''PUT'', cm_params =
      [(''id'', arg from_resource (JNum (-1))),
       (''template'', arg from_postBody (JStr [])),
       (''replace'', arg from_postBody (JNum 0))]\<rparr>"

definition cmd_VM_GROUP_CHMOD :: command where
  "cmd_VM_GROUP_CHMOD = \<lparr>cm_httpMethod = ''PUT'', cm_params =
      [(''id'', arg from_resource (JNum (-1))),
       (''ownerUse'', arg from_postBody (JNum (-1))),
       (''ownerManage'', arg from_postBody (JNum (-1))),
       (''ownerAdmin'', arg from_postBody (JNum (-1))),
       (''groupUse'', arg from_postBody (JNum (-1))),
       (''groupManage'', arg from_postBody (JNum (-1))),
       (''groupAdmin'', arg from_postBody (JNum (-1))),
       (''otherUse'', arg from_postBody (JNum (-1))),
       (''otherManage'', arg from_postBody (JNum (-1))),
       (''otherAdmin'', arg from_postBody (JNum (-1)))]\<rparr>"

definition cmd_VM_GROUP_CHOWN :: command where
  "cmd_VM_GROUP_CHOWN = \<lparr>cm_httpMethod = ''PUT'', cm_params =
      [(''id'', arg from_resource (JNum (-1))),
       (''user'', arg from_postBody (JNum (-1))),
       (''group'', arg from_postBody (JNum (-1)))]\<rparr>"

definition cmd_VM_GROUP_RENAME :: command where
  "cmd_VM_GROUP_RENAME = \<lparr>cm_httpMethod = ''PUT'', cm_params =
      [(''id'', arg from_resource (JNum (-1))),
       (''name'', arg from_query (JStr []))]\<rparr>"

definition cmd_VM_GROUP_INFO :: command where
  "cmd_VM_GROUP_INFO = \<lparr>cm_httpMethod = ''GET'', cm_params =
      [(''id'', arg from_resource (JNum (-1))),
       (''decrypt'', arg from_query (JBool False))]\<rparr>"

definition cmd_VM_GROUP_LOCK :: command where
  "cmd_VM_GROUP_LOCK = \<lparr>cm_httpMethod = ''PUT'', cm_params =
      [(''id'', arg from_resource (JNum (-1))),
       (''lock'', arg from_postBody (JNum 4))]\<rparr>"

definition cmd_VM_GROUP_UNLOCK :: command where
  "cmd_VM_GROUP_UNLOCK = \<lparr>cm_httpMethod = ''PUT'', cm_params =
      [(''id'', arg from_resource (JNum (-1)))]\<rparr>"

definition cmd_VM_GROUP_POOL_INFO :: command where
  "cmd_VM_GROUP_POOL_INFO = \<lparr>cm_httpMethod = ''GET'', cm_params =
      [(''filter'', arg from_query (JNum (-2))),
       (''start'', arg from_query (JNum (-1))),
       (''end'', arg from_query (JNum (-1)))]\<rparr>"

definition vmgroup_Commands :: command_table where
  "vmgroup_Commands = obj_literal
     [(''vmgroup.allocate'', cmd_VM_GROUP_ALLOCATE),
      (''vmgroup.roleadd'', cmd_VM_GROUP_ROLEADD),
      (''vmgroup.roledelete'', cmd_VM_GROUP_ROLEDELETE),
      (''vmgroup.roleupdate'', cmd_VM_GROUP_ROLEUPDATE),
      (''vmgroup.delete'', cmd_VM_GROUP_DELETE),
      (''vmgroup.update'', cmd_VM_GROUP_UPDATE),
      (''vmgroup.chmod'', cmd_VM_GROUP_CHMOD),
      (''vmgroup.chown'', cmd_VM_GROUP_CHOWN),
      (''vmgroup.rename'', cmd_VM_GROUP_RENAME),
      (''vmgroup.info'', cmd_VM_GROUP_INFO),
      (''vmgroup.lock'', cmd_VM_GROUP_LOCK),
      (''vmgroup.unlock'', cmd_VM_GROUP_UNLOCK),
      (''vmgrouppool.info'', cmd_VM_GROUP_POOL_INFO)]"

lemmas vmgroup_Commands_defs = cmd_VM_GROUP_ALLOCATE_def cmd_VM_GROUP_ROLEADD_def cmd_VM_GROUP_ROLEDELETE_def cmd_VM_GROUP_ROLEUPDATE_def cmd_VM_GROUP_DELETE_def cmd_VM_GROUP_UPDATE_def cmd_VM_GROUP_CHMOD_def cmd_VM_GROUP_CHOWN_def cmd_VM_GROUP_RENAME_def cmd_VM_GROUP_INFO_def cmd_VM_GROUP_LOCK_def cmd_VM_GROUP_UNLOCK_def cmd_VM_GROUP_POOL_INFO_def

section \<open>vn.js\<close>

definition cmd_VN_ALLOCATE :: command where
  "cmd_VN_ALLOCATE = \<lparr>cm_httpMethod = ''POST'', cm_params =
      [(''template'', arg from_postBody (JStr [])),
       (''cluster'', arg from_postBody (JNum (-1)))]\<rparr>"

definition cmd_VN_DELETE :: command where
  "cmd_VN_DELETE = \<lparr>cm_httpMethod = ''DELETE'', cm_params =
      [(''id'', arg from_resource (JNum (-1)))]\<rparr>"

definition cmd_VN_AR_ADD :: command where
  "cmd_VN_AR_ADD = \<lparr>cm_httpMethod = ''PUT'', cm_params =
      [(''id'', arg from_resource (JNum (-1))),
       (''template'', arg from_postBody (JStr []))]\<rparr>"

definition cmd_VN_AR_RM :: command where
  "cmd_VN_AR_RM = \<lparr>cm_httpMethod = ''PUT'', cm_params =
      [(''id'', arg from_resource (JNum (-1))),
       (''address'', arg from_postBody (JNum 0))]\<rparr>"

definition cmd_VN_AR_UPDATE :: command where
  "cmd_VN_AR_UPDATE = \<lparr>cm_httpMethod = ''PUT'', cm_params =
      [(''id'', arg from_resource (JNum (-1))),
       (''template'', arg from_postBody (JStr []))]\<rparr>"

definition cmd_VN_RESERVE :: command where
  "cmd_VN_RESERVE = \<lparr>cm_httpMethod = ''PUT'', cm_params =
      [(''id'', arg from_resource (JNum (-1))),
       (''template'', arg from_postBody (JStr []))]\<rparr>"

definition cmd_VN_AR_FREE :: command where
  "cmd_VN_AR_FREE = \<lparr>cm_httpMethod = ''PUT'', cm_params =
      [(''id'', arg from_resource (JNum (-1))),
       (''range'', arg from_postBody (JNum 0))]\<rparr>"

definition cmd_VN_HOLD :: command where
  "cmd_VN_HOLD = \<lparr>cm_httpMethod = ''PUT'', cm_params =
      [(''id'', arg from_resource (JNum (-1))),
       (''template'', arg from_postBody (JStr []))]\<rparr>"

definition cmd_VN_RELEASE :: command where
  "cmd_VN_RELEASE = \<lparr>cm_httpMethod = ''PUT'', cm_params =
      [(''id'', arg from_resource (JNum (-1))),
       (''template'', arg from_postBody (JStr []))]\<rparr>"

definition cmd_VN_UPDATE :: command where
  "cmd_VN_UPDATE = \<lparr>cm_httpMethod = ''PUT'', cm_params =
      [(''id'', arg from_resource (JNum (-1))),
       (''template'', arg from_postBody (JStr [])),
       (''replace'', arg from_postBody (JNum 0))]\<rparr>"

definition cmd_VN_CHMOD :: command where
  "cmd_VN_CHMOD = \<lparr>cm_httpMethod = ''PUT'', cm_params =
      [(''id'', arg from_resource (JNum (-1))),
       (''ownerUse'', arg from_postBody (JNum (-1))),
       (''ownerManage'', arg from_postBody (JNum (-1))),
       (''ownerAdmin'', arg from_postBody (JNum (-1))),
       (''groupUse'', arg from_postBody (JNum (-1))),
       (''groupManage'', arg from_postBody (JNum (-1))),
       (''groupAdmin'', arg from_postBody (JNum (-1))),
       (''otherUse'', arg from_postBody (JNum (-1))),
       (''otherManage'', arg from_postBody (JNum (-1))),
       (''otherAdmin'', arg from_postBody (JNum (-1)))]\<rparr>"

definition cmd_VN_CHOWN :: command where
  "cmd_VN_CHOWN = \<lparr>cm_httpMethod = ''PUT'', cm_params =
      [(''id'', arg from_resource (JNum (-1))),
       (''user'', arg from_postBody (JNum (-1))),
       (''group'', arg from_postBody (JNum (-1)))]\<rparr>"

definition cmd_VN_RENAME :: command where
  "cmd_VN_RENAME = \<lparr>cm_httpMethod = ''PUT'', cm_params =
      [(''id'', arg from_resource (JNum (-1))),
       (''name'', arg from_postBody (JStr []))]\<rparr>"

definition cmd_VN_INFO :: command where
  "cmd_VN_INFO = \<lparr>cm_httpMethod = ''GET'', cm_params =
      [(''id'', arg from_resource (JNum (-1))),
       (''decrypt'', arg from_query (JBool False))]\<rparr>"

definition cmd_VN_LOCK :: command where
  "cmd_VN_LOCK = \<lparr>cm_httpMethod = ''PUT'', cm_params =
      [(''id'', arg from_resource (JNum (-1))),
       (''level'', arg from_postBody (JNum 4))]\<rparr>"

definition cmd_VN_UNLOCK :: command where
  "cmd_VN_UNLOCK = \<lparr>cm_httpMethod = ''PUT'', cm_params =
      [(''id'', arg from_resource (JNum (-1)))]\<rparr>"

definition cmd_VN_RECOVER :: command where
  "cmd_VN_RECOVER = \<lparr>cm_httpMethod = ''PUT'', cm_params =
      [(''id'', arg from_resource (JNum (-1))),
       (''operation'', arg from_postBody (JNum 1))]\<rparr>"

definition cmd_VN_POOL_INFO :: command where
  "cmd_VN_POOL_INFO = \<lparr>cm_httpMethod = ''GET'', cm_params =
      [(''filter'', arg from_query (JNum (-2))),
       (''start'', arg from_query (JNum (-1))),
       (''end'', arg from_query (JNum (-1))),
       (''zone'', arg from_query (JNum 0))]\<rparr>"

definition vn_Commands :: command_table where
  "vn_Commands = obj_literal
     [(''vn.allocate'', cmd_VN_ALLOCATE),
      (''vn.delete'', cmd_VN_DELETE),
      (''vn.add_ar'', cmd_VN_AR_ADD),
      (''vn.rm_ar'', cmd_VN_AR_RM),
      (''vn.update_ar'', cmd_VN_AR_UPDATE),
      (''vn.reserve'', cmd_VN_RESERVE),
      (''vn.free_ar'', cmd_VN_AR_FREE),
      (''vn.hold'', cmd_VN_HOLD),
      (''vn.release'', cmd_VN_RELEASE),
      (''vn.update'', cmd_VN_UPDATE),
      (''vn.chmod'', cmd_VN_CHMOD),
      (''vn.chown'', cmd_VN_CHOWN),
      (''vn.rename'', cmd_VN_RENAME),
      (''vn.info'', cmd_VN_INFO),
      (''vn.lock'', cmd_VN_LOCK),
      (''vn.unlock'', cmd_VN_UNLOCK),
      (''vn.recover'', cmd_VN_RECOVER),
      (''vnpool.info'', cmd_VN_POOL_INFO)]"

lemmas vn_Commands_defs = cmd_VN_ALLOCATE_def cmd_VN_DELETE_def cmd_VN_AR_ADD_def cmd_VN_AR_RM_def cmd_VN_AR_UPDATE_def cmd_VN_RESERVE_def cmd_VN_AR_FREE_def cmd_VN_HOLD_def cmd_VN_RELEASE_def cmd_VN_UPDATE_def cmd_VN_CHMOD_def cmd_VN_CHOWN_def cmd_VN_RENAME_def cmd_VN_INFO_def cmd_VN_LOCK_def cmd_VN_UNLOCK_def cmd_VN_RECOVER_def cmd_VN_POOL_INFO_def

section \<open>vntemplate.js\<close>

definition cmd_VNTEMPLATE_ALLOCATE :: command where
  "cmd_VNTEMPLATE_ALLOCATE = \<lparr>cm_httpMethod = ''POST'', cm_params =
      [(''template'', arg from_postBody (JStr []))]\<rparr>"

definition cmd_VNTEMPLATE_CLONE :: command where
  "cmd_VNTEMPLATE_CLONE = \<lparr>cm_httpMethod = ''POST'', cm_params =
      [(''id'', arg from_resource (JNum (-1))),
       (''name'', arg from_postBody (JStr []))]\<rparr>"

definition cmd_VNTEMPLATE_DELETE :: command where
  "cmd_VNTEMPLATE_DELETE = \<lparr>cm_httpMethod = ''DELETE'', cm_params =
      [(''id'', arg from_resource (JNum (-1)))]\<rparr>"

definition cmd_VNTEMPLATE_INSTANTIATE :: command where
  "cmd_VNTEMPLATE_INSTANTIATE = \<lparr>cm_httpMethod = ''PUT'', cm_params =
      [(''id'', arg from_resource (JNum (-1))),
       (''name'', arg from_postBody (JStr [])),
       (''template'', arg from_postBody (JStr []))]\<rparr>"

definition cmd_VNTEMPLATE_UPDATE :: command where
  "cmd_VNTEMPLATE_UPDATE = \<lparr>cm_httpMethod = ''PUT'', cm_params =
      [(''id'', arg from_resource (JNum (-1))),
       (''template'', arg from_postBody (JStr [])),
       (''replace'', arg from_postBody (JNum 0))]\<rparr>"

definition cmd_VNTEMPLATE_CHMOD :: command where
  "cmd_VNTEMPLATE_CHMOD = \<lparr>cm_httpMethod = ''PUT'', cm_params =
      [(''id'', arg from_resource (JNum (-1))),
       (''ownerUse'', arg from_postBody (JNum (-1))),
       (''ownerManage'', arg from_postBody (JNum (-1))),
       (''ownerAdmin'', arg from_postBody (JNum (-1))),
       (''groupUse'', arg from_postBody (JNum (-1))),
       (''groupManage'', arg from_postBody (JNum (-1))),
       (''groupAdmin'', arg from_postBody (JNum (-1))),
       (''otherUse'', arg from_postBody (JNum (-1))),
       (''otherManage'', arg from_postBody (JNum (-1))),
       (''otherAdmin'', arg from_postBody (JNum (-1)))]\<rparr>"

definition cmd_VNTEMPLATE_CHOWN :: command where
  "cmd_VNTEMPLATE_CHOWN = \<lparr>cm_httpMethod = ''PUT'', cm_params =
      [(''id'', arg from_resource (JNum (-1))),
       (''user'', arg from_postBody (JNum (-1))),
       (''group'', arg from_postBody (JNum (-1)))]\<rparr>"

definition cmd_VNTEMPLATE_RENAME :: command where
  "cmd_VNTEMPLATE_RENAME = \<lparr>cm_httpMethod = ''PUT'', cm_params =
      [(''id'', arg from_resource (JNum (-1))),
       (''name'', arg from_postBody (JStr []))]\<rparr>"

definition cmd_VNTEMPLATE_INFO :: command where
  "cmd_VNTEMPLATE_INFO = \<lparr>cm_httpMethod = ''GET'', cm_params =
      [(''id'', arg from_resource (JNum (-1))),
       (''decrypt'', arg from_query (JBool False))]\<rparr>"

definition cmd_VNTEMPLATE_LOCK :: command where
  "cmd_VNTEMPLATE_LOCK = \<lparr>cm_httpMethod = ''PUT'', cm_params =
      [(''id'', arg from_resource (JNum (-1))),
       (''level'', arg from_postBody (JNum 4)),
       (''test'', arg from_postBody (JBool False))]\<rparr>"

definition cmd_VNTEMPLATE_UNLOCK :: command where
  "cmd_VNTEMPLATE_UNLOCK = \<lparr>cm_httpMethod = ''PUT'', cm_params =
      [(''id'', arg from_resource (JNum (-1)))]\<rparr>"

definition cmd_VNTEMPLATE_POOL_INFO :: command where
  "cmd_VNTEMPLATE_POOL_INFO = \<lparr>cm_httpMethod = ''GET'', cm_params =
      [(''filter'', arg from_query (JNum (-2))),
       (''start'', arg from_query (JNum (-1))),
       (''end'', arg from_query (JNum (-1)))]\<rparr>"

definition vntemplate_Commands :: command_table where
  "vntemplate_Commands = obj_literal
     [(''vntemplate.allocate'', cmd_VNTEMPLATE_ALLOCATE),
      (''vntemplate.clone'', cmd_VNTEMPLATE_CLONE),
      (''vntemplate.delete'', cmd_VNTEMPLATE_DELETE),
      (''vntemplate.instantiate'', cmd_VNTEMPLATE_INSTANTIATE),
      (''vntemplate.update'', cmd_VNTEMPLATE_UPDATE),
      (''vntemplate.chmod'', cmd_VNTEMPLATE_CHMOD),
      (''vntemplate.chown'', cmd_VNTEMPLATE_CHOWN),
      (''vntemplate.rename'', cmd_VNTEMPLATE_RENAME),
      (''vntemplate.info'', cmd_VNTEMPLATE_INFO),
      (''vntemplate.lock'', cmd_VNTEMPLATE_LOCK),
      (''vntemplate.unlock'', cmd_VNTEMPLATE_UNLOCK),
      (''vntemplatepool.info'', cmd_VNTEMPLATE_POOL_INFO)]"

lemmas vntemplate_Commands_defs = cmd_VNTEMPLATE_ALLOCATE_def cmd_VNTEMPLATE_CLONE_def cmd_VNTEMPLATE_DELETE_def cmd_VNTEMPLATE_INSTANTIATE_def cmd_VNTEMPLATE_UPDATE_def cmd_VNTEMPLATE_CHMOD_def cmd_VNTEMPLATE_CHOWN_def cmd_VNTEMPLATE_RENAME_def cmd_VNTEMPLATE_INFO_def cmd_VNTEMPLATE_LOCK_def cmd_VNTEMPLATE_UNLOCK_def cmd_VNTEMPLATE_POOL_INFO_def

section \<open>vrouter.js\<close>

definition cmd_VROUTER_ALLOCATE :: command where
  "cmd_VROUTER_ALLOCATE = \<lparr>cm_httpMethod = ''POST'', cm_params =
      [(''template'', arg from_postBody (JStr []))]\<rparr>"

definition cmd_VROUTER_DELETE :: command where
  "cmd_VROUTER_DELETE = \<lparr>cm_httpMethod = ''DELETE'', cm_params =
      [(''id'', arg from_resource (JNum (-1))),
       (''images'', arg from_query (JBool False))]\<rparr>"

definition cmd_VROUTER_INSTANTIATE :: command where
  "cmd_VROUTER_INSTANTIATE = \<lparr>cm_httpMethod = ''PUT'', cm_params =
      [(''id'', arg from_resource (JNum (-1))),
       (''number'', arg from_postBody (JNum 1)),
       (''templateId'', arg from_postBody (JNum 0)),
       (''name'', arg from_postBody (JStr [])),
       (''pending'', arg from_postBody (JBool False)),
       (''template'', arg from_postBody (JStr []))]\<rparr>"

definition cmd_VROUTER_INSTANTIATE_POSTBODY :: command where
  "cmd_VROUTER_INSTANTIATE_POSTBODY = \<lparr>cm_httpMethod = ''PUT'', cm_params =
      [(''id'', arg from_postBody (JNum 0)),
       (''number'', arg from_postBody (JNum 1)),
       (''templateId'', arg from_postBody (JNum 0)),
       (''name'', arg from_postBody (JStr [])),
       (''pending'', arg from_postBody (JBool False)),
       (''template'', arg from_postBody (JStr []))]\<rparr>"

definition cmd_VROUTER_NIC_ATTACH :: command where
  "cmd_VROUTER_NIC_ATTACH = \<lparr>cm_httpMethod = ''PUT'', cm_params =
      [(''id'', arg from_resource (JNum (-1))),
       (''template'', arg from_postBody (JStr []))]\<rparr>"

definition cmd_VROUTER_NIC_DETACH :: command where
  "cmd_VROUTER_NIC_DETACH = \<lparr>cm_httpMethod = ''PUT'', cm_params =
      [(''id'', arg from_resource (JNum (-1))),
       (''nic'', arg from_postBody (JNum 0))]\<rparr>"

definition cmd_VROUTER_UPDATE :: command where
  "cmd_VROUTER_UPDATE = \<lparr>cm_httpMethod = ''PUT'', cm_params =
      [(''id'', arg from_resource (JNum (-1))),
       (''template'', arg from_postBody (JStr [])),
       (''update'', arg from_postBody (JNum 1))]\<rparr>"

definition cmd_VROUTER_CHMOD :: command where
  "cmd_VROUTER_CHMOD = \<lparr>cm_httpMethod = ''PUT'', cm_params =
      [(''id'', arg from_resource (JNum (-1))),
       (''ownerUse'', arg from_postBody (JNum (-1))),
       (''ownerManage'', arg from_postBody (JNum (-1))),
       (''ownerAdmin'', arg from_postBody (JNum (-1))),
       (''groupUse'', arg from_postBody (JNum (-1))),
       (''groupManage'', arg from_postBody (JNum (-1))),
       (''groupAdmin'', arg from_postBody (JNum (-1))),
       (''otherUse'', arg from_postBody (JNum (-1))),
       (''otherManage'', arg from_postBody (JNum (-1))),
       (''otherAdmin'', arg from_postBody (JNum (-1)))]\<rparr>"

definition cmd_VROUTER_CHOWN :: command where
  "cmd_VROUTER_CHOWN = \<lparr>cm_httpMethod = ''PUT'', cm_params =
      [(''id'', arg from_resource (JNum (-1))),
       (''userId'', arg from_postBody (JNum (-1))),
       (''groupId'', arg from_postBody (JNum (-1)))]\<rparr>"

definition cmd_VROUTER_RENAME :: command where
  "cmd_VROUTER_RENAME = \<lparr>cm_httpMethod = ''PUT'', cm_params =
      [(''id'', arg from_resource (JNum (-1))),
       (''name'', arg from_postBody (JStr []))]\<rparr>"

definition cmd_VROUTER_INFO :: command where
  "cmd_VROUTER_INFO = \<lparr>cm_httpMethod = ''GET'', cm_params =
      [(''id'', arg from_resource (JNum (-1))),
       (''decrypt'', arg from_query (JBool False))]\<rparr>"

definition cmd_VROUTER_LOCK :: command where
  "cmd_VROUTER_LOCK = \<lparr>cm_httpMethod = ''PUT'', cm_params =
      [(''id'', arg from_resource (JNum (-1))),
       (''lock'', arg from_postBody (JNum 4))]\<rparr>"

definition cmd_VROUTER_UNLOCK :: command where
  "cmd_VROUTER_UNLOCK = \<lparr>cm_httpMethod = ''PUT'', cm_params =
      [(''id'', arg from_resource (JNum (-1)))]\<rparr>"

definition cmd_VROUTER_POOL_INFO :: command where
  "cmd_VROUTER_POOL_INFO = \<lparr>cm_httpMethod = ''GET'', cm_params =
      [(''filter'', arg from_query (JNum (-2))),
       (''start'', arg from_query (JNum (-1))),
       (''end'', arg from_query (JNum (-1)))]\<rparr>"

definition vrouter_Commands :: command_table where
  "vrouter_Commands = obj_literal
     [(''vrouter.allocate'', cmd_VROUTER_ALLOCATE),
      (''vrouter.delete'', cmd_VROUTER_DELETE),
      (''vrouter.instantiate'', cmd_VROUTER_INSTANTIATE),
      (''vrouter.instantiate'', cmd_VROUTER_INSTANTIATE_POSTBODY),
      (''vrouter.attachnic'', cmd_VROUTER_NIC_ATTACH),
      (''vrouter.detachnic'', cmd_VROUTER_NIC_DETACH),
      (''vrouter.update'', cmd_VROUTER_UPDATE),
      (''vrouter.chmod'', cmd_VROUTER_CHMOD),
      (''vrouter.chown'', cmd_VROUTER_CHOWN),
      (''vrouter.rename'', cmd_VROUTER_RENAME),
      (''vrouter.info'', cmd_VROUTER_INFO),
      (''vrouter.lock'', cmd_VROUTER_LOCK),
      (''vrouter.unlock'', cmd_VROUTER_UNLOCK),
      (''vrouterpool.info'', cmd_VROUTER_POOL_INFO)]"

lemmas vrouter_Commands_defs = cmd_VROUTER_ALLOCATE_def cmd_VROUTER_DELETE_def cmd_VROUTER_INSTANTIATE_def cmd_VROUTER_INSTANTIATE_POSTBODY_def cmd_VROUTER_NIC_ATTACH_def cmd_VROUTER_NIC_DETACH_def cmd_VROUTER_UPDATE_def cmd_VROUTER_CHMOD_def cmd_VROUTER_CHOWN_def cmd_VROUTER_RENAME_def cmd_VROUTER_INFO_def cmd_VROUTER_LOCK_def cmd_VROUTER_UNLOCK_def cmd_VROUTER_POOL_INFO_def

section \<open>zone.js\<close>

definition cmd_ZONE_ALLOCATE :: command where
  "cmd_ZONE_ALLOCATE = \<lparr>cm_httpMethod = ''POST'', cm_params =
      [(''template'', arg from_postBody (JStr []))]\<rparr>"

definition cmd_ZONE_DELETE :: command where
  "cmd_ZONE_DELETE = \<lparr>cm_httpMethod = ''DELETE'', cm_params =
      [(''id'', arg from_resource (JNum (-1)))]\<rparr>"

definition cmd_ZONE_UPDATE :: command where
  "cmd_ZONE_UPDATE = \<lparr>cm_httpMethod = ''PUT'', cm_params =
      [(''id'', arg from_resource (JNum (-1))),
       (''template'', arg from_postBody (JStr [])),
       (''replace'', arg from_postBody (JNum 0))]\<rparr>"

definition cmd_ZONE_RENAME :: command where
  "cmd_ZONE_RENAME = \<lparr>cm_httpMethod = ''PUT'', cm_params =
      [(''id'', arg from_resource (JNum (-1))),
       (''name'', arg from_postBody (JStr []))]\<rparr>"

definition cmd_ZONE_INFO :: command where
  "cmd_ZONE_INFO = \<lparr>cm_httpMethod = ''GET'', cm_params =
      [(''id'', arg from_resource (JNum (-1))),
       (''decrypt'', arg from_query (JBool False))]\<rparr>"

definition cmd_ZONE_RAFTSTATUS :: command where
  "cmd_ZONE_RAFTSTATUS = \<lparr>cm_httpMethod = ''GET'', cm_params =
      []\<rparr>"

definition cmd_ZONE_POOL_INFO :: command where
  "cmd_ZONE_POOL_INFO = \<lparr>cm_httpMethod = ''GET'', cm_params =
      []\<rparr>"

definition zone_Commands :: command_table where
  "zone_Commands = obj_literal
     [(''zone.allocate'', cmd_ZONE_ALLOCATE),
      (''zone.delete'', cmd_ZONE_DELETE),
      (''zone.update'', cmd_ZONE_UPDATE),
      (''zone.rename'', cmd_ZONE_RENAME),
      (''zone.info'', cmd_ZONE_INFO),
      (''zone.raftstatus'', cmd_ZONE_RAFTSTATUS),
      (''zonepool.info'', cmd_ZONE_POOL_INFO)]"

lemmas zone_Commands_defs = cmd_ZONE_ALLOCATE_def cmd_ZONE_DELETE_def cmd_ZONE_UPDATE_def cmd_ZONE_RENAME_def cmd_ZONE_INFO_def cmd_ZONE_RAFTSTATUS_def cmd_ZONE_POOL_INFO_def

section \<open>Well-formedness\<close>

lemma vm_Commands_ok [command_tables]: "list_all command_ok vm_Commands"
  unfolding vm_Commands_def
  by (rule list_all_obj_literal)
     (simp add: command_ok_def vm_Commands_defs arg_def array_arg_def httpMethods_def)

lemma vmgroup_Commands_ok [command_tables]: "list_all command_ok vmgroup_Commands"
  unfolding vmgroup_Commands_def
  by (rule list_all_obj_literal)
     (simp add: command_ok_def vmgroup_Commands_defs arg_def array_arg_def httpMethods_def)

lemma vn_Commands_ok [command_tables]: "list_all command_ok vn_Commands"
  unfolding vn_Commands_def
  by (rule list_all_obj_literal)
     (simp add: command_ok_def vn_Commands_defs arg_def array_arg_def httpMethods_def)

lemma vntemplate_Commands_ok [command_tables]: "list_all command_ok vntemplate_Commands"
  unfolding vntemplate_Commands_def
  by (rule list_all_obj_literal)
     (simp add: command_ok_def vntemplate_Commands_defs arg_def array_arg_def httpMethods_def)

lemma vrouter_Commands_ok [command_tables]: "list_all command_ok vrouter_Commands"
  unfolding vrouter_Commands_def
  by (rule list_all_obj_literal)
     (simp add: command_ok_def vrouter_Commands_defs arg_def array_arg_def httpMethods_def)

lemma zone_Commands_ok [command_tables]: "list_all command_ok zone_Commands"
  unfolding zone_Commands_def
  by (rule list_all_obj_literal)
     (simp add: command_ok_def zone_Commands_defs arg_def array_arg_def httpMethods_def)

end
