(* ===== verification/Xmlrpc.thy ===== *)
theory Xmlrpc
  imports Hook_Sockets Commands_A Commands_B Commands_C
begin

text \<open>
  The XML-RPC half of the API: the command table (\<open>server/utils/constants/commands/index.js\<close>), its
  queries in \<open>server/utils/opennebula.js\<close>, and the routes made from it
  (\<open>server/routes/entrypoints/Api/xmlrpc.js\<close> and \<open>index.js\<close>, with \<open>parseReturnWorker\<close> of
  \<open>server/utils/worker.js\<close>).  The \<open>upcast\<close> package and the worker that calls OpenNebula are
  parameters.
\<close>

section \<open>The command table\<close>

definition opennebulaCommands :: command_table where
  "opennebulaCommands =
     fold (\<lambda>t acc. obj_spread acc t)
       [acl_Commands, backupjobs_Commands, cluster_Commands, datastore_Commands, document_Commands,
        group_Commands, secgroup_Commands, hook_Commands, host_Commands, image_Commands,
        market_Commands, marketapp_Commands, system_Commands, template_Commands, user_Commands,
        vdc_Commands, vm_Commands, vmgroup_Commands, vn_Commands, vntemplate_Commands,
        vrouter_Commands, zone_Commands] []"

definition checkOpennebulaCommand :: "string \<Rightarrow> string \<Rightarrow> command option" where
  "checkOpennebulaCommand command verb =
     (if command \<noteq> [] \<and> verb \<noteq> [] then
        (case map_of opennebulaCommands command of
           Some c \<Rightarrow> if cm_httpMethod c \<noteq> [] \<and> cm_httpMethod c = verb then Some c else None
         | None \<Rightarrow> None)
      else None)"

text \<open>\<open>'default' in params[p]\<close>: the tables write a default for every parameter.\<close>

definition getDefaultParamsOfOpennebulaCommand :: "string \<Rightarrow> string \<Rightarrow> jsval list" where
  "getDefaultParamsOfOpennebulaCommand command httpCode =
     (if command \<noteq> [] \<and> httpCode \<noteq> [] then
        (case checkOpennebulaCommand command httpCode of
           Some c \<Rightarrow> map (\<lambda>(k, p). ps_default p) (filter (\<lambda>(k, p). k \<noteq> [] \<and> ps_default p \<noteq> JUndef) (cm_params c))
         | None \<Rightarrow> [])
      else [])"

definition getMethodForOpennebulaCommand :: "string list" where
  "getMethodForOpennebulaCommand =
     fold (\<lambda>(command, _) rtn.
       (case js_split (CHR ''.'') command of
          _ # m # _ \<Rightarrow> if command \<noteq> [] \<and> m \<notin> set rtn then rtn @ [m] else rtn
        | _ \<Rightarrow> rtn)) opennebulaCommands []"

definition getRouteForOpennebulaCommand :: "string list" where
  "getRouteForOpennebulaCommand =
     fold (\<lambda>(command, _) rtn.
       (case js_split (CHR ''.'') command of
          r # _ \<Rightarrow> if command \<noteq> [] \<and> r \<notin> set rtn then rtn @ [r] else rtn
        | [] \<Rightarrow> rtn)) opennebulaCommands []"

definition getAllowedQueryParams :: "string list" where
  "getAllowedQueryParams =
     fold (\<lambda>(_, c) rtn.
       fold (\<lambda>(k, p) acc. if ps_from p = Some from_query \<and> k \<notin> set acc then acc @ [k] else acc)
         (cm_params c) rtn) opennebulaCommands []"

section \<open>Parameters of a call\<close>

text \<open>\<open>upcast v d\<close> stands for \<open>upcast.to(v, upcast.type(d))\<close>.\<close>

definition command_param :: "(jsval \<Rightarrow> jsval \<Rightarrow> jsval) \<Rightarrow> data_source \<Rightarrow> string \<times> param_spec \<Rightarrow> jsval" where
  "command_param upcast src kp =
     (case kp of (key, value) \<Rightarrow>
        (case ps_from value of
           None \<Rightarrow> JStr []
         | Some from \<Rightarrow>
             if \<not> (key \<noteq> [] \<and> from \<noteq> [] \<and> ps_default value \<noteq> JUndef) then JStr []
             else
               let given = (if truthy (obj_get src from) then prop_get (obj_get src from) key else JUndef)
               in if given \<noteq> JUndef \<and> given \<noteq> JNull
                  then (let up = upcast given (ps_default value)
                        in if ps_arrayDefault value \<noteq> JUndef
                           then (case up of
                                   JArr xs \<Rightarrow> JArr (map (\<lambda>x. upcast x (ps_arrayDefault value)) xs)
                                 | _ \<Rightarrow> up)
                           else up)
                  else ps_default value))"

definition getCommandParams :: "(jsval \<Rightarrow> jsval \<Rightarrow> jsval) \<Rightarrow> params \<Rightarrow> data_source \<Rightarrow> jsval list" where
  "getCommandParams upcast params serverDataSource = map (command_param upcast serverDataSource) params"

section \<open>Routes\<close>

record route =
  rt_verb :: string
  rt_path :: string
  rt_command :: string
  rt_params :: params

definition resourceParams :: "params \<Rightarrow> string" where
  "resourceParams ps =
     fold (\<lambda>(key, value) prev.
       if ps_from value = Some from_resource then prev @ ''/:'' @ key @ ''?'' else prev) ps []"

definition command_route :: "string \<times> command \<Rightarrow> route option" where
  "command_route cc =
     (case cc of (command, c) \<Rightarrow>
        (case js_split (CHR ''.'') command of
           resource # verb # _ \<Rightarrow>
             if resource \<noteq> [] \<and> verb \<noteq> [] \<and> cm_httpMethod c \<noteq> [] then
               map_option (\<lambda>m.
                 \<lparr>rt_verb = m, rt_path = ''/'' @ resource @ ''/'' @ verb @ resourceParams (cm_params c),
                  rt_command = command, rt_params = cm_params c\<rparr>) (validateHttpMethod (cm_httpMethod c))
             else None
         | _ \<Rightarrow> None))"

definition xmlrpcRoutes :: "route list" where
  "xmlrpcRoutes = List.map_filter command_route opennebulaCommands"

section \<open>Handling a request\<close>

text \<open>What the worker reports: an error, or a value.\<close>

record worker_result =
  wr_err :: bool
  wr_value :: jsval

record rpc_call =
  rc_user :: string
  rc_password :: string
  rc_rpc :: string
  rc_command :: string
  rc_params :: "jsval list"

definition parseReturnWorker :: "jsval \<Rightarrow> http_result" where
  "parseReturnWorker value =
     (case value of
        JStr s \<Rightarrow>
          (case json_parse s of
             Inr v \<Rightarrow> httpResponse (Some ok) v [] []
           | Inl _ \<Rightarrow> httpResponse (Some (if s = [] then noContent else notFound)) value [] [])
      | JObj _ \<Rightarrow> httpResponse (Some ok) value [] []
      | JArr _ \<Rightarrow> httpResponse (Some ok) value [] []
      | JNull \<Rightarrow> httpResponse (Some ok) value [] []
      | JNum _ \<Rightarrow> httpResponse (Some ok) value [] []
      | _ \<Rightarrow> httpResponse (Some internalServerError) JUndef [] [])"

text \<open>
  \<open>executeWorker\<close>: the response already set is the internal error; without credentials or an
  endpoint nothing is called and nobody answers.
\<close>

definition executeWorker ::
  "(rpc_call \<Rightarrow> worker_result) \<Rightarrow> rpc_call \<Rightarrow> globals \<Rightarrow> (http_result option \<times> rpc_call list) \<times> globals" where
  "executeWorker worker c g =
     (if rc_user c \<noteq> [] \<and> rc_password c \<noteq> [] \<and> rc_rpc c \<noteq> [] \<and> rc_command c \<noteq> [] then
        (let r = worker c
         in if wr_err r
            then ((Some (httpResponse (Some internalServerError) JUndef [] []), [c]), g)
            else ((Some (parseReturnWorker (wr_value r)), [c]),
                  fillResourceforHookConnection (rc_user c) (rc_command c) (rc_params c) g))
      else ((None, []), g))"

text \<open>The answer a client sees; \<open>NoReply\<close> is a request left open.\<close>

datatype reply = ReplyJson http_result | ReplyFile string | ReplyExpired | NoReply

definition jsonResponser :: "http_result option \<Rightarrow> reply" where
  "jsonResponser httpCode =
     (case httpCode of
        Some r \<Rightarrow> (case hr_file r of Some f \<Rightarrow> if f \<noteq> [] then ReplyFile f else ReplyJson r | None \<Rightarrow> ReplyJson r)
      | None \<Rightarrow> ReplyJson (of_code internalServerError))"

text \<open>A request as the router hands it over.\<close>

record request =
  rq_cookie :: jsval
  rq_zone :: string
  rq_params :: jsval
  rq_query :: jsval
  rq_body :: jsval

definition server_data_source :: "request \<Rightarrow> data_source" where
  "server_data_source r = [(from_resource, rq_params r), (from_query, rq_query r), (from_postBody, rq_body r)]"

record xmlrpc_env =
  xe_jwt :: jwt_lib
  xe_now :: int
  xe_upcast :: "jsval \<Rightarrow> jsval \<Rightarrow> jsval"
  xe_worker :: "rpc_call \<Rightarrow> worker_result"
  xe_config :: zone_config
  xe_zones :: "zone list"

definition xmlrpc_handler ::
  "xmlrpc_env \<Rightarrow> route \<Rightarrow> request \<Rightarrow> globals \<Rightarrow> (reply \<times> rpc_call list) \<times> globals" where
  "xmlrpc_handler env rt req g =
     (case validateSession (xe_jwt env) (xe_now env) True (rq_cookie req) g of
        (Rejected r, g1) \<Rightarrow> ((ReplyJson r, []), g1)
      | (Expired, g1) \<Rightarrow> ((ReplyExpired, []), g1)
      | (Next auth, g1) \<Rightarrow>
          (case fst (getZone (xe_config env) (rq_zone req) (xe_zones env) g1) of
             None \<Rightarrow>
               ((jsonResponser (Some (httpResponse (Some internalServerError) JUndef
                   (hc_message internalServerError @ '': Invalid Zone'') [])), []), g1)
           | Some z \<Rightarrow>
               (let c = \<lparr>rc_user = (case auth of Some a \<Rightarrow> ra_user a | None \<Rightarrow> []),
                         rc_password = (case auth of Some a \<Rightarrow> ra_password a | None \<Rightarrow> []),
                         rc_rpc = zn_rpc z, rc_command = rt_command rt,
                         rc_params = getCommandParams (xe_upcast env) (rt_params rt) (server_data_source req)\<rparr>;
                    ((code, calls), g2) = executeWorker (xe_worker env) c g1
                in (((case code of Some r \<Rightarrow> jsonResponser (Some r) | None \<Rightarrow> NoReply), calls), g2))))"

section \<open>The table and its routes\<close>

definition command_files :: "command_table list" where
  "command_files =
     [acl_Commands, backupjobs_Commands, cluster_Commands, datastore_Commands, document_Commands,
      group_Commands, secgroup_Commands, hook_Commands, host_Commands, image_Commands,
      market_Commands, marketapp_Commands, system_Commands, template_Commands, user_Commands,
      vdc_Commands, vm_Commands, vmgroup_Commands, vn_Commands, vntemplate_Commands,
      vrouter_Commands, zone_Commands]"

lemma opennebulaCommands_files: "opennebulaCommands = fold (\<lambda>t acc. obj_spread acc t) command_files []"
  by (simp add: opennebulaCommands_def command_files_def)

lemma list_all_fold_spread:
  "list_all (list_all P) ts \<Longrightarrow> list_all P acc \<Longrightarrow> list_all P (fold (\<lambda>t acc. obj_spread acc t) ts acc)"
  by (induction ts arbitrary: acc) (auto intro: list_all_obj_spread)

lemma distinct_fold_spread:
  "distinct (map fst acc) \<Longrightarrow> distinct (map fst (fold (\<lambda>t acc. obj_spread acc t) ts acc))"
  by (induction ts arbitrary: acc) (auto intro: distinct_obj_spread)

lemma map_of_fold_spread:
  assumes "\<forall>t \<in> set ts. distinct (map fst t)"
  shows "map_of (fold (\<lambda>t acc. obj_spread acc t) ts acc) k =
     (case List.find (\<lambda>t. map_of t k \<noteq> None) (rev ts) of Some t \<Rightarrow> map_of t k | None \<Rightarrow> map_of acc k)"
  using assms
proof (induction ts arbitrary: acc)
  case Nil
  show ?case by simp
next
  case (Cons t ts)
  have find_snoc: "List.find Q (xs @ [x]) = (case List.find Q xs of Some y \<Rightarrow> Some y | None \<Rightarrow> if Q x then Some x else None)"
    for Q :: "(string \<times> 'b) list \<Rightarrow> bool" and xs x by (induction xs) auto
  show ?case
    using Cons by (auto simp: find_snoc map_of_obj_spread map_add_def split: option.splits)
qed

lemma command_files_distinct: "\<forall>t \<in> set command_files. distinct (map fst t)"
  by (simp add: command_files_def distinct_obj_literal acl_Commands_def backupjobs_Commands_def
      cluster_Commands_def datastore_Commands_def document_Commands_def group_Commands_def
      secgroup_Commands_def hook_Commands_def host_Commands_def image_Commands_def
      market_Commands_def marketapp_Commands_def system_Commands_def template_Commands_def
      user_Commands_def vdc_Commands_def vm_Commands_def vmgroup_Commands_def vn_Commands_def
      vntemplate_Commands_def vrouter_Commands_def zone_Commands_def)

lemma opennebulaCommands_ok: "list_all command_ok opennebulaCommands"
  unfolding opennebulaCommands_files
  by (rule list_all_fold_spread) (simp_all add: command_files_def command_tables)

lemma opennebulaCommands_distinct: "distinct (map fst opennebulaCommands)"
  unfolding opennebulaCommands_files by (rule distinct_fold_spread) simp

text \<open>The part of a route's path before its parameters names the command.\<close>

lemma resourceParams_shape: "resourceParams ps = [] \<or> hd (resourceParams ps) = CHR ''/''"
proof -
  let ?f = "\<lambda>(key, value) prev. if ps_from value = Some from_resource then prev @ ''/:'' @ key @ ''?'' else prev"
  have "fold ?f ps acc = [] \<or> hd (fold ?f ps acc) = CHR ''/''" if "acc = [] \<or> hd acc = CHR ''/''" for acc
    using that
  proof (induction ps arbitrary: acc)
    case (Cons p ps)
    have "?f p acc = [] \<or> hd (?f p acc) = CHR ''/''"
      using Cons.prems by (cases p) (auto simp: hd_append)
    then show ?case using Cons.IH [of "?f p acc"] by simp
  qed simp
  then show ?thesis by (simp add: resourceParams_def)
qed

lemma command_route_ok:
  assumes "command_ok (k, c)"
  obtains r m where "k = r @ ''.'' @ m" and "CHR ''/'' \<notin> set r" and "CHR ''/'' \<notin> set m"
    and "command_route (k, c) = Some \<lparr>rt_verb = to_lower (cm_httpMethod c),
           rt_path = ''/'' @ r @ ''/'' @ m @ resourceParams (cm_params c), rt_command = k, rt_params = cm_params c\<rparr>"
proof -
  obtain r m where rm: "js_split (CHR ''.'') k = [r, m]" "r \<noteq> []" "m \<noteq> []"
    "CHR ''/'' \<notin> set r" "CHR ''/'' \<notin> set m"
    using assms by (auto simp: command_ok_def split: list.splits)
  have verb: "cm_httpMethod c \<in> set httpMethods" using assms by (simp add: command_ok_def)
  then have "cm_httpMethod c \<noteq> []" by (auto simp: httpMethods_def)
  moreover have "k = r @ ''.'' @ m" using js_join_split [of "CHR ''.''" k] rm(1) by simp
  ultimately show ?thesis
    using that [of r m] rm verb by (simp add: command_route_def validateHttpMethod_def)
qed

lemma xmlrpcRoutes_commands: "map rt_command xmlrpcRoutes = map fst opennebulaCommands"
proof -
  have "map rt_command (List.map_filter command_route cs) = map fst cs" if "list_all command_ok cs" for cs
    using that
  proof (induction cs)
    case Nil
    show ?case by (simp add: List.map_filter_def)
  next
    case (Cons kc cs)
    obtain k c where kc: "kc = (k, c)" by (cases kc)
    with Cons.prems have "command_ok (k, c)" by simp
    then obtain r m where "command_route (k, c) = Some \<lparr>rt_verb = to_lower (cm_httpMethod c),
           rt_path = ''/'' @ r @ ''/'' @ m @ resourceParams (cm_params c), rt_command = k, rt_params = cm_params c\<rparr>"
      by (rule command_route_ok)
    then show ?case using Cons by (simp add: kc List.map_filter_def)
  qed
  then show ?thesis using opennebulaCommands_ok by (simp add: xmlrpcRoutes_def)
qed

lemma xmlrpcRoutes_member:
  "rt \<in> set xmlrpcRoutes \<longleftrightarrow> (\<exists>kc \<in> set opennebulaCommands. command_route kc = Some rt)"
  by (force simp: xmlrpcRoutes_def List.map_filter_def image_iff)

lemma path_parts:
  assumes "CHR ''/'' \<notin> set r" "CHR ''/'' \<notin> set m" "t = [] \<or> hd t = CHR ''/''"
    and "CHR ''/'' \<notin> set r'" "CHR ''/'' \<notin> set m'" "t' = [] \<or> hd t' = CHR ''/''"
    and "r @ ''/'' @ m @ t = r' @ ''/'' @ m' @ t'"
  shows "r = r' \<and> m = m'"
proof -
  let ?p = "takeWhile (\<lambda>c. c \<noteq> CHR ''/'')"
  have tw: "?p (w @ u) = w" if "CHR ''/'' \<notin> set w" "u = [] \<or> hd u = CHR ''/''" for w u
    using that by (cases u) (auto simp: takeWhile_append)
  have "r = r'" using assms tw [of r "''/'' @ m @ t"] tw [of r' "''/'' @ m' @ t'"] by simp
  moreover from this assms(7) have "m @ t = m' @ t'" by simp
  then have "m = m'" using assms tw [of m t] tw [of m' t'] by metis
  ultimately show ?thesis by simp
qed

lemma route_path_command:
  assumes "command_ok (k, c)" "command_ok (k', c')"
    and "command_route (k, c) = Some a" "command_route (k', c') = Some b" "rt_path a = rt_path b"
  shows "k = k'"
proof -
  obtain r m where a: "k = r @ ''.'' @ m" "CHR ''/'' \<notin> set r" "CHR ''/'' \<notin> set m"
    "rt_path a = ''/'' @ r @ ''/'' @ m @ resourceParams (cm_params c)"
    using command_route_ok [OF assms(1)] assms(3) by (metis option.inject route.select_convs(2))
  obtain r' m' where b: "k' = r' @ ''.'' @ m'" "CHR ''/'' \<notin> set r'" "CHR ''/'' \<notin> set m'"
    "rt_path b = ''/'' @ r' @ ''/'' @ m' @ resourceParams (cm_params c')"
    using command_route_ok [OF assms(2)] assms(4) by (metis option.inject route.select_convs(2))
  have "r @ ''/'' @ m @ resourceParams (cm_params c) = r' @ ''/'' @ m' @ resourceParams (cm_params c')"
    using assms(5) a(4) b(4) by simp
  then have "r = r' \<and> m = m'"
    by (rule path_parts [OF a(2,3) resourceParams_shape b(2,3) resourceParams_shape])
  then show ?thesis using a(1) b(1) by simp
qed

text \<open>Looking a command up: the last file that has it decides.\<close>

fun last_lookup :: "command_table list \<Rightarrow> string \<Rightarrow> command option" where
  "last_lookup [] k = None"
| "last_lookup (t # ts) k = (case map_of t k of Some c \<Rightarrow> Some c | None \<Rightarrow> last_lookup ts k)"

lemma find_last_lookup:
  "(case List.find (\<lambda>t. map_of t k \<noteq> None) ts of Some t \<Rightarrow> map_of t k | None \<Rightarrow> None) = last_lookup ts k"
  by (induction ts) (auto split: option.splits)

lemma lookup_command: "map_of opennebulaCommands k = last_lookup (rev command_files) k"
  unfolding opennebulaCommands_files find_last_lookup [symmetric]
  by (simp add: map_of_fold_spread [OF command_files_distinct] split: option.split)

lemmas command_files_defs = command_files_def acl_Commands_def backupjobs_Commands_def
      cluster_Commands_def datastore_Commands_def document_Commands_def group_Commands_def
      secgroup_Commands_def hook_Commands_def host_Commands_def image_Commands_def
      market_Commands_def marketapp_Commands_def system_Commands_def template_Commands_def
      user_Commands_def vdc_Commands_def vm_Commands_def vmgroup_Commands_def vn_Commands_def
      vntemplate_Commands_def vrouter_Commands_def zone_Commands_def

lemma hook_delete_entry:
  "map_of opennebulaCommands ''hook.delete'' = Some cmd_HOOK_DELETE_again"
  "map_of opennebulaCommands ''hook.update'' = None"
  by (simp_all add: lookup_command command_files_defs map_of_obj_literal)

lemma vrouter_instantiate_entry:
  "map_of opennebulaCommands ''vrouter.instantiate'' = Some cmd_VROUTER_INSTANTIATE_POSTBODY"
  by (simp add: lookup_command command_files_defs map_of_obj_literal)

lemma user_commands:
  "map_of opennebulaCommands ''user.info'' = Some cmd_USER_INFO"
  "map_of opennebulaCommands ''user.update'' = Some cmd_USER_UPDATE"
  "map_of opennebulaCommands ''userpool.info'' = Some cmd_USER_POOL_INFO"
  by (simp_all add: lookup_command command_files_defs map_of_obj_literal)

text \<open>The session a handled request runs under.\<close>

lemma validateSession_Next:
  assumes "validateSession lib now True cookie g = (Next auth, g')"
  obtains a where "auth = Some a" and "session_valid now (ra_user a) (ra_password a) g"
    and "g' = ensureSessionStore g"
  using assms
  by (auto simp: validateSession_def validateUser_spec Let_def split: option.splits if_splits)

lemma executeWorker_calls:
  "executeWorker w c g = ((code, calls), g') \<Longrightarrow> x \<in> set calls \<Longrightarrow> x = c \<and> calls = [c]"
  by (auto simp: executeWorker_def Let_def split: if_splits)

section \<open>Properties\<close>

text \<open>
  C22. The route table is complete and free of clashes: every command of the table gets a route, in
  the table's order, and no two routes have the same path, so express never hides one behind
  another.
\<close>

theorem every_command_routed:
  "map rt_command xmlrpcRoutes = map fst opennebulaCommands \<and> distinct (map rt_path xmlrpcRoutes)"
proof
  show "map rt_command xmlrpcRoutes = map fst opennebulaCommands" by (rule xmlrpcRoutes_commands)
  then have dist: "distinct (map rt_command xmlrpcRoutes)" using opennebulaCommands_distinct by simp
  have "rt_command a = rt_command b"
    if ab: "a \<in> set xmlrpcRoutes" "b \<in> set xmlrpcRoutes" "rt_path a = rt_path b" for a b
  proof -
    obtain k c k' c' where kc: "(k, c) \<in> set opennebulaCommands" "command_route (k, c) = Some a"
      and kc': "(k', c') \<in> set opennebulaCommands" "command_route (k', c') = Some b"
      using ab(1,2) by (auto simp: xmlrpcRoutes_member)
    have oks: "command_ok (k, c)" "command_ok (k', c')"
      using opennebulaCommands_ok kc(1) kc'(1) by (auto simp: list_all_iff)
    have "k = k'" by (rule route_path_command [OF oks kc(2) kc'(2) ab(3)])
    moreover have "rt_command a = k" "rt_command b = k'"
      using oks kc(2) kc'(2) by (auto elim: command_route_ok)
    ultimately show ?thesis by simp
  qed
  moreover have "inj_on rt_command (set xmlrpcRoutes)" using dist by (simp only: distinct_map)
  ultimately have "inj_on rt_path (set xmlrpcRoutes)" by (meson inj_on_def)
  moreover have "distinct xmlrpcRoutes" using dist by (simp only: distinct_map)
  ultimately show "distinct (map rt_path xmlrpcRoutes)" by (simp only: distinct_map)
qed

text \<open>
  A request that carries no data calls OpenNebula with exactly the defaults
  \<open>getDefaultParamsOfOpennebulaCommand\<close> gives for the command, one per parameter and in call order:
  the two readers of the command table agree on every command.
\<close>

theorem empty_request_uses_defaults:
  "list_all (\<lambda>(k, c). getCommandParams upcast (cm_params c) [] =
      getDefaultParamsOfOpennebulaCommand k (cm_httpMethod c) \<and>
      length (getDefaultParamsOfOpennebulaCommand k (cm_httpMethod c)) = length (cm_params c))
    opennebulaCommands"
proof -
  have "getDefaultParamsOfOpennebulaCommand k (cm_httpMethod c) = map (\<lambda>(n, p). ps_default p) (cm_params c)
      \<and> getCommandParams upcast (cm_params c) [] = map (\<lambda>(n, p). ps_default p) (cm_params c)"
    if kc: "(k, c) \<in> set opennebulaCommands" for k c
  proof -
    have wf: "command_ok (k, c)" using opennebulaCommands_ok kc by (auto simp: list_all_iff)
    have look: "map_of opennebulaCommands k = Some c"
      using opennebulaCommands_distinct kc by (rule map_of_is_SomeI)
    have kne: "k \<noteq> []" using wf by (auto simp: command_ok_def)
    have vne: "cm_httpMethod c \<noteq> []" using wf by (auto simp: command_ok_def httpMethods_def)
    have ps: "n \<noteq> [] \<and> ps_default p \<noteq> JUndef \<and> (\<exists>src. ps_from p = Some src \<and> src \<noteq> [])"
      if "(n, p) \<in> set (cm_params c)" for n p
      using wf that by (auto simp: command_ok_def list_all_iff from_defs)
    then have "filter (\<lambda>(n, p). n \<noteq> [] \<and> ps_default p \<noteq> JUndef) (cm_params c) = cm_params c"
      by (auto simp: filter_id_conv)
    moreover have "command_param upcast [] x = (case x of (n, p) \<Rightarrow> ps_default p)"
      if "x \<in> set (cm_params c)" for x
      using ps that by (cases x) (fastforce simp: command_param_def obj_get_def)
    ultimately show ?thesis
      using look kne vne
      by (auto simp: getDefaultParamsOfOpennebulaCommand_def checkOpennebulaCommand_def getCommandParams_def)
  qed
  then show ?thesis by (auto simp: list_all_iff)
qed

text \<open>The type of a value, and what the code relies on in the upcast package: a conversion to the type of
  another value gives a value of that type.\<close>

fun js_type :: "jsval \<Rightarrow> string" where
  "js_type JUndef = ''undefined''"
| "js_type JNull = ''null''"
| "js_type (JBool _) = ''boolean''"
| "js_type (JNum _) = ''number''"
| "js_type (JStr _) = ''string''"
| "js_type (JArr _) = ''array''"
| "js_type (JObj _) = ''object''"

definition upcast_typed :: "(jsval \<Rightarrow> jsval \<Rightarrow> jsval) \<Rightarrow> bool" where
  "upcast_typed upcast \<longleftrightarrow> (\<forall>v d. js_type (upcast v d) = js_type d)"

definition argument_typed :: "string \<times> param_spec \<Rightarrow> jsval \<Rightarrow> bool" where
  "argument_typed kp v =
     (js_type v = js_type (ps_default (snd kp)) \<and>
      (v = ps_default (snd kp) \<or> ps_arrayDefault (snd kp) = JUndef \<or>
       (case v of JArr xs \<Rightarrow> list_all (\<lambda>x. js_type x = js_type (ps_arrayDefault (snd kp))) xs | _ \<Rightarrow> True)))"

lemma command_param_typed:
  assumes "upcast_typed upcast" "k \<noteq> []" "ps_from p = Some src_name" "src_name \<noteq> []" "ps_default p \<noteq> JUndef"
  shows "argument_typed (k, p) (command_param upcast src (k, p))"
proof -
  let ?up = "\<lambda>v. upcast v (ps_default p)"
  have t: "js_type (?up v) = js_type (ps_default p)" "js_type (upcast v (ps_arrayDefault p)) = js_type (ps_arrayDefault p)" for v
    using assms(1) by (simp_all add: upcast_typed_def)
  have "argument_typed (k, p) (if ps_arrayDefault p \<noteq> JUndef
      then (case ?up v of JArr xs \<Rightarrow> JArr (map (\<lambda>x. upcast x (ps_arrayDefault p)) xs) | _ \<Rightarrow> ?up v) else ?up v)" for v
    using t(1) [of v] t(2) by (cases "?up v") (auto simp: argument_typed_def list_all_iff)
  moreover have "argument_typed (k, p) (ps_default p)" by (simp add: argument_typed_def)
  ultimately show ?thesis using assms(2-5) by (simp add: command_param_def Let_def)
qed

text \<open>
  C30. The arguments of a call have the types the command declares: whatever a request carries, and whatever it
  leaves out, each argument has the type of the default of its parameter, and the elements of a list that
  was sent have the type declared for them.
\<close>

theorem call_arguments_typed:
  assumes "upcast_typed upcast" "(k, c) \<in> set opennebulaCommands"
  shows "list_all2 argument_typed (cm_params c) (getCommandParams upcast (cm_params c) src)"
proof -
  have "command_ok (k, c)" using opennebulaCommands_ok assms(2) by (auto simp: list_all_iff)
  then have "argument_typed (n, p) (command_param upcast src (n, p))" if "(n, p) \<in> set (cm_params c)" for n p
    using that by (intro command_param_typed [OF assms(1), where src_name = "the (ps_from p)"])
      (auto simp: command_ok_def list_all_iff from_defs)
  then show ?thesis by (auto simp: getCommandParams_def list_all2_map2 list_all2_same)
qed

definition sample_upcast :: "jsval \<Rightarrow> jsval \<Rightarrow> jsval" where
  "sample_upcast v d =
     (case d of
        JBool _ \<Rightarrow> JBool (truthy v)
      | JNum _ \<Rightarrow> JNum (the_default 0 (to_number v))
      | JArr _ \<Rightarrow> JArr [v]
      | _ \<Rightarrow> d)"

theorem call_arguments_typed_witness:
  "list_all2 argument_typed (cm_params cmd_USER_INFO)
     (getCommandParams sample_upcast (cm_params cmd_USER_INFO) [(from_resource, JObj [(''id'', JStr ''7'')])])"
proof (rule call_arguments_typed)
  have "js_type (sample_upcast v d) = js_type d" for v d by (cases d) (simp_all add: sample_upcast_def)
  then show "upcast_typed sample_upcast" by (simp add: upcast_typed_def)
  show "(''user.info'', cmd_USER_INFO) \<in> set opennebulaCommands" by (rule map_of_SomeD) (simp add: user_commands)
qed

text \<open>
  C1. No XML-RPC call without a live session: whenever handling a request calls OpenNebula, it is one
  call, of the route's command, with the user and token of a session that \<open>validateUser\<close> accepts at
  that moment, against the endpoint of a configured zone.
\<close>

theorem rpc_needs_live_session:
  assumes "xmlrpc_handler env rt req g = ((answer, calls), g')" and "c \<in> set calls"
  shows "fst (validateUser (xe_now env) (rc_user c) (rc_password c) g) \<and> calls = [c] \<and>
     rc_command c = rt_command rt \<and>
     (\<exists>z. fst (getZone (xe_config env) (rq_zone req) (xe_zones env) (ensureSessionStore g)) = Some z
        \<and> rc_rpc c = zn_rpc z)"
proof -
  obtain auth g1 where v: "validateSession (xe_jwt env) (xe_now env) True (rq_cookie req) g = (Next auth, g1)"
    using assms by (auto simp: xmlrpc_handler_def split: prod.splits session_outcome.splits)
  from v obtain a where a: "auth = Some a" "session_valid (xe_now env) (ra_user a) (ra_password a) g"
    "g1 = ensureSessionStore g" by (rule validateSession_Next)
  obtain z where z: "fst (getZone (xe_config env) (rq_zone req) (xe_zones env) g1) = Some z"
    using assms v by (cases "fst (getZone (xe_config env) (rq_zone req) (xe_zones env) g1)")
      (auto simp: xmlrpc_handler_def)
  let ?c = "\<lparr>rc_user = ra_user a, rc_password = ra_password a, rc_rpc = zn_rpc z, rc_command = rt_command rt,
     rc_params = getCommandParams (xe_upcast env) (rt_params rt) (server_data_source req)\<rparr>"
  obtain code where "executeWorker (xe_worker env) ?c g1 = ((code, calls), g')"
    using assms(1) v z a(1) by (auto simp: xmlrpc_handler_def Let_def split: prod.splits)
  then have "c = ?c \<and> calls = [?c]" using assms(2) by (auto dest: executeWorker_calls)
  then show ?thesis using a z by (auto simp: validateUser_spec)
qed

text \<open>A concrete run: one session, the default zone, a worker that answers a number.\<close>

definition demo_globals :: globals where
  "demo_globals =
     addUserSession ''serveradmin:bob'' \<lparr>te_token = ''tok'', te_expires = 9\<rparr>
       (initial_globals\<lparr>FIREEDGE_KEY := Some ''key''\<rparr>)"

definition demo_env :: xmlrpc_env where
  "demo_env =
     \<lparr>xe_jwt = \<lparr>jwt_encode = (\<lambda>p k. ''jwt''),
                jwt_decode = (\<lambda>t k. Some \<lparr>jp_iss = ''3'', jp_aud = ''serveradmin:bob'', jp_jti = ''tok''\<rparr>)\<rparr>,
      xe_now = 0, xe_upcast = (\<lambda>v d. v), xe_worker = (\<lambda>c. \<lparr>wr_err = False, wr_value = JNum 7\<rparr>),
      xe_config = \<lparr>one_xmlrpc = [], subscriber_endpoint = [], dz_id = [], dz_name = [], dz_endpoint = [],
                    dz_zeromq = [], dz_fireedge = None\<rparr>,
      xe_zones = defaultOpennebulaZones\<rparr>"

definition demo_request :: request where
  "demo_request =
     \<lparr>rq_cookie = JObj [(''token'', JStr ''jwt'')], rq_zone = [], rq_params = JObj [(''id'', JNum 4)],
      rq_query = JObj [], rq_body = JObj []\<rparr>"

definition demo_route :: route where
  "demo_route = \<lparr>rt_verb = ''get'', rt_path = ''/vm/info/:id?'', rt_command = ''vm.info'',
     rt_params = [(''id'', arg from_resource (JNum (-1)))]\<rparr>"

lemma demo_valid: "validateUser 0 ''serveradmin:bob'' ''tok'' demo_globals = (True, ensureSessionStore demo_globals)"
  by (simp add: validateUser_def demo_globals_def addUserSession_def ensureSessionStore_def store_def
      index_def initial_globals_def)

lemma demo_zone:
  "fst (getZone (xe_config demo_env) [] (xe_zones demo_env) (ensureSessionStore demo_globals)) =
     Some \<lparr>zn_id = ''0'', zn_name = ''OpenNebula'', zn_rpc = ''http://localhost:2633/RPC2'', zn_zeromq = [], zn_fireedge = None\<rparr>"
  by (simp add: getZone_def getDataZone_def demo_env_def defaultOpennebulaZones_def demo_globals_def
      addUserSession_def ensureSessionStore_def initial_globals_def parse_int_def parse_nat_def
      is_space_def is_digit_def Let_def)

lemma demo_session:
  "validateSession (xe_jwt demo_env) 0 True (rq_cookie demo_request) demo_globals =
     (Next (Some \<lparr>ra_id = ''3'', ra_user = ''serveradmin:bob'', ra_password = ''tok''\<rparr>), ensureSessionStore demo_globals)"
proof -
  have key: "signing_key demo_globals = Some ''key''"
    by (simp add: signing_key_def demo_globals_def addUserSession_def ensureSessionStore_def initial_globals_def Let_def)
  have "validateAuth (xe_jwt demo_env) demo_globals (rq_cookie demo_request) =
      Some \<lparr>jp_iss = ''3'', jp_aud = ''serveradmin:bob'', jp_jti = ''tok''\<rparr>"
    by (simp add: validateAuth_def demo_request_def obj_get_def jwtDecode_def key demo_env_def complete_payload_def)
  then show ?thesis using demo_valid by (simp add: validateSession_def)
qed

lemma demo_calls:
  "snd (fst (xmlrpc_handler demo_env demo_route demo_request demo_globals)) =
     [\<lparr>rc_user = ''serveradmin:bob'', rc_password = ''tok'', rc_rpc = ''http://localhost:2633/RPC2'',
       rc_command = ''vm.info'', rc_params = [JNum 4]\<rparr>]"
proof -
  have params: "getCommandParams (xe_upcast demo_env) (rt_params demo_route) (server_data_source demo_request) = [JNum 4]"
    by (simp add: getCommandParams_def command_param_def demo_route_def demo_request_def arg_def demo_env_def
        server_data_source_def obj_get_def from_defs)
  have "xe_now demo_env = 0" "rq_zone demo_request = []" by (simp_all add: demo_env_def demo_request_def)
  then show ?thesis
    using demo_zone demo_session params
    by (simp add: xmlrpc_handler_def executeWorker_def Let_def demo_route_def)
qed

theorem rpc_needs_live_session_witness:
  "fst (validateUser 0 ''serveradmin:bob'' ''tok'' demo_globals)"
proof -
  obtain answer calls g' where h: "xmlrpc_handler demo_env demo_route demo_request demo_globals = ((answer, calls), g')"
    by (metis prod.collapse)
  then have "calls = [\<lparr>rc_user = ''serveradmin:bob'', rc_password = ''tok'', rc_rpc = ''http://localhost:2633/RPC2'',
       rc_command = ''vm.info'', rc_params = [JNum 4]\<rparr>]" using demo_calls by simp
  from rpc_needs_live_session [OF h, unfolded this, OF list.set_intros(1)]
  show ?thesis by (simp add: demo_env_def)
qed

text \<open>
  The hook table writes the key \<open>hook.delete\<close> twice, the second time with the parameters of an
  update: a hook cannot be deleted with the DELETE verb, the PUT route of \<open>hook.delete\<close> sends three
  parameters, and there is no \<open>hook.update\<close> command at all.
\<close>

theorem hook_delete_overwritten:
  "checkOpennebulaCommand ''hook.delete'' ''DELETE'' = None \<and>
   getDefaultParamsOfOpennebulaCommand ''hook.delete'' ''PUT'' = [JNum (-1), JStr [], JNum 0] \<and>
   map_of opennebulaCommands ''hook.update'' = None"
  by (simp add: checkOpennebulaCommand_def getDefaultParamsOfOpennebulaCommand_def hook_delete_entry
      cmd_HOOK_DELETE_again_def arg_def)

text \<open>
  The virtual router table maps two constants to the key \<open>vrouter.instantiate\<close>; the second one
  wins, so the only route has no \<open>:id\<close> in its path and an id in the URL reaches no command.
\<close>

theorem vrouter_instantiate_overwritten:
  "map_option (\<lambda>c. map_option rt_path (command_route (''vrouter.instantiate'', c)))
     (map_of opennebulaCommands ''vrouter.instantiate'') = Some (Some ''/vrouter/instantiate'') \<and>
   map_option rt_path (command_route (''vrouter.instantiate'', cmd_VROUTER_INSTANTIATE)) =
     Some ''/vrouter/instantiate/:id?''"
  by (simp add: vrouter_instantiate_entry command_route_def cmd_VROUTER_INSTANTIATE_POSTBODY_def
      cmd_VROUTER_INSTANTIATE_def validateHttpMethod_def httpMethods_def resourceParams_def arg_def from_defs)

end
