(* ===== verification/Auth.thy ===== *)
theory Auth
  imports Xmlrpc
begin

text \<open>
  Logging in and out of the FireEdge server: \<open>server/routes/api/auth/utils.js\<close> and
  \<open>server/routes/api/auth/functions.js\<close>, with \<open>getSunstoneAuth\<close> of \<open>server/utils/server.js\<close>
  and \<open>generateNewResourceTemplate\<close> of \<open>server/utils/opennebula.js\<close>.

  An \<open>async\<close> function is a function of the server state that returns a result or a thrown value and
  the state it leaves; \<open>await\<close> is sequencing.  OpenNebula, the cipher, the hash, the one-time
  password check, the secret generator and the QR encoder are parameters; the clock is read once
  per request.  An empty string stands for an absent string.
\<close>

section \<open>Parameters and data\<close>

record user_template =
  ut_SUNSTONE :: "(string \<times> string) list option"
  ut_FIREEDGE :: "(string \<times> string) list option"

record user_info =
  ui_ID :: string
  ui_NAME :: string
  ui_PASSWORD :: string
  ui_AUTH_DRIVER :: string
  ui_TEMPLATE :: "user_template option"

record zone_info =
  zi_ID :: string
  zi_NAME :: string
  zi_ENDPOINT :: string
  zi_FIREEDGE_ENDPOINT :: string

text \<open>A call of OpenNebula with a user name, a password, an action and its parameters.\<close>

record one_call =
  oc_user :: string
  oc_pass :: string
  oc_action :: string
  oc_params :: "jsval list"

datatype one_value =
    OneUser "user_info option"
  | OneUsers "user_info list"
  | OneZones "zone_info list"
  | OneOther jsval

datatype tfa_result = TFA_OK | NOT_SUPPORTED | NEED_2FA_SETUP | COMPLETE_2FA_SETUP
  | NEED_2FA_TOKEN | INVALID_2FA

datatype auth_type = CORE | SAML | X509 | REMOTE

datatype thrown = ThrownHttp http_result | ThrownJs js_error | ThrownOne string

record auth_config =
  session_expiration :: int
  session_remember_expiration :: int
  minimum_opennebula_expiration :: int
  enforce_2fa :: bool
  auth_method :: "string option"

record auth_env =
  ae_jwt :: jwt_lib
  ae_now :: int
  ae_config :: auth_config
  ae_one :: "one_call \<Rightarrow> string + one_value"
  ae_encrypt :: "string \<Rightarrow> string \<Rightarrow> string \<Rightarrow> string option"
  ae_sha256 :: "string \<Rightarrow> string"
  ae_totp :: "string \<Rightarrow> string \<Rightarrow> bool"
  ae_secret :: string
  ae_qr :: "string option"
  ae_auth_file :: "string option"

text \<open>The state a request runs in: the globals, and the calls of OpenNebula made so far.\<close>

record auth_state =
  glob :: globals
  calls :: "one_call list"

type_synonym 'a async = "auth_state \<Rightarrow> (thrown + 'a) \<times> auth_state"

definition areturn :: "'a \<Rightarrow> 'a async" where
  "areturn x = (\<lambda>s. (Inr x, s))"

definition athrow :: "thrown \<Rightarrow> 'a async" where
  "athrow e = (\<lambda>s. (Inl e, s))"

definition await :: "'a async \<Rightarrow> ('a \<Rightarrow> 'b async) \<Rightarrow> 'b async" where
  "await m f = (\<lambda>s. case m s of (Inl e, t) \<Rightarrow> (Inl e, t) | (Inr x, t) \<Rightarrow> f x t)"

definition on_globals :: "(globals \<Rightarrow> globals) \<Rightarrow> unit async" where
  "on_globals f = (\<lambda>s. (Inr (), s\<lparr>glob := f (glob s)\<rparr>))"

text \<open>\<open>throw httpResponse(code, '', message)\<close>.\<close>

definition throw_code :: "http_code \<Rightarrow> string \<Rightarrow> 'a async" where
  "throw_code c m = athrow (ThrownHttp (httpResponse (Some c) (JStr []) m []))"

definition one_connect :: "auth_env \<Rightarrow> one_call \<Rightarrow> one_value async" where
  "one_connect env c = (\<lambda>s. (case ae_one env c of Inl e \<Rightarrow> Inl (ThrownOne e) | Inr v \<Rightarrow> Inr v,
                             s\<lparr>calls := calls s @ [c]\<rparr>))"

section \<open>Times and templates\<close>

definition defaultSessionExpiration :: int where "defaultSessionExpiration = 180"
definition defaultSessionLimitExpiration :: int where "defaultSessionLimitExpiration = 30"
definition defaultRememberSessionExpiration :: int where "defaultRememberSessionExpiration = 43200"
definition default2FAOpennebulaVar :: string where "default2FAOpennebulaVar = ''TWO_FACTOR_AUTH_SECRET''"
definition default2FAOpennebulaTmpVar :: string where
  "default2FAOpennebulaTmpVar = ''TMP_TWO_FACTOR_AUTH_SECRET''"

text \<open>\<open>a || b\<close> on numbers.\<close>

definition num_or :: "int \<Rightarrow> int \<Rightarrow> int" where
  "num_or a b = (if a \<noteq> 0 then a else b)"

record dates =
  d_nowMs :: int
  d_limitToken :: int
  d_limitExpirationReuseToken :: int
  d_expireMs :: int
  d_relativeTime :: int

definition getDates :: "auth_env \<Rightarrow> bool \<Rightarrow> dates" where
  "getDates env remember =
     (let cfg = ae_config env;
          limitToken = (if remember then num_or (session_remember_expiration cfg) defaultRememberSessionExpiration
                        else num_or (session_expiration cfg) defaultSessionExpiration)
      in \<lparr>d_nowMs = ae_now env, d_limitToken = limitToken,
          d_limitExpirationReuseToken = num_or (minimum_opennebula_expiration cfg) defaultSessionLimitExpiration,
          d_expireMs = ae_now env + limitToken * 60000,
          d_relativeTime = limitToken * 60\<rparr>)"

text \<open>The wrapper is a prefix and a suffix around \<open>%1$s\<close>.\<close>

definition generateNewResourceTemplate ::
  "(string \<times> string) list \<Rightarrow> (string \<times> string) list \<Rightarrow> string list \<Rightarrow> string \<times> string \<Rightarrow> string" where
  "generateNewResourceTemplate current addPositions removedPositions wrapper =
     fst wrapper @
     js_join '', '' (map (\<lambda>(position, value). position @ ''='' @ value)
       (filter (\<lambda>(position, value). position \<noteq> [] \<and> position \<notin> set removedPositions)
         (obj_spread current addPositions))) @
     snd wrapper"

definition fireedge_wrapper :: "string \<times> string" where
  "fireedge_wrapper = (''FIREEDGE=['', '']'')"

section \<open>Second factor\<close>

definition validate2FA :: "auth_env \<Rightarrow> string \<Rightarrow> string \<Rightarrow> bool" where
  "validate2FA env secret token = (if secret = [] \<or> token = [] then False else ae_totp env secret token)"

definition template_secret :: "(string \<times> string) list option \<Rightarrow> string" where
  "template_secret t = (case t of None \<Rightarrow> [] | Some fs \<Rightarrow>
     (case map_of fs default2FAOpennebulaVar of None \<Rightarrow> [] | Some v \<Rightarrow> v))"

text \<open>\<open>TEMPLATE?.SUNSTONE?.[var] || TEMPLATE?.FIREEDGE?.[var]\<close>.\<close>

definition mfa_secret :: "user_info \<Rightarrow> string" where
  "mfa_secret u =
     (case ui_TEMPLATE u of
        None \<Rightarrow> []
      | Some t \<Rightarrow> if template_secret (ut_SUNSTONE t) \<noteq> [] then template_secret (ut_SUNSTONE t)
                 else template_secret (ut_FIREEDGE t))"

definition check2FA :: "auth_env \<Rightarrow> user_info \<Rightarrow> string \<Rightarrow> auth_type \<Rightarrow> tfa_result async" where
  "check2FA env u tfatoken protocol =
     (if protocol \<noteq> CORE then areturn NOT_SUPPORTED
      else if \<not> (enforce_2fa (ae_config env) \<or> mfa_secret u \<noteq> []) then areturn TFA_OK
      else (\<lambda>s.
        if mfa_secret u = [] then
          (if tfatoken = [] then (Inr NEED_2FA_SETUP, s)
           else (case pending2FA (glob s) (ui_ID u) of
                   None \<Rightarrow> (Inl (ThrownJs TypeError), s)
                 | Some secret \<Rightarrow>
                     if validate2FA env secret tfatoken then (Inr COMPLETE_2FA_SETUP, s)
                     else if \<not> validate2FA env (mfa_secret u) tfatoken then (Inr INVALID_2FA, s)
                     else (Inr TFA_OK, s)))
        else if tfatoken = [] then (Inr NEED_2FA_TOKEN, s)
        else if \<not> validate2FA env (mfa_secret u) tfatoken then (Inr INVALID_2FA, s)
        else (Inr TFA_OK, s)))"

definition generateQr2FA :: "auth_env \<Rightarrow> user_info \<Rightarrow> string async" where
  "generateQr2FA env u =
     (if ui_ID u = [] then throw_code internalServerError []
      else await (on_globals (\<lambda>g. g\<lparr>pending2FA := (pending2FA g)(ui_ID u \<mapsto> ae_secret env)\<rparr>)) (\<lambda>_.
        (case ae_qr env of None \<Rightarrow> throw_code internalServerError [] | Some url \<Rightarrow> areturn url)))"

section \<open>The server administrator\<close>

record server_admin =
  sa_username :: string
  sa_key :: string
  sa_iv :: string

text \<open>The text with its line breaks taken out.\<close>

definition replaceEscapeSequence :: "string \<Rightarrow> string" where
  "replaceEscapeSequence s = filter (\<lambda>c. (of_char c :: nat) \<noteq> 13 \<and> (of_char c :: nat) \<noteq> 10) s"

definition getSunstoneAuth :: "auth_env \<Rightarrow> server_admin option" where
  "getSunstoneAuth env =
     (case ae_auth_file env of
        None \<Rightarrow> None
      | Some filedata \<Rightarrow>
          if filedata = [] then None
          else (case js_split (CHR '':'') filedata of
             u # p # _ \<Rightarrow>
               if u \<noteq> [] \<and> p \<noteq> [] then
                 (let password = ae_sha256 env (replaceEscapeSequence p);
                      genKey = take 32 password
                  in Some \<lparr>sa_username = replaceEscapeSequence u, sa_key = genKey, sa_iv = take 16 genKey\<rparr>)
               else None
           | _ \<Rightarrow> None))"

record token_data =
  td_token :: string
  td_time :: int

definition createTokenServerAdmin ::
  "auth_env \<Rightarrow> string \<Rightarrow> string \<Rightarrow> string \<Rightarrow> string \<Rightarrow> bool \<Rightarrow> token_data option" where
  "createTokenServerAdmin env serverAdmin username key iv remember =
     (if username \<noteq> [] \<and> key \<noteq> [] \<and> iv \<noteq> [] then
        (let expire = d_expireMs (getDates env remember) div 1000
         in Some \<lparr>td_token = (case ae_encrypt env (serverAdmin @ '':'' @ username @ '':'' @ show_int expire) key iv of
                                Some t \<Rightarrow> t | None \<Rightarrow> []),
                  td_time = expire\<rparr>)
      else None)"

text \<open>
  \<open>getServerAdmin\<close>: reading the credentials of an unreadable file throws; incomplete credentials
  give nothing, and every caller takes that apart, which throws as well.
\<close>

definition getServerAdmin :: "auth_env \<Rightarrow> (server_admin \<times> token_data) async" where
  "getServerAdmin env =
     (case getSunstoneAuth env of
        None \<Rightarrow> athrow (ThrownJs TypeError)
      | Some sa \<Rightarrow>
          if sa_username sa \<noteq> [] \<and> sa_key sa \<noteq> [] \<and> sa_iv sa \<noteq> [] then
            (case createTokenServerAdmin env (sa_username sa) (sa_username sa) (sa_key sa) (sa_iv sa) False of
               Some t \<Rightarrow> areturn (sa, t)
             | None \<Rightarrow> athrow (ThrownJs TypeError))
          else athrow (ThrownJs TypeError))"

definition callAsServerAdmin :: "auth_env \<Rightarrow> string \<Rightarrow> jsval list \<Rightarrow> one_value async" where
  "callAsServerAdmin env action params =
     await (getServerAdmin env) (\<lambda>(sa, t).
       one_connect env \<lparr>oc_user = sa_username sa @ '':'' @ sa_username sa, oc_pass = td_token t,
                        oc_action = action, oc_params = params\<rparr>)"

definition setup2FASecret :: "auth_env \<Rightarrow> user_info \<Rightarrow> unit async" where
  "setup2FASecret env u =
     await (getServerAdmin env) (\<lambda>(sa, t) s.
       case pending2FA (glob s) (ui_ID u) of
         None \<Rightarrow> (Inl (ThrownJs TypeError), s)
       | Some secret \<Rightarrow>
           (case ui_TEMPLATE u of
              None \<Rightarrow> throw_code internalServerError [] s
            | Some tpl \<Rightarrow>
                if ui_ID u = [] \<or> secret = [] then throw_code internalServerError [] s
                else
                  (let c = \<lparr>oc_user = sa_username sa @ '':'' @ sa_username sa, oc_pass = td_token t,
                            oc_action = ''user.update'',
                            oc_params = [case parse_int (ui_ID u) of Some n \<Rightarrow> JNum n | None \<Rightarrow> JUndef,
                              JStr (generateNewResourceTemplate (case ut_FIREEDGE tpl of Some fs \<Rightarrow> fs | None \<Rightarrow> [])
                                [(default2FAOpennebulaVar, secret)] [default2FAOpennebulaTmpVar] fireedge_wrapper),
                              JNum 1]\<rparr>
                   in (case one_connect env c s of
                         (Inl _, s') \<Rightarrow> throw_code internalServerError [] s'
                       | (Inr _, s') \<Rightarrow> (Inr (), s')))))"

section \<open>Sessions\<close>

text \<open>
  The loop of \<open>getCreatedTokenOpennebula\<close>, from the last token to the first.  \<open>tokens\<close> is the
  user's own array, which \<open>removeUserSession\<close> shortens while the loop runs; reading past its end
  would throw.  The test \<open>exp > maxToken.expires\<close> reads a property \<open>maxToken\<close> does not have (it
  has \<open>time\<close>), and a comparison with undefined is false.
\<close>

fun scan_tokens ::
  "int \<Rightarrow> int \<Rightarrow> string \<Rightarrow> nat \<Rightarrow> token_data option \<Rightarrow> globals \<Rightarrow> (js_error + token_data option) \<times> globals" where
  "scan_tokens now limit user 0 maxToken g = (Inr maxToken, g)"
| "scan_tokens now limit user (Suc i) maxToken g =
     (if i < length (tokens_of g user) then
        (let te = tokens_of g user ! i; exp = te_expires te
         in if exp * 1000 \<le> now then scan_tokens now limit user i maxToken (removeUserSession (te_token te) g)
            else if (exp - limit * 60) * 1000 > now
            then scan_tokens now limit user i
                   (case maxToken of None \<Rightarrow> Some \<lparr>td_token = te_token te, td_time = exp\<rparr>
                                   | Some m \<Rightarrow> Some m) g
            else scan_tokens now limit user i maxToken g)
      else (Inl TypeError, g))"

definition getCreatedTokenOpennebula ::
  "auth_env \<Rightarrow> string \<Rightarrow> bool \<Rightarrow> globals \<Rightarrow> (js_error + token_data option) \<times> globals" where
  "getCreatedTokenOpennebula env user remember g0 =
     (let g = ensureSessionStore g0; d = getDates env remember
      in if user = [] then (Inr None, g)
         else (case store g user of
                 None \<Rightarrow> (Inr None, g)
               | Some tokens \<Rightarrow>
                   scan_tokens (d_nowMs d) (d_limitExpirationReuseToken d) user (length tokens) None g))"

record session =
  ss_token :: string
  ss_id :: string
  ss_expiration :: int
  ss_language :: string

definition genJWT :: "auth_env \<Rightarrow> globals \<Rightarrow> token_data \<Rightarrow> string \<Rightarrow> string \<Rightarrow> user_template option \<Rightarrow> session option" where
  "genJWT env g tokenData uid username template =
     (if td_token tokenData = [] \<or> td_time tokenData = 0 \<or> uid = [] \<or> username = [] then None
      else (case createJWT (ae_jwt env) g uid username (td_token tokenData) of
              None \<Rightarrow> None
            | Some jwt \<Rightarrow>
                if jwt = [] then None
                else Some \<lparr>ss_token = jwt, ss_id = uid, ss_expiration = td_time tokenData,
                           ss_language = (case template of
                              None \<Rightarrow> []
                            | Some t \<Rightarrow> (case ut_SUNSTONE t of None \<Rightarrow> []
                                | Some fs \<Rightarrow> (case map_of fs ''LANG'' of None \<Rightarrow> [] | Some l \<Rightarrow> l)))\<rparr>))"

definition generateSessionToken ::
  "auth_env \<Rightarrow> user_info option \<Rightarrow> user_info \<Rightarrow> bool \<Rightarrow> session option async" where
  "generateSessionToken env adminUser u remember =
     (case adminUser of
        None \<Rightarrow> areturn None
      | Some admin \<Rightarrow>
          if d_relativeTime (getDates env remember) = 0 \<or> ui_NAME admin = [] \<or> ui_PASSWORD admin = [] \<or>
             ui_NAME u = [] \<or> ui_ID u = [] \<or> ui_TEMPLATE u = None
          then areturn None
          else (\<lambda>s.
            let username = ui_NAME admin @ '':'' @ ui_NAME u
            in case getCreatedTokenOpennebula env username remember (glob s) of
                 (Inl e, g) \<Rightarrow> (Inl (ThrownJs e), s\<lparr>glob := g\<rparr>)
               | (Inr created, g) \<Rightarrow>
                   (case (case created of
                            Some t \<Rightarrow> Some t
                          | None \<Rightarrow> createTokenServerAdmin env (ui_NAME admin) (ui_NAME u)
                                     (take 32 (ui_PASSWORD admin)) (take 16 (ui_PASSWORD admin)) remember) of
                      None \<Rightarrow> (Inr None, s\<lparr>glob := g\<rparr>)
                    | Some tokenData \<Rightarrow>
                        (let g' = addUserSession username
                                    \<lparr>te_token = td_token tokenData, te_expires = td_time tokenData\<rparr> g
                         in (Inr (genJWT env g' tokenData (ui_ID u) username (ui_TEMPLATE u)), s\<lparr>glob := g'\<rparr>)))))"

text \<open>The user a \<open>user.info\<close> answer is about.\<close>

definition one_user :: "one_value \<Rightarrow> user_info option" where
  "one_user v = (case v of OneUser u \<Rightarrow> u | _ \<Rightarrow> None)"

definition createUserSession :: "auth_env \<Rightarrow> user_info \<Rightarrow> bool \<Rightarrow> session async" where
  "createUserSession env u remember =
     await (callAsServerAdmin env ''user.info'' (getDefaultParamsOfOpennebulaCommand ''user.info'' ''GET'')) (\<lambda>v.
       await (generateSessionToken env (one_user v) u remember) (\<lambda>session.
         case session of None \<Rightarrow> throw_code internalServerError [] | Some ss \<Rightarrow> areturn ss))"

section \<open>Responses\<close>

text \<open>The payload \<open>status\<close> and \<open>imgUrl\<close>, and the session, which goes into the cookie only.\<close>

record tfa_response =
  tr_httpCode :: http_code
  tr_status :: tfa_result
  tr_imgUrl :: "string option"
  tr_session :: "session option"

definition resolveTFAResponse :: "auth_env \<Rightarrow> tfa_result \<Rightarrow> user_info \<Rightarrow> bool \<Rightarrow> tfa_response async" where
  "resolveTFAResponse env status u remember =
     (case status of
        NOT_SUPPORTED \<Rightarrow> await (createUserSession env u remember) (\<lambda>ss.
          areturn \<lparr>tr_httpCode = ok, tr_status = TFA_OK, tr_imgUrl = None, tr_session = Some ss\<rparr>)
      | TFA_OK \<Rightarrow> await (createUserSession env u remember) (\<lambda>ss.
          areturn \<lparr>tr_httpCode = ok, tr_status = TFA_OK, tr_imgUrl = None, tr_session = Some ss\<rparr>)
      | NEED_2FA_SETUP \<Rightarrow> await (generateQr2FA env u) (\<lambda>url.
          areturn \<lparr>tr_httpCode = accepted, tr_status = status, tr_imgUrl = Some url, tr_session = None\<rparr>)
      | COMPLETE_2FA_SETUP \<Rightarrow> await (setup2FASecret env u) (\<lambda>_.
          await (on_globals (\<lambda>g. g\<lparr>pending2FA := (pending2FA g)(ui_ID u := None)\<rparr>)) (\<lambda>_.
            await (createUserSession env u remember) (\<lambda>ss.
              areturn \<lparr>tr_httpCode = ok, tr_status = TFA_OK, tr_imgUrl = None, tr_session = Some ss\<rparr>)))
      | NEED_2FA_TOKEN \<Rightarrow> areturn \<lparr>tr_httpCode = accepted, tr_status = status, tr_imgUrl = None, tr_session = None\<rparr>
      | INVALID_2FA \<Rightarrow> areturn \<lparr>tr_httpCode = unauthorized, tr_status = status, tr_imgUrl = None, tr_session = None\<rparr>)"

section \<open>Users\<close>

definition fetchUserInfo :: "auth_env \<Rightarrow> string \<Rightarrow> string \<Rightarrow> one_value async" where
  "fetchUserInfo env user token =
     one_connect env \<lparr>oc_user = user, oc_pass = token, oc_action = ''user.info'',
       oc_params = getDefaultParamsOfOpennebulaCommand ''user.info'' ''GET''\<rparr>"

definition fetchUserPool :: "auth_env \<Rightarrow> user_info list async" where
  "fetchUserPool env =
     await (callAsServerAdmin env ''userpool.info'' (getDefaultParamsOfOpennebulaCommand ''userpool.info'' ''GET''))
       (\<lambda>v. areturn (case v of OneUsers us \<Rightarrow> us | _ \<Rightarrow> []))"

text \<open>A distinguished name with commas is turned around and joined with slashes.\<close>

definition parse_dn :: "string \<Rightarrow> string" where
  "parse_dn user = (if CHR '','' \<in> set user then js_join ''/'' (rev (js_split (CHR '','') user)) else user)"

definition find_user :: "auth_env \<Rightarrow> (user_info \<Rightarrow> bool) \<Rightarrow> string \<Rightarrow> user_info async" where
  "find_user env p message =
     await (fetchUserPool env) (\<lambda>pool.
       if pool = [] then throw_code unauthorized ''user pool empty''
       else (case List.find p pool of None \<Rightarrow> throw_code unauthorized message | Some u \<Rightarrow> areturn u))"

definition verifyUserExists :: "auth_env \<Rightarrow> string \<Rightarrow> string \<Rightarrow> auth_type \<Rightarrow> user_info async" where
  "verifyUserExists env user token protocol =
     (case protocol of
        X509 \<Rightarrow> find_user env
          (\<lambda>u. str_includes (ui_PASSWORD u) (parse_dn user) \<and> ui_AUTH_DRIVER u = ''x509'') ''x509 user not found''
      | REMOTE \<Rightarrow>
          (let parts = js_split (CHR '':'') user;
               usr = hd parts;
               pss = (case parts of _ # p # _ \<Rightarrow> p | _ \<Rightarrow> usr)
           in find_user env
                (\<lambda>u. ui_NAME u = usr \<and> ui_PASSWORD u = pss \<and> ui_AUTH_DRIVER u = ''public'') ''remote user not found'')
      | _ \<Rightarrow> await (fetchUserInfo env user token) (\<lambda>v.
          case one_user v of None \<Rightarrow> throw_code unauthorized ''core user not found'' | Some u \<Rightarrow> areturn u))"

section \<open>Zones\<close>

text \<open>The host of an endpoint: after the scheme and the user, up to a port, a path or a query.\<close>

definition url_hostname :: "string \<Rightarrow> string" where
  "url_hostname url =
     (let rest = (case js_split (CHR ''/'') url of
                    scheme # [] # authority # _ \<Rightarrow> if scheme \<noteq> [] \<and> last scheme = CHR '':'' then authority else []
                  | _ \<Rightarrow> []);
          hostport = (case js_split (CHR ''@'') rest of [] \<Rightarrow> [] | parts \<Rightarrow> last parts)
      in takeWhile (\<lambda>c. c \<noteq> CHR '':'' \<and> c \<noteq> CHR ''?'' \<and> c \<noteq> CHR ''#'') hostport)"

definition zone_of_info :: "zone_info \<Rightarrow> zone" where
  "zone_of_info z =
     \<lparr>zn_id = zi_ID z, zn_name = zi_NAME z, zn_rpc = zi_ENDPOINT z,
      zn_zeromq = ''tcp://'' @ (if zi_ENDPOINT z \<noteq> [] then url_hostname (zi_ENDPOINT z) else []) @ '':2101'',
      zn_fireedge = (if zi_FIREEDGE_ENDPOINT z \<noteq> [] then Some (zi_FIREEDGE_ENDPOINT z) else None)\<rparr>"

text \<open>
  \<open>setZones\<close> asks for the zones once.  Its callback is not awaited; the model runs it where the call
  is made.  An error of the call is dropped.
\<close>

definition setZones :: "auth_env \<Rightarrow> string \<Rightarrow> string \<Rightarrow> unit async" where
  "setZones env user token = (\<lambda>s.
     if zones (glob s) \<noteq> None then (Inr (), s)
     else
       (case one_connect env \<lparr>oc_user = user, oc_pass = token, oc_action = ''zonepool.info'',
               oc_params = getDefaultParamsOfOpennebulaCommand ''zonepool.info'' ''GET''\<rparr> s of
          (Inr (OneZones zs), s') \<Rightarrow>
            (if zs \<noteq> [] then (Inr (), s'\<lparr>glob := (glob s')\<lparr>zones := Some (map zone_of_info zs)\<rparr>\<rparr>) else (Inr (), s'))
        | (_, s') \<Rightarrow> (Inr (), s')))"

section \<open>Logging in and out\<close>

text \<open>The parameters of the authentication route.\<close>

record login_params =
  lp_user :: string
  lp_token :: string
  lp_tfatoken :: string
  lp_remember :: bool

text \<open>\<open>login\<close> hands \<open>{ connect }\<close> alone to \<open>resolveTFAResponse\<close>: \<open>remember\<close> takes its default there.\<close>

definition login :: "auth_env \<Rightarrow> auth_type \<Rightarrow> login_params \<Rightarrow> tfa_response async" where
  "login env protocol params =
     await (verifyUserExists env (lp_user params) (lp_token params) protocol) (\<lambda>u.
       await (setZones env (lp_user params) (lp_token params)) (\<lambda>_.
         await (check2FA env u (lp_tfatoken params) protocol) (\<lambda>status.
           resolveTFAResponse env status u False)))"

text \<open>The cookie a response sets: its token and its age in milliseconds.\<close>

record set_cookie =
  sc_value :: jsval
  sc_maxAge :: int

definition session_cookie_of :: "auth_env \<Rightarrow> session \<Rightarrow> set_cookie" where
  "session_cookie_of env ss =
     \<lparr>sc_value = session_cookie (ss_token ss),
      sc_maxAge = (if ss_expiration ss \<noteq> 0 then ss_expiration ss * 1000 - ae_now env
                   else defaultSessionExpiration * 60 * 1000)\<rparr>"

fun status_string :: "tfa_result \<Rightarrow> string" where
  "status_string TFA_OK = ''ok''"
| "status_string NOT_SUPPORTED = ''not_supported''"
| "status_string NEED_2FA_SETUP = ''need_2fa_setup''"
| "status_string COMPLETE_2FA_SETUP = ''complete_2fa_setup''"
| "status_string NEED_2FA_TOKEN = ''need_2fa_token''"
| "status_string INVALID_2FA = ''invalid_2fa''"

definition tfa_payload :: "tfa_response \<Rightarrow> jsval" where
  "tfa_payload r =
     JObj ((case tr_imgUrl r of Some url \<Rightarrow> [(''imgUrl'', JStr url)] | None \<Rightarrow> []) @
           [(''status'', JStr (status_string (tr_status r)))])"

text \<open>What \<open>auth\<close> leaves in the response: the status to send and the cookie to set.\<close>

definition error_response :: "thrown \<Rightarrow> http_result" where
  "error_response e =
     (case e of
        ThrownHttp r \<Rightarrow> if \<exists>c \<in> set httpCodes. hc_id c = hr_id r then r
                       else httpResponse (Some internalServerError) JUndef [] []
      | _ \<Rightarrow> httpResponse (Some internalServerError) JUndef [] [])"

definition auth :: "auth_env \<Rightarrow> auth_type \<Rightarrow> login_params \<Rightarrow> auth_state \<Rightarrow> (http_result \<times> set_cookie option) \<times> auth_state" where
  "auth env protocol params s =
     (case login env protocol params s of
        (Inr r, s') \<Rightarrow>
          ((httpResponse (Some (tr_httpCode r)) (tfa_payload r) [] [],
            map_option (session_cookie_of env) (tr_session r)), s')
      | (Inl e, s') \<Rightarrow> ((error_response e, None), s'))"

text \<open>\<open>samlAuth\<close>: the assertion's user comes from the decoded response, a parameter; the browser is
  redirected whatever happens.\<close>

definition samlAuth :: "auth_env \<Rightarrow> (string \<Rightarrow> string option) \<Rightarrow> string \<Rightarrow> auth_state \<Rightarrow> set_cookie option \<times> auth_state" where
  "samlAuth env name_id samlResponse s =
     (if samlResponse = [] then (None, s)
      else case name_id samlResponse of
        None \<Rightarrow> (None, s)
      | Some user \<Rightarrow>
          if user = [] then (None, s)
          else (case login env SAML \<lparr>lp_user = user, lp_token = samlResponse, lp_tfatoken = [], lp_remember = False\<rparr> s of
                  (Inr r, s') \<Rightarrow> (map_option (session_cookie_of env) (tr_session r), s')
                | (Inl _, s') \<Rightarrow> (None, s')))"

definition selectTypeAuth ::
  "auth_env \<Rightarrow> login_params \<Rightarrow> auth_state \<Rightarrow> (js_error + (http_result \<times> set_cookie option)) \<times> auth_state" where
  "selectTypeAuth env params s =
     (let selected = (case auth_method (ae_config env) of Some m \<Rightarrow> m | None \<Rightarrow> ''opennebula'');
          protocols = [(''remote'', REMOTE), (''x509'', X509), (''opennebula'', CORE), (''saml'', SAML)]
      in case map_of protocols selected of
           Some p \<Rightarrow> (case auth env p params s of (r, s') \<Rightarrow> (Inr r, s'))
         | None \<Rightarrow> (Inl TypeError, s))"

text \<open>\<open>logout\<close>: the cookie is a JSON text here, every error is swallowed, and the cookie is cleared.\<close>

definition logout :: "jwt_lib \<Rightarrow> jsval \<Rightarrow> globals \<Rightarrow> (http_result \<times> bool) \<times> globals" where
  "logout lib cookie g0 =
     (let g = ensureSessionStore g0;
          g' = (case cookie of
                  JStr s \<Rightarrow>
                    (case json_parse s of
                       Inl _ \<Rightarrow> g
                     | Inr v \<Rightarrow>
                         (case prop_get v ''token'' of
                            JStr jwt \<Rightarrow>
                              if jwt = [] then g
                              else (case jwtDecode lib g jwt of
                                      Inl _ \<Rightarrow> g
                                    | Inr p \<Rightarrow> removeUserSession (jp_jti p) g)
                          | _ \<Rightarrow> g))
                | _ \<Rightarrow> g)
      in ((httpResponse (Some ok) (JStr ''Logout successful'') [] [], truthy cookie), g'))"

section \<open>Lemmas\<close>

lemma await_Inr [simp]:
  "await m f s = (Inr y, t) \<longleftrightarrow> (\<exists>x s1. m s = (Inr x, s1) \<and> f x s1 = (Inr y, t))"
  by (auto simp: await_def split: prod.split sum.split)

lemma areturn_Inr [simp]: "areturn x s = (Inr y, t) \<longleftrightarrow> y = x \<and> t = s"
  by (auto simp: areturn_def)

lemma throw_not_Inr [simp]: "\<not> athrow e s = (Inr y, t)" "\<not> throw_code c m s = (Inr y, t)"
  by (simp_all add: athrow_def throw_code_def)

lemma one_connect_Inr:
  "one_connect env c s = (Inr v, t) \<longleftrightarrow> ae_one env c = Inr v \<and> t = s\<lparr>calls := calls s @ [c]\<rparr>"
  by (auto simp: one_connect_def split: sum.splits)

lemma one_connect_glob: "one_connect env c s = (x, t) \<Longrightarrow> glob t = glob s"
  by (auto simp: one_connect_def)

lemma getServerAdmin_state: "getServerAdmin env s = (x, t) \<Longrightarrow> t = s"
  by (auto simp: getServerAdmin_def athrow_def areturn_def split: option.splits if_splits)

lemma callAsServerAdmin_glob: "callAsServerAdmin env a ps s = (x, t) \<Longrightarrow> glob t = glob s"
  by (auto simp: callAsServerAdmin_def await_def split: prod.splits sum.splits
      dest!: getServerAdmin_state one_connect_glob)

subsection \<open>Reusing a token\<close>

lemma length_splice1: "length (splice1 p xs) \<ge> length xs - 1"
  by (simp add: splice1_def)

lemma length_tokens_remove: "length (tokens_of (removeUserSession t g) u) \<ge> length (tokens_of g u) - 1"
  using length_splice1 by (auto simp: tokens_of_remove split: option.split)

lemma token_entry_eta: "\<lparr>te_token = te_token te, te_expires = te_expires te\<rparr> = te"
  by simp

lemma scan_tokens_safe:
  "i \<le> length (tokens_of g u) \<Longrightarrow> \<exists>m g'. scan_tokens now limit u i best g = (Inr m, g')"
proof (induction now limit u i best g rule: scan_tokens.induct)
  case (2 now limit u i best g)
  have "i \<le> length (tokens_of (removeUserSession t g) u)" for t
    using 2(4) length_tokens_remove [of g u t] by linarith
  then show ?case using 2 by (auto simp: Let_def)
qed simp

lemma scan_tokens_sessions:
  "scan_tokens now limit u i best g = (r, g') \<Longrightarrow> sessions g' \<subseteq> sessions g"
proof (induction now limit u i best g rule: scan_tokens.induct)
  case (2 now limit u i best g)
  then show ?case using sessions_remove by (fastforce simp: Let_def split: if_splits)
qed simp

lemma scan_tokens_result:
  assumes "scan_tokens now limit u i best g = (Inr (Some td), g')"
  shows "best = Some td \<or>
    (td_time td - limit * 60) * 1000 > now \<and> (u, \<lparr>te_token = td_token td, te_expires = td_time td\<rparr>) \<in> sessions g"
  using assms
proof (induction now limit u i best g rule: scan_tokens.induct)
  case (2 now limit u i best g)
  show ?case
  proof (cases "i < length (tokens_of g u)")
    case True
    let ?te = "tokens_of g u ! i"
    have mem: "(u, ?te) \<in> sessions g" using True by (simp add: sessions_def)
    show ?thesis
    proof (cases "te_expires ?te * 1000 \<le> now")
      case expired: True
      with 2(1) [OF True refl refl expired] 2(4) True
      show ?thesis using sessions_remove [of "te_token ?te" g] by (auto simp: Let_def)
    next
      case fresh: False
      show ?thesis
      proof (cases "(te_expires ?te - limit * 60) * 1000 > now")
        case reuse: True
        let ?m = "case best of None \<Rightarrow> Some \<lparr>td_token = te_token ?te, td_time = te_expires ?te\<rparr> | Some m \<Rightarrow> Some m"
        have "scan_tokens now limit u i ?m g = (Inr (Some td), g')"
          using 2(4) True fresh reuse by (simp add: Let_def)
        from 2(2) [OF True refl refl fresh reuse this] show ?thesis
          using mem reuse by (cases best) (auto simp: token_entry_eta)
      next
        case False
        have "scan_tokens now limit u i best g = (Inr (Some td), g')"
          using 2(4) True fresh False by (simp add: Let_def)
        from 2(3) [OF True refl refl fresh False this] show ?thesis .
      qed
    qed
  qed (use 2 in simp)
qed simp

lemma getCreated_total: "\<exists>m g'. getCreatedTokenOpennebula env u rem g = (Inr m, g')"
proof (cases "store g u")
  case None
  then show ?thesis by (simp add: getCreatedTokenOpennebula_def Let_def)
next
  case (Some ts)
  then have "length ts \<le> length (tokens_of (ensureSessionStore g) u)" by (simp add: tokens_of_def)
  then show ?thesis
    using scan_tokens_safe Some by (auto simp: getCreatedTokenOpennebula_def Let_def)
qed

end
