(* ===== verification/Auth_Security.thy ===== *)
theory Auth_Security
  imports Auth
begin

text \<open>
  What logging in and out guarantees, end to end: which sessions a login leaves in the store, that
  its cookie passes \<open>validateSession\<close>, that the second factor is checked before a session exists,
  and what a logout takes away.
\<close>

section \<open>What a login does\<close>

lemma signing_key_session_ops [simp]:
  "signing_key (ensureSessionStore g) = signing_key g"
  "signing_key (addUserSession u te g) = signing_key g"
  "signing_key (removeUserSession t g) = signing_key g"
  by (auto simp: signing_key_def ensureSessionStore_def addUserSession_def removeUserSession_def Let_def
      split: option.split)

lemma sessions_ensure [simp]: "sessions (ensureSessionStore g) = sessions g"
  by (simp add: sessions_def tokens_of_def)

text \<open>The session a user gets is in the store, and its cookie carries the store's token.\<close>

definition session_stored :: "auth_env \<Rightarrow> user_info \<Rightarrow> session \<Rightarrow> globals \<Rightarrow> string \<Rightarrow> token_entry \<Rightarrow> bool" where
  "session_stored env u ss g uname te \<longleftrightarrow>
     (uname, te) \<in> sessions g \<and> te_expires te = ss_expiration ss \<and> ss_expiration ss \<noteq> 0 \<and>
     ss_token ss \<noteq> [] \<and> createJWT (ae_jwt env) g (ui_ID u) uname (te_token te) = Some (ss_token ss)"

lemma genJWT_Some:
  assumes "genJWT env g td i u t = Some ss"
  shows "createJWT (ae_jwt env) g i u (td_token td) = Some (ss_token ss)" and "ss_token ss \<noteq> []"
    and "ss_expiration ss = td_time td" and "td_time td \<noteq> 0"
  using assms by (auto simp: genJWT_def split: if_splits option.splits)

lemma generateSessionToken_Some:
  assumes "generateSessionToken env a u rem s = (Inr (Some ss), t)"
  obtains admin g te where "a = Some admin"
    and "glob t = addUserSession (ui_NAME admin @ '':'' @ ui_NAME u) te g"
    and "session_stored env u ss (glob t) (ui_NAME admin @ '':'' @ ui_NAME u) te"
    and "snd (getCreatedTokenOpennebula env (ui_NAME admin @ '':'' @ ui_NAME u) rem (glob s)) = g"
    and "\<And>td. fst (getCreatedTokenOpennebula env (ui_NAME admin @ '':'' @ ui_NAME u) rem (glob s)) = Inr (Some td)
      \<Longrightarrow> te = \<lparr>te_token = td_token td, te_expires = td_time td\<rparr>"
    and "calls t = calls s"
proof -
  from assms obtain admin where a: "a = Some admin"
    by (auto simp: generateSessionToken_def split: option.splits)
  let ?u = "ui_NAME admin @ '':'' @ ui_NAME u"
  obtain m g where m: "getCreatedTokenOpennebula env ?u rem (glob s) = (Inr m, g)"
    using getCreated_total by blast
  from assms a m obtain td where td: "m = None \<or> m = Some td"
    and t: "t = s\<lparr>glob := addUserSession ?u \<lparr>te_token = td_token td, te_expires = td_time td\<rparr> g\<rparr>"
    and jwt: "genJWT env (glob t) td (ui_ID u) ?u (ui_TEMPLATE u) = Some ss"
    by (auto simp: generateSessionToken_def Let_def split: if_splits option.splits)
  show ?thesis
    by (rule that [of admin "\<lparr>te_token = td_token td, te_expires = td_time td\<rparr>" g])
       (use a t td m genJWT_Some [OF jwt] in \<open>auto simp: session_stored_def sessions_add\<close>)
qed

lemma createUserSession_Inr:
  assumes "createUserSession env u rem s = (Inr ss, t)"
  obtains uname te g where "glob t = addUserSession uname te g"
    and "session_stored env u ss (glob t) uname te"
    and "snd (getCreatedTokenOpennebula env uname rem (glob s)) = g"
    and "\<And>td. fst (getCreatedTokenOpennebula env uname rem (glob s)) = Inr (Some td)
      \<Longrightarrow> te = \<lparr>te_token = td_token td, te_expires = td_time td\<rparr>"
    and "set (calls s) \<subseteq> set (calls t)"
proof -
  from assms obtain v s1 where v: "callAsServerAdmin env ''user.info''
      (getDefaultParamsOfOpennebulaCommand ''user.info'' ''GET'') s = (Inr v, s1)"
    and gen: "generateSessionToken env (one_user v) u rem s1 = (Inr (Some ss), t)"
    by (auto simp: createUserSession_def split: option.splits)
  have glob: "glob s1 = glob s" using v by (rule callAsServerAdmin_glob)
  have calls: "set (calls s) \<subseteq> set (calls s1)"
    using v by (auto simp: callAsServerAdmin_def one_connect_Inr dest: getServerAdmin_state)
  show ?thesis
    by (rule generateSessionToken_Some [OF gen]) (rule that, use glob calls in auto)
qed

lemma resolveTFAResponse_session:
  assumes "resolveTFAResponse env st u rem s = (Inr r, t)" and "tr_session r = Some ss"
  obtains (direct) "st = NOT_SUPPORTED \<or> st = TFA_OK" and "createUserSession env u rem s = (Inr ss, t)"
      and "tr_httpCode r = ok"
    | (completed) s1 s2 where "st = COMPLETE_2FA_SETUP" and "setup2FASecret env u s = (Inr (), s1)"
      and "s2 = s1\<lparr>glob := (glob s1)\<lparr>pending2FA := (pending2FA (glob s1))(ui_ID u := None)\<rparr>\<rparr>"
      and "createUserSession env u rem s2 = (Inr ss, t)" and "tr_httpCode r = ok"
  using assms by (cases st) (auto simp: resolveTFAResponse_def on_globals_def)

lemma login_steps:
  assumes "login env p params s = (Inr r, t)"
  obtains u s1 s2 s3 st where "verifyUserExists env (lp_user params) (lp_token params) p s = (Inr u, s1)"
    and "setZones env (lp_user params) (lp_token params) s1 = (Inr (), s2)"
    and "check2FA env u (lp_tfatoken params) p s2 = (Inr st, s3)"
    and "resolveTFAResponse env st u False s3 = (Inr r, t)"
  using assms by (auto simp: login_def)

lemma setZones_frame:
  assumes "setZones env u k s = (x, t)"
  shows "pending2FA (glob t) = pending2FA (glob s)" and "sessionStore (glob t) = sessionStore (glob s)"
    and "tokenIndex (glob t) = tokenIndex (glob s)"
  using assms by (auto simp: setZones_def split: if_splits prod.splits sum.splits one_value.splits
      dest!: one_connect_glob)

lemma check2FA_state: "check2FA env u k p s = (x, t) \<Longrightarrow> t = s"
  by (auto simp: check2FA_def areturn_def split: if_splits option.splits)

lemma core_user:
  assumes "verifyUserExists env user k CORE s = (Inr u, t)"
  shows "ae_one env \<lparr>oc_user = user, oc_pass = k, oc_action = ''user.info'',
           oc_params = getDefaultParamsOfOpennebulaCommand ''user.info'' ''GET''\<rparr> = Inr (OneUser (Some u))"
    and "glob t = glob s"
proof -
  from assms obtain v where v: "fetchUserInfo env user k s = (Inr v, t)" and u: "one_user v = Some u"
    unfolding verifyUserExists_def by (auto split: option.splits)
  then have "v = OneUser (Some u)" by (cases v) (auto simp: one_user_def)
  with v show "ae_one env \<lparr>oc_user = user, oc_pass = k, oc_action = ''user.info'',
      oc_params = getDefaultParamsOfOpennebulaCommand ''user.info'' ''GET''\<rparr> = Inr (OneUser (Some u))"
    unfolding fetchUserInfo_def one_connect_Inr by blast
  from v show "glob t = glob s" unfolding fetchUserInfo_def by (rule one_connect_glob)
qed

lemma find_user_glob: "find_user env q m s = (x, t) \<Longrightarrow> glob t = glob s"
  by (auto simp: find_user_def fetchUserPool_def await_def athrow_def throw_code_def areturn_def
      split: prod.splits sum.splits if_splits option.splits dest!: callAsServerAdmin_glob)

lemma verifyUserExists_glob:
  assumes "verifyUserExists env user k p s = (x, t)" shows "glob t = glob s"
proof -
  consider "p = X509 \<or> p = REMOTE" | "verifyUserExists env user k p = verifyUserExists env user k CORE"
    by (cases p) (simp_all add: verifyUserExists_def)
  then show ?thesis
  proof cases
    case 1
    then show ?thesis using assms by (auto simp: verifyUserExists_def Let_def dest: find_user_glob)
  next
    case 2
    with assms show ?thesis
      by (auto simp: verifyUserExists_def fetchUserInfo_def await_def throw_code_def athrow_def areturn_def
          split: prod.splits sum.splits option.splits dest!: one_connect_glob)
  qed
qed

lemma setup2FASecret_glob:
  assumes "setup2FASecret env u s = (x, t)" shows "glob t = glob s"
  using assms
  by (auto simp: setup2FASecret_def await_def throw_code_def athrow_def Let_def
      split: prod.splits sum.splits if_splits option.splits dest!: getServerAdmin_state one_connect_glob)

text \<open>The store a login leaves: what reusing the tokens left of the old one, and the session on top.\<close>

definition login_store :: "auth_env \<Rightarrow> globals \<Rightarrow> string \<Rightarrow> token_entry \<Rightarrow> globals \<Rightarrow> bool" where
  "login_store env g0 uname te g \<longleftrightarrow>
     (\<exists>g1 m g2. store g1 = store g0 \<and> index g1 = index g0 \<and>
        getCreatedTokenOpennebula env uname False g1 = (Inr m, g2) \<and>
        (\<forall>td. m = Some td \<longrightarrow> te = \<lparr>te_token = td_token td, te_expires = td_time td\<rparr>) \<and>
        g = addUserSession uname te g2)"

lemma store_index_cong:
  assumes "sessionStore g = sessionStore h" and "tokenIndex g = tokenIndex h"
  shows "store g = store h" and "index g = index h"
  using assms by (simp_all add: store_def index_def)

lemma login_store_intro:
  assumes "createUserSession env u False s = (Inr ss, t)" and "store (glob s) = store g0" and "index (glob s) = index g0"
  obtains uname te where "login_store env g0 uname te (glob t)" and "session_stored env u ss (glob t) uname te"
proof (rule createUserSession_Inr [OF assms(1)])
  fix uname te g
  assume add: "glob t = addUserSession uname te g" and stored: "session_stored env u ss (glob t) uname te"
    and g: "snd (getCreatedTokenOpennebula env uname False (glob s)) = g"
    and reuse: "\<And>td. fst (getCreatedTokenOpennebula env uname False (glob s)) = Inr (Some td)
      \<Longrightarrow> te = \<lparr>te_token = td_token td, te_expires = td_time td\<rparr>"
  obtain m where m: "getCreatedTokenOpennebula env uname False (glob s) = (Inr m, g)"
    using getCreated_total [of env uname False "glob s"] g by fastforce
  have "login_store env g0 uname te (glob t)"
    unfolding login_store_def
    by (intro exI [of _ "glob s"] exI [of _ m] exI [of _ g]) (use m add reuse assms in simp)
  then show thesis using stored that by blast
qed

lemma login_session:
  assumes "login env p params s = (Inr r, t)" and "tr_session r = Some ss"
  obtains u uname te where "login_store env (glob s) uname te (glob t)" and "session_stored env u ss (glob t) uname te"
    and "tr_httpCode r = ok"
proof (rule login_steps [OF assms(1)])
  fix u s1 s2 s3 st
  assume v: "verifyUserExists env (lp_user params) (lp_token params) p s = (Inr u, s1)"
    and z: "setZones env (lp_user params) (lp_token params) s1 = (Inr (), s2)"
    and c: "check2FA env u (lp_tfatoken params) p s2 = (Inr st, s3)"
    and res: "resolveTFAResponse env st u False s3 = (Inr r, t)"
  have same: "sessionStore (glob s3) = sessionStore (glob s)" "tokenIndex (glob s3) = tokenIndex (glob s)"
    using verifyUserExists_glob [OF v] setZones_frame [OF z] check2FA_state [OF c] by simp_all
  from res assms(2) obtain s4 where cs: "createUserSession env u False s4 = (Inr ss, t)" and code: "tr_httpCode r = ok"
    and "sessionStore (glob s4) = sessionStore (glob s3)" "tokenIndex (glob s4) = tokenIndex (glob s3)"
    by (rule resolveTFAResponse_session) (auto dest: setup2FASecret_glob)
  then show thesis using same code store_index_cong [of "glob s4" "glob s"]
    by (elim login_store_intro) (auto intro: that)
qed

lemma stored_jwt_decodes:
  assumes "jwt_correct (ae_jwt env)" and "session_stored env u ss g uname te" and "signing_key h = signing_key g"
  shows "jwtDecode (ae_jwt env) h (ss_token ss) = Inr \<lparr>jp_iss = ui_ID u, jp_aud = uname, jp_jti = te_token te\<rparr>"
    and "ui_ID u \<noteq> []" and "uname \<noteq> []" and "te_token te \<noteq> []" and "ss_token ss \<noteq> []"
proof -
  from assms(2) have jwt: "createJWT (ae_jwt env) g (ui_ID u) uname (te_token te) = Some (ss_token ss)"
    and ne: "ss_token ss \<noteq> []"
    by (auto simp: session_stored_def)
  then show "ss_token ss \<noteq> []" by simp
  from createJWT_Some [OF jwt] show "ui_ID u \<noteq> []" "uname \<noteq> []" "te_token te \<noteq> []" by auto
  from createJWT_Some [OF jwt]
  have enc: "jwtEncode (ae_jwt env) g \<lparr>jp_iss = ui_ID u, jp_aud = uname, jp_jti = te_token te\<rparr> = Some (ss_token ss)"
    by auto
  show "jwtDecode (ae_jwt env) h (ss_token ss) = Inr \<lparr>jp_iss = ui_ID u, jp_aud = uname, jp_jti = te_token te\<rparr>"
    using jwtDecode_jwtEncode [OF assms(1) enc] assms(3) by (simp add: jwtDecode_def)
qed

lemma stored_cookie_outcome:
  assumes "jwt_correct (ae_jwt env)" and "session_stored env u ss g uname te" and "signing_key h = signing_key g"
  shows "fst (validateSession (ae_jwt env) now True (session_cookie (ss_token ss)) h) =
     (if session_valid now uname (te_token te) h
      then Next (Some \<lparr>ra_id = ui_ID u, ra_user = uname, ra_password = te_token te\<rparr>) else Expired)"
  using stored_jwt_decodes [OF assms]
  by (simp add: validateSession_def validateAuth_session_cookie complete_payload_def validateUser_spec)

lemma stored_valid:
  assumes "jwt_correct (ae_jwt env)" and "session_stored env u ss g uname te" and "now < ss_expiration ss * 1000"
  shows "session_valid now uname (te_token te) g"
  using stored_jwt_decodes [OF assms(1,2) refl] assms(2,3) by (auto simp: session_valid_def session_stored_def)

lemma auth_cookie:
  assumes "auth env p params s = ((r, Some c), t)"
  obtains u ss uname te where "login_store env (glob s) uname te (glob t)" and "session_stored env u ss (glob t) uname te"
    and "c = session_cookie_of env ss" and "hr_id r = 200"
proof -
  from assms obtain r' ss where l: "login env p params s = (Inr r', t)" "tr_session r' = Some ss"
    and c: "c = session_cookie_of env ss" "r = httpResponse (Some (tr_httpCode r')) (tfa_payload r') [] []"
    by (auto simp: auth_def split: prod.splits sum.splits)
  show ?thesis
    by (rule login_session [OF l]) (use c that in \<open>auto simp: ok_def\<close>)
qed

section \<open>The second factor\<close>

definition second_factor_passed :: "auth_env \<Rightarrow> user_info \<Rightarrow> string \<Rightarrow> (string \<rightharpoonup> string) \<Rightarrow> bool" where
  "second_factor_passed env u tok pending \<longleftrightarrow>
     (if mfa_secret u \<noteq> [] then ae_totp env (mfa_secret u) tok
      else \<exists>secret. pending (ui_ID u) = Some secret \<and> ae_totp env secret tok)"

lemma check2FA_passed:
  assumes "check2FA env u tok CORE s = (Inr st, t)" and "st \<in> {TFA_OK, NOT_SUPPORTED, COMPLETE_2FA_SETUP}"
    and "enforce_2fa (ae_config env) \<or> mfa_secret u \<noteq> []"
  shows "second_factor_passed env u tok (pending2FA (glob s))"
proof (cases "mfa_secret u = []")
  case True
  then show ?thesis
    using assms by (cases "pending2FA (glob s) (ui_ID u)")
      (auto simp: check2FA_def second_factor_passed_def validate2FA_def split: if_splits)
next
  case False
  then show ?thesis
    using assms by (cases "tok = []")
      (auto simp: check2FA_def second_factor_passed_def validate2FA_def split: if_splits)
qed

section \<open>Reusing a token and logging out\<close>

text \<open>With no expired token the scan changes nothing and finds the last reusable token.\<close>

definition reusable :: "int \<Rightarrow> int \<Rightarrow> token_entry \<Rightarrow> bool" where
  "reusable now limit te \<longleftrightarrow> (te_expires te - limit * 60) * 1000 > now"

definition none_expired :: "int \<Rightarrow> string \<Rightarrow> globals \<Rightarrow> bool" where
  "none_expired now u g \<longleftrightarrow> list_all (\<lambda>te. te_expires te * 1000 > now) (tokens_of g u)"

definition token_data_of :: "token_entry \<Rightarrow> token_data" where
  "token_data_of te = \<lparr>td_token = te_token te, td_time = te_expires te\<rparr>"

lemma scan_tokens_unexpired:
  assumes "none_expired now u g" and "i \<le> length (tokens_of g u)"
  shows "scan_tokens now limit u i best g =
    (Inr (case best of Some b \<Rightarrow> Some b
                     | None \<Rightarrow> map_option token_data_of (List.find (reusable now limit) (rev (take i (tokens_of g u))))), g)"
  using assms(2)
proof (induction i arbitrary: best)
  case 0
  show ?case by (cases best) simp_all
next
  case (Suc i)
  then have i: "i < length (tokens_of g u)" by simp
  then have fresh: "\<not> te_expires (tokens_of g u ! i) * 1000 \<le> now"
    using assms(1) by (simp add: none_expired_def list_all_length not_le)
  have "rev (take (Suc i) (tokens_of g u)) = tokens_of g u ! i # rev (take i (tokens_of g u))"
    using i by (simp add: take_Suc_conv_app_nth)
  then show ?case
    using Suc.IH i fresh by (cases best) (simp_all add: Let_def reusable_def token_data_of_def)
qed

lemma none_expired_ensure [simp]: "none_expired now u (ensureSessionStore g) = none_expired now u g"
  by (simp add: none_expired_def tokens_of_def)

lemma getCreated_unexpired:
  assumes "none_expired (ae_now env) u g" and "u \<noteq> []"
  shows "getCreatedTokenOpennebula env u rem g =
    (Inr (map_option token_data_of
       (List.find (reusable (ae_now env) (num_or (minimum_opennebula_expiration (ae_config env)) defaultSessionLimitExpiration))
         (rev (tokens_of g u)))), ensureSessionStore g)"
proof (cases "store g u")
  case None
  then show ?thesis using assms(2) by (simp add: getCreatedTokenOpennebula_def Let_def tokens_of_def)
next
  case (Some ts)
  then have ts: "tokens_of (ensureSessionStore g) u = ts" "tokens_of g u = ts" by (simp_all add: tokens_of_def)
  have "none_expired (ae_now env) u (ensureSessionStore g)" using assms(1) by simp
  note scan = scan_tokens_unexpired [OF this, of "length ts", unfolded ts, OF order_refl]
  show ?thesis using Some assms(2) by (simp add: getCreatedTokenOpennebula_def Let_def getDates_def scan ts)
qed

lemma scan_no_empty: "scan_tokens now limit u i best g = (r, g') \<Longrightarrow> no_empty_user g \<Longrightarrow> no_empty_user g'"
proof (induction now limit u i best g rule: scan_tokens.induct)
  case (2 now limit u i best g)
  then show ?case using no_empty_user_remove by (auto simp: Let_def split: if_splits)
qed simp

lemma getCreated_frame:
  assumes "getCreatedTokenOpennebula env u rem g = (r, g')"
  shows "no_empty_user g \<Longrightarrow> no_empty_user g'" and "sessions g' \<subseteq> sessions g"
  using assms scan_no_empty scan_tokens_sessions [of _ _ _ _ _ "ensureSessionStore g"]
  by (fastforce simp: getCreatedTokenOpennebula_def Let_def no_empty_user_def split: if_splits option.splits)+

subsection \<open>Any login, refused ones included, and the store\<close>

text \<open>
  Whatever a login answers, it leaves the sessions alone, or it scans the tokens of one user and then
  perhaps adds one; it never changes the key that signs the cookies.
\<close>

definition same_sessions :: "globals \<Rightarrow> globals \<Rightarrow> bool" where
  "same_sessions g h \<longleftrightarrow>
     sessionStore h = sessionStore g \<and> tokenIndex h = tokenIndex g \<and> signing_key h = signing_key g"

definition login_effect :: "auth_env \<Rightarrow> globals \<Rightarrow> globals \<Rightarrow> bool" where
  "login_effect env g h \<longleftrightarrow>
     same_sessions g h \<or>
     (\<exists>g1 v m g2. same_sessions g g1 \<and> getCreatedTokenOpennebula env v False g1 = (Inr m, g2) \<and>
        (h = g2 \<or> (\<exists>te. h = addUserSession v te g2)))"

lemma same_sessions_refl [simp]: "same_sessions g g"
  by (simp add: same_sessions_def)

lemma same_sessions_trans: "same_sessions g h \<Longrightarrow> same_sessions h k \<Longrightarrow> same_sessions g k"
  by (simp add: same_sessions_def)

lemma same_sessions_effect: "same_sessions g h \<Longrightarrow> login_effect env h k \<Longrightarrow> login_effect env g k"
  unfolding login_effect_def using same_sessions_trans by blast

lemma login_effect_same: "same_sessions g h \<Longrightarrow> login_effect env g h"
  by (simp add: login_effect_def)

lemma await_cases:
  assumes "await m f s = (x, t)"
  obtains (thrown) e where "m s = (Inl e, t)" and "x = Inl e"
    | (continued) y s1 where "m s = (Inr y, s1)" and "f y s1 = (x, t)"
  using assms by (auto simp: await_def split: prod.splits sum.splits)

lemma setZones_same:
  assumes "setZones env u k s = (x, t)" shows "same_sessions (glob s) (glob t)"
  using assms by (auto simp: same_sessions_def signing_key_def setZones_def split: if_splits prod.splits sum.splits one_value.splits
      dest!: one_connect_glob)

lemma generateSessionToken_effect:
  assumes "generateSessionToken env a u False s = (x, t)" shows "login_effect env (glob s) (glob t)"
proof (cases "glob t = glob s")
  case False
  from assms False obtain admin where "a = Some admin"
    by (auto simp: generateSessionToken_def areturn_def split: option.splits)
  let ?u = "ui_NAME admin @ '':'' @ ui_NAME u"
  obtain m g where m: "getCreatedTokenOpennebula env ?u False (glob s) = (Inr m, g)"
    using getCreated_total by blast
  from assms m False \<open>a = Some admin\<close> have "glob t = g \<or> (\<exists>te. glob t = addUserSession ?u te g)"
    by (auto simp: generateSessionToken_def areturn_def Let_def split: if_splits option.splits)
  then show ?thesis unfolding login_effect_def using m same_sessions_refl by blast
qed (simp add: login_effect_same)

lemma createUserSession_effect:
  assumes "createUserSession env u False s = (x, t)" shows "login_effect env (glob s) (glob t)"
  using assms unfolding createUserSession_def
proof (cases rule: await_cases)
  case (thrown e)
  then show ?thesis by (simp add: callAsServerAdmin_glob login_effect_same)
next
  case (continued y s1)
  then have "glob s1 = glob s" by (simp add: callAsServerAdmin_glob)
  with continued(2) show ?thesis
    by (cases rule: await_cases)
       (auto simp: throw_code_def athrow_def areturn_def split: option.splits dest!: generateSessionToken_effect)
qed

lemma generateQr2FA_same:
  assumes "generateQr2FA env u s = (x, t)" shows "same_sessions (glob s) (glob t)"
  using assms by (auto simp: generateQr2FA_def same_sessions_def signing_key_def throw_code_def athrow_def areturn_def await_def
      on_globals_def Let_def split: option.splits if_splits prod.splits sum.splits)

lemma resolveTFAResponse_effect:
  assumes "resolveTFAResponse env st u False s = (x, t)" shows "login_effect env (glob s) (glob t)"
proof -
  have direct: "login_effect env (glob s') (glob t)"
    if "await (createUserSession env u False) (\<lambda>ss. areturn (f ss)) s' = (x, t)" for f s'
    using that by (cases rule: await_cases) (auto simp: areturn_def dest: createUserSession_effect)
  show ?thesis
  proof (cases "st = COMPLETE_2FA_SETUP")
    case True
    then have "await (setup2FASecret env u) (\<lambda>_. await (on_globals (\<lambda>g. g\<lparr>pending2FA := (pending2FA g)(ui_ID u := None)\<rparr>)) (\<lambda>_.
        await (createUserSession env u False) (\<lambda>ss.
          areturn \<lparr>tr_httpCode = ok, tr_status = TFA_OK, tr_imgUrl = None, tr_session = Some ss\<rparr>))) s = (x, t)"
      using assms by (simp add: resolveTFAResponse_def)
    then show ?thesis
    proof (cases rule: await_cases)
      case (thrown e)
      then show ?thesis by (simp add: setup2FASecret_glob login_effect_same)
    next
      case (continued y s1)
      then have "glob s1 = glob s" by (simp add: setup2FASecret_glob)
      with direct continued(2) show ?thesis
        by (intro same_sessions_effect [of "glob s" "(glob s1)\<lparr>pending2FA := (pending2FA (glob s1))(ui_ID u := None)\<rparr>"])
           (force simp: same_sessions_def signing_key_def on_globals_def await_def)+
    qed
  next
    case False
    then show ?thesis using assms direct
      by (cases st) (auto simp: resolveTFAResponse_def throw_code_def athrow_def areturn_def elim!: await_cases
          dest!: generateQr2FA_same createUserSession_effect intro: login_effect_same)
  qed
qed

lemma auth_effect:
  assumes "auth env p params s = (x, t)" shows "login_effect env (glob s) (glob t)"
proof -
  from assms obtain y where "login env p params s = (y, t)"
    by (auto simp: auth_def split: prod.splits sum.splits)
  then show ?thesis unfolding login_def
    by (elim await_cases)
       (auto dest!: verifyUserExists_glob setZones_same check2FA_state resolveTFAResponse_effect
         intro: login_effect_same same_sessions_effect)
qed

text \<open>
  The tokens of a user survive a login when none of them has expired at that time, and no token of
  somebody else is remembered at a position of his.
\<close>

definition apart :: "string \<Rightarrow> globals \<Rightarrow> bool" where
  "apart u g \<longleftrightarrow>
     (\<forall>v te i. v \<noteq> u \<longrightarrow> te \<in> set (tokens_of g v) \<longrightarrow> index g (te_token te) = Some i \<longrightarrow> tp_user i \<noteq> u)"

lemma apart_remove: "apart u g \<Longrightarrow> apart u (removeUserSession t g)"
  using set_splice1 by (fastforce simp: apart_def index_remove tokens_of_remove split: option.splits if_splits)

lemma scan_keeps:
  assumes "scan_tokens now limit v i best g = (r, g')" and "apart u g" and "v \<noteq> u"
  shows "tokens_of g' u = tokens_of g u"
  using assms
proof (induction now limit v i best g rule: scan_tokens.induct)
  case (2 now limit v i best g)
  show ?case
  proof (cases "i < length (tokens_of g v)")
    case True
    let ?g = "removeUserSession (te_token (tokens_of g v ! i)) g"
    have "tokens_of g v ! i \<in> set (tokens_of g v)" using True by simp
    then have "tokens_of ?g u = tokens_of g u"
      using 2(5,6) by (auto simp: apart_def tokens_of_remove split: option.split)
    with 2 True apart_remove [OF 2(5), of "te_token (tokens_of g v ! i)"] show ?thesis
      by (auto simp: Let_def split: if_splits)
  qed (use 2 in simp)
qed simp

lemma tokens_of_same: "same_sessions g h \<Longrightarrow> tokens_of h = tokens_of g \<and> index h = index g"
  by (simp add: same_sessions_def tokens_of_def store_def index_def fun_eq_iff)

lemma apart_ensure [simp]: "apart u (ensureSessionStore g) = apart u g"
  by (simp add: apart_def tokens_of_def)

lemma getCreated_keeps:
  assumes "getCreatedTokenOpennebula env v rem g = (r, g')" and "none_expired (ae_now env) u g" and "apart u g"
  shows "tokens_of g' u = tokens_of g u"
proof (cases "v = u \<and> v \<noteq> []")
  case True
  then show ?thesis using assms(1,2) getCreated_unexpired [of env v g rem] by (auto simp: tokens_of_def)
next
  case False
  have "tokens_of (ensureSessionStore g) u = tokens_of g u" by (simp add: tokens_of_def)
  then show ?thesis using assms(1,3) False
    by (auto simp: getCreatedTokenOpennebula_def Let_def split: if_splits option.splits
        dest!: scan_keeps [where u = u])
qed

lemma signing_key_scan: "scan_tokens now limit u i best g = (r, g') \<Longrightarrow> signing_key g' = signing_key g"
proof (induction now limit u i best g rule: scan_tokens.induct)
  case (2 now limit u i best g)
  then show ?case by (auto simp: Let_def split: if_splits)
qed simp

lemma signing_key_getCreated: "getCreatedTokenOpennebula env v rem g = (r, g') \<Longrightarrow> signing_key g' = signing_key g"
  by (auto simp: getCreatedTokenOpennebula_def Let_def split: if_splits option.splits dest!: signing_key_scan)

lemma login_effect_keeps:
  assumes "login_effect env g h"
  shows "signing_key h = signing_key g"
    and "none_expired (ae_now env) u g \<Longrightarrow> apart u g \<Longrightarrow> set (tokens_of g u) \<subseteq> set (tokens_of h u)"
proof -
  show "signing_key h = signing_key g"
    using assms by (auto simp: login_effect_def same_sessions_def dest!: signing_key_getCreated)
  assume ne: "none_expired (ae_now env) u g" and ap: "apart u g"
  from assms consider "same_sessions g h"
    | g1 v m g2 where "same_sessions g g1" "getCreatedTokenOpennebula env v False g1 = (Inr m, g2)"
        "h = g2 \<or> (\<exists>te. h = addUserSession v te g2)"
    unfolding login_effect_def by blast
  then show "set (tokens_of g u) \<subseteq> set (tokens_of h u)"
  proof cases
    case 1
    then show ?thesis by (simp add: tokens_of_same)
  next
    case 2
    note same = tokens_of_same [OF 2(1)]
    from ne ap same have "none_expired (ae_now env) u g1" "apart u g1"
      by (simp_all add: none_expired_def apart_def)
    from getCreated_keeps [OF 2(2) this] same 2(3) show ?thesis by (auto simp: tokens_of_add)
  qed
qed

text \<open>A run of logins, and what it must not meet for the sessions of a user to survive it.\<close>

fun auths :: "(auth_env \<times> auth_type \<times> login_params) list \<Rightarrow> auth_state \<Rightarrow> auth_state" where
  "auths [] s = s"
| "auths ((env, protocol, params) # later) s = auths later (snd (auth env protocol params s))"

fun undisturbed :: "string \<Rightarrow> (auth_env \<times> auth_type \<times> login_params) list \<Rightarrow> auth_state \<Rightarrow> bool" where
  "undisturbed u [] s = True"
| "undisturbed u ((env, protocol, params) # later) s \<longleftrightarrow>
     none_expired (ae_now env) u (glob s) \<and> apart u (glob s) \<and> undisturbed u later (snd (auth env protocol params s))"

lemma auths_keep:
  "signing_key (glob (auths later s)) = signing_key (glob s)"
  "undisturbed u later s \<Longrightarrow> set (tokens_of (glob s) u) \<subseteq> set (tokens_of (glob (auths later s)) u)"
proof (induction later s rule: auths.induct)
  case (2 env protocol params later s)
  have eff: "login_effect env (glob s) (glob (snd (auth env protocol params s)))"
    by (rule auth_effect [where x = "fst (auth env protocol params s)"]) simp
  {
    case 1
    show ?case using 2(1) login_effect_keeps(1) [OF eff] by simp
  next
    case 2
    then show ?case using \<open>undisturbed u later _ \<Longrightarrow> _\<close> login_effect_keeps(2) [OF eff] by auto
  }
qed simp_all

lemma sessions_valid_mono:
  assumes "set (tokens_of g u) \<subseteq> set (tokens_of h u)" and "session_valid now u t g"
  shows "session_valid now u t h"
  using assms by (auto simp: session_valid_def sessions_def)

lemma store_add_remove:
  assumes "no_empty_user g"
  shows "store (removeUserSession (te_token te) (addUserSession u te g)) = store g"
  using assms by (auto simp: no_empty_user_def store_remove index_add store_add tokens_of_add tokens_of_def fun_eq_iff
      split: option.split)

lemma sessions_store: "store g = store h \<Longrightarrow> sessions g = sessions h"
  by (simp add: sessions_def tokens_of_def)

lemma ensure_idem [simp]: "ensureSessionStore (ensureSessionStore g) = ensureSessionStore g"
  by (simp add: ensureSessionStore_def)

lemma remove_ensure [simp]: "removeUserSession t (ensureSessionStore g) = removeUserSession t g"
  by (simp add: removeUserSession_def)

lemma logout_session_cookie:
  assumes "jwt \<noteq> []" and "jwtDecode lib g jwt = Inr p"
  shows "snd (logout lib (session_cookie jwt) g) = removeUserSession (jp_jti p) g"
proof -
  have "json_parse (json_stringify (JObj [(''token'', JStr jwt)])) = Inr (JObj [(''token'', JStr jwt)])"
    by (rule json_roundtrip) simp
  moreover have "jwtDecode lib (ensureSessionStore g) jwt = Inr p"
    using assms(2) by (simp add: jwtDecode_def)
  ultimately show ?thesis
    using assms(1) by (simp add: logout_def session_cookie_def obj_get_def Let_def del: json_stringify.simps)
qed

lemma logout_after_login:
  assumes "jwt_correct (ae_jwt env)" and "no_empty_user (glob s)" and "auth env p params s = ((r, Some c), t)"
  obtains u :: user_info and uname te g where
    "\<And>h now. signing_key h = signing_key (glob t) \<Longrightarrow>
       fst (validateSession (ae_jwt env) now True (sc_value c) h) =
         (if session_valid now uname (te_token te) h
          then Next (Some \<lparr>ra_id = ui_ID u, ra_user = uname, ra_password = te_token te\<rparr>) else Expired)"
    and "sessions (snd (logout (ae_jwt env) (sc_value c) (glob t))) = sessions g"
    and "signing_key (snd (logout (ae_jwt env) (sc_value c) (glob t))) = signing_key (glob t)"
    and "login_store env (glob s) uname te (glob t)" and "sessions g \<subseteq> sessions (glob s)" and "uname \<noteq> []"
    and "none_expired (ae_now env) uname (glob s) \<Longrightarrow> sessions g = sessions (glob s)"
    and "validateAuth (ae_jwt env) (glob t) (sc_value c) = Some \<lparr>jp_iss = ui_ID u, jp_aud = uname, jp_jti = te_token te\<rparr>"
proof (rule auth_cookie [OF assms(3)])
  fix u ss uname te
  assume st: "login_store env (glob s) uname te (glob t)" and ss: "session_stored env u ss (glob t) uname te"
    and c: "c = session_cookie_of env ss"
  note dec = stored_jwt_decodes [OF assms(1) ss refl]
  from st obtain g1 m g where g1: "store g1 = store (glob s)"
    and m: "getCreatedTokenOpennebula env uname False g1 = (Inr m, g)" and add: "glob t = addUserSession uname te g"
    by (auto simp: login_store_def)
  have "no_empty_user g" using getCreated_frame(1) [OF m] assms(2) g1 by (simp add: no_empty_user_def)
  then have "store (removeUserSession (te_token te) (glob t)) = store g" by (simp add: add store_add_remove)
  then have "sessions (snd (logout (ae_jwt env) (sc_value c) (glob t))) = sessions g"
    using dec by (intro sessions_store) (simp add: c session_cookie_of_def logout_session_cookie)
  moreover have "signing_key (snd (logout (ae_jwt env) (sc_value c) (glob t))) = signing_key (glob t)"
    using dec by (simp add: c session_cookie_of_def logout_session_cookie)
  moreover have "sessions g \<subseteq> sessions (glob s)"
    using getCreated_frame(2) [OF m] sessions_store [OF g1] by simp
  moreover have "sessions g = sessions (glob s)" if "none_expired (ae_now env) uname (glob s)"
    using that getCreated_unexpired [of env uname g1 False] g1 dec(3) m sessions_store [OF g1]
    by (auto simp: none_expired_def tokens_of_def)
  ultimately show thesis
    using st dec c stored_cookie_outcome [OF assms(1) ss]
    by (intro that [where u = u and uname = uname and te = te and g = g])
       (simp_all add: session_cookie_of_def validateAuth_session_cookie complete_payload_def)
qed

section \<open>A concrete server\<close>

text \<open>A server with one user, who may have a second-factor secret, and a trivial cipher and hash.\<close>

definition demo_user :: "(string \<times> string) list option \<Rightarrow> user_info" where
  "demo_user fs = \<lparr>ui_ID = ''2'', ui_NAME = ''bob'', ui_PASSWORD = ''pass'', ui_AUTH_DRIVER = ''core'',
     ui_TEMPLATE = Some \<lparr>ut_SUNSTONE = None, ut_FIREEDGE = fs\<rparr>\<rparr>"

definition demo_auth :: "bool \<Rightarrow> (string \<times> string) list option \<Rightarrow> auth_env" where
  "demo_auth force fs =
     \<lparr>ae_jwt = plain_jwt, ae_now = 5000000,
      ae_config = \<lparr>session_expiration = 180, session_remember_expiration = 0, minimum_opennebula_expiration = 30,
                   enforce_2fa = force, auth_method = None\<rparr>,
      ae_one = (\<lambda>c. if oc_user c = ''bob'' then
                        (if oc_action c = ''user.info'' then Inr (OneUser (Some (demo_user fs))) else Inr (OneZones []))
                      else if oc_action c = ''user.info''
                      then Inr (OneUser (Some ((demo_user None)\<lparr>ui_NAME := ''serveradmin''\<rparr>)))
                      else Inr (OneOther (JNum 3))),
      ae_encrypt = (\<lambda>text key iv. Some text), ae_sha256 = (\<lambda>s. s),
      ae_totp = (\<lambda>secret tok. tok = secret), ae_secret = ''S'', ae_qr = Some ''qr'',
      ae_auth_file = Some ''serveradmin:pw''\<rparr>"

definition demo_login :: "string \<Rightarrow> login_params" where
  "demo_login tok = \<lparr>lp_user = ''bob'', lp_token = ''pass'', lp_tfatoken = tok, lp_remember = False\<rparr>"

definition demo_state :: auth_state where
  "demo_state = \<lparr>glob = initial_globals\<lparr>FIREEDGE_KEY := Some ''key''\<rparr>, calls = []\<rparr>"

lemmas demo_auth_defs = demo_user_def demo_auth_def demo_login_def demo_state_def initial_globals_def

lemmas demo_run_simps = login_def verifyUserExists_def fetchUserInfo_def one_connect_def one_user_def
  setZones_def check2FA_def resolveTFAResponse_def createUserSession_def callAsServerAdmin_def getServerAdmin_def
  getSunstoneAuth_def generateSessionToken_def createTokenServerAdmin_def getDates_def
  genJWT_def await_def areturn_def athrow_def throw_code_def on_globals_def mfa_secret_def template_secret_def
  validate2FA_def num_or_def replaceEscapeSequence_def Let_def

lemma createJWT_plain:
  "signing_key g = Some k \<Longrightarrow> i \<noteq> [] \<Longrightarrow> u \<noteq> [] \<Longrightarrow> t \<noteq> [] \<Longrightarrow>
     createJWT plain_jwt g i u t = Some (json_stringify (JArr [JStr i, JStr u, JStr t, JStr k]))"
  by (simp add: createJWT_def jwtEncode_def plain_jwt_def)

lemma json_stringify_JArr_nonempty: "json_stringify (JArr xs) \<noteq> []"
  by simp

definition demo_entry :: token_entry where
  "demo_entry = \<lparr>te_token = ''serveradmin:bob:'' @ show_int 15800, te_expires = 15800\<rparr>"

text \<open>A login of the one user, on a server where he holds no session or the very one he is given.\<close>

lemma demo_login_run:
  assumes "tokens_of g ''serveradmin:bob'' = [] \<or> tokens_of g ''serveradmin:bob'' = [demo_entry]"
    and "zones g = None" and "signing_key g = Some ''key''"
  shows "\<exists>r c cs. auth (demo_auth False None) CORE (demo_login []) \<lparr>glob = g, calls = []\<rparr> =
    ((r, Some c), \<lparr>glob = addUserSession ''serveradmin:bob'' demo_entry (ensureSessionStore g), calls = cs\<rparr>) \<and>
    sc_maxAge c = 10800000 \<and>
    sc_value c = session_cookie (json_stringify (JArr [JStr ''2'', JStr ''serveradmin:bob'', JStr (te_token demo_entry), JStr ''key'']))"
proof -
  have created: "getCreatedTokenOpennebula (demo_auth False None) ''serveradmin:bob'' False g =
      (Inr (if tokens_of g ''serveradmin:bob'' = [] then None else Some (token_data_of demo_entry)), ensureSessionStore g)"
    using assms(1)
    by (subst getCreated_unexpired)
       (auto simp: none_expired_def demo_entry_def demo_auth_def reusable_def num_or_def)
  show ?thesis
    using assms(2,3) created
    by (simp add: auth_def demo_run_simps demo_auth_defs createJWT_plain json_stringify_JArr_nonempty token_data_of_def
        demo_entry_def session_cookie_of_def del: json_stringify.simps)
qed

section \<open>Properties\<close>

text \<open>
  C21. Logging in works, end to end: whenever \<open>auth\<close> answers with a session cookie, the answer is
  200 and the middleware \<open>validateSession\<close> accepts that very cookie for as long as the browser keeps it
  (its \<open>maxAge\<close>), as the user the cookie's token names, also after any later logins, refused ones included,
  at each of which none of that user's tokens has expired and no token of another user is remembered at a
  position of his.
\<close>

theorem auth_cookie_accepted:
  assumes "jwt_correct (ae_jwt env)" and "auth env protocol params s = ((r, Some c), t)"
    and "now < ae_now env + sc_maxAge c"
  shows "hr_id r = 200 \<and>
    (\<exists>q. validateAuth (ae_jwt env) (glob t) (sc_value c) = Some q \<and>
       (\<forall>later. undisturbed (jp_aud q) later t \<longrightarrow>
          fst (validateSession (ae_jwt env) now True (sc_value c) (glob (auths later t))) =
            Next (Some \<lparr>ra_id = jp_iss q, ra_user = jp_aud q, ra_password = jp_jti q\<rparr>)))"
proof (rule auth_cookie [OF assms(2)])
  fix u ss uname te
  assume ss: "session_stored env u ss (glob t) uname te" and c: "c = session_cookie_of env ss" and "hr_id r = 200"
  have exp: "now < ss_expiration ss * 1000"
    using assms(3) ss by (simp add: c session_cookie_of_def session_stored_def)
  note valid = stored_valid [OF assms(1) ss exp]
  have "fst (validateSession (ae_jwt env) now True (session_cookie (ss_token ss)) (glob (auths later t))) =
      Next (Some \<lparr>ra_id = ui_ID u, ra_user = uname, ra_password = te_token te\<rparr>)" if "undisturbed uname later t" for later
    using stored_cookie_outcome [OF assms(1) ss auths_keep(1)] sessions_valid_mono [OF auths_keep(2) [OF that] valid]
    by simp
  with stored_jwt_decodes [OF assms(1) ss refl] show ?thesis
    by (simp add: c session_cookie_of_def validateAuth_session_cookie complete_payload_def \<open>hr_id r = 200\<close>)
qed

text \<open>
  C2. The second factor is enforced: when a password login hands out a session, OpenNebula answered
  \<open>user.info\<close> for the given name and password, and if the configuration forces a second factor or the
  user has a secret, the one-time password was checked against the stored secret, or, for a user without
  one, against the secret pending for him before this login.
\<close>

theorem second_factor_enforced:
  assumes "login env CORE params s = (Inr r, t)" and "tr_session r = Some ss"
  shows "\<exists>u. ae_one env \<lparr>oc_user = lp_user params, oc_pass = lp_token params, oc_action = ''user.info'',
             oc_params = getDefaultParamsOfOpennebulaCommand ''user.info'' ''GET''\<rparr> = Inr (OneUser (Some u)) \<and>
    (enforce_2fa (ae_config env) \<or> mfa_secret u \<noteq> [] \<longrightarrow>
       second_factor_passed env u (lp_tfatoken params) (pending2FA (glob s)))"
proof (rule login_steps [OF assms(1)])
  fix u s1 s2 s3 st
  assume v: "verifyUserExists env (lp_user params) (lp_token params) CORE s = (Inr u, s1)"
    and z: "setZones env (lp_user params) (lp_token params) s1 = (Inr (), s2)"
    and c: "check2FA env u (lp_tfatoken params) CORE s2 = (Inr st, s3)"
    and res: "resolveTFAResponse env st u False s3 = (Inr r, t)"
  have "st \<in> {TFA_OK, NOT_SUPPORTED, COMPLETE_2FA_SETUP}"
    using res assms(2) by (rule resolveTFAResponse_session) auto
  moreover have "pending2FA (glob s2) = pending2FA (glob s)"
    using setZones_frame(1) [OF z] core_user(2) [OF v] by simp
  ultimately show ?thesis using check2FA_passed [OF c] core_user(1) [OF v] by auto
qed

lemma demo_store: "store (glob demo_state) = Map.empty"
  by (simp add: demo_state_def initial_globals_def store_def)

lemma demo_2fa_login:
  "\<exists>r t. login (demo_auth True (Some [(''TWO_FACTOR_AUTH_SECRET'', ''S'')])) CORE (demo_login ''S'') demo_state = (Inr r, t) \<and>
     tr_session r \<noteq> None"
proof -
  let ?env = "demo_auth True (Some [(''TWO_FACTOR_AUTH_SECRET'', ''S'')])"
  have "getCreatedTokenOpennebula ?env ''serveradmin:bob'' False (glob demo_state) = (Inr None, ensureSessionStore (glob demo_state))"
    by (simp add: getCreatedTokenOpennebula_def Let_def demo_store)
  moreover have "signing_key (glob demo_state) = Some ''key''" by (simp add: demo_state_def signing_key_def)
  ultimately show ?thesis
    by (simp add: demo_run_simps demo_auth_defs default2FAOpennebulaVar_def createJWT_plain json_stringify_JArr_nonempty
        del: json_stringify.simps)
qed

theorem second_factor_enforced_witness:
  "second_factor_passed (demo_auth True (Some [(''TWO_FACTOR_AUTH_SECRET'', ''S'')]))
     (demo_user (Some [(''TWO_FACTOR_AUTH_SECRET'', ''S'')])) ''S'' (pending2FA (glob demo_state))"
proof -
  obtain r t ss where "login (demo_auth True (Some [(''TWO_FACTOR_AUTH_SECRET'', ''S'')])) CORE (demo_login ''S'') demo_state = (Inr r, t)"
    and "tr_session r = Some ss" using demo_2fa_login by auto
  from second_factor_enforced [OF this] show ?thesis by (simp add: demo_auth_def demo_login_def)
qed

lemma setup2FASecret_calls:
  assumes "setup2FASecret env u s = (Inr (), t)"
  obtains secret tpl c where "pending2FA (glob s) (ui_ID u) = Some secret" and "secret \<noteq> []"
    and "ui_TEMPLATE u = Some tpl" and "c \<in> set (calls t)" and "oc_action c = ''user.update''"
    and "oc_params c = [case parse_int (ui_ID u) of Some n \<Rightarrow> JNum n | None \<Rightarrow> JUndef,
           JStr (generateNewResourceTemplate (case ut_FIREEDGE tpl of Some fs \<Rightarrow> fs | None \<Rightarrow> [])
             [(default2FAOpennebulaVar, secret)] [default2FAOpennebulaTmpVar] fireedge_wrapper), JNum 1]"
    and "\<exists>v. ae_one env c = Inr v"
proof -
  from assms obtain sa k where "getServerAdmin env s = (Inr (sa, k), s)"
    unfolding setup2FASecret_def by (auto dest: getServerAdmin_state)
  with assms show ?thesis
    unfolding setup2FASecret_def
    by (auto simp: Let_def one_connect_Inr split: option.splits if_splits prod.splits sum.splits intro: that)
qed

lemma pending_session_ops [simp]:
  "pending2FA (ensureSessionStore g) = pending2FA g"
  "pending2FA (addUserSession u te g) = pending2FA g"
  "pending2FA (removeUserSession t g) = pending2FA g"
  by (auto simp: ensureSessionStore_def addUserSession_def removeUserSession_def Let_def split: option.split)

lemma scan_pending: "scan_tokens now limit u i best g = (r, g') \<Longrightarrow> pending2FA g' = pending2FA g"
proof (induction now limit u i best g rule: scan_tokens.induct)
  case (2 now limit u i best g)
  then show ?case by (auto simp: Let_def split: if_splits)
qed simp

lemma createUserSession_pending:
  assumes "createUserSession env u rem s = (Inr ss, t)" shows "pending2FA (glob t) = pending2FA (glob s)"
proof (rule createUserSession_Inr [OF assms])
  fix uname te g
  assume "glob t = addUserSession uname te g" and "snd (getCreatedTokenOpennebula env uname rem (glob s)) = g"
  moreover have "pending2FA (snd (getCreatedTokenOpennebula env uname rem (glob s))) = pending2FA (glob s)"
    by (auto simp: getCreatedTokenOpennebula_def Let_def split: option.split)
       (metis prod.collapse scan_pending pending_session_ops(1))
  ultimately show ?thesis by simp
qed

text \<open>
  Completing the set-up of a second factor stores it first: when a user without a secret gets a
  session although one is forced, the pending secret he proved to hold has been written to his
  OpenNebula template by a successful \<open>user.update\<close>, and it is no longer pending.
\<close>

theorem second_factor_setup_stored:
  assumes "login env CORE params s = (Inr r, t)" and "tr_session r = Some ss" and "enforce_2fa (ae_config env)"
    and "ae_one env \<lparr>oc_user = lp_user params, oc_pass = lp_token params, oc_action = ''user.info'',
           oc_params = getDefaultParamsOfOpennebulaCommand ''user.info'' ''GET''\<rparr> = Inr (OneUser (Some u))"
    and "mfa_secret u = []"
  shows "\<exists>secret tpl c. pending2FA (glob s) (ui_ID u) = Some secret \<and> ae_totp env secret (lp_tfatoken params) \<and>
    ui_TEMPLATE u = Some tpl \<and> c \<in> set (calls t) \<and> oc_action c = ''user.update'' \<and> (\<exists>v. ae_one env c = Inr v) \<and>
    pending2FA (glob t) (ui_ID u) = None \<and>
    oc_params c ! 1 = JStr (generateNewResourceTemplate (case ut_FIREEDGE tpl of Some fs \<Rightarrow> fs | None \<Rightarrow> [])
      [(default2FAOpennebulaVar, secret)] [default2FAOpennebulaTmpVar] fireedge_wrapper)"
proof (rule login_steps [OF assms(1)])
  fix u' s1 s2 s3 st
  assume v: "verifyUserExists env (lp_user params) (lp_token params) CORE s = (Inr u', s1)"
    and z: "setZones env (lp_user params) (lp_token params) s1 = (Inr (), s2)"
    and c: "check2FA env u' (lp_tfatoken params) CORE s2 = (Inr st, s3)"
    and res: "resolveTFAResponse env st u' False s3 = (Inr r, t)"
  have u: "u' = u" using core_user(1) [OF v] assms(4) by simp
  have pend: "pending2FA (glob s3) = pending2FA (glob s)"
    using setZones_frame(1) [OF z] core_user(2) [OF v] check2FA_state [OF c] by simp
  have direct: "st \<noteq> TFA_OK \<and> st \<noteq> NOT_SUPPORTED"
    using c u assms(3,5) by (auto simp: check2FA_def validate2FA_def split: if_splits option.splits)
  from res assms(2) obtain s4 s5 where su: "setup2FASecret env u s3 = (Inr (), s4)"
    and cs: "createUserSession env u False s5 = (Inr ss, t)" and s5: "calls s5 = calls s4"
    and st: "st = COMPLETE_2FA_SETUP" and gone: "pending2FA (glob s5) (ui_ID u) = None"
    by (rule resolveTFAResponse_session) (use u direct in auto)
  have "pending2FA (glob t) (ui_ID u) = None" using createUserSession_pending [OF cs] gone by simp
  have mono: "set (calls s4) \<subseteq> set (calls t)" using cs s5 by (elim createUserSession_Inr) simp
  have "second_factor_passed env u (lp_tfatoken params) (pending2FA (glob s2))"
    using check2FA_passed [OF c] u st assms(3) by simp
  with su \<open>pending2FA (glob t) (ui_ID u) = None\<close> show ?thesis
    using mono pend assms(5) check2FA_state [OF c]
    by (elim setup2FASecret_calls) (auto simp: second_factor_passed_def)
qed

definition pending_state :: auth_state where
  "pending_state = \<lparr>glob = (glob demo_state)\<lparr>pending2FA := [''2'' \<mapsto> ''S'']\<rparr>, calls = []\<rparr>"

lemma pending_login:
  "\<exists>r t. login (demo_auth True None) CORE (demo_login ''S'') pending_state = (Inr r, t) \<and> tr_session r \<noteq> None"
proof -
  let ?env = "demo_auth True None"
  have "getCreatedTokenOpennebula ?env ''serveradmin:bob'' False (glob demo_state) = (Inr None, ensureSessionStore (glob demo_state))"
    by (simp add: getCreatedTokenOpennebula_def Let_def demo_store)
  moreover have "signing_key (glob demo_state) = Some ''key''" by (simp add: demo_state_def signing_key_def)
  ultimately show ?thesis
    by (simp add: demo_run_simps demo_auth_defs pending_state_def setup2FASecret_def createJWT_plain json_stringify_JArr_nonempty
        fun_upd_idem del: json_stringify.simps)
qed

theorem second_factor_setup_stored_witness:
  "\<exists>t c. snd (login (demo_auth True None) CORE (demo_login ''S'') pending_state) = t \<and> c \<in> set (calls t) \<and>
     oc_action c = ''user.update'' \<and> pending2FA (glob t) ''2'' = None"
proof -
  obtain r t ss where run: "login (demo_auth True None) CORE (demo_login ''S'') pending_state = (Inr r, t)"
    and ss: "tr_session r = Some ss" using pending_login by auto
  have "mfa_secret (demo_user None) = []" by (simp add: mfa_secret_def template_secret_def demo_user_def)
  from second_factor_setup_stored [OF run ss _ _ this] run show ?thesis
    by (auto simp: demo_auth_def demo_login_def demo_user_def)
qed

text \<open>
  Reusing a token is safe: \<open>getCreatedTokenOpennebula\<close> never reads past the end of the array it
  shortens while it runs, it adds no session, and a token it returns is one the user holds and outlives
  the configured margin.
\<close>

theorem reused_token_safe:
  "\<exists>m g'. getCreatedTokenOpennebula env u remember g = (Inr m, g') \<and> sessions g' \<subseteq> sessions g \<and>
     (case m of
        None \<Rightarrow> True
      | Some td \<Rightarrow> (u, \<lparr>te_token = td_token td, te_expires = td_time td\<rparr>) \<in> sessions g \<and>
          (td_time td - d_limitExpirationReuseToken (getDates env remember) * 60) * 1000 > ae_now env)"
proof -
  obtain m g' where m: "getCreatedTokenOpennebula env u remember g = (Inr m, g')" using getCreated_total by blast
  have "m = Some td \<Longrightarrow> (u, \<lparr>te_token = td_token td, te_expires = td_time td\<rparr>) \<in> sessions g \<and>
      (td_time td - d_limitExpirationReuseToken (getDates env remember) * 60) * 1000 > ae_now env" for td
    using m scan_tokens_result [where best = None and g = "ensureSessionStore g" and u = u and td = td and g' = g']
    by (auto simp: getCreatedTokenOpennebula_def Let_def getDates_def split: if_splits option.splits)
  then show ?thesis using m getCreated_frame(2) [OF m] by (auto split: option.split)
qed

text \<open>
  The token that is reused is the last one stored, not the one that lives longest: the comparison in
  the loop reads \<open>maxToken.expires\<close>, which is never set.
\<close>

theorem reuse_takes_last_not_longest:
  "let te = (\<lambda>t e. \<lparr>te_token = t, te_expires = e\<rparr>);
       g = additions [(''u'', te ''long'' 90000), (''u'', te ''short'' 20000)] initial_globals
   in fst (getCreatedTokenOpennebula (demo_auth False None) ''u'' False g) =
        Inr (Some \<lparr>td_token = ''short'', td_time = 20000\<rparr>)"
  unfolding Let_def
  by (subst getCreated_unexpired)
     (simp_all add: none_expired_def additions_def tokens_of_add, simp_all add: initial_globals_def tokens_of_def store_def
       demo_auth_def reusable_def num_or_def token_data_of_def)

text \<open>The store remembers the right position for a token of a user.\<close>

definition indexed_at :: "string \<Rightarrow> string \<Rightarrow> nat \<Rightarrow> globals \<Rightarrow> bool" where
  "indexed_at u t pos g \<longleftrightarrow>
     index g t = Some \<lparr>tp_user = u, tp_pos = pos\<rparr> \<and> pos < length (tokens_of g u) \<and> te_token (tokens_of g u ! pos) = t"

text \<open>Another entry of the user's array holds the same token and has not expired.\<close>

definition live_copy :: "int \<Rightarrow> string \<Rightarrow> string \<Rightarrow> nat \<Rightarrow> globals \<Rightarrow> bool" where
  "live_copy now u t pos g \<longleftrightarrow>
     (\<exists>j < length (tokens_of g u). j \<noteq> pos \<and> te_token (tokens_of g u ! j) = t \<and> now < te_expires (tokens_of g u ! j) * 1000)"

lemma set_splice1_nth: "set (splice1 p xs) = {xs ! j | j. j < length xs \<and> j \<noteq> p}"
proof (cases "p < length xs")
  case True
  have "set (take p xs) = {xs ! j | j. j < p}"
    using True by (auto simp: in_set_conv_nth) (metis nth_take)+
  moreover have "set (drop (Suc p) xs) = {xs ! j | j. p < j \<and> j < length xs}"
  proof (intro set_eqI iffI)
    fix x
    assume "x \<in> set (drop (Suc p) xs)"
    then obtain i where "i < length xs - Suc p" "x = xs ! (Suc p + i)" by (auto simp: in_set_conv_nth)
    then show "x \<in> {xs ! j | j. p < j \<and> j < length xs}" by (intro CollectI exI [of _ "Suc p + i"]) auto
  next
    fix x
    assume "x \<in> {xs ! j | j. p < j \<and> j < length xs}"
    then obtain j where "p < j" "j < length xs" "x = xs ! j" by auto
    then show "x \<in> set (drop (Suc p) xs)" by (auto simp: in_set_conv_nth intro!: exI [of _ "j - Suc p"])
  qed
  moreover have "{xs ! j | j. j < length xs \<and> j \<noteq> p} = {xs ! j | j. j < p} \<union> {xs ! j | j. p < j \<and> j < length xs}"
    using True by (auto simp: neq_iff)
  ultimately show ?thesis by (simp add: splice1_def)
qed (auto simp: in_set_conv_nth)

lemma valid_after_remove:
  assumes "indexed_at u t pos g" and "u \<noteq> []" and "t \<noteq> []"
  shows "session_valid now u t (removeUserSession t g) \<longleftrightarrow> live_copy now u t pos g"
proof -
  have "tokens_of (removeUserSession t g) u = splice1 pos (tokens_of g u)"
    using assms(1) by (simp add: indexed_at_def tokens_of_remove)
  then show ?thesis
    using assms(2,3) by (auto simp: session_valid_def sessions_def live_copy_def set_splice1_nth)
qed

text \<open>
  C6. What a logout takes away, whenever it comes: a login leaves its cookie's token at the position
  remembered for it; and in any later state with the same signing key in which that position is right, a logout
  with the cookie removes this one entry of the user's array and touches nobody else's sessions.  From then
  on \<open>validateSession\<close> calls the cookie expired, unless the array holds the token a second time, as it
  does after a login that reused it: then the cookie is accepted until that copy expires.
\<close>

theorem logout_revokes_token:
  assumes "jwt_correct (ae_jwt env)" and "auth env protocol params s = ((r, Some c), t)"
    and "validateAuth (ae_jwt env) (glob t) (sc_value c) = Some p"
  shows "(\<exists>pos. indexed_at (jp_aud p) (jp_jti p) pos (glob t)) \<and>
    (\<forall>g pos. signing_key g = signing_key (glob t) \<and> indexed_at (jp_aud p) (jp_jti p) pos g \<longrightarrow>
       (\<forall>v. tokens_of (snd (logout (ae_jwt env) (sc_value c) g)) v =
          (if v = jp_aud p then splice1 pos (tokens_of g v) else tokens_of g v)) \<and>
       (\<forall>now. fst (validateSession (ae_jwt env) now True (sc_value c) (snd (logout (ae_jwt env) (sc_value c) g))) =
          (if live_copy now (jp_aud p) (jp_jti p) pos g
           then Next (Some \<lparr>ra_id = jp_iss p, ra_user = jp_aud p, ra_password = jp_jti p\<rparr>) else Expired)))"
proof (rule auth_cookie [OF assms(2)])
  fix u ss uname te
  assume st: "login_store env (glob s) uname te (glob t)" and ss: "session_stored env u ss (glob t) uname te"
    and c: "c = session_cookie_of env ss"
  note dec = stored_jwt_decodes [OF assms(1) ss]
  have p: "p = \<lparr>jp_iss = ui_ID u, jp_aud = uname, jp_jti = te_token te\<rparr>"
    using assms(3) dec(1) [OF refl] dec(2-5) [OF refl]
    by (simp add: c session_cookie_of_def validateAuth_session_cookie complete_payload_def)
  have "\<exists>pos. indexed_at uname (te_token te) pos (glob t)"
    using st by (auto simp: login_store_def indexed_at_def index_add tokens_of_add nth_append)
  moreover have "(\<forall>v. tokens_of (snd (logout (ae_jwt env) (sc_value c) g)) v =
        (if v = uname then splice1 pos (tokens_of g v) else tokens_of g v)) \<and>
      (\<forall>now. fst (validateSession (ae_jwt env) now True (sc_value c) (snd (logout (ae_jwt env) (sc_value c) g))) =
        (if live_copy now uname (te_token te) pos g
         then Next (Some \<lparr>ra_id = ui_ID u, ra_user = uname, ra_password = te_token te\<rparr>) else Expired))"
    if key: "signing_key g = signing_key (glob t)" and at: "indexed_at uname (te_token te) pos g" for g pos
  proof -
    have out: "snd (logout (ae_jwt env) (sc_value c) g) = removeUserSession (te_token te) g"
      using dec(1) [OF key] dec(5) [OF refl] by (simp add: c session_cookie_of_def logout_session_cookie)
    have "signing_key (removeUserSession (te_token te) g) = signing_key (glob t)" using key by simp
    from stored_cookie_outcome [OF assms(1) ss this] show ?thesis
      using at dec(3,4) [OF refl] unfolding out
      by (simp add: c session_cookie_of_def valid_after_remove) (simp add: tokens_of_remove indexed_at_def)
  qed
  ultimately show ?thesis unfolding p jwt_payload.simps by blast
qed

text \<open>
  A logout does not revoke a token the login reused: \<open>addUserSession\<close> stores the reused token a
  second time, \<open>removeUserSession\<close> takes one copy away and forgets the position of the other.  When the
  user held the cookie's token before the login, and none of his tokens had expired, the cookie is
  still accepted after the logout, until the token expires.
\<close>

theorem logout_keeps_reused_token:
  assumes "jwt_correct (ae_jwt env)" and "no_empty_user (glob s)"
    and "auth env protocol params s = ((r, Some c), t)"
    and "validateAuth (ae_jwt env) (glob t) (sc_value c) = Some p"
    and "none_expired (ae_now env) (jp_aud p) (glob s)"
    and "(jp_aud p, te) \<in> sessions (glob s)" and "te_token te = jp_jti p" and "now < te_expires te * 1000"
  shows "\<exists>who. fst (validateSession (ae_jwt env) now True (sc_value c)
    (snd (logout (ae_jwt env) (sc_value c) (glob t)))) = Next (Some who)"
proof (rule logout_after_login [OF assms(1-3)])
  fix u :: user_info and uname te' g
  assume outcome: "\<And>h now. signing_key h = signing_key (glob t) \<Longrightarrow>
       fst (validateSession (ae_jwt env) now True (sc_value c) h) =
         (if session_valid now uname (te_token te') h
          then Next (Some \<lparr>ra_id = ui_ID u, ra_user = uname, ra_password = te_token te'\<rparr>) else Expired)"
    and sess: "sessions (snd (logout (ae_jwt env) (sc_value c) (glob t))) = sessions g"
    and key: "signing_key (snd (logout (ae_jwt env) (sc_value c) (glob t))) = signing_key (glob t)"
    and same: "none_expired (ae_now env) uname (glob s) \<Longrightarrow> sessions g = sessions (glob s)"
    and p: "validateAuth (ae_jwt env) (glob t) (sc_value c) = Some \<lparr>jp_iss = ui_ID u, jp_aud = uname, jp_jti = te_token te'\<rparr>"
    and "uname \<noteq> []"
  have "te_token te \<noteq> []" using assms(4,7) by (auto simp: validateAuth_def complete_payload_def
        split: if_splits sum.splits jsval.splits)
  then have "session_valid now uname (te_token te') (snd (logout (ae_jwt env) (sc_value c) (glob t)))"
    using assms(4-8) p same sess \<open>uname \<noteq> []\<close> by (auto simp: session_valid_def)
  then show ?thesis using outcome [OF key] by simp
qed

definition held_state :: auth_state where
  "held_state = \<lparr>glob = addUserSession ''serveradmin:bob'' demo_entry (glob demo_state), calls = []\<rparr>"

lemma demo_auth_correct: "jwt_correct (ae_jwt (demo_auth False None))"
  by (simp add: demo_auth_def plain_jwt_correct)

lemma demo_payload:
  assumes "signing_key g = Some ''key''"
  shows "validateAuth plain_jwt g
      (session_cookie (json_stringify (JArr [JStr ''2'', JStr ''serveradmin:bob'', JStr (te_token demo_entry), JStr ''key'']))) =
    Some \<lparr>jp_iss = ''2'', jp_aud = ''serveradmin:bob'', jp_jti = te_token demo_entry\<rparr>"
  using assms
  by (simp add: validateAuth_session_cookie json_stringify_JArr_nonempty jwtDecode_def plain_jwt_def json_roundtrip
      complete_payload_def demo_entry_def del: json_stringify.simps)

lemma demo_key: "signing_key (glob demo_state) = Some ''key''" "signing_key (glob held_state) = Some ''key''"
  by (simp_all add: held_state_def) (simp_all add: demo_state_def signing_key_def)

lemma demo_tokens: "tokens_of (glob demo_state) u = []"
    "tokens_of (glob held_state) u = (if u = ''serveradmin:bob'' then [demo_entry] else [])"
  by (simp_all add: held_state_def tokens_of_add) (simp_all add: tokens_of_def demo_store)

lemma demo_zones: "zones (glob demo_state) = None" "zones (glob held_state) = None"
  by (simp_all add: held_state_def addUserSession_def ensureSessionStore_def Let_def demo_state_def initial_globals_def)

lemma demo_no_empty: "no_empty_user (glob demo_state)" "no_empty_user (glob held_state)"
  by (simp_all add: held_state_def no_empty_user_add no_empty_user_def demo_store store_add)

lemma demo_fresh_login:
  obtains r c t where "auth (demo_auth False None) CORE (demo_login []) demo_state = ((r, Some c), t)"
    and "glob t = addUserSession ''serveradmin:bob'' demo_entry (ensureSessionStore (glob demo_state))"
    and "sc_maxAge c = 10800000"
    and "validateAuth plain_jwt (glob t) (sc_value c) =
      Some \<lparr>jp_iss = ''2'', jp_aud = ''serveradmin:bob'', jp_jti = te_token demo_entry\<rparr>"
proof -
  obtain r c t where run: "auth (demo_auth False None) CORE (demo_login []) demo_state = ((r, Some c), t)"
    and t: "glob t = addUserSession ''serveradmin:bob'' demo_entry (ensureSessionStore (glob demo_state))"
    and age: "sc_maxAge c = 10800000"
    and v: "sc_value c = session_cookie (json_stringify (JArr [JStr ''2'', JStr ''serveradmin:bob'', JStr (te_token demo_entry), JStr ''key'']))"
    using demo_login_run [of "glob demo_state"] demo_tokens demo_zones demo_key by (auto simp: demo_state_def)
  have val: "validateAuth plain_jwt (glob t) (sc_value c) =
      Some \<lparr>jp_iss = ''2'', jp_aud = ''serveradmin:bob'', jp_jti = te_token demo_entry\<rparr>"
    unfolding v by (rule demo_payload) (simp add: t demo_key)
  show thesis by (rule that [OF run t age val])
qed

lemma demo_jwt: "ae_jwt (demo_auth False None) = plain_jwt" "ae_now (demo_auth False None) = 5000000"
  by (simp_all add: demo_auth_def)

theorem auth_cookie_accepted_witness:
  "\<exists>r c t who. auth (demo_auth False None) CORE (demo_login []) demo_state = ((r, Some c), t) \<and> hr_id r = 200 \<and>
     fst (validateSession plain_jwt 15000000 True (sc_value c)
       (glob (auths [(demo_auth False None, CORE, demo_login [])] t))) = Next (Some who)"
proof (rule demo_fresh_login)
  fix r c t
  assume run: "auth (demo_auth False None) CORE (demo_login []) demo_state = ((r, Some c), t)"
    and t: "glob t = addUserSession ''serveradmin:bob'' demo_entry (ensureSessionStore (glob demo_state))"
    and age: "sc_maxAge c = 10800000"
    and q: "validateAuth plain_jwt (glob t) (sc_value c) =
      Some \<lparr>jp_iss = ''2'', jp_aud = ''serveradmin:bob'', jp_jti = te_token demo_entry\<rparr>"
  have toks: "tokens_of (glob t) u = (if u = ''serveradmin:bob'' then [demo_entry] else [])" for u
    using demo_tokens(1) by (simp add: t tokens_of_add) (simp add: tokens_of_def)
  have "undisturbed ''serveradmin:bob'' [(demo_auth False None, CORE, demo_login [])] t"
    by (simp add: none_expired_def apart_def toks demo_jwt) (simp add: demo_entry_def)
  moreover note auth_cookie_accepted [OF demo_auth_correct run, of 15000000, unfolded demo_jwt, simplified age q, simplified]
  ultimately show ?thesis using run by blast
qed

theorem logout_revokes_token_witness:
  "\<exists>r c t. auth (demo_auth False None) CORE (demo_login []) demo_state = ((r, Some c), t) \<and>
     fst (validateSession plain_jwt 6000000 True (sc_value c) (snd (logout plain_jwt (sc_value c) (glob t)))) = Expired"
proof (rule demo_fresh_login)
  fix r c t
  assume run: "auth (demo_auth False None) CORE (demo_login []) demo_state = ((r, Some c), t)"
    and t: "glob t = addUserSession ''serveradmin:bob'' demo_entry (ensureSessionStore (glob demo_state))"
    and q: "validateAuth plain_jwt (glob t) (sc_value c) =
      Some \<lparr>jp_iss = ''2'', jp_aud = ''serveradmin:bob'', jp_jti = te_token demo_entry\<rparr>"
  have toks: "tokens_of (glob t) ''serveradmin:bob'' = [demo_entry]"
    using demo_tokens(1) by (simp add: t tokens_of_add) (simp add: tokens_of_def)
  then have one: "\<not> live_copy 6000000 ''serveradmin:bob'' (te_token demo_entry) 0 (glob t)" by (simp add: live_copy_def)
  note revoked = logout_revokes_token [OF demo_auth_correct run, unfolded demo_jwt, OF q, simplified]
  then obtain pos where "indexed_at ''serveradmin:bob'' (te_token demo_entry) pos (glob t)" by blast
  moreover from this have "pos = 0" using toks by (simp add: indexed_at_def)
  ultimately show ?thesis using revoked one run by auto
qed

theorem logout_keeps_reused_token_witness:
  "\<exists>r c t who. auth (demo_auth False None) CORE (demo_login []) held_state = ((r, Some c), t) \<and>
     fst (validateSession plain_jwt 6000000 True (sc_value c) (snd (logout plain_jwt (sc_value c) (glob t)))) = Next (Some who)"
proof -
  obtain r c t where run: "auth (demo_auth False None) CORE (demo_login []) held_state = ((r, Some c), t)"
    and t: "glob t = addUserSession ''serveradmin:bob'' demo_entry (ensureSessionStore (glob held_state))"
    and v: "sc_value c = session_cookie (json_stringify (JArr [JStr ''2'', JStr ''serveradmin:bob'', JStr (te_token demo_entry), JStr ''key'']))"
    using demo_login_run [of "glob held_state"] demo_tokens demo_zones demo_key by (auto simp: held_state_def)
  have jwt: "ae_jwt (demo_auth False None) = plain_jwt" by (simp add: demo_auth_def)
  have p: "validateAuth plain_jwt (glob t) (sc_value c) =
      Some \<lparr>jp_iss = ''2'', jp_aud = ''serveradmin:bob'', jp_jti = te_token demo_entry\<rparr>"
    unfolding v by (rule demo_payload) (simp add: t demo_key)
  have "none_expired (ae_now (demo_auth False None)) ''serveradmin:bob'' (glob held_state)"
    by (simp add: none_expired_def demo_tokens demo_entry_def demo_auth_def)
  moreover have "(''serveradmin:bob'', demo_entry) \<in> sessions (glob held_state)" by (simp add: sessions_def demo_tokens)
  ultimately show ?thesis
    using logout_keeps_reused_token [OF demo_auth_correct demo_no_empty(2) run, unfolded jwt, OF p, of demo_entry 6000000] run
    by (auto simp: demo_entry_def)
qed

text \<open>
  The purge of expired tokens uses the positions of the index, which it makes stale itself.  A user logs in
  every 160 minutes, the tokens living for 180 and being reused while 30 are left: the login at 320 minutes
  drops the first token, and the index keeps the old position of the second; the login at 480 minutes drops
  the second at that position, which is now that of the third, still valid for 20 minutes.
\<close>

definition login_at :: "int \<Rightarrow> string \<Rightarrow> globals \<Rightarrow> globals" where
  "login_at minute t g =
     (let env = (demo_auth False None)\<lparr>ae_now := minute * 60000\<rparr>
      in addUserSession ''u'' \<lparr>te_token = t, te_expires = (minute + 180) * 60\<rparr>
           (snd (getCreatedTokenOpennebula env ''u'' False g)))"

theorem purge_removes_live_token:
  "let g = login_at 320 ''c'' (login_at 160 ''b'' (login_at 1 ''a'' initial_globals))
   in fst (validateUser (481 * 60000) ''u'' ''c'' g) \<and> \<not> fst (validateUser (481 * 60000) ''u'' ''c'' (login_at 480 ''d'' g))"
  by (simp add: Let_def login_at_def getCreatedTokenOpennebula_def getDates_def demo_auth_def num_or_def initial_globals_def
      addUserSession_def removeUserSession_def validateUser_def ensureSessionStore_def store_def index_def tokens_of_def
      splice1_def numeral_2_eq_2)

text \<open>
  An x509 login does not ask for the whole distinguished name: any fragment of the name stored in a
  user's password, the empty one included, logs in as a user whose stored name contains it.
\<close>

theorem x509_accepts_fragments:
  assumes "callAsServerAdmin env ''userpool.info'' (getDefaultParamsOfOpennebulaCommand ''userpool.info'' ''GET'') s =
      (Inr (OneUsers pool), t)"
    and "u \<in> set pool" and "ui_AUTH_DRIVER u = ''x509''" and "ui_PASSWORD u = before @ fragment @ after"
    and "CHR '','' \<notin> set fragment"
  shows "\<exists>who. verifyUserExists env fragment token X509 s = (Inr who, t) \<and> who \<in> set pool \<and>
    ui_AUTH_DRIVER who = ''x509'' \<and> str_includes (ui_PASSWORD who) fragment"
proof -
  let ?P = "\<lambda>u. str_includes (ui_PASSWORD u) fragment \<and> ui_AUTH_DRIVER u = ''x509''"
  have "?P u" using assms(3,4) by (auto simp: str_includes_iff)
  then have "List.find ?P pool \<noteq> None" using assms(2) by (auto simp: find_None_iff)
  then obtain who where find: "List.find ?P pool = Some who" by auto
  then have "?P who" "who \<in> set pool" by (auto simp: find_Some_iff)
  then show ?thesis using assms(1,2,5) find
    by (auto simp: verifyUserExists_def parse_dn_def find_user_def fetchUserPool_def await_def areturn_def)
qed

definition x509_user :: user_info where
  "x509_user = (demo_user None)\<lparr>ui_PASSWORD := ''/CN=root/O=acme'', ui_AUTH_DRIVER := ''x509''\<rparr>"

definition x509_env :: auth_env where
  "x509_env = (demo_auth False None)\<lparr>ae_one := (\<lambda>c. Inr (OneUsers [x509_user]))\<rparr>"

theorem x509_accepts_fragments_witness:
  "\<exists>t. verifyUserExists x509_env [] [] X509 demo_state = (Inr x509_user, t)"
proof -
  have "\<exists>t. callAsServerAdmin x509_env ''userpool.info'' (getDefaultParamsOfOpennebulaCommand ''userpool.info'' ''GET'') demo_state
      = (Inr (OneUsers [x509_user]), t)"
    by (simp add: x509_env_def demo_run_simps demo_auth_def)
  then obtain t where "callAsServerAdmin x509_env ''userpool.info''
      (getDefaultParamsOfOpennebulaCommand ''userpool.info'' ''GET'') demo_state = (Inr (OneUsers [x509_user]), t)" ..
  from x509_accepts_fragments [OF this, of x509_user "''/CN=root/O=acme''" "[]" "[]" "[]"] show ?thesis
    by (auto simp: x509_user_def)
qed

text \<open>The wish to be remembered does not reach the session: \<open>login\<close> drops it.\<close>

lemma remember_is_dropped: "login env protocol (params\<lparr>lp_remember := b\<rparr>) = login env protocol params"
  by (simp add: login_def)

end
