(* ===== verification/Two_Factor.thy ===== *)
theory Two_Factor
  imports Auth_Security
begin

text \<open>
  Second factors of users who are logged in (\<open>server/routes/api/2fa/functions.js\<close>): setting one up, the QR code of
  a pending one, and deleting it.  The handlers run in the state of \<open>Auth\<close>; the response is the internal error
  until one of them sets another, and a deletion may never pass it on.
\<close>

definition defaultAnswer :: http_result where
  "defaultAnswer = httpResponse (Some internalServerError) JUndef [] []"

definition tfa_setup :: "auth_env \<Rightarrow> string \<Rightarrow> req_auth \<Rightarrow> auth_state \<Rightarrow> http_result \<times> auth_state" where
  "tfa_setup env token userData s =
     (let run = await (verifyUserExists env (ra_user userData) (ra_password userData) CORE) (\<lambda>verifiedUser s.
            if ui_ID verifiedUser = [] then athrow (ThrownJs TypeError) s
            else case pending2FA (glob s) (ui_ID verifiedUser) of
              None \<Rightarrow> athrow (ThrownJs TypeError) s
            | Some secret \<Rightarrow>
                if secret = [] \<or> \<not> validate2FA env secret token then athrow (ThrownJs TypeError) s
                else setup2FASecret env verifiedUser s)
      in case run s of
           (Inr _, s') \<Rightarrow> (httpResponse (Some ok) JUndef [] [], s')
         | (Inl _, s') \<Rightarrow> (defaultAnswer, s'))"

definition tfa_qr :: "auth_env \<Rightarrow> req_auth \<Rightarrow> auth_state \<Rightarrow> http_result \<times> auth_state" where
  "tfa_qr env userData s =
     (case await (verifyUserExists env (ra_user userData) (ra_password userData) CORE) (generateQr2FA env) s of
        (Inr img, s') \<Rightarrow> (httpResponse (Some ok) (JObj [(''img'', JStr img)]) [] [], s')
      | (Inl _, s') \<Rightarrow> (defaultAnswer, s'))"

definition getUserInfoAuthenticated :: "auth_env \<Rightarrow> string \<Rightarrow> string \<Rightarrow> one_value async" where
  "getUserInfoAuthenticated env user password =
     one_connect env \<lparr>oc_user = user, oc_pass = password, oc_action = ''user.info'',
       oc_params = getDefaultParamsOfOpennebulaCommand ''user.info'' ''GET''\<rparr>"

definition sunstone_wrapper :: "string \<times> string" where
  "sunstone_wrapper = (''SUNSTONE=['', '']'')"

definition secret_vars :: "string list" where
  "secret_vars = [default2FAOpennebulaTmpVar, default2FAOpennebulaVar]"

text \<open>The template that is written; nothing when the user has neither of the two.\<close>

definition deletion_template :: "user_info \<Rightarrow> string option" where
  "deletion_template u =
     (case ui_TEMPLATE u of
        None \<Rightarrow> None
      | Some t \<Rightarrow>
          if ut_FIREEDGE t \<noteq> None \<or> ut_SUNSTONE t \<noteq> None then
            (let newTemplate = generateNewResourceTemplate (the_default [] (ut_SUNSTONE t)) [] secret_vars sunstone_wrapper
             in case ut_FIREEDGE t of
                  Some fireedge \<Rightarrow> Some (generateNewResourceTemplate fireedge [] secret_vars fireedge_wrapper)
                | None \<Rightarrow> Some newTemplate)
          else None)"

text \<open>The response of a deletion, if it is passed on.\<close>

definition tfa_del :: "auth_env \<Rightarrow> req_auth \<Rightarrow> auth_state \<Rightarrow> http_result option \<times> auth_state" where
  "tfa_del env userData s =
     (if ra_user userData = [] \<or> ra_password userData = [] then (Some defaultAnswer, s)
      else case getUserInfoAuthenticated env (ra_user userData) (ra_password userData) s of
        (Inl _, s1) \<Rightarrow> (Some defaultAnswer, s1)
      | (Inr v, s1) \<Rightarrow>
          (case one_user v of
             None \<Rightarrow> (None, s1)
           | Some u \<Rightarrow>
               (case deletion_template u of
                  None \<Rightarrow> (None, s1)
                | Some newTemplate \<Rightarrow>
                    (case one_connect env \<lparr>oc_user = ra_user userData, oc_pass = ra_password userData, oc_action = ''user.update'',
                         oc_params = [case parse_int (ui_ID u) of Some n \<Rightarrow> JNum n | None \<Rightarrow> JUndef, JStr newTemplate, JNum 1]\<rparr> s1 of
                       (Inl _, s2) \<Rightarrow> (Some defaultAnswer, s2)
                     | (Inr pass, s2) \<Rightarrow>
                         (Some (if pass \<in> {OneOther JUndef, OneOther JNull} then defaultAnswer else httpResponse (Some ok) JUndef [] []), s2)))))"

section \<open>What is written\<close>

text \<open>The attributes without the secrets, and the template a user has once OpenNebula has put the vector that is
  written in place of the one it had.\<close>

definition without_secrets :: "(string \<times> string) list \<Rightarrow> (string \<times> string) list" where
  "without_secrets fs = filter (\<lambda>(k, v). k \<noteq> [] \<and> k \<notin> set secret_vars) fs"

definition template_after :: "user_template \<Rightarrow> user_template" where
  "template_after t =
     (case ut_FIREEDGE t of
        Some fs \<Rightarrow> t\<lparr>ut_FIREEDGE := Some (without_secrets fs)\<rparr>
      | None \<Rightarrow> t\<lparr>ut_SUNSTONE := Some (without_secrets (the_default [] (ut_SUNSTONE t)))\<rparr>)"

definition vector_text :: "string \<times> string \<Rightarrow> (string \<times> string) list \<Rightarrow> string" where
  "vector_text wrapper fs = fst wrapper @ js_join '', '' (map (\<lambda>(k, v). k @ ''='' @ v) fs) @ snd wrapper"

lemma removal_text: "generateNewResourceTemplate fs [] secret_vars w = vector_text w (without_secrets fs)"
  by (simp add: generateNewResourceTemplate_def vector_text_def without_secrets_def obj_spread_def)

lemma no_secret_left: "template_secret (Some (without_secrets fs)) = []"
proof -
  have "default2FAOpennebulaVar \<notin> fst ` set (without_secrets fs)"
    by (auto simp: without_secrets_def secret_vars_def)
  then show ?thesis by (simp add: template_secret_def map_of_eq_None_iff [THEN iffD2])
qed

lemma deletion_text:
  assumes "ui_TEMPLATE u = Some t" "ut_FIREEDGE t \<noteq> None \<or> ut_SUNSTONE t \<noteq> None"
  shows "deletion_template u = Some (case ut_FIREEDGE (template_after t) of
      Some fs \<Rightarrow> vector_text fireedge_wrapper fs
    | None \<Rightarrow> vector_text sunstone_wrapper (the_default [] (ut_SUNSTONE (template_after t))))"
  using assms by (auto simp: deletion_template_def template_after_def removal_text split: option.splits)

section \<open>Properties\<close>

text \<open>
  A second factor is set up only when it is proven: the set-up answers 200 only if OpenNebula knows the user
  under his token, the one-time password fits the secret that is pending for him, and that secret has been
  written to his template.
\<close>

theorem second_factor_setup_proven:
  assumes "tfa_setup env token a s = (httpResponse (Some ok) JUndef [] [], s')"
  shows "\<exists>u secret c tpl. ae_one env \<lparr>oc_user = ra_user a, oc_pass = ra_password a, oc_action = ''user.info'',
           oc_params = getDefaultParamsOfOpennebulaCommand ''user.info'' ''GET''\<rparr> = Inr (OneUser (Some u)) \<and>
    pending2FA (glob s) (ui_ID u) = Some secret \<and> ae_totp env secret token \<and> token \<noteq> [] \<and>
    c \<in> set (calls s') \<and> oc_action c = ''user.update'' \<and>
    oc_params c ! 1 = JStr (generateNewResourceTemplate tpl [(default2FAOpennebulaVar, secret)] [default2FAOpennebulaTmpVar] fireedge_wrapper)"
proof -
  have codes: "httpResponse (Some ok) JUndef [] [] \<noteq> defaultAnswer"
    by (simp add: defaultAnswer_def httpResponse_def of_code_def ok_def internalServerError_def)
  let ?then = "\<lambda>verifiedUser s. if ui_ID verifiedUser = [] then athrow (ThrownJs TypeError) s
            else case pending2FA (glob s) (ui_ID verifiedUser) of
              None \<Rightarrow> athrow (ThrownJs TypeError) s
            | Some secret \<Rightarrow>
                if secret = [] \<or> \<not> validate2FA env secret token then athrow (ThrownJs TypeError) s
                else setup2FASecret env verifiedUser s"
  obtain u s1 where u: "verifyUserExists env (ra_user a) (ra_password a) CORE s = (Inr u, s1)" "?then u s1 = (Inr (), s')"
    using assms codes by (auto simp: tfa_setup_def await_def Let_def split: prod.splits sum.splits)
  note core = core_user [OF u(1)]
  obtain secret where p: "pending2FA (glob s1) (ui_ID u) = Some secret" "validate2FA env secret token" "setup2FASecret env u s1 = (Inr (), s')"
    using u(2) by (auto simp: athrow_def split: if_splits option.splits)
  have totp: "ae_totp env secret token" "token \<noteq> []" using p(2) by (auto simp: validate2FA_def split: if_splits)
  from p(3) show ?thesis
  proof (rule setup2FASecret_calls)
    fix secret' tpl c
    assume "pending2FA (glob s1) (ui_ID u) = Some secret'" "c \<in> set (calls s')" "oc_action c = ''user.update''"
      "oc_params c = [case parse_int (ui_ID u) of Some n \<Rightarrow> JNum n | None \<Rightarrow> JUndef,
           JStr (generateNewResourceTemplate (case ut_FIREEDGE tpl of Some fs \<Rightarrow> fs | None \<Rightarrow> [])
             [(default2FAOpennebulaVar, secret')] [default2FAOpennebulaTmpVar] fireedge_wrapper), JNum 1]"
    then show ?thesis using core p(1) totp
      by (intro exI [of _ u] exI [of _ secret] exI [of _ c] exI [of _ "case ut_FIREEDGE tpl of Some fs \<Rightarrow> fs | None \<Rightarrow> []"] conjI) simp_all
  qed
qed

text \<open>
  C33. Deleting a second factor deletes it from one of two places: the vector that is written has no secret, but
  when the user has both the FIREEDGE and the SUNSTONE vector only the former is written, and a secret in the
  latter, where a login looks first, stays in force.
\<close>

theorem second_factor_deletion:
  assumes "ra_user a \<noteq> []" "ra_password a \<noteq> []"
    "ae_one env \<lparr>oc_user = ra_user a, oc_pass = ra_password a, oc_action = ''user.info'',
       oc_params = getDefaultParamsOfOpennebulaCommand ''user.info'' ''GET''\<rparr> = Inr (OneUser (Some u))"
    "ui_TEMPLATE u = Some t" "ut_FIREEDGE t \<noteq> None \<or> ut_SUNSTONE t \<noteq> None"
    "\<forall>c. oc_action c = ''user.update'' \<longrightarrow> (\<exists>v. ae_one env c = Inr v \<and> v \<notin> {OneOther JUndef, OneOther JNull})"
  shows "\<exists>c s'. tfa_del env a s = (Some (httpResponse (Some ok) JUndef [] []), s') \<and> c = last (calls s') \<and>
    oc_params c ! 1 = JStr (case ut_FIREEDGE (template_after t) of
        Some fs \<Rightarrow> vector_text fireedge_wrapper fs
      | None \<Rightarrow> vector_text sunstone_wrapper (the_default [] (ut_SUNSTONE (template_after t)))) \<and>
    mfa_secret (u\<lparr>ui_TEMPLATE := Some (template_after t)\<rparr>) = (if ut_FIREEDGE t \<noteq> None then template_secret (ut_SUNSTONE t) else [])"
proof -
  have "mfa_secret (u\<lparr>ui_TEMPLATE := Some (template_after t)\<rparr>) = (if ut_FIREEDGE t \<noteq> None then template_secret (ut_SUNSTONE t) else [])"
    by (auto simp: mfa_secret_def template_after_def no_secret_left template_secret_def [of None] split: option.splits)
  moreover define c where "c = \<lparr>oc_user = ra_user a, oc_pass = ra_password a, oc_action = ''user.update'',
      oc_params = [case parse_int (ui_ID u) of Some n \<Rightarrow> JNum n | None \<Rightarrow> JUndef, JStr (the (deletion_template u)), JNum 1]\<rparr>"
  moreover obtain v where "ae_one env c = Inr v" "v \<notin> {OneOther JUndef, OneOther JNull}" using assms(6) c_def by force
  ultimately show ?thesis
    using assms(1-3) deletion_text [OF assms(4,5)]
    by (simp add: tfa_del_def getUserInfoAuthenticated_def one_connect_def one_user_def)
qed

definition two_places :: user_template where
  "two_places = \<lparr>ut_SUNSTONE = Some [(default2FAOpennebulaVar, ''old'')], ut_FIREEDGE = Some [(''LANG'', ''en''), (default2FAOpennebulaVar, ''new'')]\<rparr>"

definition two_places_env :: auth_env where
  "two_places_env = (demo_auth False None)\<lparr>ae_one := (\<lambda>c. Inr (if oc_action c = ''user.update'' then OneOther (JNum 3)
     else OneUser (Some \<lparr>ui_ID = ''3'', ui_NAME = ''bob'', ui_PASSWORD = ''p'', ui_AUTH_DRIVER = ''core'', ui_TEMPLATE = Some two_places\<rparr>)))\<rparr>"

theorem second_factor_deletion_witness:
  "mfa_secret (\<lparr>ui_ID = ''3'', ui_NAME = ''bob'', ui_PASSWORD = ''p'', ui_AUTH_DRIVER = ''core'', ui_TEMPLATE = Some two_places\<rparr>
     \<lparr>ui_TEMPLATE := Some (template_after two_places)\<rparr>) = ''old''"
proof -
  have "template_secret (ut_SUNSTONE two_places) = ''old''" by (simp add: template_secret_def two_places_def)
  then show ?thesis
    using second_factor_deletion [of "\<lparr>ra_id = ''3'', ra_user = ''bob'', ra_password = ''t''\<rparr>" two_places_env
      "\<lparr>ui_ID = ''3'', ui_NAME = ''bob'', ui_PASSWORD = ''p'', ui_AUTH_DRIVER = ''core'', ui_TEMPLATE = Some two_places\<rparr>" two_places demo_state]
    by (auto simp: two_places_env_def two_places_def)
qed

text \<open>A user without either vector gets no answer.\<close>

lemma deletion_unanswered:
  assumes "ra_user a \<noteq> []" "ra_password a \<noteq> []"
    "ae_one env \<lparr>oc_user = ra_user a, oc_pass = ra_password a, oc_action = ''user.info'',
       oc_params = getDefaultParamsOfOpennebulaCommand ''user.info'' ''GET''\<rparr> = Inr (OneUser (Some u))"
    "ui_TEMPLATE u = Some \<lparr>ut_SUNSTONE = None, ut_FIREEDGE = None\<rparr>"
  shows "fst (tfa_del env a s) = None"
  using assms by (simp add: tfa_del_def getUserInfoAuthenticated_def one_connect_def one_user_def deletion_template_def)

end
