(* ===== verification/Acl.thy ===== *)
theory Acl
  imports Js_Prelude
begin

text \<open>
  Access control rules: \<open>modules/constants/acl.js\<close>, \<open>modules/models/ACL.js\<close> and
  \<open>modules/utils/parser/parseACL.js\<close>.  A form is turned into a rule string, the string is checked,
  translated into four hexadecimal numbers for the API, taken apart into a readable object and put
  into words.

  A JavaScript number is an integer, \<open>NaN\<close> or \<open>undefined\<close>; identifiers are taken below \<open>2 ^ 53\<close>,
  where the code's numbers are exact.  Object lookups see the object's own keys.
\<close>

section \<open>Constants\<close>

definition ACL_ID :: "(char \<times> int) list" where
  "ACL_ID = [(CHR ''#'', 0x100000000), (CHR ''@'', 0x200000000), (CHR ''*'', 0x400000000), (CHR ''%'', 0x800000000)]"

record acl_user_type =
  au_type :: string
  au_id :: char
  au_value :: int

definition ACL_USERS :: "acl_user_type list" where
  "ACL_USERS =
     [\<lparr>au_type = ''USER'', au_id = CHR ''#'', au_value = 0x100000000\<rparr>,
      \<lparr>au_type = ''GROUP'', au_id = CHR ''@'', au_value = 0x200000000\<rparr>,
      \<lparr>au_type = ''ALL'', au_id = CHR ''*'', au_value = 0x400000000\<rparr>,
      \<lparr>au_type = ''CLUSTER'', au_id = CHR ''%'', au_value = 0x800000000\<rparr>]"

definition ACL_RESOURCES :: "(string \<times> int) list" where
  "ACL_RESOURCES =
     [(''VM'', 0x1000000000), (''HOST'', 0x2000000000), (''NET'', 0x4000000000), (''IMAGE'', 0x8000000000),
      (''USER'', 0x10000000000), (''TEMPLATE'', 0x20000000000), (''GROUP'', 0x40000000000),
      (''DATASTORE'', 0x100000000000), (''CLUSTER'', 0x200000000000), (''DOCUMENT'', 0x400000000000),
      (''ZONE'', 0x800000000000), (''SECGROUP'', 0x1000000000000), (''VDC'', 0x2000000000000),
      (''VROUTER'', 0x4000000000000), (''MARKETPLACE'', 0x8000000000000), (''MARKETPLACEAPP'', 0x10000000000000),
      (''VMGROUP'', 0x20000000000000), (''VNTEMPLATE'', 0x40000000000000), (''BACKUPJOB'', 0x100000000000000)]"

definition ACL_RIGHTS :: "(string \<times> int) list" where
  "ACL_RIGHTS = [(''USE'', 0x1), (''MANAGE'', 0x2), (''ADMIN'', 0x4), (''CREATE'', 0x8)]"

section \<open>From the form to the rule\<close>

text \<open>An empty type is an absent one.\<close>

record acl_form =
  af_userType :: string
  af_userId :: "string option"
  af_resources :: "string list option"
  af_resourcesIdType :: string
  af_resourcesId :: "string option"
  af_rights :: "string list option"
  af_zoneType :: string
  af_zoneId :: "string option"

text \<open>\<open>s += x\<close> in a \<open>forEach\<close>, the last element closed by another separator.\<close>

fun join_end :: "string \<Rightarrow> string \<Rightarrow> string list \<Rightarrow> string" where
  "join_end sep stop [] = []"
| "join_end sep stop [x] = x @ stop"
| "join_end sep stop (x # y # xs) = x @ sep @ join_end sep stop (y # xs)"

definition createStringACL :: "acl_form \<Rightarrow> string js" where
  "createStringACL f =
     (let userString =
            (if af_userType f = ''*'' then af_userType f
             else if af_userType f = ''#'' \<or> af_userType f = ''@'' then af_userType f @ the_default [] (af_userId f)
             else []);
          resourcesList = (case af_resources f of None \<Rightarrow> [] | Some rs \<Rightarrow> join_end ''+'' ''/'' rs);
          resourcesString = resourcesList @
            (if af_resourcesIdType f = ''*'' then af_resourcesIdType f
             else if af_resourcesIdType f = ''#'' \<or> af_resourcesIdType f = ''@'' \<or> af_resourcesIdType f = ''%''
             then af_resourcesIdType f @ the_default [] (af_resourcesId f)
             else []);
          zoneString = (if af_zoneType f \<noteq> [] then af_zoneType f @ the_default [] (af_zoneId f) else [])
      in rbind
           (case af_rights f of
              None \<Rightarrow> Inr []
            | Some rs \<Rightarrow> rmap (\<lambda>r. if r \<in> fst ` set ACL_RIGHTS then Inr r else Inl TypeError) rs)
           (\<lambda>rights. Inr (userString @ '' '' @ resourcesString @ '' '' @ join_end ''+'' [] rights @
                          (if zoneString \<noteq> [] then '' '' @ zoneString else []))))"

section \<open>From the rule to the API\<close>

datatype js_number = Undefined | NaN | Number int

fun plus_number :: "js_number \<Rightarrow> int option \<Rightarrow> js_number" where
  "plus_number (Number a) (Some b) = Number (a + b)"
| "plus_number _ _ = NaN"

definition calculateIds :: "string option \<Rightarrow> js_number js" where
  "calculateIds i =
     (case i of
        None \<Rightarrow> Inl TypeError
      | Some [] \<Rightarrow> Inr Undefined
      | Some (c # r) \<Rightarrow>
          (let idValue = (case map_of ACL_ID c of Some v \<Rightarrow> Number v | None \<Rightarrow> Undefined)
           in Inr (if r \<noteq> [] then plus_number idValue (parse_int_auto r) else idValue)))"

text \<open>\<open>toString(16)\<close>.\<close>

definition show_hex :: "int \<Rightarrow> string" where
  "show_hex n = (if n < 0 then CHR ''-'' # to_base 16 (nat (- n)) else to_base 16 (nat n))"

fun number_hex :: "js_number \<Rightarrow> string js" where
  "number_hex Undefined = Inl TypeError"
| "number_hex NaN = Inr ''NaN''"
| "number_hex (Number n) = Inr (show_hex n)"

definition parseUser :: "string option \<Rightarrow> string js" where
  "parseUser s = rbind (calculateIds s) number_hex"

definition parseZone :: "string option \<Rightarrow> string js" where
  "parseZone s = rbind (calculateIds s) number_hex"

fun number_bigint :: "js_number \<Rightarrow> int js" where
  "number_bigint Undefined = Inl TypeError"
| "number_bigint NaN = Inl RangeError"
| "number_bigint (Number n) = Inr n"

definition table_value :: "(string \<times> int) list \<Rightarrow> string \<Rightarrow> int js" where
  "table_value t k = (case map_of t k of Some v \<Rightarrow> Inr v | None \<Rightarrow> Inl TypeError)"

definition parseResources :: "string option \<Rightarrow> string js" where
  "parseResources s =
     (case s of
        None \<Rightarrow> Inl TypeError
      | Some resourceString \<Rightarrow>
          (let components = js_split (CHR ''/'') resourceString;
               resources = hd components;
               user = (case components of _ # u # _ \<Rightarrow> Some u | _ \<Rightarrow> None)
           in rbind (rmap (table_value ACL_RESOURCES) (js_split (CHR ''+'') resources)) (\<lambda>values.
                rbind (calculateIds user) (\<lambda>n.
                  rbind (number_bigint n) (\<lambda>ident. Inr (show_hex (sum_list values + ident)))))))"

definition parseRights :: "string option \<Rightarrow> string js" where
  "parseRights s =
     (case s of
        None \<Rightarrow> Inl TypeError
      | Some rightsString \<Rightarrow>
          rbind (rmap (table_value ACL_RIGHTS) (js_split (CHR ''+'') rightsString)) (\<lambda>values.
            Inr (show_hex (sum_list values))))"

definition component :: "string list \<Rightarrow> nat \<Rightarrow> string option" where
  "component parts i = (if i < length parts then Some (parts ! i) else None)"

definition parseAcl :: "string \<Rightarrow> string list js" where
  "parseAcl rule =
     (let ruleComponents = js_split (CHR '' '') rule
      in rbind (parseUser (component ruleComponents 0)) (\<lambda>u.
           rbind (parseResources (component ruleComponents 1)) (\<lambda>r.
             rbind (parseRights (component ruleComponents 2)) (\<lambda>g.
               if length ruleComponents > 3
               then rbind (parseZone (component ruleComponents 3)) (\<lambda>z. Inr [u, r, g, z])
               else Inr [u, r, g]))))"

record acl_object =
  ao_user :: string
  ao_resource :: string
  ao_right :: string
  ao_zone :: "string option"

definition createAclObject :: "string \<Rightarrow> string \<Rightarrow> string \<Rightarrow> string \<Rightarrow> acl_object" where
  "createAclObject user resource rights zone =
     \<lparr>ao_user = user, ao_resource = resource, ao_right = rights,
      ao_zone = (if zone \<noteq> [] then Some zone else None)\<rparr>"

definition createAclObjectFromString :: "string \<Rightarrow> acl_object js" where
  "createAclObjectFromString rule =
     rbind (parseAcl rule) (\<lambda>ret.
       Inr \<lparr>ao_user = ret ! 0, ao_resource = ret ! 1, ao_right = ret ! 2,
            ao_zone = (if length ret = 4 then Some (ret ! 3) else None)\<rparr>)"

section \<open>Checking a rule\<close>

text \<open>
  The expression of \<open>validACL\<close>: the four components contain no blanks, so a rule matches when its
  pieces between single blanks do.
\<close>

fun split_blank :: "string \<Rightarrow> string list" where
  "split_blank [] = [[]]"
| "split_blank (x # xs) =
     (if is_space x then [] # split_blank xs
      else case split_blank xs of [] \<Rightarrow> [[x]] | w # ws \<Rightarrow> (x # w) # ws)"

definition id_matches :: "char list \<Rightarrow> string \<Rightarrow> bool" where
  "id_matches marks s \<longleftrightarrow>
     s = ''*'' \<or> (case s of c # r \<Rightarrow> c \<in> set marks \<and> r \<noteq> [] \<and> list_all is_digit r | [] \<Rightarrow> False)"

definition list_matches :: "string list \<Rightarrow> string \<Rightarrow> bool" where
  "list_matches names s = list_all (\<lambda>x. x \<in> set names) (js_split (CHR ''+'') s)"

definition resources_match :: "string \<Rightarrow> bool" where
  "resources_match s =
     (case js_split (CHR ''/'') s of
        [names, ident] \<Rightarrow> list_matches (map fst ACL_RESOURCES) names \<and> id_matches [CHR ''#'', CHR ''@'', CHR ''%''] ident
      | _ \<Rightarrow> False)"

definition validACL :: "string \<Rightarrow> bool" where
  "validACL rule =
     (case split_blank rule of
        [u, r, g] \<Rightarrow> id_matches [CHR ''#'', CHR ''@''] u \<and> resources_match r \<and> list_matches (map fst ACL_RIGHTS) g
      | [u, r, g, z] \<Rightarrow> id_matches [CHR ''#'', CHR ''@''] u \<and> resources_match r \<and> list_matches (map fst ACL_RIGHTS) g \<and>
          id_matches [CHR ''#''] z
      | _ \<Rightarrow> False)"

section \<open>Reading a rule\<close>

record acl_part =
  ap_type :: "string option"
  ap_id :: "string option"
  ap_string :: "string option"
  ap_name :: "string option"

record acl_resource =
  ar_resources :: "string list"
  ar_identifier :: acl_part
  ar_string :: "string list"

record acl_rule =
  acl_STRING :: string
  acl_USER :: "acl_part option"
  acl_RESOURCE :: "acl_resource option"
  acl_RIGHTS :: "(string list \<times> string) option"
  acl_ZONE :: "acl_part option"

type_synonym names = "(string \<times> string) list option"

text \<open>\<open>_.find(ACL_USERS, { id: s.charAt(0) })?.type\<close>, and the identifier after the mark.\<close>

definition type_of :: "string \<Rightarrow> string option" where
  "type_of s = (case s of [] \<Rightarrow> None | c # _ \<Rightarrow> map_option au_type (List.find (\<lambda>t. au_id t = c) ACL_USERS))"

definition ident_of :: "string \<Rightarrow> string option" where
  "ident_of s = (if length s > 1 then Some (tl s) else None)"

definition name_in :: "names \<Rightarrow> string option \<Rightarrow> string option" where
  "name_in ns i = (case (ns, i) of (Some l, Some k) \<Rightarrow> map_of l k | _ \<Rightarrow> None)"

definition user_part :: "string \<Rightarrow> names \<Rightarrow> names \<Rightarrow> acl_part option" where
  "user_part u users groups =
     (if u = [] then None
      else Some \<lparr>ap_type = type_of u, ap_id = ident_of u, ap_string = Some u,
        ap_name = (if type_of u = Some ''USER'' \<and> users \<noteq> None then name_in users (ident_of u)
                   else if type_of u = Some ''GROUP'' \<and> groups \<noteq> None then name_in groups (ident_of u) else None)\<rparr>)"

definition resource_part :: "string \<Rightarrow> names \<Rightarrow> names \<Rightarrow> acl_resource option" where
  "resource_part s groups clusters =
     (if s = [] then None
      else (let comps = js_split (CHR ''/'') s;
                resources = js_split (CHR ''+'') (hd comps);
                ident = component comps 1;
                rtype = (case ident of None \<Rightarrow> None | Some i \<Rightarrow> type_of i);
                rid = (case ident of None \<Rightarrow> None | Some i \<Rightarrow> ident_of i)
            in Some \<lparr>ar_resources = resources,
                 ar_identifier = \<lparr>ap_type = rtype, ap_id = rid, ap_string = ident,
                   ap_name = (if rtype = Some ''GROUP'' \<and> groups \<noteq> None then name_in groups rid
                              else if rtype = Some ''CLUSTER'' \<and> clusters \<noteq> None then name_in clusters rid else None)\<rparr>,
                 ar_string = comps\<rparr>))"

definition rights_part :: "string \<Rightarrow> (string list \<times> string) option" where
  "rights_part g = (if g = [] then None else Some (js_split (CHR ''+'') g, g))"

definition zone_part :: "string \<Rightarrow> names \<Rightarrow> acl_part option js" where
  "zone_part z zones =
     (if z = [] then Inr None
      else case type_of z of
        None \<Rightarrow> Inl TypeError
      | Some t \<Rightarrow> Inr (Some \<lparr>ap_type = Some t, ap_id = ident_of z, ap_string = Some z,
          ap_name = (if t = ''USER'' \<and> zones \<noteq> None then name_in zones (ident_of z) else None)\<rparr>))"

definition aclFromString :: "string \<Rightarrow> names \<Rightarrow> names \<Rightarrow> names \<Rightarrow> names \<Rightarrow> acl_rule js" where
  "aclFromString rule users groups clusters zones =
     (let aclComponents = js_split (CHR '' '') rule;
          part = (\<lambda>i. the_default [] (component aclComponents i))
      in rbind (zone_part (part 3) zones) (\<lambda>zone.
           Inr \<lparr>acl_STRING = rule, acl_USER = user_part (part 0) users groups,
                acl_RESOURCE = resource_part (part 1) groups clusters, acl_RIGHTS = rights_part (part 2),
                acl_ZONE = zone\<rparr>))"

section \<open>A rule in words\<close>

definition parenthesised :: "string option \<Rightarrow> string \<Rightarrow> string \<Rightarrow> string" where
  "parenthesised n l r = (case n of Some m \<Rightarrow> if m \<noteq> [] then l @ m @ r else [] | None \<Rightarrow> [])"

definition translateACL :: "string \<Rightarrow> names \<Rightarrow> names \<Rightarrow> names \<Rightarrow> names \<Rightarrow> string js" where
  "translateACL rule users groups clusters zones =
     rbind (aclFromString rule users groups clusters zones) (\<lambda>acl.
       let userInfo = (case acl_USER acl of
             None \<Rightarrow> []
           | Some u \<Rightarrow>
               (case (ap_type u, ap_id u) of
                  (Some t, Some i) \<Rightarrow>
                    if t = ''USER'' \<and> i \<noteq> [] then ''allow user with id '' @ i @ '' '' @ parenthesised (ap_name u) '' ('' '') ''
                    else if t = ''GROUP'' \<and> i \<noteq> []
                    then ''allows users in the group '' @ i @ '' '' @ parenthesised (ap_name u) '' ('' '') ''
                    else if t = ''ALL'' then ''allows all users '' else []
                | (Some t, None) \<Rightarrow> if t = ''ALL'' then ''allows all users '' else []
                | _ \<Rightarrow> []));
           rights = (case acl_RIGHTS acl of None \<Rightarrow> [] | Some (rs, _) \<Rightarrow> rs);
           rightsInfo = join_end '' and '' [] rights @ (if length rights > 1 then '' operations '' else '' operation '');
           ident = map_option ar_identifier (acl_RESOURCE acl);
           itype = (case ident of None \<Rightarrow> None | Some p \<Rightarrow> ap_type p);
           iid = (case ident of None \<Rightarrow> [] | Some p \<Rightarrow> the_default [] (ap_id p));
           iname = (case ident of None \<Rightarrow> None | Some p \<Rightarrow> ap_name p);
           over = (if itype = Some ''USER'' then ''over all '' else ''over '');
           resources = (case acl_RESOURCE acl of None \<Rightarrow> [] | Some r \<Rightarrow> join_end '' and '' [] (ar_resources r));
           identInfo = (if itype = Some ''USER'' \<and> iid \<noteq> [] then '' with identifier '' @ iid
             else if itype = Some ''GROUP'' \<and> iid \<noteq> [] then '' in the group '' @ iid @ parenthesised iname '' ('' '')''
             else if itype = Some ''CLUSTER'' \<and> iid \<noteq> [] then '' in the cluster '' @ iid @ parenthesised iname '' ('' '')''
             else []);
           zoneInfo = (case acl_ZONE acl of
             None \<Rightarrow> []
           | Some z \<Rightarrow>
               if ap_type z = Some ''USER'' then '' in the zone '' @
                 (case ap_id z of Some i \<Rightarrow> i | None \<Rightarrow> ''undefined'') @ parenthesised (ap_name z) '' ('' '')''
               else if ap_type z = Some ''ALL'' then '' in all zones'' else [])
       in Inr (''Rule '' @ userInfo @ ''the right to perform '' @ rightsInfo @ over @ resources @ identInfo @ zoneInfo))"

section \<open>Sums of distinct powers of two\<close>

lemma bit_sum_powers:
  fixes A :: "nat set"
  assumes "finite A"
  shows "bit (\<Sum>a\<in>A. 2 ^ a :: nat) n \<longleftrightarrow> n \<in> A"
  using assms
proof (induction A arbitrary: n)
  case empty
  show ?case by simp
next
  case (insert x A)
  let ?s = "\<Sum>a\<in>A. 2 ^ a :: nat"
  have "\<not> bit (2 ^ x :: nat) k \<or> \<not> bit ?s k" for k
    using insert.IH insert.hyps(2) by (auto simp: bit_exp_iff)
  then have "2 ^ x + ?s = or (2 ^ x) ?s" by (rule disjunctive_add)
  then show ?case using insert by (auto simp: bit_or_iff bit_exp_iff)
qed

lemma bit_low_small: "(low :: nat) < 2 ^ m \<Longrightarrow> m \<le> n \<Longrightarrow> \<not> bit low n"
  by (metis bit_take_bit_iff leD take_bit_nat_eq_self_iff)

lemma bit_sum_powers_low:
  fixes A :: "nat set" and low :: nat
  assumes "finite A" and "\<forall>a \<in> A. m \<le> a" and "low < 2 ^ m" and "m \<le> n"
  shows "odd (((\<Sum>a\<in>A. 2 ^ a) + low) div 2 ^ n) \<longleftrightarrow> n \<in> A"
proof -
  let ?s = "\<Sum>a\<in>A. 2 ^ a :: nat"
  have "\<not> bit ?s k \<or> \<not> bit low k" for k
    using bit_sum_powers [OF assms(1)] assms(2) bit_low_small [OF assms(3)] by auto
  then have "?s + low = or ?s low" by (rule disjunctive_add)
  then have "bit (?s + low) n \<longleftrightarrow> n \<in> A"
    using bit_low_small [OF assms(3,4)] by (simp add: bit_or_iff bit_sum_powers [OF assms(1)])
  then show ?thesis by (simp add: bit_iff_odd)
qed

lemma sum_powers_mod:
  fixes A :: "nat set" and low :: nat
  assumes "finite A" and "\<forall>a \<in> A. m \<le> a" and "low < 2 ^ m"
  shows "((\<Sum>a\<in>A. 2 ^ a) + low) mod 2 ^ m = low"
proof -
  have "2 ^ m dvd (\<Sum>a\<in>A. 2 ^ a :: nat)"
    using assms(2) by (intro dvd_sum) (auto intro: le_imp_power_dvd)
  then show ?thesis using assms(3) by (auto elim!: dvdE)
qed

section \<open>Rules as joined strings\<close>

lemma join_end_js_join: "xs \<noteq> [] \<Longrightarrow> join_end sep stop xs = js_join sep xs @ stop"
  by (induction sep stop xs rule: join_end.induct) auto

lemma split_blank_single: "list_all (\<lambda>c. \<not> is_space c) w \<Longrightarrow> split_blank w = [w]"
  by (induction w) auto

lemma split_blank_append:
  "list_all (\<lambda>c. \<not> is_space c) w \<Longrightarrow> split_blank (w @ CHR '' '' # s) = w # split_blank s"
  by (induction w) (auto simp: is_space_def)

lemma split_blank_join:
  "ws \<noteq> [] \<Longrightarrow> list_all (list_all (\<lambda>c. \<not> is_space c)) ws \<Longrightarrow> split_blank (js_join '' '' ws) = ws"
proof (induction "'' ''" ws rule: js_join.induct)
  case (3 w v ws)
  then show ?case by (simp add: split_blank_append)
qed (auto simp: split_blank_single)

lemma split_blank_spaces:
  "list_all (\<lambda>c. is_space c \<longrightarrow> c = CHR '' '') s \<Longrightarrow> split_blank s = js_split (CHR '' '') s"
proof (induction s)
  case (Cons x s)
  then have "is_space x \<longleftrightarrow> x = CHR '' ''" by (auto simp: is_space_def)
  with Cons show ?case by simp
qed simp

section \<open>Complete forms\<close>

definition id_field_ok :: "char list \<Rightarrow> string \<Rightarrow> string option \<Rightarrow> bool" where
  "id_field_ok marks t i \<longleftrightarrow> t = ''*'' \<or>
     (case (t, i) of ([c], Some d) \<Rightarrow> c \<in> set marks \<and> d \<noteq> [] \<and> list_all is_digit d | _ \<Rightarrow> False)"

definition form_ok :: "acl_form \<Rightarrow> bool" where
  "form_ok f \<longleftrightarrow>
     id_field_ok [CHR ''#'', CHR ''@''] (af_userType f) (af_userId f) \<and>
     id_field_ok [CHR ''#'', CHR ''@'', CHR ''%''] (af_resourcesIdType f) (af_resourcesId f) \<and>
     (case af_resources f of Some rs \<Rightarrow> rs \<noteq> [] \<and> list_all (\<lambda>r. r \<in> set (map fst ACL_RESOURCES)) rs | None \<Rightarrow> False) \<and>
     (case af_rights f of Some gs \<Rightarrow> gs \<noteq> [] \<and> list_all (\<lambda>g. g \<in> set (map fst ACL_RIGHTS)) gs | None \<Rightarrow> False) \<and>
     (af_zoneType f = [] \<or> af_zoneType f = ''*'' \<and> af_zoneId f = None \<or>
      af_zoneType f = ''#'' \<and> id_field_ok [CHR ''#''] (af_zoneType f) (af_zoneId f))"

text \<open>What an identifier stands for, and the four strings of a rule.\<close>

definition id_string :: "string \<Rightarrow> string option \<Rightarrow> string" where
  "id_string t i = (if t = ''*'' then t else t @ the_default [] i)"

definition id_number :: "string \<Rightarrow> string option \<Rightarrow> int" where
  "id_number t i = the_default 0 (map_of ACL_ID (hd t)) + (if t = ''*'' then 0 else int (digits_val (the_default [] i)))"

definition rule_parts :: "acl_form \<Rightarrow> string list" where
  "rule_parts f =
     [id_string (af_userType f) (af_userId f),
      js_join ''+'' (the_default [] (af_resources f)) @ ''/'' @ id_string (af_resourcesIdType f) (af_resourcesId f),
      js_join ''+'' (the_default [] (af_rights f))] @
     (if af_zoneType f = [] then [] else [id_string (af_zoneType f) (af_zoneId f)])"

definition plain_char :: "char \<Rightarrow> bool" where
  "plain_char c \<longleftrightarrow> \<not> is_space c \<and> c \<noteq> CHR ''+'' \<and> c \<noteq> CHR ''/''"

lemma acl_names_plain:
  "r \<in> set (map fst ACL_RESOURCES) \<Longrightarrow> list_all plain_char r"
  "g \<in> set (map fst ACL_RIGHTS) \<Longrightarrow> list_all plain_char g"
  by (auto simp: ACL_RESOURCES_def ACL_RIGHTS_def plain_char_def is_space_def)

lemma digits_plain: "list_all is_digit d \<Longrightarrow> list_all plain_char d"
  by (auto simp: list_all_iff plain_char_def is_digit_def is_space_def Let_def)

lemma id_string_plain:
  "id_field_ok marks t i \<Longrightarrow> set marks \<subseteq> {CHR ''#'', CHR ''@'', CHR ''%''} \<Longrightarrow> list_all plain_char (id_string t i)"
  by (auto simp: id_field_ok_def id_string_def plain_char_def is_space_def dest: digits_plain split: list.splits option.splits)

lemma id_string_matches: "id_field_ok marks t i \<Longrightarrow> id_matches marks (id_string t i)"
  by (auto simp: id_field_ok_def id_string_def id_matches_def split: list.splits option.splits)

lemma calculateIds_id_string:
  "id_field_ok marks t i \<Longrightarrow> set marks \<subseteq> {CHR ''#'', CHR ''@'', CHR ''%''} \<Longrightarrow>
     calculateIds (Some (id_string t i)) = Inr (Number (id_number t i))"
  by (auto simp: id_field_ok_def id_string_def id_number_def calculateIds_def ACL_ID_def parse_int_auto_digits
      split: list.splits option.splits if_splits)

lemma id_number_bounds:
  assumes "id_field_ok marks t i" and "set marks \<subseteq> {CHR ''#'', CHR ''@'', CHR ''%''}"
    and "digits_val (the_default [] i) < 2 ^ 32"
  shows "0 \<le> id_number t i" and "id_number t i < 2 ^ 36"
  using assms by (auto simp: id_field_ok_def id_number_def ACL_ID_def split: list.splits option.splits if_splits)

lemma form_okD:
  assumes "form_ok f"
  obtains rs gs where "af_resources f = Some rs" and "rs \<noteq> []" and "list_all (\<lambda>r. r \<in> set (map fst ACL_RESOURCES)) rs"
    and "af_rights f = Some gs" and "gs \<noteq> []" and "list_all (\<lambda>g. g \<in> set (map fst ACL_RIGHTS)) gs"
    and "id_field_ok [CHR ''#'', CHR ''@''] (af_userType f) (af_userId f)"
    and "id_field_ok [CHR ''#'', CHR ''@'', CHR ''%''] (af_resourcesIdType f) (af_resourcesId f)"
    and "af_zoneType f \<noteq> [] \<Longrightarrow> id_field_ok [CHR ''#''] (af_zoneType f) (af_zoneId f)"
  using assms unfolding form_ok_def
  by (cases "af_resources f"; cases "af_rights f") (auto simp: id_field_ok_def)

lemma id_field_type:
  "id_field_ok marks t i \<Longrightarrow> t = ''*'' \<or> (\<exists>c \<in> set marks. t = [c])"
  by (auto simp: id_field_ok_def split: list.splits option.splits)

lemma createStringACL_parts:
  assumes "form_ok f"
  shows "createStringACL f = Inr (js_join '' '' (rule_parts f))"
proof (rule form_okD [OF assms])
  fix rs gs
  assume rs: "af_resources f = Some rs" "rs \<noteq> []" and gs: "af_rights f = Some gs" "gs \<noteq> []"
    and gok: "list_all (\<lambda>g. g \<in> set (map fst ACL_RIGHTS)) gs"
    and u: "id_field_ok [CHR ''#'', CHR ''@''] (af_userType f) (af_userId f)"
    and i: "id_field_ok [CHR ''#'', CHR ''@'', CHR ''%''] (af_resourcesIdType f) (af_resourcesId f)"
  have rights: "rmap (\<lambda>r. if r \<in> fst ` set ACL_RIGHTS then Inr r else Inl TypeError) gs = Inr gs"
    using gok by (intro rmap_total [of gs _ "\<lambda>r. r", simplified]) (auto simp: list_all_iff)
  have zone: "af_zoneType f @ the_default [] (af_zoneId f) = id_string (af_zoneType f) (af_zoneId f)"
    using assms by (auto simp: form_ok_def id_string_def)
  have user: "(if af_userType f = ''*'' then af_userType f
             else if af_userType f = ''#'' \<or> af_userType f = ''@'' then af_userType f @ the_default [] (af_userId f)
             else []) = id_string (af_userType f) (af_userId f)"
    using id_field_type [OF u] by (auto simp: id_string_def)
  have ident: "(if af_resourcesIdType f = ''*'' then af_resourcesIdType f
             else if af_resourcesIdType f = ''#'' \<or> af_resourcesIdType f = ''@'' \<or> af_resourcesIdType f = ''%''
             then af_resourcesIdType f @ the_default [] (af_resourcesId f)
             else []) = id_string (af_resourcesIdType f) (af_resourcesId f)"
    using id_field_type [OF i] by (auto simp: id_string_def)
  have "af_zoneType f \<noteq> [] \<Longrightarrow> id_string (af_zoneType f) (af_zoneId f) \<noteq> []"
    by (simp add: id_string_def)
  then show ?thesis
    unfolding createStringACL_def Let_def user ident zone rs(1) gs(1) option.simps rights rbind_simps
      join_end_js_join [OF rs(2)] join_end_js_join [OF gs(2)]
    by (cases "af_zoneType f = []") (simp_all add: rule_parts_def rs(1) gs(1))
qed

lemma plain_char_facts:
  "plain_char c \<Longrightarrow> \<not> is_space c" "\<not> plain_char (CHR '' '')" "\<not> plain_char (CHR ''/'')" "\<not> plain_char (CHR ''+'')"
  "\<not> is_space (CHR ''+'')" "is_space (CHR '' '')" "\<not> is_space (CHR ''/'')"
  by (simp_all add: plain_char_def is_space_def)

lemma plain_blank_slash:
  assumes "list_all plain_char s"
  shows "list_all (\<lambda>c. \<not> is_space c) s" and "CHR ''/'' \<notin> set s"
  using assms plain_char_facts by (fastforce simp: list_all_iff)+

lemma joined_plain:
  assumes "list_all (list_all plain_char) xs"
  shows "list_all (\<lambda>c. \<not> is_space c) (js_join ''+'' xs)" and "CHR ''/'' \<notin> set (js_join ''+'' xs)"
    and "\<forall>x \<in> set xs. CHR ''+'' \<notin> set x"
proof -
  have "plain_char c \<or> c = CHR ''+''" if "c \<in> set (js_join ''+'' xs)" for c
    using assms set_js_join [of "''+''" xs] that by (fastforce simp: list_all_iff)
  then show "list_all (\<lambda>c. \<not> is_space c) (js_join ''+'' xs)" and "CHR ''/'' \<notin> set (js_join ''+'' xs)"
    using plain_char_facts by (fastforce simp: list_all_iff)+
  show "\<forall>x \<in> set xs. CHR ''+'' \<notin> set x" using assms plain_char_facts by (fastforce simp: list_all_iff)
qed

lemma names_plain:
  "list_all (\<lambda>r. r \<in> set (map fst ACL_RESOURCES)) rs \<Longrightarrow> list_all (list_all plain_char) rs"
  "list_all (\<lambda>g. g \<in> set (map fst ACL_RIGHTS)) gs \<Longrightarrow> list_all (list_all plain_char) gs"
  by (auto simp: list_all_iff [of _ rs] list_all_iff [of _ gs] simp del: set_map intro: acl_names_plain)

lemma rule_parts_no_blank:
  assumes "form_ok f"
  shows "list_all (list_all (\<lambda>c. \<not> is_space c)) (rule_parts f)"
proof (rule form_okD [OF assms])
  fix rs gs
  assume a: "af_resources f = Some rs" "list_all (\<lambda>r. r \<in> set (map fst ACL_RESOURCES)) rs"
    "af_rights f = Some gs" "list_all (\<lambda>g. g \<in> set (map fst ACL_RIGHTS)) gs"
    and u: "id_field_ok [CHR ''#'', CHR ''@''] (af_userType f) (af_userId f)"
    and i: "id_field_ok [CHR ''#'', CHR ''@'', CHR ''%''] (af_resourcesIdType f) (af_resourcesId f)"
    and z: "af_zoneType f \<noteq> [] \<Longrightarrow> id_field_ok [CHR ''#''] (af_zoneType f) (af_zoneId f)"
  show ?thesis
    using a z joined_plain(1) [OF names_plain(1) [OF a(2)]] joined_plain(1) [OF names_plain(2) [OF a(4)]]
      plain_blank_slash [OF id_string_plain [OF u]] plain_blank_slash [OF id_string_plain [OF i]]
      plain_blank_slash [OF id_string_plain [OF z]]
    by (simp add: rule_parts_def plain_char_facts)
qed

lemma rule_parts_split:
  assumes "form_ok f"
  shows "js_split (CHR '' '') (js_join '' '' (rule_parts f)) = rule_parts f"
    and "split_blank (js_join '' '' (rule_parts f)) = rule_parts f"
proof -
  have "\<forall>w \<in> set (rule_parts f). CHR '' '' \<notin> set w"
    using rule_parts_no_blank [OF assms] plain_char_facts by (fastforce simp: list_all_iff)
  then show "js_split (CHR '' '') (js_join '' '' (rule_parts f)) = rule_parts f"
    by (intro js_split_join) (simp_all add: rule_parts_def)
  show "split_blank (js_join '' '' (rule_parts f)) = rule_parts f"
    using rule_parts_no_blank [OF assms] by (intro split_blank_join) (simp_all add: rule_parts_def)
qed

lemma resources_split:
  assumes "rs \<noteq> []" and "list_all (list_all plain_char) rs" and "list_all plain_char ident"
  shows "js_split (CHR ''/'') (js_join ''+'' rs @ ''/'' @ ident) = [js_join ''+'' rs, ident]"
    and "js_split (CHR ''+'') (js_join ''+'' rs) = rs"
  using assms joined_plain [OF assms(2)] plain_blank_slash [OF assms(3)]
  by (auto simp: js_split_append js_split_no_sep js_split_join)

section \<open>Tables of bits\<close>

text \<open>The names whose bit is set in a number.\<close>

definition acl_bits :: "(string \<times> int) list \<Rightarrow> nat \<Rightarrow> string list" where
  "acl_bits t n = map fst (filter (\<lambda>(k, v). odd (n div nat v)) t)"

definition bit_table :: "nat \<Rightarrow> (string \<times> nat) list \<Rightarrow> bool" where
  "bit_table m es \<longleftrightarrow> distinct (map fst es) \<and> distinct (map snd es) \<and> list_all (\<lambda>(k, e). m \<le> e) es"

definition powers :: "(string \<times> nat) list \<Rightarrow> (string \<times> int) list" where
  "powers es = map (\<lambda>(k, e). (k, 2 ^ e)) es"

definition table_number :: "(string \<times> int) list \<Rightarrow> string \<Rightarrow> int" where
  "table_number t k = the_default 0 (map_of t k)"

lemma table_values:
  "list_all (\<lambda>r. r \<in> set (map fst t)) rs \<Longrightarrow> rmap (table_value t) rs = Inr (map (table_number t) rs)"
  by (rule rmap_total) (auto simp: table_value_def table_number_def list_all_iff map_of_eq_None_iff split: option.split)

lemma map_of_powers: "map_of (powers es) k = map_option (\<lambda>e. 2 ^ e) (map_of es k)"
  by (induction es) (auto simp: powers_def)

lemma exponent_of:
  assumes "bit_table m es" and "(k, e) \<in> set es"
  shows "map_of es k = Some e"
  using assms by (auto simp: bit_table_def)

lemma name_of_exponent:
  assumes "bit_table m es" and "(a, e) \<in> set es" and "(b, e) \<in> set es"
  shows "a = b"
  using inj_onD [of snd "set es" "(a, e)" "(b, e)"] assms by (simp add: bit_table_def distinct_map)

lemma sum_table:
  assumes "bit_table m es" and "distinct rs" and "set rs \<subseteq> fst ` set es"
  shows "sum_list (map (table_number (powers es)) rs) = int (\<Sum>e \<in> {e. \<exists>r \<in> set rs. (r, e) \<in> set es}. 2 ^ e)"
proof -
  let ?e = "\<lambda>r. the (map_of es r)"
  have ex: "(r, ?e r) \<in> set es" if "r \<in> set rs" for r
  proof -
    from that assms(3) obtain e where "(r, e) \<in> set es" by auto
    then show ?thesis using exponent_of [OF assms(1)] by fastforce
  qed
  have inj: "inj_on ?e (set rs)"
  proof (rule inj_onI)
    fix a b assume "a \<in> set rs" "b \<in> set rs" "?e a = ?e b"
    then have "(a, ?e a) \<in> set es" "(b, ?e a) \<in> set es" using ex by metis+
    then show "a = b" by (rule name_of_exponent [OF assms(1)])
  qed
  have "table_number (powers es) r = 2 ^ ?e r" if "r \<in> set rs" for r
    using exponent_of [OF assms(1) ex [OF that]]
    by (cases "map_of es r") (simp_all add: table_number_def map_of_powers)
  then have "sum_list (map (table_number (powers es)) rs) = (\<Sum>r \<in> set rs. 2 ^ ?e r)"
    using assms(2) by (simp add: sum_list_distinct_conv_sum_set)
  also have "\<dots> = (\<Sum>e \<in> ?e ` set rs. 2 ^ e)" using inj by (simp add: sum.reindex)
  also have "?e ` set rs = {e. \<exists>r \<in> set rs. (r, e) \<in> set es}"
    using ex exponent_of [OF assms(1)] by (auto simp: image_iff) (metis option.sel)
  finally show ?thesis by simp
qed

text \<open>Adding the values of distinct names sets exactly their bits and leaves the lower part alone.\<close>

lemma table_sum_bits:
  assumes "bit_table m es" and "distinct rs" and "set rs \<subseteq> fst ` set es" and "0 \<le> low" and "low < 2 ^ m"
  defines "n \<equiv> nat (sum_list (map (table_number (powers es)) rs) + low)"
  shows "set (acl_bits (powers es) n) = set rs" and "int (n mod 2 ^ m) = low"
proof -
  let ?A = "{e. \<exists>r \<in> set rs. (r, e) \<in> set es}"
  have "?A \<subseteq> snd ` set es" by force
  then have fin: "finite ?A" by (rule finite_subset) simp
  have low: "nat low < 2 ^ m" using assms(4,5) by (simp add: nat_less_iff)
  have ge: "\<forall>a \<in> ?A. m \<le> a" using assms(1) by (auto simp: bit_table_def list_all_iff)
  have n: "n = (\<Sum>a \<in> ?A. 2 ^ a) + nat low"
    using assms(4) unfolding n_def sum_table [OF assms(1-3)] by (simp only: nat_add_distrib of_nat_0_le_iff nat_int)
  show "int (n mod 2 ^ m) = low" using sum_powers_mod [OF fin ge low] assms(4) by (simp add: n)
  have bit: "odd (n div 2 ^ e) \<longleftrightarrow> (\<exists>r \<in> set rs. (r, e) \<in> set es)" if "m \<le> e" for e
    using bit_sum_powers_low [OF fin ge low that] by (simp add: n)
  have "k \<in> set rs \<longleftrightarrow> odd (n div 2 ^ e)" if ke: "(k, e) \<in> set es" for k e
  proof -
    have "m \<le> e" using assms(1) ke by (auto simp: bit_table_def list_all_iff)
    moreover have "r = k" if "(r, e) \<in> set es" for r
      by (rule name_of_exponent [OF assms(1) that ke])
    ultimately show ?thesis using bit [of e] ke by blast
  qed
  note mem = this
  have "set (acl_bits (powers es) n) = {k. \<exists>e. (k, e) \<in> set es \<and> odd (n div 2 ^ e)}"
    unfolding acl_bits_def powers_def filter_map by (force simp: nat_power_eq)
  also have "\<dots> = set rs" using assms(3) mem by fastforce
  finally show "set (acl_bits (powers es) n) = set rs" .
qed

definition resource_exponents :: "(string \<times> nat) list" where
  "resource_exponents =
     [(''VM'', 36), (''HOST'', 37), (''NET'', 38), (''IMAGE'', 39), (''USER'', 40), (''TEMPLATE'', 41), (''GROUP'', 42),
      (''DATASTORE'', 44), (''CLUSTER'', 45), (''DOCUMENT'', 46), (''ZONE'', 47), (''SECGROUP'', 48), (''VDC'', 49),
      (''VROUTER'', 50), (''MARKETPLACE'', 51), (''MARKETPLACEAPP'', 52), (''VMGROUP'', 53), (''VNTEMPLATE'', 54),
      (''BACKUPJOB'', 56)]"

definition right_exponents :: "(string \<times> nat) list" where
  "right_exponents = [(''USE'', 0), (''MANAGE'', 1), (''ADMIN'', 2), (''CREATE'', 3)]"

lemma acl_tables:
  "ACL_RESOURCES = powers resource_exponents" "ACL_RIGHTS = powers right_exponents"
  "bit_table 36 resource_exponents" "bit_table 0 right_exponents"
  by (simp_all add: ACL_RESOURCES_def ACL_RIGHTS_def powers_def resource_exponents_def right_exponents_def bit_table_def)

section \<open>What the API is sent\<close>

lemma show_hex_hex_val: "0 \<le> n \<Longrightarrow> hex_val (show_hex n) = nat n"
  by (simp add: show_hex_def hex_val_to_base)

lemma id_number_nonneg: "0 \<le> id_number t i"
  by (auto simp: id_number_def ACL_ID_def)

lemma parseAcl_rule:
  assumes "form_ok f" and "af_resources f = Some rs" and "af_rights f = Some gs"
  shows "parseAcl (js_join '' '' (rule_parts f)) = Inr
    ([show_hex (id_number (af_userType f) (af_userId f)),
      show_hex (sum_list (map (table_number ACL_RESOURCES) rs) + id_number (af_resourcesIdType f) (af_resourcesId f)),
      show_hex (sum_list (map (table_number ACL_RIGHTS) gs))] @
     (if af_zoneType f = [] then [] else [show_hex (id_number (af_zoneType f) (af_zoneId f))]))"
proof (rule form_okD [OF assms(1)])
  fix rs' gs'
  assume a: "af_resources f = Some rs'" "rs' \<noteq> []" "list_all (\<lambda>r. r \<in> set (map fst ACL_RESOURCES)) rs'"
    "af_rights f = Some gs'" "gs' \<noteq> []" "list_all (\<lambda>g. g \<in> set (map fst ACL_RIGHTS)) gs'"
    and u: "id_field_ok [CHR ''#'', CHR ''@''] (af_userType f) (af_userId f)"
    and i: "id_field_ok [CHR ''#'', CHR ''@'', CHR ''%''] (af_resourcesIdType f) (af_resourcesId f)"
    and z: "af_zoneType f \<noteq> [] \<Longrightarrow> id_field_ok [CHR ''#''] (af_zoneType f) (af_zoneId f)"
  have [simp]: "rs' = rs" "gs' = gs" using a assms by simp_all
  note split = resources_split [OF a(2) names_plain(1) [OF a(3)] id_string_plain [OF i]]
  have rights: "js_split (CHR ''+'') (js_join ''+'' gs) = gs"
    using a(5) joined_plain(3) [OF names_plain(2) [OF a(6)]] by (simp add: js_split_join)
  have res: "parseResources (Some (js_join ''+'' rs @ ''/'' @ id_string (af_resourcesIdType f) (af_resourcesId f))) =
      Inr (show_hex (sum_list (map (table_number ACL_RESOURCES) rs) + id_number (af_resourcesIdType f) (af_resourcesId f)))"
    using split table_values [OF a(3)] calculateIds_id_string [OF i] by (simp add: parseResources_def)
  have rig: "parseRights (Some (js_join ''+'' gs)) = Inr (show_hex (sum_list (map (table_number ACL_RIGHTS) gs)))"
    using rights table_values [OF a(6)] by (simp add: parseRights_def)
  have usr: "parseUser (Some (id_string (af_userType f) (af_userId f))) = Inr (show_hex (id_number (af_userType f) (af_userId f)))"
    using calculateIds_id_string [OF u] by (simp add: parseUser_def)
  have zon: "af_zoneType f \<noteq> [] \<Longrightarrow>
      parseZone (Some (id_string (af_zoneType f) (af_zoneId f))) = Inr (show_hex (id_number (af_zoneType f) (af_zoneId f)))"
    using calculateIds_id_string [OF z] by (simp add: parseZone_def)
  have parts: "component (rule_parts f) 0 = Some (id_string (af_userType f) (af_userId f))"
    "component (rule_parts f) 1 = Some (js_join ''+'' rs @ ''/'' @ id_string (af_resourcesIdType f) (af_resourcesId f))"
    "component (rule_parts f) 2 = Some (js_join ''+'' gs)"
    "af_zoneType f \<noteq> [] \<Longrightarrow> component (rule_parts f) 3 = Some (id_string (af_zoneType f) (af_zoneId f))"
    "length (rule_parts f) > 3 \<longleftrightarrow> af_zoneType f \<noteq> []"
    using assms(2,3) by (simp_all add: rule_parts_def component_def)
  show ?thesis
    unfolding parseAcl_def Let_def rule_parts_split(1) [OF assms(1)] parts(1-3,5) usr res rig rbind_simps
    using parts(4) zon by simp
qed

text \<open>
  C3. The form and the API agree: the rule string made from a complete form, whose resources and rights
  are each named once and whose resource identifier fits 32 bits, is sent to the API as numbers from
  which exactly the resources, the rights, the user and the resource identifier of the form can be read
  back.
\<close>

theorem acl_form_reaches_api:
  assumes "form_ok f" and "af_resources f = Some rs" and "af_rights f = Some gs"
    and "distinct rs" and "distinct gs" and "digits_val (the_default [] (af_resourcesId f)) < 2 ^ 32"
  shows "\<exists>rule req. createStringACL f = Inr rule \<and> createAclObjectFromString rule = Inr req \<and>
    set (acl_bits ACL_RESOURCES (hex_val (ao_resource req))) = set rs \<and>
    int (hex_val (ao_resource req) mod 2 ^ 36) = id_number (af_resourcesIdType f) (af_resourcesId f) \<and>
    set (acl_bits ACL_RIGHTS (hex_val (ao_right req))) = set gs \<and>
    int (hex_val (ao_user req)) = id_number (af_userType f) (af_userId f) \<and>
    (case ao_zone req of None \<Rightarrow> af_zoneType f = []
     | Some z \<Rightarrow> af_zoneType f \<noteq> [] \<and> int (hex_val z) = id_number (af_zoneType f) (af_zoneId f))"
proof (rule form_okD [OF assms(1)])
  fix rs' gs'
  assume a: "af_resources f = Some rs'" "list_all (\<lambda>r. r \<in> set (map fst ACL_RESOURCES)) rs'"
    "af_rights f = Some gs'" "list_all (\<lambda>g. g \<in> set (map fst ACL_RIGHTS)) gs'"
    and i: "id_field_ok [CHR ''#'', CHR ''@'', CHR ''%''] (af_resourcesIdType f) (af_resourcesId f)"
  have sub: "set rs \<subseteq> fst ` set resource_exponents" "set gs \<subseteq> fst ` set right_exponents"
    using a assms(2,3) by (force simp: list_all_iff acl_tables powers_def)+
  note low = id_number_bounds [OF i _ assms(6), simplified]
  have nn: "0 \<le> sum_list (map (table_number ACL_RESOURCES) rs)" "0 \<le> sum_list (map (table_number ACL_RIGHTS) gs)"
    unfolding acl_tables(1,2) sum_table [OF acl_tables(3) assms(4) sub(1)] sum_table [OF acl_tables(4) assms(5) sub(2)]
    by (simp_all only: of_nat_0_le_iff)
  note R = table_sum_bits [OF acl_tables(3) assms(4) sub(1) low(1), folded acl_tables(1)]
    and G = table_sum_bits [OF acl_tables(4) assms(5) sub(2), of 0, folded acl_tables(2)]
  show ?thesis
    using createStringACL_parts [OF assms(1)] parseAcl_rule [OF assms(1-3)] R G low nn id_number_nonneg
    by (simp add: createAclObjectFromString_def show_hex_hex_val)
qed

definition demo_form :: acl_form where
  "demo_form = \<lparr>af_userType = ''#'', af_userId = Some ''5'', af_resources = Some [''HOST'', ''VM''],
     af_resourcesIdType = ''@'', af_resourcesId = Some ''12'', af_rights = Some [''USE'', ''CREATE''],
     af_zoneType = ''*'', af_zoneId = None\<rparr>"

lemma demo_form_ok: "form_ok demo_form"
  by (simp add: form_ok_def demo_form_def id_field_ok_def ACL_RESOURCES_def ACL_RIGHTS_def is_digit_def)

theorem acl_form_reaches_api_witness:
  "\<exists>rule req. createStringACL demo_form = Inr rule \<and> createAclObjectFromString rule = Inr req \<and>
    set (acl_bits ACL_RESOURCES (hex_val (ao_resource req))) = {''HOST'', ''VM''} \<and>
    set (acl_bits ACL_RIGHTS (hex_val (ao_right req))) = {''USE'', ''CREATE''}"
  using acl_form_reaches_api [OF demo_form_ok, of "[''HOST'', ''VM'']" "[''USE'', ''CREATE'']"]
  by (auto simp: demo_form_def digits_val_def digit_val_def)

text \<open>
  The form never makes a rule the checker refuses, and the rule reads back as it was entered: every
  rule made from a complete form matches \<open>validACL\<close>, and \<open>aclFromString\<close> gives the form's user,
  resources, identifier, rights and zone.
\<close>

theorem acl_form_reads_back:
  assumes "form_ok f" and "af_resources f = Some rs" and "af_rights f = Some gs"
  shows "\<exists>rule acl res. createStringACL f = Inr rule \<and> validACL rule \<and>
    aclFromString rule users groups clusters zones = Inr acl \<and> acl_RESOURCE acl = Some res \<and>
    map_option ap_string (acl_USER acl) = Some (Some (id_string (af_userType f) (af_userId f))) \<and>
    ar_resources res = rs \<and>
    ap_string (ar_identifier res) = Some (id_string (af_resourcesIdType f) (af_resourcesId f)) \<and>
    map_option fst (acl_RIGHTS acl) = Some gs \<and>
    map_option ap_string (acl_ZONE acl) =
      (if af_zoneType f = [] then None else Some (Some (id_string (af_zoneType f) (af_zoneId f))))"
proof (rule form_okD [OF assms(1)])
  fix rs' gs'
  assume a: "af_resources f = Some rs'" "rs' \<noteq> []" "list_all (\<lambda>r. r \<in> set (map fst ACL_RESOURCES)) rs'"
    "af_rights f = Some gs'" "gs' \<noteq> []" "list_all (\<lambda>g. g \<in> set (map fst ACL_RIGHTS)) gs'"
    and u: "id_field_ok [CHR ''#'', CHR ''@''] (af_userType f) (af_userId f)"
    and i: "id_field_ok [CHR ''#'', CHR ''@'', CHR ''%''] (af_resourcesIdType f) (af_resourcesId f)"
    and z: "af_zoneType f \<noteq> [] \<Longrightarrow> id_field_ok [CHR ''#''] (af_zoneType f) (af_zoneId f)"
  have [simp]: "rs' = rs" "gs' = gs" using a assms by simp_all
  let ?user = "id_string (af_userType f) (af_userId f)" and ?ident = "id_string (af_resourcesIdType f) (af_resourcesId f)"
    and ?zone = "id_string (af_zoneType f) (af_zoneId f)"
  note split = resources_split [OF a(2) names_plain(1) [OF a(3)] id_string_plain [OF i]]
  have rights: "js_split (CHR ''+'') (js_join ''+'' gs) = gs"
    using a(5) joined_plain(3) [OF names_plain(2) [OF a(6)]] by (simp add: js_split_join)
  have valid: "validACL (js_join '' '' (rule_parts f))"
    using rule_parts_split(2) [OF assms(1)] id_string_matches [OF u] id_string_matches [OF i] id_string_matches [OF z]
      split rights a(3,6)
    by (simp add: validACL_def rule_parts_def assms resources_match_def list_matches_def)
  have types: "?user \<noteq> []" "gs \<noteq> [[]]" "af_zoneType f \<noteq> [] \<Longrightarrow> ?zone \<noteq> [] \<and> (\<exists>t. type_of ?zone = Some t)"
    using id_field_type [OF u] id_field_type [OF z] a(6)
    by (auto simp: id_string_def type_of_def ACL_USERS_def ACL_RIGHTS_def)
  have gs: "js_join ''+'' gs \<noteq> []" using types(2) rights by (metis js_split.simps(1))
  have parts: "component (rule_parts f) 0 = Some ?user"
    "component (rule_parts f) 1 = Some (js_join ''+'' rs @ ''/'' @ ?ident)"
    "component (rule_parts f) 2 = Some (js_join ''+'' gs)"
    "component (rule_parts f) 3 = (if af_zoneType f = [] then None else Some ?zone)"
    using assms(2,3) by (simp_all add: rule_parts_def component_def)
  have user: "\<exists>p. user_part ?user users groups = Some p \<and> ap_string p = Some ?user"
    using types(1) by (simp add: user_part_def)
  have res: "\<exists>r. resource_part (js_join ''+'' rs @ ''/'' @ ?ident) groups clusters = Some r \<and>
      ar_resources r = rs \<and> ap_string (ar_identifier r) = Some ?ident"
    using split by (simp add: resource_part_def Let_def component_def)
  have zone: "\<exists>p. zone_part (the_default [] (component (rule_parts f) 3)) zones = Inr p \<and>
      map_option ap_string p = (if af_zoneType f = [] then None else Some (Some ?zone))"
    using types(3) by (cases "af_zoneType f = []") (auto simp: zone_part_def parts)
  have "rights_part (js_join ''+'' gs) = Some (gs, js_join ''+'' gs)" using gs rights by (simp add: rights_part_def)
  then show ?thesis
    using createStringACL_parts [OF assms(1)] valid user res zone
    by (auto simp: aclFromString_def Let_def rule_parts_split(1) [OF assms(1)] parts(1,3) parts(2) [unfolded One_nat_def])
qed

theorem acl_form_reads_back_witness:
  "\<exists>rule. createStringACL demo_form = Inr rule \<and> validACL rule"
  using acl_form_reads_back [OF demo_form_ok, of "[''HOST'', ''VM'']" "[''USE'', ''CREATE'']" None None None None]
  by (auto simp: demo_form_def)

section \<open>What the checker lets through\<close>

lemma id_matches_field:
  assumes "id_matches marks s" and "set marks \<subseteq> {CHR ''#'', CHR ''@'', CHR ''%''}"
  obtains t i where "id_field_ok marks t i" and "s = id_string t i"
proof (cases "s = ''*''")
  case True
  then show ?thesis using that [of "''*''" None] by (simp add: id_field_ok_def id_string_def)
next
  case False
  with assms obtain c r where "s = c # r" "c \<in> set marks" "r \<noteq> []" "list_all is_digit r"
    by (auto simp: id_matches_def split: list.splits)
  moreover from this assms(2) have "c \<noteq> CHR ''*''" by auto
  ultimately show ?thesis using that [of "[c]" "Some r"] by (auto simp: id_field_ok_def id_string_def)
qed

lemma calculateIds_matches:
  assumes "id_matches marks s" and "set marks \<subseteq> {CHR ''#'', CHR ''@'', CHR ''%''}"
  shows "\<exists>n. calculateIds (Some s) = Inr (Number n)" and "\<exists>t. type_of s = Some t"
proof -
  obtain t i where f: "id_field_ok marks t i" and s: "s = id_string t i"
    using assms by (rule id_matches_field)
  show "\<exists>n. calculateIds (Some s) = Inr (Number n)" using calculateIds_id_string [OF f assms(2)] s by simp
  show "\<exists>t. type_of s = Some t"
    using id_field_type [OF f] assms(2) s by (auto simp: id_string_def type_of_def ACL_USERS_def)
qed

lemma parts_parse:
  "resources_match r \<Longrightarrow> \<exists>h. parseResources (Some r) = Inr h"
  "list_matches (map fst ACL_RIGHTS) g \<Longrightarrow> \<exists>h. parseRights (Some g) = Inr h"
proof -
  assume "resources_match r"
  then obtain names ident where r: "js_split (CHR ''/'') r = [names, ident]"
    and n: "list_matches (map fst ACL_RESOURCES) names" and i: "id_matches [CHR ''#'', CHR ''@'', CHR ''%''] ident"
    by (auto simp: resources_match_def split: list.splits)
  obtain k where "calculateIds (Some ident) = Inr (Number k)" using calculateIds_matches(1) [OF i] by auto
  then show "\<exists>h. parseResources (Some r) = Inr h"
    using r table_values [of ACL_RESOURCES "js_split (CHR ''+'') names"] n
    by (simp add: parseResources_def list_matches_def)
next
  assume "list_matches (map fst ACL_RIGHTS) g"
  then show "\<exists>h. parseRights (Some g) = Inr h"
    using table_values [of ACL_RIGHTS "js_split (CHR ''+'') g"] by (simp add: parseRights_def list_matches_def)
qed

text \<open>
  A rule that passes the check and has no blanks but spaces raises no error later: \<open>parseAcl\<close> gives
  three or four numbers for the API and \<open>aclFromString\<close> gives the readable object.
\<close>

theorem valid_rule_raises_nothing:
  assumes "validACL rule" and "list_all (\<lambda>c. is_space c \<longrightarrow> c = CHR '' '') rule"
  shows "\<exists>ret acl. parseAcl rule = Inr ret \<and> length ret = length (js_split (CHR '' '') rule) \<and>
    aclFromString rule users groups clusters zones = Inr acl"
proof -
  have "split_blank rule = js_split (CHR '' '') rule" using assms(2) by (rule split_blank_spaces)
  with assms(1) obtain u r g zs where parts: "js_split (CHR '' '') rule = u # r # g # zs"
    and u: "id_matches [CHR ''#'', CHR ''@''] u" and r: "resources_match r" and g: "list_matches (map fst ACL_RIGHTS) g"
    and zs: "zs = [] \<or> (\<exists>z. zs = [z] \<and> id_matches [CHR ''#''] z)"
    by (auto simp: validACL_def split: list.splits)
  obtain nu where nu: "calculateIds (Some u) = Inr (Number nu)" using calculateIds_matches(1) [OF u] by auto
  obtain hr hg where h: "parseResources (Some r) = Inr hr" "parseRights (Some g) = Inr hg"
    using parts_parse r g by metis
  show ?thesis
  proof (cases "zs = []")
    case True
    then show ?thesis using parts nu h
      by (simp add: parseAcl_def component_def parseUser_def aclFromString_def zone_part_def Let_def)
  next
    case False
    with zs obtain z nz t where z: "zs = [z]" "calculateIds (Some z) = Inr (Number nz)" "type_of z = Some t"
      using calculateIds_matches [of "[CHR ''#'']"] by fastforce
    then show ?thesis using parts nu h
      by (simp add: parseAcl_def component_def parseUser_def parseZone_def aclFromString_def zone_part_def Let_def)
  qed
qed

theorem valid_rule_raises_nothing_witness:
  "\<exists>ret acl. parseAcl ''#1 VM/* USE'' = Inr ret \<and> aclFromString ''#1 VM/* USE'' None None None None = Inr acl"
  using valid_rule_raises_nothing [of "''#1 VM/* USE''" None None None None]
  by (auto simp: validACL_def id_matches_def resources_match_def list_matches_def ACL_RESOURCES_def ACL_RIGHTS_def
      is_space_def is_digit_def)

text \<open>
  The check and the parser disagree on blanks: a rule whose parts are separated by tabs passes
  \<open>validACL\<close>, and \<open>parseAcl\<close> throws on it.
\<close>

theorem tab_rule_valid_but_throws:
  "let rule = ''#1'' @ [CHR 0x09] @ ''VM/*'' @ [CHR 0x09] @ ''USE''
   in validACL rule \<and> parseAcl rule = Inl TypeError"
  by (simp add: validACL_def id_matches_def resources_match_def list_matches_def ACL_RESOURCES_def ACL_RIGHTS_def
      is_space_def is_digit_def parseAcl_def component_def parseUser_def parseResources_def calculateIds_def ACL_ID_def
      parse_int_auto_def parse_unsigned_def parse_nat_def Let_def)

text \<open>
  A resource or right named twice is another one: the values are added, not or-ed, so the rule
  \<open>VM+VM\<close> with \<open>USE+USE\<close>, which passes the check, is sent to the API as \<open>HOST\<close> with \<open>MANAGE\<close>.
\<close>

theorem repeated_name_becomes_another:
  "validACL ''#1 VM+VM/* USE+USE'' \<and> parseAcl ''#1 VM+VM/* USE+USE'' = parseAcl ''#1 HOST/* MANAGE''"
  by (simp add: validACL_def id_matches_def resources_match_def list_matches_def ACL_RESOURCES_def ACL_RIGHTS_def
      is_space_def is_digit_def parseAcl_def component_def parseUser_def parseResources_def parseRights_def table_value_def
      calculateIds_def ACL_ID_def Let_def)

text \<open>
  The words for a rule are the wrong way round: \<open>over all\<close> is written for a rule on one resource and
  left out for a rule on every resource.
\<close>

theorem over_all_for_one_resource:
  "translateACL ''#1 VM/#5 USE'' None None None None =
     Inr ''Rule allow user with id 1 the right to perform USE operation over all VM with identifier 5'' \<and>
   translateACL ''#1 VM/* USE'' None None None None =
     Inr ''Rule allow user with id 1 the right to perform USE operation over VM''"
  by (simp add: translateACL_def aclFromString_def zone_part_def component_def user_part_def resource_part_def
      rights_part_def type_of_def ident_of_def name_in_def ACL_USERS_def parenthesised_def Let_def)

end
