(* ===== verification/Paths.thy ===== *)
theory Paths
  imports Js_Prelude
begin

text \<open>
  Paths of files, as the standard library of Node treats them on POSIX systems, for the components that
  make paths out of the names in requests.
\<close>

section \<open>The functions of the path module\<close>

text \<open>
  \<open>path.normalize\<close>, \<open>path.join\<close> and \<open>path.resolve\<close> on POSIX paths: empty and single-dot segments are
  dropped, a double dot takes the segment before it away, and above the root it is dropped in an
  absolute path.
\<close>

fun norm_segments :: "bool \<Rightarrow> string list \<Rightarrow> string list \<Rightarrow> string list" where
  "norm_segments absolute done [] = rev done"
| "norm_segments absolute done (s # ss) =
     (if s = [] \<or> s = ''.'' then norm_segments absolute done ss
      else if s = ''..'' then
        (case done of
           d # ds \<Rightarrow> if d = ''..'' then norm_segments absolute (''..'' # done) ss else norm_segments absolute ds ss
         | [] \<Rightarrow> if absolute then norm_segments absolute [] ss else norm_segments absolute [''..''] ss)
      else norm_segments absolute (s # done) ss)"

definition path_normalize :: "string \<Rightarrow> string" where
  "path_normalize s =
     (if s = [] then ''.''
      else let absolute = (hd s = CHR ''/''); trailing = (last s = CHR ''/'');
               body = js_join ''/'' (norm_segments absolute [] (js_split (CHR ''/'') s));
               body1 = (if body = [] \<and> \<not> absolute then ''.'' else body);
               body2 = (if body1 \<noteq> [] \<and> trailing then body1 @ ''/'' else body1)
           in if absolute then ''/'' @ body2 else body2)"

definition path_join :: "string \<Rightarrow> string \<Rightarrow> string" where
  "path_join a b = path_normalize (if a = [] then b else if b = [] then a else a @ ''/'' @ b)"

text \<open>\<open>path.resolve\<close> of an absolute path: as \<open>normalize\<close>, with no slash at the end.\<close>

definition path_resolve :: "string \<Rightarrow> string" where
  "path_resolve s = ''/'' @ js_join ''/'' (norm_segments True [] (js_split (CHR ''/'') s))"

text \<open>The directory of \<open>path.parse\<close> and the extension: slashes at the end do not count, and a dot that
  starts the name starts no extension.\<close>

definition strip_slashes :: "string \<Rightarrow> string" where
  "strip_slashes s = rev (dropWhile (\<lambda>c. c = CHR ''/'') (rev s))"

definition path_dir :: "string \<Rightarrow> string" where
  "path_dir s =
     (let body = strip_slashes s; before = dropWhile (\<lambda>c. c \<noteq> CHR ''/'') (rev body)
      in if before = [] then (if s \<noteq> [] \<and> hd s = CHR ''/'' then ''/'' else [])
         else if length before = 1 then ''/''
         else take (length before - 1) body)"

definition path_ext :: "string \<Rightarrow> string" where
  "path_ext s =
     (let base = rev (takeWhile (\<lambda>c. c \<noteq> CHR ''/'') (rev (strip_slashes s)));
          ext = rev (takeWhile (\<lambda>c. c \<noteq> CHR ''.'') (rev base)); dot = length base - length ext
      in if CHR ''.'' \<notin> set base \<or> dot = 1 \<or> base = ''..'' then [] else CHR ''.'' # ext)"

section \<open>Paths of plain segments\<close>

definition plain_segment :: "string \<Rightarrow> bool" where
  "plain_segment s \<longleftrightarrow> s \<noteq> [] \<and> s \<noteq> ''.'' \<and> s \<noteq> ''..'' \<and> CHR ''/'' \<notin> set s"

lemma norm_segments_plain:
  assumes "\<forall>s \<in> set ss. CHR ''/'' \<notin> set s" and "list_all plain_segment ds"
  shows "list_all plain_segment (norm_segments True ds ss)"
  using assms
proof (induction True ds ss rule: norm_segments.induct)
  case (2 ds s ss)
  then show ?case by (auto simp: plain_segment_def split: list.splits)
qed simp

lemma norm_segments_id: "list_all plain_segment ss \<Longrightarrow> norm_segments a ds ss = rev ds @ ss"
  by (induction ss arbitrary: ds) (auto simp: plain_segment_def)

lemma norm_segments_app:
  "list_all plain_segment ss \<Longrightarrow> norm_segments a ds (ss @ ts) = norm_segments a (rev ss @ ds) ts"
  by (induction ss arbitrary: ds) (auto simp: plain_segment_def)

text \<open>An absolute path of plain segments, as \<open>path.resolve\<close> gives it.\<close>

definition abs_path :: "string list \<Rightarrow> string" where
  "abs_path ss = concat (map (\<lambda>s. CHR ''/'' # s) ss)"

lemma abs_path_join: "ss \<noteq> [] \<Longrightarrow> abs_path ss = ''/'' @ js_join ''/'' ss"
  by (induction "''/''" ss rule: js_join.induct) (auto simp: abs_path_def)

lemma split_abs_path:
  "list_all plain_segment ss \<Longrightarrow> ss \<noteq> [] \<Longrightarrow> js_split (CHR ''/'') (abs_path ss) = [] # ss"
  using js_split_join [of ss "CHR ''/''"] by (auto simp: abs_path_join list_all_iff plain_segment_def)

lemma js_join_first: "\<exists>t. js_join sep (w # ws) = w @ t"
  by (cases ws) auto

lemma joined_head:
  assumes "list_all plain_segment ss" and "ss \<noteq> []"
  obtains c t where "js_join ''/'' ss = c # t" and "c \<noteq> CHR ''/''"
proof -
  obtain w ws where ss: "ss = w # ws" using assms(2) by (cases ss) auto
  obtain t where t: "js_join ''/'' ss = w @ t" using js_join_first ss by blast
  obtain c v where "w = c # v" "c \<noteq> CHR ''/''" using assms(1) ss by (cases w) (auto simp: plain_segment_def)
  then show ?thesis using that t by simp
qed

lemma joined_nonempty:
  assumes "list_all plain_segment ss" and "ss \<noteq> []" shows "js_join ''/'' ss \<noteq> []"
  by (rule joined_head [OF assms]) simp

lemma normalize_abs:
  assumes "s = CHR ''/'' # r"
  defines "segs \<equiv> norm_segments True [] (js_split (CHR ''/'') s)"
  shows "path_normalize s = ''/'' @ js_join ''/'' segs @ (if segs \<noteq> [] \<and> last s = CHR ''/'' then ''/'' else [])"
    and "list_all plain_segment segs"
proof -
  show plain: "list_all plain_segment segs"
    unfolding segs_def by (rule norm_segments_plain) (auto dest: js_split_parts)
  have "js_join ''/'' segs = [] \<longleftrightarrow> segs = []"
    using joined_nonempty [OF plain] by auto
  moreover have "hd s = CHR ''/''" "s \<noteq> []" using assms(1) by simp_all
  ultimately show "path_normalize s = ''/'' @ js_join ''/'' segs @ (if segs \<noteq> [] \<and> last s = CHR ''/'' then ''/'' else [])"
    by (simp add: path_normalize_def Let_def segs_def)
qed

lemma split_joined:
  "list_all plain_segment ss \<Longrightarrow> ss \<noteq> [] \<Longrightarrow> js_split (CHR ''/'') (js_join ''/'' ss) = ss"
  by (rule js_split_join) (auto simp: list_all_iff plain_segment_def)

lemma norm_split_rel:
  assumes "list_all plain_segment ss" and "ss \<noteq> []"
  shows "norm_segments a ds (js_split (CHR ''/'') (js_join ''/'' ss @ (if t then ''/'' else []))) = rev ds @ ss"
proof -
  have "js_split (CHR ''/'') (js_join ''/'' ss @ ''/'') = ss @ [[]]"
    using split_append_sep [of "CHR ''/''" "js_join ''/'' ss" "[]"] split_joined [OF assms] by simp
  then show ?thesis using split_joined [OF assms] norm_segments_app [OF assms(1), of a ds "[[]]"]
    by (simp add: norm_segments_id [OF assms(1)])
qed

lemma resolve_normalize:
  assumes "s = CHR ''/'' # r"
  shows "path_resolve (path_normalize s) = ''/'' @ js_join ''/'' (norm_segments True [] (js_split (CHR ''/'') s))"
proof -
  let ?segs = "norm_segments True [] (js_split (CHR ''/'') s)"
  note N = normalize_abs [OF assms]
  show ?thesis
  proof (cases "?segs = []")
    case True
    then show ?thesis using N(1) by (simp add: path_resolve_def)
  next
    case False
    have "js_split (CHR ''/'') (path_normalize s) =
        [] # js_split (CHR ''/'') (js_join ''/'' ?segs @ (if last s = CHR ''/'' then ''/'' else []))"
      using N(1) False by simp
    then show ?thesis using norm_split_rel [OF N(2) False, of True "[]"] by (simp add: path_resolve_def)
  qed
qed

lemma resolve_join:
  assumes "list_all plain_segment rs" and "rs \<noteq> []" and "list_all plain_segment ss" and "ss \<noteq> []"
  shows "path_resolve (path_join (abs_path rs) (js_join ''/'' ss @ (if t then ''/'' else []))) = abs_path (rs @ ss)"
proof -
  let ?rel = "js_join ''/'' ss @ (if t then ''/'' else [])"
  have rel: "?rel \<noteq> []" using joined_nonempty [OF assms(3,4)] by simp
  obtain r where root: "abs_path rs = CHR ''/'' # r" using assms(2) abs_path_join by fastforce
  have "path_join (abs_path rs) ?rel = path_normalize (abs_path rs @ CHR ''/'' # ?rel)"
    using root by (simp only: path_join_def rel if_False list.distinct append_Cons append_Nil)
  moreover have "norm_segments True [] (js_split (CHR ''/'') (abs_path rs @ CHR ''/'' # ?rel)) = rs @ ss"
    unfolding split_append_sep split_abs_path [OF assms(1,2)]
    using norm_segments_app [OF assms(1), of True "[]"] norm_split_rel [OF assms(3,4)] by simp
  ultimately show ?thesis
    using resolve_normalize [of "abs_path rs @ CHR ''/'' # ?rel"] root assms(2) by (simp add: abs_path_join)
qed

section \<open>Climbing and directories\<close>

text \<open>Enough double dots leave any directory.\<close>

lemma norm_segments_climb:
  "list_all plain_segment ds \<Longrightarrow> length ds \<le> n \<Longrightarrow> norm_segments True ds (replicate n ''..'' @ ts) = norm_segments True [] ts"
proof (induction n arbitrary: ds)
  case (Suc n)
  then show ?case
    by (cases ds) (auto simp: plain_segment_def)
qed simp

lemma resolve_segments:
  "path_resolve (abs_path rs @ ''/'' @ s) = ''/'' @ js_join ''/'' (norm_segments True [] (js_split (CHR ''/'') (abs_path rs) @ js_split (CHR ''/'') s))"
  using split_append_sep [of "CHR ''/''" "abs_path rs" s] by (simp add: path_resolve_def)

lemma resolve_below:
  assumes "list_all plain_segment rs" "rs \<noteq> []"
  shows "path_resolve (abs_path rs @ ''/'' @ s) = ''/'' @ js_join ''/'' (norm_segments True (rev rs) (js_split (CHR ''/'') s))"
  using resolve_segments [of rs s] split_abs_path [OF assms] norm_segments_app [OF assms(1), of True "[]"] by simp

text \<open>Without double dots a name stays below its directory.\<close>

lemma norm_segments_below:
  "list_all (\<lambda>s. s \<noteq> ''..'' \<and> CHR ''/'' \<notin> set s) ss \<Longrightarrow>
     norm_segments True ds ss = rev ds @ filter (\<lambda>s. s \<noteq> [] \<and> s \<noteq> ''.'') ss"
  by (induction ss arbitrary: ds) auto

lemma path_dir_join:
  assumes "list_all (\<lambda>s. CHR ''/'' \<notin> set s) (ds @ [b])" "ds \<noteq> []" "hd ds \<noteq> []" "b \<noteq> []"
  shows "path_dir (js_join ''/'' (ds @ [b])) = js_join ''/'' ds"
proof -
  have join: "js_join ''/'' (ds @ [b]) = js_join ''/'' ds @ ''/'' @ b" using assms(2)
    by (induction "''/''" ds rule: js_join.induct) auto
  have b: "CHR ''/'' \<notin> set b" using assms(1) by simp
  have "strip_slashes (js_join ''/'' (ds @ [b])) = js_join ''/'' (ds @ [b])"
    unfolding join using assms(4) b by (cases b rule: rev_cases) (auto simp: strip_slashes_def)
  moreover have "dropWhile (\<lambda>c. c \<noteq> CHR ''/'') (rev (js_join ''/'' (ds @ [b]))) = CHR ''/'' # rev (js_join ''/'' ds)"
    using b by (simp add: join dropWhile_append)
  moreover have "js_join ''/'' ds \<noteq> []" using assms(2,3) js_join_first [of "''/''" "hd ds" "tl ds"] by auto
  ultimately show ?thesis by (simp add: path_dir_def join)
qed

text \<open>What has a directory is the directory, a slash and the rest.\<close>

lemma path_dir_prefix:
  assumes "path_dir s \<noteq> []" "path_dir s \<noteq> ''/''"
  shows "\<exists>r. s = path_dir s @ ''/'' @ r"
proof -
  define body before where "body = strip_slashes s" and "before = dropWhile (\<lambda>c. c \<noteq> CHR ''/'') (rev body)"
  have dir: "path_dir s = take (length before - 1) body" "before \<noteq> []"
    using assms by (auto simp: path_dir_def body_def before_def Let_def split: if_splits)
  obtain t where s: "s = body @ t"
    using takeWhile_dropWhile_id [of "\<lambda>c. c = CHR ''/''" "rev s"] by (metis body_def rev_append rev_rev_ident strip_slashes_def)
  have "rev body = takeWhile (\<lambda>c. c \<noteq> CHR ''/'') (rev body) @ before" by (simp add: before_def)
  then have b: "body = rev before @ rev (takeWhile (\<lambda>c. c \<noteq> CHR ''/'') (rev body))" by (metis rev_append rev_rev_ident)
  obtain w where w: "before = CHR ''/'' # w"
    using dir(2) hd_dropWhile [of "\<lambda>c. c \<noteq> CHR ''/''" "rev body"] by (cases before) (auto simp: before_def)
  have "take (length before - 1) body = rev w" by (subst b) (simp add: w)
  then show ?thesis using s b dir(1) w by (metis append_assoc rev.simps(2))
qed

end
