(* ===== verification/Platform.thy ===== *)
theory Platform
  imports Http Uri Paths
begin

text \<open>
  The OpenAsstAI platform server (\<open>openasstai-platform/src/server/index.js\<close>), its data
  (\<open>data/mockData.js\<close>) and its provider adapter (\<open>adapters/opennebula/index.js\<close>).

  The data is one state that the requests pass on.  The clock is read once per request, in
  milliseconds and as ISO text.  Text outside ASCII is given by its UTF-8 bytes.  The gauges of an
  instance (traffic, processor, memory, disk), which no operation reads, are left out.  An empty
  string is an absent environment variable.
\<close>

section \<open>Data\<close>

definition utf8 :: "nat list \<Rightarrow> string" where
  "utf8 bs = map char_of bs"

record instance_data =
  in_id :: string
  in_name :: string
  in_status :: string
  in_statusText :: string
  in_ipv4 :: string
  in_privateIpv4 :: string

record default_model =
  dm_provider :: jsval
  dm_model :: jsval
  dm_planId :: jsval

record channel =
  ch_id :: jsval
  ch_name :: jsval
  ch_status :: string
  ch_statusText :: string
  ch_account :: jsval

record skill =
  sk_id :: jsval
  sk_name :: jsval
  sk_version :: jsval
  sk_source :: jsval

record agent =
  ag_id :: string
  ag_instanceId :: string
  ag_defaultModel :: default_model
  ag_channels :: "channel list"
  ag_installed :: "skill list"
  ag_lastRestartedAt :: "string option"

record log_entry =
  lg_id :: string
  lg_level :: string
  lg_timestamp :: string
  lg_message :: string

record platform =
  instances :: "instance_data list"
  agents :: "string \<rightharpoonup> agent"
  logs :: "string \<rightharpoonup> log_entry list"

definition findInstance :: "platform \<Rightarrow> string \<Rightarrow> instance_data option" where
  "findInstance p instanceId = List.find (\<lambda>i. in_id i = instanceId) (instances p)"

definition findAgent :: "platform \<Rightarrow> string \<Rightarrow> agent option" where
  "findAgent p instanceId = agents p instanceId"

section \<open>The provider adapter\<close>

record adapter =
  ad_endpoint :: string
  ad_username :: string
  ad_password :: string

definition configured :: "adapter \<Rightarrow> bool" where
  "configured a \<longleftrightarrow> ad_endpoint a \<noteq> [] \<and> ad_username a \<noteq> [] \<and> ad_password a \<noteq> []"

record connection =
  cn_ok :: bool
  cn_mode :: string
  cn_endpoint :: "string option"

definition validateConnection :: "adapter \<Rightarrow> connection" where
  "validateConnection a =
     (if \<not> configured a then \<lparr>cn_ok = False, cn_mode = ''mock'', cn_endpoint = None\<rparr>
      else \<lparr>cn_ok = True, cn_mode = ''configured-stub'', cn_endpoint = Some (ad_endpoint a)\<rparr>)"

section \<open>Requests and answers\<close>

text \<open>A request: its method, the path and query of its URL, and the bytes of its body.\<close>

record pl_request =
  pr_method :: string
  pr_pathname :: string
  pr_q :: "string option"
  pr_body :: string

record search_hit =
  sh_id :: string
  sh_name :: string
  sh_statusText :: string
  sh_ipv4 :: string
  sh_href :: string

datatype payload =
    PHealth string connection
  | PSearch string "search_hit list"
  | PInstances "instance_data list"
  | PInstance instance_data
  | PAgent agent
  | PUpdated agent
  | PChannels channel "channel list"
  | PSkills skill "skill list"
  | PRestart agent
  | PLogs "log_entry list"
  | PError string

type_synonym pl_answer = "int \<times> payload"

record pl_clock =
  ck_now :: int
  ck_iso :: string

definition readJsonBody :: "pl_request \<Rightarrow> jsval js" where
  "readJsonBody req = (if pr_body req = [] then Inr (JObj []) else json_parse (pr_body req))"

text \<open>\<open>body.k\<close>: null has no properties, and other values than objects have none of these names.\<close>

definition body_get :: "jsval \<Rightarrow> string \<Rightarrow> jsval js" where
  "body_get body k = (if body = JNull \<or> body = JUndef then Inl TypeError else Inr (prop_get body k))"

text \<open>\<open>a || b\<close>.\<close>

definition js_or :: "jsval \<Rightarrow> jsval \<Rightarrow> jsval" where
  "js_or a b = (if truthy a then a else b)"

definition path_parts :: "string \<Rightarrow> string list" where
  "path_parts pathname = filter (\<lambda>s. s \<noteq> []) (js_split (CHR ''/'') pathname)"

section \<open>Routes\<close>

definition updateDefaultModel :: "jsval \<Rightarrow> agent \<Rightarrow> agent js" where
  "updateDefaultModel body agent =
     rbind (body_get body ''provider'') (\<lambda>provider.
       rbind (body_get body ''model'') (\<lambda>model.
         rbind (body_get body ''planId'') (\<lambda>planId.
           let d = ag_defaultModel agent
           in Inr (agent\<lparr>ag_defaultModel :=
                 \<lparr>dm_provider = js_or provider (dm_provider d), dm_model = js_or model (dm_model d),
                  dm_planId = js_or planId (dm_planId d)\<rparr>\<rparr>))))"

definition connectedText :: string where
  "connectedText = utf8 [0xE5, 0xB7, 0xB2, 0xE8, 0xBF, 0x9E, 0xE6, 0x8E, 0xA5]"

definition newChannel :: "pl_clock \<Rightarrow> jsval \<Rightarrow> channel js" where
  "newChannel ck body =
     rbind (body_get body ''id'') (\<lambda>i.
       rbind (body_get body ''name'') (\<lambda>name.
         rbind (body_get body ''account'') (\<lambda>account.
           Inr \<lparr>ch_id = js_or i (JStr (''channel-'' @ show_int (ck_now ck))),
                ch_name = js_or name (JStr (utf8 [0xE8, 0x87, 0xAA, 0xE5, 0xAE, 0x9A, 0xE4, 0xB9, 0x89,
                                                  0xE6, 0xB8, 0xA0, 0xE9, 0x81, 0x93])),
                ch_status = ''connected'', ch_statusText = connectedText,
                ch_account = js_or account (JStr (utf8 [0xE5, 0xBE, 0x85, 0xE5, 0x91, 0xBD, 0xE5, 0x90, 0x8D,
                                                        0xE8, 0xB4, 0xA6, 0xE5, 0x8F, 0xB7]))\<rparr>)))"

definition newSkill :: "pl_clock \<Rightarrow> jsval \<Rightarrow> skill js" where
  "newSkill ck body =
     rbind (body_get body ''id'') (\<lambda>i.
       rbind (body_get body ''name'') (\<lambda>name.
         rbind (body_get body ''version'') (\<lambda>version.
           rbind (body_get body ''source'') (\<lambda>source.
             Inr \<lparr>sk_id = js_or i (js_or name (JStr (''skill-'' @ show_int (ck_now ck)))),
                  sk_name = js_or name (JStr ''custom-skill''),
                  sk_version = js_or version (JStr ''0.1.0''),
                  sk_source = js_or source (JStr ''SkillHub'')\<rparr>))))"

definition set_agent :: "string \<Rightarrow> agent \<Rightarrow> platform \<Rightarrow> platform" where
  "set_agent i a p = p\<lparr>agents := (agents p)(i \<mapsto> a)\<rparr>"

text \<open>
  \<open>handleInstanceApi\<close>: the value sent, or the error thrown, and the state left.  A restart writes the
  agent before it takes the log array, which throws when there is none.
\<close>

definition handleInstanceApi ::
  "pl_clock \<Rightarrow> pl_request \<Rightarrow> string \<Rightarrow> string list \<Rightarrow> platform \<Rightarrow> pl_answer js \<times> platform" where
  "handleInstanceApi ck req instanceId tail p =
     (let verb = (if pr_method req \<noteq> [] then pr_method req else ''GET''); route = js_join ''/'' tail
      in case findInstance p instanceId of
        None \<Rightarrow> (Inr (404, PError ''instance_not_found''), p)
      | Some inst \<Rightarrow>
          if verb = ''GET'' \<and> tail = [] then (Inr (200, PInstance inst), p)
          else if tail = [] \<or> hd tail \<noteq> ''agent'' then (Inr (404, PError ''not_found''), p)
          else (case findAgent p instanceId of
            None \<Rightarrow> (Inr (404, PError ''agent_not_found''), p)
          | Some agent \<Rightarrow>
              if verb = ''GET'' \<and> length tail = 1 then (Inr (200, PAgent agent), p)
              else if verb = ''PATCH'' \<and> route = ''agent/models/default'' then
                (case rbind (readJsonBody req) (\<lambda>body. updateDefaultModel body agent) of
                   Inl e \<Rightarrow> (Inl e, p)
                 | Inr a \<Rightarrow> (Inr (200, PUpdated a), set_agent instanceId a p))
              else if verb = ''POST'' \<and> route = ''agent/channels'' then
                (case rbind (readJsonBody req) (newChannel ck) of
                   Inl e \<Rightarrow> (Inl e, p)
                 | Inr c \<Rightarrow>
                     (let a = agent\<lparr>ag_channels := ag_channels agent @ [c]\<rparr>
                      in (Inr (201, PChannels c (ag_channels a)), set_agent instanceId a p)))
              else if verb = ''POST'' \<and> route = ''agent/skills'' then
                (case rbind (readJsonBody req) (newSkill ck) of
                   Inl e \<Rightarrow> (Inl e, p)
                 | Inr k \<Rightarrow>
                     (let a = agent\<lparr>ag_installed := ag_installed agent @ [k]\<rparr>
                      in (Inr (201, PSkills k (ag_installed a)), set_agent instanceId a p)))
              else if verb = ''POST'' \<and> route = ''agent/actions/restart'' then
                (let a = agent\<lparr>ag_lastRestartedAt := Some (ck_iso ck)\<rparr>; p1 = set_agent instanceId a p
                 in case logs p1 instanceId of
                      None \<Rightarrow> (Inl TypeError, p1)
                    | Some ls \<Rightarrow>
                        (Inr (202, PRestart a),
                         p1\<lparr>logs := (logs p1)(instanceId \<mapsto>
                           \<lparr>lg_id = ''log-'' @ show_int (ck_now ck), lg_level = ''info'', lg_timestamp = ck_iso ck,
                            lg_message = ''Hermes Agent restart requested from console''\<rparr> # ls)\<rparr>))
              else if verb = ''GET'' \<and> route = ''agent/logs'' then
                (Inr (200, PLogs (case logs p instanceId of Some ls \<Rightarrow> ls | None \<Rightarrow> [])), p)
              else (Inr (404, PError ''not_found''), p)))"

definition haystack :: "instance_data \<Rightarrow> string" where
  "haystack i = to_lower (js_join '' '' [in_id i, in_name i, in_ipv4 i, in_privateIpv4 i, in_statusText i])"

definition search_hit_of :: "instance_data \<Rightarrow> search_hit" where
  "search_hit_of i = \<lparr>sh_id = in_id i, sh_name = in_name i, sh_statusText = in_statusText i, sh_ipv4 = in_ipv4 i,
     sh_href = ''/console/hermes/instances/'' @ in_id i\<rparr>"

definition handleApi :: "pl_clock \<Rightarrow> adapter \<Rightarrow> pl_request \<Rightarrow> platform \<Rightarrow> pl_answer js \<times> platform" where
  "handleApi ck ad req p =
     (let verb = (if pr_method req \<noteq> [] then pr_method req else ''GET''); parts = path_parts (pr_pathname req)
      in if verb = ''GET'' \<and> pr_pathname req = ''/api/health'' then
           (Inr (200, PHealth (ck_iso ck) (validateConnection ad)), p)
         else if verb = ''GET'' \<and> pr_pathname req = ''/api/agents/search'' then
           (let q = to_lower (js_trim (the_default [] (pr_q req)))
            in (Inr (200, PSearch q (map search_hit_of
                 (filter (\<lambda>i. q = [] \<or> str_includes (haystack i) q) (instances p)))), p))
         else if verb = ''GET'' \<and> pr_pathname req = ''/api/instances'' then (Inr (200, PInstances (instances p)), p)
         else (case parts of
                 a # b # instanceId # tail \<Rightarrow>
                   if a = ''api'' \<and> b = ''instances'' then handleInstanceApi ck req instanceId tail p
                   else (Inr (404, PError ''not_found''), p)
               | _ \<Rightarrow> (Inr (404, PError ''not_found''), p)))"

section \<open>Files\<close>

text \<open>\<open>replace(/^(\.\.(\/|\\|$))+/, '')\<close>.\<close>

fun strip_dots :: "string \<Rightarrow> string" where
  "strip_dots (a # b # c # r) =
     (if a = CHR ''.'' \<and> b = CHR ''.'' \<and> (c = CHR ''/'' \<or> (of_char c :: nat) = 92) then strip_dots r else a # b # c # r)"
| "strip_dots [a, b] = (if a = CHR ''.'' \<and> b = CHR ''.'' then [] else [a, b])"
| "strip_dots s = s"

text \<open>What \<open>stat\<close> and \<open>readFile\<close> find: a file with its content, a directory, or an error.\<close>

datatype fs_node = FsFile string | FsDirectory | FsMissing

datatype file_answer =
    SentFile string string
  | SentIndex string
  | Forbidden
  | NotAnswered

definition serveClient :: "string \<Rightarrow> (string \<Rightarrow> fs_node) \<Rightarrow> string \<Rightarrow> file_answer js" where
  "serveClient clientRoot fs requestedPath =
     rbind (decodeURIComponent requestedPath) (\<lambda>decoded.
       let normalized = strip_dots (path_normalize decoded);
           relativePath = (if normalized = ''/'' \<or> normalized = ''.'' then ''index.html''
                           else dropWhile (\<lambda>c. c = CHR ''/'') normalized);
           resolved = path_resolve (path_join clientRoot relativePath)
       in if \<not> starts_with resolved clientRoot then Inr Forbidden
          else case fs resolved of
            FsFile content \<Rightarrow> Inr (SentFile resolved content)
          | FsDirectory \<Rightarrow> Inr NotAnswered
          | FsMissing \<Rightarrow>
              (case fs (path_join clientRoot ''index.html'') of
                 FsFile index \<Rightarrow> Inr (SentIndex index)
               | _ \<Rightarrow> Inl TypeError))"

section \<open>The server\<close>

text \<open>An answer of the API, of the file server, or the internal error a thrown value becomes.\<close>

datatype server_answer = ApiAnswer pl_answer | FileAnswer file_answer | InternalError

text \<open>
  What arrives: the method, the target and the body, and the \<open>Host\<close> header, an empty text being an absent
  one.  \<open>new URL(target, base)\<close> is the URL parser of the platform, a parameter: it gives the path and the
  value of the query parameter \<open>q\<close>, or throws, as it does for a malformed host.
\<close>

record raw_request =
  rr_method :: string
  rr_url :: string
  rr_host :: string
  rr_body :: string

type_synonym url_parser = "string \<Rightarrow> string \<Rightarrow> (string \<times> string option) option"

definition request_url :: "url_parser \<Rightarrow> raw_request \<Rightarrow> (string \<times> string option) option" where
  "request_url new_URL raw =
     new_URL (if rr_url raw \<noteq> [] then rr_url raw else ''/'')
       (''http://'' @ (if rr_host raw \<noteq> [] then rr_host raw else ''localhost''))"

definition parsed_request :: "raw_request \<Rightarrow> string \<Rightarrow> string option \<Rightarrow> pl_request" where
  "parsed_request raw pathname q = \<lparr>pr_method = rr_method raw, pr_pathname = pathname, pr_q = q, pr_body = rr_body raw\<rparr>"

definition server ::
  "url_parser \<Rightarrow> pl_clock \<Rightarrow> adapter \<Rightarrow> string \<Rightarrow> (string \<Rightarrow> fs_node) \<Rightarrow> raw_request \<Rightarrow> platform \<Rightarrow>
     server_answer \<times> platform" where
  "server new_URL ck ad clientRoot fs raw p =
     (case request_url new_URL raw of
        None \<Rightarrow> (InternalError, p)
      | Some (pathname, q) \<Rightarrow>
          if starts_with pathname ''/api/'' then
            (case handleApi ck ad (parsed_request raw pathname q) p of
               (Inr a, p') \<Rightarrow> (ApiAnswer a, p')
             | (Inl _, p') \<Rightarrow> (InternalError, p'))
          else (case serveClient clientRoot fs pathname of
                  Inr a \<Rightarrow> (FileAnswer a, p)
                | Inl _ \<Rightarrow> (InternalError, p)))"

section \<open>The data the server starts with\<close>

definition runningText :: string where
  "runningText = utf8 [0xE8, 0xBF, 0x90, 0xE8, 0xA1, 0x8C, 0xE4, 0xB8, 0xAD]"

definition wechatText :: string where
  "wechatText = utf8 [0xE5, 0xBE, 0xAE, 0xE4, 0xBF, 0xA1]"

definition mock_instance :: instance_data where
  "mock_instance =
     \<lparr>in_id = ''ins-hermes-001'', in_name = (utf8 [0xE9, 0x98, 0xBF, 0xE7, 0x82, 0xB3, 0xE5, 0xBC, 0x80, 0xE7, 0x9A, 0x84]),
      in_status = ''running'', in_statusText = runningText, in_ipv4 = ''43.128.106.54'', in_privateIpv4 = ''10.10.18.24''\<rparr>"

definition mock_agent :: agent where
  "mock_agent =
     \<lparr>ag_id = ''agent-hermes-001'', ag_instanceId = ''ins-hermes-001'',
      ag_defaultModel = \<lparr>dm_provider = JStr ''custom_subrouter'', dm_model = JStr ''Hy3 preview'', dm_planId = JStr ''hy-token-personal''\<rparr>,
      ag_channels =
        [\<lparr>ch_id = JStr ''wechat'', ch_name = JStr wechatText, ch_status = ''connected'', ch_statusText = connectedText,
          ch_account = JStr (''OpenAsstAI '' @ utf8 [0xE6, 0x95, 0x99, 0xE5, 0xAD, 0xA6, 0xE5, 0x8A, 0xA9, 0xE6, 0x89, 0x8B])\<rparr>,
         \<lparr>ch_id = JStr ''qq'', ch_name = JStr ''QQ'', ch_status = ''connected'', ch_statusText = connectedText,
          ch_account = JStr ''Hermes Agent Bot''\<rparr>],
      ag_installed =
        [\<lparr>sk_id = JStr ''teacher-ai-preparing-lesson'', sk_name = JStr ''teacher-ai-preparing-lesson'',
          sk_version = JStr ''2.1.1'', sk_source = JStr ''SkillHub''\<rparr>,
         \<lparr>sk_id = JStr ''teacher-assistant'', sk_name = JStr ''teacher-assistant'', sk_version = JStr ''1.0.1'',
          sk_source = JStr ''SkillHub''\<rparr>],
      ag_lastRestartedAt = None\<rparr>"

definition mock_logs :: "log_entry list" where
  "mock_logs =
     [\<lparr>lg_id = ''log-001'', lg_level = ''info'', lg_timestamp = ''2026-05-26T00:58:14.000Z'',
       lg_message = ''Hermes Agent heartbeat accepted''\<rparr>,
      \<lparr>lg_id = ''log-002'', lg_level = ''warn'', lg_timestamp = ''2026-05-26T00:49:27.000Z'',
       lg_message = ''Model registry contains one preview model; add a production fallback before public rollout''\<rparr>,
      \<lparr>lg_id = ''log-003'', lg_level = ''info'', lg_timestamp = ''2026-05-26T00:42:03.000Z'',
       lg_message = wechatText @ '' channel token refreshed''\<rparr>]"

definition mock_platform :: platform where
  "mock_platform = \<lparr>instances = [mock_instance], agents = [''ins-hermes-001'' \<mapsto> mock_agent],
     logs = [''ins-hermes-001'' \<mapsto> mock_logs]\<rparr>"

section \<open>Requested paths\<close>

lemma decode_slash:
  "decodeURIComponent (CHR ''/'' # r) = Inr d \<Longrightarrow> \<exists>e. d = CHR ''/'' # e"
  by auto

lemma strip_slash: "strip_dots (CHR ''/'' # r) = CHR ''/'' # r"
  by (cases r rule: strip_dots.cases) auto

section \<open>Properties\<close>

text \<open>
  C4. The file server stays inside the client directory: whatever a request's path decodes to, double
  dots and encoded slashes included, it is never refused, and a file sent is one whose path is the client
  directory followed by plain segments, with that file's content.
\<close>

theorem client_files_contained:
  assumes "list_all plain_segment rs" and "rs \<noteq> []"
    and "serveClient (abs_path rs) fs (CHR ''/'' # r) = Inr ans"
  shows "ans \<noteq> Forbidden \<and>
    (case ans of
       SentFile file content \<Rightarrow> fs file = FsFile content \<and>
         (\<exists>ss. ss \<noteq> [] \<and> list_all plain_segment ss \<and> file = abs_path (rs @ ss))
     | _ \<Rightarrow> True)"
proof -
  from assms(3) obtain e where dec: "decodeURIComponent (CHR ''/'' # r) = Inr (CHR ''/'' # e)"
    using decode_slash by (auto simp: serveClient_def)
  let ?segs = "norm_segments True [] (js_split (CHR ''/'') (CHR ''/'' # e))"
  note N = normalize_abs [OF refl, of e]
  define ss where "ss = (if ?segs = [] then [''index.html''] else ?segs)"
  have plain: "list_all plain_segment ss" "ss \<noteq> []" using N(2) by (auto simp: ss_def plain_segment_def)
  let ?n = "strip_dots (path_normalize (CHR ''/'' # e))"
  have n: "?n = ''/'' @ js_join ''/'' ?segs @ (if ?segs \<noteq> [] \<and> last (CHR ''/'' # e) = CHR ''/'' then ''/'' else [])"
    unfolding N(1) by (simp add: strip_slash)
  have "(if ?n = ''/'' \<or> ?n = ''.'' then ''index.html'' else dropWhile (\<lambda>c. c = CHR ''/'') ?n) =
      js_join ''/'' ss @ (if ?segs \<noteq> [] \<and> last (CHR ''/'' # e) = CHR ''/'' then ''/'' else [])"
  proof (cases "?segs = []")
    case True
    then show ?thesis unfolding n by (simp add: ss_def)
  next
    case False
    obtain c t where "js_join ''/'' ?segs = c # t" "c \<noteq> CHR ''/''" using N(2) False by (rule joined_head)
    then show ?thesis unfolding n using False by (simp add: ss_def)
  qed
  then have "path_resolve (path_join (abs_path rs) (if ?n = ''/'' \<or> ?n = ''.'' then ''index.html''
      else dropWhile (\<lambda>c. c = CHR ''/'') ?n)) = abs_path (rs @ ss)"
    using resolve_join [OF assms(1,2) plain] by simp
  moreover have "starts_with (abs_path (rs @ ss)) (abs_path rs)" by (auto simp: starts_with_iff abs_path_def)
  ultimately show ?thesis
    using assms(3) plain dec by (auto simp: serveClient_def Let_def split: fs_node.splits)
qed

theorem client_files_contained_witness:
  "\<exists>ans. serveClient ''/srv/client'' (\<lambda>f. FsFile f) ''/..%2F..%2Fetc/passwd'' = Inr ans \<and> ans \<noteq> Forbidden"
proof -
  have root: "abs_path [''srv'', ''client''] = ''/srv/client''" by (simp add: abs_path_def)
  have "serveClient ''/srv/client'' (\<lambda>f. FsFile f) ''/..%2F..%2Fetc/passwd'' =
      Inr (SentFile ''/srv/client/etc/passwd'' ''/srv/client/etc/passwd'')"
    by code_simp
  then show ?thesis
    using client_files_contained [of "[''srv'', ''client'']" "\<lambda>f. FsFile f" "''..%2F..%2Fetc/passwd''"] root
    by (auto simp: plain_segment_def)
qed

text \<open>The invariant of the data: instances have different identifiers and every agent has a log.\<close>

definition platform_ok :: "platform \<Rightarrow> bool" where
  "platform_ok p \<longleftrightarrow> distinct (map in_id (instances p)) \<and> (\<forall>i. agents p i \<noteq> None \<longrightarrow> logs p i \<noteq> None)"

definition bad_body :: "pl_request \<Rightarrow> bool" where
  "bad_body req = (case readJsonBody req of Inl _ \<Rightarrow> True | Inr v \<Rightarrow> v = JNull \<or> v = JUndef)"

lemma body_error:
  "rbind (readJsonBody req) (\<lambda>body. updateDefaultModel body agent) = Inl e \<Longrightarrow> bad_body req"
  "rbind (readJsonBody req) (newChannel ck) = Inl e \<Longrightarrow> bad_body req"
  "rbind (readJsonBody req) (newSkill ck) = Inl e \<Longrightarrow> bad_body req"
  by (auto simp: bad_body_def rbind_eq_Inl body_get_def updateDefaultModel_def newChannel_def newSkill_def Let_def
      split: sum.splits if_splits)

lemma platform_ok_mock: "platform_ok mock_platform"
  by (simp add: platform_ok_def mock_platform_def)

text \<open>What one request to an instance may do to the data.\<close>

lemma handleInstanceApi_frame:
  assumes "handleInstanceApi ck req i tail p = (r, p')"
  shows "instances p' = instances p" and "\<And>j. j \<noteq> i \<Longrightarrow> agents p' j = agents p j \<and> logs p' j = logs p j"
    and "\<And>j. agents p' j = None \<longleftrightarrow> agents p j = None" and "\<And>j. logs p' j = None \<longleftrightarrow> logs p j = None"
  using assms
  by (auto simp: handleInstanceApi_def Let_def set_agent_def findAgent_def split: option.splits if_splits sum.splits)

lemma handleInstanceApi_total:
  assumes "platform_ok p" and "handleInstanceApi ck req i tail p = (Inl e, p')"
  shows "bad_body req \<and> p' = p"
  using assms
  by (auto simp: handleInstanceApi_def Let_def set_agent_def findAgent_def platform_ok_def
      split: option.splits if_splits sum.splits dest: body_error)

lemma handleApi_instance:
  assumes "handleApi ck ad req p = (r, p')"
  shows "(p' = p \<and> (\<exists>a. r = Inr a)) \<or> (\<exists>i tail. handleInstanceApi ck req i tail p = (r, p'))"
  using assms by (auto simp: handleApi_def Let_def split: if_splits list.splits)

lemma handleApi_keeps:
  assumes "platform_ok p" and "handleApi ck ad req p = (r, p')"
  shows "platform_ok p'"
  using handleApi_instance [OF assms(2)]
proof
  assume "\<exists>i tail. handleInstanceApi ck req i tail p = (r, p')"
  then obtain i tail where h: "handleInstanceApi ck req i tail p = (r, p')" by blast
  show ?thesis using assms(1) unfolding platform_ok_def handleInstanceApi_frame(1,3,4) [OF h] .
qed (use assms(1) in simp)

definition serve_all ::
  "url_parser \<Rightarrow> adapter \<Rightarrow> string \<Rightarrow> (string \<Rightarrow> fs_node) \<Rightarrow> (pl_clock \<times> raw_request) list \<Rightarrow> platform \<Rightarrow> platform" where
  "serve_all new_URL ad root fs reqs p = fold (\<lambda>(ck, req) q. snd (server new_URL ck ad root fs req q)) reqs p"

lemma serve_all_ok: "platform_ok p \<Longrightarrow> platform_ok (serve_all new_URL ad root fs reqs p)"
proof (induction reqs arbitrary: p)
  case Nil
  then show ?case by (simp add: serve_all_def)
next
  case (Cons x reqs)
  obtain ck req where x: "x = (ck, req)" by (cases x)
  have "platform_ok (snd (server new_URL ck ad root fs req p))"
    using Cons.prems handleApi_keeps by (auto simp: server_def split: option.split sum.split prod.split)
  then show ?case using Cons.IH by (simp add: serve_all_def x)
qed

text \<open>
  C23. After any sequence of requests an internal error has one of three causes, and the data is unchanged
  then: the URL parser rejected the target or the \<open>Host\<close> header, a request of the API has a body that is
  not JSON, or is \<open>null\<close>, or the file server threw (a badly encoded path, or no index page).
\<close>

theorem api_fails_only_on_bad_body:
  assumes "server new_URL ck ad root fs raw (serve_all new_URL ad root fs reqs mock_platform) = (InternalError, p')"
  shows "p' = serve_all new_URL ad root fs reqs mock_platform \<and>
    (case request_url new_URL raw of
       None \<Rightarrow> True
     | Some (pathname, q) \<Rightarrow>
         if starts_with pathname ''/api/'' then bad_body (parsed_request raw pathname q)
         else \<exists>e. serveClient root fs pathname = Inl e)"
proof (cases "request_url new_URL raw")
  case None
  then show ?thesis using assms by (simp add: server_def)
next
  case (Some u)
  obtain pathname q where u: "u = (pathname, q)" by (cases u)
  let ?p = "serve_all new_URL ad root fs reqs mock_platform" and ?req = "parsed_request raw pathname q"
  have okp: "platform_ok ?p" using platform_ok_mock by (rule serve_all_ok)
  show ?thesis
  proof (cases "starts_with pathname ''/api/''")
    case True
    with assms Some u obtain e where h: "handleApi ck ad ?req ?p = (Inl e, p')"
      by (auto simp: server_def split: sum.splits prod.splits)
    then obtain i tail where "handleInstanceApi ck ?req i tail ?p = (Inl e, p')"
      using handleApi_instance [OF h] by auto
    with handleInstanceApi_total [OF okp] True Some u show ?thesis by auto
  next
    case False
    then show ?thesis using assms Some u by (auto simp: server_def split: sum.splits)
  qed
qed

definition bad_request :: raw_request where
  "bad_request = \<lparr>rr_method = ''POST'', rr_url = ''/api/instances/ins-hermes-001/agent/channels'', rr_host = [],
     rr_body = ''null''\<rparr>"

text \<open>A parser for targets without a query that rejects hosts with a blank.\<close>

definition plain_URL :: url_parser where
  "plain_URL target base = (if CHR '' '' \<in> set base then None else Some (target, None))"

theorem api_fails_only_on_bad_body_witness:
  "\<exists>p'. server plain_URL \<lparr>ck_now = 1, ck_iso = ''t''\<rparr> \<lparr>ad_endpoint = [], ad_username = [], ad_password = []\<rparr> ''/c'' (\<lambda>f. FsMissing)
     bad_request (serve_all plain_URL \<lparr>ad_endpoint = [], ad_username = [], ad_password = []\<rparr> ''/c'' (\<lambda>f. FsMissing) [] mock_platform)
     = (InternalError, p') \<and> bad_body (parsed_request bad_request (rr_url bad_request) None)"
proof -
  let ?ad = "\<lparr>ad_endpoint = [], ad_username = [], ad_password = []\<rparr>" and ?fs = "\<lambda>f. FsMissing"
  have null: "json_parse ''null'' = Inr JNull"
    using json_roundtrip [of JNull] by simp
  have path: "path_parts ''/api/instances/ins-hermes-001/agent/channels'' = [''api'', ''instances'', ''ins-hermes-001'', ''agent'', ''channels'']"
    by (simp add: path_parts_def)
  have url: "request_url plain_URL bad_request = Some (rr_url bad_request, None)"
    by (simp add: request_url_def plain_URL_def bad_request_def)
  have api: "starts_with (rr_url bad_request) ''/api/''" by (simp add: bad_request_def)
  have "\<exists>p'. server plain_URL \<lparr>ck_now = 1, ck_iso = ''t''\<rparr> ?ad ''/c'' ?fs bad_request
      (serve_all plain_URL ?ad ''/c'' ?fs [] mock_platform) = (InternalError, p')"
    by (simp add: server_def url api parsed_request_def)
       (simp add: handleApi_def handleInstanceApi_def Let_def bad_request_def path serve_all_def mock_platform_def
        findInstance_def findAgent_def mock_instance_def readJsonBody_def null newChannel_def body_get_def)
  then obtain p' where run: "server plain_URL \<lparr>ck_now = 1, ck_iso = ''t''\<rparr> ?ad ''/c'' ?fs bad_request
      (serve_all plain_URL ?ad ''/c'' ?fs [] mock_platform) = (InternalError, p')" ..
  from api_fails_only_on_bad_body [OF run] run url api show ?thesis by auto
qed

text \<open>
  Requests to one instance do not touch another: whatever is asked of an instance, the instances stay
  as they are and so do the agent and the log of every other instance; a request that only reads changes
  nothing at all.
\<close>

theorem instance_requests_isolated:
  assumes "handleInstanceApi ck req i tail p = (r, p')"
  shows "instances p' = instances p \<and> (\<forall>j. j = i \<or> agents p' j = agents p j \<and> logs p' j = logs p j) \<and>
    (pr_method req \<notin> {''POST'', ''PATCH''} \<longrightarrow> p' = p)"
proof -
  have "p' = p" if "pr_method req \<notin> {''POST'', ''PATCH''}"
    using assms that by (auto simp: handleInstanceApi_def Let_def split: option.splits if_splits sum.splits)
  then show ?thesis using handleInstanceApi_frame [OF assms] by blast
qed

definition get_request :: "string \<Rightarrow> pl_request" where
  "get_request path = \<lparr>pr_method = ''GET'', pr_pathname = path, pr_q = None, pr_body = []\<rparr>"

theorem instance_requests_isolated_witness:
  "snd (handleInstanceApi \<lparr>ck_now = 1, ck_iso = ''t''\<rparr> (get_request ''/api/instances/ins-hermes-001/agent'')
     ''ins-hermes-001'' [''agent''] mock_platform) = mock_platform"
proof -
  obtain r p' where run: "handleInstanceApi \<lparr>ck_now = 1, ck_iso = ''t''\<rparr> (get_request ''/api/instances/ins-hermes-001/agent'')
      ''ins-hermes-001'' [''agent''] mock_platform = (r, p')" by fastforce
  from instance_requests_isolated [OF run] have "p' = mock_platform" by (simp add: get_request_def)
  then show ?thesis using run by simp
qed

text \<open>
  A changed default model is what the agent answers with: after \<open>PATCH .../agent/models/default\<close> with
  an object, \<open>GET .../agent\<close> gives the agent whose default model has the fields the object gives a truthy
  value and its old fields otherwise, and nothing else of it changes.
\<close>

theorem default_model_read_back:
  assumes "findInstance p i = Some inst" and "agents p i = Some a"
    and "pr_method req = ''PATCH''" and "readJsonBody req = Inr (JObj body)"
    and "handleInstanceApi ck req i [''agent'', ''models'', ''default''] p = (r, p')"
  shows "fst (handleInstanceApi ck' (get_request path) i [''agent''] p') =
    Inr (200, PAgent (a\<lparr>ag_defaultModel :=
      \<lparr>dm_provider = js_or (obj_get body ''provider'') (dm_provider (ag_defaultModel a)),
       dm_model = js_or (obj_get body ''model'') (dm_model (ag_defaultModel a)),
       dm_planId = js_or (obj_get body ''planId'') (dm_planId (ag_defaultModel a))\<rparr>\<rparr>))"
proof -
  let ?a = "a\<lparr>ag_defaultModel :=
      \<lparr>dm_provider = js_or (obj_get body ''provider'') (dm_provider (ag_defaultModel a)),
       dm_model = js_or (obj_get body ''model'') (dm_model (ag_defaultModel a)),
       dm_planId = js_or (obj_get body ''planId'') (dm_planId (ag_defaultModel a))\<rparr>\<rparr>"
  have "p' = set_agent i ?a p"
    using assms by (simp add: handleInstanceApi_def findAgent_def updateDefaultModel_def body_get_def Let_def)
  moreover have "findInstance (set_agent i ?a p) i = Some inst"
    using assms(1) by (simp add: findInstance_def set_agent_def)
  ultimately show ?thesis by (simp add: handleInstanceApi_def findAgent_def get_request_def set_agent_def)
qed

definition patch_request :: pl_request where
  "patch_request = \<lparr>pr_method = ''PATCH'', pr_pathname = ''/api/instances/ins-hermes-001/agent/models/default'', pr_q = None,
     pr_body = json_stringify (JObj [(''model'', JStr ''M2'')])\<rparr>"

theorem default_model_read_back_witness:
  "fst (handleInstanceApi \<lparr>ck_now = 2, ck_iso = ''t''\<rparr> (get_request ''x'') ''ins-hermes-001'' [''agent'']
     (snd (handleInstanceApi \<lparr>ck_now = 1, ck_iso = ''t''\<rparr> patch_request ''ins-hermes-001'' [''agent'', ''models'', ''default'']
       mock_platform))) =
   Inr (200, PAgent (mock_agent\<lparr>ag_defaultModel :=
     \<lparr>dm_provider = JStr ''custom_subrouter'', dm_model = JStr ''M2'', dm_planId = JStr ''hy-token-personal''\<rparr>\<rparr>))"
proof -
  obtain r p' where run: "handleInstanceApi \<lparr>ck_now = 1, ck_iso = ''t''\<rparr> patch_request ''ins-hermes-001''
      [''agent'', ''models'', ''default''] mock_platform = (r, p')" by fastforce
  have body: "readJsonBody patch_request = Inr (JObj [(''model'', JStr ''M2'')])"
    using json_roundtrip [of "JObj [(''model'', JStr ''M2'')]"] by (simp add: readJsonBody_def patch_request_def)
  have inst: "findInstance mock_platform ''ins-hermes-001'' = Some mock_instance"
    by (simp add: findInstance_def mock_platform_def mock_instance_def)
  have ag: "agents mock_platform ''ins-hermes-001'' = Some mock_agent" by (simp add: mock_platform_def)
  from default_model_read_back [OF inst ag _ body run] run show ?thesis
    by (simp add: patch_request_def obj_get_def js_or_def) (simp add: mock_agent_def)
qed

lemma find_unique: "distinct (map f xs) \<Longrightarrow> x \<in> set xs \<Longrightarrow> List.find (\<lambda>y. f y = f x) xs = Some x"
  by (induction xs) auto

text \<open>
  The search finds exactly the instances whose text contains the query, and every hit can be opened:
  asking the API for the identifier of a hit answers with the instance it was made from.
\<close>

theorem search_hits_open:
  assumes "platform_ok p" and "handleApi ck ad req p = (Inr (200, PSearch q hits), p')" and "hit \<in> set hits"
  shows "p' = p \<and> hits = map search_hit_of (filter (\<lambda>i. q = [] \<or> str_includes (haystack i) q) (instances p)) \<and>
    (\<exists>inst \<in> set (instances p). hit = search_hit_of inst \<and> (q = [] \<or> str_includes (haystack inst) q) \<and>
    fst (handleInstanceApi ck' (get_request path) (sh_id hit) [] p) = Inr (200, PInstance inst))"
proof -
  have hits: "hits = map search_hit_of (filter (\<lambda>i. q = [] \<or> str_includes (haystack i) q) (instances p))" and p': "p' = p"
    using assms(2) by (auto simp: handleApi_def handleInstanceApi_def Let_def split: if_splits list.splits option.splits sum.splits)
  then obtain inst where inst: "inst \<in> set (instances p)" "hit = search_hit_of inst" "q = [] \<or> str_includes (haystack inst) q"
    using assms(3) by auto
  have "List.find (\<lambda>i. in_id i = in_id inst) (instances p) = Some inst"
    using assms(1) inst(1) by (intro find_unique) (simp_all add: platform_ok_def)
  then have "fst (handleInstanceApi ck' (get_request path) (sh_id hit) [] p) = Inr (200, PInstance inst)"
    by (simp add: handleInstanceApi_def findInstance_def inst(2) search_hit_of_def get_request_def)
  then show ?thesis using p' hits inst by blast
qed

theorem search_hits_open_witness:
  "fst (handleInstanceApi \<lparr>ck_now = 1, ck_iso = ''t''\<rparr> (get_request ''x'') ''ins-hermes-001'' [] mock_platform) =
     Inr (200, PInstance mock_instance)"
proof -
  let ?ad = "\<lparr>ad_endpoint = [], ad_username = [], ad_password = []\<rparr>"
  have "handleApi \<lparr>ck_now = 1, ck_iso = ''t''\<rparr> ?ad (get_request ''/api/agents/search'') mock_platform =
      (Inr (200, PSearch [] [search_hit_of mock_instance]), mock_platform)"
    by (simp add: handleApi_def get_request_def js_trim_def to_lower_def mock_platform_def)
  from search_hits_open [OF platform_ok_mock this, of "search_hit_of mock_instance" "\<lparr>ck_now = 1, ck_iso = ''t''\<rparr>" "''x''"]
  show ?thesis by (auto simp: mock_platform_def search_hit_of_def mock_instance_def)
qed

end
