(* ===== verification/Client_Values.thy ===== *)
theory Client_Values
  imports Http Json
begin

text \<open>
  The client's utilities on values (\<open>modules/utils/helpers.js\<close>, \<open>modules/utils/merge.js\<close>, and
  \<open>calculateIndex\<close> of \<open>modules/utils/schema.js\<close>): access by path, cleaning, merging, grouping and
  searching.  A function that mutates its argument is a function to the mutated argument.  Regular
  expressions and dates do not occur among the values, keys of objects are not array indices, and an
  array has no properties but its elements and its length.
\<close>

section \<open>Property access\<close>

definition nullish :: "jsval \<Rightarrow> bool" where
  "nullish v \<longleftrightarrow> v = JUndef \<or> v = JNull"

definition is_array :: "jsval \<Rightarrow> bool" where
  "is_array v = (case v of JArr _ \<Rightarrow> True | _ \<Rightarrow> False)"

definition is_object :: "jsval \<Rightarrow> bool" where
  "is_object v = (case v of JObj _ \<Rightarrow> True | JArr _ \<Rightarrow> True | _ \<Rightarrow> False)"

definition array_index :: "string \<Rightarrow> nat option" where
  "array_index k = (if k \<noteq> [] \<and> list_all is_digit k \<and> to_base 10 (digits_val k) = k then Some (digits_val k) else None)"

definition elem_at :: "jsval list \<Rightarrow> string \<Rightarrow> jsval" where
  "elem_at xs k = (case array_index k of
     Some i \<Rightarrow> if i < length xs then xs ! i else JUndef
   | None \<Rightarrow> if k = ''length'' then JNum (int (length xs)) else JUndef)"

text \<open>\<open>v[k]\<close> for a value that is neither null nor undefined.\<close>

fun js_get :: "jsval \<Rightarrow> string \<Rightarrow> jsval" where
  "js_get (JObj fs) k = obj_get fs k"
| "js_get (JArr xs) k = elem_at xs k"
| "js_get (JStr s) k = elem_at (map (\<lambda>c. JStr [c]) s) k"
| "js_get _ k = JUndef"

text \<open>\<open>v[k] = x\<close>: an index past the end of an array extends it.\<close>

definition array_put :: "jsval list \<Rightarrow> nat \<Rightarrow> jsval \<Rightarrow> jsval list" where
  "array_put xs i x = (xs @ replicate (Suc i - length xs) JUndef)[i := x]"

fun js_put :: "jsval \<Rightarrow> string \<Rightarrow> jsval \<Rightarrow> jsval" where
  "js_put (JObj fs) k x = JObj (AList.update k x fs)"
| "js_put (JArr xs) k x = (case array_index k of Some i \<Rightarrow> JArr (array_put xs i x) | None \<Rightarrow> JArr xs)"
| "js_put v k x = v"

text \<open>\<open>Object.entries(v)\<close> for an object or an array.\<close>

definition indexed :: "jsval list \<Rightarrow> (string \<times> jsval) list" where
  "indexed xs = zip (map (to_base 10) [0..<length xs]) xs"

fun entries :: "jsval \<Rightarrow> (string \<times> jsval) list" where
  "entries (JObj fs) = fs"
| "entries (JArr xs) = indexed xs"
| "entries _ = []"

section \<open>Access by path\<close>

text \<open>\<open>s.split(/[...]+?/).filter(Boolean)\<close>: the non-empty runs between the characters of a class.\<close>

fun split_on :: "(char \<Rightarrow> bool) \<Rightarrow> string \<Rightarrow> string list" where
  "split_on P [] = [[]]"
| "split_on P (x # xs) =
     (if P x then [] # split_on P xs
      else case split_on P xs of [] \<Rightarrow> [[x]] | w # ws \<Rightarrow> (x # w) # ws)"

definition keys_of :: "(char \<Rightarrow> bool) \<Rightarrow> string \<Rightarrow> string list" where
  "keys_of P path = filter (\<lambda>k. k \<noteq> []) (split_on P path)"

definition bracket :: "char \<Rightarrow> bool" where
  "bracket c \<longleftrightarrow> c = CHR '','' \<or> c = CHR ''['' \<or> c = CHR '']''"

definition travel :: "jsval \<Rightarrow> string list \<Rightarrow> jsval" where
  "travel obj ks = foldl (\<lambda>res k. if nullish res then res else js_get res k) obj ks"

definition get :: "jsval \<Rightarrow> string \<Rightarrow> jsval \<Rightarrow> jsval" where
  "get obj path defaultValue =
     (let first = travel obj (keys_of bracket path);
          result = (if truthy first then first else travel obj (keys_of (\<lambda>c. bracket c \<or> c = CHR ''.'') path))
      in if result = JUndef \<or> result = obj then defaultValue else result)"

text \<open>\<open>Math.abs(k) >> 0 === +k\<close>.\<close>

definition index_like :: "string \<Rightarrow> bool" where
  "index_like k = (case string_number k of Some n \<Rightarrow> 0 \<le> n \<and> n < 2 ^ 31 | None \<Rightarrow> False)"

fun set_at :: "jsval \<Rightarrow> string list \<Rightarrow> jsval \<Rightarrow> jsval" where
  "set_at obj [] v = js_put obj ''undefined'' v"
| "set_at obj [k] v = js_put obj k v"
| "set_at obj (k # k' # ks) v =
     (let child = js_get obj k
      in js_put obj k (set_at (if is_object child then child else if index_like k' then JArr [] else JObj []) (k' # ks) v))"

definition set_path :: "jsval \<Rightarrow> string \<Rightarrow> jsval \<Rightarrow> jsval" where
  "set_path obj path v =
     (if \<not> is_object obj then obj
      else set_at obj (keys_of (\<lambda>c. c = CHR ''.'' \<or> c = CHR ''['' \<or> c = CHR '']'') path) v)"

section \<open>Cleaning\<close>

definition isMergeableObject :: "jsval \<Rightarrow> bool" where
  "isMergeableObject v = is_object v"

definition keeps_entry :: "jsval \<Rightarrow> bool" where
  "keeps_entry v = (if isMergeableObject v then list_ex (\<lambda>(k, x). \<not> nullish x) (entries v) else True)"

lemma size_elem: "x \<in> set xs \<Longrightarrow> size x < Suc (size_list size xs)" for x :: jsval
  using size_list_estimation' [of x xs "size x" size] by simp

lemma size_entries: "(k, v) \<in> set (entries w) \<Longrightarrow> size v < size w"
proof (cases w)
  case (JObj fs)
  assume "(k, v) \<in> set (entries w)"
  then have "(k, v) \<in> set fs" using JObj by simp
  then have "size_prod (\<lambda>_. 0) size (k, v) \<le> size_list (size_prod (\<lambda>_. 0) size) fs"
    by (rule size_list_estimation') simp
  then show ?thesis using JObj by simp
qed (auto simp: indexed_def dest!: set_zip_rightD size_elem)

text \<open>The branch for arrays in the mapping is not reached: an array is mergeable, so it is cleaned as
  an object whose keys are the indices.\<close>

function cleanEmptyObject :: "jsval \<Rightarrow> jsval" and cleanEmpty :: "jsval \<Rightarrow> jsval" where
  "cleanEmptyObject v =
     (let es = map (\<lambda>(k, x). (k, if isMergeableObject x then cleanEmptyObject x else x))
                 (filter (\<lambda>(k, x). keeps_entry x) (entries v))
      in if es = [] then JUndef else JObj (filter (\<lambda>(k, x). \<not> nullish x) es))"
| "cleanEmpty v =
     (case v of
        JArr xs \<Rightarrow> JArr (filter (\<lambda>x. \<not> nullish x) (map (\<lambda>x. if isMergeableObject x then cleanEmpty x else x) xs))
      | _ \<Rightarrow> cleanEmptyObject v)"
  by pat_completeness auto
termination
  by (relation "measure (\<lambda>x. case x of Inl v \<Rightarrow> 2 * size v | Inr v \<Rightarrow> Suc (2 * size v))")
     (auto dest: size_entries simp: less_Suc_eq_le size_list_estimation' intro: le_SucI)

declare cleanEmptyObject.simps [simp del] cleanEmpty.simps [simp del]

section \<open>Merging\<close>

text \<open>\<open>deepmerge(target, source)\<close> without options, as every caller has it: \<open>cloneIfNecessary\<close> then returns
  its argument, and arrays are merged by \<open>defaultArrayMerge\<close>.  \<open>target[k]\<close> throws for a target that is
  null or undefined.\<close>

definition put_at :: "jsval list \<Rightarrow> nat \<Rightarrow> jsval \<Rightarrow> jsval list" where
  "put_at xs i x = array_put xs i x"

definition at :: "jsval list \<Rightarrow> nat \<Rightarrow> jsval" where
  "at xs i = (if i < length xs then xs ! i else JUndef)"

function deepmerge :: "jsval \<Rightarrow> jsval \<Rightarrow> jsval js"
  and defaultArrayMerge :: "jsval list \<Rightarrow> nat \<Rightarrow> jsval list \<Rightarrow> jsval list \<Rightarrow> jsval list js"
  and mergeObject :: "jsval \<Rightarrow> jsobj \<Rightarrow> (string \<times> jsval) list \<Rightarrow> jsobj js"
where
  "deepmerge target (JArr es) =
     (case target of
        JArr ts \<Rightarrow> rbind (defaultArrayMerge ts 0 ts es) (\<lambda>xs. Inr (JArr xs))
      | _ \<Rightarrow> Inr (JArr es))"
| "deepmerge target (JObj fs) =
     rbind (mergeObject target (if isMergeableObject target then entries target else []) fs) (\<lambda>o'. Inr (JObj o'))"
| "deepmerge target JUndef = Inl TypeError"
| "deepmerge target JNull = Inl TypeError"
| "deepmerge target (JBool b) = Inr (JObj (if isMergeableObject target then entries target else []))"
| "deepmerge target (JNum n) = Inr (JObj (if isMergeableObject target then entries target else []))"
| "deepmerge target (JStr s) =
     Inr (JObj (obj_spread (if isMergeableObject target then entries target else []) (indexed (map (\<lambda>c. JStr [c]) s))))"
| "defaultArrayMerge target i destination [] = Inr destination"
| "defaultArrayMerge target i destination (e # es) =
     (if at destination i = JUndef then defaultArrayMerge target (Suc i) (put_at destination i e) es
      else if isMergeableObject e then
        rbind (deepmerge (at target i) e) (\<lambda>m. defaultArrayMerge target (Suc i) (put_at destination i m) es)
      else if e \<notin> set target then defaultArrayMerge target (Suc i) (destination @ [e]) es
      else defaultArrayMerge target (Suc i) destination es)"
| "mergeObject target destination [] = Inr destination"
| "mergeObject target destination ((k, v) # fs) =
     (if \<not> isMergeableObject v then mergeObject target (AList.update k v destination) fs
      else if nullish target then Inl TypeError
      else if \<not> truthy (js_get target k) then mergeObject target (AList.update k v destination) fs
      else rbind (deepmerge (js_get target k) v) (\<lambda>m. mergeObject target (AList.update k m destination) fs))"
  by pat_completeness auto
termination
  by (relation "measure (\<lambda>x. case x of
         Inl (t, s) \<Rightarrow> size s
       | Inr (Inl (t, i, d, es)) \<Rightarrow> size_list size es
       | Inr (Inr (t, d, fs)) \<Rightarrow> size_list (size_prod (\<lambda>_. 0) size) fs)") auto

text \<open>\<open>deepmerge.all\<close>.\<close>

fun deepmergeAll :: "jsval list \<Rightarrow> jsval js" where
  "deepmergeAll (x # y # zs) = foldl (\<lambda>acc z. rbind acc (\<lambda>p. deepmerge p z)) (Inr x) (y # zs)"
| "deepmergeAll _ = Inl TypeError"

definition flattenObjectByKeys :: "jsobj \<Rightarrow> string list \<Rightarrow> jsobj" where
  "flattenObjectByKeys obj keysToFlatten =
     fold (\<lambda>k result. if is_object (obj_get result k)
                      then AList.delete k (obj_spread result (entries (obj_get result k)))
                      else result) keysToFlatten obj"

section \<open>Lists and objects\<close>

text \<open>\<open>filterBy\<close>: the first item of every key, in the order of the keys.\<close>

definition filterBy :: "('a \<Rightarrow> jsval) \<Rightarrow> 'a list \<Rightarrow> 'a list" where
  "filterBy callback arr =
     map snd (foldl (\<lambda>m item. let k = callback item in if k \<in> fst ` set m then m else m @ [(k, item)]) [] arr)"

text \<open>\<open>groupBy\<close> for keys without the characters that \<open>set\<close> splits at.\<close>

definition groupBy :: "jsval list \<Rightarrow> string \<Rightarrow> jsval" where
  "groupBy list key =
     foldl (\<lambda>groups obj.
       let keyValue = (case get obj key JUndef of JStr s \<Rightarrow> s | JNum n \<Rightarrow> show_int n | _ \<Rightarrow> ''undefined'');
           old = (case js_get groups keyValue of JArr xs \<Rightarrow> xs | _ \<Rightarrow> [])
       in set_path groups keyValue (JArr (old @ (case obj of JArr ys \<Rightarrow> ys | _ \<Rightarrow> [obj])))) (JObj []) list"

fun intersperse :: "jsval list \<Rightarrow> jsval \<Rightarrow> jsval list" where
  "intersperse arr sep =
     (case filter truthy arr of
        [] \<Rightarrow> []
      | x # xs \<Rightarrow> foldl (\<lambda>acc y. acc @ [sep, y]) [x] xs)"

definition getUnknownAttributes :: "jsobj \<Rightarrow> string list \<Rightarrow> jsobj" where
  "getUnknownAttributes obj attributes =
     fold (\<lambda>(k, v) unknown. if k \<notin> set attributes \<and> v \<noteq> JUndef then AList.update k (obj_get obj k) unknown else unknown) obj []"

definition responseDataToArray :: "jsval \<Rightarrow> jsval list option" where
  "responseDataToArray v = (if truthy v then (case v of JArr xs \<Rightarrow> Some xs | _ \<Rightarrow> Some [v]) else None)"

text \<open>The position in a list of the \<open>position\<close>-th item that is not marked as deleted, or -1.\<close>

fun calculateIndex_from :: "nat \<Rightarrow> int \<Rightarrow> int \<Rightarrow> jsval list \<Rightarrow> int" where
  "calculateIndex_from i acc position [] = -1"
| "calculateIndex_from i acc position (x # xs) =
     (if \<not> truthy (prop_get x ''__delete__'')
      then if acc = position then int i else calculateIndex_from (Suc i) (acc + 1) position xs
      else calculateIndex_from (Suc i) acc position xs)"

definition calculateIndex :: "jsval list \<Rightarrow> int \<Rightarrow> int" where
  "calculateIndex list position = calculateIndex_from 0 0 position list"

section \<open>Searching\<close>

text \<open>\<open>keyToFind in obj\<close>.\<close>

definition has_key :: "jsval \<Rightarrow> string \<Rightarrow> bool" where
  "has_key v k \<longleftrightarrow> k \<in> fst ` set (entries v) \<or> is_array v \<and> k = ''length''"

definition label :: "jsval \<Rightarrow> string \<Rightarrow> string" where
  "label v k = (if is_array v then ''['' @ k @ '']'' else k)"

text \<open>The paths \<open>findKeyWithPath\<close> finds.  Its cache is keyed by all the arguments, so it returns what the
  search would.\<close>

function findKeyWithPath :: "bool \<Rightarrow> string \<Rightarrow> string list \<Rightarrow> jsval \<Rightarrow> string list list" where
  "findKeyWithPath findAll keyToFind path obj =
     (if \<not> is_object obj then []
      else if has_key obj keyToFind then [path @ [keyToFind]]
      else let rs = map (\<lambda>(k, x). findKeyWithPath findAll keyToFind (path @ [label obj k]) x) (entries obj)
           in if findAll then concat rs else (case filter (\<lambda>r. r \<noteq> []) rs of [] \<Rightarrow> [] | r # _ \<Rightarrow> r))"
  by pat_completeness auto
termination
  by (relation "measure (\<lambda>(a, b, c, v). size v)") (auto dest: size_entries)

declare findKeyWithPath.simps [simp del]

definition extractTab :: "string \<Rightarrow> string option" where
  "extractTab str =
     (let parts = js_split (CHR ''.'') str; n = length parts
      in if last parts \<noteq> [] \<and> list_all is_digit (last parts)
         then (if n \<ge> 2 then Some (parts ! (n - 2)) else None)
         else Some (last parts))"

definition TAB_FORM_MAP :: "(string \<times> string list) list" where
  "TAB_FORM_MAP =
     [(''Storage'', [''DISK'', ''TM_MAD_SYSTEM'']),
      (''Network'', [''NIC'', ''NIC_ALIAS'', ''PCI'', ''NIC_DEFAULT'']),
      (''OsCpu'', [''OS'', ''CPU_MODEL'', ''FEATURES'', ''MEMORY_ENCRYPTION'', ''RAW'', ''TPM'']),
      (''PciDevices'', [''PCI'']),
      (''InputOutput'', [''INPUT'', ''GRAPHICS'', ''VIDEO'']),
      (''Context'', [''CONTEXT'', ''USER_INPUTS'', ''INPUTS_ORDER'']),
      (''ScheduleAction'', [''SCHED_ACTION'']),
      (''Placement'', [''SCHED_DS_RANK'', ''SCHED_DS_REQUIREMENTS'', ''SCHED_RANK'', ''SCHED_REQUIREMENTS'']),
      (''NUMA'', [''TOPOLOGY'']),
      (''Backup'', [''BACKUP_CONFIG''])]"

text \<open>The functions of lodash that the sources call.\<close>

record lodash =
  lo_get :: "jsval \<Rightarrow> string \<Rightarrow> jsval \<Rightarrow> jsval"
  lo_set :: "jsval \<Rightarrow> string \<Rightarrow> jsval \<Rightarrow> jsval"
  lo_merge :: "jsval \<Rightarrow> jsval \<Rightarrow> jsval"
  lo_pullAt :: "jsval list \<Rightarrow> nat \<Rightarrow> jsval list"
  lo_pickBy :: "jsval \<Rightarrow> (jsval \<Rightarrow> string \<Rightarrow> bool) \<Rightarrow> jsval"

definition parsePayload :: "lodash \<Rightarrow> jsval \<Rightarrow> string \<Rightarrow> jsval" where
  "parsePayload lo payload fieldPath =
     (let TAB = extractTab fieldPath
      in if payload = JUndef \<or> \<not> str_includes fieldPath ''extra'' then payload
         else case map_of TAB_FORM_MAP (the_default ''undefined'' TAB) of
           None \<Rightarrow> JObj []
         | Some relevantFields \<Rightarrow>
             JObj (fold (\<lambda>k parsed.
               (case findKeyWithPath False k [] payload of
                  [] \<Rightarrow> parsed
                | p # _ \<Rightarrow>
                    let v = lo_get lo payload (js_join ''.'' p) (JObj [])
                    in if v \<noteq> JUndef then AList.update k v parsed else parsed)) relevantFields []))"

section \<open>What cleaning keeps\<close>

text \<open>Nothing null or undefined at any depth, and a leaf reached by a path of keys.\<close>

fun null_free :: "jsval \<Rightarrow> bool" where
  "null_free JUndef = False"
| "null_free JNull = False"
| "null_free (JArr xs) = list_all null_free xs"
| "null_free (JObj fs) = list_all (\<lambda>(k, v). null_free v) fs"
| "null_free _ = True"

fun has_leaf :: "jsval \<Rightarrow> string list \<Rightarrow> jsval \<Rightarrow> bool" where
  "has_leaf v [] x = (v = x)"
| "has_leaf v (k # ks) x = list_ex (\<lambda>(k', w). k' = k \<and> has_leaf w ks x) (entries v)"

definition leaf :: "jsval \<Rightarrow> bool" where
  "leaf x \<longleftrightarrow> \<not> is_object x \<and> \<not> nullish x"

lemma null_free_iff: "null_free v \<longleftrightarrow> \<not> nullish v" if "\<not> is_object v"
  using that by (cases v) (auto simp: nullish_def is_object_def)

definition clean_value :: "jsval \<Rightarrow> jsval" where
  "clean_value x = (if isMergeableObject x then cleanEmptyObject x else x)"

lemma cleanEmptyObject_eq:
  "cleanEmptyObject v =
     (if filter (\<lambda>(k, x). keeps_entry x) (entries v) = [] then JUndef
      else JObj (filter (\<lambda>(k, x). \<not> nullish x)
        (map (\<lambda>(k, x). (k, clean_value x)) (filter (\<lambda>(k, x). keeps_entry x) (entries v)))))"
  by (simp add: cleanEmptyObject.simps [of v] clean_value_def Let_def)

lemma cleanEmptyObject_null_free:
  "cleanEmptyObject v = JUndef \<or> null_free (cleanEmptyObject v)"
proof (induction v rule: measure_induct_rule [where f = size])
  case (less v)
  have "null_free (clean_value x)" if "(k, x) \<in> set (entries v)" "\<not> nullish (clean_value x)" for k x
    using less [OF size_entries [OF that(1)]] that(2)
    by (auto simp: clean_value_def isMergeableObject_def null_free_iff nullish_def)
  then show ?case by (auto simp: cleanEmptyObject_eq [of v] list_all_iff)
qed

lemma cleanEmpty_obj: "cleanEmpty (JObj fs) = cleanEmptyObject (JObj fs)"
  by (simp add: cleanEmpty.simps)

lemma cleanEmpty_null_free: "is_object v \<Longrightarrow> cleanEmpty v = JUndef \<or> null_free (cleanEmpty v)"
proof (induction v rule: measure_induct_rule [where f = size])
  case (less v)
  show ?case
  proof (cases v)
    case (JArr xs)
    let ?c = "\<lambda>x. if isMergeableObject x then cleanEmpty x else x"
    have c: "null_free (?c x)" if "x \<in> set xs" "\<not> nullish (?c x)" for x
      using less.IH [of x] size_elem [OF that(1)] that(2) JArr
      by (auto simp: isMergeableObject_def null_free_iff nullish_def)
    have "cleanEmpty v = JArr (filter (\<lambda>x. \<not> nullish x) (map ?c xs))"
      by (simp add: JArr cleanEmpty.simps [of "JArr xs"])
    moreover have "list_all null_free (filter (\<lambda>x. \<not> nullish x) (map ?c xs))"
      unfolding list_all_iff using c by fastforce
    ultimately show ?thesis by simp
  qed (use less.prems cleanEmptyObject_null_free [of v] in \<open>auto simp: cleanEmpty_obj is_object_def\<close>)
qed

lemma has_leaf_object: "has_leaf v (k # ks) x \<longleftrightarrow> (\<exists>w. (k, w) \<in> set (entries v) \<and> has_leaf w ks x)"
  by (auto simp: list_ex_iff)

lemma nullish_has_no_leaf: "nullish w \<Longrightarrow> leaf x \<Longrightarrow> \<not> has_leaf w ks x"
  by (cases ks) (auto simp: leaf_def nullish_def)

lemma dropped_entry_has_no_leaf:
  assumes "\<not> keeps_entry v" "leaf x" shows "\<not> has_leaf v ks x"
proof (cases ks)
  case Nil
  then show ?thesis using assms by (auto simp: keeps_entry_def isMergeableObject_def leaf_def split: if_splits)
next
  case (Cons k ks')
  have "nullish w" if "(k', w) \<in> set (entries v)" for k' w
    using assms(1) that by (auto simp: keeps_entry_def list_ex_iff split: if_splits)
  then show ?thesis using nullish_has_no_leaf [OF _ assms(2)] by (auto simp: Cons list_ex_iff)
qed

lemma has_leaf_clean_value:
  assumes "leaf x" shows "has_leaf (clean_value v) ks x \<longleftrightarrow> has_leaf v ks x"
proof (induction v arbitrary: ks rule: measure_induct_rule [where f = size])
  case (less v)
  show ?case
  proof (cases "isMergeableObject v")
    case False
    then show ?thesis by (simp add: clean_value_def)
  next
    case True
    show ?thesis
    proof (cases ks)
      case Nil
      have "is_object v" "clean_value v = cleanEmptyObject v" using True by (simp_all add: clean_value_def isMergeableObject_def)
      moreover have "cleanEmptyObject v = JUndef \<or> is_object (cleanEmptyObject v)"
        by (subst (1 2) cleanEmptyObject_eq) (simp add: is_object_def)
      ultimately show ?thesis using assms Nil by (auto simp: leaf_def nullish_def)
    next
      case (Cons k ks')
      have "has_leaf (clean_value v) ks x \<longleftrightarrow>
          (\<exists>w. (k, w) \<in> set (entries v) \<and> keeps_entry w \<and> \<not> nullish (clean_value w) \<and> has_leaf (clean_value w) ks' x)"
        using True by (auto simp: Cons clean_value_def [of v] cleanEmptyObject_eq [of v] list_ex_iff filter_empty_conv)
      also have "\<dots> \<longleftrightarrow> (\<exists>w. (k, w) \<in> set (entries v) \<and> has_leaf w ks' x)"
        using less.IH [OF size_entries] nullish_has_no_leaf [OF _ assms] dropped_entry_has_no_leaf [OF _ assms] by metis
      finally show ?thesis by (simp only: Cons has_leaf_object)
    qed
  qed
qed

section \<open>Reading what was set\<close>

definition plain_key :: "string \<Rightarrow> bool" where
  "plain_key k \<longleftrightarrow> k \<noteq> [] \<and> list_all (\<lambda>c. \<not> bracket c \<and> c \<noteq> CHR ''.'') k"

fun writable :: "jsval \<Rightarrow> string \<Rightarrow> bool" where
  "writable (JObj fs) k = True"
| "writable (JArr xs) k = (array_index k \<noteq> None)"
| "writable _ k = False"

fun path_ok :: "jsval \<Rightarrow> string list \<Rightarrow> bool" where
  "path_ok obj [] = False"
| "path_ok obj [k] = writable obj k"
| "path_ok obj (k # k' # ks) =
     (writable obj k \<and>
      (let child = js_get obj k
       in path_ok (if is_object child then child else if index_like k' then JArr [] else JObj []) (k' # ks)))"

lemma split_on_js_split: "\<forall>x \<in> set s. P x \<longleftrightarrow> x = c \<Longrightarrow> split_on P s = js_split c s"
  by (induction s) (auto split: list.split)

lemma split_on_none: "\<forall>x \<in> set s. \<not> P x \<Longrightarrow> split_on P s = [s]"
  by (induction s) auto

lemma plain_path:
  assumes "ks \<noteq> []" "list_all plain_key ks"
  shows "keys_of (\<lambda>c. bracket c \<or> c = CHR ''.'') (js_join ''.'' ks) = ks"
    and "keys_of (\<lambda>c. c = CHR ''.'' \<or> c = CHR ''['' \<or> c = CHR '']'') (js_join ''.'' ks) = ks"
    and "keys_of bracket (js_join ''.'' ks) = [js_join ''.'' ks]"
proof -
  let ?p = "js_join ''.'' ks"
  have chars: "x \<in> set ?p \<Longrightarrow> \<not> bracket x" for x
    using set_js_join [of "''.''" ks] assms(2) by (auto simp: list_all_iff plain_key_def bracket_def)
  have split: "js_split (CHR ''.'') ?p = ks"
    using assms by (intro js_split_join) (auto simp: list_all_iff plain_key_def)
  have ne: "filter (\<lambda>k. k \<noteq> []) ks = ks" using assms(2) by (auto simp: list_all_iff plain_key_def filter_id_conv)
  show "keys_of (\<lambda>c. bracket c \<or> c = CHR ''.'') ?p = ks"
    using split_on_js_split [of ?p "\<lambda>c. bracket c \<or> c = CHR ''.''" "CHR ''.''"] chars
    by (auto simp: keys_of_def split ne)
  show "keys_of (\<lambda>c. c = CHR ''.'' \<or> c = CHR ''['' \<or> c = CHR '']'') ?p = ks"
    using split_on_js_split [of ?p "\<lambda>c. c = CHR ''.'' \<or> c = CHR ''['' \<or> c = CHR '']''" "CHR ''.''"] chars
    by (auto simp: keys_of_def split ne bracket_def)
  have "?p \<noteq> []" using assms by (cases ks rule: remdups_adj.cases) (auto simp: plain_key_def)
  then show "keys_of bracket ?p = [?p]" using split_on_none [of ?p bracket] chars by (simp add: keys_of_def)
qed

lemma js_get_put: "writable obj k \<Longrightarrow> js_get (js_put obj k x) k = x"
  by (cases obj) (auto simp: obj_get_def elem_at_def array_put_def split: option.splits)

lemma js_get_put_other: "k' \<noteq> k \<Longrightarrow> js_get (js_put (JObj fs) k x) k' = js_get (JObj fs) k'"
  by (simp add: obj_get_def)

lemma size_js_put: "writable obj k \<Longrightarrow> size x < size (js_put obj k x)"
proof (cases obj)
  case (JObj fs)
  have "(k, x) \<in> set (AList.update k x fs)" by (induction fs) auto
  then show ?thesis using size_entries [of k x "JObj (AList.update k x fs)"] JObj by simp
next
  case (JArr xs)
  assume "writable obj k"
  then obtain i where i: "array_index k = Some i" using JArr by auto
  have "x \<in> set (array_put xs i x)" by (auto simp: array_put_def set_update_memI)
  then show ?thesis using size_elem [of x "array_put xs i x"] JArr i by simp
qed auto

lemma not_nullish_put: "writable obj k \<Longrightarrow> \<not> nullish (js_put obj k x)"
  by (cases obj) (auto simp: nullish_def split: option.splits)

lemma travel_set_at: "path_ok obj ks \<Longrightarrow> travel (set_at obj ks v) ks = v \<and> size v < size (set_at obj ks v)"
proof (induction obj ks v rule: set_at.induct)
  case (2 obj k v)
  then show ?case by (simp add: travel_def js_get_put not_nullish_put size_js_put)
next
  case (3 obj k k' ks v)
  then show ?case
    using size_js_put [of obj k]
    by (auto simp: travel_def js_get_put not_nullish_put Let_def split: if_splits intro: less_trans)
qed simp

section \<open>Properties\<close>

text \<open>
  Cleaning an object removes exactly what is empty: the result is undefined or holds nothing null or
  undefined at any depth, and every other leaf is found under the same keys before and after.
\<close>

theorem cleaning_keeps_leaves:
  assumes "leaf x"
  shows "(cleanEmpty (JObj fs) = JUndef \<or> null_free (cleanEmpty (JObj fs))) \<and>
    (has_leaf (cleanEmpty (JObj fs)) ks x \<longleftrightarrow> has_leaf (JObj fs) ks x)"
proof -
  have "clean_value (JObj fs) = cleanEmpty (JObj fs)"
    by (simp add: clean_value_def isMergeableObject_def is_object_def cleanEmpty_obj)
  then show ?thesis
    using cleanEmpty_null_free [of "JObj fs"] has_leaf_clean_value [OF assms, of "JObj fs" ks]
    by (simp add: is_object_def)
qed

theorem cleaning_keeps_leaves_witness:
  "has_leaf (cleanEmpty (JObj [(''A'', JNull), (''B'', JObj [(''C'', JNum 1), (''D'', JUndef)])])) [''B'', ''C''] (JNum 1)"
  using cleaning_keeps_leaves [of "JNum 1" "[(''A'', JNull), (''B'', JObj [(''C'', JNum 1), (''D'', JUndef)])]" "[''B'', ''C'']"]
  by (simp add: leaf_def is_object_def nullish_def)

text \<open>An array inside an object does not stay an array: it is cleaned as an object.\<close>

lemma cleaned_array_is_object:
  "cleanEmpty (JObj [(''A'', JArr [JNum 7])]) = JObj [(''A'', JObj [(''0'', JNum 7)])]"
  by code_simp

text \<open>
  \<open>get\<close> reads what \<open>set\<close> wrote: after writing a value at a path of plain keys of an object, creating
  the objects and arrays on the way, the path reads the value, and every other property of the object is
  as before.
\<close>

theorem get_reads_what_set_wrote:
  assumes "ks \<noteq> []" "list_all plain_key ks" "path_ok (JObj fs) ks"
    and "length ks > 1 \<longrightarrow> \<not> truthy (obj_get fs (js_join ''.'' ks))"
  shows "get (set_path (JObj fs) (js_join ''.'' ks) v) (js_join ''.'' ks) d = (if v = JUndef then d else v) \<and>
    (\<forall>k. k \<noteq> hd ks \<longrightarrow> js_get (set_path (JObj fs) (js_join ''.'' ks) v) k = obj_get fs k)"
proof -
  let ?p = "js_join ''.'' ks" and ?o = "set_at (JObj fs) ks v"
  have o': "set_path (JObj fs) ?p v = ?o" by (simp add: set_path_def is_object_def plain_path [OF assms(1,2)])
  have t: "travel ?o ks = v" "v \<noteq> ?o" using travel_set_at [OF assms(3), of v] by auto
  obtain x where put: "?o = js_put (JObj fs) (hd ks) x" using assms(1) by (cases ks rule: remdups_adj.cases) (auto simp: Let_def)
  have frame: "k \<noteq> hd ks \<Longrightarrow> js_get ?o k = obj_get fs k" for k unfolding put by (simp add: obj_get_def)
  have "truthy (travel ?o [?p]) \<Longrightarrow> travel ?o [?p] = v"
  proof (cases "length ks > 1")
    case True
    then have "?p \<noteq> hd ks" using assms(1) by (cases ks rule: remdups_adj.cases) auto
    then have "travel ?o [?p] = obj_get fs ?p" using frame put by (simp add: travel_def nullish_def)
    moreover assume "truthy (travel ?o [?p])"
    ultimately show ?thesis using assms(4) True by simp
  next
    case False
    then obtain k where "ks = [k]" using assms(1) by (cases ks rule: remdups_adj.cases) auto
    then show ?thesis using t(1) by simp
  qed
  then show ?thesis using t frame by (auto simp: get_def o' plain_path [OF assms(1,2)] Let_def)
qed

theorem get_reads_what_set_wrote_witness:
  "get (set_path (JObj [(''a'', JNum 1)]) ''b.0.c'' (JStr ''x'')) ''b.0.c'' JNull = JStr ''x''"
proof -
  let ?ks = "[''b'', ''0'', ''c'']"
  have "list_all plain_key ?ks" and "path_ok (JObj [(''a'', JNum 1)]) ?ks" by code_simp+
  then show ?thesis
    using get_reads_what_set_wrote [of ?ks "[(''a'', JNum 1)]" "JStr ''x''" JNull] by (simp add: obj_get_def)
qed

text \<open>Merging arrays can lose an element of the source, or throw.\<close>

lemma merged_array_loses_element:
  "deepmerge (JArr [JNum 1]) (JArr [JNum 2, JObj [(''a'', JNum 3)]]) = Inr (JArr [JNum 1, JObj [(''a'', JNum 3)]])"
  "deepmerge (JArr [JNum 1]) (JArr [JNum 2, JObj [(''a'', JArr [])]]) = Inl TypeError"
  by (simp_all add: at_def put_at_def array_put_def isMergeableObject_def is_object_def nullish_def)

end
