(* ===== verification/Resource_Helpers.thy ===== *)
theory Resource_Helpers
  imports Js_Prelude "HOL-Library.Multiset"
begin

text \<open>
  The helpers of \<open>modules/models/Helper.js\<close> the resource views share: permissions, available actions,
  attributes, user inputs, labels and colours.  Dates, currencies and XML go to libraries and are left
  out.  Regular expressions given by the callers are predicates, and the locale-aware order of labels
  is a parameter.
\<close>

section \<open>Booleans, locks and permissions\<close>

text \<open>\<open>String(v)\<close>.\<close>

fun to_string :: "jsval \<Rightarrow> string" where
  "to_string JUndef = ''undefined''"
| "to_string JNull = ''null''"
| "to_string (JBool b) = (if b then ''true'' else ''false'')"
| "to_string (JNum n) = show_int n"
| "to_string (JStr s) = s"
| "to_string (JArr xs) = js_join '','' (map (\<lambda>x. if x = JUndef \<or> x = JNull then [] else to_string x) xs)"
| "to_string (JObj _) = ''[object Object]''"

definition booleanToString :: "jsval \<Rightarrow> string" where
  "booleanToString v = (if truthy v then ''Yes'' else ''No'')"

definition stringToBoolean :: "jsval \<Rightarrow> bool" where
  "stringToBoolean v \<longleftrightarrow> to_lower (to_string v) \<in> {''yes'', ''true''} \<or> to_number v = Some 1"

definition levelLockToString :: "int \<Rightarrow> string" where
  "levelLockToString level =
     (case map_of [(0, ''None''), (1, ''Use''), (2, ''Manage''), (3, ''Admin''), (4, ''All'')] level of
        Some t \<Rightarrow> t | None \<Rightarrow> ''-'')"

definition getCategoryValue :: "jsval \<times> jsval \<times> jsval \<Rightarrow> nat" where
  "getCategoryValue uma =
     (case uma of (u, m, a) \<Rightarrow>
        (if stringToBoolean u then 4 else 0) + (if stringToBoolean m then 2 else 0) + (if stringToBoolean a then 1 else 0))"

record permissions =
  OWNER_U :: jsval
  OWNER_M :: jsval
  OWNER_A :: jsval
  GROUP_U :: jsval
  GROUP_M :: jsval
  GROUP_A :: jsval
  OTHER_U :: jsval
  OTHER_M :: jsval
  OTHER_A :: jsval

definition permissionsToOctal :: "permissions \<Rightarrow> string" where
  "permissionsToOctal p =
     concat (map (\<lambda>c. to_base 10 (getCategoryValue c))
       [(OWNER_U p, OWNER_M p, OWNER_A p), (GROUP_U p, GROUP_M p, GROUP_A p), (OTHER_U p, OTHER_M p, OTHER_A p)])"

section \<open>Actions and attributes\<close>

text \<open>
  An action of a view file: a boolean, or an object whose lists may be absent (\<open>None\<close>, the default
  \<open>[]\<close> applies), null (\<open>Some None\<close>) or given.
\<close>

datatype view_action =
    Flag bool
  | Spec bool "string list option option" "string list option option"
  | NoSpec

definition with_default :: "string list option option \<Rightarrow> string list option" where
  "with_default l = (case l of None \<Rightarrow> Some [] | Some v \<Rightarrow> v)"

definition list_includes :: "string list option \<Rightarrow> string \<Rightarrow> bool" where
  "list_includes l x = (case l of None \<Rightarrow> False | Some xs \<Rightarrow> x \<in> set xs)"

fun action_available :: "string \<Rightarrow> view_action \<Rightarrow> bool" where
  "action_available hypervisor (Flag b) = b"
| "action_available hypervisor NoSpec = False"
| "action_available hypervisor (Spec enabled not_on only_on) =
     (let notOn = with_default not_on; onlyOn = with_default only_on
      in enabled \<and> ((notOn = None \<and> onlyOn = None) \<or> (notOn \<noteq> None \<and> \<not> list_includes notOn hypervisor) \<or>
                     list_includes onlyOn hypervisor))"

definition getActionsAvailable :: "(string \<times> view_action) list \<Rightarrow> string \<Rightarrow> string list" where
  "getActionsAvailable actions hypervisor = map fst (filter (\<lambda>(_, a). action_available hypervisor a) actions)"

definition filterAttributes ::
  "(string \<times> jsval) list \<Rightarrow> (string \<times> (string \<Rightarrow> bool)) list \<Rightarrow> (string \<Rightarrow> bool) \<Rightarrow> (string \<times> (string \<times> jsval) list) list" where
  "filterAttributes list extra hidden =
     (let add = (\<lambda>listName (k, v) response.
            AList.update listName (AList.update k v (the_default [] (map_of response listName))) response);
          filter_name = (\<lambda>k. case List.find (\<lambda>(_, re). re k) extra of Some (n, _) \<Rightarrow> n | None \<Rightarrow> []);
          response = fold (\<lambda>(k, v) r. if filter_name k \<noteq> [] then add (filter_name k) (k, v) r else r) list []
      in fold (\<lambda>(k, v) r. if \<not> hidden k then add ''attributes'' (k, v) r else r)
           (filter (\<lambda>(k, v). filter_name k = []) list) response)"

section \<open>User inputs\<close>

record user_input =
  ui_mandatory :: bool
  ui_type :: "string option"
  ui_label :: "string option"
  ui_options :: "string list option"
  ui_default :: "string option"
  ui_min :: "string option"
  ui_max :: "string option"

text \<open>\<open>s.split('..')\<close>.\<close>

fun split_range :: "string \<Rightarrow> string list" where
  "split_range (a # b # r) =
     (if a = CHR ''.'' \<and> b = CHR ''.'' then [] # split_range r
      else case split_range (b # r) of [] \<Rightarrow> [[a]] | w # ws \<Rightarrow> (a # w) # ws)"
| "split_range s = [s]"

definition at_pos :: "'a list \<Rightarrow> nat \<Rightarrow> 'a option" where
  "at_pos xs i = (if i < length xs then Some (xs ! i) else None)"

definition is_range_type :: "string option \<Rightarrow> bool" where
  "is_range_type t \<longleftrightarrow> t = Some ''range'' \<or> t = Some ''range-float''"

text \<open>\<open>None\<close> is the empty object an empty string gives.\<close>

definition getUserInputParams :: "string \<Rightarrow> user_input option" where
  "getUserInputParams s =
     (if s = [] then None
      else
        (let params = js_split (CHR ''|'') s;
             options = map_option (if is_range_type (at_pos params 1) then split_range else js_split (CHR '','')) (at_pos params 3)
         in Some \<lparr>ui_mandatory = (at_pos params 0 = Some ''M''), ui_type = at_pos params 1, ui_label = at_pos params 2,
                  ui_options = options, ui_default = at_pos params 4,
                  ui_min = (case options of Some xs \<Rightarrow> at_pos xs 0 | None \<Rightarrow> None),
                  ui_max = (case options of Some xs \<Rightarrow> at_pos xs 1 | None \<Rightarrow> None)\<rparr>))"

text \<open>In a joined array an undefined element is an empty string.\<close>

definition getUserInputString :: "user_input \<Rightarrow> string" where
  "getUserInputString ui =
     (let mandatoryString = (if ui_mandatory ui then ''M'' else ''O'');
          range = js_join ''..'' (List.map_filter (\<lambda>v. v) [ui_min ui, ui_max ui]);
          third = (if is_range_type (ui_type ui) then range
                   else case ui_options ui of
                     Some xs \<Rightarrow> if xs \<noteq> [] then js_join '','' xs else '' ''
                   | None \<Rightarrow> '' '')
      in js_join ''|'' [mandatoryString, the_default [] (ui_type ui), the_default [] (ui_label ui), third,
                        the_default [] (ui_default ui)])"

text \<open>An element is a number when the bounds agree, and a string otherwise.\<close>

definition parseRangeToArray :: "string \<Rightarrow> string \<Rightarrow> jsval list" where
  "parseRangeToArray s e =
     (case (parse_int s, parse_int e) of
        (Some a, Some b) \<Rightarrow> if a = b then [JNum a] else map (\<lambda>i. JStr (show_int i)) [a..b]
      | _ \<Rightarrow> [])"

definition upper_char :: "char \<Rightarrow> char" where
  "upper_char c = (let n = of_char c :: nat in if 97 \<le> n \<and> n \<le> 122 then char_of (n - 32) else c)"

definition to_upper :: "string \<Rightarrow> string" where
  "to_upper s = map upper_char s"

text \<open>\<open>indexOf\<close>.\<close>

fun index_of :: "string list \<Rightarrow> string \<Rightarrow> int" where
  "index_of [] x = -1"
| "index_of (y # ys) x = (if y = x then 0 else let i = index_of ys x in if i = -1 then -1 else i + 1)"

definition userInputsToArray ::
  "(string \<times> string) list \<Rightarrow> bool \<Rightarrow> string option \<Rightarrow> (string \<times> user_input option) list" where
  "userInputsToArray userInputs filterCapacityInputs order =
     (let orderedList = (case order of Some l \<Rightarrow> map js_trim (js_split (CHR '','') l) | None \<Rightarrow> []);
          list = map (\<lambda>(name, ui). (to_upper name, getUserInputParams ui)) userInputs;
          list1 = (if filterCapacityInputs
                   then filter (\<lambda>(name, _). name \<notin> {''MEMORY'', ''CPU'', ''VCPU''}) list else list)
      in if orderedList \<noteq> [] then sort_key (\<lambda>(name, _). index_of orderedList (to_upper name)) list1 else list1)"

definition userInputsToObject :: "(string \<times> user_input) list \<Rightarrow> (string \<times> string) list" where
  "userInputsToObject userInputs =
     fold (\<lambda>(name, ui) res. AList.update (to_upper name) (getUserInputString ui) res) userInputs []"

section \<open>Labels, colours and errors\<close>

definition getUniqueLabels :: "(string list \<Rightarrow> string list) \<Rightarrow> string \<Rightarrow> string list" where
  "getUniqueLabels locale_sort labels =
     (if labels = [] then []
      else (let list = js_split (CHR '','') labels
            in locale_sort (filter (\<lambda>label. label \<noteq> [] \<and> \<not> list_ex (\<lambda>e. starts_with e (label @ ''/'')) list) list)))"

definition SEED :: nat where "SEED = 16777215"
definition FACTOR :: nat where "FACTOR = 49979693"

text \<open>\<open>hex.padEnd(6, hex)\<close>.\<close>

definition pad_end :: "nat \<Rightarrow> string \<Rightarrow> string" where
  "pad_end n s = (if length s \<ge> n then s else s @ take (n - length s) (concat (replicate n s)))"

definition getColorFromString :: "string \<Rightarrow> bool \<Rightarrow> string" where
  "getColorFromString text caseSensitive =
     (let ensuredText = (if caseSensitive then text else to_lower text);
          base = foldl (\<lambda>total c. let currentIndex = of_char c :: nat; range = (SEED div currentIndex) * FACTOR
                                   in (total + currentIndex * range) mod SEED) 1 ensuredText;
          hex = to_base 16 ((base * length ensuredText) mod SEED)
      in ''#'' @ pad_end 6 hex)"

definition getErrorMessage :: "jsval \<Rightarrow> jsval \<Rightarrow> jsval \<Rightarrow> jsval" where
  "getErrorMessage userError schedMessage templateError =
     (case filter truthy [userError, schedMessage, templateError] of [] \<Rightarrow> JUndef | m # _ \<Rightarrow> m)"

section \<open>Lemmas\<close>

fun no_double_dot :: "string \<Rightarrow> bool" where
  "no_double_dot (a # b # r) = (\<not> (a = CHR ''.'' \<and> b = CHR ''.'') \<and> no_double_dot (b # r))"
| "no_double_dot _ = True"

lemma split_range_single: "no_double_dot s \<Longrightarrow> split_range s = [s]"
  by (induction s rule: no_double_dot.induct) (auto split: list.splits)

lemma split_range_append:
  "no_double_dot a \<Longrightarrow> (a \<noteq> [] \<Longrightarrow> last a \<noteq> CHR ''.'') \<Longrightarrow> split_range (a @ ''..'' @ b) = a # split_range b"
proof (induction a rule: no_double_dot.induct)
  case (1 a b' r)
  then show ?case by auto
qed auto

definition no_char :: "char \<Rightarrow> string \<Rightarrow> bool" where
  "no_char c s = list_all (\<lambda>x. x \<noteq> c) s"

definition range_bounds_ok :: "string \<Rightarrow> string \<Rightarrow> bool" where
  "range_bounds_ok a b \<longleftrightarrow> no_double_dot a \<and> no_double_dot b \<and> (a = [] \<or> last a \<noteq> CHR ''.'') \<and> no_char (CHR ''|'') a \<and> no_char (CHR ''|'') b"

lemma no_char_join: "no_char c sep \<Longrightarrow> list_all (no_char c) xs \<Longrightarrow> no_char c (js_join sep xs)"
  by (induction sep xs rule: js_join.induct) (auto simp: no_char_def)

lemma length_to_base: "2 \<le> b \<Longrightarrow> n < b ^ Suc k \<Longrightarrow> length (to_base b n) \<le> Suc k"
proof (induction k arbitrary: n)
  case 0
  then show ?case by (subst to_base.simps) simp
next
  case (Suc k)
  have "n div b < b ^ Suc k" using Suc.prems by (simp add: less_mult_imp_div_less mult.commute)
  then have "length (to_base b (n div b)) \<le> Suc k" using Suc.IH Suc.prems(1) by blast
  then show ?case by (subst to_base.simps) simp
qed

lemma to_base16_hex: "c \<in> set (to_base 16 n) \<Longrightarrow> hex_digit c \<noteq> None"
proof (induction n rule: less_induct)
  case (less n)
  show ?case
  proof (cases "n < 16")
    case True
    with less.prems show ?thesis by (simp add: to_base.simps [of 16 n] digit_char_hex)
  next
    case False
    with less.prems have "c \<in> set (to_base 16 (n div 16)) \<or> c = digit_char (n mod 16)"
      by (auto simp: to_base.simps [of 16 n])
    then show ?thesis using less.IH [of "n div 16"] False by (auto simp: digit_char_hex)
  qed
qed

lemma pad_end_length: "s \<noteq> [] \<Longrightarrow> length s \<le> n \<Longrightarrow> length (pad_end n s) = n"
proof -
  assume "s \<noteq> []" "length s \<le> n"
  moreover have "length (concat (replicate n s)) = n * length s" by (induction n) auto
  moreover have "n \<le> n * length s" using \<open>s \<noteq> []\<close> by (cases s) auto
  then have "min (n * length s) (n - length s) = n - length s" by linarith
  ultimately show ?thesis by (simp add: pad_end_def)
qed

lemma set_pad_end: "set (pad_end n s) \<subseteq> set s"
  by (auto simp: pad_end_def dest!: in_set_takeD)

text \<open>The third part of the string form of a user input: the bounds of a range or the options of a list.\<close>

definition options_ok :: "bool \<Rightarrow> string list \<Rightarrow> bool" where
  "options_ok ranged xs \<longleftrightarrow>
     (if ranged then length xs = 2 \<and> range_bounds_ok (xs ! 0) (xs ! 1)
      else list_all (\<lambda>x. no_char (CHR '','') x \<and> no_char (CHR ''|'') x) xs)"

abbreviation options_text :: "bool \<Rightarrow> string list \<Rightarrow> string" where
  "options_text ranged xs \<equiv> if ranged then js_join ''..'' xs else js_join '','' xs"

lemma options_ok_range: "options_ok True xs \<Longrightarrow> \<exists>a b. xs = [a, b] \<and> range_bounds_ok a b"
  by (cases xs; cases "tl xs") (auto simp: options_ok_def numeral_2_eq_2)

lemma no_bar_in_options:
  assumes "options_ok ranged xs"
  shows "no_char (CHR ''|'') (options_text ranged xs)"
proof -
  have "list_all (no_char (CHR ''|'')) xs"
    using assms options_ok_range [of xs] by (cases ranged) (auto simp: options_ok_def range_bounds_ok_def list_all_iff)
  moreover have "no_char (CHR ''|'') ''..''" "no_char (CHR ''|'') '',''" by (simp_all add: no_char_def)
  ultimately show ?thesis by (simp add: no_char_join)
qed

lemma options_read_back:
  assumes "options_ok ranged xs" "xs \<noteq> []"
  shows "(if ranged then split_range else js_split (CHR '','')) (options_text ranged xs) = xs"
proof (cases ranged)
  case True
  then obtain a b where ab: "xs = [a, b]" "range_bounds_ok a b" using assms(1) options_ok_range [of xs] by auto
  then have "split_range (a @ ''..'' @ b) = [a, b]"
    by (subst split_range_append) (auto simp: range_bounds_ok_def split_range_single)
  then show ?thesis using True ab by simp
next
  case False
  then have "\<forall>x \<in> set xs. CHR '','' \<notin> set x" using assms(1) by (auto simp: options_ok_def no_char_def list_all_iff)
  then show ?thesis using False js_split_join [OF assms(2)] by simp
qed

section \<open>Properties\<close>

text \<open>The elements of the third part: the bounds of a range, otherwise the options, or a blank when there are none.\<close>

definition ui_written :: "user_input \<Rightarrow> string list" where
  "ui_written ui =
     (if is_range_type (ui_type ui) then List.map_filter (\<lambda>v. v) [ui_min ui, ui_max ui]
      else case ui_options ui of Some xs \<Rightarrow> if xs \<noteq> [] then xs else ['' ''] | None \<Rightarrow> ['' ''])"

definition ui_ok :: "user_input \<Rightarrow> bool" where
  "ui_ok ui \<longleftrightarrow>
     no_char (CHR ''|'') (the_default [] (ui_type ui)) \<and> no_char (CHR ''|'') (the_default [] (ui_label ui)) \<and>
     no_char (CHR ''|'') (the_default [] (ui_default ui)) \<and> options_ok (is_range_type (ui_type ui)) (ui_written ui)"

lemma ui_written_nonempty: "options_ok (is_range_type (ui_type ui)) (ui_written ui) \<Longrightarrow> ui_written ui \<noteq> []"
  using options_ok_range [of "ui_written ui"] by (auto simp: ui_written_def split: option.splits if_splits)

text \<open>
  C9. A user input survives its string form: reading back what \<open>getUserInputString\<close> writes gives its flag, its
  type, its label and its default, absent ones as the empty text, the two bounds of a range, and the options
  of any other type; an input without options, as one for plain text, comes back with one option, a blank.
  It holds when no text has a bar, no option of a list has a comma, and a range has both bounds, without two
  dots in a row and with no dot at the end of the first.
\<close>

theorem user_input_roundtrip:
  assumes "ui_ok ui"
  shows "getUserInputParams (getUserInputString ui) =
    Some \<lparr>ui_mandatory = ui_mandatory ui, ui_type = Some (the_default [] (ui_type ui)),
      ui_label = Some (the_default [] (ui_label ui)), ui_options = Some (ui_written ui),
      ui_default = Some (the_default [] (ui_default ui)), ui_min = at_pos (ui_written ui) 0, ui_max = at_pos (ui_written ui) 1\<rparr>"
proof -
  let ?r = "is_range_type (ui_type ui)" and ?xs = "ui_written ui"
  let ?t = "the_default [] (ui_type ui)" and ?l = "the_default [] (ui_label ui)" and ?d = "the_default [] (ui_default ui)"
  from assms have opts: "options_ok ?r ?xs" by (simp add: ui_ok_def)
  note ne = ui_written_nonempty [OF opts]
  define third where "third = options_text ?r ?xs"
  define parts where "parts = [if ui_mandatory ui then ''M'' else ''O'', ?t, ?l, third, ?d]"
  have str: "getUserInputString ui = js_join ''|'' parts"
    by (cases ?r) (simp_all add: getUserInputString_def parts_def third_def ui_written_def Let_def split: option.split)
  have split: "js_split (CHR ''|'') (getUserInputString ui) = parts"
    unfolding str using assms no_bar_in_options [OF opts, folded third_def]
    by (intro js_split_join) (auto simp: parts_def no_char_def list_all_iff ui_ok_def)
  have type: "is_range_type (Some ?t) = ?r" by (cases "ui_type ui") (simp_all add: is_range_type_def)
  have "getUserInputString ui \<noteq> []" unfolding str by (simp add: parts_def)
  then show ?thesis
    unfolding getUserInputParams_def split Let_def
    using options_read_back [OF opts ne, folded third_def] type by (simp add: parts_def at_pos_def [of "[_, _, _, _, _]"])
qed

theorem user_input_roundtrip_witness:
  "getUserInputParams (getUserInputString \<lparr>ui_mandatory = True, ui_type = Some ''range-float'', ui_label = Some ''Size'',
      ui_options = None, ui_default = Some ''1'', ui_min = Some ''0.5'', ui_max = Some ''2''\<rparr>) =
   Some \<lparr>ui_mandatory = True, ui_type = Some ''range-float'', ui_label = Some ''Size'',
      ui_options = Some [''0.5'', ''2''], ui_default = Some ''1'', ui_min = Some ''0.5'', ui_max = Some ''2''\<rparr>"
  by (subst user_input_roundtrip)
     (simp_all add: ui_ok_def ui_written_def is_range_type_def at_pos_def options_ok_def range_bounds_ok_def no_char_def map_filter_simps)

text \<open>
  The colour made from a text is always a colour: a hash and exactly six hexadecimal digits.
\<close>

theorem color_is_six_digits:
  "\<exists>h. getColorFromString text caseSensitive = CHR ''#'' # h \<and> length h = 6 \<and> list_all (\<lambda>c. hex_digit c \<noteq> None) h"
proof -
  define n where "n = (foldl (\<lambda>total c. let currentIndex = of_char c :: nat; range = (SEED div currentIndex) * FACTOR
      in (total + currentIndex * range) mod SEED) 1 (if caseSensitive then text else to_lower text)
      * length (if caseSensitive then text else to_lower text)) mod SEED"
  have col: "getColorFromString text caseSensitive = CHR ''#'' # pad_end 6 (to_base 16 n)"
    by (simp add: getColorFromString_def n_def Let_def)
  have "n < 16 ^ Suc 5" by (simp add: n_def SEED_def order_less_trans [OF mod_less_divisor])
  then have "length (to_base 16 n) \<le> 6" using length_to_base [of 16 n 5] by simp
  then have "length (pad_end 6 (to_base 16 n)) = 6" by (intro pad_end_length) simp_all
  moreover have "list_all (\<lambda>c. hex_digit c \<noteq> None) (pad_end 6 (to_base 16 n))"
    using set_pad_end to_base16_hex by (fastforce simp: list_all_iff)
  ultimately show ?thesis using col by blast
qed

text \<open>
  The octal permissions lose nothing: two sets of permissions have the same octal text exactly when
  each of the nine permissions is granted in both or in neither.
\<close>

lemma to_base10_small: "n < 10 \<Longrightarrow> to_base 10 n = [digit_char n]"
  by (subst to_base.simps) simp

lemma category_small: "getCategoryValue c < 8"
  by (auto simp: getCategoryValue_def split: prod.split)

lemma digit_char_inj: "a < 10 \<Longrightarrow> b < 10 \<Longrightarrow> digit_char a = digit_char b \<longleftrightarrow> a = b"
  by (metis digit_char_less10)

lemma category_inj:
  "getCategoryValue (u, m, a) = getCategoryValue (u', m', a') \<longleftrightarrow>
     stringToBoolean u = stringToBoolean u' \<and> stringToBoolean m = stringToBoolean m' \<and> stringToBoolean a = stringToBoolean a'"
  by (simp add: getCategoryValue_def split: if_splits)

theorem octal_permissions_exact:
  "permissionsToOctal p = permissionsToOctal q \<longleftrightarrow>
     map stringToBoolean [OWNER_U p, OWNER_M p, OWNER_A p, GROUP_U p, GROUP_M p, GROUP_A p, OTHER_U p, OTHER_M p, OTHER_A p] =
     map stringToBoolean [OWNER_U q, OWNER_M q, OWNER_A q, GROUP_U q, GROUP_M q, GROUP_A q, OTHER_U q, OTHER_M q, OTHER_A q]"
proof -
  have small: "getCategoryValue c < 10" for c using category_small [of c] by simp
  show ?thesis
    by (simp add: permissionsToOctal_def to_base10_small [OF small] digit_char_inj [OF small small] category_inj)
qed

text \<open>
  An action restricted by \<open>only_on\<close> is not restricted: the default of \<open>not_on\<close> is an empty list, which
  is truthy and excludes nothing, so an enabled action without \<open>not_on\<close> is available on every hypervisor.
\<close>

theorem only_on_is_ignored:
  "action_available hypervisor (Spec True None only_on)"
  by (simp add: with_default_def list_includes_def)

end
