(* ===== verification/Client_State.thy ===== *)
theory Client_State
  imports Client_Values Resource_Helpers
begin

text \<open>
  The client's Redux store: the slices under \<open>modules/features\<close> (Auth, SupportAuth, General, Guacamole,
  Modals, Persistent, Logs) and the middleware that ends an expired session (\<open>middleware.js\<close>), composed as
  \<open>client/store/index.js\<close> does.  A reducer is a function from an action and a state to the next state or
  to the error it throws; a dispatch that throws leaves the state.  Payloads are values; the cache of the
  requests (RTK Query) and the persistence of a slice in the browser are not modelled, and lodash is a
  parameter.
\<close>

section \<open>Reducers\<close>

fun run :: "('a \<Rightarrow> 's \<Rightarrow> 's js) \<Rightarrow> 'a list \<Rightarrow> 's \<Rightarrow> 's" where
  "run step [] s = s"
| "run step (a # as) s = run step as (case step a s of Inr s' \<Rightarrow> s' | Inl _ \<Rightarrow> s)"

lemma run_append: "run step (as @ bs) s = run step bs (run step as s)"
  by (induction as arbitrary: s) simp_all

locale reducer =
  fixes step :: "'a \<Rightarrow> 's \<Rightarrow> 's js" and allowed :: "'a \<Rightarrow> bool" and inv :: "'s \<Rightarrow> bool"
  assumes keeps: "inv s \<Longrightarrow> allowed a \<Longrightarrow> step a s = Inr s' \<Longrightarrow> inv s'"
begin

lemma run_keeps: "inv s \<Longrightarrow> list_all allowed as \<Longrightarrow> inv (run step as s)"
proof (induction as arbitrary: s)
  case (Cons a as)
  then show ?case using keeps [of s a] by (cases "step a s") auto
qed simp

end

text \<open>A reducer that implements an abstract machine: the machine follows every action that goes through and
  ignores those that throw.\<close>

locale reducer_refines = reducer step allowed inv
  for step :: "'a \<Rightarrow> 's \<Rightarrow> 's js" and allowed :: "'a \<Rightarrow> bool" and inv :: "'s \<Rightarrow> bool" +
  fixes abs_of :: "'s \<Rightarrow> 't" and astep :: "'a \<Rightarrow> 't \<Rightarrow> 't"
  assumes sim: "inv s \<Longrightarrow> allowed a \<Longrightarrow> step a s = Inr s' \<Longrightarrow> abs_of s' = astep a (abs_of s)"
    and stuck: "inv s \<Longrightarrow> allowed a \<Longrightarrow> step a s = Inl e \<Longrightarrow> astep a (abs_of s) = abs_of s"
begin

lemma run_refines: "inv s \<Longrightarrow> list_all allowed as \<Longrightarrow> abs_of (run step as s) = fold astep as (abs_of s)"
proof (induction as arbitrary: s)
  case (Cons a as)
  show ?case
  proof (cases "step a s")
    case (Inl e)
    then show ?thesis using Cons stuck by simp
  next
    case (Inr s')
    then show ?thesis using Cons keeps [of s a s'] sim [of s a s'] by simp
  qed
qed simp

end

section \<open>The session of the user\<close>

record auth_state =
  au_user :: "jsobj option"
  au_filterPool :: jsval
  au_isLoginInProgress :: jsval
  au_externalRedirect :: jsval
  au_sessionVerified :: bool
  au_isLoggedIn :: bool
  au_view :: jsval
  au_error :: jsval

definition initial_auth :: auth_state where
  "initial_auth = \<lparr>au_user = None, au_filterPool = JStr ''-2'', au_isLoginInProgress = JBool False,
     au_externalRedirect = JStr [], au_sessionVerified = False, au_isLoggedIn = False, au_view = JUndef, au_error = JUndef\<rparr>"

text \<open>The payload of \<open>changeAuthUser\<close> is \<open>None\<close> when it is undefined: taking it apart throws.\<close>

datatype auth_action =
    ChangeAuthUser "jsobj option"
  | ChangeExternalRedirect jsval
  | ChangeFilterPool jsval
  | ChangeView jsval
  | SetErrorMessage jsval
  | SetSessionVerified
  | Logout jsval

fun auth_reducer :: "auth_action \<Rightarrow> auth_state \<Rightarrow> auth_state js" where
  "auth_reducer (ChangeAuthUser None) s = Inl TypeError"
| "auth_reducer (ChangeAuthUser (Some p)) s =
     (let inProgress = obj_get p ''isLoginInProgress'';
          user = AList.delete ''isLoginInProgress'' p;
          s1 = s\<lparr>au_user := Some (obj_spread (the_default [] (au_user s)) user)\<rparr>;
          s2 = (if truthy (obj_get user ''ID'') then s1\<lparr>au_isLoggedIn := True\<rparr> else s1)
      in Inr (if inProgress \<noteq> JUndef then s2\<lparr>au_isLoginInProgress := inProgress\<rparr> else s2))"
| "auth_reducer (ChangeExternalRedirect p) s = Inr (s\<lparr>au_externalRedirect := p\<rparr>)"
| "auth_reducer (ChangeFilterPool p) s = Inr (s\<lparr>au_filterPool := p, au_isLoginInProgress := JBool False\<rparr>)"
| "auth_reducer (ChangeView p) s = Inr (s\<lparr>au_view := p\<rparr>)"
| "auth_reducer (SetErrorMessage p) s = Inr (s\<lparr>au_error := p\<rparr>)"
| "auth_reducer SetSessionVerified s = Inr (s\<lparr>au_sessionVerified := True\<rparr>)"
| "auth_reducer (Logout p) s =
     Inr (initial_auth\<lparr>au_sessionVerified := au_sessionVerified s, au_error := p\<rparr>)"

record support_state =
  su_user :: "jsobj option"
  su_isLoginInProgress :: jsval

datatype support_action = ChangeSupportAuthUser "jsobj option" | ClearSupportAuthUser

definition initial_support :: support_state where
  "initial_support = \<lparr>su_user = None, su_isLoginInProgress = JBool False\<rparr>"

fun support_reducer :: "support_action \<Rightarrow> support_state \<Rightarrow> support_state js" where
  "support_reducer (ChangeSupportAuthUser None) s = Inl TypeError"
| "support_reducer (ChangeSupportAuthUser (Some p)) s =
     (let inProgress = obj_get p ''isLoginInProgress'';
          s1 = s\<lparr>su_user := Some (obj_spread (the_default [] (su_user s)) (AList.delete ''isLoginInProgress'' p))\<rparr>
      in Inr (if inProgress \<noteq> JUndef then s1\<lparr>su_isLoginInProgress := inProgress\<rparr> else s1))"
| "support_reducer ClearSupportAuthUser s = Inr (s\<lparr>su_user := None, su_isLoginInProgress := JBool False\<rparr>)"

section \<open>Remote consoles\<close>

text \<open>Which session an action addresses, and the sessions by identifier.\<close>

record target =
  tg_id :: "string option"
  tg_type :: "string option"

definition getIdentifiedFromPayload :: "target \<Rightarrow> string" where
  "getIdentifiedFromPayload t =
     (case tg_id t of
        Some i \<Rightarrow> if CHR ''-'' \<in> set i then i else i @ ''-'' @ the_default ''undefined'' (tg_type t)
      | None \<Rightarrow> ''undefined-'' @ the_default ''undefined'' (tg_type t))"

type_synonym guac_state = "string \<rightharpoonup> jsobj"

definition INITIAL_SESSION :: jsobj where
  "INITIAL_SESSION =
     [(''thumbnail'', JNull), (''multiTouchSupport'', JNum 0),
      (''clientState'', JObj [(''connectionState'', JStr ''IDLE''), (''tunnelUnstable'', JBool False), (''statusCode'', JNum 0)]),
      (''isUninitialized'', JBool True), (''isLoading'', JBool False), (''isConnected'', JBool False),
      (''isDisconnected'', JBool False), (''isError'', JBool False),
      (''clientProperties'', JObj [(''autoFit'', JBool True), (''scale'', JNum 1), (''minScale'', JNum 1), (''maxScale'', JNum 3),
         (''focused'', JBool False), (''scrollTop'', JNum 0), (''scrollLeft'', JNum 0)])]"

datatype guac_action =
    AddGuacamoleSession target jsval
  | RemoveGuacamoleSession target
  | UpdateGuacamoleSession target jsobj
  | SetConnectionState target jsval jsval
  | SetTunnelUnstable target jsval
  | SetMultiTouchSupport target jsval
  | UpdateThumbnail target jsval

definition session_of :: "guac_state \<Rightarrow> string \<Rightarrow> jsobj" where
  "session_of s i = the_default [] (s i)"

definition connectionState :: "jsobj \<Rightarrow> jsval" where
  "connectionState session = prop_get (obj_get session ''clientState'') ''connectionState''"

definition flag :: "jsval \<Rightarrow> string list \<Rightarrow> jsval" where
  "flag c names = JBool (c \<in> JStr ` set names)"

definition with_connection :: "jsval \<Rightarrow> jsval \<Rightarrow> jsobj \<Rightarrow> jsobj \<Rightarrow> jsobj" where
  "with_connection c statusCode clientState session =
     (let cs0 = (if truthy statusCode then AList.update ''statusCode'' statusCode clientState else clientState);
          cs = AList.update ''tunnelUnstable'' (JBool False) (AList.update ''connectionState'' c cs0)
      in AList.update ''isError'' (flag c [''CLIENT_ERROR'', ''TUNNEL_ERROR''])
          (AList.update ''isDisconnected'' (flag c [''DISCONNECTED''])
           (AList.update ''isConnected'' (flag c [''CONNECTED''])
            (AList.update ''isLoading'' (flag c [''WAITING'', ''CONNECTING'', ''DISCONNECTING''])
             (AList.update ''isUninitialized'' (flag c [''IDLE''])
              (AList.update ''clientState'' (JObj cs) session))))))"

text \<open>A session without \<open>clientState\<close>, as the default \<open>{}\<close> of an unknown one, makes the access to its
  fields throw.\<close>

fun guac_reducer :: "guac_action \<Rightarrow> guac_state \<Rightarrow> guac_state js" where
  "guac_reducer (AddGuacamoleSession t token) s =
     Inr (s(getIdentifiedFromPayload t \<mapsto> AList.update ''token'' token INITIAL_SESSION))"
| "guac_reducer (RemoveGuacamoleSession t) s = Inr (s(getIdentifiedFromPayload t := None))"
| "guac_reducer (UpdateGuacamoleSession t changes) s =
     (let i = getIdentifiedFromPayload t in Inr (s(i \<mapsto> obj_spread (session_of s i) changes)))"
| "guac_reducer (SetConnectionState t c statusCode) s =
     (let i = getIdentifiedFromPayload t; session = session_of s i
      in case obj_get session ''clientState'' of
           JObj cs \<Rightarrow>
             if obj_get cs ''connectionState'' \<in> {JStr ''TUNNEL_ERROR'', JStr ''CLIENT_ERROR''} then Inr s
             else Inr (s(i \<mapsto> with_connection c statusCode cs session))
         | _ \<Rightarrow> Inl TypeError)"
| "guac_reducer (SetTunnelUnstable t u) s =
     (let i = getIdentifiedFromPayload t; session = session_of s i
      in case obj_get session ''clientState'' of
           JObj cs \<Rightarrow> Inr (s(i \<mapsto> AList.update ''clientState'' (JObj (AList.update ''tunnelUnstable'' u cs)) session))
         | _ \<Rightarrow> Inl TypeError)"
| "guac_reducer (SetMultiTouchSupport t touches) s =
     (let i = getIdentifiedFromPayload t in Inr (s(i \<mapsto> AList.update ''multiTouchSupport'' touches (session_of s i))))"
| "guac_reducer (UpdateThumbnail t thumbnail) s =
     (let i = getIdentifiedFromPayload t in Inr (s(i \<mapsto> AList.update ''thumbnail'' thumbnail (session_of s i))))"

section \<open>Dialogs, suggestions and logs\<close>

datatype modal_action = ShowModal jsval | HideModal jsval

fun modals_reducer :: "modal_action \<Rightarrow> jsval list \<Rightarrow> jsval list js" where
  "modals_reducer (ShowModal m) s = Inr (s @ [m])"
| "modals_reducer (HideModal i) s = Inr (filter (\<lambda>m. prop_get m ''id'' \<noteq> i) s)"

datatype persistent_action =
    SetUserInputSuggestionsVR "jsval list"
  | AddUserInputSuggestionVR jsval
  | RemoveUserInputSuggestionVR jsval

fun persistent_reducer :: "persistent_action \<Rightarrow> jsval list \<Rightarrow> jsval list js" where
  "persistent_reducer (SetUserInputSuggestionsVR l) s = Inr l"
| "persistent_reducer (AddUserInputSuggestionVR v) s = Inr (s @ [v])"
| "persistent_reducer (RemoveUserInputSuggestionVR text) s =
     (if list_ex nullish s then Inl TypeError else Inr (filter (\<lambda>v. prop_get v ''text'' \<noteq> text) s))"

record logs_state =
  lo_allLogs :: "jsval list"
  lo_filteredLogs :: "jsval list"
  lo_status :: string
  lo_error :: jsval
  lo_levelFilter :: jsval
  lo_searchText :: string

definition initial_logs :: logs_state where
  "initial_logs = \<lparr>lo_allLogs = [], lo_filteredLogs = [], lo_status = ''idle'', lo_error = JNull,
     lo_levelFilter = JStr ''all'', lo_searchText = []\<rparr>"

text \<open>The level is an argument that the body does not read; a text that is neither missing nor a string throws.\<close>

definition filterLogs :: "jsval list \<Rightarrow> jsval \<Rightarrow> string \<Rightarrow> jsval list js" where
  "filterLogs logs level searchText =
     (if list_ex (\<lambda>log. let text = prop_get log ''text'' in \<not> nullish text \<and> text \<noteq> JStr (to_string text)) logs
      then Inl TypeError
      else Inr (filter (\<lambda>log. case prop_get log ''text'' of JStr s \<Rightarrow> str_includes (to_lower s) (to_lower searchText) | _ \<Rightarrow> False) logs))"

datatype logs_action =
    SetLogs "jsval list"
  | SetLevelFilter jsval
  | SetSearchText string
  | FetchPending
  | FetchFulfilled "jsval list"
  | FetchRejected jsval

fun logs_reducer :: "logs_action \<Rightarrow> logs_state \<Rightarrow> logs_state js" where
  "logs_reducer (SetLogs l) s = Inr (s\<lparr>lo_allLogs := l\<rparr>)"
| "logs_reducer (SetLevelFilter v) s =
     rbind (filterLogs (lo_allLogs s) v (lo_searchText s)) (\<lambda>l. Inr (s\<lparr>lo_levelFilter := v, lo_filteredLogs := l\<rparr>))"
| "logs_reducer (SetSearchText t) s =
     rbind (filterLogs (lo_allLogs s) (lo_levelFilter s) t) (\<lambda>l. Inr (s\<lparr>lo_searchText := t, lo_filteredLogs := l\<rparr>))"
| "logs_reducer FetchPending s = Inr (s\<lparr>lo_status := ''loading''\<rparr>)"
| "logs_reducer (FetchFulfilled l) s =
     rbind (filterLogs l (lo_levelFilter s) (lo_searchText s)) (\<lambda>shown.
       Inr (s\<lparr>lo_status := ''succeeded'', lo_allLogs := l, lo_filteredLogs := shown\<rparr>))"
| "logs_reducer (FetchRejected e) s = Inr (s\<lparr>lo_status := ''failed'', lo_error := e\<rparr>)"

section \<open>The general slice\<close>

record notification =
  nt_key :: jsval
  nt_message :: jsval
  nt_options :: jsval
  nt_values :: jsval
  nt_dismissed :: bool

record general_state =
  ge_zone :: jsval
  ge_appTitle :: jsval
  ge_isBeta :: bool
  ge_withGroupSwitcher :: bool
  ge_isLoading :: bool
  ge_isFixMenu :: bool
  ge_isUpdateDialog :: bool
  ge_isFullMode :: bool
  ge_tableViewMode :: jsval
  ge_secondTitle :: jsval
  ge_loadedOsProfile :: jsval
  ge_upload :: jsval
  ge_notifications :: "notification list"
  ge_selectedIds :: jsval
  ge_disabledSteps :: jsval
  ge_fieldPath :: string
  ge_modifiedFields :: jsval
  ge_defaultZone :: jsval

definition initial_general :: general_state where
  "initial_general =
     \<lparr>ge_zone = JNum 0, ge_appTitle = JNull, ge_isBeta = False, ge_withGroupSwitcher = False, ge_isLoading = False,
      ge_isFixMenu = False, ge_isUpdateDialog = False, ge_isFullMode = False, ge_tableViewMode = JStr ''card'',
      ge_secondTitle = JObj [], ge_loadedOsProfile = JObj [], ge_upload = JNum 0, ge_notifications = [],
      ge_selectedIds = JArr [], ge_disabledSteps = JArr [], ge_fieldPath = [], ge_modifiedFields = JObj [],
      ge_defaultZone = JNum 0\<rparr>"

definition APPS_IN_BETA :: "string list" where "APPS_IN_BETA = []"
definition APPS_WITH_SWITCHER :: "string list" where "APPS_WITH_SWITCHER = [''sunstone'']"

text \<open>\<open>v?.length > 0\<close>.\<close>

definition has_length :: "jsval \<Rightarrow> bool" where
  "has_length v = (case v of
     JStr s \<Rightarrow> s \<noteq> []
   | JArr xs \<Rightarrow> xs \<noteq> []
   | JObj fs \<Rightarrow> (case to_number (obj_get fs ''length'') of Some n \<Rightarrow> n > 0 | None \<Rightarrow> False)
   | _ \<Rightarrow> False)"

text \<open>Writing to an item of the array at a path.  The array is read by reference, changed and written back
  under the same path.  Items are objects; null among them throws.\<close>

definition mark_deleted :: "jsval \<Rightarrow> jsval" where
  "mark_deleted item = js_put item ''__delete__'' (JBool True)"

definition item_at :: "jsval list \<Rightarrow> int \<Rightarrow> jsval" where
  "item_at xs i = (if 0 \<le> i \<and> nat i < length xs then xs ! nat i else JUndef)"

definition visible :: "jsval \<Rightarrow> bool" where
  "visible item \<longleftrightarrow> \<not> truthy (prop_get item ''__delete__'')"

definition change_item :: "lodash \<Rightarrow> nat \<Rightarrow> jsval \<Rightarrow> jsval \<Rightarrow> jsval list js" where
  "change_item lo index payload arrayAtPath =
     (case arrayAtPath of
        JArr xs \<Rightarrow>
          (let items = xs @ replicate (Suc index - length xs) (JObj []);
               pos = calculateIndex items (int index)
           in if list_ex nullish items then Inl TypeError
              else if prop_get payload ''__flag__'' = JStr ''DELETE'' then
                (if pos = -1 then Inl TypeError else Inr (items[nat pos := mark_deleted (items ! nat pos)]))
              else if index < length (filter visible items) then
                (if is_object (item_at items pos)
                 then Inr (items[nat pos := lo_merge lo (item_at items pos) payload]) else Inr items)
              else Inr (items @ [payload]))
      | _ \<Rightarrow> Inl TypeError)"

definition setModifiedFields :: "lodash \<Rightarrow> jsval \<Rightarrow> bool \<Rightarrow> general_state \<Rightarrow> general_state js" where
  "setModifiedFields lo payload direct g =
     (let fields = ge_modifiedFields g; fieldPath = ge_fieldPath g;
          with_path = (\<lambda>g'. if truthy (prop_get payload ''setPath'')
                            then g'\<lparr>ge_fieldPath := (case prop_get payload ''setPath'' of JStr s \<Rightarrow> s | _ \<Rightarrow> fieldPath)\<rparr> else g')
      in if direct then Inr (g\<lparr>ge_modifiedFields := lo_merge lo (lo_merge lo (JObj []) fields) payload\<rparr>)
         else if fieldPath = [] then
           Inr (with_path (g\<lparr>ge_modifiedFields := lo_merge lo (lo_merge lo (JObj []) fields) payload\<rparr>))
         else
           (let pathSegments = js_split (CHR ''.'') fieldPath; lastSegment = last pathSegments
            in if lastSegment \<noteq> [] \<and> list_all is_digit lastSegment then
                 (let path = js_join ''.'' (butlast pathSegments)
                  in rbind (change_item lo (digits_val lastSegment) payload (lo_get lo fields path (JArr []))) (\<lambda>items.
                       Inr (with_path (g\<lparr>ge_modifiedFields := lo_set lo fields path (JArr items)\<rparr>))))
               else
                 (let nested = length pathSegments > 2;
                      base = (if nested then js_join ''.'' (butlast pathSegments) else js_join ''.'' pathSegments);
                      existing = lo_get lo fields base (JObj []);
                      merged = lo_merge lo (lo_merge lo (JObj []) (if truthy existing then existing else JObj []))
                                 (lo_get lo payload (hd pathSegments) (JObj []))
                  in if nested \<and> nullish existing then Inl TypeError
                     else let v = (if nested then js_put existing lastSegment merged else merged)
                          in Inr (with_path (g\<lparr>ge_modifiedFields := lo_set lo fields base (parsePayload lo v fieldPath)\<rparr>)))))"

text \<open>Moving an item from the array at one path to the array at another.  Both are read by reference, so with
  equal paths they are one array; one path does not lead into the array of the other.  A path that leads to
  no array throws.\<close>

definition final_position :: "jsval list \<Rightarrow> jsval \<Rightarrow> nat js" where
  "final_position xs position =
     (let pos = (case position of JNum n \<Rightarrow> calculateIndex xs n | _ \<Rightarrow> -1)
      in if list_ex nullish (if pos = -1 then xs else take (Suc (nat pos)) xs) then Inl TypeError
         else Inr (if pos = -1 then length xs else nat pos))"

definition changePositionModifiedFields :: "lodash \<Rightarrow> jsval \<Rightarrow> general_state \<Rightarrow> general_state js" where
  "changePositionModifiedFields lo payload g =
     (let sourcePath = to_string (prop_get payload ''sourcePath''); targetPath = to_string (prop_get payload ''targetPath'');
          fields = ge_modifiedFields g
      in case (lo_get lo fields sourcePath JUndef, lo_get lo fields targetPath JUndef) of
           (JArr sourceArray, JArr targetArray) \<Rightarrow>
             rbind (final_position sourceArray (prop_get payload ''sourcePosition'')) (\<lambda>s.
             rbind (final_position targetArray (prop_get payload ''targetPosition'')) (\<lambda>t.
               let target1 = array_put targetArray t (item_at sourceArray (int s));
                   source1 = (if sourcePath = targetPath then target1 else sourceArray);
                   source2 = (if truthy (prop_get payload ''sourceDelete'') then lo_pullAt lo source1 s else source1);
                   source3 = (if truthy (prop_get payload ''emptyObjectContent'')
                              then array_put source2 s (lo_pickBy lo (item_at source2 (int s)) (\<lambda>value key. starts_with key ''__''))
                              else source2);
                   target3 = (if sourcePath = targetPath then source3 else target1)
               in Inr (g\<lparr>ge_modifiedFields :=
                    lo_set lo (lo_set lo fields sourcePath (JArr source3)) targetPath (JArr target3)\<rparr>)))
         | _ \<Rightarrow> Inl TypeError)"

datatype general_action =
    GeneralLogout
  | FixMenu jsval
  | ChangeLoading jsval
  | ChangeAppTitle string
  | ChangeZone jsval
  | SetSelectedIds jsval
  | UpdateDisabledSteps jsval
  | SetUpdateDialog jsval
  | SetFullMode jsval
  | SetSecondTitle jsval
  | SetTableViewMode jsval
  | SetLoadOsProfile string
  | ResetLoadOsProfile
  | SetFieldPath string
  | ResetFieldPath
  | InitModifiedFields jsval
  | ChangePositionModifiedFields jsval
  | SetModifiedFields jsval bool
  | ResetModifiedFields
  | SetUploadSnackbar jsval
  | EnqueueSnackbar jsval jsval jsval jsval
  | DismissSnackbar jsval bool
  | DeleteSnackbar jsval
  | RequestAction string jsval bool jsval

text \<open>Actions of requests match by their type: the endings \<open>/pending\<close>, \<open>/fulfilled\<close> and \<open>/rejected\<close>, unless
  the type mentions \<open>auth\<close>.  The last argument is the key \<open>generateKey\<close> makes.\<close>

definition ends_with :: "string \<Rightarrow> string \<Rightarrow> bool" where
  "ends_with s e = starts_with (rev s) (rev e)"

definition request_reducer :: "string \<Rightarrow> jsval \<Rightarrow> bool \<Rightarrow> jsval \<Rightarrow> general_state \<Rightarrow> general_state" where
  "request_reducer ty payload aborted key g =
     (if str_includes ty ''auth'' then g
      else let g1 = (if ends_with ty ''/pending'' then g\<lparr>ge_isLoading := True\<rparr> else g);
               g2 = (if ends_with ty ''/fulfilled'' then g1\<lparr>ge_isLoading := False\<rparr> else g1)
           in if \<not> aborted \<and> ends_with ty ''/rejected'' then
                g2\<lparr>ge_isLoading := False,
                   ge_notifications := ge_notifications g2 @
                     (if has_length payload
                      then [\<lparr>nt_key = key, nt_message = payload, nt_options = JObj [(''variant'', JStr ''error'')],
                             nt_values = JUndef, nt_dismissed = False\<rparr>]
                      else [])\<rparr>
              else g2)"

fun general_reducer :: "lodash \<Rightarrow> general_action \<Rightarrow> general_state \<Rightarrow> general_state js" where
  "general_reducer lo GeneralLogout g =
     Inr (initial_general\<lparr>ge_zone := ge_defaultZone g, ge_defaultZone := ge_defaultZone g, ge_appTitle := ge_appTitle g,
       ge_isBeta := ge_isBeta g, ge_withGroupSwitcher := ge_withGroupSwitcher g\<rparr>)"
| "general_reducer lo (FixMenu p) g = Inr (g\<lparr>ge_isFixMenu := truthy p\<rparr>)"
| "general_reducer lo (ChangeLoading p) g = Inr (g\<lparr>ge_isLoading := truthy p\<rparr>)"
| "general_reducer lo (ChangeAppTitle title) g =
     Inr (g\<lparr>ge_appTitle := JStr title, ge_isBeta := to_lower title \<in> set APPS_IN_BETA,
            ge_withGroupSwitcher := to_lower title \<in> set APPS_WITH_SWITCHER\<rparr>)"
| "general_reducer lo (ChangeZone p) g = Inr (g\<lparr>ge_zone := p\<rparr>)"
| "general_reducer lo (SetSelectedIds p) g = Inr (g\<lparr>ge_selectedIds := p\<rparr>)"
| "general_reducer lo (UpdateDisabledSteps p) g = Inr (g\<lparr>ge_disabledSteps := p\<rparr>)"
| "general_reducer lo (SetUpdateDialog p) g = Inr (g\<lparr>ge_isUpdateDialog := truthy p\<rparr>)"
| "general_reducer lo (SetFullMode p) g = Inr (g\<lparr>ge_isFullMode := truthy p\<rparr>)"
| "general_reducer lo (SetSecondTitle p) g = Inr (g\<lparr>ge_secondTitle := p\<rparr>)"
| "general_reducer lo (SetTableViewMode p) g = Inr (g\<lparr>ge_tableViewMode := p\<rparr>)"
| "general_reducer lo (SetLoadOsProfile stepId) g =
     Inr (if truthy (lo_get lo (ge_loadedOsProfile g) stepId (JBool False)) then g
          else g\<lparr>ge_loadedOsProfile := lo_set lo (ge_loadedOsProfile g) stepId (JBool True)\<rparr>)"
| "general_reducer lo ResetLoadOsProfile g = Inr (g\<lparr>ge_loadedOsProfile := JObj []\<rparr>)"
| "general_reducer lo (SetFieldPath p) g = Inr (g\<lparr>ge_fieldPath := p\<rparr>)"
| "general_reducer lo ResetFieldPath g = Inr (g\<lparr>ge_fieldPath := []\<rparr>)"
| "general_reducer lo (InitModifiedFields p) g =
     Inr (if truthy (lo_get lo (ge_modifiedFields g) (ge_fieldPath g) (JBool False)) then g
          else g\<lparr>ge_modifiedFields := lo_set lo (ge_modifiedFields g) (ge_fieldPath g) p\<rparr>)"
| "general_reducer lo (ChangePositionModifiedFields p) g = changePositionModifiedFields lo p g"
| "general_reducer lo (SetModifiedFields p direct) g = setModifiedFields lo p direct g"
| "general_reducer lo ResetModifiedFields g = Inr (g\<lparr>ge_modifiedFields := JObj []\<rparr>)"
| "general_reducer lo (SetUploadSnackbar p) g = Inr (g\<lparr>ge_upload := p\<rparr>)"
| "general_reducer lo (EnqueueSnackbar key message options values) g =
     (if \<not> has_length message then Inl TypeError
      else Inr (g\<lparr>ge_notifications := ge_notifications g @
        [\<lparr>nt_key = key, nt_message = message, nt_options = options, nt_values = values, nt_dismissed = False\<rparr>]\<rparr>))"
| "general_reducer lo (DismissSnackbar key dismissAll) g =
     Inr (g\<lparr>ge_notifications := map (\<lambda>n. if dismissAll \<or> nt_key n \<noteq> key then n\<lparr>nt_dismissed := True\<rparr> else n)
       (ge_notifications g)\<rparr>)"
| "general_reducer lo (DeleteSnackbar key) g =
     Inr (g\<lparr>ge_notifications := filter (\<lambda>n. nt_key n \<noteq> key) (ge_notifications g)\<rparr>)"
| "general_reducer lo (RequestAction ty payload aborted key) g = Inr (request_reducer ty payload aborted key g)"

section \<open>The store and the middleware\<close>

record client =
  cl_auth :: auth_state
  cl_support :: support_state
  cl_general :: general_state
  cl_guacamole :: guac_state
  cl_modals :: "jsval list"
  cl_persistent :: "jsval list"
  cl_canResetCache :: bool

datatype action =
    AuthAction auth_action
  | SupportAction support_action
  | GeneralAction general_action
  | GuacAction guac_action
  | ModalAction modal_action
  | PersistentAction persistent_action

definition initial_client :: client where
  "initial_client = \<lparr>cl_auth = initial_auth, cl_support = initial_support, cl_general = initial_general,
     cl_guacamole = Map.empty, cl_modals = [], cl_persistent = [], cl_canResetCache = True\<rparr>"

text \<open>Every slice sees every action; only \<open>logout\<close> concerns two of them.\<close>

fun root_reducer :: "lodash \<Rightarrow> action \<Rightarrow> client \<Rightarrow> client js" where
  "root_reducer lo (AuthAction a) c =
     rbind (auth_reducer a (cl_auth c)) (\<lambda>s.
       case a of
         Logout _ \<Rightarrow> rbind (general_reducer lo GeneralLogout (cl_general c)) (\<lambda>g. Inr (c\<lparr>cl_auth := s, cl_general := g\<rparr>))
       | _ \<Rightarrow> Inr (c\<lparr>cl_auth := s\<rparr>))"
| "root_reducer lo (SupportAction a) c = rbind (support_reducer a (cl_support c)) (\<lambda>s. Inr (c\<lparr>cl_support := s\<rparr>))"
| "root_reducer lo (GeneralAction a) c = rbind (general_reducer lo a (cl_general c)) (\<lambda>s. Inr (c\<lparr>cl_general := s\<rparr>))"
| "root_reducer lo (GuacAction a) c = rbind (guac_reducer a (cl_guacamole c)) (\<lambda>s. Inr (c\<lparr>cl_guacamole := s\<rparr>))"
| "root_reducer lo (ModalAction a) c = rbind (modals_reducer a (cl_modals c)) (\<lambda>s. Inr (c\<lparr>cl_modals := s\<rparr>))"
| "root_reducer lo (PersistentAction a) c = rbind (persistent_reducer a (cl_persistent c)) (\<lambda>s. Inr (c\<lparr>cl_persistent := s\<rparr>))"

text \<open>\<open>action?.payload?.status\<close>.\<close>

fun general_payload :: "general_action \<Rightarrow> jsval" where
  "general_payload (FixMenu p) = p"
| "general_payload (ChangeLoading p) = p"
| "general_payload (ChangeZone p) = p"
| "general_payload (SetSelectedIds p) = p"
| "general_payload (UpdateDisabledSteps p) = p"
| "general_payload (SetUpdateDialog p) = p"
| "general_payload (SetFullMode p) = p"
| "general_payload (SetSecondTitle p) = p"
| "general_payload (SetTableViewMode p) = p"
| "general_payload (InitModifiedFields p) = p"
| "general_payload (ChangePositionModifiedFields p) = p"
| "general_payload (SetModifiedFields p _) = p"
| "general_payload (SetUploadSnackbar p) = p"
| "general_payload (RequestAction _ p _ _) = p"
| "general_payload _ = JUndef"

fun auth_payload :: "auth_action \<Rightarrow> jsval" where
  "auth_payload (ChangeAuthUser u) = (case u of Some p \<Rightarrow> JObj p | None \<Rightarrow> JUndef)"
| "auth_payload (ChangeExternalRedirect p) = p"
| "auth_payload (ChangeFilterPool p) = p"
| "auth_payload (ChangeView p) = p"
| "auth_payload (SetErrorMessage p) = p"
| "auth_payload SetSessionVerified = JUndef"
| "auth_payload (Logout p) = p"

fun action_status :: "action \<Rightarrow> jsval" where
  "action_status (AuthAction a) = prop_get (auth_payload a) ''status''"
| "action_status (GeneralAction a) = prop_get (general_payload a) ''status''"
| "action_status (SupportAction (ChangeSupportAuthUser (Some p))) = obj_get p ''status''"
| "action_status (ModalAction (ShowModal p)) = prop_get p ''status''"
| "action_status (ModalAction (HideModal p)) = prop_get p ''status''"
| "action_status (PersistentAction (AddUserInputSuggestionVR p)) = prop_get p ''status''"
| "action_status (PersistentAction (RemoveUserInputSuggestionVR p)) = prop_get p ''status''"
| "action_status _ = JUndef"

definition SessionExpired :: string where
  "SessionExpired = ''Sorry, your session has expired''"

text \<open>The middleware dispatches the logout through the whole chain, then passes the action on.  The logout's
  payload is a text or undefined, so the middleware lets it pass.\<close>

definition reduce :: "lodash \<Rightarrow> action \<Rightarrow> client \<Rightarrow> client \<times> js_error option" where
  "reduce lo a c = (case root_reducer lo a c of Inr c' \<Rightarrow> (c', None) | Inl e \<Rightarrow> (c, Some e))"

definition unauthenticatedMiddleware :: "lodash \<Rightarrow> action \<Rightarrow> client \<Rightarrow> client \<times> js_error option" where
  "unauthenticatedMiddleware lo a c =
     (let status = action_status a;
          c1 = (if nullish status then c
                else if status = JNum 401 \<and> cl_canResetCache c then
                  fst (reduce lo (AuthAction (Logout (if au_isLoggedIn (cl_auth c) then JStr SessionExpired else JUndef)))
                    (c\<lparr>cl_canResetCache := False\<rparr>))
                else if status \<noteq> JNum 401 then c\<lparr>cl_canResetCache := True\<rparr>
                else c)
      in reduce lo a c1)"

definition dispatch_all :: "lodash \<Rightarrow> action list \<Rightarrow> client \<Rightarrow> client" where
  "dispatch_all lo as c = fold (\<lambda>a c. fst (unauthenticatedMiddleware lo a c)) as c"

section \<open>Invariants\<close>

text \<open>Of a remote console with a client state, the five flags say what its connection state is.\<close>

definition flags_match :: "jsobj \<Rightarrow> jsval \<Rightarrow> bool" where
  "flags_match session c \<longleftrightarrow>
     obj_get session ''isUninitialized'' = flag c [''IDLE''] \<and>
     obj_get session ''isLoading'' = flag c [''WAITING'', ''CONNECTING'', ''DISCONNECTING''] \<and>
     obj_get session ''isConnected'' = flag c [''CONNECTED''] \<and>
     obj_get session ''isDisconnected'' = flag c [''DISCONNECTED''] \<and>
     obj_get session ''isError'' = flag c [''CLIENT_ERROR'', ''TUNNEL_ERROR'']"

definition session_ok :: "jsobj \<Rightarrow> bool" where
  "session_ok session =
     (case obj_get session ''clientState'' of
        JObj cs \<Rightarrow> flags_match session (obj_get cs ''connectionState'')
      | _ \<Rightarrow> True)"

definition guac_ok :: "guac_state \<Rightarrow> bool" where
  "guac_ok s \<longleftrightarrow> (\<forall>i session. s i = Some session \<longrightarrow> session_ok session)"

text \<open>The actions the hooks of the slice offer: all but \<open>updateGuacamoleSession\<close>.\<close>

fun hook_action :: "guac_action \<Rightarrow> bool" where
  "hook_action (UpdateGuacamoleSession _ _) = False"
| "hook_action _ = True"

lemma obj_get_update [simp]: "obj_get (AList.update k v fs) k' = (if k' = k then v else obj_get fs k')"
  by (simp add: obj_get_def)

lemma session_ok_initial: "session_ok (AList.update ''token'' v INITIAL_SESSION)"
  by (simp add: session_ok_def flags_match_def INITIAL_SESSION_def obj_get_def flag_def)

lemma session_ok_with_connection: "session_ok (with_connection c code cs session)"
  by (simp add: with_connection_def session_ok_def flags_match_def Let_def)

lemma session_ok_update:
  "session_ok session \<Longrightarrow> k \<in> {''multiTouchSupport'', ''thumbnail''} \<Longrightarrow> session_ok (AList.update k v session)"
  by (cases "obj_get session ''clientState''"; elim insertE; simp add: session_ok_def flags_match_def)

lemma session_ok_unstable:
  "session_ok session \<Longrightarrow> obj_get session ''clientState'' = JObj cs \<Longrightarrow>
     session_ok (AList.update ''clientState'' (JObj (AList.update ''tunnelUnstable'' u cs)) session)"
  by (simp add: session_ok_def flags_match_def)

lemma guac_ok_session: "guac_ok s \<Longrightarrow> session_ok (session_of s i)"
  by (cases "s i") (auto simp: guac_ok_def session_of_def session_ok_def obj_get_def)

lemma guac_ok_upd: "guac_ok s \<Longrightarrow> session_ok session \<Longrightarrow> guac_ok (s(i \<mapsto> session))"
  by (simp add: guac_ok_def)

lemma guac_keeps:
  assumes "guac_ok s" "hook_action a" "guac_reducer a s = Inr s'" shows "guac_ok s'"
proof (cases a)
  case (RemoveGuacamoleSession t)
  then show ?thesis using assms by (auto simp: guac_ok_def split: if_splits)
qed (use assms guac_ok_session [OF assms(1)] in
  \<open>auto simp: Let_def split: jsval.splits if_splits
     intro!: guac_ok_upd session_ok_initial session_ok_with_connection session_ok_update session_ok_unstable\<close>)

text \<open>The connection states of the consoles, and the abstract machine they follow: a console starts idle, an
  error is final until the console is added again or removed, and the rest do not concern it.\<close>

definition connections :: "guac_state \<Rightarrow> string \<Rightarrow> jsval option" where
  "connections s i =
     (case obj_get (session_of s i) ''clientState'' of JObj cs \<Rightarrow> Some (obj_get cs ''connectionState'') | _ \<Rightarrow> None)"

definition failed :: "jsval \<Rightarrow> bool" where
  "failed c \<longleftrightarrow> c = JStr ''TUNNEL_ERROR'' \<or> c = JStr ''CLIENT_ERROR''"

fun connection_step :: "guac_action \<Rightarrow> (string \<Rightarrow> jsval option) \<Rightarrow> string \<Rightarrow> jsval option" where
  "connection_step (AddGuacamoleSession t _) m = m(getIdentifiedFromPayload t \<mapsto> JStr ''IDLE'')"
| "connection_step (RemoveGuacamoleSession t) m = m(getIdentifiedFromPayload t := None)"
| "connection_step (SetConnectionState t c _) m =
     (case m (getIdentifiedFromPayload t) of
        Some old \<Rightarrow> if failed old then m else m(getIdentifiedFromPayload t \<mapsto> c)
      | None \<Rightarrow> m)"
| "connection_step _ m = m"

lemma session_of_upd: "session_of (s(i \<mapsto> v)) j = (if j = i then v else session_of s j)"
  "session_of (s(i := None)) j = (if j = i then [] else session_of s j)"
  by (simp_all add: session_of_def)

lemma connections_upd:
  "connections (s(i \<mapsto> v)) = (connections s)(i := (case obj_get v ''clientState'' of
     JObj cs \<Rightarrow> Some (obj_get cs ''connectionState'') | _ \<Rightarrow> None))"
  "connections (s(i := None)) = (connections s)(i := None)"
  by (auto simp: connections_def session_of_upd fun_eq_iff obj_get_def)

lemma connections_same:
  "obj_get v ''clientState'' = obj_get (session_of s i) ''clientState'' \<Longrightarrow> connections (s(i \<mapsto> v)) = connections s"
  by (auto simp: connections_upd fun_eq_iff connections_def)

lemma connections_cs: "obj_get (session_of s i) ''clientState'' = JObj cs \<Longrightarrow> connections s i = Some (obj_get cs ''connectionState'')"
  by (simp add: connections_def)

lemma with_connection_cs:
  "obj_get (with_connection c code cs session) ''clientState'' =
     JObj (AList.update ''tunnelUnstable'' (JBool False) (AList.update ''connectionState'' c
       (if truthy code then AList.update ''statusCode'' code cs else cs)))"
  by (simp add: with_connection_def Let_def)

lemma guac_sim:
  assumes "hook_action a" "guac_reducer a s = Inr s'"
  shows "connections s' = connection_step a (connections s)"
proof (cases a)
  case (AddGuacamoleSession t token)
  then show ?thesis using assms(2) by (auto simp: connections_upd INITIAL_SESSION_def obj_get_def)
next
  case (RemoveGuacamoleSession t)
  then show ?thesis using assms(2) by (auto simp: connections_upd)
next
  case (SetConnectionState t c code)
  let ?i = "getIdentifiedFromPayload t"
  obtain cs where cs: "obj_get (session_of s ?i) ''clientState'' = JObj cs"
    using assms(2) SetConnectionState by (cases "obj_get (session_of s ?i) ''clientState''") (auto simp: Let_def)
  then show ?thesis using assms(2) SetConnectionState connections_cs [OF cs]
    by (auto simp: Let_def failed_def connections_upd with_connection_cs split: if_splits)
next
  case (SetTunnelUnstable t u)
  let ?i = "getIdentifiedFromPayload t"
  obtain cs where cs: "obj_get (session_of s ?i) ''clientState'' = JObj cs"
    using assms(2) SetTunnelUnstable by (cases "obj_get (session_of s ?i) ''clientState''") (auto simp: Let_def)
  then show ?thesis using assms(2) SetTunnelUnstable connections_cs [OF cs] by (auto simp: Let_def connections_upd)
qed (use assms in \<open>auto simp: Let_def intro!: connections_same\<close>)

lemma guac_stuck:
  assumes "guac_reducer a s = Inl e" shows "connection_step a (connections s) = connections s"
proof (cases a)
  case (SetConnectionState t c code)
  then have "connections s (getIdentifiedFromPayload t) = None"
    using assms by (auto simp: Let_def connections_def split: jsval.splits if_splits)
  then show ?thesis using SetConnectionState by simp
qed (use assms in \<open>auto simp: Let_def\<close>)

interpretation guac: reducer_refines guac_reducer hook_action guac_ok connections connection_step
  by unfold_locales (auto intro: guac_keeps guac_sim guac_stuck)

text \<open>The abstract session of the user: whether someone is logged in.\<close>

fun login_step :: "auth_action \<Rightarrow> bool \<Rightarrow> bool" where
  "login_step (ChangeAuthUser (Some p)) b = (b \<or> truthy (obj_get p ''ID''))"
| "login_step (Logout _) b = False"
| "login_step _ b = b"

definition auth_ok :: "auth_state \<Rightarrow> bool" where
  "auth_ok s \<longleftrightarrow> (au_isLoggedIn s \<longrightarrow> au_user s \<noteq> None)"

lemma auth_reducer_simps:
  assumes "auth_reducer a s = Inr s'"
  shows "auth_ok s \<Longrightarrow> auth_ok s'" and "au_isLoggedIn s' = login_step a (au_isLoggedIn s)"
  using assms
  by (cases "(a, s)" rule: auth_reducer.cases;
      auto simp: auth_ok_def initial_auth_def Let_def obj_get_def delete_conv' split: if_splits)+

interpretation auth: reducer_refines auth_reducer "\<lambda>_. True" auth_ok au_isLoggedIn login_step
proof unfold_locales
  fix s a e
  assume "auth_reducer a s = Inl e"
  then show "login_step a (au_isLoggedIn s) = au_isLoggedIn s"
    by (cases "(a, s)" rule: auth_reducer.cases) (auto simp: Let_def)
qed (use auth_reducer_simps in auto)

section \<open>Items that are marked as deleted\<close>

lemma calculateIndex_from_Cons:
  "calculateIndex_from i acc p (x # xs) =
     (if visible x then if acc = p then int i else calculateIndex_from (Suc i) (acc + 1) p xs
      else calculateIndex_from (Suc i) acc p xs)"
  by (simp add: visible_def)

lemma calculateIndex_from_split:
  "a \<le> p \<Longrightarrow> nat (p - a) < length (filter visible xs) \<Longrightarrow>
     \<exists>ys x zs. xs = ys @ x # zs \<and> visible x \<and> length (filter visible ys) = nat (p - a) \<and>
       calculateIndex_from i a p xs = int (i + length ys)"
proof (induction xs arbitrary: i a)
  case (Cons x xs)
  show ?case
  proof (cases "visible x \<and> a = p")
    case True
    then show ?thesis
      by (simp only: calculateIndex_from_Cons) (rule exI [of _ "[]"], simp)
  next
    case False
    define a' where "a' = (if visible x then a + 1 else a)"
    have "a' \<le> p" "nat (p - a') < length (filter visible xs)"
      using Cons.prems False by (auto simp: a'_def split: if_splits)
    then obtain ys y zs where "xs = ys @ y # zs" "visible y" "length (filter visible ys) = nat (p - a')"
      "calculateIndex_from (Suc i) a' p xs = int (Suc i + length ys)" using Cons.IH [of a' "Suc i"] by blast
    then show ?thesis using False Cons.prems(1)
      by (simp only: calculateIndex_from_Cons)
         (rule exI [of _ "x # ys"], rule exI [of _ y], rule exI [of _ zs], auto simp: a'_def split: if_splits)
  qed
qed simp

lemma calculateIndex_split:
  assumes "i < length (filter visible xs)"
  obtains ys x zs where "xs = ys @ x # zs" "visible x" "length (filter visible ys) = i" "calculateIndex xs (int i) = int (length ys)"
  using calculateIndex_from_split [of 0 "int i" xs 0] assms by (auto simp: calculateIndex_def)

definition delete_nth :: "nat \<Rightarrow> 'a list \<Rightarrow> 'a list" where
  "delete_nth i xs = take i xs @ drop (Suc i) xs"

lemma change_item_delete:
  assumes "prop_get payload ''__flag__'' = JStr ''DELETE''" "i < length (filter visible xs)"
    "\<forall>x \<in> set xs. \<exists>fs. x = JObj fs"
  shows "\<exists>items. change_item lo i payload (JArr xs) = Inr items \<and> filter visible items = delete_nth i (filter visible xs)"
proof -
  obtain ys x zs where s: "xs = ys @ x # zs" "visible x" "length (filter visible ys) = i" "calculateIndex xs (int i) = int (length ys)"
    using assms(2) by (rule calculateIndex_split)
  obtain fs where x: "x = JObj fs" using assms(3) s(1) by auto
  have pad: "Suc i - length xs = 0" using assms(2) length_filter_le [of visible xs] by linarith
  have obj: "\<not> list_ex nullish xs" using assms(3) by (auto simp: list_ex_iff nullish_def)
  have "\<not> visible (mark_deleted x)" by (simp add: x mark_deleted_def visible_def)
  then have "filter visible (ys @ mark_deleted x # zs) = delete_nth i (filter visible xs)"
    using s by (simp add: delete_nth_def)
  moreover have "change_item lo i payload (JArr xs) = Inr (ys @ mark_deleted x # zs)"
    using assms(1) obj pad s by (simp add: change_item_def Let_def nth_append list_update_append)
  ultimately show ?thesis by blast
qed

lemma change_item_merge:
  assumes "prop_get payload ''__flag__'' \<noteq> JStr ''DELETE''" "i < length (filter visible xs)"
    "\<forall>x \<in> set xs. \<exists>fs. x = JObj fs" "visible (lo_merge lo (filter visible xs ! i) payload)"
  shows "\<exists>items. change_item lo i payload (JArr xs) = Inr items \<and>
    filter visible items = (filter visible xs)[i := lo_merge lo (filter visible xs ! i) payload]"
proof -
  obtain ys x zs where s: "xs = ys @ x # zs" "visible x" "length (filter visible ys) = i" "calculateIndex xs (int i) = int (length ys)"
    using assms(2) by (rule calculateIndex_split)
  obtain fs where x: "x = JObj fs" using assms(3) s(1) by auto
  have pad: "Suc i - length xs = 0" using assms(2) length_filter_le [of visible xs] by linarith
  have obj: "\<not> list_ex nullish xs" using assms(3) by (auto simp: list_ex_iff nullish_def)
  have vx: "filter visible xs ! i = x" using s by (auto simp: nth_append)
  have "change_item lo i payload (JArr xs) = Inr (ys @ lo_merge lo x payload # zs)"
    using assms(1,2) obj pad s x by (simp add: change_item_def Let_def nth_append list_update_append item_at_def is_object_def)
  moreover have "filter visible (ys @ lo_merge lo x payload # zs) = (filter visible xs)[i := lo_merge lo x payload]"
    using assms(4) s vx by (auto simp: list_update_append)
  ultimately show ?thesis using vx by simp
qed

text \<open>At the position after the last item shown, a change adds an item: the payload when something is marked as
  deleted, and the payload merged into an empty object when nothing is.\<close>

lemma change_item_add:
  assumes "prop_get payload ''__flag__'' \<noteq> JStr ''DELETE''" "\<forall>x \<in> set xs. \<exists>fs. x = JObj fs"
    "new = (if list_all visible xs then lo_merge lo (JObj []) payload else payload)" "visible new"
  shows "\<exists>items. change_item lo (length (filter visible xs)) payload (JArr xs) = Inr items \<and>
    filter visible items = filter visible xs @ [new]"
proof (cases "list_all visible xs")
  case True
  then have all: "filter visible xs = xs" by (simp add: list_all_iff)
  have vis: "visible (JObj [])" by (simp add: visible_def obj_get_def)
  let ?xs = "xs @ [JObj []]"
  have fl: "length xs < length (filter visible ?xs)" using all vis by simp
  obtain ys x zs where s: "?xs = ys @ x # zs" "visible x" "length (filter visible ys) = length xs"
    "calculateIndex ?xs (int (length xs)) = int (length ys)"
    using fl by (rule calculateIndex_split)
  have "length ys + length zs = length xs" using arg_cong [OF s(1), of length] by simp
  then have "length ys = length xs" using s(3) length_filter_le [of visible ys] by linarith
  then have pos: "calculateIndex ?xs (int (length xs)) = int (length xs)" using s(4) by simp
  have obj: "\<not> list_ex nullish ?xs" using assms(2) by (auto simp: list_ex_iff nullish_def)
  have "change_item lo (length (filter visible xs)) payload (JArr xs) = Inr (xs @ [new])"
    using assms(1,3) True all obj pos fl
    by (simp add: change_item_def Let_def item_at_def is_object_def list_update_append)
  then show ?thesis using all assms(4) by simp
next
  case False
  then have "length (filter visible xs) < length xs" by (auto simp: list_all_iff intro: length_filter_less)
  then have pad: "Suc (length (filter visible xs)) - length xs = 0" by simp
  have obj: "\<not> list_ex nullish xs" using assms(2) by (auto simp: list_ex_iff nullish_def)
  have "change_item lo (length (filter visible xs)) payload (JArr xs) = Inr (xs @ [new])"
    using assms(1,3) False pad obj by (simp add: change_item_def Let_def)
  then show ?thesis using assms(4) by simp
qed

section \<open>Properties\<close>

definition GUACAMOLE_STATES :: "string list" where
  "GUACAMOLE_STATES = [''IDLE'', ''CONNECTING'', ''WAITING'', ''CONNECTED'', ''DISCONNECTING'', ''DISCONNECTED'',
     ''CLIENT_ERROR'', ''TUNNEL_ERROR'']"

text \<open>
  Consoles never show two states: whatever the hooks dispatch, the five flags of a console are those of
  its connection state, and for each of the eight states exactly one of them is set.
\<close>

theorem console_shows_one_state:
  assumes "list_all hook_action as" and "run guac_reducer as Map.empty i = Some session"
    and "obj_get session ''clientState'' = JObj cs" and "obj_get cs ''connectionState'' = JStr c"
    and "c \<in> set GUACAMOLE_STATES"
  shows "flags_match session (JStr c) \<and>
    length (filter (\<lambda>f. obj_get session f = JBool True)
      [''isUninitialized'', ''isLoading'', ''isConnected'', ''isDisconnected'', ''isError'']) = 1"
proof -
  have "guac_ok (run guac_reducer as Map.empty)" using assms(1) by (intro guac.run_keeps) (simp_all add: guac_ok_def)
  then have "session_ok session" using assms(2) by (auto simp: guac_ok_def)
  then have m: "flags_match session (JStr c)" using assms(3,4) by (simp add: session_ok_def)
  have "length (filter (\<lambda>f. obj_get session f = JBool True)
      [''isUninitialized'', ''isLoading'', ''isConnected'', ''isDisconnected'', ''isError'']) = 1"
    using assms(5) m unfolding GUACAMOLE_STATES_def flags_match_def flag_def by auto
  then show ?thesis using m by simp
qed

definition console :: target where
  "console = \<lparr>tg_id = Some ''7'', tg_type = Some ''vnc''\<rparr>"

theorem console_shows_one_state_witness:
  "let as = [AddGuacamoleSession console (JStr ''t''), SetConnectionState console (JStr ''CONNECTED'') JUndef];
       session = the (run guac_reducer as Map.empty ''7-vnc'')
   in flags_match session (JStr ''CONNECTED'')"
proof -
  let ?as = "[AddGuacamoleSession console (JStr ''t''), SetConnectionState console (JStr ''CONNECTED'') JUndef]"
  let ?cs = "[(''connectionState'', JStr ''CONNECTED''), (''tunnelUnstable'', JBool False), (''statusCode'', JNum 0)]"
  have "run guac_reducer ?as Map.empty ''7-vnc'' \<noteq> None"
    "obj_get (the (run guac_reducer ?as Map.empty ''7-vnc'')) ''clientState'' = JObj ?cs"
    by (simp_all add: console_def getIdentifiedFromPayload_def session_of_def INITIAL_SESSION_def obj_get_def with_connection_def Let_def)
  then show ?thesis
    using console_shows_one_state [of ?as "''7-vnc''" "the (run guac_reducer ?as Map.empty ''7-vnc'')" ?cs "''CONNECTED''"]
    by (auto simp: GUACAMOLE_STATES_def obj_get_def Let_def)
qed

fun resets :: "string \<Rightarrow> guac_action \<Rightarrow> bool" where
  "resets i (AddGuacamoleSession t _) = (getIdentifiedFromPayload t = i)"
| "resets i (RemoveGuacamoleSession t) = (getIdentifiedFromPayload t = i)"
| "resets i _ = False"

lemma failed_stays:
  "m i = Some c \<Longrightarrow> failed c \<Longrightarrow> list_all (\<lambda>a. \<not> resets i a) bs \<Longrightarrow> fold connection_step bs m i = Some c"
proof (induction bs arbitrary: m)
  case (Cons a bs)
  then have "connection_step a m i = Some c" by (cases a) (auto split: option.splits)
  then show ?case using Cons by simp
qed simp

text \<open>
  C24. The connection states of the consoles follow the abstract machine: after any actions of the hooks they
  are what the machine computes, and a console whose connection failed keeps that state whatever is
  reported for it, until it is added again or removed.
\<close>

theorem consoles_follow_machine:
  assumes "list_all hook_action (as @ bs)" and "list_all (\<lambda>a. \<not> resets i a) bs"
  shows "connections (run guac_reducer as Map.empty) = fold connection_step as Map.empty \<and>
    (\<forall>c. connections (run guac_reducer as Map.empty) i = Some c \<and> failed c \<longrightarrow>
       connections (run guac_reducer (as @ bs) Map.empty) i = Some c)"
proof -
  have "connections Map.empty = Map.empty" by (simp add: connections_def session_of_def obj_get_def fun_eq_iff)
  then have m: "connections (run guac_reducer xs Map.empty) = fold connection_step xs Map.empty"
    if "list_all hook_action xs" for xs
    using guac.run_refines [of Map.empty xs] that by (simp add: guac_ok_def)
  show ?thesis using m [of as] m [of "as @ bs"] assms failed_stays by auto
qed

theorem consoles_follow_machine_witness:
  "connections (run guac_reducer [AddGuacamoleSession console JNull, SetConnectionState console (JStr ''TUNNEL_ERROR'') (JNum 519),
     SetConnectionState console (JStr ''DISCONNECTED'') JUndef] Map.empty) ''7-vnc'' = Some (JStr ''TUNNEL_ERROR'')"
proof -
  let ?as = "[AddGuacamoleSession console JNull, SetConnectionState console (JStr ''TUNNEL_ERROR'') (JNum 519)]"
  let ?bs = "[SetConnectionState console (JStr ''DISCONNECTED'') JUndef]"
  have i: "getIdentifiedFromPayload console = ''7-vnc''" by (simp add: console_def getIdentifiedFromPayload_def)
  note T = consoles_follow_machine [of ?as ?bs "''7-vnc''"]
  have "connections (run guac_reducer ?as Map.empty) = fold connection_step ?as Map.empty" using T by (simp del: run.simps)
  then have "connections (run guac_reducer ?as Map.empty) ''7-vnc'' = Some (JStr ''TUNNEL_ERROR'')"
    by (simp add: i failed_def)
  then show ?thesis using T by (simp add: failed_def del: run.simps)
qed

text \<open>
  Being logged in means what it says: after any actions on the session slice the user is logged in
  exactly when some user with an identifier was set and no logout came after.
\<close>

definition is_logout :: "auth_action \<Rightarrow> bool" where
  "is_logout a = (case a of Logout _ \<Rightarrow> True | _ \<Rightarrow> False)"

lemma fold_login_step:
  "fold login_step as b \<longleftrightarrow>
     b \<and> list_all (\<lambda>a. \<not> is_logout a) as \<or>
     (\<exists>bs p cs. as = bs @ ChangeAuthUser (Some p) # cs \<and> truthy (obj_get p ''ID'') \<and> list_all (\<lambda>a. \<not> is_logout a) cs)"
proof (induction as arbitrary: b rule: rev_induct)
  case (snoc a as)
  have split: "(\<exists>bs p cs. as @ [a] = bs @ ChangeAuthUser (Some p) # cs \<and> truthy (obj_get p ''ID'') \<and> list_all (\<lambda>a. \<not> is_logout a) cs) \<longleftrightarrow>
      (\<exists>p. a = ChangeAuthUser (Some p) \<and> truthy (obj_get p ''ID'')) \<or>
      \<not> is_logout a \<and> (\<exists>bs p cs. as = bs @ ChangeAuthUser (Some p) # cs \<and> truthy (obj_get p ''ID'') \<and> list_all (\<lambda>a. \<not> is_logout a) cs)"
    (is "?l \<longleftrightarrow> ?r")
  proof
    assume ?l
    then obtain bs p cs where c: "as @ [a] = bs @ ChangeAuthUser (Some p) # cs" "truthy (obj_get p ''ID'')" "list_all (\<lambda>a. \<not> is_logout a) cs"
      by blast
    then show ?r by (cases cs rule: rev_cases) auto
  next
    assume ?r
    then consider p where "a = ChangeAuthUser (Some p)" "truthy (obj_get p ''ID'')"
      | bs p cs where "as = bs @ ChangeAuthUser (Some p) # cs" "truthy (obj_get p ''ID'')" "list_all (\<lambda>a. \<not> is_logout a) (cs @ [a])"
      by auto
    then show ?l
    proof cases
      case 1
      then have "as @ [a] = as @ ChangeAuthUser (Some p) # []" by simp
      then show ?thesis using 1 by (metis list.pred_inject(1))
    next
      case 2
      then have "as @ [a] = bs @ ChangeAuthUser (Some p) # (cs @ [a])" by simp
      then show ?thesis using 2 by blast
    qed
  qed
  have "fold login_step (as @ [a]) b \<longleftrightarrow> (\<exists>p. a = ChangeAuthUser (Some p) \<and> truthy (obj_get p ''ID'')) \<or> \<not> is_logout a \<and> fold login_step as b"
    by (cases "(a, fold login_step as b)" rule: login_step.cases) (auto simp: is_logout_def)
  then show ?case unfolding split snoc.IH by (auto simp: is_logout_def)
qed simp

theorem logged_in_since_user_set:
  "au_isLoggedIn (run auth_reducer as initial_auth) \<longleftrightarrow>
     (\<exists>bs p cs. as = bs @ ChangeAuthUser (Some p) # cs \<and> truthy (obj_get p ''ID'') \<and> list_all (\<lambda>a. \<not> is_logout a) cs)"
  using auth.run_refines [of initial_auth as] fold_login_step [of as False]
  by (simp add: auth_ok_def initial_auth_def list_all_iff)

definition unauthorized_failure :: "string \<Rightarrow> jsval \<Rightarrow> action" where
  "unauthorized_failure ty key = GeneralAction (RequestAction ty (JObj [(''status'', JNum 401)]) False key)"

lemma status_unauthorized: "action_status (unauthorized_failure ty key) = JNum 401"
  by (simp add: unauthorized_failure_def obj_get_def)

lemma request_keeps:
  "cl_auth (fst (reduce lo (GeneralAction a) c)) = cl_auth c"
  "cl_canResetCache (fst (reduce lo (GeneralAction a) c)) = cl_canResetCache c"
  by (auto simp: reduce_def split: sum.splits)

lemma request_unauthorized:
  "(request_reducer ty (JObj [(''status'', JNum 401)]) ab key g)\<lparr>ge_isLoading := False\<rparr> = g\<lparr>ge_isLoading := False\<rparr>"
  by (simp add: request_reducer_def Let_def has_length_def obj_get_def)


definition sample_lodash :: lodash where
  "sample_lodash = \<lparr>lo_get = get, lo_set = set_path, lo_merge = (\<lambda>a b. JObj (obj_spread (entries a) (entries b))),
     lo_pullAt = (\<lambda>xs i. take i xs @ drop (Suc i) xs),
     lo_pickBy = (\<lambda>v f. JObj (filter (\<lambda>(k, x). f x k) (entries v)))\<rparr>"

definition logged_in_client :: client where
  "logged_in_client = initial_client\<lparr>cl_auth := initial_auth\<lparr>au_isLoggedIn := True, au_user := Some [(''ID'', JStr ''3'')]\<rparr>\<rparr>"


text \<open>
  The middleware notices an expired session only once: after it ended one, and as long as no action
  carries another status than 401, a later failure with status 401 leaves the session as it is, although
  the user may have logged in again.
\<close>

definition no_status :: "action \<Rightarrow> bool" where
  "no_status a \<longleftrightarrow> nullish (action_status a)"

lemma reduce_canReset: "cl_canResetCache (fst (reduce lo a c)) = cl_canResetCache c"
proof (cases a)
  case (AuthAction b)
  then show ?thesis by (cases b) (auto simp: reduce_def split: sum.splits)
qed (auto simp: reduce_def split: sum.splits)

lemma disarmed_passes:
  "\<not> cl_canResetCache c \<Longrightarrow> unauthenticatedMiddleware lo (unauthorized_failure ty key) c = reduce lo (unauthorized_failure ty key) c"
  using status_unauthorized [of ty key] by (simp add: unauthenticatedMiddleware_def Let_def nullish_def)

lemma disarmed_stays:
  "list_all no_status as \<Longrightarrow> \<not> cl_canResetCache c \<Longrightarrow> \<not> cl_canResetCache (dispatch_all lo as c)"
  by (induction as arbitrary: c) (simp_all add: dispatch_all_def no_status_def unauthenticatedMiddleware_def reduce_canReset)

theorem second_expiry_unnoticed:
  assumes "cl_canResetCache c" "list_all no_status as"
  shows "cl_auth (dispatch_all lo (unauthorized_failure ty key # as @ [unauthorized_failure ty' key']) c) =
         cl_auth (dispatch_all lo (unauthorized_failure ty key # as) c)"
proof -
  let ?c1 = "fst (unauthenticatedMiddleware lo (unauthorized_failure ty key) c)"
  have "\<not> cl_canResetCache ?c1"
    using assms(1) status_unauthorized [of ty key]
    by (simp add: unauthenticatedMiddleware_def Let_def nullish_def unauthorized_failure_def reduce_canReset)
  then have "\<not> cl_canResetCache (dispatch_all lo as ?c1)" using assms(2) by (intro disarmed_stays)
  then have "cl_auth (fst (unauthenticatedMiddleware lo (unauthorized_failure ty' key') (dispatch_all lo as ?c1))) =
      cl_auth (dispatch_all lo as ?c1)"
    by (simp add: disarmed_passes) (simp add: unauthorized_failure_def request_keeps)
  then show ?thesis by (simp add: dispatch_all_def)
qed

theorem second_expiry_unnoticed_witness:
  "au_isLoggedIn (cl_auth (dispatch_all sample_lodash
     (unauthorized_failure ''a/rejected'' JNull # [AuthAction (ChangeAuthUser (Some [(''ID'', JStr ''3'')]))] @
      [unauthorized_failure ''b/rejected'' JNull]) logged_in_client))"
proof -
  let ?as = "[AuthAction (ChangeAuthUser (Some [(''ID'', JStr ''3'')]))]"
  have "cl_auth (dispatch_all sample_lodash (unauthorized_failure ''a/rejected'' JNull # ?as @ [unauthorized_failure ''b/rejected'' JNull])
      logged_in_client) = cl_auth (dispatch_all sample_lodash (unauthorized_failure ''a/rejected'' JNull # ?as) logged_in_client)"
    by (rule second_expiry_unnoticed) (simp_all add: logged_in_client_def initial_client_def no_status_def obj_get_def nullish_def)
  moreover have "au_isLoggedIn (cl_auth (dispatch_all sample_lodash (unauthorized_failure ''a/rejected'' JNull # ?as) logged_in_client))"
    by (simp add: dispatch_all_def unauthenticatedMiddleware_def [of _ "AuthAction _"] obj_get_def nullish_def reduce_def Let_def)
  ultimately show ?thesis by simp
qed

definition shown :: "lodash \<Rightarrow> string \<Rightarrow> general_state \<Rightarrow> jsval list" where
  "shown lo path g = (case lo_get lo (ge_modifiedFields g) path (JArr []) of JArr xs \<Rightarrow> filter visible xs | _ \<Rightarrow> [])"

definition written_item :: "lodash \<Rightarrow> jsval list \<Rightarrow> nat \<Rightarrow> jsval \<Rightarrow> jsval" where
  "written_item lo xs i payload =
     (if i < length (filter visible xs) then lo_merge lo (filter visible xs ! i) payload
      else if list_all visible xs then lo_merge lo (JObj []) payload else payload)"

lemma change_item_all:
  assumes "\<forall>x \<in> set xs. \<exists>fs. x = JObj fs"
    and "if prop_get payload ''__flag__'' = JStr ''DELETE'' then i < length (filter visible xs)
         else i \<le> length (filter visible xs) \<and> visible (written_item lo xs i payload)"
  obtains ys where "change_item lo i payload (JArr xs) = Inr ys"
    and "filter visible ys = (if prop_get payload ''__flag__'' = JStr ''DELETE'' then delete_nth i (filter visible xs)
       else take i (filter visible xs) @ [written_item lo xs i payload] @ drop (Suc i) (filter visible xs))"
proof (cases "prop_get payload ''__flag__'' = JStr ''DELETE''")
  case True
  then show thesis using change_item_delete [OF True _ assms(1), of i lo] assms(2) that by auto
next
  case False
  note conds = assms(2) [simplified False, simplified]
  show thesis
  proof (cases "i < length (filter visible xs)")
    case True
    then have "visible (lo_merge lo (filter visible xs ! i) payload)" using conds by (simp add: written_item_def)
    from change_item_merge [OF False True assms(1) this] show thesis
      using that False True by (auto simp: written_item_def upd_conv_take_nth_drop)
  next
    case at_end: False
    then have i: "i = length (filter visible xs)" using conds by simp
    have "visible (written_item lo xs i payload)" using conds by simp
    then show thesis
      using change_item_add [OF False assms(1) refl, of lo] that False i by (auto simp: written_item_def)
  qed
qed

text \<open>
  C26. The marks of deletion keep the positions of the items that are left.  With the field path on a position
  of a list of objects, and whatever was deleted before: deleting the item a form shows there removes exactly
  that one from the items it shows; a change there replaces exactly that one by the merge of the two; a
  change at the position after the last item shown adds one, the payload, or the payload merged into an empty
  object when nothing of the list is marked as deleted.  It needs of lodash that \<open>get\<close> reads what \<open>set\<close> wrote
  at the path, and of a change that what it writes is not itself marked as deleted.
\<close>

theorem modified_items_refine_list:
  assumes get_set: "\<And>ys. lo_get lo (lo_set lo (ge_modifiedFields g) path (JArr ys)) path (JArr []) = JArr ys"
    and items: "lo_get lo (ge_modifiedFields g) path (JArr []) = JArr xs" "\<forall>x \<in> set xs. \<exists>fs. x = JObj fs"
    and path: "ge_fieldPath g = path @ ''.'' @ to_base 10 i" "path \<noteq> []"
    and change: "if prop_get payload ''__flag__'' = JStr ''DELETE'' then i < length (shown lo path g)
                 else i \<le> length (shown lo path g) \<and> visible (written_item lo xs i payload)"
  shows "\<exists>g'. general_reducer lo (SetModifiedFields payload False) g = Inr g' \<and>
    shown lo path g' = (if prop_get payload ''__flag__'' = JStr ''DELETE'' then delete_nth i (shown lo path g)
                        else take i (shown lo path g) @ [written_item lo xs i payload] @ drop (Suc i) (shown lo path g))"
proof -
  have shown: "shown lo path g = filter visible xs" by (simp add: shown_def items(1))
  obtain ys where ys: "change_item lo i payload (JArr xs) = Inr ys"
    "filter visible ys = (if prop_get payload ''__flag__'' = JStr ''DELETE'' then delete_nth i (filter visible xs)
       else take i (filter visible xs) @ [written_item lo xs i payload] @ drop (Suc i) (filter visible xs))"
    using items(2) change unfolding shown by (rule change_item_all)
  have segs: "js_split (CHR ''.'') (ge_fieldPath g) = js_split (CHR ''.'') path @ [to_base 10 i]"
    "butlast (js_split (CHR ''.'') path @ [to_base 10 i]) = js_split (CHR ''.'') path" "js_join ''.'' (js_split (CHR ''.'') path) = path"
    using to_base10_digits [of "CHR ''.''" i] js_split_no_sep [of "CHR ''.''" "to_base 10 i"]
    by (auto simp: path(1) split_append_sep is_digit_def js_join_split)
  have digits: "list_all is_digit (to_base 10 i)" by (simp add: list_all_iff to_base10_digits)
  let ?s = "js_split (CHR ''.'') (ge_fieldPath g)"
  have ne: "ge_fieldPath g \<noteq> []" using path(1) by simp
  have last: "last ?s = to_base 10 i" "js_join ''.'' (butlast ?s) = path" using segs by simp_all
  have "\<exists>g'. general_reducer lo (SetModifiedFields payload False) g = Inr g' \<and>
      ge_modifiedFields g' = lo_set lo (ge_modifiedFields g) path (JArr ys)"
    by (cases "truthy (prop_get payload ''setPath'')")
       (auto simp: setModifiedFields_def ne last Let_def digits digits_val_to_base items(1) ys(1))
  then show ?thesis using ys(2) unfolding shown by (auto simp: shown_def get_set)
qed

definition form_state :: general_state where
  "form_state = initial_general\<lparr>ge_fieldPath := ''NIC.0'', ge_modifiedFields := JObj [(''NIC'', JArr
     [JObj [(''__delete__'', JBool True)], JObj [(''MODEL'', JBool True)], JObj [(''IP'', JBool True)]])]\<rparr>"

theorem modified_items_refine_list_witness:
  "\<exists>g'. general_reducer sample_lodash (SetModifiedFields (JObj [(''__flag__'', JStr ''DELETE'')]) False) form_state = Inr g' \<and>
     shown sample_lodash ''NIC'' g' = [JObj [(''IP'', JBool True)]]"
proof -
  let ?xs = "[JObj [(''__delete__'', JBool True)], JObj [(''MODEL'', JBool True)], JObj [(''IP'', JBool True)]]"
  let ?p = "JObj [(''__flag__'', JStr ''DELETE'')]"
  have keys: "keys_of bracket ''NIC'' = [''NIC'']" "keys_of (\<lambda>c. bracket c \<or> c = CHR ''.'') ''NIC'' = [''NIC'']"
    "keys_of (\<lambda>c. c = CHR ''.'' \<or> c = CHR ''['' \<or> c = CHR '']'') ''NIC'' = [''NIC'']"
    by (simp_all add: keys_of_def bracket_def)
  have path: "ge_fieldPath form_state = ''NIC'' @ ''.'' @ to_base 10 0" by (simp add: form_state_def) code_simp
  have items: "lo_get sample_lodash (ge_modifiedFields form_state) ''NIC'' (JArr []) = JArr ?xs"
    by (simp add: form_state_def sample_lodash_def get_def keys travel_def nullish_def obj_get_def)
  then have shown: "shown sample_lodash ''NIC'' form_state = [JObj [(''MODEL'', JBool True)], JObj [(''IP'', JBool True)]]"
    by (simp add: shown_def visible_def obj_get_def)
  have law: "lo_get sample_lodash (lo_set sample_lodash (ge_modifiedFields form_state) ''NIC'' (JArr ys)) ''NIC'' (JArr []) = JArr ys" for ys
    by (simp add: form_state_def sample_lodash_def get_def set_path_def keys travel_def nullish_def obj_get_def is_object_def)
  show ?thesis
    using modified_items_refine_list [OF law items _ path, of ?p] by (simp add: shown obj_get_def delete_nth_def)
qed

text \<open>Moving an item to the end of another list takes it from its place among the items shown and appends it
  there.\<close>

lemma item_moved_to_end:
  assumes "lo_get lo (ge_modifiedFields g) a JUndef = JArr xs" "lo_get lo (ge_modifiedFields g) b JUndef = JArr ys"
    "a \<noteq> b" "\<not> list_ex nullish xs" "\<not> list_ex nullish ys" "calculateIndex xs i = int p" "p < length xs"
    "lo_pullAt lo xs p = take p xs @ drop (Suc p) xs"
  shows "general_reducer lo (ChangePositionModifiedFields (JObj [(''sourcePath'', JStr a), (''sourcePosition'', JNum i),
      (''targetPath'', JStr b), (''sourceDelete'', JBool True)])) g =
    Inr (g\<lparr>ge_modifiedFields := lo_set lo (lo_set lo (ge_modifiedFields g) a (JArr (take p xs @ drop (Suc p) xs)))
       b (JArr (ys @ [xs ! p]))\<rparr>)"
proof -
  have "list_ex nullish (take (Suc p) xs) \<Longrightarrow> False" using assms(4) by (auto simp: list_ex_iff dest: in_set_takeD)
  then have "final_position xs (JNum i) = Inr p" using assms(6) by (auto simp: final_position_def Let_def)
  moreover have "final_position ys JUndef = Inr (length ys)" using assms(5) by (simp add: final_position_def)
  moreover have "array_put ys (length ys) v = ys @ [v]" for v by (simp add: array_put_def)
  ultimately show ?thesis
    using assms(1-3,7,8) by (simp add: changePositionModifiedFields_def obj_get_def item_at_def)
qed

text \<open>Dismissing a notification by its key marks all the others and leaves that one.\<close>

lemma dismissing_marks_the_others:
  "general_reducer lo (DismissSnackbar key False) g =
     Inr (g\<lparr>ge_notifications := map (\<lambda>n. n\<lparr>nt_dismissed := nt_dismissed n \<or> nt_key n \<noteq> key\<rparr>) (ge_notifications g)\<rparr>)"
proof -
  have "(if nt_key n \<noteq> key then n\<lparr>nt_dismissed := True\<rparr> else n) = n\<lparr>nt_dismissed := nt_dismissed n \<or> nt_key n \<noteq> key\<rparr>"
    for n :: notification by (cases n) simp
  then show ?thesis by simp
qed

text \<open>The level filter has no effect on the logs shown.\<close>

lemma level_is_ignored: "filterLogs logs level text = filterLogs logs level' text"
  by (simp add: filterLogs_def)

text \<open>A logout leaves the consoles, with their tokens, and the user of the support portal.\<close>

lemma logout_keeps_support_and_consoles:
  "root_reducer lo (AuthAction (Logout p)) c = Inr c' \<Longrightarrow>
     cl_support c' = cl_support c \<and> cl_guacamole c' = cl_guacamole c \<and> cl_modals c' = cl_modals c"
  by auto

text \<open>A report for a console that was removed throws.\<close>

lemma unknown_console_throws: "s (getIdentifiedFromPayload t) = None \<Longrightarrow> guac_reducer (SetConnectionState t c code) s = Inl TypeError"
  by (simp add: session_of_def obj_get_def Let_def)

end
