(* ===== verification/Client_Text.thy ===== *)
theory Client_Text
  imports Client_Values Resource_Helpers Complex_Main
begin

text \<open>
  The client's utilities on text and numbers: labels (\<open>modules/utils/labels.js\<close>), restricted attributes
  (\<open>restrictedAttributes.js\<close>), security groups of a network (\<open>secgroups.js\<close>), addresses (\<open>ip.js\<close>),
  numbers (\<open>number.js\<close>), units (\<open>units.js\<close>) and the text helpers of \<open>helpers.js\<close>.  Sizes are exact
  rationals: the divisions by 1024 of the code lose nothing.
\<close>

section \<open>Labels\<close>

definition encodeLabels :: "jsval \<Rightarrow> string" where
  "encodeLabels labels = json_stringify (JStr (json_stringify labels))"

definition parseLabels :: "jsval \<Rightarrow> jsval" where
  "parseLabels labelString =
     (case rbind (json_parse (to_string labelString)) (\<lambda>inner. json_parse (to_string inner)) of
        Inr v \<Rightarrow> v
      | Inl _ \<Rightarrow>
          (case labelString of
             JStr s \<Rightarrow> JObj (fold (\<lambda>lbl. AList.update (CHR ''$'' # lbl) (JObj [])) (js_split (CHR '','') s) [])
           | _ \<Rightarrow> labelString))"

definition unsafe_keys :: "string list" where
  "unsafe_keys = [''__proto__'', ''constructor'', ''prototype'']"

definition elems :: "jsval \<Rightarrow> jsval list" where
  "elems v = (case v of JArr xs \<Rightarrow> xs | _ \<Rightarrow> [])"

text \<open>The paths at which \<open>walk\<close> finds the resource, in the order it visits them.\<close>

function walk_labels :: "string \<Rightarrow> jsval \<Rightarrow> string list \<Rightarrow> jsval \<Rightarrow> string list list" where
  "walk_labels resourceType resourceId path node =
     (if \<not> is_object node then []
      else concat (map (\<lambda>(k, v).
        if k \<in> set unsafe_keys then []
        else if is_array v then (if k = resourceType \<and> resourceId \<in> set (elems v) then [path] else [])
        else walk_labels resourceType resourceId (path @ [k]) v) (entries node)))"
  by pat_completeness auto
termination
  by (relation "measure (\<lambda>(a, b, c, v). size v)") (auto dest: size_entries)

declare walk_labels.simps [simp del]

text \<open>A \<open>Set\<close> filled in the order of a list: the first occurrences.\<close>

definition uniq :: "'a list \<Rightarrow> 'a list" where
  "uniq xs = foldl (\<lambda>acc x. if x \<in> set acc then acc else acc @ [x]) [] xs"

definition labels_of :: "string \<Rightarrow> jsobj \<Rightarrow> string \<Rightarrow> jsval \<Rightarrow> string list list" where
  "labels_of kind labels resourceType resourceId =
     concat (map (\<lambda>(k, t). if k = kind then walk_labels resourceType resourceId [] t else []) labels)"

record resource_labels =
  rl_user :: "string list"
  rl_group :: "(string \<times> string list) list"

definition getResourceLabels :: "jsobj \<Rightarrow> jsval \<Rightarrow> string \<Rightarrow> string \<Rightarrow> resource_labels" where
  "getResourceLabels labels resourceId resourceType delimiter =
     \<lparr>rl_user = uniq (map (js_join delimiter) (labels_of ''user'' labels resourceType resourceId)),
      rl_group = foldl (\<lambda>groups path.
        if path = [] \<or> hd path = [] then groups
        else let old = the_default [] (map_of groups (hd path)); l = js_join delimiter path
             in AList.update (hd path) (if l \<in> set old then old else old @ [l]) groups)
        [] (labels_of ''group'' labels resourceType resourceId)\<rparr>"

definition getUnifiedLabels :: "jsobj \<Rightarrow> jsval \<Rightarrow> string \<Rightarrow> string \<Rightarrow> string list" where
  "getUnifiedLabels labels resourceId resourceType delimiter =
     (let r = getResourceLabels labels resourceId resourceType delimiter
      in uniq (rl_user r @ concat (map snd (rl_group r))))"

section \<open>Restricted attributes\<close>

definition push_attr :: "string \<Rightarrow> string \<Rightarrow> (string \<times> string list) list \<Rightarrow> (string \<times> string list) list" where
  "push_attr k a m = AList.update k (the_default [] (map_of m k) @ [a]) m"

definition mapRestrictedAttributes :: "string list \<Rightarrow> (string \<times> string list) list" where
  "mapRestrictedAttributes attrs =
     fold (\<lambda>attribute m.
       (case js_split (CHR ''/'') attribute of
          parent # child # _ \<Rightarrow> if child \<noteq> [] then push_attr parent child m else push_attr ''PARENT'' parent m
        | parent # _ \<Rightarrow> push_attr ''PARENT'' parent m
        | [] \<Rightarrow> m)) attrs [(''PARENT'', [])]"

definition hasRestrictedAttributes :: "jsobj option \<Rightarrow> string \<Rightarrow> string list \<Rightarrow> bool" where
  "hasRestrictedAttributes item section attrs =
     (case map_of (mapRestrictedAttributes attrs) section of
        None \<Rightarrow> False
      | Some as \<Rightarrow>
          (case List.find (\<lambda>a. case item of None \<Rightarrow> False | Some fs \<Rightarrow> truthy (obj_get fs a)) as of
             None \<Rightarrow> False | Some a \<Rightarrow> a \<noteq> []))"

definition isRestrictedAttributes :: "string \<Rightarrow> string \<Rightarrow> string list \<Rightarrow> bool" where
  "isRestrictedAttributes attribute section attrs =
     (case map_of (mapRestrictedAttributes attrs) section of
        None \<Rightarrow> False
      | Some as \<Rightarrow> (case List.find (\<lambda>a. a = attribute) as of None \<Rightarrow> False | Some a \<Rightarrow> a \<noteq> []))"

section \<open>Security groups of a network\<close>

text \<open>The identifiers of a template, a text that is no number being NaN (\<open>None\<close>).\<close>

definition currentSecGroups :: "jsobj \<Rightarrow> int option list" where
  "currentSecGroups tmpl =
     (case obj_get tmpl ''SECURITY_GROUPS'' of
        JStr s \<Rightarrow> map string_number (js_split (CHR '','') s)
      | _ \<Rightarrow> [])"

definition show_number :: "int option \<Rightarrow> string" where
  "show_number v = (case v of None \<Rightarrow> ''NaN'' | Some n \<Rightarrow> show_int n)"

definition with_groups :: "jsobj \<Rightarrow> int option list \<Rightarrow> jsobj" where
  "with_groups tmpl gs = AList.update ''SECURITY_GROUPS'' (JStr (js_join '','' (map show_number gs))) tmpl"

definition unbindSecGroupTemplate :: "jsobj \<Rightarrow> int \<Rightarrow> jsobj" where
  "unbindSecGroupTemplate tmpl g = with_groups tmpl (filter (\<lambda>i. i \<noteq> Some g) (currentSecGroups tmpl))"

definition bindSecGroupTemplate :: "jsobj \<Rightarrow> int list \<Rightarrow> jsobj" where
  "bindSecGroupTemplate tmpl news =
     with_groups tmpl (foldl (\<lambda>cur n. if Some n \<in> set cur then cur else cur @ [Some n]) (currentSecGroups tmpl) news)"

section \<open>Addresses\<close>

text \<open>The alternatives of the pattern of an octet: \<open>25[0-5] | 2[0-4]\d | 1\d\d | [1-9]\d | \d\<close>.\<close>

definition char_range :: "nat \<Rightarrow> nat \<Rightarrow> char \<Rightarrow> bool" where
  "char_range a b c \<longleftrightarrow> is_digit c \<and> a \<le> digit_val c \<and> digit_val c \<le> b"

fun octet :: "string \<Rightarrow> bool" where
  "octet [a, b, c] =
     (char_range 2 2 a \<and> char_range 5 5 b \<and> char_range 0 5 c \<or>
      char_range 2 2 a \<and> char_range 0 4 b \<and> is_digit c \<or>
      char_range 1 1 a \<and> is_digit b \<and> is_digit c)"
| "octet [a, b] = (char_range 1 9 a \<and> is_digit b)"
| "octet [a] = is_digit a"
| "octet _ = False"

definition isIPv4 :: "string \<Rightarrow> bool" where
  "isIPv4 s = (let os = js_split (CHR ''.'') s in length os = 4 \<and> list_all octet os)"

definition isMAC :: "string \<Rightarrow> bool" where
  "isMAC s = (let os = js_split (CHR '':'') s in length os = 6 \<and> list_all (\<lambda>w. length w = 2 \<and> list_all (\<lambda>c. hex_digit c \<noteq> None) w) os)"

definition lower_alnum :: "char \<Rightarrow> bool" where
  "lower_alnum c = (let n = of_char c :: nat in 97 \<le> n \<and> n \<le> 122 \<or> 48 \<le> n \<and> n \<le> 57)"

text \<open>\<open>/^[a-z0-9]([-a-z0-9]{0,61}[a-z0-9])?$/\<close>, the empty text being valid.\<close>

definition isValidRFC1123 :: "string \<Rightarrow> bool" where
  "isValidRFC1123 s =
     (s = [] \<or> length s \<le> 63 \<and> lower_alnum (hd s) \<and> lower_alnum (last s) \<and>
        list_all (\<lambda>c. lower_alnum c \<or> c = CHR ''-'') s)"

section \<open>Numbers and units\<close>

text \<open>\<open>!(n % d)\<close>; a remainder by zero is NaN.\<close>

definition isDivisibleBy :: "int \<Rightarrow> int \<Rightarrow> bool" where
  "isDivisibleBy n d = (d = 0 \<or> n mod d = 0)"

definition getFactorsOfNumber :: "nat \<Rightarrow> nat list" where
  "getFactorsOfNumber n = filter (\<lambda>i. i \<noteq> 0 \<and> n mod i = 0) [0..<Suc n]"

definition findClosestValue :: "int \<Rightarrow> int list \<Rightarrow> int" where
  "findClosestValue v list =
     the_default v (foldl (\<lambda>closest current.
       (case closest of
          None \<Rightarrow> Some current
        | Some c \<Rightarrow> if \<bar>current - v\<bar> < \<bar>c - v\<bar> then Some current else Some c)) None list)"

definition UNITS :: "string list" where
  "UNITS = [''KB'', ''MB'', ''GB'', ''TB'', ''PB'', ''EB'', ''ZB'', ''YB'']"

definition convertToMB :: "rat \<Rightarrow> string \<Rightarrow> rat" where
  "convertToMB v unit =
     (if unit = ''KB'' then v * (1 / 1024) else if unit = ''MB'' then v
      else if unit = ''GB'' then v * 1024 else if unit = ''TB'' then v * 1024 * 1024 else v)"

text \<open>\<open>x.toFixed(f)\<close> of a number that is not negative: the larger of two equally close candidates.\<close>

definition toFixed :: "rat \<Rightarrow> nat \<Rightarrow> string" where
  "toFixed x f =
     (let n = nat \<lfloor>x * 10 ^ f + 1 / 2\<rfloor>; ds = to_base 10 n; padded = replicate (Suc f - length ds) (CHR ''0'') @ ds
      in if f = 0 then ds else take (length padded - f) padded @ ''.'' @ drop (length padded - f) padded)"

text \<open>The loop that divides by 1024.\<close>

function scale :: "rat \<Rightarrow> int \<Rightarrow> rat \<times> int" where
  "scale v idx = (if v \<ge> 1024 then scale (v / 1024) (idx + 1) else (v, idx))"
  by pat_completeness auto
termination
proof (relation "measure (\<lambda>(v, idx). nat \<lfloor>v\<rfloor>)", simp)
  fix v :: rat and idx :: int
  assume v: "1024 \<le> v"
  have "v / 1024 < v - 1" using v by (simp add: field_simps)
  moreover have "of_int \<lfloor>v / 1024\<rfloor> \<le> v / 1024" by (rule of_int_floor_le)
  moreover have "v - 1 < of_int \<lfloor>v\<rfloor>" using floor_correct [of v] by simp
  ultimately have "of_int \<lfloor>v / 1024\<rfloor> < (of_int \<lfloor>v\<rfloor> :: rat)" by linarith
  then have "\<lfloor>v / 1024\<rfloor> < \<lfloor>v\<rfloor>" by simp
  then show "((v / 1024, idx + 1), v, idx) \<in> measure (\<lambda>(v, idx). nat \<lfloor>v\<rfloor>)"
    using v by (simp add: le_floor_iff)
qed

declare scale.simps [simp del]

definition prettyBytes :: "int \<Rightarrow> string \<Rightarrow> nat \<Rightarrow> string" where
  "prettyBytes v unit fractionDigits =
     (if v = 0 then show_int v @ '' '' @ UNITS ! 0
      else let (w, idx) = scale (of_int v) (index_of UNITS unit);
               decimals = (if fractionDigits \<noteq> 0 \<and> frac w \<noteq> 0 then fractionDigits else 0)
           in (if w < 0 then ''-'' else []) @ toFixed \<bar>w\<bar> decimals @ '' '' @
              (if 0 \<le> idx \<and> nat idx < length UNITS then UNITS ! nat idx else ''undefined''))"

section \<open>Text\<close>

definition isExternalURL :: "string \<Rightarrow> bool" where
  "isExternalURL url \<longleftrightarrow> starts_with url ''http:'' \<or> starts_with url ''https:''"

definition DOCS_BASE_PATH :: string where
  "DOCS_BASE_PATH = ''https://docs.opennebula.io''"

definition generateDocLink :: "string \<Rightarrow> string \<Rightarrow> string" where
  "generateDocLink version path =
     DOCS_BASE_PATH @ ''/'' @
     (case js_split (CHR ''.'') version of a # b # _ \<Rightarrow> a @ ''.'' @ b | a # _ \<Rightarrow> a | [] \<Rightarrow> []) @ ''/'' @ path"

section \<open>Where a resource is labelled\<close>

fun labelled :: "string \<Rightarrow> jsval \<Rightarrow> jsval \<Rightarrow> string list \<Rightarrow> bool" where
  "labelled resourceType resourceId node [] =
     (resourceType \<notin> set unsafe_keys \<and>
      list_ex (\<lambda>(k, v). k = resourceType \<and> is_array v \<and> resourceId \<in> set (elems v)) (entries node))"
| "labelled resourceType resourceId node (k # ks) =
     (k \<notin> set unsafe_keys \<and>
      list_ex (\<lambda>(k', v). k' = k \<and> \<not> is_array v \<and> labelled resourceType resourceId v ks) (entries node))"

lemma entries_object: "(k, v) \<in> set (entries node) \<Longrightarrow> is_object node"
  by (cases node) (auto simp: is_object_def)

lemma walk_labels_step:
  "p \<in> set (walk_labels ty rid path node) \<longleftrightarrow>
     (\<exists>k v. (k, v) \<in> set (entries node) \<and> k \<notin> set unsafe_keys \<and>
        (is_array v \<and> p = path \<and> k = ty \<and> rid \<in> set (elems v) \<or>
         \<not> is_array v \<and> p \<in> set (walk_labels ty rid (path @ [k]) v)))"
proof (cases "is_object node")
  case True
  have entry: "p \<in> set (if k \<in> set unsafe_keys then []
        else if is_array v then (if k = ty \<and> rid \<in> set (elems v) then [path] else [])
        else walk_labels ty rid (path @ [k]) v) \<longleftrightarrow>
      k \<notin> set unsafe_keys \<and> (is_array v \<and> p = path \<and> k = ty \<and> rid \<in> set (elems v) \<or>
         \<not> is_array v \<and> p \<in> set (walk_labels ty rid (path @ [k]) v))" for k v
    by simp
  show ?thesis
    unfolding walk_labels.simps [of ty rid path node]
    by (simp only: True not_True_eq_False if_False set_concat set_map UN_iff bex_simps)
       (simp only: Bex_def split_paired_Ex prod.case entry)
next
  case False
  then show ?thesis unfolding walk_labels.simps [of ty rid path node] using entries_object by auto
qed

lemma walk_labels_labelled:
  "p \<in> set (walk_labels ty rid path node) \<longleftrightarrow> (\<exists>ks. p = path @ ks \<and> labelled ty rid node ks)"
proof (induction node arbitrary: path rule: measure_induct_rule [where f = size])
  case (less node)
  have "p \<in> set (walk_labels ty rid path node) \<longleftrightarrow>
     (\<exists>k v. (k, v) \<in> set (entries node) \<and> k \<notin> set unsafe_keys \<and>
        (is_array v \<and> p = path \<and> k = ty \<and> rid \<in> set (elems v) \<or>
         \<not> is_array v \<and> (\<exists>ks. p = path @ k # ks \<and> labelled ty rid v ks)))"
    unfolding walk_labels_step [of p ty rid path node] using less.IH [OF size_entries] by (intro ex_cong1) auto
  also have "\<dots> \<longleftrightarrow> (p = path \<and> labelled ty rid node []) \<or> (\<exists>k ks. p = path @ k # ks \<and> labelled ty rid node (k # ks))"
    by (simp add: list_ex_iff Bex_def split_paired_Ex) blast
  also have "\<dots> \<longleftrightarrow> (\<exists>ks. p = path @ ks \<and> labelled ty rid node ks)"
    by (metis append_Nil2 neq_Nil_conv)
  finally show ?case .
qed

lemma labels_of_labelled:
  "p \<in> set (labels_of kind labels ty rid) \<longleftrightarrow> (\<exists>t. (kind, t) \<in> set labels \<and> labelled ty rid t p)"
  by (auto simp: labels_of_def walk_labels_labelled split: if_splits)

lemma uniq_append:
  "distinct acc \<Longrightarrow>
     distinct (foldl (\<lambda>acc x. if x \<in> set acc then acc else acc @ [x]) acc xs) \<and>
     set (foldl (\<lambda>acc x. if x \<in> set acc then acc else acc @ [x]) acc xs) = set acc \<union> set xs"
  by (induction xs arbitrary: acc) auto

lemma uniq_set [simp]: "set (uniq xs) = set xs" and uniq_distinct [simp]: "distinct (uniq xs)"
  using uniq_append [of "[]" xs] by (simp_all add: uniq_def)

abbreviation group_step :: "string \<Rightarrow> (string \<times> string list) list \<Rightarrow> string list \<Rightarrow> (string \<times> string list) list" where
  "group_step d groups path \<equiv>
     (if path = [] \<or> hd path = [] then groups
      else let old = the_default [] (map_of groups (hd path)); l = js_join d path
           in AList.update (hd path) (if l \<in> set old then old else old @ [l]) groups)"

lemma in_default: "l \<in> set (the_default [] m) \<longleftrightarrow> (\<exists>ls. m = Some ls \<and> l \<in> set ls)"
  by (cases m) auto

lemma in_groups: "distinct (map fst gs) \<Longrightarrow> (\<exists>x \<in> set gs. l \<in> set (snd x)) \<longleftrightarrow> (\<exists>g. l \<in> set (the_default [] (map_of gs g)))"
  by (simp add: in_default map_of_eq_Some_iff) force

lemma groups_hold:
  "distinct (map fst gs) \<Longrightarrow>
     distinct (map fst (foldl (group_step d) gs paths)) \<and>
     ((\<exists>g. l \<in> set (the_default [] (map_of (foldl (group_step d) gs paths) g))) \<longleftrightarrow>
      (\<exists>g. l \<in> set (the_default [] (map_of gs g))) \<or> (\<exists>p \<in> set paths. p \<noteq> [] \<and> hd p \<noteq> [] \<and> l = js_join d p))"
proof (induction paths arbitrary: gs)
  case Nil
  then show ?case by simp
next
  case (Cons p paths)
  have "distinct (map fst (group_step d gs p))" using Cons.prems by (simp add: Let_def distinct_update)
  moreover have "(\<exists>g. l \<in> set (the_default [] (map_of (group_step d gs p) g))) \<longleftrightarrow>
      (\<exists>g. l \<in> set (the_default [] (map_of gs g))) \<or> p \<noteq> [] \<and> hd p \<noteq> [] \<and> l = js_join d p"
  proof (cases "p = [] \<or> hd p = []")
    case True
    then show ?thesis by auto
  next
    case False
    then obtain new where "map_of (group_step d gs p) = (map_of gs)(hd p \<mapsto> new)"
      "set new = insert (js_join d p) (set (the_default [] (map_of gs (hd p))))"
      by (simp add: Let_def insert_absorb)
    then show ?thesis using False by (metis fun_upd_apply insert_iff the_default.simps(2))
  qed
  ultimately show ?case using Cons.IH [of "group_step d gs p"] by simp
qed

section \<open>Octets\<close>

lemma digit_char_val: "is_digit c \<Longrightarrow> digit_val c < 10 \<and> digit_char (digit_val c) = c"
  by (auto simp: is_digit_def digit_val_def digit_char_def Let_def)

lemma char_range_char: "char_range a b c \<longleftrightarrow> (\<exists>d. a \<le> d \<and> d \<le> b \<and> d < 10 \<and> c = digit_char d)"
  using digit_char_val [of c] by (auto simp: char_range_def digit_char_less10)

lemma is_digit_char: "is_digit c \<longleftrightarrow> (\<exists>d. d < 10 \<and> c = digit_char d)"
  using digit_char_val [of c] by (auto simp: digit_char_less10)

lemma to_base10_less100: "n < 100 \<Longrightarrow> to_base 10 n = (if n < 10 then [digit_char n] else [digit_char (n div 10), digit_char (n mod 10)])"
  using div_less_iff_less_mult [of 10 n 10] by (simp add: to_base.simps [of 10 n] to_base.simps [of 10 "n div 10"])

lemma to_base10_less1000:
  assumes "n < 1000"
  shows "to_base 10 n = (if n < 100 then to_base 10 n
     else [digit_char (n div 100), digit_char (n div 10 mod 10), digit_char (n mod 10)])"
proof (cases "n < 100")
  case False
  have "to_base 10 n = to_base 10 (n div 10) @ [digit_char (n mod 10)]" using False by (subst to_base.simps) simp
  then show ?thesis using False assms to_base10_less100 [of "n div 10"] by (simp add: div_mult2_eq [symmetric])
qed simp

lemma three_digits:
  fixes x y z :: nat
  assumes "y < 10" "z < 10"
  shows "(100 * x + 10 * y + z) div 100 = x" "(100 * x + 10 * y + z) div 10 mod 10 = y" "(100 * x + 10 * y + z) mod 10 = z"
proof -
  show "(100 * x + 10 * y + z) div 100 = x" using assms by (intro div_nat_eqI) auto
  have "(100 * x + 10 * y + z) div 10 = 10 * x + y" using assms by (intro div_nat_eqI) auto
  then show "(100 * x + 10 * y + z) div 10 mod 10 = y" using assms by simp
  have "100 * x + 10 * y + z = z + 10 * (10 * x + y)" by simp
  then show "(100 * x + 10 * y + z) mod 10 = z" using assms(2) by (metis mod_less mod_mult_self2)
qed

lemma octet_number: "octet s \<longleftrightarrow> (\<exists>n \<le> 255. s = to_base 10 n)"
proof
  assume "octet s"
  then show "\<exists>n \<le> 255. s = to_base 10 n"
  proof (cases s rule: octet.cases)
    case (1 a b c)
    define x y z where "x = digit_val a" "y = digit_val b" "z = digit_val c"
    have "is_digit a" "is_digit b" "is_digit c" using \<open>octet s\<close> 1 by (auto simp: char_range_def)
    then have d: "a = digit_char x" "b = digit_char y" "c = digit_char z" "y < 10" "z < 10"
      using digit_char_val by (simp_all add: x_y_z_def)
    have "octet [a, b, c]" using \<open>octet s\<close> 1 by simp
    then have "1 \<le> x \<and> x \<le> 2 \<and> 100 * x + 10 * y + z \<le> 255"
      using d(4,5) unfolding octet.simps char_range_def x_y_z_def [symmetric] by (elim disjE conjE) simp_all
    then have d8: "1 \<le> x" "x \<le> 2" "100 * x + 10 * y + z \<le> 255" by simp_all
    let ?n = "100 * x + 10 * y + z"
    have "to_base 10 ?n = s" using to_base10_less1000 [of ?n] three_digits [OF d(4,5), of x] 1 d d8 by simp
    then show ?thesis using d8(3) by metis
  next
    case (2 a b)
    with \<open>octet s\<close> obtain x y where d: "a = digit_char x" "b = digit_char y" "1 \<le> x" "x < 10" "y < 10"
      by (auto simp: char_range_char is_digit_char)
    have "to_base 10 (10 * x + y) = s" using to_base10_less100 [of "10 * x + y"] 2 d by simp
    then show ?thesis using d by (intro exI [of _ "10 * x + y"]) simp
  next
    case (3 a)
    with \<open>octet s\<close> obtain x where "a = digit_char x" "x < 10" by (auto simp: is_digit_char)
    then show ?thesis using to_base10_less100 [of x] 3 by (intro exI [of _ x]) simp
  qed auto
next
  assume "\<exists>n \<le> 255. s = to_base 10 n"
  then obtain n where "n \<le> 255" and s: "s = to_base 10 n" by blast
  show "octet s"
  proof (cases "n < 100")
    case True
    then have "n div 10 < 10" "\<not> n < 10 \<Longrightarrow> 1 \<le> n div 10" by (auto simp: div_less_iff_less_mult div_greater_zero_iff)
    then show ?thesis using True to_base10_less100 [of n] by (auto simp: s char_range_def digit_char_less10)
  next
    case False
    define x y z where "x = n div 100" "y = n div 10 mod 10" "z = n mod 10"
    have "n div 100 = n div 10 div 10" using div_mult2_eq [of n 10 10] by simp
    then have "n = 100 * x + 10 * y + z"
      using div_mult_mod_eq [of n 10] div_mult_mod_eq [of "n div 10" 10] unfolding x_y_z_def by linarith
    moreover have "y < 10" "z < 10" by (simp_all add: x_y_z_def)
    ultimately have xyz: "x < 10" "y < 10" "z < 10" "x = 1 \<or> x = 2 \<and> (y \<le> 4 \<or> y = 5 \<and> z \<le> 5)"
      using \<open>n \<le> 255\<close> False by auto
    have "s = [digit_char x, digit_char y, digit_char z]"
      using \<open>n \<le> 255\<close> False to_base10_less1000 [of n] by (simp add: s x_y_z_def)
    then show ?thesis using xyz by (auto simp: char_range_def digit_char_less10)
  qed
qed

section \<open>Attributes, groups and sizes\<close>

abbreviation restrict_step :: "string \<Rightarrow> (string \<times> string list) list \<Rightarrow> (string \<times> string list) list" where
  "restrict_step attribute m \<equiv>
     (case js_split (CHR ''/'') attribute of
        parent # child # _ \<Rightarrow> if child \<noteq> [] then push_attr parent child m else push_attr ''PARENT'' parent m
      | parent # _ \<Rightarrow> push_attr ''PARENT'' parent m
      | [] \<Rightarrow> m)"

text \<open>What a configured attribute restricts: \<open>CHILD\<close> of the section \<open>PARENT\<close> when it is \<open>PARENT/CHILD\<close>,
  itself otherwise.\<close>

definition restricts :: "string \<Rightarrow> string \<Rightarrow> string \<Rightarrow> bool" where
  "restricts attribute section x =
     (case js_split (CHR ''/'') attribute of
        parent # child # _ \<Rightarrow> if child \<noteq> [] then section = parent \<and> x = child else section = ''PARENT'' \<and> x = parent
      | parent # _ \<Rightarrow> section = ''PARENT'' \<and> x = parent
      | [] \<Rightarrow> False)"

lemma restricted_map:
  "x \<in> set (the_default [] (map_of (fold restrict_step attrs m) section)) \<longleftrightarrow>
     x \<in> set (the_default [] (map_of m section)) \<or> (\<exists>a \<in> set attrs. restricts a section x)"
proof (induction attrs arbitrary: m)
  case (Cons a attrs)
  have "x \<in> set (the_default [] (map_of (push_attr k y m) section)) \<longleftrightarrow>
      x \<in> set (the_default [] (map_of m section)) \<or> section = k \<and> x = y" for k y
    by (auto simp: push_attr_def)
  then have "x \<in> set (the_default [] (map_of (restrict_step a m) section)) \<longleftrightarrow>
      x \<in> set (the_default [] (map_of m section)) \<or> restricts a section x"
    by (auto simp: restricts_def split: list.split)
  then show ?case using Cons.IH [of "restrict_step a m"] by simp
qed simp

lemma string_number_show [js_num]: "string_number (show_int n) = Some n"
proof -
  have digits: "list_all is_digit (to_base 10 m)" for m by (auto simp: list_all_iff to_base10_digits)
  have first: "\<not> is_space (hd (to_base 10 m))" "hd (to_base 10 m) \<noteq> CHR ''-''" "hd (to_base 10 m) \<noteq> CHR ''+''" for m
    using digit_not_blank [of "hd (to_base 10 m)"] to_base10_digits [of "hd (to_base 10 m)" m] by simp_all
  have last: "\<not> is_space (last (to_base 10 m))" for m
    using digit_not_blank [of "last (to_base 10 m)"] to_base10_digits [of "last (to_base 10 m)" m] by simp
  have trim: "js_trim s = s" if "s \<noteq> []" "\<not> is_space (hd s)" "\<not> is_space (last s)" for s
  proof -
    have "dropWhile is_space s = s" using that by (cases s) auto
    moreover have "dropWhile is_space (rev s) = rev s" using that by (cases s rule: rev_cases) auto
    ultimately show ?thesis by (simp add: js_trim_def)
  qed
  show ?thesis
  proof (cases "n < 0")
    case True
    then have "js_trim (show_int n) = show_int n" using last by (intro trim) (auto simp: show_int_def is_space_def)
    then show ?thesis using True digits by (simp add: string_number_def show_int_def digits_val_to_base)
  next
    case False
    then have "js_trim (show_int n) = show_int n" using first last by (intro trim) (auto simp: show_int_def)
    then show ?thesis using False first digits by (simp add: string_number_def show_int_def digits_val_to_base Let_def)
  qed
qed

lemma comma_not_in_number: "CHR '','' \<notin> set (show_int n)"
  using to_base10_digits [of "CHR '',''"] by (auto simp: show_int_def is_digit_def)

lemma currentSecGroups_with:
  "gs \<noteq> [] \<Longrightarrow> currentSecGroups (with_groups tmpl (map Some gs)) = map Some gs"
  using js_split_join [of "map show_int gs" "CHR '',''"] comma_not_in_number
  by (simp add: currentSecGroups_def with_groups_def obj_get_def show_number_def comp_def string_number_show)

lemma with_groups_with: "with_groups (with_groups tmpl gs) hs = with_groups tmpl hs"
proof -
  have "AList.update k v (AList.update k u al) = AList.update k v al" for k :: string and u v :: jsval and al
    by (induction al) auto
  then show ?thesis by (simp add: with_groups_def)
qed

lemma bind_news:
  "set (foldl (\<lambda>cur n. if Some n \<in> set cur then cur else cur @ [Some n]) cur news) = set cur \<union> Some ` set news"
  "distinct cur \<Longrightarrow> distinct (foldl (\<lambda>cur n. if Some n \<in> set cur then cur else cur @ [Some n]) cur news)"
  by (induction news arbitrary: cur) auto

lemma scale_power:
  "1024 ^ j \<le> v \<Longrightarrow> v < 1024 ^ Suc j \<Longrightarrow> scale v i = (v / 1024 ^ j, i + int j)"
proof (induction j arbitrary: v i)
  case 0
  then show ?case by (subst scale.simps) simp
next
  case (Suc j)
  have "(1024::rat) \<le> 1024 ^ Suc j" by simp
  then have "1024 \<le> v" using Suc.prems(1) by linarith
  moreover have "scale (v / 1024) (i + 1) = (v / 1024 / 1024 ^ j, i + 1 + int j)"
    using Suc.prems by (intro Suc.IH) (simp_all add: field_simps)
  ultimately show ?case by (subst scale.simps) (simp add: field_simps)
qed

section \<open>Properties\<close>

text \<open>
  Labels survive their encoding: what \<open>encodeLabels\<close> writes, \<open>parseLabels\<close> reads back, for every value
  without undefined parts and repeated keys.
\<close>

theorem labels_roundtrip:
  assumes "json_ok labels" shows "parseLabels (JStr (encodeLabels labels)) = labels"
  using json_roundtrip [OF assms] json_roundtrip [of "JStr (json_stringify labels)"]
  by (simp add: parseLabels_def encodeLabels_def)

theorem labels_roundtrip_witness:
  "parseLabels (JStr (encodeLabels (JObj [(''$prod'', JObj [(''vm'', JArr [JStr ''3''])])]))) =
     JObj [(''$prod'', JObj [(''vm'', JArr [JStr ''3''])])]"
  by (rule labels_roundtrip) simp

text \<open>
  The labels of a resource are exact: the unified list holds, once each, the joined paths at which the
  user's tree lists the resource under its type, and those at which the groups' tree does below a group,
  and nothing else.
\<close>

theorem resource_labels_exact:
  "distinct (getUnifiedLabels labels rid ty d) \<and>
   (l \<in> set (getUnifiedLabels labels rid ty d) \<longleftrightarrow>
      (\<exists>ks t. l = js_join d ks \<and>
         ((''user'', t) \<in> set labels \<and> labelled ty rid t ks \<or>
          (''group'', t) \<in> set labels \<and> labelled ty rid t ks \<and> ks \<noteq> [] \<and> hd ks \<noteq> [])))"
proof -
  let ?gs = "rl_group (getResourceLabels labels rid ty d)"
  have gs: "?gs = foldl (group_step d) [] (labels_of ''group'' labels ty rid)" by (simp add: getResourceLabels_def)
  have "l \<in> set (concat (map snd ?gs)) \<longleftrightarrow>
      (\<exists>p \<in> set (labels_of ''group'' labels ty rid). p \<noteq> [] \<and> hd p \<noteq> [] \<and> l = js_join d p)"
    using groups_hold [of "[]" d "labels_of ''group'' labels ty rid" l] in_groups [of ?gs l] by (simp add: gs)
  moreover have "l \<in> set (rl_user (getResourceLabels labels rid ty d)) \<longleftrightarrow>
      (\<exists>p \<in> set (labels_of ''user'' labels ty rid). l = js_join d p)"
    by (auto simp: getResourceLabels_def)
  ultimately have "l \<in> set (getUnifiedLabels labels rid ty d) \<longleftrightarrow>
      (\<exists>p \<in> set (labels_of ''user'' labels ty rid). l = js_join d p) \<or>
      (\<exists>p \<in> set (labels_of ''group'' labels ty rid). p \<noteq> [] \<and> hd p \<noteq> [] \<and> l = js_join d p)"
    by (simp add: getUnifiedLabels_def Let_def)
  also have "\<dots> \<longleftrightarrow> (\<exists>ks t. l = js_join d ks \<and>
         ((''user'', t) \<in> set labels \<and> labelled ty rid t ks \<or>
          (''group'', t) \<in> set labels \<and> labelled ty rid t ks \<and> ks \<noteq> [] \<and> hd ks \<noteq> []))"
    unfolding Bex_def labels_of_labelled by blast
  finally show ?thesis by (simp add: getUnifiedLabels_def Let_def)
qed

text \<open>
  \<open>isIPv4\<close> accepts exactly the dotted decimal texts of four numbers up to 255 without leading zeros.
\<close>

theorem ipv4_exact:
  "isIPv4 s \<longleftrightarrow>
     (\<exists>a b c d. a \<le> 255 \<and> b \<le> 255 \<and> c \<le> 255 \<and> d \<le> 255 \<and>
        s = js_join ''.'' [to_base 10 a, to_base 10 b, to_base 10 c, to_base 10 d])"
proof
  assume s: "isIPv4 s"
  then obtain p q r t where os: "js_split (CHR ''.'') s = [p, q, r, t]"
    by (auto simp: isIPv4_def Let_def length_Suc_conv numeral_eq_Suc)
  then have "s = js_join ''.'' [p, q, r, t]" using js_join_split [of "CHR ''.''" s] by simp
  moreover have "octet p \<and> octet q \<and> octet r \<and> octet t" using s os by (simp add: isIPv4_def)
  ultimately show "\<exists>a b c d. a \<le> 255 \<and> b \<le> 255 \<and> c \<le> 255 \<and> d \<le> 255 \<and>
        s = js_join ''.'' [to_base 10 a, to_base 10 b, to_base 10 c, to_base 10 d]"
    unfolding octet_number by blast
next
  assume "\<exists>a b c d. a \<le> 255 \<and> b \<le> 255 \<and> c \<le> 255 \<and> d \<le> 255 \<and>
        s = js_join ''.'' [to_base 10 a, to_base 10 b, to_base 10 c, to_base 10 d]"
  then obtain a b c d where n: "a \<le> 255" "b \<le> 255" "c \<le> 255" "d \<le> 255"
    "s = js_join ''.'' [to_base 10 a, to_base 10 b, to_base 10 c, to_base 10 d]" by blast
  have "CHR ''.'' \<notin> set (to_base 10 m)" for m
    using to_base10_digits [of "CHR ''.''" m] by (auto simp: is_digit_def)
  then have "js_split (CHR ''.'') s = [to_base 10 a, to_base 10 b, to_base 10 c, to_base 10 d]"
    unfolding n(5) by (intro js_split_join) auto
  then show "isIPv4 s" using n by (auto simp: isIPv4_def octet_number)
qed

text \<open>
  An attribute is restricted exactly when the configuration names it: under its section, or on its
  own in the section of the top-level attributes.
\<close>

theorem restricted_exactly_as_configured:
  "isRestrictedAttributes x section attrs \<longleftrightarrow> x \<noteq> [] \<and> (\<exists>a \<in> set attrs. restricts a section x)"
proof -
  let ?m = "mapRestrictedAttributes attrs"
  have "isRestrictedAttributes x section attrs \<longleftrightarrow> x \<noteq> [] \<and> x \<in> set (the_default [] (map_of ?m section))"
    by (cases "map_of ?m section")
       (auto simp: isRestrictedAttributes_def find_Some_iff find_None_iff split: option.splits)
  moreover have "x \<in> set (the_default [] (map_of ?m section)) \<longleftrightarrow> (\<exists>a \<in> set attrs. restricts a section x)"
    unfolding mapRestrictedAttributes_def restricted_map by (cases "section = ''PARENT''") auto
  ultimately show ?thesis by blast
qed

text \<open>
  Security groups: binding groups to a network keeps its groups, adds the new ones once, and unbinding
  a group that was not there before undoes its binding; but once the last group of a network is unbound,
  binding another one adds the default group 0 as well.
\<close>

theorem security_groups:
  fixes gs :: "int list"
  assumes "gs \<noteq> []" "g \<notin> set gs" "h \<noteq> 0"
  shows "set (currentSecGroups (bindSecGroupTemplate (with_groups tmpl (map Some gs)) news)) = Some ` (set gs \<union> set news) \<and>
    unbindSecGroupTemplate (bindSecGroupTemplate (with_groups tmpl (map Some gs)) [g]) g = with_groups tmpl (map Some gs) \<and>
    bindSecGroupTemplate (unbindSecGroupTemplate (with_groups tmpl [Some g]) g) [h] = with_groups tmpl [Some 0, Some h]"
proof -
  let ?t = "with_groups tmpl (map Some gs)"
  have cur: "currentSecGroups ?t = map Some gs" using assms(1) by (rule currentSecGroups_with)
  let ?f = "foldl (\<lambda>cur n. if Some n \<in> set cur then cur else cur @ [Some n]) (map Some gs) news"
  obtain ns where ns: "?f = map Some ns" "ns \<noteq> []"
    using bind_news(1) [of "map Some gs" news] assms(1) ex_map_conv [of ?f Some] by fastforce
  have "set (currentSecGroups (bindSecGroupTemplate ?t news)) = Some ` (set gs \<union> set news)"
    using bind_news(1) [of "map Some gs" news] ns
    by (simp add: bindSecGroupTemplate_def cur with_groups_with currentSecGroups_with image_Un)
  moreover have "bindSecGroupTemplate ?t [g] = with_groups tmpl (map Some (gs @ [g]))"
    using assms(2) by (auto simp: bindSecGroupTemplate_def cur with_groups_with)
  then have "unbindSecGroupTemplate (bindSecGroupTemplate ?t [g]) g = ?t"
    using assms(2) currentSecGroups_with [of "gs @ [g]" tmpl]
    by (auto simp: unbindSecGroupTemplate_def with_groups_with filter_map comp_def intro!: arg_cong [of _ _ "with_groups tmpl"] filter_True)
  moreover have "unbindSecGroupTemplate (with_groups tmpl [Some g]) g = with_groups tmpl []"
    using currentSecGroups_with [of "[g]" tmpl] by (simp add: unbindSecGroupTemplate_def with_groups_with)
  moreover have "currentSecGroups (with_groups tmpl []) = [Some 0]"
    by (simp add: currentSecGroups_def with_groups_def obj_get_def string_number_def js_trim_def)
  ultimately show ?thesis using assms(3) by (simp add: bindSecGroupTemplate_def with_groups_with)
qed

theorem security_groups_witness:
  "bindSecGroupTemplate (unbindSecGroupTemplate (with_groups [] [Some 5]) 5) [7] = [(''SECURITY_GROUPS'', JStr ''0,7'')]"
proof -
  have "with_groups [] [Some 0, Some 7] = [(''SECURITY_GROUPS'', JStr ''0,7'')]" by code_simp
  then show ?thesis using security_groups [of "[1]" 5 7 "[]"] by simp
qed

text \<open>
  Sizes: the loop of \<open>prettyBytes\<close> ends for every size, and a size of at least 1 KB and less than 1024 YB
  is written as the number between 1 and 1024 that it is in its unit, rounded, with that unit.
\<close>

theorem pretty_bytes_in_unit:
  assumes "1024 ^ j \<le> v" "v < 1024 ^ Suc j" "j < 8"
  shows "prettyBytes v ''KB'' 0 = to_base 10 (nat \<lfloor>of_int v / (1024 :: rat) ^ j + 1 / 2\<rfloor>) @ '' '' @ UNITS ! j"
proof -
  have "(of_int (1024 ^ j) :: rat) \<le> of_int v" "(of_int v :: rat) < of_int (1024 ^ Suc j)"
    using assms(1,2) by (simp_all only: of_int_le_iff of_int_less_iff)
  then have "scale (of_int v) 0 = (of_int v / 1024 ^ j, int j)"
    using scale_power [of j "of_int v" 0] by simp
  moreover have "v > 0" using assms(1) by (smt (verit) zero_less_power)
  ultimately show ?thesis using assms(3)
    by (simp add: prettyBytes_def UNITS_def toFixed_def divide_less_0_iff)
qed

theorem pretty_bytes_in_unit_witness: "prettyBytes 1572864 ''KB'' 0 = ''2 GB''"
proof -
  have "to_base 10 2 = ''2''" by code_simp
  then show ?thesis using pretty_bytes_in_unit [of 2 1572864] by (simp add: UNITS_def floor_eq_iff)
qed

text \<open>The unit \<open>B\<close> that the documentation allows is not in the table.\<close>

lemma pretty_bytes_of_bytes: "prettyBytes 500 ''B'' 0 = ''500 undefined''"
  by code_simp

text \<open>\<open>findClosestValue\<close> finds a nearest value of a list.\<close>

lemma closest_value:
  assumes "list \<noteq> []"
  shows "findClosestValue v list \<in> set list \<and> (\<forall>x \<in> set list. \<bar>findClosestValue v list - v\<bar> \<le> \<bar>x - v\<bar>)"
proof -
  let ?f = "\<lambda>closest current. (case closest of None \<Rightarrow> Some current
      | Some c \<Rightarrow> if \<bar>current - v\<bar> < \<bar>c - v\<bar> then Some current else Some c)"
  have "\<exists>r. foldl ?f (Some c) xs = Some r \<and> r \<in> insert c (set xs) \<and> (\<forall>x \<in> insert c (set xs). \<bar>r - v\<bar> \<le> \<bar>x - v\<bar>)" for c xs
  proof (induction xs arbitrary: c)
    case (Cons y ys)
    show ?case using Cons.IH [of y] Cons.IH [of c] by (cases "\<bar>y - v\<bar> < \<bar>c - v\<bar>") fastforce+
  qed simp
  then obtain r where r: "foldl ?f (Some (hd list)) (tl list) = Some r" "r \<in> insert (hd list) (set (tl list))"
    "\<forall>x \<in> insert (hd list) (set (tl list)). \<bar>r - v\<bar> \<le> \<bar>x - v\<bar>" by blast
  have "findClosestValue v list = r" using r(1) assms by (cases list) (simp_all add: findClosestValue_def)
  moreover have "insert (hd list) (set (tl list)) = set list" using assms by (cases list) simp_all
  ultimately show ?thesis using r(2,3) by simp
qed

end
