(* ===== verification/Client_Requests.thy ===== *)
theory Client_Requests
  imports Xmlrpc Client_Text
begin

text \<open>
  How the client turns a command and its data into a request (\<open>modules/utils/request.js\<close>), what the HTTP
  client makes of the answer (\<open>modules/utils/rest.js\<close>) and the query function of the API slice
  (\<open>modules/features/OneApi/oneApi.js\<close>), and the way of a request through to the parameters of the
  XML-RPC call on the server.  Express, the HTTP transport and axios are parameters.
\<close>

section \<open>The configuration of a request\<close>

record client_command =
  cc_name :: string
  cc_path :: string
  cc_httpMethod :: string
  cc_params :: params

type_synonym mapped_params = "(string \<times> (string option \<times> jsval)) list"

record request_config =
  cf_url :: string
  cf_params :: jsobj
  cf_data :: jsobj
  cf_method :: string

definition getQueries :: "mapped_params \<Rightarrow> jsobj" where
  "getQueries ps = fold (\<lambda>(name, (_, v)). AList.update name v)
     (filter (\<lambda>(_, (_, v)). v \<noteq> JUndef) (filter (\<lambda>(_, (from, _)). from = Some from_query) ps)) []"

definition getDataBody :: "mapped_params \<Rightarrow> jsobj" where
  "getDataBody ps = fold (\<lambda>(name, (_, v)). AList.update name v)
     (filter (\<lambda>(_, (from, _)). from = Some from_postBody) ps) []"

text \<open>An element of a joined array: null and undefined are empty.\<close>

definition joined :: "jsval \<Rightarrow> string" where
  "joined v = (if nullish v then [] else to_string v)"

definition getResources :: "mapped_params \<Rightarrow> string" where
  "getResources ps = js_join ''/'' (map (\<lambda>(_, (_, v)). joined v) (filter (\<lambda>(_, (from, _)). from = Some from_resource) ps))"

text \<open>\<open>path.replace(new RegExp(`:${name}(\\??)`), value)\<close> for a name without special characters and a value
  without \<open>$\<close>: the first occurrence, with a question mark that follows it.\<close>

fun replace_param :: "string \<Rightarrow> string \<Rightarrow> string \<Rightarrow> string" where
  "replace_param name v [] = []"
| "replace_param name v (c # path) =
     (if starts_with (c # path) (CHR '':'' # name)
      then v @ (case drop (length name) path of CHR ''?'' # r \<Rightarrow> r | r \<Rightarrow> r)
      else c # replace_param name v path)"

definition replacePathWithResources :: "string \<Rightarrow> mapped_params \<Rightarrow> string" where
  "replacePathWithResources path ps =
     fold (\<lambda>(name, (_, v)) replaced. replace_param name (if v = JUndef then [] else to_string v) replaced)
       (filter (\<lambda>(_, (from, _)). from = Some from_resource) ps) path"

text \<open>\<open>s.replace('.', '/')\<close>: the first dot only.\<close>

fun replace_dot :: "string \<Rightarrow> string" where
  "replace_dot [] = []"
| "replace_dot (c # s) = (if c = CHR ''.'' then CHR ''/'' # s else c # replace_dot s)"

definition mappedParams :: "jsobj \<Rightarrow> client_command \<Rightarrow> jsval \<Rightarrow> jsval \<Rightarrow> mapped_params" where
  "mappedParams data command selectedZone defaultZone =
     (let mapped = fold (\<lambda>(name, p). AList.update name (ps_from p, obj_get data name)) (cc_params command) []
      in if \<not> truthy (obj_get data ''zone'') \<and> selectedZone \<noteq> defaultZone
         then AList.update ''zone'' (Some from_query, selectedZone) mapped else mapped)"

definition requestConfig :: "jsobj \<Rightarrow> client_command \<Rightarrow> jsval \<Rightarrow> jsval \<Rightarrow> request_config" where
  "requestConfig data command selectedZone defaultZone =
     (let ps = mappedParams data command selectedZone defaultZone
      in \<lparr>cf_url = (if cc_path command \<noteq> [] then ''/api'' @ replacePathWithResources (cc_path command) ps
                    else ''/api/'' @ replace_dot (cc_name command) @ ''/'' @ getResources ps),
          cf_params = getQueries ps, cf_data = getDataBody ps, cf_method = cc_httpMethod command\<rparr>)"

section \<open>Error texts\<close>

definition is_upper :: "char \<Rightarrow> bool" where
  "is_upper c = (let n = of_char c :: nat in 65 \<le> n \<and> n \<le> 90)"

definition is_lower :: "char \<Rightarrow> bool" where
  "is_lower c = (let n = of_char c :: nat in 97 \<le> n \<and> n \<le> 122)"

text \<open>The three replacements of \<open>sentenceCase\<close>, each left to right on what the one before gave.\<close>

fun split_marks :: "string \<Rightarrow> string" where
  "split_marks (m # c # s) =
     (if (m = CHR ''-'' \<or> m = CHR ''_'') \<and> (is_upper c \<or> is_lower c) then CHR '' '' # c # split_marks s
      else m # split_marks (c # s))"
| "split_marks s = s"

fun split_acronyms :: "string \<Rightarrow> string" where
  "split_acronyms (a # b # c # s) =
     (if is_upper a \<and> is_upper b \<and> is_lower c then a # CHR '' '' # b # c # split_acronyms s
      else a # split_acronyms (b # c # s))"
| "split_acronyms s = s"

fun split_humps :: "string \<Rightarrow> string" where
  "split_humps (a # b # s) =
     (if is_lower a \<and> is_upper b then a # CHR '' '' # b # split_humps s else a # split_humps (b # s))"
| "split_humps s = s"

definition upperCaseFirst :: "string \<Rightarrow> string" where
  "upperCaseFirst s = (case s of [] \<Rightarrow> [] | c # r \<Rightarrow> upper_char c # r)"

definition sentenceCase :: "string \<Rightarrow> string" where
  "sentenceCase s = upperCaseFirst (to_lower (split_humps (split_acronyms (split_marks s))))"

definition ERROR_LOOKUP_TABLE :: "(string \<times> string) list" where
  "ERROR_LOOKUP_TABLE =
     [(''err_one_host'', ''There should be at least two hosts enabled in order to flush''), (''err_host_is_empty'', ''Host is empty''), (''invalid_2fa'', ''Invalid 2FA code'')]"

text \<open>A fallback that is not a text makes \<open>sentenceCase\<close> throw; an undefined one is the empty text.\<close>

definition formatError :: "jsval \<Rightarrow> jsval \<Rightarrow> string js" where
  "formatError errorId fallback =
     (case map_of ERROR_LOOKUP_TABLE (if errorId = JUndef then [] else to_string errorId) of
        Some text \<Rightarrow> Inr (sentenceCase text)
      | None \<Rightarrow>
          (case fallback of
             JUndef \<Rightarrow> Inr (sentenceCase [])
           | JStr s \<Rightarrow> Inr (sentenceCase s)
           | _ \<Rightarrow> Inl TypeError))"

section \<open>Answers\<close>

record axios_answer =
  ax_status :: int
  ax_data :: jsval
  ax_statusText :: string

text \<open>An answer of the server, or a failure before there is one.\<close>

datatype http_outcome = Answered axios_answer | NetworkFailure

definition validateStatus :: "int \<Rightarrow> bool" where
  "validateStatus status = list_ex (\<lambda>c. hc_id c = status) httpCodes"

text \<open>The interceptor of the answers: it hands on the body of an answer with a status below 400 and rejects
  with the answer otherwise.\<close>

definition response_interceptor :: "axios_answer \<Rightarrow> axios_answer + jsval" where
  "response_interceptor r = (if truthy (ax_data r) \<and> ax_status r < hc_id badRequest then Inr (ax_data r) else Inl r)"

text \<open>
  \<open>baseQuery\<close>: the data, an error with its status, or a thrown error, and the messages it enqueues.  The
  interceptor of the errors returns the error, so that a failed request, or a status the client does not
  know, resolves with an object that has no \<open>data\<close>.  Enqueuing an empty message throws.
\<close>

datatype query_result = QueryData jsval | QueryError int jsval | QueryThrows js_error

definition nullish_or :: "jsval \<Rightarrow> jsval \<Rightarrow> jsval" where
  "nullish_or a b = (if nullish a then b else a)"

definition failed_query :: "bool \<Rightarrow> axios_answer \<Rightarrow> query_result \<times> jsval list" where
  "failed_query showNotification failed =
     (let body = (if ax_data failed = JUndef then JObj [] else ax_data failed);
          fromOned = prop_get body ''data''
      in if body = JNull then (QueryThrows TypeError, [])
         else case formatError (nullish_or (prop_get fromOned ''type'') (prop_get fromOned ''status'')) fromOned of
           Inl e \<Rightarrow> (QueryThrows e, [])
         | Inr error \<Rightarrow>
             if ax_status failed = 204 then (QueryData (JObj []), [])
             else if ax_status failed \<noteq> hc_id unauthorized \<and> showNotification then
               (if error = [] then (QueryThrows TypeError, []) else (QueryError (ax_status failed) (JStr error), [JStr error]))
             else (QueryError (ax_status failed) (JStr error), []))"

definition baseQuery :: "bool \<Rightarrow> http_outcome \<Rightarrow> query_result \<times> jsval list" where
  "baseQuery showNotification outcome =
     (case outcome of
        NetworkFailure \<Rightarrow> (QueryData (JObj []), [])
      | Answered r \<Rightarrow>
          if \<not> validateStatus (ax_status r) then (QueryData (JObj []), [])
          else case response_interceptor r of
            Inr answer \<Rightarrow> (QueryData (nullish_or (prop_get answer ''data'') (JObj [])), [])
          | Inl failed \<Rightarrow> failed_query showNotification failed)"

section \<open>From the client to the call\<close>

text \<open>The router and the transport.  A router serves a path of optional parameters when it binds the
  segments of a URL to the parameters in order, a trailing slash being allowed; this is asked of it for
  segments of letters, digits, hyphens and underscores only, which percent decoding and the splitting of
  the query leave alone.  A transport carries a query as text, without what is null or undefined, and a
  body as it is.\<close>

record network =
  nw_match :: "string \<Rightarrow> string \<Rightarrow> jsobj option"
  nw_query :: "jsobj \<Rightarrow> jsobj"
  nw_body :: "jsobj \<Rightarrow> jsobj"

definition url_char :: "char \<Rightarrow> bool" where
  "url_char c = (is_upper c \<or> is_lower c \<or> is_digit c \<or> c = CHR ''-'' \<or> c = CHR ''_'')"

definition segment :: "string \<Rightarrow> bool" where
  "segment v \<longleftrightarrow> v \<noteq> [] \<and> list_all url_char v"

definition scalar :: "jsval \<Rightarrow> bool" where
  "scalar v = (case v of JStr _ \<Rightarrow> True | JNum _ \<Rightarrow> True | JBool _ \<Rightarrow> True | _ \<Rightarrow> False)"

definition serves_optional :: "network \<Rightarrow> string \<Rightarrow> string list \<Rightarrow> bool" where
  "serves_optional nw prefix keys \<longleftrightarrow>
     (\<forall>vs t. length vs \<le> length keys \<and> list_all segment vs \<and> (t = [] \<or> t = ''/'') \<longrightarrow>
        nw_match nw (prefix @ concat (map (\<lambda>k. ''/:'' @ k @ ''?'') keys)) (prefix @ concat (map (\<lambda>v. ''/'' @ v) vs) @ t) =
          Some (zip keys (map JStr vs)))"

definition carries :: "network \<Rightarrow> bool" where
  "carries nw \<longleftrightarrow>
     (\<forall>q k. (nullish (obj_get q k) \<longrightarrow> obj_get (nw_query nw q) k = JUndef) \<and>
            (scalar (obj_get q k) \<longrightarrow> obj_get (nw_query nw q) k = JStr (to_string (obj_get q k)))) \<and>
     (\<forall>b k. obj_get (nw_body nw b) k = obj_get b k)"

definition arriving :: "network \<Rightarrow> string \<Rightarrow> request_config \<Rightarrow> data_source option" where
  "arriving nw path cfg =
     map_option (\<lambda>ps. [(from_resource, JObj ps), (from_query, JObj (nw_query nw (cf_params cfg))),
                       (from_postBody, JObj (nw_body nw (cf_data cfg)))])
       (nw_match nw path (drop (length ''/api'') (cf_url cfg)))"

text \<open>What the server should make of the value of a parameter.\<close>

definition cast_value :: "(jsval \<Rightarrow> jsval \<Rightarrow> jsval) \<Rightarrow> param_spec \<Rightarrow> jsval \<Rightarrow> jsval" where
  "cast_value upcast p v =
     (let up = upcast v (ps_default p)
      in if ps_arrayDefault p \<noteq> JUndef
         then (case up of JArr xs \<Rightarrow> JArr (map (\<lambda>x. upcast x (ps_arrayDefault p)) xs) | _ \<Rightarrow> up)
         else up)"

definition wanted_param :: "(jsval \<Rightarrow> jsval \<Rightarrow> jsval) \<Rightarrow> jsobj \<Rightarrow> string \<times> param_spec \<Rightarrow> jsval" where
  "wanted_param upcast data kp =
     (case kp of (k, p) \<Rightarrow>
        let v = obj_get data k
        in if nullish v then ps_default p
           else cast_value upcast p (if ps_from p = Some from_postBody then v else JStr (to_string v)))"

definition keys_from :: "string \<Rightarrow> params \<Rightarrow> string list" where
  "keys_from src ps = map fst (filter (\<lambda>(k, p). ps_from p = Some src) ps)"

lemma fold_update_fresh:
  fixes xs :: "(string \<times> 'v) list"
  assumes "distinct (map fst xs)" shows "fold (\<lambda>(k, v). AList.update k v) xs [] = xs"
  using obj_spread_fresh [OF assms, of "[]"] by (simp add: obj_spread_def)

text \<open>The zone the client adds to the request does not replace a parameter of the command.\<close>

definition zone_kept :: "params \<Rightarrow> jsobj \<Rightarrow> jsval \<Rightarrow> jsval \<Rightarrow> bool" where
  "zone_kept ps data sel dft \<longleftrightarrow> ''zone'' \<notin> fst ` set ps \<or> truthy (obj_get data ''zone'') \<or> sel = dft"

lemma mapped_params:
  assumes "distinct (map fst (cc_params cmd))" "zone_kept (cc_params cmd) data sel dft"
  obtains zs where "mappedParams data cmd sel dft = map (\<lambda>(k, p). (k, (ps_from p, obj_get data k))) (cc_params cmd) @ zs"
    "zs = (if \<not> truthy (obj_get data ''zone'') \<and> sel \<noteq> dft then [(''zone'', (Some from_query, sel))] else [])"
proof -
  let ?m = "map (\<lambda>(k, p). (k, (ps_from p, obj_get data k))) (cc_params cmd)"
  have "fold (\<lambda>(name, p). AList.update name (ps_from p, obj_get data name)) (cc_params cmd) [] =
      fold (\<lambda>(k, v). AList.update k v) ?m []"
    by (simp add: fold_map comp_def split_def)
  also have "\<dots> = ?m" using assms(1) by (intro fold_update_fresh) (simp add: comp_def split_def)
  finally have m: "fold (\<lambda>(name, p). AList.update name (ps_from p, obj_get data name)) (cc_params cmd) [] = ?m" .
  have "AList.update ''zone'' v ?m = ?m @ [(''zone'', v)]" if "\<not> truthy (obj_get data ''zone'')" "sel \<noteq> dft" for v
    using assms(2) that by (intro update_fresh) (auto simp: image_iff zone_kept_def)
  then show ?thesis using that by (simp add: mappedParams_def m)
qed

lemma from_distinct [simp]:
  "from_query \<noteq> from_resource" "from_postBody \<noteq> from_resource" "from_postBody \<noteq> from_query"
  "from_resource \<noteq> from_query" "from_resource \<noteq> from_postBody" "from_query \<noteq> from_postBody"
  "from_resource \<noteq> []" "from_query \<noteq> []" "from_postBody \<noteq> []"
  by (simp_all add: from_defs)

lemma slash_join: "xs \<noteq> [] \<Longrightarrow> ''/'' @ js_join ''/'' xs = concat (map (\<lambda>v. ''/'' @ v) xs)"
  by (induction "''/''" xs rule: js_join.induct) simp_all

lemma resourceParams_concat: "resourceParams ps = concat (map (\<lambda>k. ''/:'' @ k @ ''?'') (keys_from from_resource ps))"
proof -
  have "fold (\<lambda>(key, v) prev. if ps_from v = Some from_resource then prev @ ''/:'' @ key @ ''?'' else prev) ps acc =
      acc @ concat (map (\<lambda>k. ''/:'' @ k @ ''?'') (keys_from from_resource ps))" for acc
    by (induction ps arbitrary: acc) (auto simp: keys_from_def)
  then show ?thesis by (simp add: resourceParams_def)
qed

lemma replace_dot_name: "CHR ''.'' \<notin> set r \<Longrightarrow> replace_dot (r @ CHR ''.'' # m) = r @ CHR ''/'' # m"
  by (induction r) auto

lemma obj_get_None: "k \<notin> fst ` set al \<Longrightarrow> obj_get al k = JUndef"
  using map_of_eq_None_iff [of al k] by (simp add: obj_get_def)

lemma queries_get:
  assumes "distinct (map fst (cc_params cmd))" "zone_kept (cc_params cmd) data sel dft" "(k, p) \<in> set (cc_params cmd)"
  shows "ps_from p = Some from_query \<Longrightarrow> obj_get (getQueries (mappedParams data cmd sel dft)) k = obj_get data k"
    and "ps_from p = Some from_postBody \<Longrightarrow> obj_get (getDataBody (mappedParams data cmd sel dft)) k = obj_get data k"
proof -
  let ?m = "map (\<lambda>(k, p). (k, (ps_from p, obj_get data k))) (cc_params cmd)"
  obtain zs where m: "mappedParams data cmd sel dft = ?m @ zs"
    "zs = (if \<not> truthy (obj_get data ''zone'') \<and> sel \<noteq> dft then [(''zone'', (Some from_query, sel))] else [])"
    using assms(1,2) by (rule mapped_params)
  define ms where "ms = ?m @ zs"
  have m1: "mappedParams data cmd sel dft = ms" using m(1) by (simp add: ms_def)
  have dist: "distinct (map fst ms)"
    using assms(1,2) m(2) by (auto simp: ms_def comp_def split_def image_iff zone_kept_def)
  let ?q = "filter (\<lambda>(_, (_, v)). v \<noteq> JUndef) (filter (\<lambda>(_, (from, _)). from = Some from_query) ms)"
  let ?b = "filter (\<lambda>(_, (from, _)). from = Some from_postBody) ms"
  have snd_of: "fold (\<lambda>(name, (_, v)). AList.update name v) xs [] = map (\<lambda>(n, (_, v)). (n, v)) xs"
    if "distinct (map fst xs)" for xs :: mapped_params
    using fold_update_fresh [of "map (\<lambda>(n, (_, v)). (n, v)) xs"] that by (simp add: fold_map comp_def split_def)
  have q: "getQueries (mappedParams data cmd sel dft) = map (\<lambda>(n, (_, v)). (n, v)) ?q"
    unfolding getQueries_def m1 by (intro snd_of distinct_map_filter dist)
  have b: "getDataBody (mappedParams data cmd sel dft) = map (\<lambda>(n, (_, v)). (n, v)) ?b"
    unfolding getDataBody_def m1 by (intro snd_of distinct_map_filter dist)
  have mem: "(k, (ps_from p, obj_get data k)) \<in> set ms" using assms(3) by (force simp: ms_def)
  have get: "obj_get (map (\<lambda>(n, (_, v)). (n, v)) xs) k = v"
    if "distinct (map fst xs)" "(k, (f, v)) \<in> set xs" for xs :: mapped_params and f v
  proof -
    have "map_of (map (\<lambda>(n, (_, v)). (n, v)) xs) k = Some v"
      using that by (intro map_of_is_SomeI) (auto simp: comp_def split_def image_iff intro: bexI [of _ "(k, (f, v))"])
    then show ?thesis by (simp add: obj_get_def)
  qed
  have none: "obj_get (map (\<lambda>(n, (_, v)). (n, v)) ?q) k = JUndef" if "obj_get data k = JUndef"
  proof -
    have "(k, (f, v)) \<in> set ms \<Longrightarrow> v = JUndef" for f v
      using eq_key_imp_eq_value [OF dist mem, of "(f, v)"] that by simp
    then have "k \<notin> fst ` set (map (\<lambda>(n, (_, v)). (n, v)) ?q)" by auto
    then show ?thesis by (rule obj_get_None)
  qed
  show "obj_get (getQueries (mappedParams data cmd sel dft)) k = obj_get data k" if "ps_from p = Some from_query"
  proof (cases "obj_get data k = JUndef")
    case False
    then have "(k, (ps_from p, obj_get data k)) \<in> set ?q" using mem that by simp
    then show ?thesis unfolding q by (rule get [OF distinct_map_filter [OF distinct_map_filter [OF dist]]])
  qed (use none q in simp)
  show "obj_get (getDataBody (mappedParams data cmd sel dft)) k = obj_get data k" if "ps_from p = Some from_postBody"
  proof -
    have "(k, (ps_from p, obj_get data k)) \<in> set ?b" using mem that by simp
    then show ?thesis unfolding b by (rule get [OF distinct_map_filter [OF dist]])
  qed
qed

lemma resources_join:
  assumes "distinct (map fst (cc_params cmd))" "zone_kept (cc_params cmd) data sel dft"
  shows "getResources (mappedParams data cmd sel dft) =
    js_join ''/'' (map (\<lambda>k. joined (obj_get data k)) (keys_from from_resource (cc_params cmd)))"
proof -
  obtain zs where m: "mappedParams data cmd sel dft = map (\<lambda>(k, p). (k, (ps_from p, obj_get data k))) (cc_params cmd) @ zs"
    "zs = (if \<not> truthy (obj_get data ''zone'') \<and> sel \<noteq> dft then [(''zone'', (Some from_query, sel))] else [])"
    using assms by (rule mapped_params)
  show ?thesis unfolding getResources_def m keys_from_def by (simp add: filter_map comp_def split_def)
qed

lemma zip_get:
  assumes "distinct keys" "map (obj_get data) keys = vs @ replicate n JUndef" "list_all (\<lambda>v. \<not> nullish v) vs" "k \<in> set keys"
  shows "obj_get (zip keys (map (\<lambda>v. JStr (to_string v)) vs)) k =
    (if nullish (obj_get data k) then JUndef else JStr (to_string (obj_get data k)))"
proof -
  obtain i where i: "i < length keys" "keys ! i = k" using assms(4) by (metis in_set_conv_nth)
  have len: "length vs \<le> length keys" using arg_cong [OF assms(2), of length] by simp
  have dk: "obj_get data k = (vs @ replicate n JUndef) ! i" using i assms(2) by (metis nth_map)
  let ?z = "zip keys (map (\<lambda>v. JStr (to_string v)) vs)"
  have dz: "distinct (map fst ?z)" using assms(1) len by (simp add: map_fst_zip_take)
  show ?thesis
  proof (cases "i < length vs")
    case True
    then have "(k, JStr (to_string (vs ! i))) \<in> set ?z" using i len by (force simp: set_zip)
    then have "map_of ?z k = Some (JStr (to_string (vs ! i)))" using dz by simp
    moreover have "\<not> nullish (vs ! i)" using assms(3) True by (simp add: list_all_iff)
    ultimately show ?thesis using True dk by (simp add: obj_get_def [of ?z] nth_append)
  next
    case False
    then have "obj_get data k = JUndef" using dk i arg_cong [OF assms(2), of length] by (simp add: nth_append)
    moreover have "k \<notin> fst ` set ?z"
    proof
      assume "k \<in> fst ` set ?z"
      then obtain j where "j < length vs" "j < length keys" "keys ! j = k" by (force simp: set_zip)
      then show False using i assms(1) False nth_eq_iff_index_eq by fastforce
    qed
    then have "obj_get ?z k = JUndef" by (rule obj_get_None)
    ultimately show ?thesis by (simp add: nullish_def)
  qed
qed

lemma command_route_parts:
  assumes "command_ok (k, c)" "command_route (k, c) = Some rt"
  shows "rt_path rt = (''/'' @ replace_dot k) @ concat (map (\<lambda>k. ''/:'' @ k @ ''?'') (keys_from from_resource (cm_params c)))"
    and "rt_params rt = cm_params c"
proof -
  obtain r m where rm: "js_split (CHR ''.'') k = [r, m]" "r \<noteq> []" "m \<noteq> []"
    using assms(1) by (auto simp: command_ok_def split: list.splits)
  have "CHR ''.'' \<notin> set r" using js_split_parts [of r "CHR ''.''" k] rm(1) by simp
  moreover have "k = r @ CHR ''.'' # m" using js_join_split [of "CHR ''.''" k] rm(1) by simp
  ultimately have "replace_dot k = r @ ''/'' @ m" by (simp add: replace_dot_name)
  then show "rt_path rt = (''/'' @ replace_dot k) @ concat (map (\<lambda>k. ''/:'' @ k @ ''?'') (keys_from from_resource (cm_params c)))"
    and "rt_params rt = cm_params c"
    using assms(2) rm by (auto simp: command_route_def resourceParams_concat split: if_splits)
qed

lemma url_of_resources:
  assumes "n \<le> (1::nat)"
  obtains t where "t = [] \<or> t = ''/''"
    "''/'' @ js_join ''/'' (ws @ replicate n []) = concat (map (\<lambda>v. ''/'' @ v) ws) @ t"
proof (cases "ws = [] \<and> n = 0")
  case True
  then show ?thesis using that [of "''/''"] by simp
next
  case False
  then have "''/'' @ js_join ''/'' (ws @ replicate n []) = concat (map (\<lambda>v. ''/'' @ v) (ws @ replicate n []))"
    by (intro slash_join) auto
  then show ?thesis using assms that by (cases n) auto
qed

text \<open>The data source that arrives for a command.\<close>

definition source_for :: "network \<Rightarrow> jsobj \<Rightarrow> mapped_params \<Rightarrow> data_source" where
  "source_for nw resources m =
     [(from_resource, JObj resources), (from_query, JObj (nw_query nw (getQueries m))),
      (from_postBody, JObj (nw_body nw (getDataBody m)))]"

lemma arriving_source:
  assumes "command_ok (k, c)" "command_route (k, c) = Some rt"
    and params: "distinct (map fst (cm_params c))" "zone_kept (cm_params c) data sel dft"
    and res: "map (obj_get data) (keys_from from_resource (cm_params c)) = vs @ replicate n JUndef" "n \<le> 1"
      "list_all (\<lambda>v. \<not> nullish v \<and> segment (to_string v)) vs"
    and net: "serves_optional nw (''/'' @ replace_dot k) (keys_from from_resource (cm_params c))"
    and cmd: "cmd = \<lparr>cc_name = k, cc_path = [], cc_httpMethod = verb, cc_params = cm_params c\<rparr>"
  shows "arriving nw (rt_path rt) (requestConfig data cmd sel dft) =
    Some (source_for nw (zip (keys_from from_resource (cm_params c)) (map (\<lambda>v. JStr (to_string v)) vs)) (mappedParams data cmd sel dft))"
proof -
  let ?keys = "keys_from from_resource (cm_params c)" and ?prefix = "''/'' @ replace_dot k"
  let ?url = "drop (length ''/api'') (cf_url (requestConfig data cmd sel dft))"
  have "map (\<lambda>k. joined (obj_get data k)) ?keys = map joined (map (obj_get data) ?keys)" by simp
  also have "\<dots> = map to_string vs @ replicate n []" unfolding res(1) using res(3) by (auto simp: joined_def nullish_def list_all_iff)
  finally have "?url = ?prefix @ ''/'' @ js_join ''/'' (map to_string vs @ replicate n [])"
    using resources_join [of cmd data sel dft] params by (simp add: requestConfig_def Let_def cmd)
  moreover obtain t where t: "t = [] \<or> t = ''/''"
    "''/'' @ js_join ''/'' (map to_string vs @ replicate n []) = concat (map (\<lambda>v. ''/'' @ v) (map to_string vs)) @ t"
    using res(2) by (rule url_of_resources)
  ultimately have url: "?url = ?prefix @ concat (map (\<lambda>v. ''/'' @ v) (map to_string vs)) @ t" by simp
  have "length (map to_string vs) \<le> length ?keys" using arg_cong [OF res(1), of length] by simp
  moreover have "list_all segment (map to_string vs)" using res(3) by (auto simp: list_all_iff)
  ultimately have "nw_match nw (rt_path rt) ?url = Some (zip ?keys (map JStr (map to_string vs)))"
    using net t(1) unfolding url command_route_parts(1) [OF assms(1,2)] serves_optional_def by blast
  then show ?thesis by (simp add: arriving_def source_for_def requestConfig_def Let_def comp_def)
qed

lemma source_get [simp]:
  "obj_get (source_for nw r m) from_resource = JObj r"
  "obj_get (source_for nw r m) from_query = JObj (nw_query nw (getQueries m))"
  "obj_get (source_for nw r m) from_postBody = JObj (nw_body nw (getDataBody m))"
  by (simp_all add: source_for_def obj_get_def)

text \<open>A parameter that arrives as it was meant is the wanted one.\<close>

lemma command_param_wanted:
  assumes "n \<noteq> []" "ps_from p = Some src" "src \<noteq> []" "ps_default p \<noteq> JUndef"
    and "truthy (obj_get ds src)"
    and "prop_get (obj_get ds src) n = (if nullish (obj_get data n) then JUndef
       else if src = from_postBody then obj_get data n else JStr (to_string (obj_get data n)))
     \<or> nullish (obj_get data n) \<and> nullish (prop_get (obj_get ds src) n)"
  shows "command_param upcast ds (n, p) = wanted_param upcast data (n, p)"
proof -
  let ?got = "prop_get (obj_get ds src) n"
  have "command_param upcast ds (n, p) = (if nullish ?got then ps_default p else cast_value upcast p ?got)"
    using assms(1-5) by (simp add: command_param_def cast_value_def nullish_def Let_def)
  then show ?thesis using assms(2,6) by (auto simp: wanted_param_def Let_def nullish_def split: if_splits)
qed

section \<open>Properties\<close>


text \<open>A router and a transport of this kind, and the request for a user.\<close>

definition path_segments :: "string \<Rightarrow> string list" where
  "path_segments s = filter (\<lambda>w. w \<noteq> []) (js_split (CHR ''/'') s)"

definition path_key :: "string \<Rightarrow> string" where
  "path_key w = butlast (tl w)"

definition sample_network :: network where
  "sample_network =
     \<lparr>nw_match = (\<lambda>path url.
        let (fixed, params) = (takeWhile (\<lambda>w. hd w \<noteq> CHR '':'') (path_segments path), dropWhile (\<lambda>w. hd w \<noteq> CHR '':'') (path_segments path))
        in Some (zip (map path_key params) (map JStr (drop (length fixed) (path_segments url))))),
      nw_query = map (\<lambda>(k, v). (k, if nullish v then JUndef else JStr (to_string v))), nw_body = (\<lambda>b. b)\<rparr>"

definition path_word :: "string \<Rightarrow> bool" where
  "path_word w \<longleftrightarrow> w \<noteq> [] \<and> CHR ''/'' \<notin> set w"

lemma segment_word: "segment w \<Longrightarrow> path_word w"
  by (auto simp: segment_def path_word_def list_all_iff url_char_def is_upper_def is_lower_def is_digit_def)

lemma path_segments_cons:
  assumes "path_word w" "rest = [] \<or> hd rest = CHR ''/''"
  shows "path_segments (CHR ''/'' # w @ rest) = w # path_segments rest"
proof (cases rest)
  case Nil
  then show ?thesis using assms(1) js_split_no_sep [of "CHR ''/''" w] by (simp add: path_segments_def path_word_def)
next
  case (Cons c s)
  then show ?thesis using assms js_split_append [of "CHR ''/''" w s] by (simp add: path_segments_def path_word_def)
qed

lemma path_segments_concat:
  assumes "list_all path_word ws" "t = [] \<or> t = ''/''"
  shows "path_segments (concat (map (\<lambda>v. ''/'' @ v) ws) @ t) = ws"
  using assms(1)
proof (induction ws)
  case Nil
  then show ?case using assms(2) by (auto simp: path_segments_def)
next
  case (Cons w ws)
  have "concat (map (\<lambda>v. ''/'' @ v) ws) @ t = [] \<or> hd (concat (map (\<lambda>v. ''/'' @ v) ws) @ t) = CHR ''/''"
    using assms(2) by (cases ws) auto
  then show ?case using Cons path_segments_cons [of w "concat (map (\<lambda>v. ''/'' @ v) ws) @ t"] by simp
qed

lemma sample_network_serves:
  assumes "list_all path_word fixed" "list_all (\<lambda>w. hd w \<noteq> CHR '':'') fixed" "list_all path_word keys"
  shows "serves_optional sample_network (concat (map (\<lambda>v. ''/'' @ v) fixed)) keys"
proof -
  let ?ps = "map (\<lambda>k. '':'' @ k @ ''?'') keys"
  have path: "path_segments (concat (map (\<lambda>v. ''/'' @ v) fixed) @ concat (map (\<lambda>k. ''/:'' @ k @ ''?'') keys)) = fixed @ ?ps"
  proof -
    have "list_all path_word (fixed @ ?ps)" using assms by (auto simp: list_all_iff path_word_def)
    then show ?thesis using path_segments_concat [of "fixed @ ?ps" "[]"] by (simp add: comp_def)
  qed
  have url: "path_segments (concat (map (\<lambda>v. ''/'' @ v) fixed) @ concat (map (\<lambda>v. ''/'' @ v) vs) @ t) = fixed @ vs"
    if "list_all segment vs" "t = [] \<or> t = ''/''" for vs t
  proof -
    have "list_all path_word vs" using that(1) segment_word by (simp add: list_all_iff)
    then show ?thesis using path_segments_concat [of "fixed @ vs" t] that(2) assms(1) by simp
  qed
  have "takeWhile (\<lambda>w. hd w \<noteq> CHR '':'') (fixed @ ?ps) = fixed" "dropWhile (\<lambda>w. hd w \<noteq> CHR '':'') (fixed @ ?ps) = ?ps"
    using assms(2) by (cases keys; auto simp: list_all_iff takeWhile_append dropWhile_append takeWhile_eq_Nil_iff dropWhile_eq_self_iff)+
  moreover have "map path_key ?ps = keys" by (simp add: path_key_def comp_def)
  ultimately show ?thesis
    using path url by (simp add: serves_optional_def sample_network_def Let_def comp_def)
qed

lemma sample_network_carries: "carries sample_network"
proof -
  have "obj_get (map (\<lambda>(k, v). (k, if nullish v then JUndef else JStr (to_string v))) q) k =
      (if nullish (obj_get q k) then JUndef else JStr (to_string (obj_get q k)))" for q k
    by (induction q) (auto simp: obj_get_def nullish_def)
  then show ?thesis by (auto simp: carries_def sample_network_def scalar_def nullish_def)
qed


text \<open>The zone the client selects is the query parameter the server reads, unless the data has a zone of
  its own: a command with a parameter of that name is then sent to the default zone.\<close>

lemma selected_zone_sent:
  "getQueries (mappedParams data \<lparr>cc_name = k, cc_path = p, cc_httpMethod = v, cc_params = []\<rparr> sel dft) =
     (if \<not> truthy (obj_get data ''zone'') \<and> sel \<noteq> dft \<and> sel \<noteq> JUndef then [(''zone'', sel)] else [])"
  by (simp add: getQueries_def mappedParams_def)

text \<open>The answer the server sends for a result.\<close>

definition answer_of :: "http_result \<Rightarrow> axios_answer" where
  "answer_of r =
     \<lparr>ax_status = hr_id r,
      ax_data = JObj ([(''id'', JNum (hr_id r))] @
        (case hr_message r of Some m \<Rightarrow> [(''message'', JStr m)] | None \<Rightarrow> []) @
        (case hr_data r of Some d \<Rightarrow> [(''data'', d)] | None \<Rightarrow> [])),
      ax_statusText = []\<rparr>"

text \<open>
  An error of the server reaches the user through its data only: an answer with a known error status
  other than 401 whose data is a text is reported with that text as a sentence, and the text is enqueued
  as a notification; one without data, whatever its message, makes the query throw instead, and nothing
  is shown.
\<close>

lemma known_status: "code \<in> set httpCodes \<Longrightarrow> validateStatus (hc_id code)"
  by (auto simp: validateStatus_def list_ex_iff)

lemma sentenceCase_nonempty: "s \<noteq> [] \<Longrightarrow> sentenceCase s \<noteq> []"
proof -
  assume "s \<noteq> []"
  then have "split_marks s \<noteq> []" by (cases s rule: split_marks.cases) auto
  then have "split_acronyms (split_marks s) \<noteq> []" by (cases "split_marks s" rule: split_acronyms.cases) auto
  then have "split_humps (split_acronyms (split_marks s)) \<noteq> []" by (cases "split_acronyms (split_marks s)" rule: split_humps.cases) auto
  then show ?thesis by (auto simp: sentenceCase_def upperCaseFirst_def to_lower_def split: list.split)
qed

theorem server_errors_shown_by_data:
  assumes "code \<in> set httpCodes" "hc_id code \<ge> 400" "hc_id code \<noteq> 401" "text \<noteq> []"
  shows "baseQuery True (Answered (answer_of (httpResponse (Some code) (JStr text) msg []))) =
      (QueryError (hc_id code) (JStr (sentenceCase text)), [JStr (sentenceCase text)]) \<and>
    baseQuery True (Answered (answer_of (httpResponse (Some code) JUndef msg []))) = (QueryThrows TypeError, [])"
proof -
  let ?a = "\<lambda>d. answer_of (httpResponse (Some code) d msg [])"
  have st: "ax_status (?a d) = hc_id code" for d by (simp add: answer_of_def)
  have body: "\<exists>fs. ax_data (?a d) = JObj fs \<and> obj_get fs ''data'' = d" if "d = JUndef \<or> d = JStr text" for d
    using that assms(4) by (auto simp: answer_of_def httpResponse_def of_code_def Let_def obj_get_def)
  have fail: "baseQuery True (Answered (?a d)) = failed_query True (?a d)" for d
    using assms(2) known_status [OF assms(1)] by (simp add: baseQuery_def st response_interceptor_def badRequest_def)
  have lookup: "map_of ERROR_LOOKUP_TABLE [] = None" by (simp add: ERROR_LOOKUP_TABLE_def)
  have empty: "sentenceCase [] = []" by (simp add: sentenceCase_def upperCaseFirst_def to_lower_def)
  obtain fs where fs: "ax_data (?a (JStr text)) = JObj fs" "obj_get fs ''data'' = JStr text" using body by blast
  obtain gs where gs: "ax_data (?a JUndef) = JObj gs" "obj_get gs ''data'' = JUndef" using body by blast
  have "failed_query True (?a (JStr text)) = (QueryError (hc_id code) (JStr (sentenceCase text)), [JStr (sentenceCase text)])"
    using assms(2,3) sentenceCase_nonempty [OF assms(4)]
    by (simp add: failed_query_def st fs formatError_def nullish_or_def nullish_def lookup unauthorized_def Let_def assms(4))
  moreover have "failed_query True (?a JUndef) = (QueryThrows TypeError, [])"
    using assms(2,3)
    by (simp add: failed_query_def st gs formatError_def nullish_or_def nullish_def lookup empty unauthorized_def Let_def)
  ultimately show ?thesis by (simp add: fail)
qed

theorem server_errors_shown_by_data_witness:
  "baseQuery True (Answered (answer_of (httpResponse (Some internalServerError) JUndef ''Internal Server Error: Invalid Zone'' []))) =
     (QueryThrows TypeError, [])"
  using server_errors_shown_by_data [of internalServerError "''x''" "''Internal Server Error: Invalid Zone''"]
  by (simp add: httpCodes_def internalServerError_def)

text \<open>A request that fails before there is an answer, or is answered with a status such as 502, succeeds with
  empty data.\<close>

lemma network_failure_succeeds:
  "baseQuery b NetworkFailure = (QueryData (JObj []), [])"
  "ax_status r = 502 \<Longrightarrow> baseQuery b (Answered r) = (QueryData (JObj []), [])"
  by (simp_all add: baseQuery_def validateStatus_def httpCodes_def badRequest_def unauthorized_def notFound_def conflict_def
      methodNotAllowed_def internalServerError_def serviceUnavailable_def noContent_def accepted_def ok_def)

end
