(* ===== verification/Vm_Tables.thy ===== *)
theory Vm_Tables
  imports Js_Prelude
begin

text \<open>
  The tables of virtual machines: their states and the states of the life cycle of the active ones, the actions
  and for each hypervisor the states in which an action is offered (\<open>modules/constants/vm.js\<close> over
  \<open>states.js\<close> and \<open>actions.js\<close>), and next to them the numbering of the core, of which the server's answers
  are made (\<open>include/VirtualMachine.h\<close>, \<open>include/VMActions.h\<close> and \<open>src/vm/VMActions.cc\<close>).  Colours and
  the meanings, all empty, are presentation and left out.
\<close>

section \<open>The tables of the client\<close>

record state_info =
  si_name :: string
  si_displayName :: "string option"

abbreviation state_named :: "string \<Rightarrow> state_info" where
  "state_named n \<equiv> \<lparr>si_name = n, si_displayName = None\<rparr>"

definition VM_STATES :: "state_info list" where
  "VM_STATES =
     [state_named ''INIT'', state_named ''PENDING'', state_named ''HOLD'', state_named ''ACTIVE'',
      state_named ''STOPPED'', state_named ''SUSPENDED'', state_named ''DONE'', state_named ''FAILED'',
      state_named ''POWEROFF'', state_named ''UNDEPLOYED'', state_named ''CLONING'', state_named ''CLONING_FAILURE'']"

definition VM_LCM_STATES :: "state_info list" where
  "VM_LCM_STATES =
     [\<lparr>si_name = ''LCM_INIT'', si_displayName = Some ''PROLOG''\<rparr>, state_named ''PROLOG'',
      state_named ''BOOT'', state_named ''RUNNING'', state_named ''MIGRATE'', state_named ''SAVE_STOP'',
      state_named ''SAVE_SUSPEND'', state_named ''SAVE_MIGRATE'', state_named ''PROLOG_MIGRATE'',
      state_named ''PROLOG_RESUME'', state_named ''EPILOG_STOP'', state_named ''EPILOG'', state_named ''SHUTDOWN'',
      state_named ''CANCEL'', state_named ''FAILURE'', state_named ''CLEANUP_RESUBMIT'', state_named ''UNKNOWN'',
      state_named ''HOTPLUG'', state_named ''SHUTDOWN_POWEROFF'', state_named ''BOOT_UNKNOWN'',
      state_named ''BOOT_POWEROFF'', state_named ''BOOT_SUSPENDED'', state_named ''BOOT_STOPPED'',
      state_named ''CLEANUP_DELETE'', state_named ''HOTPLUG_SNAPSHOT'', state_named ''HOTPLUG_NIC'',
      state_named ''HOTPLUG_SAVEAS'', state_named ''HOTPLUG_SAVEAS_POWEROFF'',
      state_named ''HOTPLUG_SAVEAS_SUSPENDED'', state_named ''SHUTDOWN_UNDEPLOY'', state_named ''EPILOG_UNDEPLOY'',
      state_named ''PROLOG_UNDEPLOY'', state_named ''BOOT_UNDEPLOY'', state_named ''HOTPLUG_PROLOG_POWEROFF'',
      state_named ''HOTPLUG_EPILOG_POWEROFF'', state_named ''BOOT_MIGRATE'', state_named ''BOOT_FAILURE'',
      state_named ''BOOT_MIGRATE_FAILURE'', state_named ''PROLOG_MIGRATE_FAILURE'', state_named ''PROLOG_FAILURE'',
      state_named ''EPILOG_FAILURE'', state_named ''EPILOG_STOP_FAILURE'', state_named ''EPILOG_UNDEPLOY_FAILURE'',
      state_named ''PROLOG_MIGRATE_POWEROFF'', state_named ''PROLOG_MIGRATE_POWEROFF_FAILURE'',
      state_named ''PROLOG_MIGRATE_SUSPEND'', state_named ''PROLOG_MIGRATE_SUSPEND_FAILURE'',
      state_named ''BOOT_UNDEPLOY_FAILURE'', state_named ''BOOT_STOPPED_FAILURE'',
      state_named ''PROLOG_RESUME_FAILURE'', state_named ''PROLOG_UNDEPLOY_FAILURE'',
      state_named ''DISK_SNAPSHOT_POWEROFF'', state_named ''DISK_SNAPSHOT_REVERT_POWEROFF'',
      state_named ''DISK_SNAPSHOT_DELETE_POWEROFF'', state_named ''DISK_SNAPSHOT_SUSPENDED'',
      state_named ''DISK_SNAPSHOT_REVERT_SUSPENDED'', state_named ''DISK_SNAPSHOT_DELETE_SUSPENDED'',
      state_named ''DISK_SNAPSHOT'', state_named ''DISK_SNAPSHOT_REVERT'', state_named ''DISK_SNAPSHOT_DELETE'',
      state_named ''PROLOG_MIGRATE_UNKNOWN'', state_named ''PROLOG_MIGRATE_UNKNOWN_FAILURE'',
      state_named ''DISK_RESIZE'', state_named ''DISK_RESIZE_POWEROFF'', state_named ''DISK_RESIZE_UNDEPLOYED'',
      state_named ''HOTPLUG_NIC_POWEROFF'', state_named ''HOTPLUG_RESIZE'',
      state_named ''HOTPLUG_SAVEAS_UNDEPLOYED'', state_named ''HOTPLUG_SAVEAS_STOPPED'', state_named ''BACKUP'',
      state_named ''BACKUP_POWEROFF'', state_named ''RESTORE'']"

definition VM_ACTIONS :: "(string \<times> string) list" where
  "VM_ACTIONS =
     [(''BACKUP'', ''backup''), (''RESTORE'', ''restore''), (''CREATE_DIALOG'', ''create_dialog''),
      (''CREATE_APP_DIALOG'', ''create_app_dialog''), (''DEPLOY'', ''deploy''), (''HOLD'', ''hold''),
      (''LOCK'', ''lock''), (''MIGRATE_LIVE'', ''live-migrate''), (''MIGRATE_POFF_HARD'', ''poweroff-hard-migrate''),
      (''MIGRATE_POFF'', ''poweroff-migrate''), (''MIGRATE'', ''migrate''), (''POWEROFF_HARD'', ''poweroff-hard''),
      (''POWEROFF'', ''poweroff''), (''REBOOT_HARD'', ''reboot-hard''), (''REBOOT'', ''reboot''),
      (''RECOVER'', ''recover''), (''RELEASE'', ''release''), (''RESCHED'', ''resched''), (''RESUME'', ''resume''),
      (''SAVE_AS_TEMPLATE'', ''save_as_template''), (''STOP'', ''stop''), (''SUSPEND'', ''suspend''),
      (''TERMINATE_HARD'', ''terminate-hard''), (''TERMINATE'', ''terminate''),
      (''UNDEPLOY_HARD'', ''undeploy-hard''), (''UNDEPLOY'', ''undeploy''), (''UNLOCK'', ''unlock''),
      (''UNRESCHED'', ''unresched''), (''SPICE'', ''spice''), (''VNC'', ''vnc''), (''SSH'', ''ssh''),
      (''RDP'', ''rdp''), (''FILE_RDP'', ''file_rdp''), (''FILE_VIRT_VIEWER'', ''file_virt_viewer''),
      (''RENAME'', ''rename''), (''CHANGE_MODE'', ''chmod''), (''CHANGE_OWNER'', ''chown''),
      (''CHANGE_GROUP'', ''chgrp''), (''RESIZE_CAPACITY'', ''resize''), (''ATTACH_DISK'', ''disk-attach''),
      (''DETACH_DISK'', ''disk-detach''), (''SNAPSHOT_DISK_CREATE'', ''disk-snapshot-create''),
      (''SNAPSHOT_DISK_RENAME'', ''disk-snapshot-rename''), (''SNAPSHOT_DISK_REVERT'', ''disk-snapshot-revert''),
      (''SNAPSHOT_DISK_DELETE'', ''disk-snapshot-delete''), (''RESIZE_DISK'', ''disk-resize''),
      (''DISK_SAVEAS'', ''disk-saveas''), (''ATTACH_NIC'', ''nic-attach''), (''DETACH_NIC'', ''nic-detach''),
      (''UPDATE_NIC'', ''nic-update''), (''ATTACH_SEC_GROUP'', ''sg-attach''), (''DETACH_SEC_GROUP'', ''sg-detach''),
      (''ATTACH_PCI'', ''pci-attach''), (''DETACH_PCI'', ''pci-detach''), (''SNAPSHOT_CREATE'', ''snapshot-create''),
      (''SNAPSHOT_REVERT'', ''snapshot-revert''), (''SNAPSHOT_DELETE'', ''snapshot-delete''),
      (''SCHED_ACTION_CREATE'', ''sched-add''), (''SCHED_ACTION_UPDATE'', ''sched-update''),
      (''SCHED_ACTION_DELETE'', ''sched-delete''), (''CHARTER_CREATE'', ''charter_create''),
      (''PERFORM_ACTION'', ''perform_action''), (''UPDATE_CONF'', ''update_configuration'')]"

definition DEFAULT_VM_ACTIONS_BY_STATE :: "(string \<times> string list) list" where
  "DEFAULT_VM_ACTIONS_BY_STATE =
     [(''deploy'', [''PENDING'', ''HOLD'', ''STOPPED'', ''UNDEPLOYED'', ''UNKNOWN'']),
      (''hold'', [''PENDING'']),
      (''recover'', [''INIT'', ''PENDING'', ''HOLD'', ''ACTIVE'', ''STOPPED'', ''SUSPENDED'', ''POWEROFF'', ''UNDEPLOYED'',
         ''CLONING'', ''BOOT_FAILURE'', ''BOOT_MIGRATE_FAILURE'', ''BOOT_STOPPED_FAILURE'',
         ''BOOT_UNDEPLOY_FAILURE'', ''CLONING_FAILURE'', ''EPILOG_FAILURE'', ''EPILOG_STOP_FAILURE'',
         ''EPILOG_UNDEPLOY_FAILURE'', ''PROLOG_FAILURE'', ''PROLOG_MIGRATE_FAILURE'',
         ''PROLOG_MIGRATE_POWEROFF_FAILURE'', ''PROLOG_MIGRATE_SUSPEND_FAILURE'', ''PROLOG_MIGRATE_UNKNOWN_FAILURE'',
         ''PROLOG_RESUME_FAILURE'', ''PROLOG_UNDEPLOY_FAILURE'', ''UPDATE_FAILURE'']),
      (''restore'', [''POWEROFF'']),
      (''terminate-hard'', [''INIT'', ''PENDING'', ''HOLD'', ''STOPPED'', ''SUSPENDED'', ''POWEROFF'', ''UNDEPLOYED'', ''CLONING'',
         ''CLONING_FAILURE'', ''RUNNING'', ''UNKNOWN'']),
      (''lock'', []),
      (''unlock'', []),
      (''rename'', []),
      (''chmod'', []),
      (''chown'', []),
      (''chgrp'', []),
      (''sched-add'', []),
      (''sched-update'', []),
      (''sched-delete'', []),
      (''charter_create'', []),
      (''release'', [''HOLD'']),
      (''resize'', [''INIT'', ''PENDING'', ''HOLD'', ''ACTIVE'', ''POWEROFF'', ''UNDEPLOYED'', ''CLONING'', ''CLONING_FAILURE'']),
      (''disk-snapshot-rename'', []),
      (''update_configuration'', [''PENDING'', ''HOLD'', ''ACTIVE'', ''POWEROFF'', ''UNDEPLOYED'', ''CLONING'', ''CLONING_FAILURE'',
         ''PROLOG'', ''EPILOG'', ''SHUTDOWN'', ''CLEANUP_RESUBMIT'', ''SHUTDOWN_POWEROFF'', ''CLEANUP_DELETE'',
         ''HOTPLUG_SAVEAS_POWEROFF'', ''SHUTDOWN_UNDEPLOY'', ''EPILOG_UNDEPLOY'', ''PROLOG_UNDEPLOY'',
         ''HOTPLUG_PROLOG_POWEROFF'', ''HOTPLUG_EPILOG_POWEROFF'', ''BOOT_FAILURE'', ''PROLOG_FAILURE'',
         ''EPILOG_FAILURE'', ''EPILOG_UNDEPLOY_FAILURE'', ''PROLOG_MIGRATE_POWEROFF'',
         ''PROLOG_MIGRATE_POWEROFF_FAILURE'', ''BOOT_UNDEPLOY_FAILURE'', ''PROLOG_UNDEPLOY_FAILURE'',
         ''DISK_SNAPSHOT_POWEROFF'', ''DISK_SNAPSHOT_REVERT_POWEROFF'', ''DISK_SNAPSHOT_DELETE_POWEROFF''])]"

definition DUMMY_VM_ACTIONS_BY_STATE :: "(string \<times> string list) list" where
  "DUMMY_VM_ACTIONS_BY_STATE =
     [(''backup'', [''POWEROFF'', ''RUNNING'']),
      (''deploy'', [''PENDING'', ''HOLD'', ''STOPPED'', ''UNDEPLOYED'', ''UNKNOWN'']),
      (''create_app_dialog'', [''POWEROFF'']),
      (''hold'', [''PENDING'']),
      (''lock'', []),
      (''live-migrate'', [''RUNNING'', ''UNKNOWN'']),
      (''poweroff-hard-migrate'', [''RUNNING'', ''UNKNOWN'']),
      (''poweroff-migrate'', [''RUNNING'', ''UNKNOWN'']),
      (''migrate'', [''SUSPENDED'', ''POWEROFF'', ''RUNNING'', ''UNKNOWN'']),
      (''poweroff-hard'', [''RUNNING'', ''SHUTDOWN'', ''UNKNOWN'']),
      (''poweroff'', [''RUNNING'', ''UNKNOWN'']),
      (''reboot-hard'', [''RUNNING'']),
      (''reboot'', [''RUNNING'']),
      (''recover'', [''INIT'', ''PENDING'', ''HOLD'', ''ACTIVE'', ''STOPPED'', ''SUSPENDED'', ''POWEROFF'', ''UNDEPLOYED'',
         ''CLONING'', ''BOOT_FAILURE'', ''BOOT_MIGRATE_FAILURE'', ''BOOT_STOPPED_FAILURE'',
         ''BOOT_UNDEPLOY_FAILURE'', ''CLONING_FAILURE'', ''EPILOG_FAILURE'', ''EPILOG_STOP_FAILURE'',
         ''EPILOG_UNDEPLOY_FAILURE'', ''PROLOG_FAILURE'', ''PROLOG_MIGRATE_FAILURE'',
         ''PROLOG_MIGRATE_POWEROFF_FAILURE'', ''PROLOG_MIGRATE_SUSPEND_FAILURE'', ''PROLOG_MIGRATE_UNKNOWN_FAILURE'',
         ''PROLOG_RESUME_FAILURE'', ''PROLOG_UNDEPLOY_FAILURE'', ''UPDATE_FAILURE'']),
      (''restore'', [''POWEROFF'']),
      (''release'', [''HOLD'']),
      (''resched'', [''POWEROFF'', ''RUNNING'', ''UNKNOWN'']),
      (''resume'', [''STOPPED'', ''SUSPENDED'', ''POWEROFF'', ''UNDEPLOYED'', ''UNKNOWN'']),
      (''save_as_template'', [''POWEROFF'']),
      (''stop'', [''SUSPENDED'', ''RUNNING'']),
      (''suspend'', [''RUNNING'']),
      (''terminate-hard'', [''INIT'', ''PENDING'', ''HOLD'', ''STOPPED'', ''SUSPENDED'', ''POWEROFF'', ''UNDEPLOYED'', ''CLONING'',
         ''CLONING_FAILURE'', ''RUNNING'', ''UNKNOWN'']),
      (''terminate'', [''RUNNING'', ''FAILURE'', ''BOOT_FAILURE'', ''BOOT_MIGRATE_FAILURE'', ''PROLOG_MIGRATE_FAILURE'',
         ''PROLOG_FAILURE'', ''EPILOG_FAILURE'', ''EPILOG_STOP_FAILURE'', ''EPILOG_UNDEPLOY_FAILURE'',
         ''PROLOG_MIGRATE_POWEROFF_FAILURE'', ''PROLOG_MIGRATE_SUSPEND_FAILURE'', ''BOOT_UNDEPLOY_FAILURE'',
         ''BOOT_STOPPED_FAILURE'', ''PROLOG_RESUME_FAILURE'', ''PROLOG_UNDEPLOY_FAILURE'',
         ''PROLOG_MIGRATE_UNKNOWN_FAILURE'']),
      (''undeploy-hard'', [''POWEROFF'', ''RUNNING'', ''UNKNOWN'']),
      (''undeploy'', [''POWEROFF'', ''RUNNING'', ''UNKNOWN'']),
      (''unlock'', []),
      (''unresched'', [''RUNNING'', ''UNKNOWN'']),
      (''vnc'', [''RUNNING'', ''MIGRATE'', ''SHUTDOWN'', ''CANCEL'', ''UNKNOWN'', ''HOTPLUG'', ''SHUTDOWN_POWEROFF'',
         ''HOTPLUG_SNAPSHOT'', ''HOTPLUG_NIC'', ''HOTPLUG_SAVEAS'', ''HOTPLUG_SAVEAS_POWEROFF'',
         ''HOTPLUG_SAVEAS_SUSPENDED'', ''SHUTDOWN_UNDEPLOY'', ''DISK_SNAPSHOT'', ''DISK_SNAPSHOT_REVERT'',
         ''DISK_RESIZE'', ''BACKUP'']),
      (''ssh'', [''RUNNING'']),
      (''rdp'', [''RUNNING'']),
      (''file_rdp'', [''RUNNING'']),
      (''file_virt_viewer'', [''RUNNING'']),
      (''rename'', []),
      (''chmod'', []),
      (''chown'', []),
      (''chgrp'', []),
      (''resize'', [''INIT'', ''PENDING'', ''HOLD'', ''ACTIVE'', ''POWEROFF'', ''UNDEPLOYED'', ''CLONING'', ''CLONING_FAILURE'']),
      (''disk-attach'', [''POWEROFF'', ''RUNNING'']),
      (''disk-detach'', [''POWEROFF'', ''RUNNING'']),
      (''disk-snapshot-create'', [''SUSPENDED'', ''POWEROFF'', ''RUNNING'']),
      (''disk-snapshot-rename'', []),
      (''disk-snapshot-revert'', [''SUSPENDED'', ''POWEROFF'', ''RUNNING'']),
      (''disk-snapshot-delete'', [''SUSPENDED'', ''POWEROFF'', ''RUNNING'']),
      (''disk-resize'', [''POWEROFF'', ''RUNNING'']),
      (''disk-saveas'', [''SUSPENDED'', ''POWEROFF'', ''RUNNING'']),
      (''nic-attach'', [''POWEROFF'', ''RUNNING'']),
      (''nic-detach'', [''POWEROFF'', ''RUNNING'']),
      (''nic-update'', [''INIT'', ''PENDING'', ''HOLD'', ''STOPPED'', ''SUSPENDED'', ''POWEROFF'', ''UNDEPLOYED'', ''CLONING'',
         ''CLONING_FAILURE'', ''RUNNING'']),
      (''sg-attach'', [''POWEROFF'', ''RUNNING'']),
      (''sg-detach'', [''POWEROFF'', ''RUNNING'']),
      (''pci-attach'', [''POWEROFF'']),
      (''pci-detach'', [''POWEROFF'']),
      (''snapshot-create'', [''RUNNING'']),
      (''snapshot-revert'', [''RUNNING'']),
      (''snapshot-delete'', [''POWEROFF'', ''RUNNING'']),
      (''sched-add'', []),
      (''sched-update'', []),
      (''sched-delete'', []),
      (''charter_create'', []),
      (''update_configuration'', [''PENDING'', ''HOLD'', ''ACTIVE'', ''POWEROFF'', ''UNDEPLOYED'', ''CLONING'', ''CLONING_FAILURE'',
         ''PROLOG'', ''EPILOG'', ''SHUTDOWN'', ''CLEANUP_RESUBMIT'', ''SHUTDOWN_POWEROFF'', ''CLEANUP_DELETE'',
         ''HOTPLUG_SAVEAS_POWEROFF'', ''SHUTDOWN_UNDEPLOY'', ''EPILOG_UNDEPLOY'', ''PROLOG_UNDEPLOY'',
         ''HOTPLUG_PROLOG_POWEROFF'', ''HOTPLUG_EPILOG_POWEROFF'', ''BOOT_FAILURE'', ''PROLOG_FAILURE'',
         ''EPILOG_FAILURE'', ''EPILOG_UNDEPLOY_FAILURE'', ''PROLOG_MIGRATE_POWEROFF'',
         ''PROLOG_MIGRATE_POWEROFF_FAILURE'', ''BOOT_UNDEPLOY_FAILURE'', ''PROLOG_UNDEPLOY_FAILURE'',
         ''DISK_SNAPSHOT_POWEROFF'', ''DISK_SNAPSHOT_REVERT_POWEROFF'', ''DISK_SNAPSHOT_DELETE_POWEROFF''])]"

definition KVM_VM_ACTIONS_BY_STATE :: "(string \<times> string list) list" where
  "KVM_VM_ACTIONS_BY_STATE =
     [(''backup'', [''POWEROFF'', ''RUNNING'']),
      (''deploy'', [''PENDING'', ''HOLD'', ''STOPPED'', ''UNDEPLOYED'', ''UNKNOWN'']),
      (''create_app_dialog'', [''POWEROFF'']),
      (''hold'', [''PENDING'']),
      (''lock'', []),
      (''live-migrate'', [''RUNNING'', ''UNKNOWN'']),
      (''poweroff-hard-migrate'', [''RUNNING'', ''UNKNOWN'']),
      (''poweroff-migrate'', [''RUNNING'', ''UNKNOWN'']),
      (''migrate'', [''SUSPENDED'', ''POWEROFF'', ''RUNNING'', ''UNKNOWN'']),
      (''poweroff-hard'', [''RUNNING'', ''SHUTDOWN'', ''UNKNOWN'']),
      (''poweroff'', [''RUNNING'', ''UNKNOWN'']),
      (''reboot-hard'', [''RUNNING'']),
      (''reboot'', [''RUNNING'']),
      (''recover'', [''INIT'', ''PENDING'', ''HOLD'', ''ACTIVE'', ''STOPPED'', ''SUSPENDED'', ''POWEROFF'', ''UNDEPLOYED'',
         ''CLONING'', ''BOOT_FAILURE'', ''BOOT_MIGRATE_FAILURE'', ''BOOT_STOPPED_FAILURE'',
         ''BOOT_UNDEPLOY_FAILURE'', ''CLONING_FAILURE'', ''EPILOG_FAILURE'', ''EPILOG_STOP_FAILURE'',
         ''EPILOG_UNDEPLOY_FAILURE'', ''PROLOG_FAILURE'', ''PROLOG_MIGRATE_FAILURE'',
         ''PROLOG_MIGRATE_POWEROFF_FAILURE'', ''PROLOG_MIGRATE_SUSPEND_FAILURE'', ''PROLOG_MIGRATE_UNKNOWN_FAILURE'',
         ''PROLOG_RESUME_FAILURE'', ''PROLOG_UNDEPLOY_FAILURE'', ''UPDATE_FAILURE'']),
      (''restore'', [''POWEROFF'']),
      (''release'', [''HOLD'']),
      (''resched'', [''POWEROFF'', ''RUNNING'', ''UNKNOWN'']),
      (''resume'', [''STOPPED'', ''SUSPENDED'', ''POWEROFF'', ''UNDEPLOYED'', ''UNKNOWN'']),
      (''save_as_template'', [''POWEROFF'']),
      (''stop'', [''SUSPENDED'', ''RUNNING'']),
      (''suspend'', [''RUNNING'']),
      (''terminate-hard'', [''INIT'', ''PENDING'', ''HOLD'', ''STOPPED'', ''SUSPENDED'', ''POWEROFF'', ''UNDEPLOYED'', ''CLONING'',
         ''CLONING_FAILURE'', ''RUNNING'', ''UNKNOWN'']),
      (''terminate'', [''RUNNING'', ''FAILURE'', ''BOOT_FAILURE'', ''BOOT_MIGRATE_FAILURE'', ''PROLOG_MIGRATE_FAILURE'',
         ''PROLOG_FAILURE'', ''EPILOG_FAILURE'', ''EPILOG_STOP_FAILURE'', ''EPILOG_UNDEPLOY_FAILURE'',
         ''PROLOG_MIGRATE_POWEROFF_FAILURE'', ''PROLOG_MIGRATE_SUSPEND_FAILURE'', ''BOOT_UNDEPLOY_FAILURE'',
         ''BOOT_STOPPED_FAILURE'', ''PROLOG_RESUME_FAILURE'', ''PROLOG_UNDEPLOY_FAILURE'',
         ''PROLOG_MIGRATE_UNKNOWN_FAILURE'', ''POWEROFF'']),
      (''undeploy-hard'', [''POWEROFF'', ''RUNNING'', ''UNKNOWN'']),
      (''undeploy'', [''POWEROFF'', ''RUNNING'', ''UNKNOWN'']),
      (''unlock'', []),
      (''unresched'', [''RUNNING'', ''UNKNOWN'']),
      (''vnc'', [''RUNNING'', ''MIGRATE'', ''SHUTDOWN'', ''CANCEL'', ''UNKNOWN'', ''HOTPLUG'', ''SHUTDOWN_POWEROFF'',
         ''HOTPLUG_SNAPSHOT'', ''HOTPLUG_NIC'', ''HOTPLUG_SAVEAS'', ''HOTPLUG_SAVEAS_POWEROFF'',
         ''HOTPLUG_SAVEAS_SUSPENDED'', ''SHUTDOWN_UNDEPLOY'', ''DISK_SNAPSHOT'', ''DISK_SNAPSHOT_REVERT'',
         ''DISK_RESIZE'', ''BACKUP'']),
      (''ssh'', [''RUNNING'']),
      (''rdp'', [''RUNNING'']),
      (''file_rdp'', [''RUNNING'']),
      (''file_virt_viewer'', [''RUNNING'']),
      (''rename'', []),
      (''chmod'', []),
      (''chown'', []),
      (''chgrp'', []),
      (''resize'', [''INIT'', ''PENDING'', ''HOLD'', ''ACTIVE'', ''POWEROFF'', ''UNDEPLOYED'', ''CLONING'', ''CLONING_FAILURE'']),
      (''disk-attach'', [''POWEROFF'', ''RUNNING'']),
      (''disk-detach'', [''POWEROFF'', ''RUNNING'']),
      (''disk-snapshot-create'', [''SUSPENDED'', ''POWEROFF'', ''RUNNING'']),
      (''disk-snapshot-rename'', []),
      (''disk-snapshot-revert'', [''SUSPENDED'', ''POWEROFF'']),
      (''disk-snapshot-delete'', [''SUSPENDED'', ''POWEROFF'', ''RUNNING'']),
      (''disk-resize'', [''POWEROFF'', ''RUNNING'']),
      (''disk-saveas'', [''SUSPENDED'', ''POWEROFF'', ''RUNNING'']),
      (''nic-attach'', [''POWEROFF'', ''RUNNING'']),
      (''nic-detach'', [''POWEROFF'', ''RUNNING'']),
      (''nic-update'', [''INIT'', ''PENDING'', ''HOLD'', ''STOPPED'', ''SUSPENDED'', ''POWEROFF'', ''UNDEPLOYED'', ''CLONING'',
         ''CLONING_FAILURE'', ''RUNNING'']),
      (''sg-attach'', [''POWEROFF'', ''RUNNING'']),
      (''sg-detach'', [''POWEROFF'', ''RUNNING'']),
      (''pci-attach'', [''POWEROFF'']),
      (''pci-detach'', [''POWEROFF'']),
      (''snapshot-create'', [''RUNNING'']),
      (''snapshot-revert'', [''RUNNING'']),
      (''snapshot-delete'', [''POWEROFF'', ''RUNNING'']),
      (''sched-add'', []),
      (''sched-update'', []),
      (''sched-delete'', []),
      (''charter_create'', []),
      (''update_configuration'', [''PENDING'', ''HOLD'', ''ACTIVE'', ''POWEROFF'', ''UNDEPLOYED'', ''CLONING'', ''CLONING_FAILURE'',
         ''PROLOG'', ''EPILOG'', ''SHUTDOWN'', ''CLEANUP_RESUBMIT'', ''SHUTDOWN_POWEROFF'', ''CLEANUP_DELETE'',
         ''HOTPLUG_SAVEAS_POWEROFF'', ''SHUTDOWN_UNDEPLOY'', ''EPILOG_UNDEPLOY'', ''PROLOG_UNDEPLOY'',
         ''HOTPLUG_PROLOG_POWEROFF'', ''HOTPLUG_EPILOG_POWEROFF'', ''BOOT_FAILURE'', ''PROLOG_FAILURE'',
         ''EPILOG_FAILURE'', ''EPILOG_UNDEPLOY_FAILURE'', ''PROLOG_MIGRATE_POWEROFF'',
         ''PROLOG_MIGRATE_POWEROFF_FAILURE'', ''BOOT_UNDEPLOY_FAILURE'', ''PROLOG_UNDEPLOY_FAILURE'',
         ''DISK_SNAPSHOT_POWEROFF'', ''DISK_SNAPSHOT_REVERT_POWEROFF'', ''DISK_SNAPSHOT_DELETE_POWEROFF''])]"

definition LXC_VM_ACTIONS_BY_STATE :: "(string \<times> string list) list" where
  "LXC_VM_ACTIONS_BY_STATE =
     [(''backup'', [''POWEROFF'']),
      (''deploy'', [''PENDING'', ''HOLD'', ''STOPPED'', ''UNDEPLOYED'', ''UNKNOWN'']),
      (''create_app_dialog'', [''POWEROFF'']),
      (''hold'', [''PENDING'']),
      (''lock'', []),
      (''live-migrate'', [''RUNNING'', ''UNKNOWN'']),
      (''poweroff-hard-migrate'', [''RUNNING'', ''UNKNOWN'']),
      (''poweroff-migrate'', [''RUNNING'', ''UNKNOWN'']),
      (''migrate'', [''SUSPENDED'', ''POWEROFF'', ''RUNNING'', ''UNKNOWN'']),
      (''poweroff-hard'', [''RUNNING'', ''SHUTDOWN'', ''UNKNOWN'']),
      (''poweroff'', [''RUNNING'', ''UNKNOWN'']),
      (''reboot-hard'', [''RUNNING'']),
      (''reboot'', [''RUNNING'']),
      (''recover'', [''INIT'', ''PENDING'', ''HOLD'', ''ACTIVE'', ''STOPPED'', ''SUSPENDED'', ''POWEROFF'', ''UNDEPLOYED'',
         ''CLONING'', ''BOOT_FAILURE'', ''BOOT_MIGRATE_FAILURE'', ''BOOT_STOPPED_FAILURE'',
         ''BOOT_UNDEPLOY_FAILURE'', ''CLONING_FAILURE'', ''EPILOG_FAILURE'', ''EPILOG_STOP_FAILURE'',
         ''EPILOG_UNDEPLOY_FAILURE'', ''PROLOG_FAILURE'', ''PROLOG_MIGRATE_FAILURE'',
         ''PROLOG_MIGRATE_POWEROFF_FAILURE'', ''PROLOG_MIGRATE_SUSPEND_FAILURE'', ''PROLOG_MIGRATE_UNKNOWN_FAILURE'',
         ''PROLOG_RESUME_FAILURE'', ''PROLOG_UNDEPLOY_FAILURE'', ''UPDATE_FAILURE'']),
      (''restore'', [''POWEROFF'']),
      (''release'', [''HOLD'']),
      (''resched'', [''POWEROFF'', ''RUNNING'', ''UNKNOWN'']),
      (''resume'', [''STOPPED'', ''SUSPENDED'', ''POWEROFF'', ''UNDEPLOYED'', ''UNKNOWN'']),
      (''save_as_template'', [''POWEROFF'']),
      (''stop'', [''SUSPENDED'', ''RUNNING'']),
      (''suspend'', [''RUNNING'']),
      (''terminate-hard'', [''INIT'', ''PENDING'', ''HOLD'', ''STOPPED'', ''SUSPENDED'', ''POWEROFF'', ''UNDEPLOYED'', ''CLONING'',
         ''CLONING_FAILURE'', ''RUNNING'', ''UNKNOWN'']),
      (''terminate'', [''RUNNING'', ''FAILURE'', ''BOOT_FAILURE'', ''BOOT_MIGRATE_FAILURE'', ''PROLOG_MIGRATE_FAILURE'',
         ''PROLOG_FAILURE'', ''EPILOG_FAILURE'', ''EPILOG_STOP_FAILURE'', ''EPILOG_UNDEPLOY_FAILURE'',
         ''PROLOG_MIGRATE_POWEROFF_FAILURE'', ''PROLOG_MIGRATE_SUSPEND_FAILURE'', ''BOOT_UNDEPLOY_FAILURE'',
         ''BOOT_STOPPED_FAILURE'', ''PROLOG_RESUME_FAILURE'', ''PROLOG_UNDEPLOY_FAILURE'',
         ''PROLOG_MIGRATE_UNKNOWN_FAILURE'']),
      (''undeploy-hard'', [''POWEROFF'', ''RUNNING'', ''UNKNOWN'']),
      (''undeploy'', [''POWEROFF'', ''RUNNING'', ''UNKNOWN'']),
      (''unlock'', []),
      (''unresched'', [''RUNNING'', ''UNKNOWN'']),
      (''vnc'', [''RUNNING'', ''MIGRATE'', ''SHUTDOWN'', ''CANCEL'', ''UNKNOWN'', ''HOTPLUG'', ''SHUTDOWN_POWEROFF'',
         ''HOTPLUG_SNAPSHOT'', ''HOTPLUG_NIC'', ''HOTPLUG_SAVEAS'', ''HOTPLUG_SAVEAS_POWEROFF'',
         ''HOTPLUG_SAVEAS_SUSPENDED'', ''SHUTDOWN_UNDEPLOY'', ''DISK_SNAPSHOT'', ''DISK_SNAPSHOT_REVERT'',
         ''DISK_RESIZE'', ''BACKUP'']),
      (''ssh'', [''RUNNING'']),
      (''rdp'', [''RUNNING'']),
      (''file_rdp'', [''RUNNING'']),
      (''file_virt_viewer'', [''RUNNING'']),
      (''rename'', []),
      (''chmod'', []),
      (''chown'', []),
      (''chgrp'', []),
      (''resize'', [''INIT'', ''PENDING'', ''HOLD'', ''ACTIVE'', ''POWEROFF'', ''UNDEPLOYED'', ''CLONING'', ''CLONING_FAILURE'']),
      (''disk-attach'', [''POWEROFF'', ''RUNNING'']),
      (''disk-detach'', [''POWEROFF'', ''RUNNING'']),
      (''disk-snapshot-create'', [''SUSPENDED'', ''POWEROFF'', ''RUNNING'']),
      (''disk-snapshot-rename'', []),
      (''disk-snapshot-revert'', [''SUSPENDED'', ''POWEROFF'']),
      (''disk-snapshot-delete'', [''SUSPENDED'', ''POWEROFF'', ''RUNNING'']),
      (''disk-resize'', [''POWEROFF'', ''RUNNING'']),
      (''disk-saveas'', [''SUSPENDED'', ''POWEROFF'', ''RUNNING'']),
      (''nic-attach'', [''POWEROFF'', ''RUNNING'']),
      (''nic-detach'', [''POWEROFF'', ''RUNNING'']),
      (''sg-attach'', [''POWEROFF'', ''RUNNING'']),
      (''sg-detach'', [''POWEROFF'', ''RUNNING'']),
      (''snapshot-create'', [''RUNNING'']),
      (''snapshot-revert'', [''RUNNING'']),
      (''snapshot-delete'', [''POWEROFF'', ''RUNNING'']),
      (''sched-add'', []),
      (''sched-update'', []),
      (''sched-delete'', []),
      (''charter_create'', []),
      (''update_configuration'', [''PENDING'', ''HOLD'', ''ACTIVE'', ''POWEROFF'', ''UNDEPLOYED'', ''CLONING'', ''CLONING_FAILURE'',
         ''PROLOG'', ''EPILOG'', ''SHUTDOWN'', ''CLEANUP_RESUBMIT'', ''SHUTDOWN_POWEROFF'', ''CLEANUP_DELETE'',
         ''HOTPLUG_SAVEAS_POWEROFF'', ''SHUTDOWN_UNDEPLOY'', ''EPILOG_UNDEPLOY'', ''PROLOG_UNDEPLOY'',
         ''HOTPLUG_PROLOG_POWEROFF'', ''HOTPLUG_EPILOG_POWEROFF'', ''BOOT_FAILURE'', ''PROLOG_FAILURE'',
         ''EPILOG_FAILURE'', ''EPILOG_UNDEPLOY_FAILURE'', ''PROLOG_MIGRATE_POWEROFF'',
         ''PROLOG_MIGRATE_POWEROFF_FAILURE'', ''BOOT_UNDEPLOY_FAILURE'', ''PROLOG_UNDEPLOY_FAILURE'',
         ''DISK_SNAPSHOT_POWEROFF'', ''DISK_SNAPSHOT_REVERT_POWEROFF'', ''DISK_SNAPSHOT_DELETE_POWEROFF''])]"

definition HISTORY_ACTIONS :: "string list" where
  "HISTORY_ACTIONS =
     [''none'', ''migrate'', ''live-migrate'', ''shutdown'', ''shutdown-hard'', ''undeploy'', ''undeploy-hard'',
      ''hold'', ''release'', ''stop'', ''suspend'', ''resume'', ''boot'', ''delete'', ''delete-recreate'',
      ''reboot'', ''reboot-hard'', ''resched'', ''unresched'', ''poweroff'', ''poweroff-hard'', ''disk-attach'',
      ''disk-detach'', ''nic-attach'', ''nic-detach'', ''disk-snapshot-create'', ''disk-snapshot-delete'',
      ''terminate'', ''terminate-hard'', ''disk-resize'', ''deploy'', ''chown'', ''chmod'', ''updateconf'',
      ''rename'', ''resize'', ''update'', ''snapshot-resize'', ''snapshot-delete'', ''snapshot-revert'',
      ''disk-saveas'', ''disk-snapshot-revert'', ''recover'', ''retry'', ''monitor'', ''disk-snapshot-rename'',
      ''alias-attach'', ''alias-detach'', ''poweroff-migrate'', ''poweroff-hard-migrate'', ''backup'']"

definition NIC_IP_ATTRS :: "string list" where
  "NIC_IP_ATTRS = [''EXTERNAL_IP'', ''IP'', ''IP6'', ''IP6_GLOBAL'', ''IP6_ULA'', ''MAC'']"

definition EXTERNAL_IP_ATTRS :: "string list" where
  "EXTERNAL_IP_ATTRS = [''GUEST_IP'', ''GUEST_IP_ADDRESSES'', ''AWS_IP_ADDRESS'', ''AWS_PUBLIC_IP_ADDRESS'',
      ''AWS_PRIVATE_IP_ADDRESS'', ''AZ_IPADDRESS'', ''SL_PRIMARYIPADDRESS'']"

definition VM_ACTIONS_WITH_SCHEDULE :: "(string \<times> string) list" where
  "VM_ACTIONS_WITH_SCHEDULE =
     [(''backup'', ''Backup''), (''terminate'', ''Terminate''), (''terminate-hard'', ''Terminate hard''),
      (''undeploy'', ''Undeploy''), (''undeploy-hard'', ''Undeploy hard''), (''hold'', ''Hold''),
      (''release'', ''Release''), (''stop'', ''Stop''), (''suspend'', ''Suspend''), (''resume'', ''Resume''),
      (''reboot'', ''Reboot''), (''reboot-hard'', ''Reboot hard''), (''poweroff'', ''Poweroff''),
      (''poweroff-hard'', ''Poweroff hard''), (''snapshot-create'', ''Snapshot create''),
      (''snapshot-revert'', ''Snapshot revert''), (''snapshot-delete'', ''Snapshot delete'')]"

definition VM_ACTIONS_WITH_SCHEDULE_INTANTIATED :: "(string \<times> string) list" where
  "VM_ACTIONS_WITH_SCHEDULE_INTANTIATED =
     [(''disk-snapshot-create'', ''Disk snapshot create''), (''disk-snapshot-revert'', ''Disk snapshot revert''),
      (''disk-snapshot-delete'', ''Disk snapshot delete'')]"

definition VM_ACTIONS_IN_CHARTER :: "string list" where
  "VM_ACTIONS_IN_CHARTER = [''terminate'', ''terminate-hard'', ''undeploy'', ''undeploy-hard'', ''hold'', ''release'', ''stop'',
      ''suspend'', ''resume'', ''reboot'', ''reboot-hard'', ''poweroff'', ''poweroff-hard'']"

text \<open>The hypervisors; a virtual machine that was never deployed has none, which is the key \<open>undefined\<close>.\<close>

definition VM_ACTIONS_BY_STATE :: "(string \<times> (string \<times> string list) list) list" where
  "VM_ACTIONS_BY_STATE =
     [(''undefined'', DEFAULT_VM_ACTIONS_BY_STATE),
      (''dummy'', DUMMY_VM_ACTIONS_BY_STATE),
      (''kvm'', KVM_VM_ACTIONS_BY_STATE),
      (''lxc'', LXC_VM_ACTIONS_BY_STATE),
      (''qemu'', KVM_VM_ACTIONS_BY_STATE)]"

section \<open>The numbering of the core\<close>

definition core_vm_states :: "(string \<times> nat) list" where
  "core_vm_states =
     [(''INIT'', 0), (''PENDING'', 1), (''HOLD'', 2), (''ACTIVE'', 3), (''STOPPED'', 4), (''SUSPENDED'', 5),
      (''DONE'', 6), (''POWEROFF'', 8), (''UNDEPLOYED'', 9), (''CLONING'', 10), (''CLONING_FAILURE'', 11)]"

definition core_lcm_states :: "(string \<times> nat) list" where
  "core_lcm_states =
     [(''LCM_INIT'', 0), (''PROLOG'', 1), (''BOOT'', 2), (''RUNNING'', 3), (''MIGRATE'', 4), (''SAVE_STOP'', 5),
      (''SAVE_SUSPEND'', 6), (''SAVE_MIGRATE'', 7), (''PROLOG_MIGRATE'', 8), (''PROLOG_RESUME'', 9),
      (''EPILOG_STOP'', 10), (''EPILOG'', 11), (''SHUTDOWN'', 12), (''CLEANUP_RESUBMIT'', 15), (''UNKNOWN'', 16),
      (''HOTPLUG'', 17), (''SHUTDOWN_POWEROFF'', 18), (''BOOT_UNKNOWN'', 19), (''BOOT_POWEROFF'', 20),
      (''BOOT_SUSPENDED'', 21), (''BOOT_STOPPED'', 22), (''CLEANUP_DELETE'', 23), (''HOTPLUG_SNAPSHOT'', 24),
      (''HOTPLUG_NIC'', 25), (''HOTPLUG_SAVEAS'', 26), (''HOTPLUG_SAVEAS_POWEROFF'', 27),
      (''HOTPLUG_SAVEAS_SUSPENDED'', 28), (''SHUTDOWN_UNDEPLOY'', 29), (''EPILOG_UNDEPLOY'', 30),
      (''PROLOG_UNDEPLOY'', 31), (''BOOT_UNDEPLOY'', 32), (''HOTPLUG_PROLOG_POWEROFF'', 33),
      (''HOTPLUG_EPILOG_POWEROFF'', 34), (''BOOT_MIGRATE'', 35), (''BOOT_FAILURE'', 36),
      (''BOOT_MIGRATE_FAILURE'', 37), (''PROLOG_MIGRATE_FAILURE'', 38), (''PROLOG_FAILURE'', 39),
      (''EPILOG_FAILURE'', 40), (''EPILOG_STOP_FAILURE'', 41), (''EPILOG_UNDEPLOY_FAILURE'', 42),
      (''PROLOG_MIGRATE_POWEROFF'', 43), (''PROLOG_MIGRATE_POWEROFF_FAILURE'', 44), (''PROLOG_MIGRATE_SUSPEND'', 45),
      (''PROLOG_MIGRATE_SUSPEND_FAILURE'', 46), (''BOOT_UNDEPLOY_FAILURE'', 47), (''BOOT_STOPPED_FAILURE'', 48),
      (''PROLOG_RESUME_FAILURE'', 49), (''PROLOG_UNDEPLOY_FAILURE'', 50), (''DISK_SNAPSHOT_POWEROFF'', 51),
      (''DISK_SNAPSHOT_REVERT_POWEROFF'', 52), (''DISK_SNAPSHOT_DELETE_POWEROFF'', 53),
      (''DISK_SNAPSHOT_SUSPENDED'', 54), (''DISK_SNAPSHOT_DELETE_SUSPENDED'', 56), (''DISK_SNAPSHOT'', 57),
      (''DISK_SNAPSHOT_DELETE'', 59), (''PROLOG_MIGRATE_UNKNOWN'', 60), (''PROLOG_MIGRATE_UNKNOWN_FAILURE'', 61),
      (''DISK_RESIZE'', 62), (''DISK_RESIZE_POWEROFF'', 63), (''DISK_RESIZE_UNDEPLOYED'', 64),
      (''HOTPLUG_NIC_POWEROFF'', 65), (''HOTPLUG_RESIZE'', 66), (''HOTPLUG_SAVEAS_UNDEPLOYED'', 67),
      (''HOTPLUG_SAVEAS_STOPPED'', 68), (''BACKUP'', 69), (''BACKUP_POWEROFF'', 70), (''RESTORE'', 71)]"

definition core_actions :: "(nat \<times> string) list" where
  "core_actions =
     [(0, ''none''), (1, ''migrate''), (2, ''live-migrate''), (5, ''undeploy''), (6, ''undeploy-hard''),
      (7, ''hold''), (8, ''release''), (9, ''stop''), (10, ''suspend''), (11, ''resume''), (13, ''delete''),
      (14, ''delete-recreate''), (15, ''reboot''), (16, ''reboot-hard''), (17, ''resched''), (18, ''unresched''),
      (19, ''poweroff''), (20, ''poweroff-hard''), (21, ''disk-attach''), (22, ''disk-detach''),
      (23, ''nic-attach''), (24, ''nic-detach''), (25, ''disk-snapshot-create''), (26, ''disk-snapshot-delete''),
      (27, ''terminate''), (28, ''terminate-hard''), (29, ''disk-resize''), (30, ''deploy''), (31, ''chown''),
      (32, ''chmod''), (33, ''updateconf''), (34, ''rename''), (35, ''resize''), (36, ''update''),
      (37, ''snapshot-create''), (38, ''snapshot-delete''), (39, ''snapshot-revert''), (40, ''disk-saveas''),
      (41, ''disk-snapshot-revert''), (42, ''recover''), (43, ''retry''), (44, ''monitor''),
      (45, ''disk-snapshot-rename''), (46, ''alias-attach''), (47, ''alias-detach''), (48, ''poweroff-migrate''),
      (49, ''poweroff-hard-migrate''), (50, ''backup''), (51, ''nic-update''), (52, ''backup-cancel''),
      (53, ''sched-add''), (54, ''sched-update''), (55, ''sched-delete''), (56, ''sg-attach''), (57, ''sg-detach''),
      (58, ''pci-attach''), (59, ''pci-detach''), (60, ''restore''), (61, ''exec''), (62, ''exec-retry''),
      (63, ''exec-cancel''), (64, ''vmgroup-add''), (65, ''vmgroup-del'')]"

section \<open>Facts of the tables\<close>

lemma tables_of_hypervisors:
  "map_of VM_ACTIONS_BY_STATE h = Some t \<longleftrightarrow>
     h = ''undefined'' \<and> t = DEFAULT_VM_ACTIONS_BY_STATE \<or> h = ''dummy'' \<and> t = DUMMY_VM_ACTIONS_BY_STATE \<or>
     h \<in> {''kvm'', ''qemu''} \<and> t = KVM_VM_ACTIONS_BY_STATE \<or> h = ''lxc'' \<and> t = LXC_VM_ACTIONS_BY_STATE"
  by (auto simp: VM_ACTIONS_BY_STATE_def)

text \<open>The actions that ask for no state.\<close>

definition administrative :: "string list" where
  "administrative = [''lock'', ''unlock'', ''rename'', ''chmod'', ''chown'', ''chgrp'', ''sched-add'', ''sched-update'',
     ''sched-delete'', ''charter_create'', ''disk-snapshot-rename'']"

definition row_ok :: "string \<times> string list \<Rightarrow> bool" where
  "row_ok = (\<lambda>(a, ss). (ss = [] \<longleftrightarrow> a \<in> set administrative) \<and> ''DONE'' \<notin> set ss \<and> ''FAILED'' \<notin> set ss)"

definition table_ok :: "(string \<times> string list) list \<Rightarrow> bool" where
  "table_ok t \<longleftrightarrow> list_all row_ok t \<and> list_all (\<lambda>a. map_of t a = Some []) administrative"

lemma table_ok_default: "table_ok DEFAULT_VM_ACTIONS_BY_STATE" by code_simp
lemma table_ok_dummy: "table_ok DUMMY_VM_ACTIONS_BY_STATE" by code_simp
lemma table_ok_kvm: "table_ok KVM_VM_ACTIONS_BY_STATE" by code_simp
lemma table_ok_lxc: "table_ok LXC_VM_ACTIONS_BY_STATE" by code_simp

lemma tables_ok: "map_of VM_ACTIONS_BY_STATE h = Some t \<Longrightarrow> table_ok t"
  by (auto simp: tables_of_hypervisors table_ok_default table_ok_dummy table_ok_kvm table_ok_lxc)

text \<open>A machine that was never deployed is offered what each of the hypervisors offers; LXC differs from KVM
  in two rows.\<close>

lemma default_rows:
  "list_all (\<lambda>(a, ss). map_of DUMMY_VM_ACTIONS_BY_STATE a = Some ss) DEFAULT_VM_ACTIONS_BY_STATE"
  "list_all (\<lambda>(a, ss). map_of KVM_VM_ACTIONS_BY_STATE a = Some ss) DEFAULT_VM_ACTIONS_BY_STATE"
  "list_all (\<lambda>(a, ss). map_of LXC_VM_ACTIONS_BY_STATE a = Some ss) DEFAULT_VM_ACTIONS_BY_STATE"
  by code_simp+

lemma lxc_rows:
  "list_all (\<lambda>(a, ss). case map_of KVM_VM_ACTIONS_BY_STATE a of
     Some ks \<Rightarrow> ks = ss \<or> a \<in> {''backup'', ''terminate''} \<and> ss \<noteq> [] \<and> list_all (\<lambda>s. s \<in> set ks) ss
   | None \<Rightarrow> False) LXC_VM_ACTIONS_BY_STATE"
  by code_simp

lemma state_names_disjoint: "list_all (\<lambda>s. si_name s \<notin> set (map si_name VM_LCM_STATES)) VM_STATES" by code_simp

lemma vm_states_of_core: "list_all (\<lambda>(n, i). i < length VM_STATES \<and> si_name (VM_STATES ! i) = n) core_vm_states" by code_simp

lemma lcm_states_of_core: "list_all (\<lambda>(n, i). i < length VM_LCM_STATES \<and> si_name (VM_LCM_STATES ! i) = n) core_lcm_states"
  by code_simp

lemma actions_of_core:
  "list_all (\<lambda>(i, n). if i < length HISTORY_ACTIONS then i = 37 \<and> n = ''snapshot-create'' \<or> HISTORY_ACTIONS ! i = n else i > 50) core_actions"
  by code_simp

end
