(* ===== verification/Vm.thy ===== *)
theory Vm
  imports Vm_Tables Client_Text
begin

text \<open>
  Virtual machines as the client reads them from the answers of the server: state, history, disks, networks,
  snapshots and scheduled actions (\<open>modules/models/VirtualMachine.js\<close>), security groups
  (\<open>modules/models/SecurityGroup.js\<close>), schedules and charters (\<open>modules/models/Scheduler.js\<close>), and which
  actions they offer.  Reading a field of null throws where the code takes it apart; elsewhere it is undefined.
\<close>

section \<open>Reading answers\<close>

text \<open>\<open>xs.flat()\<close>, \<open>v ?? []\<close>, \<open>v || w\<close>, the default of a field that is taken out, and \<open>xs.find\<close>.\<close>

definition flat :: "jsval list \<Rightarrow> jsval list" where
  "flat vs = concat (map (\<lambda>v. case v of JArr xs \<Rightarrow> xs | _ \<Rightarrow> [v]) vs)"

definition or_empty :: "jsval \<Rightarrow> jsval" where
  "or_empty v = (if nullish v then JArr [] else v)"

definition truthy_or :: "jsval \<Rightarrow> jsval \<Rightarrow> jsval" where
  "truthy_or v w = (if truthy v then v else w)"

definition defaulted :: "jsval \<Rightarrow> jsval \<Rightarrow> jsval" where
  "defaulted d v = (if v = JUndef then d else v)"

definition find_by :: "string \<Rightarrow> jsval \<Rightarrow> jsval list \<Rightarrow> jsval" where
  "find_by k v xs = the_default JUndef (find (\<lambda>x. prop_get x k = v) xs)"

text \<open>\<open>v?.split(',')\<close>.\<close>

definition split_comma :: "jsval \<Rightarrow> string list option js" where
  "split_comma v = (case v of JStr s \<Rightarrow> Inr (Some (js_split (CHR '','') s)) | _ \<Rightarrow> if nullish v then Inr None else Inl TypeError)"

text \<open>A table read with a key, and with a number.\<close>

definition state_at :: "state_info list \<Rightarrow> jsval \<Rightarrow> state_info option" where
  "state_at table v =
     (case array_index (to_string v) of Some i \<Rightarrow> if i < length table then Some (table ! i) else None | None \<Rightarrow> None)"

definition state_numbered :: "state_info list \<Rightarrow> jsval \<Rightarrow> state_info option" where
  "state_numbered table v =
     (case to_number v of Some n \<Rightarrow> if 0 \<le> n \<and> nat n < length table then Some (table ! nat n) else None | None \<Rightarrow> None)"

section \<open>State and history\<close>

definition filterDoneVms :: "jsval list \<Rightarrow> jsval list" where
  "filterDoneVms vms = filter (\<lambda>vm. map_option si_name (state_at VM_STATES (prop_get vm ''STATE'')) \<noteq> Some ''DONE'') vms"

definition getHistoryAction :: "jsval \<Rightarrow> string option" where
  "getHistoryAction action =
     (case to_number action of
        Some n \<Rightarrow> if 0 \<le> n \<and> nat n < length HISTORY_ACTIONS then Some (HISTORY_ACTIONS ! nat n) else None
      | None \<Rightarrow> None)"

definition getHistoryRecords :: "jsval \<Rightarrow> jsval list" where
  "getHistoryRecords vm = flat [or_empty (prop_get (prop_get vm ''HISTORY_RECORDS'') ''HISTORY'')]"

definition getContext :: "jsval \<Rightarrow> jsval list" where
  "getContext vm = flat [or_empty (prop_get (prop_get vm ''TEMPLATE'') ''CONTEXT'')]"

definition getVmHostname :: "jsval \<Rightarrow> jsval list" where
  "getVmHostname vm =
     (let context = getContext vm
      in flat [or_empty (if context = [] then JUndef else prop_get (last context) ''SET_HOSTNAME'')])"

definition getLastHistory :: "jsval \<Rightarrow> jsval" where
  "getLastHistory vm =
     (let records = getHistoryRecords vm
      in if records = [] \<or> nullish (last records) then JObj [] else last records)"

definition getVirtualMachineType :: "jsval \<Rightarrow> string" where
  "getVirtualMachineType vm =
     (if prop_get (prop_get vm ''TEMPLATE'') ''VROUTER_ID'' \<noteq> JUndef then ''VR''
      else if prop_get (prop_get (prop_get vm ''USER_TEMPLATE'') ''USER_TEMPLATE'') ''SERVICE_ID'' \<noteq> JUndef then ''FLOW''
      else ''VM'')"

definition getHypervisor :: "jsval \<Rightarrow> jsval" where
  "getHypervisor vm = prop_get (getLastHistory vm) ''VM_MAD''"

definition getVirtualMachineState :: "jsval \<Rightarrow> state_info option" where
  "getVirtualMachineState vm =
     (let state = state_numbered VM_STATES (prop_get vm ''STATE'')
      in if map_option si_name state = Some ''ACTIVE'' then state_numbered VM_LCM_STATES (prop_get vm ''LCM_STATE'') else state)"

section \<open>Actions\<close>

definition action_states :: "jsval \<Rightarrow> string \<Rightarrow> string list option" where
  "action_states hypervisor action =
     Option.bind (map_of VM_ACTIONS_BY_STATE (to_string hypervisor)) (\<lambda>table. map_of table action)"

definition isVmAvailable :: "string \<Rightarrow> jsval \<Rightarrow> bool" where
  "isVmAvailable action vm =
     (let hypervisor = getHypervisor vm;
          state = map_option si_name (state_at VM_STATES (prop_get vm ''STATE''));
          lcmState = map_option si_name (state_at VM_LCM_STATES (prop_get vm ''LCM_STATE''))
      in case action_states hypervisor action of
           None \<Rightarrow> False
         | Some states \<Rightarrow>
             states = [] \<or>
             state = Some ''ACTIVE'' \<and> (''ACTIVE'' \<in> set states \<or> lcmState \<in> Some ` set states) \<or>
             state \<in> Some ` set states)"

definition isVmAvailableAction :: "string \<Rightarrow> jsval \<Rightarrow> bool" where
  "isVmAvailableAction action vms = list_all (isVmAvailable action) (flat [defaulted (JArr []) vms])"

section \<open>Disks and snapshots\<close>

definition addExtraData :: "jsval list \<Rightarrow> jsval list \<Rightarrow> jsval list \<Rightarrow> jsval \<Rightarrow> jsval" where
  "addExtraData diskSnapshots monitoringSnapshotSize monitoringDiskSize disk =
     (let i = prop_get disk ''DISK_ID'';
          diskSnapshot = truthy_or (prop_get (find_by ''DISK_ID'' i diskSnapshots) ''SNAPSHOT'') (JArr []);
          snapshotSize = truthy_or (prop_get (find_by ''DISK_ID'' i monitoringSnapshotSize) ''SIZE'') (JStr ''-'');
          snapshots = map (\<lambda>s. JObj (AList.update ''MONITOR_SIZE'' snapshotSize (entries s))) (flat [diskSnapshot]);
          diskSize = truthy_or (prop_get (find_by ''ID'' i monitoringDiskSize) ''SIZE'') (JStr ''-'')
      in JObj (AList.update ''MONITOR_SIZE'' diskSize (AList.update ''SNAPSHOTS'' (JArr snapshots) (entries disk))))"

definition contextDisk :: "jsval \<Rightarrow> jsval" where
  "contextDisk context =
     (if truthy context then
        JObj (obj_spread (entries context)
          [(''IMAGE'', JStr ''CONTEXT''), (''IS_CONTEXT'', JBool True), (''DATASTORE'', JStr ''-''), (''READONLY'', JStr ''-''),
           (''SAVE'', JStr ''-''), (''CLONE'', JStr ''-''), (''SAVE_AS'', JStr ''-'')])
      else context)"

definition getDisks :: "jsval \<Rightarrow> jsval list" where
  "getDisks vm =
     (let template = defaulted (JObj []) (prop_get vm ''TEMPLATE''); monitoring = defaulted (JObj []) (prop_get vm ''MONITORING'');
          diskSnapshots = filter truthy (flat [defaulted (JObj []) (prop_get vm ''SNAPSHOTS'')]);
          monitoringDiskSize = filter truthy (flat [prop_get monitoring ''DISK_SIZE'']);
          monitoringSnapshotSize = filter truthy (flat [prop_get monitoring ''SNAPSHOT_SIZE''])
      in map (addExtraData diskSnapshots monitoringSnapshotSize monitoringDiskSize)
           (filter truthy (flat [prop_get template ''DISK'', contextDisk (prop_get template ''CONTEXT'')])))"

definition getSnapshotList :: "jsval \<Rightarrow> jsval list" where
  "getSnapshotList vm = flat (filter truthy [prop_get (defaulted (JObj []) (prop_get vm ''TEMPLATE'')) ''SNAPSHOT''])"

section \<open>Security groups\<close>

definition PROTOCOL_STRING :: "(string \<times> string) list" where
  "PROTOCOL_STRING =
     [(''TCP'', ''TCP''), (''UDP'', ''UDP''), (''ICMP'', ''ICMP''), (''ICMPV6'', ''ICMPv6''), (''IPSEC'', ''IPsec''), (''ALL'', ''All'')]"

definition RULE_TYPE_STRING :: "(string \<times> string) list" where
  "RULE_TYPE_STRING = [(''OUTBOUND'', ''Outbound''), (''INBOUND'', ''Inbound'')]"

definition ICMP_STRING :: "(string \<times> string) list" where
  "ICMP_STRING =
     [([], ''All''), (''0'', ''0: Echo Reply''), (''3'', ''3: Destination Unreachable''), (''4'', ''4: Source Quench''),
      (''5'', ''5: Redirect''), (''6'', ''6: Alternate Host Address''), (''8'', ''8: Echo''), (''9'', ''9: Router Advertisement''),
      (''10'', ''10: Router Selection''), (''11'', ''11: Time Exceeded''), (''12'', ''12: Parameter Problem''),
      (''13'', ''13: Timestamp''), (''14'', ''14: Timestamp Reply''), (''15'', ''15: Information Request''),
      (''16'', ''16: Information Reply''), (''17'', ''17: Address Mask Request''), (''18'', ''18: Address Mask Reply''),
      (''30'', ''30: Traceroute''), (''31'', ''31: Datagram Conversion Error''), (''32'', ''32: Mobile Host Redirect''),
      (''33'', ''33: IPv6 Where-Are-You''), (''34'', ''34: IPv6 I-Am-Here''), (''35'', ''35: Mobile Registration Request''),
      (''36'', ''36: Mobile Registration Reply''), (''37'', ''37: Domain Name Request''), (''38'', ''38: Domain Name Reply''),
      (''39'', ''39: SKIP''), (''40'', ''40: Photuris''),
      (''41'', ''41: ICMP messages utilized by experimental mobility protocols such as Seamoby''),
      (''253'', ''253: RFC3692-style Experiment 1''), (''254'', ''254: RFC3692-style Experiment 2'')]"

definition ICMP_V6_STRING :: "(string \<times> string) list" where
  "ICMP_V6_STRING =
     [([], ''All''), (''1'', ''1: Destination Unreachable''), (''2'', ''2/0: Packet too big''), (''3'', ''3: Time exceeded''),
      (''4'', ''4: Parameter problem''), (''128'', ''128/0: Echo request''), (''129'', ''129/0: Echo reply'')]"

definition named :: "(string \<times> string) list \<Rightarrow> string \<Rightarrow> jsval" where
  "named table k = (case map_of table k of Some s \<Rightarrow> JStr s | None \<Rightarrow> JUndef)"

text \<open>A table read with a number, with the empty text for what it lacks.\<close>

definition named_number :: "(string \<times> string) list \<Rightarrow> jsval \<Rightarrow> jsval" where
  "named_number table v =
     (case Option.bind (to_number v) (\<lambda>n. map_of table (show_int n)) of Some s \<Rightarrow> JStr s | None \<Rightarrow> JStr [])"

definition rule_fields :: "string list" where
  "rule_fields = [''SECURITY_GROUP_ID'', ''SECURITY_GROUP_NAME'', ''PROTOCOL'', ''RULE_TYPE'', ''ICMP_TYPE'', ''ICMPv6_TYPE'',
     ''RANGE'', ''NETWORK_ID'', ''IP'', ''SIZE'']"

definition prettySecurityGroup :: "jsval \<Rightarrow> jsval" where
  "prettySecurityGroup g =
     JObj (obj_spread
       [(''ID'', prop_get g ''SECURITY_GROUP_ID''), (''NAME'', prop_get g ''SECURITY_GROUP_NAME''),
        (''PROTOCOL'', named PROTOCOL_STRING (to_upper (to_string (prop_get g ''PROTOCOL'')))),
        (''RULE_TYPE'', named RULE_TYPE_STRING (to_upper (to_string (prop_get g ''RULE_TYPE'')))),
        (''ICMP_TYPE'', named_number ICMP_STRING (prop_get g ''ICMP_TYPE'')),
        (''ICMPv6_TYPE'', named_number ICMP_V6_STRING (prop_get g ''ICMPv6_TYPE'')),
        (''RANGE'', truthy_or (prop_get g ''RANGE'') (JStr ''All'')),
        (''NETWORK_ID'', if nullish (prop_get g ''NETWORK_ID'') then JStr ''Any'' else prop_get g ''NETWORK_ID''),
        (''IP'', prop_get g ''IP''), (''SIZE'', prop_get g ''SIZE'')]
       (filter (\<lambda>(k, v). k \<notin> set rule_fields) (entries g)))"

definition getSecurityGroupsFromResource :: "jsval \<Rightarrow> jsval \<Rightarrow> jsval list js" where
  "getSecurityGroupsFromResource resource securityGroups =
     (let rules = flat [or_empty (prop_get (prop_get resource ''TEMPLATE'') ''SECURITY_GROUP_RULE'')]
      in rbind (case securityGroups of
                  JArr xs \<Rightarrow> Inr (Some xs)
                | _ \<Rightarrow> rbind (split_comma securityGroups) (\<lambda>gs. Inr (map_option (map JStr) gs))) (\<lambda>groups.
         if list_ex nullish rules then Inl TypeError
         else Inr (filter (\<lambda>r. case groups of Some gs \<Rightarrow> prop_get r ''SECURITY_GROUP_ID'' \<in> set gs | None \<Rightarrow> False) rules)))"

section \<open>Networks\<close>

text \<open>The addresses that the monitoring of the machine reports become interfaces of their own.\<close>

definition externalNics :: "jsval \<Rightarrow> jsval list js" where
  "externalNics monitoring =
     (if monitoring = JNull then Inl TypeError
      else if entries monitoring = [] then Inr []
      else rbind (rmap (\<lambda>attr. split_comma (prop_get monitoring attr)) EXTERNAL_IP_ATTRS) (\<lambda>ips.
        Inr (map (\<lambda>ip. JObj [(''NIC_ID'', JStr ''_''), (''IP'', JStr ip), (''NETWORK'', JStr ''Additional IP'')])
          (filter (\<lambda>ip. ip \<noteq> []) (concat (map (the_default []) ips))))))"

definition without :: "string \<Rightarrow> jsval \<Rightarrow> jsobj" where
  "without k v = filter (\<lambda>(k', x). k' \<noteq> k) (entries v)"

definition groupAlias :: "jsval list \<Rightarrow> jsval \<Rightarrow> jsval js" where
  "groupAlias aliases nic =
     rbind (if aliases = [] then Inr []
            else if list_ex nullish aliases then Inl TypeError
            else rbind (split_comma (prop_get nic ''ALIAS_IDS'')) (\<lambda>ids.
              Inr (filter (\<lambda>a. prop_get a ''NIC_ID'' \<in> JStr ` set (the_default [] ids)) aliases))) (\<lambda>alias.
       Inr (JObj (AList.update ''ALIAS'' (JArr alias) (without ''ALIAS_IDS'' nic))))"

definition withSecurityGroups :: "jsval \<Rightarrow> jsval \<Rightarrow> jsval js" where
  "withSecurityGroups vm nic =
     rbind (getSecurityGroupsFromResource vm (prop_get nic ''SECURITY_GROUPS'')) (\<lambda>groups.
       Inr (JObj (AList.update ''SECURITY_GROUPS'' (JArr (map prettySecurityGroup groups)) (without ''SECURITY_GROUPS'' nic))))"

definition as_array :: "jsval \<Rightarrow> jsval list" where
  "as_array v = (case v of JArr xs \<Rightarrow> xs | _ \<Rightarrow> [v])"

definition getNics :: "bool \<Rightarrow> bool \<Rightarrow> jsval \<Rightarrow> jsval list js" where
  "getNics group_alias securityGroupsFromTemplate vm =
     (let template = defaulted (JObj []) (prop_get vm ''TEMPLATE'');
          nic = defaulted (JArr []) (prop_get template ''NIC'');
          nic_alias = defaulted (JArr []) (prop_get template ''NIC_ALIAS'');
          pci = as_array (defaulted (JArr []) (prop_get template ''PCI''))
      in if template = JNull \<or> list_ex (\<lambda>p. p = JNull) pci then Inl TypeError
         else let pciNics = filter (\<lambda>p. prop_get p ''NIC_ID'' \<noteq> JUndef) pci;
                  nics = filter truthy (flat [nic, nic_alias, JArr pciNics])
              in rbind (externalNics (defaulted (JObj []) (prop_get vm ''MONITORING''))) (\<lambda>external.
                 rbind (if group_alias
                        then rmap (groupAlias (flat [nic_alias])) (filter (\<lambda>n. prop_get n ''PARENT'' = JUndef) (nics @ external))
                        else Inr (nics @ external)) (\<lambda>all.
                 if securityGroupsFromTemplate then rmap (withSecurityGroups vm) all else Inr all)))"

definition getPcis :: "jsval \<Rightarrow> jsval list js" where
  "getPcis vm =
     (let template = defaulted (JObj []) (prop_get vm ''TEMPLATE''); pci = as_array (defaulted (JArr []) (prop_get template ''PCI''))
      in if template = JNull \<or> list_ex (\<lambda>p. p = JNull) pci then Inl TypeError
         else Inr (filter (\<lambda>p. prop_get p ''TYPE'' \<noteq> JStr ''NIC'') pci))"

definition getIpsFromNic :: "jsval \<Rightarrow> jsval list" where
  "getIpsFromNic nic = map (prop_get nic) (filter (\<lambda>attr. prop_get nic attr \<noteq> JUndef) NIC_IP_ATTRS)"

definition getIps :: "jsval \<Rightarrow> jsval list js" where
  "getIps vm = rbind (getNics False False vm) (\<lambda>nics. Inr (concat (map getIpsFromNic nics)))"

definition splitNicAlias :: "jsval \<Rightarrow> (jsval list \<times> jsval list) js" where
  "splitNicAlias vm =
     rbind (getNics False False vm) (\<lambda>nics. Inr
       (fold (\<lambda>nic (ns, alias). if prop_get nic ''PARENT'' \<noteq> JUndef then (ns, alias @ [nic]) else (ns @ [nic], alias)) nics ([], [])))"

definition getNicWithPortForwarding :: "jsval \<Rightarrow> jsval js" where
  "getNicWithPortForwarding vm =
     rbind (getNics False False vm) (\<lambda>nics.
       Inr (the_default JUndef (find (\<lambda>nic. truthy (prop_get nic ''EXTERNAL_PORT_RANGE'')) nics)))"

definition nicsIncludesTheConnectionType :: "jsval \<Rightarrow> jsval \<Rightarrow> bool js" where
  "nicsIncludesTheConnectionType vm type =
     (let connection = to_upper (to_string type)
      in if connection \<notin> {''SSH'', ''RDP''} then Inr False
         else rbind (getNics False False vm) (\<lambda>nics. Inr (list_ex (\<lambda>nic. stringToBoolean (prop_get nic connection)) nics)))"

section \<open>Offered actions\<close>

text \<open>An action is offered in a state of the table, in every state when the table asks for none, and in every
  state of the life cycle when it asks for an active machine.\<close>

definition offered :: "string \<Rightarrow> string \<Rightarrow> string \<Rightarrow> bool" where
  "offered hypervisor action state \<longleftrightarrow>
     (\<exists>t ss. map_of VM_ACTIONS_BY_STATE hypervisor = Some t \<and> map_of t action = Some ss \<and>
       (ss = [] \<or> state \<in> set ss \<or> ''ACTIVE'' \<in> set ss \<and> state \<in> si_name ` set VM_LCM_STATES))"

lemma array_index_show: "array_index (show_int (int i)) = Some i"
proof -
  have "show_int (int i) = to_base 10 i" by (simp add: show_int_def)
  then show ?thesis using to_base10_digits by (simp add: array_index_def digits_val_to_base to_base_nonempty list_all_iff)
qed

lemma state_at_show: "state_at table (JStr (show_int (int i))) = (if i < length table then Some (table ! i) else None)"
  by (simp add: state_at_def array_index_show)

lemma state_numbered_show: "state_numbered table (JStr (show_int (int i))) = (if i < length table then Some (table ! i) else None)"
  by (simp add: state_numbered_def string_number_show)

lemma offered_action_states:
  "offered (to_string h) a state \<longleftrightarrow>
     (case action_states h a of
        None \<Rightarrow> False
      | Some ss \<Rightarrow> ss = [] \<or> state \<in> set ss \<or> ''ACTIVE'' \<in> set ss \<and> state \<in> si_name ` set VM_LCM_STATES)"
  by (cases "map_of VM_ACTIONS_BY_STATE (to_string h)") (auto simp: offered_def action_states_def split: option.split)

lemma active_state: "i < length VM_STATES \<Longrightarrow> si_name (VM_STATES ! i) = ''ACTIVE'' \<longleftrightarrow> i = 3"
  by (auto simp: VM_STATES_def less_Suc_eq numeral_nat nth_Cons split: nat.splits)

lemma shown_state:
  assumes "prop_get vm ''STATE'' = JStr (show_int (int i))" "prop_get vm ''LCM_STATE'' = JStr (show_int (int j))"
    "i < length VM_STATES" "j < length VM_LCM_STATES"
  shows "getVirtualMachineState vm = Some (if i = 3 then VM_LCM_STATES ! j else VM_STATES ! i)"
  using assms by (simp add: getVirtualMachineState_def state_numbered_show active_state Let_def)

lemma available_shown:
  assumes "prop_get vm ''STATE'' = JStr (show_int (int i))" "prop_get vm ''LCM_STATE'' = JStr (show_int (int j))"
    "i < length VM_STATES" "j < length VM_LCM_STATES"
  shows "isVmAvailable action vm \<longleftrightarrow>
    offered (to_string (getHypervisor vm)) action (si_name (if i = 3 then VM_LCM_STATES ! j else VM_STATES ! i))"
proof -
  have "si_name (VM_LCM_STATES ! j) \<in> si_name ` set VM_LCM_STATES" using assms(4) by simp
  moreover have "si_name (VM_STATES ! i) \<notin> si_name ` set VM_LCM_STATES"
    using state_names_disjoint assms(3) by (simp add: list_all_length)
  ultimately show ?thesis
    using assms active_state [OF assms(3)]
    by (auto simp: isVmAvailable_def offered_action_states state_at_show Let_def split: option.split)
qed

section \<open>Properties\<close>

text \<open>
  C28. Whether an action is available depends on what the user is shown: for machines with a known state the
  check finds an action available for all of them exactly when it is offered, on the hypervisor of each, in
  the state that \<open>getVirtualMachineState\<close> shows for it.
\<close>

theorem available_by_shown_state:
  assumes "list_all (\<lambda>vm. \<exists>i j. prop_get vm ''STATE'' = JStr (show_int (int i)) \<and> prop_get vm ''LCM_STATE'' = JStr (show_int (int j)) \<and>
      i < length VM_STATES \<and> j < length VM_LCM_STATES) vms"
  shows "isVmAvailableAction action (JArr vms) \<longleftrightarrow>
    (\<forall>vm \<in> set vms. \<exists>s. getVirtualMachineState vm = Some s \<and> offered (to_string (getHypervisor vm)) action (si_name s))"
proof -
  have "isVmAvailable action vm \<longleftrightarrow>
      (\<exists>s. getVirtualMachineState vm = Some s \<and> offered (to_string (getHypervisor vm)) action (si_name s))"
    if member: "vm \<in> set vms" for vm
  proof -
    obtain i j where vm: "prop_get vm ''STATE'' = JStr (show_int (int i))" "prop_get vm ''LCM_STATE'' = JStr (show_int (int j))"
        "i < length VM_STATES" "j < length VM_LCM_STATES"
      using assms member by (auto simp: list_all_iff)
    show ?thesis using shown_state [OF vm] available_shown [OF vm] by simp
  qed
  then show ?thesis by (simp add: isVmAvailableAction_def defaulted_def flat_def list_all_iff)
qed

definition sample_vm :: "nat \<Rightarrow> nat \<Rightarrow> string \<Rightarrow> jsval" where
  "sample_vm state life hypervisor =
     JObj [(''STATE'', JStr (show_int (int state))), (''LCM_STATE'', JStr (show_int (int life))),
       (''HISTORY_RECORDS'', JObj [(''HISTORY'', JArr [JObj [(''VM_MAD'', JStr hypervisor)]])])]"

theorem available_by_shown_state_witness:
  "isVmAvailableAction ''poweroff'' (JArr [sample_vm 3 3 ''kvm'']) \<longleftrightarrow>
     (\<forall>vm \<in> set [sample_vm 3 3 ''kvm'']. \<exists>s. getVirtualMachineState vm = Some s \<and>
        offered (to_string (getHypervisor vm)) ''poweroff'' (si_name s))"
proof (rule available_by_shown_state)
  have "prop_get (sample_vm 3 3 ''kvm'') ''STATE'' = JStr (show_int (int 3))"
    "prop_get (sample_vm 3 3 ''kvm'') ''LCM_STATE'' = JStr (show_int (int 3))"
    by (simp_all add: sample_vm_def obj_get_def)
  moreover have "3 < length VM_STATES" "3 < length VM_LCM_STATES" by (simp_all add: VM_STATES_def VM_LCM_STATES_def)
  ultimately show "list_all (\<lambda>vm. \<exists>i j. prop_get vm ''STATE'' = JStr (show_int (int i)) \<and>
      prop_get vm ''LCM_STATE'' = JStr (show_int (int j)) \<and> i < length VM_STATES \<and> j < length VM_LCM_STATES) [sample_vm 3 3 ''kvm'']"
    by (simp only: list.pred_inject simp_thms) blast
qed

text \<open>
  A machine that is done, has failed or is in no known state is offered the administrative actions alone,
  whatever its hypervisor, and all of them when the hypervisor has a table.
\<close>

theorem finished_machines:
  assumes "map_option si_name (state_at VM_STATES (prop_get vm ''STATE'')) \<in> {Some ''DONE'', Some ''FAILED'', None}"
  shows "isVmAvailable action vm \<longleftrightarrow>
    action \<in> set administrative \<and> map_of VM_ACTIONS_BY_STATE (to_string (getHypervisor vm)) \<noteq> None"
proof (cases "map_of VM_ACTIONS_BY_STATE (to_string (getHypervisor vm))")
  case None
  then show ?thesis by (simp add: isVmAvailable_def action_states_def Let_def)
next
  case (Some t)
  then have t: "table_ok t" by (rule tables_ok)
  show ?thesis
  proof (cases "map_of t action")
    case None
    then show ?thesis using Some t by (auto simp: isVmAvailable_def action_states_def table_ok_def list_all_iff Let_def)
  next
    case (Some ss)
    then have row: "row_ok (action, ss)" using t map_of_SomeD [OF Some] by (auto simp: table_ok_def list_all_iff)
    have "action_states (getHypervisor vm) action = Some ss"
      using Some \<open>map_of VM_ACTIONS_BY_STATE _ = Some t\<close> by (simp add: action_states_def)
    then show ?thesis
      using row assms \<open>map_of VM_ACTIONS_BY_STATE _ = Some t\<close> by (auto simp: isVmAvailable_def row_ok_def Let_def)
  qed
qed

theorem finished_machines_witness:
  "isVmAvailable ''rename'' (sample_vm 6 0 ''kvm'') \<and> \<not> isVmAvailable ''terminate'' (sample_vm 6 0 ''kvm'')"
proof -
  have six: "show_int 6 = ''6''" by code_simp
  have "state_at VM_STATES (JStr (show_int (int 6))) = Some (VM_STATES ! 6)" unfolding state_at_show by (simp add: VM_STATES_def)
  then have "map_option si_name (state_at VM_STATES (prop_get (sample_vm 6 0 ''kvm'') ''STATE'')) = Some ''DONE''"
    by (simp add: sample_vm_def obj_get_def VM_STATES_def)
  moreover have "getHypervisor (sample_vm 6 0 ''kvm'') = JStr ''kvm''"
    by (simp add: getHypervisor_def getLastHistory_def getHistoryRecords_def sample_vm_def obj_get_def or_empty_def nullish_def flat_def)
  ultimately show ?thesis
    using finished_machines [of "sample_vm 6 0 ''kvm''"] by (simp add: administrative_def VM_ACTIONS_BY_STATE_def)
qed

text \<open>
  What a machine without a hypervisor is offered it is offered on every hypervisor in the same state, and
  what is offered on LXC is offered on KVM.
\<close>

theorem hypervisors_nested:
  "(offered ''undefined'' action state \<longrightarrow> (\<forall>h \<in> {''dummy'', ''kvm'', ''lxc'', ''qemu''}. offered h action state)) \<and>
   (offered ''lxc'' action state \<longrightarrow> offered ''kvm'' action state)"
proof (intro conjI impI ballI)
  fix h assume o: "offered ''undefined'' action state" and h: "h \<in> {''dummy'', ''kvm'', ''lxc'', ''qemu''}"
  obtain t where t: "map_of VM_ACTIONS_BY_STATE h = Some t" using h by (auto simp: tables_of_hypervisors)
  have "list_all (\<lambda>(a, ss). map_of t a = Some ss) DEFAULT_VM_ACTIONS_BY_STATE"
    using t default_rows h by (auto simp: tables_of_hypervisors)
  moreover obtain ss where ss: "map_of DEFAULT_VM_ACTIONS_BY_STATE action = Some ss"
      "ss = [] \<or> state \<in> set ss \<or> ''ACTIVE'' \<in> set ss \<and> state \<in> si_name ` set VM_LCM_STATES"
    using o by (auto simp: offered_def tables_of_hypervisors)
  ultimately have "map_of t action = Some ss" using map_of_SomeD [OF ss(1)] by (auto simp: list_all_iff)
  then show "offered h action state" using t ss(2) unfolding offered_def by blast
next
  assume "offered ''lxc'' action state"
  then obtain ss where ss: "map_of LXC_VM_ACTIONS_BY_STATE action = Some ss"
      "ss = [] \<or> state \<in> set ss \<or> ''ACTIVE'' \<in> set ss \<and> state \<in> si_name ` set VM_LCM_STATES"
    by (auto simp: offered_def tables_of_hypervisors)
  have "case map_of KVM_VM_ACTIONS_BY_STATE action of Some ks \<Rightarrow> ks = ss \<or> ss \<noteq> [] \<and> set ss \<subseteq> set ks | None \<Rightarrow> False"
    using lxc_rows map_of_SomeD [OF ss(1)] unfolding list_all_iff by (fastforce split: option.splits)
  then obtain ks where ks: "map_of KVM_VM_ACTIONS_BY_STATE action = Some ks" "ks = ss \<or> ss \<noteq> [] \<and> set ss \<subseteq> set ks"
    by (auto split: option.splits)
  then show "offered ''kvm'' action state" using ss(2) by (auto simp: offered_def tables_of_hypervisors)
qed

theorem hypervisors_nested_witness: "offered ''kvm'' ''hold'' ''PENDING''"
proof -
  have "offered ''undefined'' ''hold'' ''PENDING''"
    by (simp add: offered_def tables_of_hypervisors DEFAULT_VM_ACTIONS_BY_STATE_def)
  then show ?thesis using hypervisors_nested [of "''hold''" "''PENDING''"] by simp
qed

text \<open>
  C29. The client reads the numbers of the core: a state that the core can report is shown under its name, and an
  action of the history is shown under its name, but for the creation of a snapshot, which is shown as a
  resize, and the actions added last, which have no name.
\<close>

theorem core_numbers_read:
  "((name, i) \<in> set core_vm_states \<and> name \<noteq> ''ACTIVE'' \<and> prop_get vm ''STATE'' = JStr (show_int (int i)) \<longrightarrow>
     map_option si_name (getVirtualMachineState vm) = Some name) \<and>
   ((name, j) \<in> set core_lcm_states \<and> prop_get vm ''STATE'' = JStr (show_int 3) \<and> prop_get vm ''LCM_STATE'' = JStr (show_int (int j)) \<longrightarrow>
     map_option si_name (getVirtualMachineState vm) = Some name) \<and>
   ((k, action) \<in> set core_actions \<longrightarrow>
     getHistoryAction (JStr (show_int (int k))) =
       (if k = 37 then Some ''snapshot-resize'' else if k \<le> 50 then Some action else None))"
proof (intro conjI impI; (elim conjE)?)
  assume "(name, i) \<in> set core_vm_states" "name \<noteq> ''ACTIVE''" and st: "prop_get vm ''STATE'' = JStr (show_int (int i))"
  then have "i < length VM_STATES" "si_name (VM_STATES ! i) = name" "name \<noteq> ''ACTIVE''"
    using vm_states_of_core by (auto simp: list_all_iff)
  then show "map_option si_name (getVirtualMachineState vm) = Some name"
    by (simp add: getVirtualMachineState_def st state_numbered_show Let_def)
next
  assume "(name, j) \<in> set core_lcm_states" and st: "prop_get vm ''STATE'' = JStr (show_int 3)" "prop_get vm ''LCM_STATE'' = JStr (show_int (int j))"
  then have "j < length VM_LCM_STATES" "si_name (VM_LCM_STATES ! j) = name" using lcm_states_of_core by (auto simp: list_all_iff)
  moreover have "prop_get vm ''STATE'' = JStr (show_int (int 3))" "3 < length VM_STATES" using st(1) by (simp_all add: VM_STATES_def)
  ultimately show "map_option si_name (getVirtualMachineState vm) = Some name" using shown_state [OF _ st(2), of 3] by simp
next
  assume "(k, action) \<in> set core_actions"
  then have "if k < length HISTORY_ACTIONS then k = 37 \<and> action = ''snapshot-create'' \<or> HISTORY_ACTIONS ! k = action else k > 50"
    using actions_of_core by (auto simp: list_all_iff)
  moreover have "length HISTORY_ACTIONS = 51" "HISTORY_ACTIONS ! 37 = ''snapshot-resize''" by code_simp+
  ultimately show "getHistoryAction (JStr (show_int (int k))) =
      (if k = 37 then Some ''snapshot-resize'' else if k \<le> 50 then Some action else None)"
    by (auto simp: getHistoryAction_def string_number_show)
qed

theorem core_numbers_read_witness: "getHistoryAction (JStr (show_int (int 50))) = Some ''backup''"
proof -
  have "(50, ''backup'') \<in> set core_actions" by (simp add: core_actions_def)
  then show ?thesis using core_numbers_read [of _ _ _ _ 50 "''backup''"] by simp
qed

text \<open>One state that the tables name, \<open>UPDATE_FAILURE\<close>, no machine has.\<close>

lemma no_update_failure: "''UPDATE_FAILURE'' \<notin> si_name ` set VM_STATES \<union> si_name ` set VM_LCM_STATES" by code_simp

text \<open>Every snapshot of a disk is shown with the size of the first measurement of the disk, whatever its own.\<close>

lemma snapshot_sizes_equal:
  "\<exists>snaps. prop_get (addExtraData ds sizes dsizes disk) ''SNAPSHOTS'' = JArr snaps \<and>
     (\<forall>s \<in> set snaps. prop_get s ''MONITOR_SIZE'' =
        truthy_or (prop_get (find_by ''DISK_ID'' (prop_get disk ''DISK_ID'') sizes) ''SIZE'') (JStr ''-''))"
  by (auto simp: addExtraData_def Let_def obj_get_def)

text \<open>A machine of a service carries the service in its user template, and is not recognised as one.\<close>

lemma service_vm_not_recognised:
  "getVirtualMachineType (JObj [(''USER_TEMPLATE'', JObj [(''SERVICE_ID'', JStr ''7'')])]) = ''VM''"
  by (simp add: getVirtualMachineType_def obj_get_def)

text \<open>The empty ICMP type, which stands for all types, reads as the number 0 and is shown as an echo reply.\<close>

lemma empty_icmp_type: "named_number ICMP_STRING (JStr []) = JStr ''0: Echo Reply''"
  by code_simp

text \<open>Splitting the interfaces keeps each of them, in order.\<close>

lemma split_nic_alias:
  "splitNicAlias vm = rbind (getNics False False vm) (\<lambda>nics.
     Inr (filter (\<lambda>n. prop_get n ''PARENT'' = JUndef) nics, filter (\<lambda>n. prop_get n ''PARENT'' \<noteq> JUndef) nics))"
proof -
  have "fold (\<lambda>nic (ns, alias). if prop_get nic ''PARENT'' \<noteq> JUndef then (ns, alias @ [nic]) else (ns @ [nic], alias)) nics (a, b) =
      (a @ filter (\<lambda>n. prop_get n ''PARENT'' = JUndef) nics, b @ filter (\<lambda>n. prop_get n ''PARENT'' \<noteq> JUndef) nics)" for nics a b
    by (induction nics arbitrary: a b) simp_all
  then show ?thesis by (simp add: splitNicAlias_def)
qed

end
