(* ===== verification/Scheduler.thy ===== *)
theory Scheduler
  imports Vm
begin

text \<open>
  Scheduled actions and charters (\<open>modules/models/Scheduler.js\<close>, and \<open>getScheduleActions\<close> of
  \<open>modules/models/VirtualMachine.js\<close>): the kind of a schedule, periods and seconds, the arguments of an
  action, and the times of a charter.  Numbers of seconds are rationals, exact where the code has floating
  point numbers; times read from texts are integers or not a number, None.  The wording of a date,
  \<open>timeToString\<close>, is a parameter.
\<close>

section \<open>Kinds of schedule\<close>

definition isRelative :: "jsval \<Rightarrow> bool" where
  "isRelative time \<longleftrightarrow> CHR ''+'' \<in> set (to_string time) \<or> CHR ''-'' \<in> set (to_string time)"

definition getFixedLeases :: "(string \<times> jsobj) list \<Rightarrow> (string \<times> jsobj) list" where
  "getFixedLeases leases = filter (\<lambda>(_, options). \<not> truthy (obj_get options ''edit'')) leases"

definition getEditableLeases :: "(string \<times> jsobj) list \<Rightarrow> (string \<times> jsobj) list" where
  "getEditableLeases leases = filter (\<lambda>(_, options). truthy (obj_get options ''edit'')) leases"

definition isOneTimeAction :: "string list \<Rightarrow> bool" where
  "isOneTimeAction scheduleActionkeys =
     (let parsedKeys = filter (\<lambda>key. key \<notin> {''MESSAGE'', ''WARNING''}) scheduleActionkeys
      in list_all (\<lambda>value. value \<in> {''ID'', ''TIME'', ''ACTION'', ''NAME'', ''ARGS''}) parsedKeys)"

text \<open>The pattern \<open>^(\+).*$\<close>: no line ends after the plus.\<close>

definition line_end :: "char \<Rightarrow> bool" where
  "line_end c \<longleftrightarrow> c = CHR 0x0A \<or> c = CHR 0x0D"

definition getTypeScheduleAction :: "jsobj \<Rightarrow> string" where
  "getTypeScheduleAction scheduledAction =
     (let time = to_string (obj_get scheduledAction ''TIME'')
      in if starts_with time ''+'' \<and> \<not> list_ex line_end time then ''RELATIVE''
         else if isOneTimeAction (map fst scheduledAction) then ''ONETIME''
         else ''PERIODIC'')"

section \<open>Periods\<close>

definition PERIOD_TYPES :: "string list" where
  "PERIOD_TYPES = [''years'', ''months'', ''weeks'', ''days'', ''hours'', ''minutes'']"

text \<open>The seconds of one unit of a period.\<close>

definition seconds_of :: "(string \<times> rat) list" where
  "seconds_of = [(''years'', 365 * 24 * 3600), (''months'', 30 * 24 * 3600), (''weeks'', 7 * 24 * 3600), (''days'', 24 * 3600),
     (''hours'', 3600), (''minutes'', 60)]"

definition getPeriodicityByTimeInSeconds :: "rat \<Rightarrow> (string \<times> rat) js" where
  "getPeriodicityByTimeInSeconds seconds =
     (let allPeriods = map (\<lambda>(period, unit). (period, seconds / unit)) seconds_of
      in case find (\<lambda>(_, value). value \<ge> 1) allPeriods of Some r \<Rightarrow> Inr r | None \<Rightarrow> Inl TypeError)"

definition timeToSecondsByPeriodicity :: "string \<Rightarrow> rat \<Rightarrow> rat option" where
  "timeToSecondsByPeriodicity period time = map_option (\<lambda>unit. time * unit) (map_of seconds_of period)"

definition daysOfWeek :: "string list" where
  "daysOfWeek = [''Sun'', ''Mon'', ''Tue'', ''Wed'', ''Thu'', ''Fri'', ''Sat'']"

definition ALL_DAYS :: string where
  "ALL_DAYS = ''0,1,2,3,4,5,6''"

text \<open>Days that are neither a list, a text nor missing have no \<open>split\<close>.\<close>

definition getRepeatInformation :: "(jsval \<Rightarrow> string) \<Rightarrow> jsval \<Rightarrow> (jsval \<times> jsval) js" where
  "getRepeatInformation timeToString action =
     (let days = defaulted (JStr []) (prop_get action ''DAYS''); end_value = defaulted (JStr []) (prop_get action ''END_VALUE'')
      in rbind (case days of JArr xs \<Rightarrow> Inr xs | _ \<Rightarrow> rbind (split_comma days) (\<lambda>ds. Inr (map JStr (the_default [] ds)))) (\<lambda>arrayDays.
         let names = map (\<lambda>day. case array_index (to_string day) of
                             Some i \<Rightarrow> if i < 7 then daysOfWeek ! i else [] | None \<Rightarrow> []) arrayDays;
             repeat = (case to_number (prop_get action ''REPEAT'') of
                 Some n \<Rightarrow>
                   if n = 0 then JStr (if days = JStr ALL_DAYS then ''Daily'' else ''Weekly '' @ js_join '','' names)
                   else if n = 1 then JStr (''Monthly '' @ to_string days)
                   else if n = 2 then JStr (''Yearly '' @ to_string days)
                   else if n = 3 then JArr [JStr ''Each %s hours'', days]
                   else JUndef
               | None \<Rightarrow> JUndef);
             ending = (case to_number (prop_get action ''END_TYPE'') of
                 Some n \<Rightarrow>
                   if n = 0 then JStr ''None''
                   else if n = 1 then JArr [JStr ''After %s times'', end_value]
                   else if n = 2 then JStr (''On '' @ timeToString end_value)
                   else JUndef
               | None \<Rightarrow> JUndef)
         in Inr (repeat, ending)))"

section \<open>Arguments\<close>

definition args_of_action :: "(string \<times> string list) list" where
  "args_of_action =
     [(''backup'', [''DS_ID'']),
      (''disk-snapshot-create'', [''DISK_ID'', ''NAME'']),
      (''disk-snapshot-revert'', [''DISK_ID'', ''SNAPSHOT_ID'']),
      (''disk-snapshot-delete'', [''DISK_ID'', ''SNAPSHOT_ID'']),
      (''snapshot-create'', [''NAME'']),
      (''snapshot-revert'', [''SNAPSHOT_ID'']),
      (''snapshot-delete'', [''SNAPSHOT_ID''])]"

definition getRequiredArgsByAction :: "string \<Rightarrow> string list" where
  "getRequiredArgsByAction action = the_default [] (map_of args_of_action action)"

text \<open>The arguments come as one text; the missing ones are undefined.\<close>

definition transformStringToArgsObject :: "jsobj \<Rightarrow> jsval" where
  "transformStringToArgsObject scheduleAction =
     (let args = defaulted (JObj []) (obj_get scheduleAction ''ARGS'')
      in case args of
           JStr s \<Rightarrow>
             (let parts = js_split (CHR '','') s; arg = (\<lambda>i. if i < length parts then JStr (parts ! i) else JUndef)
              in JObj (case map_of args_of_action (to_string (obj_get scheduleAction ''ACTION'')) of
                   Some [a] \<Rightarrow> [(a, arg 0)]
                 | Some [a, b] \<Rightarrow> [(a, arg 0), (b, arg 1)]
                 | _ \<Rightarrow> []))
         | _ \<Rightarrow> args)"

section \<open>Times\<close>

record schedule_times =
  st_action :: jsval
  st_time :: "int option"
  st_warning :: bool

definition plus_number :: "int option \<Rightarrow> int option \<Rightarrow> int option" where
  "plus_number a b = (case (a, b) of (Some x, Some y) \<Rightarrow> Some (x + y) | _ \<Rightarrow> None)"

definition getScheduleActions :: "int \<Rightarrow> jsval \<Rightarrow> schedule_times list" where
  "getScheduleActions now vm =
     map (\<lambda>action.
       let time = prop_get action ''TIME''; warning = prop_get action ''WARNING'';
           ensuredTime = (if isRelative time then plus_number (to_number time) (to_number (prop_get vm ''STIME'')) else to_number time);
           limit = plus_number ensuredTime (to_number warning)
       in \<lparr>st_action = action, st_time = ensuredTime,
           st_warning = (isRelative warning \<and> (case limit of Some l \<Rightarrow> now > l | None \<Rightarrow> False))\<rparr>)
       (flat (filter truthy [prop_get (defaulted (JObj []) (prop_get vm ''TEMPLATE'')) ''SCHED_ACTION'']))"

text \<open>Charters carry their times as numbers of a period, under a key that names the period.  Without such a
  key the period is undefined, and so is what the options have under the prefix followed by that word.\<close>

definition getTimeAndPeriodTypeFromCharter :: "(string \<times> rat) list \<Rightarrow> string \<Rightarrow> rat option \<times> string option" where
  "getTimeAndPeriodTypeFromCharter options prefix =
     (let periodType = find (\<lambda>type. the_default 0 (map_of options (prefix @ type)) \<noteq> 0) PERIOD_TYPES
      in (map_of options (prefix @ the_default ''undefined'' periodType), periodType))"

datatype charter_action =
    RelativeCharter string "rat option" "rat option" "string option" "string option"
  | AbsoluteCharter string "rat option" "rat option"

definition after_now :: "int \<Rightarrow> rat option \<times> string option \<Rightarrow> rat option" where
  "after_now now tp =
     (case tp of
        (Some time, Some period) \<Rightarrow> map_option (\<lambda>s. of_int now + s) (timeToSecondsByPeriodicity period time)
      | _ \<Rightarrow> None)"

definition transformChartersToSchedActions :: "int \<Rightarrow> bool \<Rightarrow> (string \<times> (string \<times> rat) list) list \<Rightarrow> charter_action list" where
  "transformChartersToSchedActions now relative charters =
     map (\<lambda>(action, options).
       let t = getTimeAndPeriodTypeFromCharter options ''execute_after_'';
           w = getTimeAndPeriodTypeFromCharter options ''warn_before_''
       in if relative then RelativeCharter action (fst t) (fst w) (snd t) (snd w)
          else AbsoluteCharter action (after_now now t) (after_now now w)) charters"

section \<open>Properties\<close>

text \<open>
  A number of seconds of at least a minute is shown in the longest period that fits it at least once, and
  the period and the number shown are worth exactly those seconds; fewer seconds make the function throw.
\<close>

theorem periodicity_roundtrip:
  "if seconds < 60 then getPeriodicityByTimeInSeconds seconds = Inl TypeError
   else \<exists>period time. getPeriodicityByTimeInSeconds seconds = Inr (period, time) \<and> 1 \<le> time \<and>
     timeToSecondsByPeriodicity period time = Some seconds \<and>
     (\<exists>shorter longer unit. seconds_of = longer @ (period, unit) # shorter \<and> list_all (\<lambda>(_, u). seconds < u) longer)"
proof -
  define periods where "periods = map (\<lambda>(period, unit). (period, seconds / unit)) seconds_of"
  have run: "getPeriodicityByTimeInSeconds seconds =
      (case find (\<lambda>r. snd r \<ge> 1) periods of Some r \<Rightarrow> Inr r | None \<Rightarrow> Inl TypeError)"
    by (simp add: getPeriodicityByTimeInSeconds_def periods_def case_prod_unfold)
  show ?thesis
  proof (cases "find (\<lambda>r. snd r \<ge> 1) periods")
    case None
    moreover have "(''minutes'', seconds / 60) \<in> set periods" by (simp add: periods_def seconds_of_def)
    ultimately have "\<not> 1 \<le> snd (''minutes'', seconds / 60)" unfolding find_None_iff by blast
    then show ?thesis using None run by simp
  next
    case (Some r)
    then obtain i where "i < length periods" "r = periods ! i" "snd r \<ge> 1" "\<forall>j < i. \<not> snd (periods ! j) \<ge> 1"
      unfolding find_Some_iff by blast
    then have i: "i < length seconds_of" "r = (fst (seconds_of ! i), seconds / snd (seconds_of ! i))" "snd r \<ge> 1"
      and before: "\<forall>j < i. seconds / snd (seconds_of ! j) < 1"
      by (simp_all add: periods_def case_prod_beta not_le)
    obtain p u where pu: "seconds_of ! i = (p, u)" by fastforce
    have pos: "\<forall>x \<in> set seconds_of. 60 \<le> snd x" and dist: "distinct (map fst seconds_of)" by (simp_all add: seconds_of_def)
    have u: "60 \<le> u" using pos i(1) pu by (metis nth_mem snd_conv)
    then have ge: "u \<le> seconds" using i(2,3) pu by (simp add: field_simps)
    have "map_of seconds_of p = Some u" using dist i(1) pu by (metis map_of_is_SomeI nth_mem)
    then have worth: "timeToSecondsByPeriodicity p (seconds / u) = Some seconds"
      using u by (simp add: timeToSecondsByPeriodicity_def)
    have "list_all (\<lambda>(_, v). seconds < v) (take i seconds_of)"
    proof -
      have "seconds < snd (seconds_of ! j)" if "j < i" for j
      proof -
        have "60 \<le> snd (seconds_of ! j)" using pos i(1) that by (meson less_trans nth_mem)
        moreover have "seconds / snd (seconds_of ! j) < 1" using before that by blast
        ultimately show ?thesis by (simp add: divide_less_eq)
      qed
      then show ?thesis using i(1) by (simp add: list_all_length case_prod_beta)
    qed
    moreover have "seconds_of = take i seconds_of @ (p, u) # drop (Suc i) seconds_of" using id_take_nth_drop [OF i(1)] pu by simp
    ultimately show ?thesis
      using Some i(2,3) pu ge u worth run by auto
  qed
qed

text \<open>A relative time counts from the start of the machine, and a time before the machine counts as such.\<close>

lemma schedule_times:
  assumes "prop_get (prop_get vm ''TEMPLATE'') ''SCHED_ACTION'' = JArr [JObj [(''TIME'', JStr time), (''WARNING'', JStr warning)]]"
    "prop_get vm ''STIME'' = JStr (show_int start)" "string_number time = Some t" "string_number warning = Some w"
  shows "getScheduleActions now vm =
    [\<lparr>st_action = JObj [(''TIME'', JStr time), (''WARNING'', JStr warning)],
      st_time = Some (if isRelative (JStr time) then t + start else t),
      st_warning = (isRelative (JStr warning) \<and> now > (if isRelative (JStr time) then t + start else t) + w)\<rparr>]"
proof -
  have "prop_get vm ''TEMPLATE'' \<noteq> JUndef" using assms(1) by auto
  then show ?thesis using assms
    by (simp add: getScheduleActions_def defaulted_def flat_def obj_get_def plus_number_def string_number_show Let_def)
qed

text \<open>The warning of a charter is counted from now, not back from the time of its action: a charter that runs
  in ten days and warns one day before warns nine days too early, and one without a warning has no time for it
  but not a number.\<close>

lemma charter_warns_early:
  "transformChartersToSchedActions now False [(''terminate'', [(''execute_after_days'', 10), (''warn_before_days'', 1)])] =
     [AbsoluteCharter ''terminate'' (Some (of_int now + 864000)) (Some (of_int now + 86400))]"
  "transformChartersToSchedActions now False [(''terminate'', [(''execute_after_days'', 10)])] =
     [AbsoluteCharter ''terminate'' (Some (of_int now + 864000)) None]"
  by (simp_all add: transformChartersToSchedActions_def getTimeAndPeriodTypeFromCharter_def PERIOD_TYPES_def after_now_def
      timeToSecondsByPeriodicity_def seconds_of_def)

text \<open>Every action that takes arguments gets one under each of the names it requires.\<close>

lemma args_named:
  assumes "map_of args_of_action action = Some names"
  shows "\<exists>args. transformStringToArgsObject [(''ACTION'', JStr action), (''ARGS'', JStr s)] = JObj args \<and>
    map fst args = getRequiredArgsByAction action"
proof -
  from assms have "length names = 1 \<or> length names = 2" by (auto simp: args_of_action_def split: if_splits)
  then consider a where "names = [a]" | a b where "names = [a, b]" by (auto simp: length_Suc_conv numeral_2_eq_2)
  then show ?thesis
    using assms by cases (simp_all add: transformStringToArgsObject_def getRequiredArgsByAction_def obj_get_def defaulted_def Let_def)
qed

end
