(* ===== verification/Files_Api.thy ===== *)
theory Files_Api
  imports Jwt Paths Resource_Helpers
begin

text \<open>
  The files that users keep on the server (\<open>server/routes/api/files/functions.js\<close> with \<open>checkValidApp\<close>,
  \<open>getFiles\<close>, \<open>existsFile\<close> and \<open>removeFile\<close> of \<open>server/utils/server.js\<close>).

  A handler runs to the list of what it does: the answers it passes on, which are more than one when it goes
  on after \<open>next()\<close>, and its writes to the disk.  The disk is a parameter: the tree that is found at a path,
  and for every write the message of the error that it throws, if any.  OpenNebula, asked for the groups of a
  user, is a parameter too.
\<close>

section \<open>The disk\<close>

datatype node = FileNode string | DirNode "(string \<times> node) list"

record disk =
  dk_node :: "string \<Rightarrow> node option"
  dk_mkdirs :: "string \<Rightarrow> string option"
  dk_move :: "string \<Rightarrow> string \<Rightarrow> bool \<Rightarrow> string option"
  dk_remove :: "string \<Rightarrow> string option"

datatype file_event =
    Answer http_result
  | MakeDirs string
  | MoveFile string string bool
  | RemoveFile string

text \<open>\<open>existsFile\<close> reads the file: a directory and the empty path are no files.\<close>

definition existsFile :: "disk \<Rightarrow> string \<Rightarrow> bool" where
  "existsFile d path \<longleftrightarrow> path \<noteq> [] \<and> (case dk_node d path of Some (FileNode _) \<Rightarrow> True | _ \<Rightarrow> False)"

definition removeFile :: "disk \<Rightarrow> string \<Rightarrow> file_event list \<times> bool" where
  "removeFile d path = (if path = [] then ([], False) else ([RemoveFile path], dk_remove d path = None))"

fun files_below :: "bool \<Rightarrow> string \<Rightarrow> node \<Rightarrow> string list" where
  "files_below recursive path (FileNode _) = []"
| "files_below recursive path (DirNode entries) =
     concat (map (\<lambda>(name, child).
       (if recursive then files_below recursive (path @ ''/'' @ name) child else []) @
       (case child of FileNode _ \<Rightarrow> [path @ ''/'' @ name] | DirNode _ \<Rightarrow> [])) entries)"

definition getFiles :: "disk \<Rightarrow> string \<Rightarrow> bool \<Rightarrow> string list" where
  "getFiles d path recursive =
     (if path = [] then [] else case dk_node d path of Some n \<Rightarrow> files_below recursive path n | None \<Rightarrow> [])"

section \<open>Users and owners\<close>

text \<open>The names of the applications; a name of the prototype of objects is found in the table as well.\<close>

definition object_prototype :: "string list" where
  "object_prototype = [''constructor'', ''__defineGetter__'', ''__defineSetter__'', ''hasOwnProperty'', ''__lookupGetter__'',
     ''__lookupSetter__'', ''isPrototypeOf'', ''propertyIsEnumerable'', ''toString'', ''valueOf'', ''__proto__'', ''toLocaleString'']"

definition checkValidApp :: "string \<Rightarrow> bool" where
  "checkValidApp appName \<longleftrightarrow> appName = ''sunstone'' \<or> appName \<in> set object_prototype"

record file_env =
  fe_cpi :: "string option"
  fe_images :: "string option"
  fe_disk :: disk
  fe_user_info :: "string \<Rightarrow> string \<Rightarrow> int option \<Rightarrow> string + jsval"

record upload_file =
  uf_originalname :: string
  uf_path :: string
  uf_filename :: string

definition checkUserAdmin :: "(int option \<Rightarrow> string + jsval) \<Rightarrow> string \<Rightarrow> bool option" where
  "checkUserAdmin oneConnection i =
     (if i = [] then None
      else case oneConnection (parse_int i) of
        Inl _ \<Rightarrow> None
      | Inr value \<Rightarrow>
          (let groups = prop_get (prop_get (prop_get value ''USER'') ''GROUPS'') ''ID''
           in if truthy groups then
                Some (list_ex (\<lambda>group. group = JStr ''0'') (case groups of JArr xs \<Rightarrow> xs | _ \<Rightarrow> [groups]))
              else None))"

definition parseFilePath :: "string \<Rightarrow> string list option" where
  "parseFilePath file = (if path_dir file = [] then None else Some (js_split (CHR ''/'') (path_dir file)))"

text \<open>The element at a position, where an empty text counts as none.\<close>

definition part :: "string list option \<Rightarrow> nat \<Rightarrow> string" where
  "part parts i = (case parts of Some ps \<Rightarrow> if i < length ps then ps ! i else [] | None \<Rightarrow> [])"

definition validateFileWithoutOwner :: "string \<Rightarrow> bool" where
  "validateFileWithoutOwner file \<longleftrightarrow>
     (let parsedFile = parseFilePath file
      in part parsedFile 0 \<noteq> [] \<and> checkValidApp (part parsedFile 0) \<and> part parsedFile 1 = [])"

definition validateFileWithOwner :: "string \<Rightarrow> string \<Rightarrow> bool" where
  "validateFileWithOwner file i \<longleftrightarrow>
     (let parsedFile = parseFilePath file
      in part parsedFile 0 \<noteq> [] \<and> checkValidApp (part parsedFile 0) \<and> part parsedFile 1 \<noteq> [] \<and> part parsedFile 1 = i)"

section \<open>Handlers\<close>

definition httpBadRequest :: http_result where
  "httpBadRequest = httpResponse (Some badRequest) (JStr []) [] []"

definition shown_path :: "string option \<Rightarrow> string" where
  "shown_path p = the_default ''undefined'' p"

text \<open>Moving the uploaded files one by one, until one fails.\<close>

fun upload_files :: "disk \<Rightarrow> string \<Rightarrow> string \<Rightarrow> upload_file list \<Rightarrow> string list \<Rightarrow> file_event list \<times> http_code \<times> string \<times> string list" where
  "upload_files d pathUserData pathUser [] data = ([], ok, [], data)"
| "upload_files d pathUserData pathUser (f # fs) data =
     (if uf_originalname f \<noteq> [] \<and> uf_path f \<noteq> [] \<and> uf_filename f \<noteq> [] then
        (let name = uf_filename f @ path_ext (uf_originalname f);
             event = MoveFile (uf_path f) (pathUser @ ''/'' @ name) False
         in case dk_move d (uf_path f) (pathUser @ ''/'' @ name) False of
              Some message \<Rightarrow> ([event], internalServerError, message, data)
            | None \<Rightarrow>
                (let (es, rest) = upload_files d pathUserData pathUser fs (data @ [pathUserData @ ''/'' @ name])
                 in (event # es, rest)))
      else upload_files d pathUserData pathUser fs data)"

text \<open>An application that is missing is the text undefined in the paths; missing files make the loop throw.
  The first answer does not end the handler.\<close>

definition upload :: "file_env \<Rightarrow> string option \<Rightarrow> upload_file list option \<Rightarrow> bool \<Rightarrow> req_auth \<Rightarrow> file_event list \<times> js_error option" where
  "upload env app files publicFile u =
     (let valid = the_default [] (fe_cpi env) \<noteq> [] \<and> the_default [] app \<noteq> [] \<and> checkValidApp (the_default [] app) \<and> files \<noteq> None \<and>
            ra_id u \<noteq> [] \<and> ra_user u \<noteq> [] \<and> ra_password u \<noteq> [];
          first = (if valid then [] else [Answer httpBadRequest])
      in case checkUserAdmin (fe_user_info env (ra_user u) (ra_password u)) (ra_id u) of
           None \<Rightarrow> (first @ [Answer (of_code internalServerError)], None)
         | Some admin \<Rightarrow>
             (let pathUserData = (if publicFile \<and> admin then shown_path app else shown_path app @ ''/'' @ ra_id u);
                  pathUser = shown_path (fe_cpi env) @ ''/'' @ pathUserData;
                  made = (if dk_node (fe_disk env) pathUser = None then [MakeDirs pathUser] else [])
              in if made \<noteq> [] \<and> dk_mkdirs (fe_disk env) pathUser \<noteq> None then (first @ made, Some TypeError)
                 else case files of
                   None \<Rightarrow> (first @ made, Some TypeError)
                 | Some fs \<Rightarrow>
                     (let (es, method, message, data) = upload_files (fe_disk env) pathUserData pathUser fs []
                      in (first @ made @ es @
                          [Answer (httpResponse (Some method) (if data = [] then JStr [] else JArr (map JStr data)) message [])], None))))"

fun replace_first :: "string \<Rightarrow> string \<Rightarrow> string" where
  "replace_first p [] = []"
| "replace_first p (c # s) = (if starts_with (c # s) p then drop (length p) (c # s) else c # replace_first p s)"

definition defaultFiles :: "file_env \<Rightarrow> string \<Rightarrow> string list" where
  "defaultFiles env app =
     (if app = ''sunstone'' \<and> the_default [] (fe_images env) \<noteq> []
      then let path = the_default [] (fe_images env) in map (replace_first (path @ ''/'')) (getFiles (fe_disk env) path True)
      else [[]])"

definition defaultFile :: "file_env \<Rightarrow> string \<Rightarrow> string \<Rightarrow> string" where
  "defaultFile env app file =
     (if app = ''sunstone'' \<and> the_default [] (fe_images env) \<noteq> [] then the_default [] (fe_images env) @ ''/'' @ file else [])"

definition list_files :: "file_env \<Rightarrow> string \<Rightarrow> req_auth \<Rightarrow> file_event list" where
  "list_files env app u =
     (if app \<noteq> [] \<and> checkValidApp app \<and> ra_user u \<noteq> [] \<and> ra_password u \<noteq> [] \<and> ra_id u \<noteq> [] then
        (let path = shown_path (fe_cpi env) @ ''/'';
             data = defaultFiles env app @
               map (replace_first path) (getFiles (fe_disk env) (path @ app) False) @
               map (replace_first path) (getFiles (fe_disk env) (path @ app @ ''/'' @ ra_id u) True)
         in [Answer (httpResponse (Some ok) (JArr (map JStr data)) [] [])])
      else [Answer httpBadRequest])"

text \<open>Files are shown to whoever holds a token: it is decoded before anything else, and throws when it is not
  one of the server.\<close>

definition show_file :: "jwt_lib \<Rightarrow> globals \<Rightarrow> file_env \<Rightarrow> string \<Rightarrow> string \<Rightarrow> string \<Rightarrow> jwt_error + file_event list" where
  "show_file lib g env file token app =
     rbind (jwtDecode lib g token) (\<lambda>userData.
       if token \<noteq> [] \<and> file \<noteq> [] \<and> app \<noteq> [] \<and> checkValidApp app then
         (let pathFile = (if validateFileWithOwner file (jp_iss userData) \<or> validateFileWithoutOwner file
                          then shown_path (fe_cpi env) @ ''/'' @ file else defaultFile env app file)
          in if existsFile (fe_disk env) pathFile
             then Inr [Answer (httpResponse (Some ok) (JStr []) [] (path_resolve pathFile))]
             else Inr [Answer (httpResponse (Some internalServerError) (JStr []) [] [])])
       else Inr [Answer httpBadRequest])"

definition deleteFile :: "file_env \<Rightarrow> string \<Rightarrow> req_auth \<Rightarrow> file_event list" where
  "deleteFile env file u =
     (if the_default [] (fe_cpi env) \<noteq> [] \<and> file \<noteq> [] \<and> ra_id u \<noteq> [] \<and> validateFileWithOwner file (ra_id u) then
        (let pathFile = the_default [] (fe_cpi env) @ ''/'' @ file
         in if existsFile (fe_disk env) pathFile then
              (let (es, removed) = removeFile (fe_disk env) pathFile
               in es @ [Answer (httpResponse (Some (if removed then ok else internalServerError)) (JStr []) [] [])])
            else [Answer (httpResponse (Some internalServerError) (JStr []) [] [])])
      else [Answer httpBadRequest])"

fun update_files :: "disk \<Rightarrow> string \<Rightarrow> upload_file list \<Rightarrow> bool \<Rightarrow> file_event list \<times> http_code \<times> string \<times> bool" where
  "update_files d pathFile [] done = ([], ok, [], done)"
| "update_files d pathFile (f # fs) done =
     (if uf_originalname f \<noteq> [] \<and> uf_path f \<noteq> [] \<and> uf_filename f \<noteq> [] then
        (case dk_move d (uf_path f) pathFile True of
           Some message \<Rightarrow> ([MoveFile (uf_path f) pathFile True], internalServerError, message, done)
         | None \<Rightarrow>
             (let (es, rest) = update_files d pathFile fs True in (MoveFile (uf_path f) pathFile True # es, rest)))
      else update_files d pathFile fs done)"

definition update_file :: "file_env \<Rightarrow> string \<Rightarrow> upload_file list option \<Rightarrow> req_auth \<Rightarrow> file_event list" where
  "update_file env name files u =
     (if the_default [] (fe_cpi env) \<noteq> [] \<and> name \<noteq> [] \<and> files \<noteq> None \<and> ra_id u \<noteq> [] \<and> validateFileWithOwner name (ra_id u) then
        (let pathFile = the_default [] (fe_cpi env) @ ''/'' @ name
         in if existsFile (fe_disk env) pathFile then
              (let (es, method, message, moved) = update_files (fe_disk env) pathFile (the_default [] files) False
               in es @ [Answer (httpResponse (Some method) (JStr (if moved then name else [])) message [])])
            else [Answer (httpResponse (Some internalServerError) (JStr []) [] [])])
      else [Answer httpBadRequest])"

section \<open>Names and owners\<close>

lemma split_join_slash:
  "ws \<noteq> [] \<Longrightarrow> list_all (\<lambda>w. CHR ''/'' \<notin> set w) ws \<Longrightarrow> js_split (CHR ''/'') (js_join ''/'' ws) = ws"
  by (rule js_split_join) (auto simp: list_all_iff)

lemma valid_app_plain: "checkValidApp app \<Longrightarrow> plain_segment app"
  by (auto simp: checkValidApp_def object_prototype_def plain_segment_def)

lemma owned_segments:
  assumes "validateFileWithOwner file i"
  obtains app ws where "checkValidApp app" "js_split (CHR ''/'') file = app # i # ws" "i \<noteq> []"
proof -
  define ps where "ps = js_split (CHR ''/'') (path_dir file)"
  have dir: "path_dir file \<noteq> []" and ps: "0 < length ps" "1 < length ps" "checkValidApp (ps ! 0)" "ps ! 1 = i" "i \<noteq> []" "ps ! 0 \<noteq> []"
    using assms by (auto simp: validateFileWithOwner_def parseFilePath_def part_def Let_def ps_def split: if_splits)
  then have "path_dir file \<noteq> ''/''" by (auto simp: ps_def)
  then obtain r where "file = path_dir file @ ''/'' @ r" using path_dir_prefix dir by blast
  then have "js_split (CHR ''/'') file = ps @ js_split (CHR ''/'') r"
    using split_append_sep [of "CHR ''/''" "path_dir file" r] by (simp add: ps_def)
  moreover obtain vs where "ps = ps ! 0 # i # vs" using ps by (cases ps; cases "tl ps") auto
  ultimately show ?thesis using ps(3,5) that by (metis append_Cons)
qed

lemma owned_path_below:
  assumes "validateFileWithOwner file i" "list_all plain_segment rs" "rs \<noteq> []" "plain_segment i"
    "''..'' \<notin> set (js_split (CHR ''/'') file)"
  shows "\<exists>app ss. checkValidApp app \<and> list_all plain_segment ss \<and> path_resolve (abs_path rs @ ''/'' @ file) = abs_path (rs @ [app, i] @ ss)"
proof -
  obtain app ws where split: "checkValidApp app" "js_split (CHR ''/'') file = app # i # ws"
    using assms(1) by (rule owned_segments)
  let ?ss = "filter (\<lambda>s. s \<noteq> [] \<and> s \<noteq> ''.'') ws"
  have slash: "list_all (\<lambda>s. s \<noteq> ''..'' \<and> CHR ''/'' \<notin> set s) (app # i # ws)"
    using assms(5) js_split_parts [where c = "CHR ''/''" and s = "file"] unfolding split(2) by (auto simp: list_all_iff)
  then have plain: "list_all plain_segment ?ss" by (auto simp: list_all_iff plain_segment_def)
  have "norm_segments True (rev rs) (app # i # ws) = rs @ [app, i] @ ?ss"
    using norm_segments_below [OF slash, of "rev rs"] valid_app_plain [OF split(1)] assms(4) by (simp add: plain_segment_def)
  then have "path_resolve (abs_path rs @ ''/'' @ file) = abs_path (rs @ [app, i] @ ?ss)"
    using resolve_below [OF assms(2,3), of "file"] split(2) assms(3) by (simp add: abs_path_join)
  then show ?thesis using split(1) plain by blast
qed

text \<open>A name that is owned by its first two segments and then climbs.\<close>

definition climbing :: "string \<Rightarrow> nat \<Rightarrow> string list \<Rightarrow> string" where
  "climbing i n ts = js_join ''/'' ([''sunstone'', i] @ replicate n ''..'' @ ts)"

lemma plain_no_slash: "list_all plain_segment ss \<Longrightarrow> list_all (\<lambda>w. CHR ''/'' \<notin> set w) ss"
  by (erule list.pred_mono_strong) (simp add: plain_segment_def)

lemma climbing_no_slash:
  assumes "plain_segment i" "list_all plain_segment ts"
  shows "list_all (\<lambda>w. CHR ''/'' \<notin> set w) ([''sunstone'', i] @ replicate n ''..'' @ ts)"
proof -
  have "list_all (\<lambda>w. CHR ''/'' \<notin> set w) (replicate n ''..'')" by (induction n) simp_all
  then show ?thesis using assms plain_no_slash [OF assms(2)] by (simp add: plain_segment_def)
qed

lemma climbing_parts:
  assumes "plain_segment i" "list_all plain_segment ts"
  shows "js_split (CHR ''/'') (climbing i n ts) = [''sunstone'', i] @ replicate n ''..'' @ ts"
  unfolding climbing_def by (rule split_join_slash) (simp, rule climbing_no_slash [OF assms])

lemma climbing_owned:
  assumes "plain_segment i" "list_all plain_segment ts" "ts \<noteq> []"
  shows "validateFileWithOwner (climbing i n ts) i"
proof -
  let ?ds = "[''sunstone'', i] @ replicate n ''..'' @ butlast ts"
  have ts: "ts = butlast ts @ [last ts]" using assms(3) by simp
  have plain: "list_all (\<lambda>s. CHR ''/'' \<notin> set s) (?ds @ [last ts])"
    using climbing_no_slash [OF assms(1,2), of n] ts by simp
  have last: "last ts \<noteq> []" using assms(2,3) by (auto simp: list_all_iff plain_segment_def)
  have "climbing i n ts = js_join ''/'' (?ds @ [last ts])" using ts by (simp add: climbing_def)
  then have "path_dir (climbing i n ts) = js_join ''/'' ?ds" using path_dir_join [OF plain _ _ last] by simp
  moreover have "js_split (CHR ''/'') (js_join ''/'' ?ds) = ?ds" using plain by (intro split_join_slash) simp_all
  moreover have "js_join ''/'' ?ds \<noteq> []" by simp
  ultimately show ?thesis
    using assms(1) by (simp add: validateFileWithOwner_def parseFilePath_def part_def checkValidApp_def plain_segment_def)
qed

lemma climbing_resolves:
  assumes "list_all plain_segment rs" "rs \<noteq> []" "plain_segment i" "list_all plain_segment ts" "ts \<noteq> []"
  shows "path_resolve (abs_path rs @ ''/'' @ climbing i (length rs + 2) ts) = abs_path ts"
proof -
  have "list_all plain_segment [''sunstone'', i]" using assms(3) by (simp add: plain_segment_def)
  then have "norm_segments True (rev rs) ([''sunstone'', i] @ replicate (length rs + 2) ''..'' @ ts) =
      norm_segments True (rev [''sunstone'', i] @ rev rs) (replicate (length rs + 2) ''..'' @ ts)"
    by (rule norm_segments_app)
  also have "\<dots> = norm_segments True [] ts"
    using assms(1,3) by (intro norm_segments_climb) (auto simp: plain_segment_def)
  also have "\<dots> = ts" using norm_segments_id [OF assms(4), of True "[]"] by simp
  finally show ?thesis
    using resolve_below [OF assms(1,2)] climbing_parts [OF assms(3,4)] assms(5) by (simp add: abs_path_join)
qed

lemma update_files_moves: "e \<in> set (fst (update_files d p fs b)) \<Longrightarrow> \<exists>src. e = MoveFile src p True"
  by (induction d p fs b rule: update_files.induct) (auto split: if_splits option.splits prod.splits)

text \<open>What a deletion or an update does, apart from its answer, it does to the path of an owned name.\<close>

lemma written_path:
  assumes "e \<in> set (deleteFile env file u) \<union> set (update_file env file files u)" "fe_cpi env = Some root"
  shows "(\<exists>r. e = Answer r) \<or>
    validateFileWithOwner file (ra_id u) \<and> (e = RemoveFile (root @ ''/'' @ file) \<or> (\<exists>src. e = MoveFile src (root @ ''/'' @ file) True))"
  using assms
proof (elim UnE)
  assume "e \<in> set (deleteFile env file u)" "fe_cpi env = Some root"
  then show ?thesis by (auto simp: deleteFile_def removeFile_def Let_def split: if_splits)
next
  assume e: "e \<in> set (update_file env file files u)" and root: "fe_cpi env = Some root"
  show ?thesis
  proof (cases "validateFileWithOwner file (ra_id u)")
    case True
    obtain es code message moved where run: "update_files (fe_disk env) (root @ ''/'' @ file) (the_default [] files) False = (es, code, message, moved)"
      by (metis prod.exhaust)
    then have "e' \<in> set es \<Longrightarrow> \<exists>src. e' = MoveFile src (root @ ''/'' @ file) True" for e'
      using update_files_moves [of e' "fe_disk env" "root @ ''/'' @ file" "the_default [] files" False] by simp
    then show ?thesis using e root run True by (auto simp: update_file_def Let_def split: if_splits)
  next
    case False
    then show ?thesis using e by (auto simp: update_file_def)
  qed
qed

text \<open>A name that only climbs belongs to no application: it is looked up among the images of the interface.\<close>

definition climbing_image :: "nat \<Rightarrow> string list \<Rightarrow> string" where
  "climbing_image n ts = js_join ''/'' (replicate (Suc n) ''..'' @ ts)"

lemma dots_no_slash:
  assumes "list_all plain_segment ts" shows "list_all (\<lambda>w. CHR ''/'' \<notin> set w) (replicate n ''..'' @ ts)"
proof -
  have "list_all (\<lambda>w. CHR ''/'' \<notin> set w) (replicate n ''..'')" by (induction n) simp_all
  then show ?thesis using plain_no_slash [OF assms] by simp
qed

lemma climbing_image_no_app:
  assumes "list_all plain_segment ts" "ts \<noteq> []"
  shows "\<not> validateFileWithOwner (climbing_image n ts) i" "\<not> validateFileWithoutOwner (climbing_image n ts)"
    "climbing_image n ts \<noteq> []"
proof -
  let ?ds = "replicate (Suc n) ''..'' @ butlast ts"
  have ts: "ts = butlast ts @ [last ts]" using assms(2) by simp
  have plain: "list_all (\<lambda>s. CHR ''/'' \<notin> set s) (?ds @ [last ts])"
    using dots_no_slash [OF assms(1), of "Suc n"] ts by (metis append_assoc)
  have last: "last ts \<noteq> []" using assms by (auto simp: list_all_iff plain_segment_def)
  have name: "climbing_image n ts = js_join ''/'' (?ds @ [last ts])" using ts by (metis append_assoc climbing_image_def)
  then have dir: "path_dir (climbing_image n ts) = js_join ''/'' ?ds" using path_dir_join [OF plain _ _ last] by simp
  have "js_split (CHR ''/'') (js_join ''/'' ?ds) = ?ds" using plain by (intro split_join_slash) simp_all
  moreover have "\<not> checkValidApp ''..''" by (simp add: checkValidApp_def object_prototype_def)
  ultimately show "\<not> validateFileWithOwner (climbing_image n ts) i" "\<not> validateFileWithoutOwner (climbing_image n ts)"
    unfolding validateFileWithOwner_def validateFileWithoutOwner_def parseFilePath_def dir by (auto simp: part_def Let_def)
  show "climbing_image n ts \<noteq> []" by (cases "replicate n ''..'' @ ts") (simp_all add: climbing_image_def)
qed

lemma climbing_image_resolves:
  assumes "list_all plain_segment gs" "gs \<noteq> []" "list_all plain_segment ts" "ts \<noteq> []"
  shows "path_resolve (abs_path gs @ ''/'' @ climbing_image (length gs) ts) = abs_path ts"
proof -
  have "js_split (CHR ''/'') (climbing_image (length gs) ts) = replicate (Suc (length gs)) ''..'' @ ts"
    unfolding climbing_image_def by (rule split_join_slash) (simp, rule dots_no_slash [OF assms(3)])
  moreover have "norm_segments True (rev gs) (replicate (Suc (length gs)) ''..'' @ ts) = norm_segments True [] ts"
    using assms(1) by (intro norm_segments_climb) auto
  moreover have "norm_segments True [] ts = ts" using norm_segments_id [OF assms(3), of True "[]"] by simp
  ultimately show ?thesis using resolve_below [OF assms(1,2)] assms(4) by (simp add: abs_path_join)
qed

lemma abs_path_slash: "rs \<noteq> [] \<Longrightarrow> \<exists>r. abs_path rs = CHR ''/'' # r"
  by (cases rs) (auto simp: abs_path_def)

text \<open>A rejected upload is stored all the same: after the answer the handler goes on.\<close>

lemma rejected_upload_stored:
  assumes "checkUserAdmin (fe_user_info env (ra_user u) (ra_password u)) (ra_id u) = Some False"
    "app \<noteq> []" "\<not> checkValidApp app" "fe_cpi env = Some root"
    "uf_originalname f \<noteq> []" "uf_path f \<noteq> []" "uf_filename f \<noteq> []"
    "dk_mkdirs (fe_disk env) (root @ ''/'' @ app @ ''/'' @ ra_id u) = None"
  shows "Answer httpBadRequest \<in> set (fst (upload env (Some app) (Some [f]) public u))"
    and "MoveFile (uf_path f) (root @ ''/'' @ app @ ''/'' @ ra_id u @ ''/'' @ uf_filename f @ path_ext (uf_originalname f)) False
      \<in> set (fst (upload env (Some app) (Some [f]) public u))"
  using assms by (auto simp: upload_def shown_path_def Let_def split: option.splits prod.splits if_splits)

text \<open>Logging out does not take the files away from a token: the sessions are not asked.\<close>

lemma files_after_logout:
  "show_file lib (removeUserSession jti g) env file token app = show_file lib g env file token app"
proof -
  have "FIREEDGE_KEY (removeUserSession jti g) = FIREEDGE_KEY g"
    by (simp add: removeUserSession_def ensureSessionStore_def Let_def split: option.splits)
  then show ?thesis by (simp add: show_file_def jwtDecode_def signing_key_def)
qed

section \<open>Properties\<close>

text \<open>
  C12. A user who names files without double dots deletes and replaces files of his own alone: whatever a
  deletion or an update does to the disk, the path it writes resolves to one below the directory of an
  application and of that user.
\<close>

theorem own_files_only:
  assumes "fe_cpi env = Some (abs_path rs)" "list_all plain_segment rs" "rs \<noteq> []" "plain_segment (ra_id u)"
    "''..'' \<notin> set (js_split (CHR ''/'') file)"
    "e \<in> set (deleteFile env file u) \<union> set (update_file env file files u)" "\<forall>r. e \<noteq> Answer r"
  shows "\<exists>p app ss. (e = RemoveFile p \<or> (\<exists>src. e = MoveFile src p True)) \<and> checkValidApp app \<and>
    list_all plain_segment ss \<and> path_resolve p = abs_path (rs @ [app, ra_id u] @ ss)"
proof -
  have w: "validateFileWithOwner file (ra_id u)"
    "e = RemoveFile (abs_path rs @ ''/'' @ file) \<or> (\<exists>src. e = MoveFile src (abs_path rs @ ''/'' @ file) True)"
    using written_path [OF assms(6,1)] assms(7) by auto
  show ?thesis using owned_path_below [OF w(1) assms(2-5)] w(2) by blast
qed

definition sample_env :: "string list \<Rightarrow> file_env" where
  "sample_env images =
     \<lparr>fe_cpi = Some (abs_path [''var'', ''cpi'']), fe_images = Some (abs_path images),
      fe_disk = \<lparr>dk_node = (\<lambda>p. Some (FileNode [])), dk_mkdirs = (\<lambda>p. None), dk_move = (\<lambda>s t b. None), dk_remove = (\<lambda>p. None)\<rparr>,
      fe_user_info = (\<lambda>u k i. Inr (JObj [(''USER'', JObj [(''GROUPS'', JObj [(''ID'', JStr ''1'')])])]))\<rparr>"

definition sample_user :: req_auth where
  "sample_user = \<lparr>ra_id = ''5'', ra_user = ''ana'', ra_password = ''t''\<rparr>"

theorem own_files_only_witness:
  "\<exists>p app ss. (RemoveFile ''/var/cpi/sunstone/5/a.png'' = RemoveFile p \<or> (\<exists>src. RemoveFile ''/var/cpi/sunstone/5/a.png'' = MoveFile src p True)) \<and>
     checkValidApp app \<and> list_all plain_segment ss \<and> path_resolve p = abs_path ([''var'', ''cpi''] @ [app, ra_id sample_user] @ ss)"
proof (rule own_files_only [of "sample_env [''img'']" _ _ "''sunstone/5/a.png''" _ None])
  show "RemoveFile ''/var/cpi/sunstone/5/a.png'' \<in>
      set (deleteFile (sample_env [''img'']) ''sunstone/5/a.png'' sample_user) \<union>
      set (update_file (sample_env [''img'']) ''sunstone/5/a.png'' None sample_user)"
    by code_simp
qed (simp_all add: sample_env_def sample_user_def plain_segment_def)

text \<open>
  With double dots every file is within reach: for any path of the file system at which there is a file
  there is a name that a user may delete, since its first two segments are his, and the path that is removed
  resolves to that file; and there is a name under which anyone who holds a token is sent that file.
\<close>

theorem any_file_reachable:
  assumes "fe_cpi env = Some (abs_path rs)" "list_all plain_segment rs" "rs \<noteq> []" "plain_segment (ra_id u)"
    "fe_images env = Some (abs_path gs)" "list_all plain_segment gs" "gs \<noteq> []"
    "list_all plain_segment ts" "ts \<noteq> []"
    "\<forall>s. path_resolve (CHR ''/'' # s) = abs_path ts \<longrightarrow> existsFile (fe_disk env) (CHR ''/'' # s)"
    "jwtDecode lib g token = Inr payload" "token \<noteq> []"
  shows "(\<exists>file p. RemoveFile p \<in> set (deleteFile env file u) \<and> path_resolve p = abs_path ts) \<and>
    (\<exists>file r. show_file lib g env file token ''sunstone'' = Inr [Answer r] \<and> hr_file r = Some (abs_path ts))"
proof -
  let ?f = "climbing (ra_id u) (length rs + 2) ts" and ?h = "climbing_image (length gs) ts"
  note del = climbing_resolves [OF assms(2-4,8,9)] and img = climbing_image_resolves [OF assms(6-9)]
  have found: "existsFile (fe_disk env) (abs_path rs @ ''/'' @ ?f)" "existsFile (fe_disk env) (abs_path gs @ ''/'' @ ?h)"
    using assms(10) del img abs_path_slash [OF assms(3)] abs_path_slash [OF assms(7)] by (metis append_Cons)+
  have "?f \<noteq> []" by (simp add: climbing_def)
  then have "RemoveFile (abs_path rs @ ''/'' @ ?f) \<in> set (deleteFile env ?f u)"
    using found(1) climbing_owned [OF assms(4,8,9)] assms(1,4) abs_path_slash [OF assms(3)]
    by (auto simp: deleteFile_def removeFile_def plain_segment_def Let_def)
  moreover have "show_file lib g env ?h token ''sunstone'' =
      Inr [Answer (httpResponse (Some ok) (JStr []) [] (abs_path ts))]"
    using found(2) img assms(5,11,12) climbing_image_no_app [OF assms(8,9)] abs_path_slash [OF assms(7)]
    by (auto simp: show_file_def defaultFile_def checkValidApp_def)
  moreover have "hr_file (httpResponse (Some ok) (JStr []) [] (abs_path ts)) = Some (abs_path ts)"
    using abs_path_slash [OF assms(9)] by (auto simp: httpResponse_def Let_def)
  ultimately show ?thesis using del by blast
qed

definition sample_globals :: globals where
  "sample_globals = initial_globals\<lparr>FIREEDGE_KEY := Some ''k''\<rparr>"

theorem any_file_reachable_witness:
  "(\<exists>file p. RemoveFile p \<in> set (deleteFile (sample_env [''img'']) file sample_user) \<and> path_resolve p = abs_path [''etc'', ''passwd'']) \<and>
   (\<exists>file r. show_file plain_jwt sample_globals (sample_env [''img'']) file
       (jwt_encode plain_jwt \<lparr>jp_iss = ''5'', jp_aud = ''ana'', jp_jti = ''t''\<rparr> ''k'') ''sunstone'' = Inr [Answer r] \<and>
     hr_file r = Some (abs_path [''etc'', ''passwd'']))"
proof (rule any_file_reachable [where rs = "[''var'', ''cpi'']" and gs = "[''img'']"])
  show "jwtDecode plain_jwt sample_globals (jwt_encode plain_jwt \<lparr>jp_iss = ''5'', jp_aud = ''ana'', jp_jti = ''t''\<rparr> ''k'') =
      Inr \<lparr>jp_iss = ''5'', jp_aud = ''ana'', jp_jti = ''t''\<rparr>"
    by (rule jwtDecode_jwtEncode [OF plain_jwt_correct]) (simp add: jwtEncode_def signing_key_def sample_globals_def)
  show "jwt_encode plain_jwt \<lparr>jp_iss = ''5'', jp_aud = ''ana'', jp_jti = ''t''\<rparr> ''k'' \<noteq> []"
    by (simp add: plain_jwt_def)
  show "\<forall>s. path_resolve (CHR ''/'' # s) = abs_path [''etc'', ''passwd''] \<longrightarrow> existsFile (fe_disk (sample_env [''img''])) (CHR ''/'' # s)"
    by (simp add: sample_env_def existsFile_def)
qed (simp_all add: sample_env_def sample_user_def plain_segment_def)

end
