(* ===== verification/One_Connect.thy ===== *)
theory One_Connect
  imports Xmlrpc
begin

text \<open>
  The connection to the OpenNebula daemon: \<open>opennebulaConnect\<close> and \<open>responseOpennebula\<close> of
  \<open>server/utils/opennebula.js\<close>, \<open>xml2json\<close> of \<open>server/utils/general.js\<close>, and the worker in which the calls of
  the API run (\<open>server/utils/index.worker.js\<close>).

  The XML-RPC client and the XML parser are parameters: the client gives for a method and its arguments the
  error and the value that it passes to its callback, the parser an object or the message of the error that it
  throws.  A call runs to the list of what its callback is given, since nothing obliges it to be called once.
\<close>

text \<open>An error of the client: its message and the body of the answer, empty when there is none.\<close>

record rpc_error =
  re_message :: string
  re_body :: string

record one_lib =
  ol_rpc :: "string \<Rightarrow> string \<Rightarrow> jsval list \<Rightarrow> rpc_error option \<times> jsval"
  ol_parse :: "string \<Rightarrow> string + jsobj"
  ol_namespace :: string

section \<open>The callback of a call\<close>

definition xml2json :: "one_lib \<Rightarrow> string \<Rightarrow> string + jsval" where
  "xml2json lib xml = rbind (ol_parse lib xml) (\<lambda>jsonObj. Inr (if jsonObj = [] then JStr [] else JObj jsonObj))"

definition defaultNamespace :: string where
  "defaultNamespace = ''one''"

text \<open>The element of a value at a position, and \<open>a && b\<close>.\<close>

definition elem :: "jsval \<Rightarrow> nat \<Rightarrow> jsval" where
  "elem v i =
     (case v of
        JArr xs \<Rightarrow> if i < length xs then xs ! i else JUndef
      | JStr s \<Rightarrow> if i < length s then JStr [s ! i] else JUndef
      | JObj fs \<Rightarrow> obj_get fs (to_base 10 i)
      | _ \<Rightarrow> JUndef)"

definition js_and :: "jsval \<Rightarrow> jsval \<Rightarrow> jsval" where
  "js_and a b = (if truthy a then b else a)"

datatype one_event = FillHook | Callback jsval jsval

definition js_message :: "string \<Rightarrow> jsval" where
  "js_message m = JObj [(''message'', JStr m)]"

text \<open>The message of a fault: the first member of its structure with a text.\<close>

definition fault_text :: "jsval \<Rightarrow> jsval option" where
  "fault_text result =
     (case prop_get (prop_get (prop_get (prop_get (prop_get result ''methodResponse'') ''fault'') ''value'') ''struct'') ''member'' of
        JArr members \<Rightarrow> map_option (\<lambda>e. prop_get (prop_get e ''value'') ''string'')
          (find (\<lambda>e. truthy (prop_get (prop_get e ''value'') ''string'')) members)
      | _ \<Rightarrow> None)"

definition messageCall :: "jsval \<Rightarrow> jsval" where
  "messageCall value = (case value of JArr _ \<Rightarrow> elem value 1 | JStr _ \<Rightarrow> value | _ \<Rightarrow> JUndef)"

definition method_call_done :: "one_lib \<Rightarrow> bool \<Rightarrow> bool \<Rightarrow> rpc_error option \<Rightarrow> jsval \<Rightarrow> one_event list" where
  "method_call_done lib fillHookResource parseXML err value =
     (let success = (\<lambda>data. (if fillHookResource then [FillHook] else []) @ [Callback JUndef data]);
          failed = [Callback (case err of Some e \<Rightarrow> JStr (re_message e) | None \<Rightarrow> JNull) (js_and value (elem value 1))];
          parsed = (\<lambda>text k. case xml2json lib text of Inl m \<Rightarrow> [Callback (js_message m) JUndef] | Inr result \<Rightarrow> k result);
          body = (case err of Some e \<Rightarrow> re_body e | None \<Rightarrow> [])
      in if body \<noteq> [] then
           (if parseXML then parsed body (\<lambda>result. case fault_text result of Some t \<Rightarrow> success t | None \<Rightarrow> [])
            else success (JStr body))
         else if truthy (elem value 0) \<and> truthy (elem value 1) then
           (case messageCall value of
              JStr text \<Rightarrow>
                if text = [] then failed
                else if parseXML then
                  parsed text (\<lambda>result. success (if result = JStr [] then JStr (json_stringify (JStr text)) else result))
                else success (JStr text)
            | _ \<Rightarrow> failed)
         else failed)"

text \<open>A call: nothing happens without credentials, an endpoint and an action.\<close>

record one_request =
  oq_action :: string
  oq_parameters :: "jsval list"
  oq_fillHookResource :: bool
  oq_parseXML :: bool

definition opennebulaConnect ::
  "one_lib \<Rightarrow> string \<Rightarrow> string \<Rightarrow> string \<Rightarrow> one_request \<Rightarrow> globals \<Rightarrow> (jsval \<times> jsval) list \<times> globals" where
  "opennebulaConnect lib username password zoneURL q g =
     (if username \<noteq> [] \<and> password \<noteq> [] \<and> zoneURL \<noteq> [] \<and> oq_action q \<noteq> [] then
        (let namespace = (if ol_namespace lib = [] then defaultNamespace else ol_namespace lib);
             (err, value) = ol_rpc lib zoneURL (namespace @ ''.'' @ oq_action q)
               (JStr (username @ '':'' @ password) # oq_parameters q);
             es = method_call_done lib (oq_fillHookResource q) (oq_parseXML q) err value
         in (concat (map (\<lambda>e. case e of Callback a b \<Rightarrow> [(a, b)] | FillHook \<Rightarrow> []) es),
             if FillHook \<in> set es then fillResourceforHookConnection username (oq_action q) (oq_parameters q) g else g))
      else ([], g))"

definition defaultMessageProblemOpennebula :: string where
  "defaultMessageProblemOpennebula = ''Problem with connection or xml parser''"

text \<open>What \<open>responseOpennebula\<close> does: set the error and go on, go on with the value, or nothing.\<close>

datatype response_step = SetError http_result | Respond jsval | Nothing

definition responseOpennebula :: "bool \<Rightarrow> jsval \<Rightarrow> jsval \<Rightarrow> bool \<Rightarrow> response_step" where
  "responseOpennebula has_res err value has_response =
     (if truthy err \<and> has_res
      then SetError ((of_code internalServerError)\<lparr>hr_data := Some (JStr defaultMessageProblemOpennebula)\<rparr>)
      else if has_response then Respond value else Nothing)"

section \<open>The worker\<close>

text \<open>The messages a worker posts for one it receives; its own globals are thrown away with it.\<close>

definition worker_message :: "jsval \<times> jsval \<Rightarrow> jsval" where
  "worker_message ev = JObj [(''err'', fst ev), (''value'', snd ev)]"

definition onmessage :: "one_lib \<Rightarrow> rpc_call option \<Rightarrow> jsval list" where
  "onmessage lib config =
     (case config of
        Some c \<Rightarrow>
          if rc_user c \<noteq> [] \<and> rc_password c \<noteq> [] \<and> rc_rpc c \<noteq> [] \<and> rc_command c \<noteq> []
          then map worker_message (fst (opennebulaConnect lib (rc_user c) (rc_password c) (rc_rpc c)
                 \<lparr>oq_action = rc_command c, oq_parameters = rc_params c, oq_fillHookResource = True, oq_parseXML = True\<rparr>
                 initial_globals))
          else [JStr []]
      | None \<Rightarrow> [JStr []])"

text \<open>What the server takes of the first message, when there is one.\<close>

definition worker_reply :: "one_lib \<Rightarrow> rpc_call \<Rightarrow> worker_result option" where
  "worker_reply lib c =
     (case onmessage lib (Some c) of
        [] \<Rightarrow> None
      | m # _ \<Rightarrow> Some \<lparr>wr_err = truthy (prop_get m ''err''), wr_value = prop_get m ''value''\<rparr>)"

section \<open>What the callback is given\<close>

text \<open>An answer of the daemon is a flag, a value or a message, and a code.\<close>

definition daemon_reply :: "bool \<Rightarrow> jsval \<Rightarrow> int \<Rightarrow> jsval" where
  "daemon_reply success v code = JArr [JBool success, v, JNum code]"

lemma elem_reply [simp]: "elem (daemon_reply b v n) 0 = JBool b" "elem (daemon_reply b v n) (Suc 0) = v"
  "truthy (daemon_reply b v n)" "messageCall (daemon_reply b v n) = v"
  by (simp_all add: elem_def daemon_reply_def messageCall_def)

text \<open>Numbers and flags are handed on; so is the message of a call that the daemon refuses.\<close>

lemma reply_handed_on:
  assumes "\<not> b \<or> \<not> truthy v \<or> (\<forall>s. v \<noteq> JStr s)"
  shows "method_call_done lib fill px None (daemon_reply b v code) = [Callback JNull v]"
  using assms by (cases v) (auto simp: method_call_done_def js_and_def Let_def)

lemma reply_parsed:
  assumes "text \<noteq> []"
  shows "method_call_done lib fill True None (daemon_reply True (JStr text) code) =
    (case xml2json lib text of
       Inl m \<Rightarrow> [Callback (js_message m) JUndef]
     | Inr result \<Rightarrow> (if fill then [FillHook] else []) @
         [Callback JUndef (if result = JStr [] then JStr (json_stringify (JStr text)) else result)])"
  using assms by (simp add: method_call_done_def Let_def del: json_stringify.simps)

lemmas one_connect_defs = opennebulaConnect_def Let_def

lemma refused_callback:
  assumes "u \<noteq> []" "p \<noteq> []" "url \<noteq> []" "oq_action q \<noteq> []" "ol_namespace lib = []"
    "ol_rpc lib url (''one.'' @ oq_action q) (JStr (u @ '':'' @ p) # oq_parameters q) = (None, daemon_reply False (JStr msg) code)"
  shows "opennebulaConnect lib u p url q g = ([(JNull, JStr msg)], g)"
proof -
  have "ol_rpc lib url ((if ol_namespace lib = [] then defaultNamespace else ol_namespace lib) @ ''.'' @ oq_action q)
      (JStr (u @ '':'' @ p) # oq_parameters q) = (None, daemon_reply False (JStr msg) code)"
    using assms(5,6) by (simp add: defaultNamespace_def)
  then show ?thesis using assms(1-4) reply_handed_on [of False] by (simp add: one_connect_defs)
qed

text \<open>A fault is handed on as a success, and an error whose body holds no fault calls nobody back.\<close>

lemma fault_is_success:
  assumes "re_body e \<noteq> []" "xml2json lib (re_body e) = Inr result"
  shows "method_call_done lib fill True (Some e) value =
    (case fault_text result of Some t \<Rightarrow> (if fill then [FillHook] else []) @ [Callback JUndef t] | None \<Rightarrow> [])"
  using assms by (simp add: method_call_done_def Let_def)

section \<open>Properties\<close>

text \<open>
  C31. What a user may not see opens a socket for him all the same: when the daemon refuses the information of
  an object, the client is answered 404 with the message of the daemon, but the object is remembered as one the
  user asked about, and the hook socket of that object goes through for his token.
\<close>

theorem refused_info_opens_socket:
  assumes "ol_namespace lib = []" "rc_user c \<noteq> []" "rc_password c \<noteq> []" "rc_rpc c \<noteq> []" "rc_params c = JNum n # ps"
    "info_action (rc_command c) = Some r" "r \<noteq> []" "0 \<le> n"
    "ol_rpc lib (rc_rpc c) (''one.'' @ rc_command c) (JStr (rc_user c @ '':'' @ rc_password c) # rc_params c) =
       (None, daemon_reply False (JStr msg) code)"
    "msg \<noteq> []" "json_parse msg = Inl e"
    "worker_reply lib c = Some result" "executeWorker (\<lambda>_. result) c g = ((answer, calls), g')"
    "validateAuthWebsocket jwt g' hs = WsSession p" "jp_aud p = rc_user c" "parse_int (query_text (hs_id hs)) = Some n"
    "hs_resource hs = Single kind" "to_lower kind = hook_kind r"
  shows "answer = Some (httpResponse (Some notFound) (JStr msg) [] []) \<and> hook_connect jwt g' hs = Inr WsNext"
proof -
  have cmd: "rc_command c \<noteq> []" using assms(6) by (auto simp: info_action_def)
  let ?q = "\<lparr>oq_action = rc_command c, oq_parameters = rc_params c, oq_fillHookResource = True, oq_parseXML = True\<rparr>"
  have "opennebulaConnect lib (rc_user c) (rc_password c) (rc_rpc c) ?q initial_globals = ([(JNull, JStr msg)], initial_globals)"
    by (rule refused_callback) (use assms(1-4,9) cmd in simp_all)
  then have "onmessage lib (Some c) = [worker_message (JNull, JStr msg)]"
    using assms(2-4) cmd by (simp add: onmessage_def)
  then have r: "\<not> wr_err result" "wr_value result = JStr msg"
    using assms(12) by (auto simp: worker_reply_def worker_message_def obj_get_def)
  have ex: "answer = Some (httpResponse (Some notFound) (JStr msg) [] [])"
      "g' = fillResourceforHookConnection (rc_user c) (rc_command c) (JNum n # ps) g"
    using assms(2-5,10,11,13) r cmd by (auto simp: executeWorker_def parseReturnWorker_def Let_def)
  have "watches g' (rc_user c) (to_lower kind) n"
    unfolding ex(2) watches_fill [OF assms(6,7,2,8)] using assms(18) by (simp add: hook_kind_def)
  moreover have "kind \<noteq> []"
    using assms(7,18) by (auto simp: to_lower_def hook_kind_def hookObjectNames_def split: if_splits)
  ultimately show ?thesis using ex(1) assms(14-17) by (auto simp: hook_connect_iff)
qed

definition refusing_lib :: one_lib where
  "refusing_lib = \<lparr>ol_rpc = (\<lambda>url name args. (None, daemon_reply False (JStr ''[one.vm.info] Not authorized'') 512)),
     ol_parse = (\<lambda>s. Inr []), ol_namespace = []\<rparr>"

definition refused_call :: rpc_call where
  "refused_call = \<lparr>rc_user = ''bob'', rc_password = ''t'', rc_rpc = ''http://one'', rc_command = ''vm.info'', rc_params = [JNum 7]\<rparr>"

theorem refused_info_opens_socket_witness:
  "hook_connect hook_lib (snd (executeWorker (\<lambda>_. the (worker_reply refusing_lib refused_call)) refused_call
     (initial_globals\<lparr>FIREEDGE_KEY := Some ''k''\<rparr>))) hook_handshake = Inr WsNext"
proof -
  let ?r = "\<lparr>wr_err = False, wr_value = JStr ''[one.vm.info] Not authorized''\<rparr>"
  let ?g = "fillResourceforHookConnection ''bob'' ''vm.info'' [JNum 7] (initial_globals\<lparr>FIREEDGE_KEY := Some ''k''\<rparr>)"
  have ses: "validateAuthWebsocket hook_lib ?g hook_handshake = WsSession \<lparr>jp_iss = ''2'', jp_aud = ''bob'', jp_jti = ''x''\<rparr>"
    by (rule hook_handshake_session) (simp add: fill_frame)
  have w: "worker_reply refusing_lib refused_call = Some ?r" by code_simp
  have x: "executeWorker (\<lambda>_. ?r) refused_call (initial_globals\<lparr>FIREEDGE_KEY := Some ''k''\<rparr>) =
      ((Some (parseReturnWorker (wr_value ?r)), [refused_call]), ?g)"
    by (simp add: executeWorker_def refused_call_def)
  have "json_parse ''[one.vm.info] Not authorized'' = Inl SyntaxError" by code_simp
  moreover have "parse_int (query_text (hs_id hook_handshake)) = Some 7" by code_simp
  moreover have "to_lower ''VM'' = hook_kind ''vm''" by code_simp
  moreover have "info_action (rc_command refused_call) = Some ''vm''" by code_simp
  ultimately have "hook_connect hook_lib ?g hook_handshake = Inr WsNext"
    using refused_info_opens_socket [OF _ _ _ _ _ _ _ _ _ _ _ w x ses, of 7 "[]" "''vm''" "''[one.vm.info] Not authorized''" 512 SyntaxError]
    by (simp add: refusing_lib_def refused_call_def hook_handshake_def)
  then show ?thesis by (simp add: w x)
qed

end
