(* ===== verification/Vdc.thy ===== *)
theory Vdc
  imports One_Connect "HOL-Library.Multiset"
begin

text \<open>
  Virtual data centres (\<open>server/routes/api/vdc/functions.js\<close>).  An update compares what the request lists with
  what the daemon has, issues one call for each difference and answers when all of them have called back.  The
  calls run concurrently: their callbacks come one at a time, after the handler has run to its end, in any order.

  The replies of the daemon are parameters, each the two arguments of its callback.  Identifiers are values as the
  request and the XML hold them; \<open>None\<close> is the number NaN.
\<close>

section \<open>Data\<close>

datatype vdc_kind = VGroup | VCluster | VDatastore | VHost | VVnet

datatype vdc_op = VAdd | VDel

type_synonym vdc_slot = "vdc_kind \<times> vdc_op"

record vdc_resource =
  vr_zone :: jsval
  vr_ids :: "jsval list"

record vdc_request =
  vq_id :: string
  vq_template :: string
  vq_groups :: "jsval list"
  vq_clusters :: "vdc_resource list"
  vq_datastores :: "vdc_resource list"
  vq_hosts :: "vdc_resource list"
  vq_vnets :: "vdc_resource list"

record vdc_call =
  vc_slot :: vdc_slot
  vc_params :: "int option list"

fun vdc_action :: "vdc_slot \<Rightarrow> string" where
  "vdc_action (VGroup, VAdd) = ''vdc.addgroup''"
| "vdc_action (VGroup, VDel) = ''vdc.delgroup''"
| "vdc_action (VCluster, VAdd) = ''vdc.addcluster''"
| "vdc_action (VCluster, VDel) = ''vdc.delcluster''"
| "vdc_action (VDatastore, VAdd) = ''vdc.adddatastore''"
| "vdc_action (VDatastore, VDel) = ''vdc.deldatastore''"
| "vdc_action (VHost, VAdd) = ''vdc.addhost''"
| "vdc_action (VHost, VDel) = ''vdc.delhost''"
| "vdc_action (VVnet, VAdd) = ''vdc.addvnet''"
| "vdc_action (VVnet, VDel) = ''vdc.delvnet''"

fun requested :: "vdc_request \<Rightarrow> vdc_kind \<Rightarrow> vdc_resource list" where
  "requested q VGroup = []"
| "requested q VCluster = vq_clusters q"
| "requested q VDatastore = vq_datastores q"
| "requested q VHost = vq_hosts q"
| "requested q VVnet = vq_vnets q"

text \<open>Where the information of a data centre holds the resources of a kind, and the name of their identifier.\<close>

fun xml_data :: "jsval \<Rightarrow> vdc_kind \<Rightarrow> jsval" where
  "xml_data info VGroup = prop_get (prop_get info ''GROUPS'') ''ID''"
| "xml_data info VCluster = prop_get (prop_get info ''CLUSTERS'') ''CLUSTER''"
| "xml_data info VDatastore = prop_get (prop_get info ''DATASTORES'') ''DATASTORE''"
| "xml_data info VHost = prop_get (prop_get info ''HOSTS'') ''HOST''"
| "xml_data info VVnet = prop_get (prop_get info ''VNETS'') ''VNET''"

fun xml_key :: "vdc_kind \<Rightarrow> string" where
  "xml_key VGroup = ''ID''"
| "xml_key VCluster = ''CLUSTER_ID''"
| "xml_key VDatastore = ''DATASTORE_ID''"
| "xml_key VHost = ''HOST_ID''"
| "xml_key VVnet = ''VNET_ID''"

text \<open>\<open>parseInt(v, 10)\<close> on the texts and numbers that identify resources.\<close>

definition js_parse_int :: "jsval \<Rightarrow> int option" where
  "js_parse_int v = (case v of JStr s \<Rightarrow> parse_int s | JNum n \<Rightarrow> Some n | _ \<Rightarrow> None)"

definition as_list :: "jsval \<Rightarrow> jsval list" where
  "as_list v = (if truthy v then (case v of JArr xs \<Rightarrow> xs | _ \<Rightarrow> [v]) else [])"

section \<open>Differences\<close>

definition resourcesForDelete :: "jsval \<Rightarrow> vdc_resource list \<Rightarrow> string \<Rightarrow> jsval list" where
  "resourcesForDelete xmlData externalData xmlKey =
     filter (\<lambda>item. \<not> list_ex (\<lambda>r. vr_zone r = prop_get item ''ZONE_ID'' \<and> prop_get item xmlKey \<in> set (vr_ids r)) externalData)
       (as_list xmlData)"

definition resourcesForAdd :: "jsval \<Rightarrow> vdc_resource list \<Rightarrow> string \<Rightarrow> vdc_resource list" where
  "resourcesForAdd xmlData externalData xmlKey =
     map (\<lambda>obj. obj\<lparr>vr_ids := filter (\<lambda>val. \<not> list_ex (\<lambda>item. prop_get item ''ZONE_ID'' = vr_zone obj \<and> prop_get item xmlKey = val)
        (as_list xmlData)) (vr_ids obj)\<rparr>) externalData"

definition limitResourceAdd :: "vdc_resource list \<Rightarrow> nat" where
  "limitResourceAdd data = foldl (\<lambda>suma obj. suma + length (vr_ids obj)) 0 data"

definition groupsForVDC :: "jsval list \<Rightarrow> jsval \<Rightarrow> bool \<Rightarrow> jsval list" where
  "groupsForVDC externalData xmlData del =
     (if del then filter (\<lambda>v. v \<notin> set externalData) (as_list xmlData)
      else filter (\<lambda>v. v \<notin> set (as_list xmlData)) externalData)"

section \<open>Creating\<close>

definition add_calls :: "int option \<Rightarrow> vdc_kind \<Rightarrow> vdc_resource list \<Rightarrow> vdc_call list" where
  "add_calls vdcId kind rs =
     concat (map (\<lambda>r. map (\<lambda>i. \<lparr>vc_slot = (kind, VAdd), vc_params = [vdcId, js_parse_int (vr_zone r), js_parse_int i]\<rparr>) (vr_ids r)) rs)"

definition group_calls :: "int option \<Rightarrow> jsval list \<Rightarrow> vdc_call list" where
  "group_calls vdcId gs = map (\<lambda>g. \<lparr>vc_slot = (VGroup, VAdd), vc_params = [vdcId, js_parse_int g]\<rparr>) gs"

text \<open>The errors of each kind, in the order of the object that holds them, and their message.\<close>

definition create_kinds :: "(vdc_kind \<times> string) list" where
  "create_kinds = [(VHost, ''hosts''), (VDatastore, ''datastores''), (VVnet, ''vnets''), (VCluster, ''clusters''), (VGroup, ''groups'')]"

definition created_answer :: "(vdc_kind \<Rightarrow> string list) \<Rightarrow> jsval \<Rightarrow> http_result" where
  "created_answer vdcErrors vdcId =
     (if list_ex (\<lambda>(k, n). vdcErrors k \<noteq> []) create_kinds
      then httpResponse (Some ok)
        (JStr (concat (map (\<lambda>(k, n). if vdcErrors k \<noteq> [] then n @ '': '' @ js_join '', '' (vdcErrors k) @ [CHR 0x0A] else []) create_kinds))) [] []
      else httpResponse (Some ok) vdcId [] [])"

text \<open>The answer is decided before any callback of the calls has run, so with no errors; what the callbacks find
  later is added to a list that nobody reads.\<close>

definition createVdc :: "(string \<Rightarrow> jsval \<times> jsval) \<Rightarrow> vdc_request \<Rightarrow> http_result \<times> vdc_call list" where
  "createVdc allocate q =
     (let (vdcInfoErr, vdcId) = allocate (vq_template q); n = js_parse_int vdcId
      in if truthy vdcInfoErr \<or> to_number vdcId = None
         then (httpResponse (Some badRequest) vdcInfoErr [] [], [])
         else (created_answer (\<lambda>_. []) vdcId,
               add_calls n VCluster (vq_clusters q) @ add_calls n VHost (vq_hosts q) @ add_calls n VDatastore (vq_datastores q) @
               add_calls n VVnet (vq_vnets q) @ group_calls n (vq_groups q)))"

section \<open>Updating\<close>

datatype vdc_event = VdcAnswer http_result | VdcThrow js_error

record update_state =
  us_limits :: "vdc_slot \<Rightarrow> nat"
  us_results :: "vdc_slot \<Rightarrow> nat"
  us_errors :: "vdc_slot \<Rightarrow> jsval list"
  us_pending :: "vdc_call list"
  us_events :: "vdc_event list"

definition vdc_slots :: "vdc_slot list" where
  "vdc_slots = List.product [VGroup, VCluster, VDatastore, VHost, VVnet] [VAdd, VDel]"

text \<open>When all calls have called back: with an error, the message is built by \<open>errors.join\<close>, but \<open>errors\<close> is an
  object with the fields add and del, which has no such function.\<close>

definition callbackRequest :: "string \<Rightarrow> update_state \<Rightarrow> update_state" where
  "callbackRequest i st =
     (if list_all (\<lambda>s. us_limits st s = us_results st s) vdc_slots then
        st\<lparr>us_events := us_events st @
          [if list_ex (\<lambda>s. us_errors st s \<noteq> []) vdc_slots then VdcThrow TypeError
           else VdcAnswer (httpResponse (Some ok) (JStr i) [] [])]\<rparr>
      else st)"

definition del_group_calls :: "int option \<Rightarrow> jsval list \<Rightarrow> vdc_call list" where
  "del_group_calls vdcID gs =
     concat (map (\<lambda>g. case js_parse_int g of
        Some n \<Rightarrow> [\<lparr>vc_slot = (VGroup, VDel), vc_params = [vdcID, Some n]\<rparr>] | None \<Rightarrow> []) gs)"

definition del_calls :: "int option \<Rightarrow> vdc_kind \<Rightarrow> jsval list \<Rightarrow> vdc_call list" where
  "del_calls vdcID kind items =
     concat (map (\<lambda>item. case (js_parse_int (prop_get item ''ZONE_ID''), js_parse_int (prop_get item (xml_key kind))) of
        (Some z, Some n) \<Rightarrow> [\<lparr>vc_slot = (kind, VDel), vc_params = [vdcID, Some z, Some n]\<rparr>] | _ \<Rightarrow> []) items)"

definition vdc_for_delete :: "vdc_request \<Rightarrow> jsval \<Rightarrow> vdc_kind \<Rightarrow> jsval list" where
  "vdc_for_delete q info kind =
     (if kind = VGroup then groupsForVDC (vq_groups q) (xml_data info VGroup) True
      else resourcesForDelete (xml_data info kind) (requested q kind) (xml_key kind))"

definition vdc_for_add :: "vdc_request \<Rightarrow> jsval \<Rightarrow> vdc_kind \<Rightarrow> vdc_resource list" where
  "vdc_for_add q info kind = resourcesForAdd (xml_data info kind) (requested q kind) (xml_key kind)"

definition groups_for_add :: "vdc_request \<Rightarrow> jsval \<Rightarrow> jsval list" where
  "groups_for_add q info = groupsForVDC (vq_groups q) (xml_data info VGroup) False"

definition vdc_limits :: "vdc_request \<Rightarrow> jsval \<Rightarrow> vdc_slot \<Rightarrow> nat" where
  "vdc_limits q info s =
     (case s of
        (kind, VDel) \<Rightarrow> length (vdc_for_delete q info kind)
      | (kind, VAdd) \<Rightarrow> if kind = VGroup then length (groups_for_add q info) else limitResourceAdd (vdc_for_add q info kind))"

text \<open>The calls in the order in which they are issued.\<close>

definition vdc_calls :: "int option \<Rightarrow> vdc_request \<Rightarrow> jsval \<Rightarrow> vdc_call list" where
  "vdc_calls vdcID q info =
     del_group_calls vdcID (vdc_for_delete q info VGroup) @
     concat (map (\<lambda>kind. del_calls vdcID kind (vdc_for_delete q info kind)) [VCluster, VDatastore, VHost, VVnet]) @
     group_calls vdcID (groups_for_add q info) @
     concat (map (\<lambda>kind. add_calls vdcID kind (vdc_for_add q info kind)) [VCluster, VDatastore, VHost, VVnet])"

definition callbackInfo :: "int option \<Rightarrow> vdc_request \<Rightarrow> jsval \<Rightarrow> update_state" where
  "callbackInfo vdcID q info =
     callbackRequest (vq_id q)
       \<lparr>us_limits = vdc_limits q info, us_results = (\<lambda>_. 0), us_errors = (\<lambda>_. []),
        us_pending = vdc_calls vdcID q info, us_events = []\<rparr>"

text \<open>What is left of an update after its first two calls: an answer, or the calls whose callbacks are awaited.\<close>

definition updateVdc ::
  "(int option \<Rightarrow> string \<Rightarrow> jsval \<times> jsval) \<Rightarrow> (int option \<Rightarrow> jsval \<times> jsval) \<Rightarrow> vdc_request \<Rightarrow> http_result + update_state" where
  "updateVdc update info q =
     (if vq_id q = [] then Inl (httpResponse (Some badRequest) JUndef [] [])
      else let vdcID = parse_int (vq_id q); (vdcInfoErr, vdcId) = update vdcID (vq_template q)
           in if truthy vdcInfoErr \<or> to_number vdcId = None then Inl (httpResponse (Some badRequest) vdcInfoErr [] [])
              else let (err, vdcInfo) = info vdcID
                   in if truthy err \<or> \<not> truthy (prop_get vdcInfo ''VDC'') then Inl (httpResponse (Some badRequest) err [] [])
                      else Inr (callbackInfo vdcID q (prop_get vdcInfo ''VDC'')))"

text \<open>The callback of a call.\<close>

definition failed_reply :: "jsval \<times> jsval \<Rightarrow> bool" where
  "failed_reply r \<longleftrightarrow> truthy (fst r) \<or> to_number (snd r) = None"

definition vdc_callback :: "string \<Rightarrow> vdc_call \<Rightarrow> jsval \<times> jsval \<Rightarrow> update_state \<Rightarrow> update_state" where
  "vdc_callback i c r st =
     (let s = vc_slot c
      in callbackRequest i
           (st\<lparr>us_results := (us_results st)(s := us_results st s + 1),
               us_errors := (us_errors st)(s := us_errors st s @ (if failed_reply r then [fst r] else [])),
               us_pending := remove1 c (us_pending st)\<rparr>))"

text \<open>A run: callbacks of pending calls, in any order, each with its reply.\<close>

inductive vdc_run :: "string \<Rightarrow> update_state \<Rightarrow> (vdc_call \<times> jsval \<times> jsval) list \<Rightarrow> update_state \<Rightarrow> bool" where
  vdc_run_done: "vdc_run i st [] st"
| vdc_run_step: "c \<in> set (us_pending st) \<Longrightarrow> vdc_run i (vdc_callback i c r st) rs st' \<Longrightarrow> vdc_run i st ((c, r) # rs) st'"

inductive_cases vdc_runE: "vdc_run i st ((c, r) # rs) st'" "vdc_run i st [] st'"

section \<open>Counting callbacks\<close>

text \<open>Statements about all slots are kept as they are, and not split into kinds and operations.\<close>

declare split_paired_All [simp del] split_paired_Ex [simp del]

lemma vdc_slots_all [simp]: "set vdc_slots = UNIV"
proof -
  have "s \<in> set vdc_slots" for s by (cases s; cases "fst s"; cases "snd s") (auto simp: vdc_slots_def)
  then show ?thesis by auto
qed

definition of_slot :: "vdc_slot \<Rightarrow> vdc_call list \<Rightarrow> nat" where
  "of_slot s cs = length (filter (\<lambda>c. vc_slot c = s) cs)"

lemma of_slot_simps [simp]:
  "of_slot s [] = 0" "of_slot s (c # cs) = (if vc_slot c = s then 1 else 0) + of_slot s cs"
  "of_slot s (cs @ ds) = of_slot s cs + of_slot s ds"
  by (simp_all add: of_slot_def)

lemma of_slot_remove1: "c \<in> set cs \<Longrightarrow> of_slot s (remove1 c cs) = of_slot s cs - (if vc_slot c = s then 1 else 0)"
  by (auto simp: of_slot_def filter_remove1 length_remove1)

text \<open>Every slot has as many calls ahead of it as it still has to count.\<close>

definition counts_ok :: "update_state \<Rightarrow> bool" where
  "counts_ok st \<longleftrightarrow> (\<forall>s. us_results st s + of_slot s (us_pending st) = us_limits st s)"

lemma counts_complete: "counts_ok st \<Longrightarrow> (\<forall>s. us_limits st s = us_results st s) \<longleftrightarrow> us_pending st = []"
proof
  assume ok: "counts_ok st" and all: "\<forall>s. us_limits st s = us_results st s"
  show "us_pending st = []"
  proof (cases "us_pending st")
    case (Cons c cs)
    then have "us_results st (vc_slot c) < us_limits st (vc_slot c)"
      using ok unfolding counts_ok_def by (metis add_gr_0 less_add_same_cancel1 less_one of_slot_simps(2))
    then show ?thesis using all by simp
  qed
qed (auto simp: counts_ok_def)

definition no_errors :: "update_state \<Rightarrow> bool" where
  "no_errors st \<longleftrightarrow> (\<forall>s. us_errors st s = [])"

definition vdc_outcome :: "string \<Rightarrow> bool \<Rightarrow> vdc_event" where
  "vdc_outcome i good = (if good then VdcAnswer (httpResponse (Some ok) (JStr i) [] []) else VdcThrow TypeError)"

lemma callbackRequest_events:
  assumes "counts_ok st"
  shows "callbackRequest i st = st\<lparr>us_events := us_events st @ (if us_pending st = [] then [vdc_outcome i (no_errors st)] else [])\<rparr>"
  using counts_complete [OF assms]
  by (auto simp: callbackRequest_def list_all_iff list_ex_iff no_errors_def vdc_outcome_def)

lemma no_errors_upd: "(\<forall>s. (f(x := f x @ ys)) s = []) \<longleftrightarrow> (\<forall>s. f s = []) \<and> ys = []"
  by (metis append_is_Nil_conv fun_upd_apply)

lemma vdc_callback_state:
  assumes "counts_ok st" "c \<in> set (us_pending st)" and st'_def: "st' = vdc_callback i c r st"
  shows "counts_ok st'" "us_pending st' = remove1 c (us_pending st)" "no_errors st' \<longleftrightarrow> no_errors st \<and> \<not> failed_reply r"
    "us_events st' = us_events st @ (if us_pending st' = [] then [vdc_outcome i (no_errors st')] else [])"
proof -
  let ?u = "st\<lparr>us_results := (us_results st)(vc_slot c := us_results st (vc_slot c) + 1),
    us_errors := (us_errors st)(vc_slot c := us_errors st (vc_slot c) @ (if failed_reply r then [fst r] else [])),
    us_pending := remove1 c (us_pending st)\<rparr>"
  have pos: "of_slot (vc_slot c) (us_pending st) > 0"
    using assms(2) by (auto simp: of_slot_def filter_empty_conv)
  have "us_results ?u s + of_slot s (us_pending ?u) = us_limits ?u s" for s
  proof -
    have "us_results st s + of_slot s (us_pending st) = us_limits st s"
      using assms(1) unfolding counts_ok_def by blast
    then show ?thesis using pos of_slot_remove1 [OF assms(2), of s] by (cases "s = vc_slot c") auto
  qed
  then have ok: "counts_ok ?u" by (simp add: counts_ok_def)
  have st': "st' = ?u\<lparr>us_events := us_events st @ (if us_pending ?u = [] then [vdc_outcome i (no_errors ?u)] else [])\<rparr>"
    unfolding st'_def vdc_callback_def Let_def using callbackRequest_events [OF ok] by simp
  show "counts_ok st'" using ok by (simp add: st' counts_ok_def)
  show "us_pending st' = remove1 c (us_pending st)" by (simp add: st')
  show "no_errors st' \<longleftrightarrow> no_errors st \<and> \<not> failed_reply r"
    unfolding st' no_errors_def by (simp add: no_errors_upd del: fun_upd_apply)
  show "us_events st' = us_events st @ (if us_pending st' = [] then [vdc_outcome i (no_errors st')] else [])"
    by (simp add: st' no_errors_def)
qed

text \<open>Whatever the order of the callbacks, the update ends with the last of them, and only then.\<close>

lemma vdc_run_events:
  assumes "vdc_run i st rs st'" "counts_ok st" "us_pending st \<noteq> []" "us_events st = []"
  shows "us_events st' = (if us_pending st' = [] then [vdc_outcome i (no_errors st \<and> \<not> list_ex (\<lambda>(c, r). failed_reply r) rs)] else [])"
  using assms
proof (induction rule: vdc_run.induct)
  case (vdc_run_step c st i r rs st')
  note st1 = vdc_callback_state [OF vdc_run_step.prems(1) vdc_run_step.hyps(1) refl, of i r]
  show ?case
  proof (cases "us_pending (vdc_callback i c r st) = []")
    case True
    then have "rs = []" "st' = vdc_callback i c r st"
      using vdc_run_step.hyps(2) by (cases rs; auto elim: vdc_run.cases)+
    then show ?thesis using st1 True vdc_run_step.prems(3) by simp
  next
    case False
    then show ?thesis using vdc_run_step.IH [OF st1(1) False] st1(3,4) vdc_run_step.prems(3) by simp
  qed
qed simp

section \<open>The calls of an update\<close>

text \<open>The identifiers the daemon reports are numbers.\<close>

definition info_numeric :: "jsval \<Rightarrow> bool" where
  "info_numeric info \<longleftrightarrow>
     list_all (\<lambda>g. js_parse_int g \<noteq> None) (as_list (xml_data info VGroup)) \<and>
     list_all (\<lambda>kind. list_all (\<lambda>item. js_parse_int (prop_get item ''ZONE_ID'') \<noteq> None \<and> js_parse_int (prop_get item (xml_key kind)) \<noteq> None)
       (as_list (xml_data info kind))) [VCluster, VDatastore, VHost, VVnet]"

lemma of_slot_del_group:
  "list_all (\<lambda>g. js_parse_int g \<noteq> None) gs \<Longrightarrow> of_slot s (del_group_calls n gs) = (if s = (VGroup, VDel) then length gs else 0)"
  by (induction gs) (auto simp: del_group_calls_def)

lemma of_slot_del:
  "list_all (\<lambda>item. js_parse_int (prop_get item ''ZONE_ID'') \<noteq> None \<and> js_parse_int (prop_get item (xml_key kind)) \<noteq> None) items \<Longrightarrow>
     of_slot s (del_calls n kind items) = (if s = (kind, VDel) then length items else 0)"
  by (induction items) (auto simp: del_calls_def)

lemma of_slot_group: "of_slot s (group_calls n gs) = (if s = (VGroup, VAdd) then length gs else 0)"
  by (induction gs) (auto simp: group_calls_def)

lemma limit_add_sum: "limitResourceAdd rs = sum_list (map (\<lambda>r. length (vr_ids r)) rs)"
proof -
  have "foldl (\<lambda>suma obj. suma + length (vr_ids obj)) k rs = k + sum_list (map (\<lambda>r. length (vr_ids r)) rs)" for k
    by (induction rs arbitrary: k) simp_all
  then show ?thesis by (simp add: limitResourceAdd_def)
qed

lemma of_slot_add: "of_slot s (add_calls n kind rs) = (if s = (kind, VAdd) then limitResourceAdd rs else 0)"
proof -
  have "of_slot s (map (\<lambda>i. \<lparr>vc_slot = (kind, VAdd), vc_params = [n, z, js_parse_int i]\<rparr>) is') =
      (if s = (kind, VAdd) then length is' else 0)" for z is'
    by (induction is') auto
  then show ?thesis by (induction rs) (auto simp: add_calls_def limit_add_sum)
qed

lemma for_delete_subset: "set (vdc_for_delete q info kind) \<subseteq> set (as_list (xml_data info kind))"
  by (auto simp: vdc_for_delete_def groupsForVDC_def resourcesForDelete_def)

lemma vdc_calls_counted:
  assumes "info_numeric info"
  shows "of_slot s (vdc_calls n q info) = vdc_limits q info s"
proof -
  have g: "list_all (\<lambda>g. js_parse_int g \<noteq> None) (vdc_for_delete q info VGroup)"
    using assms for_delete_subset [of q info VGroup] by (auto simp: info_numeric_def list_all_iff)
  have "list_all (\<lambda>item. js_parse_int (prop_get item ''ZONE_ID'') \<noteq> None \<and> js_parse_int (prop_get item (xml_key kind)) \<noteq> None) (vdc_for_delete q info kind)"
    if "kind \<noteq> VGroup" for kind
    using assms for_delete_subset [of q info kind] that by (cases kind) (auto simp: info_numeric_def list_all_iff)
  then have d: "of_slot s (del_calls n kind (vdc_for_delete q info kind)) = (if s = (kind, VDel) then length (vdc_for_delete q info kind) else 0)"
    if "kind \<noteq> VGroup" for kind using that by (simp add: of_slot_del)
  obtain kind oper where s: "s = (kind, oper)" by (cases s)
  show ?thesis
    using of_slot_del_group [OF g, of s n] d
    by (cases kind; cases oper) (simp_all add: s vdc_calls_def of_slot_group of_slot_add vdc_limits_def)
qed

section \<open>What the calls achieve\<close>

text \<open>
  The resources of a data centre of each kind, a group by its number and the others by zone and number, and what
  the daemon makes of a call (\<open>ResourceSet::add\<close>, \<open>ResourceSet::del\<close>, \<open>Vdc::add_group\<close> and \<open>Vdc::del_group\<close> of
  \<open>src/vdc/Vdc.cc\<close>): adding what is there and deleting what is not are refused and change nothing; adding the
  identifier that stands for all resources of a zone drops the other ones of that zone.
\<close>

type_synonym vdc_content = "vdc_kind \<Rightarrow> int list set"

definition call_target :: "vdc_call \<Rightarrow> int list" where
  "call_target c = map the (tl (vc_params c))"

definition ALL_RESOURCES :: int where "ALL_RESOURCES = -10"

definition all_of_zone :: "vdc_kind \<Rightarrow> int list \<Rightarrow> bool" where
  "all_of_zone kind t \<longleftrightarrow> kind \<noteq> VGroup \<and> last t = ALL_RESOURCES"

definition apply_call :: "vdc_call \<Rightarrow> vdc_content \<Rightarrow> vdc_content" where
  "apply_call c S =
     (let t = call_target c
      in case vc_slot c of
           (kind, VAdd) \<Rightarrow>
             if t \<in> S kind then S
             else if all_of_zone kind t then S(kind := insert t {u \<in> S kind. hd u \<noteq> hd t})
             else S(kind := insert t (S kind))
         | (kind, VDel) \<Rightarrow> if t \<in> S kind then S(kind := S kind - {t}) else S)"

text \<open>Where a zone is given as a whole, nothing else of it is.\<close>

definition all_alone :: "vdc_content \<Rightarrow> bool" where
  "all_alone R \<longleftrightarrow> (\<forall>kind. \<forall>t \<in> R kind. \<forall>u \<in> R kind. all_of_zone kind t \<and> hd u = hd t \<longrightarrow> u = t)"

definition info_content :: "jsval \<Rightarrow> vdc_content" where
  "info_content info kind =
     (if kind = VGroup then (\<lambda>g. [the (js_parse_int g)]) ` set (as_list (xml_data info VGroup))
      else (\<lambda>item. [the (js_parse_int (prop_get item ''ZONE_ID'')), the (js_parse_int (prop_get item (xml_key kind)))]) `
             set (as_list (xml_data info kind)))"

definition request_content :: "vdc_request \<Rightarrow> vdc_content" where
  "request_content q kind =
     (if kind = VGroup then (\<lambda>g. [the (js_parse_int g)]) ` set (vq_groups q)
      else (\<Union>r \<in> set (requested q kind). (\<lambda>i. [the (js_parse_int (vr_zone r)), the (js_parse_int i)]) ` set (vr_ids r)))"

text \<open>Identifiers as the XML and the client write them: decimal numbers.\<close>

definition canonical :: "jsval \<Rightarrow> bool" where
  "canonical v \<longleftrightarrow> (case v of JStr s \<Rightarrow> (case parse_int s of Some n \<Rightarrow> s = show_int n | None \<Rightarrow> False) | _ \<Rightarrow> False)"

definition info_canonical :: "jsval \<Rightarrow> bool" where
  "info_canonical info \<longleftrightarrow>
     list_all canonical (as_list (xml_data info VGroup)) \<and>
     list_all (\<lambda>kind. list_all (\<lambda>item. canonical (prop_get item ''ZONE_ID'') \<and> canonical (prop_get item (xml_key kind)))
       (as_list (xml_data info kind))) [VCluster, VDatastore, VHost, VVnet]"

definition request_canonical :: "vdc_request \<Rightarrow> bool" where
  "request_canonical q \<longleftrightarrow>
     list_all canonical (vq_groups q) \<and>
     list_all (\<lambda>kind. list_all (\<lambda>r. canonical (vr_zone r) \<and> list_all canonical (vr_ids r)) (requested q kind))
       [VCluster, VDatastore, VHost, VVnet]"

lemma canonical_parse: "canonical v \<Longrightarrow> v = JStr (show_int (the (js_parse_int v))) \<and> js_parse_int v \<noteq> None"
  by (auto simp: canonical_def js_parse_int_def split: jsval.splits option.splits)

lemma canonical_inj: "canonical v \<Longrightarrow> canonical w \<Longrightarrow> the (js_parse_int v) = the (js_parse_int w) \<longleftrightarrow> v = w"
  by (metis canonical_parse)

lemma info_canonicalD:
  assumes "info_canonical info"
  shows "g \<in> set (as_list (xml_data info VGroup)) \<Longrightarrow> canonical g"
    and "kind \<noteq> VGroup \<Longrightarrow> item \<in> set (as_list (xml_data info kind)) \<Longrightarrow>
      canonical (prop_get item ''ZONE_ID'') \<and> canonical (prop_get item (xml_key kind))"
  using assms by (auto simp: info_canonical_def list_all_iff) (cases kind; auto)+

lemma request_canonicalD:
  assumes "request_canonical q"
  shows "g \<in> set (vq_groups q) \<Longrightarrow> canonical g"
    and "r \<in> set (requested q kind) \<Longrightarrow> canonical (vr_zone r) \<and> (\<forall>i \<in> set (vr_ids r). canonical i)"
  using assms by (auto simp: request_canonical_def list_all_iff) (cases kind; auto)+

definition targets :: "vdc_slot \<Rightarrow> vdc_call list \<Rightarrow> int list set" where
  "targets s cs = call_target ` {c \<in> set cs. vc_slot c = s}"

lemma targets_simps [simp]:
  "targets s [] = {}" "targets s (cs @ ds) = targets s cs \<union> targets s ds"
  "targets s (c # cs) = (if vc_slot c = s then {call_target c} else {}) \<union> targets s cs"
  by (auto simp: targets_def)

text \<open>Calls that add only what is wanted and delete only what is not reach what is wanted, in any order.\<close>

lemma apply_calls_reach:
  assumes "all_alone R" "targets (kind, VAdd) cs \<subseteq> R kind" "targets (kind, VDel) cs \<inter> R kind = {}"
    "R kind - targets (kind, VAdd) cs \<subseteq> S kind" "S kind \<subseteq> R kind \<union> targets (kind, VDel) cs"
  shows "fold apply_call cs S kind = R kind"
  using assms(2-5)
proof (induction cs arbitrary: S)
  case (Cons c cs)
  obtain k oper where c: "vc_slot c = (k, oper)" by (cases "vc_slot c")
  let ?T = "apply_call c S kind"
  have "R kind - targets (kind, VAdd) cs \<subseteq> ?T" "?T \<subseteq> R kind \<union> targets (kind, VDel) cs"
    using Cons.prems assms(1)
    by (cases oper; cases "k = kind"; auto simp: apply_call_def c Let_def all_alone_def split: if_splits)+
  then show ?case using Cons by (auto split: if_splits)
qed auto

text \<open>Resources as pairs of identifiers, and their numbers.\<close>

definition id_numbers :: "jsval \<times> jsval \<Rightarrow> int list" where
  "id_numbers p = [the (js_parse_int (fst p)), the (js_parse_int (snd p))]"

definition info_pairs :: "jsval \<Rightarrow> vdc_kind \<Rightarrow> (jsval \<times> jsval) set" where
  "info_pairs info kind = (\<lambda>item. (prop_get item ''ZONE_ID'', prop_get item (xml_key kind))) ` set (as_list (xml_data info kind))"

definition pair_list :: "vdc_resource list \<Rightarrow> (jsval \<times> jsval) list" where
  "pair_list rs = concat (map (\<lambda>r. map (Pair (vr_zone r)) (vr_ids r)) rs)"

abbreviation request_pairs :: "vdc_request \<Rightarrow> vdc_kind \<Rightarrow> (jsval \<times> jsval) set" where
  "request_pairs q kind \<equiv> set (pair_list (requested q kind))"

lemma content_pairs:
  assumes "kind \<noteq> VGroup"
  shows "info_content info kind = id_numbers ` info_pairs info kind" "request_content q kind = id_numbers ` request_pairs q kind"
proof -
  show "info_content info kind = id_numbers ` info_pairs info kind"
    using assms by (simp add: info_content_def info_pairs_def id_numbers_def image_image)
  show "request_content q kind = id_numbers ` request_pairs q kind"
    using assms by (simp add: request_content_def pair_list_def id_numbers_def image_image image_UN)
qed

lemma inj_id_numbers: "inj_on id_numbers {p. canonical (fst p) \<and> canonical (snd p)}"
  by (auto simp: inj_on_def id_numbers_def canonical_inj)

lemma targets_del:
  assumes "list_all (\<lambda>item. canonical (prop_get item ''ZONE_ID'') \<and> canonical (prop_get item (xml_key kind))) items"
  shows "targets s (del_calls n kind items) =
    (if s = (kind, VDel) then (\<lambda>item. id_numbers (prop_get item ''ZONE_ID'', prop_get item (xml_key kind))) ` set items else {})"
  using assms
proof (induction items)
  case (Cons item items)
  then obtain z m where "js_parse_int (prop_get item ''ZONE_ID'') = Some z" "js_parse_int (prop_get item (xml_key kind)) = Some m"
    using canonical_parse by fastforce
  then show ?case using Cons by (simp add: del_calls_def call_target_def id_numbers_def)
qed (simp add: del_calls_def)

lemma targets_map: "targets s (map f xs) = (\<lambda>x. call_target (f x)) ` {x \<in> set xs. vc_slot (f x) = s}"
  by (induction xs) auto

lemma add_calls_pairs:
  "add_calls n kind rs = map (\<lambda>p. \<lparr>vc_slot = (kind, VAdd), vc_params = [n, js_parse_int (fst p), js_parse_int (snd p)]\<rparr>) (pair_list rs)"
  by (induction rs) (simp_all add: add_calls_def pair_list_def)

lemma targets_add: "targets s (add_calls n kind rs) = (if s = (kind, VAdd) then id_numbers ` set (pair_list rs) else {})"
  by (auto simp: add_calls_pairs targets_map call_target_def id_numbers_def)

lemma pairs_for_add: "set (pair_list (vdc_for_add q info kind)) = request_pairs q kind - info_pairs info kind"
proof -
  let ?known = "\<lambda>z i. list_ex (\<lambda>item. prop_get item ''ZONE_ID'' = z \<and> prop_get item (xml_key kind) = i) (as_list (xml_data info kind))"
  have "(z, i) \<in> info_pairs info kind \<longleftrightarrow> ?known z i" for z i by (auto simp: info_pairs_def list_ex_iff)
  moreover have "set (pair_list (vdc_for_add q info kind)) = {p \<in> request_pairs q kind. \<not> ?known (fst p) (snd p)}"
    by (auto simp: vdc_for_add_def resourcesForAdd_def pair_list_def)
  ultimately show ?thesis by auto
qed

lemma targets_groups:
  "targets s (group_calls n gs) = (if s = (VGroup, VAdd) then (\<lambda>g. [the (js_parse_int g)]) ` set gs else {})"
  by (auto simp: group_calls_def targets_map call_target_def)

lemma targets_del_groups:
  assumes "list_all canonical gs"
  shows "targets s (del_group_calls n gs) = (if s = (VGroup, VDel) then (\<lambda>g. [the (js_parse_int g)]) ` set gs else {})"
  using assms
proof (induction gs)
  case (Cons g gs)
  then obtain m where "js_parse_int g = Some m" using canonical_parse by fastforce
  then show ?case using Cons by (simp add: del_group_calls_def call_target_def)
qed (simp add: del_group_calls_def)

lemma image_diff_inj: "inj_on f (A \<union> B) \<Longrightarrow> f ` (A - B) = f ` A - f ` B"
  by (rule inj_on_image_set_diff) auto

lemma items_for_delete:
  assumes "kind \<noteq> VGroup"
  shows "(\<lambda>item. (prop_get item ''ZONE_ID'', prop_get item (xml_key kind))) ` set (vdc_for_delete q info kind) =
    info_pairs info kind - request_pairs q kind"
proof -
  have "(z, i) \<in> request_pairs q kind \<longleftrightarrow> list_ex (\<lambda>r. vr_zone r = z \<and> i \<in> set (vr_ids r)) (requested q kind)" for z i
    by (auto simp: pair_list_def list_ex_iff)
  then show ?thesis using assms by (auto simp: vdc_for_delete_def resourcesForDelete_def info_pairs_def)
qed

text \<open>The targets of the calls of a kind are those of its own deletions and additions.\<close>

lemma vdc_calls_of_kind:
  assumes "info_canonical info"
  shows "targets (kind, VDel) (vdc_calls n q info) =
      (if kind = VGroup then (\<lambda>g. [the (js_parse_int g)]) ` set (vdc_for_delete q info VGroup)
       else id_numbers ` (info_pairs info kind - request_pairs q kind))"
    and "targets (kind, VAdd) (vdc_calls n q info) =
      (if kind = VGroup then (\<lambda>g. [the (js_parse_int g)]) ` set (groups_for_add q info)
       else id_numbers ` (request_pairs q kind - info_pairs info kind))"
proof -
  note I = info_canonicalD [OF assms]
  have "list_all canonical (vdc_for_delete q info VGroup)"
    using I(1) for_delete_subset [of q info VGroup] by (auto simp: list_all_iff)
  note g = targets_del_groups [OF this]
  have "list_all (\<lambda>item. canonical (prop_get item ''ZONE_ID'') \<and> canonical (prop_get item (xml_key k))) (vdc_for_delete q info k)"
    if "k \<noteq> VGroup" for k
    using I(2) [OF that] for_delete_subset [of q info k] by (auto simp: list_all_iff)
  then have d: "targets s (del_calls n k (vdc_for_delete q info k)) = (if s = (k, VDel) then id_numbers ` (info_pairs info k - request_pairs q k) else {})"
    if "k \<noteq> VGroup" for k s
    using that targets_del by (simp flip: items_for_delete add: image_image)
  show "targets (kind, VDel) (vdc_calls n q info) =
      (if kind = VGroup then (\<lambda>g. [the (js_parse_int g)]) ` set (vdc_for_delete q info VGroup)
       else id_numbers ` (info_pairs info kind - request_pairs q kind))"
    by (cases kind) (simp_all add: vdc_calls_def g d targets_groups targets_add)
  show "targets (kind, VAdd) (vdc_calls n q info) =
      (if kind = VGroup then (\<lambda>g. [the (js_parse_int g)]) ` set (groups_for_add q info)
       else id_numbers ` (request_pairs q kind - info_pairs info kind))"
    by (cases kind) (simp_all add: vdc_calls_def g d targets_groups targets_add pairs_for_add)
qed

text \<open>The deletions are what the data centre has and the request does not, the additions the converse.\<close>

lemma vdc_calls_targets:
  assumes "info_canonical info" "request_canonical q"
  shows "targets (kind, VDel) (vdc_calls n q info) = info_content info kind - request_content q kind"
    and "targets (kind, VAdd) (vdc_calls n q info) = request_content q kind - info_content info kind"
proof -
  let ?f = "\<lambda>g. [the (js_parse_int g)]"
  note I = info_canonicalD [OF assms(1)] and R = request_canonicalD [OF assms(2)]
  have inj: "inj_on ?f (set (as_list (xml_data info VGroup)) \<union> set (vq_groups q))"
    using I(1) R(1) by (auto simp: inj_on_def canonical_inj)
  have groups: "set (vdc_for_delete q info VGroup) = set (as_list (xml_data info VGroup)) - set (vq_groups q)"
    "set (groups_for_add q info) = set (vq_groups q) - set (as_list (xml_data info VGroup))"
    by (auto simp: vdc_for_delete_def groupsForVDC_def groups_for_add_def)
  have "info_pairs info k \<union> request_pairs q k \<subseteq> {p. canonical (fst p) \<and> canonical (snd p)}" if "k \<noteq> VGroup" for k
    using I(2) [OF that] R(2) by (auto simp: info_pairs_def pair_list_def)
  then have pairs: "inj_on id_numbers (info_pairs info k \<union> request_pairs q k)" if "k \<noteq> VGroup" for k
    using inj_on_subset [OF inj_id_numbers] that by blast
  show "targets (kind, VDel) (vdc_calls n q info) = info_content info kind - request_content q kind"
    using image_diff_inj [OF inj] image_diff_inj [OF pairs]
    by (auto simp: vdc_calls_of_kind [OF assms(1)] groups content_pairs info_content_def [of info VGroup] request_content_def [of q VGroup])
  show "targets (kind, VAdd) (vdc_calls n q info) = request_content q kind - info_content info kind"
    using image_diff_inj [of ?f "set (vq_groups q)"] inj image_diff_inj [of id_numbers "request_pairs q kind"] pairs [of kind]
    by (auto simp: vdc_calls_of_kind [OF assms(1)] groups content_pairs info_content_def [of info VGroup] request_content_def [of q VGroup] Un_commute)
qed

section \<open>Properties\<close>

text \<open>
  C32. An update of a data centre is answered once, whatever the order in which its calls return: nothing is
  answered while a call is pending, and when the last has called back the answer is 200 with the identifier if
  none of them failed.  If one failed the answer is not an error either: building the message throws, and the
  request is never answered.
\<close>

theorem vdc_update_ends_once:
  assumes "updateVdc update info q = Inr st" "info_numeric (prop_get (snd (info (parse_int (vq_id q)))) ''VDC'')"
    "vdc_run (vq_id q) st rs st'"
  shows "us_events st' =
    (if us_pending st' \<noteq> [] then []
     else if list_ex (\<lambda>(c, r). failed_reply r) rs then [VdcThrow TypeError]
     else [VdcAnswer (httpResponse (Some ok) (JStr (vq_id q)) [] [])])"
proof -
  let ?n = "parse_int (vq_id q)" and ?i = "prop_get (snd (info (parse_int (vq_id q)))) ''VDC''"
  let ?st = "\<lparr>us_limits = vdc_limits q ?i, us_results = (\<lambda>_. 0), us_errors = (\<lambda>_. []),
    us_pending = vdc_calls ?n q ?i, us_events = []\<rparr>"
  have "st = callbackRequest (vq_id q) ?st"
    using assms(1) by (auto simp: updateVdc_def callbackInfo_def Let_def split: if_splits prod.splits)
  moreover have ok: "counts_ok ?st" using vdc_calls_counted [OF assms(2)] by (simp add: counts_ok_def)
  ultimately have st: "st = ?st\<lparr>us_events := if vdc_calls ?n q ?i = [] then [vdc_outcome (vq_id q) True] else []\<rparr>"
    using callbackRequest_events [OF ok, of "vq_id q"] by (simp add: no_errors_def)
  then have ok1: "counts_ok st" "no_errors st" using ok by (simp_all add: counts_ok_def no_errors_def)
  show ?thesis
  proof (cases "vdc_calls ?n q ?i = []")
    case True
    then have "rs = []" "st' = st" using assms(3) st by (cases rs; auto elim: vdc_run.cases)+
    then show ?thesis using st True by (simp add: vdc_outcome_def)
  next
    case False
    then show ?thesis using vdc_run_events [OF assms(3) ok1(1)] st ok1(2) by (simp add: vdc_outcome_def)
  qed
qed

definition sample_info :: jsval where
  "sample_info = JObj [(''GROUPS'', JObj [(''ID'', JArr [JStr ''1'', JStr ''2''])]),
     (''CLUSTERS'', JObj [(''CLUSTER'', JObj [(''ZONE_ID'', JStr ''0''), (''CLUSTER_ID'', JStr ''100'')])])]"

definition sample_vdc_request :: vdc_request where
  "sample_vdc_request = \<lparr>vq_id = ''5'', vq_template = [], vq_groups = [JStr ''2'', JStr ''3''],
     vq_clusters = [\<lparr>vr_zone = JStr ''0'', vr_ids = [JStr ''100'']\<rparr>], vq_datastores = [], vq_hosts = [], vq_vnets = []\<rparr>"

definition sample_del :: vdc_call where
  "sample_del = \<lparr>vc_slot = (VGroup, VDel), vc_params = [Some 5, Some 1]\<rparr>"

definition sample_add :: vdc_call where
  "sample_add = \<lparr>vc_slot = (VGroup, VAdd), vc_params = [Some 5, Some 3]\<rparr>"

lemma sample_calls: "vdc_calls (Some 5) sample_vdc_request sample_info = [sample_del, sample_add]"
  by code_simp

text \<open>The group that is added calls back before the one that is deleted.\<close>

theorem vdc_update_ends_once_witness:
  "us_events (vdc_callback ''5'' sample_del (JUndef, JNum 5) (vdc_callback ''5'' sample_add (JUndef, JNum 5)
     (callbackInfo (Some 5) sample_vdc_request sample_info))) = [VdcAnswer (httpResponse (Some ok) (JStr ''5'') [] [])]"
proof -
  let ?st = "callbackInfo (Some 5) sample_vdc_request sample_info"
  let ?r = "(JUndef, JNum 5)"
  let ?rs = "[(sample_add, ?r), (sample_del, ?r)]"
  have upd: "updateVdc (\<lambda>i t. (JUndef, JNum 5)) (\<lambda>i. (JUndef, JObj [(''VDC'', sample_info)])) sample_vdc_request = Inr ?st"
  proof -
    have "parse_int ''5'' = Some 5" by code_simp
    then show ?thesis by (simp add: updateVdc_def sample_vdc_request_def obj_get_def sample_info_def)
  qed
  have num: "info_numeric (prop_get (snd ((\<lambda>i. (JUndef, JObj [(''VDC'', sample_info)])) (parse_int (vq_id sample_vdc_request)))) ''VDC'')"
    by code_simp
  have p: "us_pending ?st = [sample_del, sample_add]"
    by (simp add: callbackInfo_def callbackRequest_def sample_calls)
  have ne: "sample_del \<noteq> sample_add" by (simp add: sample_del_def sample_add_def)
  have p1: "us_pending (vdc_callback i c r st) = remove1 c (us_pending st)" for i c r st
    by (simp add: vdc_callback_def callbackRequest_def Let_def)
  have "vdc_run (vq_id sample_vdc_request) ?st ?rs (vdc_callback ''5'' sample_del ?r (vdc_callback ''5'' sample_add ?r ?st))"
    using p p1 ne by (intro vdc_run.intros) (auto simp: sample_vdc_request_def intro: vdc_run.intros)
  from vdc_update_ends_once [OF upd num this] show ?thesis
    using p p1 ne by (simp add: failed_reply_def sample_vdc_request_def)
qed

text \<open>
  C10. An update makes the data centre what the request says: in whatever order the daemon carries out the calls,
  each of them once, the groups, clusters, datastores, hosts and networks that it has in the end are exactly those
  of the request.  The identifiers of the request and of the information are decimal texts, as the client and the
  XML write them, and a request that asks for all resources of a kind in a zone lists no other one of that zone.
\<close>

theorem vdc_update_reaches_request:
  assumes "info_canonical info" "request_canonical q" "all_alone (request_content q)"
    "mset cs = mset (vdc_calls n q info)"
  shows "fold apply_call cs (info_content info) = request_content q"
proof
  fix kind
  have t: "targets s cs = targets s (vdc_calls n q info)" for s
    using mset_eq_setD [OF assms(4)] by (simp add: targets_def)
  show "fold apply_call cs (info_content info) kind = request_content q kind"
    by (rule apply_calls_reach [OF assms(3)]) (auto simp: t vdc_calls_targets [OF assms(1,2)])
qed

theorem vdc_update_reaches_request_witness:
  "fold apply_call [sample_add, sample_del] (info_content sample_info) = request_content sample_vdc_request"
proof (rule vdc_update_reaches_request [where n = "Some 5"])
  show "all_alone (request_content sample_vdc_request)"
  proof -
    have n: "js_parse_int (JStr ''100'') = Some 100" by code_simp
    have "\<not> all_of_zone kind t" if "t \<in> request_content sample_vdc_request kind" for kind t
      using that n
      by (cases kind) (auto simp: request_content_def sample_vdc_request_def all_of_zone_def ALL_RESOURCES_def)
    then show ?thesis by (auto simp: all_alone_def)
  qed
qed (code_simp, code_simp, simp add: sample_calls)

text \<open>Otherwise the order decides: a zone asked for as a whole and one host of it leave both or the whole alone.\<close>

lemma all_of_zone_order_matters:
  "let all = \<lparr>vc_slot = (VHost, VAdd), vc_params = [Some 5, Some 0, Some ALL_RESOURCES]\<rparr>;
       one = \<lparr>vc_slot = (VHost, VAdd), vc_params = [Some 5, Some 0, Some 3]\<rparr>
   in [0, 3] \<in> fold apply_call [all, one] (\<lambda>_. {}) VHost \<and> [0, 3] \<notin> fold apply_call [one, all] (\<lambda>_. {}) VHost"
  by (simp add: apply_call_def call_target_def all_of_zone_def ALL_RESOURCES_def)

text \<open>A creation is answered before any of its calls has called back: what becomes of them is not in the answer.\<close>

lemma create_answers_before_calls:
  assumes "allocate (vq_template q) = (err, vdcId)" "\<not> truthy err" "to_number vdcId \<noteq> None"
  shows "fst (createVdc allocate q) = httpResponse (Some ok) vdcId [] []"
  using assms by (auto simp: createVdc_def created_answer_def create_kinds_def Let_def)

text \<open>Identifiers that are sent as numbers are not found among those of the daemon, which are texts: the group is
  deleted and added in the same update, and whether the data centre keeps it depends on the order.\<close>

lemma numbers_deleted_and_added:
  "vdc_calls (Some 5) (sample_vdc_request\<lparr>vq_groups := [JNum 1, JStr ''2'']\<rparr>) sample_info =
     [sample_del, sample_add\<lparr>vc_params := [Some 5, Some 1]\<rparr>]"
  by code_simp

end
