(* ===== verification/Vmpool.thy ===== *)
theory Vmpool
  imports One_Connect
begin

text \<open>
  The pool of virtual machines (\<open>server/routes/api/vmpool/functions.js\<close>): accounting and showback records of a
  user or a group, and the whole pool fetched in batches of five concurrent pages.

  OpenNebula is a parameter: the two arguments of the callback for an action and its parameters.  Numbers may be
  NaN, which is \<open>None\<close>.  The loop over the batches may run forever: it is a partial function, and \<open>None\<close> is the
  request that is never answered.
\<close>

type_synonym js_num = "int option"

definition nan_add :: "js_num \<Rightarrow> js_num \<Rightarrow> js_num" where
  "nan_add a b = (case (a, b) of (Some x, Some y) \<Rightarrow> Some (x + y) | _ \<Rightarrow> None)"

definition nan_mul :: "js_num \<Rightarrow> js_num \<Rightarrow> js_num" where
  "nan_mul a b = (case (a, b) of (Some x, Some y) \<Rightarrow> Some (x * y) | _ \<Rightarrow> None)"

definition nan_less :: "js_num \<Rightarrow> js_num \<Rightarrow> bool" where
  "nan_less a b = (case (a, b) of (Some x, Some y) \<Rightarrow> x < y | _ \<Rightarrow> False)"

text \<open>A parameter of a call: a number, or a text.\<close>

datatype pool_arg = ArgNum js_num | ArgText string

type_synonym pool_one = "string \<Rightarrow> pool_arg list \<Rightarrow> jsval \<times> jsval"

section \<open>Accounting and showback\<close>

record pool_params =
  pp_user :: "string option"
  pp_group :: "string option"

text \<open>The records of a kind, as a list, filtered by group when no user is named; reading the group of a missing
  record throws.\<close>

definition group_records :: "pool_params \<Rightarrow> (jsval \<Rightarrow> jsval js) \<Rightarrow> jsval \<Rightarrow> jsval list js" where
  "group_records ps gid records =
     (let history = (case records of JArr xs \<Rightarrow> xs | _ \<Rightarrow> [records])
      in case pp_group ps of
           Some g \<Rightarrow>
             if the_default [] (pp_user ps) = [] \<and> g \<noteq> []
             then rbind (rmap gid history) (\<lambda>gids. Inr (map snd (filter (\<lambda>(i, x). i = JStr g) (zip gids history))))
             else Inr history
         | None \<Rightarrow> Inr history)"

definition record_gid :: "string list \<Rightarrow> jsval \<Rightarrow> jsval js" where
  "record_gid path item = foldl (\<lambda>r k. rbind r (\<lambda>v. if v = JUndef \<or> v = JNull then Inl TypeError else Inr (prop_get v k))) (Inr item) path"

definition put_in :: "jsval \<Rightarrow> string \<Rightarrow> jsval \<Rightarrow> jsval" where
  "put_in v k x = (case v of JObj fs \<Rightarrow> JObj (AList.update k x fs) | _ \<Rightarrow> v)"

definition pool_records :: "pool_params \<Rightarrow> string \<Rightarrow> string \<Rightarrow> string list \<Rightarrow> jsval \<times> jsval \<Rightarrow> http_result js" where
  "pool_records ps outer inner path reply =
     (let (error, value) = reply;
          data = (if truthy value \<and> truthy (prop_get value outer)
                  then rbind (group_records ps (record_gid path) (prop_get (prop_get value outer) inner)) (\<lambda>xs.
                         Inr (put_in value outer (put_in (prop_get value outer) inner (JArr xs))))
                  else Inr value)
      in rbind data (\<lambda>responseData.
           Inr (if truthy error then httpResponse (Some internalServerError) error [] []
                else httpResponse (Some ok) responseData [] [])))"

definition accounting :: "pool_one \<Rightarrow> pool_params \<Rightarrow> string \<Rightarrow> string \<Rightarrow> http_result js" where
  "accounting one ps startTime endTime =
     pool_records ps ''HISTORY_RECORDS'' ''HISTORY'' [''VM'', ''GID'']
       (one ''vmpool.accounting'' [ArgNum (parse_int (the_default ''-2'' (pp_user ps))), ArgNum (parse_int startTime), ArgNum (parse_int endTime)])"

definition showback :: "pool_one \<Rightarrow> pool_params \<Rightarrow> string \<times> string \<Rightarrow> string \<times> string \<Rightarrow> http_result js" where
  "showback one ps fromMonth toMonth =
     (let part = (\<lambda>s. ArgNum (if s = [] then Some (- 1) else parse_int s))
      in pool_records ps ''SHOWBACK_RECORDS'' ''SHOWBACK'' [''GID'']
           (one ''vmpool.showback'' [ArgNum (parse_int (the_default ''-2'' (pp_user ps))), part (fst fromMonth), part (snd fromMonth), part (fst toMonth), part (snd toMonth)]))"

section \<open>The whole pool\<close>

record page_params =
  pg_extended :: "string option"
  pg_filter :: "string option"
  pg_offset :: "string option"
  pg_pageSize :: "string option"
  pg_state :: "string option"
  pg_filterByKey :: "string option"

text \<open>The machines of a page: taking the value apart throws when there is none.\<close>

definition page_of :: "jsval \<Rightarrow> jsval list js" where
  "page_of value =
     (if value = JUndef \<or> value = JNull \<or> prop_get value ''VM_POOL'' = JNull then Inl TypeError
      else let data = prop_get (prop_get value ''VM_POOL'') ''VM''
           in Inr (case data of JArr xs \<Rightarrow> xs | _ \<Rightarrow> if truthy data then [data] else []))"

definition number_or :: "int \<Rightarrow> string option \<Rightarrow> js_num" where
  "number_or d s = (case s of Some t \<Rightarrow> parse_int t | None \<Rightarrow> Some d)"

definition pool_action :: "page_params \<Rightarrow> string" where
  "pool_action ps = (if pg_extended ps = Some ''1'' then ''vmpool.infoextended'' else ''vmpool.info'')"

definition page_args :: "page_params \<Rightarrow> js_num \<Rightarrow> js_num \<Rightarrow> pool_arg list" where
  "page_args ps absPageSize offset =
     [ArgNum (number_or (- 2) (pg_filter ps)), ArgNum offset, ArgNum (map_option uminus absPageSize),
      ArgNum (number_or (- 1) (pg_state ps)), ArgText (the_default [] (pg_filterByKey ps))]"

definition fetchPage :: "pool_one \<Rightarrow> page_params \<Rightarrow> js_num \<Rightarrow> js_num \<Rightarrow> jsval + jsval list" where
  "fetchPage one ps absPageSize offset =
     (let (err, value) = one (pool_action ps) (page_args ps absPageSize offset)
      in if truthy err then Inl err
         else case page_of value of Inl e \<Rightarrow> Inl (js_message []) | Inr page \<Rightarrow> Inr page)"

definition maxConcurrency :: nat where
  "maxConcurrency = 5"

definition batch_offsets :: "js_num \<Rightarrow> js_num \<Rightarrow> js_num list" where
  "batch_offsets absPageSize offset = map (\<lambda>i. nan_add offset (nan_mul (Some (int i)) absPageSize)) [0..<maxConcurrency]"

text \<open>The batches, until a page of one is short; a page that fails ends the loop with its error.\<close>

partial_function (option) runBatches ::
  "(js_num \<Rightarrow> jsval + jsval list) \<Rightarrow> js_num \<Rightarrow> js_num \<Rightarrow> jsval list \<Rightarrow> (jsval + jsval list) option" where
  "runBatches fetch absPageSize offset results =
     (case rmap fetch (batch_offsets absPageSize offset) of
        Inl e \<Rightarrow> Some (Inl e)
      | Inr pages \<Rightarrow>
          if list_ex (\<lambda>page. nan_less (Some (int (length page))) absPageSize) pages
          then Some (Inr (results @ concat pages))
          else runBatches fetch absPageSize (nan_add offset (nan_mul absPageSize (Some (int maxConcurrency)))) (results @ concat pages))"

declare runBatches.simps [code]

definition fetchPaginatedPool :: "pool_one \<Rightarrow> page_params \<Rightarrow> http_result option" where
  "fetchPaginatedPool one ps =
     (let absPageSize = map_option abs (number_or (- 200) (pg_pageSize ps))
      in map_option (\<lambda>r. case r of
           Inl error \<Rightarrow> httpResponse (Some internalServerError) error [] []
         | Inr results \<Rightarrow> httpResponse (Some ok) (JArr results) [] [])
         (runBatches (fetchPage one ps absPageSize) absPageSize (number_or 0 (pg_offset ps)) []))"

section \<open>Pages of a list\<close>

text \<open>The value of a page as the XML parser gives it: one machine is no list, and none is an empty text.\<close>

definition pool_value :: "jsval list \<Rightarrow> jsval" where
  "pool_value page = JObj [(''VM_POOL'',
     if page = [] then JStr [] else JObj [(''VM'', case page of [vm] \<Rightarrow> vm | _ \<Rightarrow> JArr page)])]"

definition is_machine :: "jsval \<Rightarrow> bool" where
  "is_machine v = (case v of JObj _ \<Rightarrow> True | _ \<Rightarrow> False)"

lemma page_of_pool_value:
  assumes "list_all is_machine page"
  shows "page_of (pool_value page) = Inr page"
proof (cases page)
  case (Cons vm vms)
  then obtain fs where "vm = JObj fs" using assms by (cases vm) (simp_all add: is_machine_def)
  then show ?thesis using Cons by (cases vms) (simp_all add: page_of_def pool_value_def obj_get_def)
qed (simp add: page_of_def pool_value_def obj_get_def)

text \<open>
  What the core answers for a range (\<open>PoolSharedAPI::dump\<close>, \<open>PoolSQL::oid_filter\<close> and \<open>PoolSQL::dump\<close>): of the
  machines the user may see, in the order of their numbers, a page from a position on when the end is below
  minus one, and otherwise those whose number is in the range, minus one being an open end.
\<close>

definition core_page :: "(int \<times> jsval) list \<Rightarrow> int \<Rightarrow> int \<Rightarrow> jsval list" where
  "core_page pool start_id end_id =
     map snd
       (if end_id < -1 then take (nat (- end_id)) (drop (nat start_id) pool)
        else if start_id \<noteq> -1 then filter (\<lambda>(oid, vm). start_id \<le> oid \<and> (end_id = -1 \<or> oid \<le> end_id)) pool
        else pool)"

definition answers_pages :: "pool_one \<Rightarrow> page_params \<Rightarrow> (int \<times> jsval) list \<Rightarrow> bool" where
  "answers_pages one ps pool \<longleftrightarrow>
     (\<forall>start_id end_id. one (pool_action ps)
        [ArgNum (number_or (- 2) (pg_filter ps)), ArgNum (Some start_id), ArgNum (Some end_id),
         ArgNum (number_or (- 1) (pg_state ps)), ArgText (the_default [] (pg_filterByKey ps))] =
        (JUndef, pool_value (core_page pool start_id end_id)))"

lemma core_page_size: "2 \<le> n \<Longrightarrow> core_page pool (int k) (- n) = take (nat n) (drop k (map snd pool))"
  by (simp add: core_page_def take_map drop_map)

lemma concat_pages: "concat (map (\<lambda>i. take n (drop (k + i * n) xs)) [0..<m]) = take (m * n) (drop k xs)"
proof (induction m)
  case (Suc m)
  have "take (m * n) (drop k xs) @ take n (drop (k + m * n) xs) = take (m * n + n) (drop k xs)"
    by (simp add: take_add add.commute [of k])
  then show ?case using Suc by (simp add: add.commute [of n])
qed simp

lemma batch_offsets_num: "batch_offsets (Some n) (Some k) = map (\<lambda>i. Some (k + int i * n)) [0..<maxConcurrency]"
  by (simp add: batch_offsets_def nan_add_def nan_mul_def)

text \<open>When the pages are those of a list the loop ends with what the list has from its offset on.\<close>

lemma runBatches_pages:
  fixes vms :: "jsval list"
  assumes "0 < n" "\<And>k. fetch (Some (int k)) = Inr (take n (drop k vms))"
  shows "runBatches fetch (Some (int n)) (Some (int k)) results = Some (Inr (results @ drop k vms))"
proof (induction "length vms - k" arbitrary: k results rule: less_induct)
  case less
  let ?pages = "map (\<lambda>i. take n (drop (k + i * n) vms)) [0..<maxConcurrency]"
  have "fetch (Some (int k + int i * int n)) = Inr (take n (drop (k + i * n) vms))" for i
    using assms(2) [of "k + i * n"] by simp
  then have pages: "rmap fetch (batch_offsets (Some (int n)) (Some (int k))) = Inr ?pages"
    by (simp add: batch_offsets_num rmap_Inr_iff list_all2_conv_all_nth)
  let ?short = "list_ex (\<lambda>page. nan_less (Some (int (length page))) (Some (int n))) ?pages"
  show ?case
  proof (cases ?short)
    case True
    then obtain i where i: "i < maxConcurrency" "length vms - (k + i * n) < n"
      by (auto simp: list_ex_iff nan_less_def)
    have "(i + 1) * n \<le> maxConcurrency * n" using i(1) by (intro mult_le_mono) simp_all
    then have "length (drop k vms) \<le> maxConcurrency * n" using i(2) by simp
    then show ?thesis using pages True by (simp add: runBatches.simps [of fetch] concat_pages)
  next
    case False
    then have "\<forall>i < maxConcurrency. n \<le> length vms - (k + i * n)"
      by (auto simp: list_ex_iff nan_less_def not_less)
    then have "n \<le> length vms - k" by (auto simp: maxConcurrency_def dest: spec [of _ 0])
    then have "length vms - (k + n * maxConcurrency) < length vms - k" using assms(1) by (simp add: maxConcurrency_def)
    from less.hyps [OF this] show ?thesis
      using pages False
      by (simp add: runBatches.simps [of fetch _ "Some (int k)"] concat_pages nan_add_def nan_mul_def mult.commute)
        (metis append_take_drop_id drop_drop add.commute)
  qed
qed

text \<open>The loop ends with a page that fails or is short.\<close>

lemma rmap_error: "rmap f xs = Inl e \<Longrightarrow> \<exists>x \<in> set xs. f x = Inl e"
  by (induction xs) (auto simp: rbind_eq_Inl)

definition may_end :: "(js_num \<Rightarrow> jsval + jsval list) \<Rightarrow> js_num \<Rightarrow> bool" where
  "may_end fetch n \<longleftrightarrow> (\<exists>x e. fetch x = Inl e) \<or> (\<exists>page :: jsval list. nan_less (Some (int (length page))) n)"

lemma runBatches_ends:
  assumes "runBatches fetch n off res = Some r"
  shows "may_end fetch n"
proof (rule runBatches.raw_induct [where P = "\<lambda>fetch n off res r. may_end fetch n", OF _ assms])
  fix loop fetch n off res r
  assume IH: "\<And>fetch n off res r. loop fetch n off res = Some r \<Longrightarrow> may_end fetch n"
    and step: "(case rmap fetch (batch_offsets n off) of
        Inl e \<Rightarrow> Some (Inl e)
      | Inr pages \<Rightarrow>
          if list_ex (\<lambda>page. nan_less (Some (int (length page))) n) pages then Some (Inr (res @ concat pages))
          else loop fetch n (nan_add off (nan_mul n (Some (int maxConcurrency)))) (res @ concat pages)) = Some r"
  show "may_end fetch n"
  proof (cases "rmap fetch (batch_offsets n off)")
    case (Inl e)
    then show ?thesis using rmap_error [OF Inl] by (auto simp: may_end_def)
  next
    case (Inr pages)
    then show ?thesis using step IH by (auto simp: list_ex_iff may_end_def split: if_splits)
  qed
qed

section \<open>Properties\<close>

text \<open>
  C11. The pool is fetched whole: with pages of at least two machines, and as long as the core answers every call
  from the same pool, the loop ends and the answer holds every machine of the pool from the offset on, once and
  in order.
\<close>

theorem pool_fetched_whole:
  assumes "list_all (\<lambda>(oid, vm). is_machine vm) pool" "number_or (- 200) (pg_pageSize ps) = Some p" "2 \<le> \<bar>p\<bar>"
    "number_or 0 (pg_offset ps) = Some (int k)" "answers_pages one ps pool"
  shows "fetchPaginatedPool one ps = Some (httpResponse (Some ok) (JArr (drop k (map snd pool))) [] [])"
proof -
  let ?vms = "map snd pool"
  have "list_all is_machine ?vms" using assms(1) by (auto simp: list_all_iff)
  then have "list_all is_machine (take m (drop j ?vms))" for m j
    by (auto simp: list_all_iff dest!: in_set_takeD in_set_dropD)
  then have "fetchPage one ps (Some \<bar>p\<bar>) (Some (int j)) = Inr (take (nat \<bar>p\<bar>) (drop j ?vms))" for j
    using assms(3,5) by (simp add: fetchPage_def page_args_def answers_pages_def core_page_size page_of_pool_value)
  then have "runBatches (fetchPage one ps (Some \<bar>p\<bar>)) (Some (int (nat \<bar>p\<bar>))) (Some (int k)) [] = Some (Inr ([] @ drop k ?vms))"
    using assms(3) by (intro runBatches_pages) simp_all
  then show ?thesis using assms(2,4) by (simp add: fetchPaginatedPool_def)
qed

definition sample_params :: "string \<Rightarrow> page_params" where
  "sample_params p = \<lparr>pg_extended = None, pg_filter = None, pg_offset = Some ''1'', pg_pageSize = Some p, pg_state = None, pg_filterByKey = None\<rparr>"

definition sample_pool :: "(int \<times> jsval) list" where
  "sample_pool = map (\<lambda>i. (i, JObj [(''ID'', JStr (show_int i))])) [1, 8, 9]"

definition sample_one :: pool_one where
  "sample_one act args = (case args of
      [_, ArgNum (Some j), ArgNum (Some n), _, _] \<Rightarrow> (JUndef, pool_value (core_page sample_pool j n))
    | _ \<Rightarrow> (JUndef, pool_value []))"

theorem pool_fetched_whole_witness:
  "fetchPaginatedPool sample_one (sample_params ''2'') = Some (httpResponse (Some ok) (JArr (drop 1 (map snd sample_pool))) [] [])"
proof (rule pool_fetched_whole [where p = 2])
  show "number_or (- 200) (pg_pageSize (sample_params ''2'')) = Some 2" by code_simp
  show "number_or 0 (pg_offset (sample_params ''2'')) = Some (int 1)" by code_simp
qed (simp_all add: sample_pool_def is_machine_def sample_one_def answers_pages_def)

text \<open>Pages of one machine are no pages: the end minus one asks for all machines from a number on, so that the
  machine with number one is in the answer for the offset one, and all that follow it are repeated.\<close>

lemma page_size_one_repeats:
  "fetchPaginatedPool sample_one (sample_params ''1'') =
     Some (httpResponse (Some ok) (JArr (map (\<lambda>i. JObj [(''ID'', JStr i)])
       (concat ([''1'', ''8'', ''9''] # replicate 7 [''8'', ''9''] @ [[''9'']])))) [] [])"
  by code_simp

text \<open>
  A page size of zero, or one that is not a number, keeps the server busy forever: no page is ever short, so
  the loop goes on asking OpenNebula and the request is never answered, unless a call fails.
\<close>

theorem page_size_zero_never_ends:
  assumes "number_or (- 200) (pg_pageSize ps) \<in> {Some 0, None}"
    "\<forall>args. \<exists>v page. one (pool_action ps) args = (JUndef, v) \<and> page_of v = Inr page"
  shows "fetchPaginatedPool one ps = None"
proof -
  let ?n = "map_option abs (number_or (- 200) (pg_pageSize ps))"
  have "fetchPage one ps ?n off \<noteq> Inl e" for off e
    using assms(2) [rule_format, of "page_args ps ?n off"] by (auto simp: fetchPage_def)
  moreover have "\<not> nan_less (Some (int (length (page :: jsval list)))) ?n" for page
    using assms(1) by (auto simp: nan_less_def)
  ultimately have "runBatches (fetchPage one ps ?n) ?n off [] = None" for off
    using runBatches_ends [of "fetchPage one ps ?n" ?n off "[]"] unfolding may_end_def by (cases "runBatches (fetchPage one ps ?n) ?n off []") auto
  then show ?thesis by (simp add: fetchPaginatedPool_def Let_def)
qed

theorem page_size_zero_never_ends_witness:
  "fetchPaginatedPool sample_one (sample_params ''0'') = None"
proof (rule page_size_zero_never_ends)
  show "number_or (- 200) (pg_pageSize (sample_params ''0'')) \<in> {Some 0, None}" by code_simp
  have "list_all is_machine (core_page sample_pool j e)" for j e
    by (auto simp: list_all_iff core_page_def sample_pool_def is_machine_def dest!: in_set_takeD in_set_dropD split: if_splits)
  then have "\<exists>v page. sample_one act args = (JUndef, v) \<and> page_of v = Inr page" for act args
    using page_of_pool_value [of "[]"]
    by (auto simp: sample_one_def page_of_pool_value split: list.splits pool_arg.splits option.splits)
  then show "\<forall>args. \<exists>v page. sample_one (pool_action (sample_params ''0'')) args = (JUndef, v) \<and> page_of v = Inr page" by blast
qed

text \<open>What the daemon refuses arrives without an error, as a text: as a page it is an empty one, which ends the loop
  with what was fetched before it; as accounting records it is answered with 200.\<close>

lemma refused_page_is_empty:
  assumes "one (pool_action ps) (page_args ps n off) = (JNull, JStr msg)"
  shows "fetchPage one ps n off = Inr []"
  using assms by (simp add: fetchPage_def page_of_def)

lemma refused_accounting_is_ok:
  assumes "\<And>args. one ''vmpool.accounting'' args = (JNull, JStr msg)"
  shows "accounting one ps s e = Inr (httpResponse (Some ok) (JStr msg) [] [])"
  using assms by (simp add: accounting_def pool_records_def)

text \<open>The records of a group are those whose machine belongs to it.\<close>

lemma group_records_filtered:
  assumes "pp_user ps = None" "pp_group ps = Some g" "g \<noteq> []" "\<forall>x \<in> set xs. \<exists>i. gid x = Inr i"
  shows "group_records ps gid (JArr xs) = Inr (filter (\<lambda>x. gid x = Inr (JStr g)) xs)"
proof -
  have "rmap gid ys = Inr (map (\<lambda>x. projr (gid x)) ys) \<and>
      map snd (filter (\<lambda>(i, x). i = JStr g) (zip (map (\<lambda>x. projr (gid x)) ys) ys)) = filter (\<lambda>x. gid x = Inr (JStr g)) ys"
    if "\<forall>x \<in> set ys. \<exists>i. gid x = Inr i" for ys using that by (induction ys) auto
  then show ?thesis using assms by (simp add: group_records_def)
qed

end
