(* ===== verification/Logo.thy ===== *)
theory Logo
  imports Http Paths
begin

text \<open>
  The logo and the favicon of the installation (\<open>server/utils/logo.js\<close> and \<open>server/routes/api/logo/functions.js\<close>).
  The configured names, the directories, the disk and the image encoder are parameters; what an asynchronous
  function returns or rejects with is the value of the model.
\<close>

record logo_env =
  le_logo :: jsval
  le_favicon :: jsval
  le_images :: "string option"
  le_icons :: "string option"
  le_exists :: "string \<Rightarrow> bool"
  le_readdir :: "string \<Rightarrow> string list"
  le_png :: "bool \<Rightarrow> string \<Rightarrow> string option"
  le_read :: "string \<Rightarrow> string option"

section \<open>Names\<close>

definition name_char :: "char \<Rightarrow> bool" where
  "name_char c \<longleftrightarrow>
     (let n = of_char c :: nat
      in (97 \<le> n \<and> n \<le> 122) \<or> (65 \<le> n \<and> n \<le> 90) \<or> (48 \<le> n \<and> n \<le> 57) \<or> c = CHR ''-'' \<or> c = CHR ''_'')"

text \<open>\<open>/^[a-zA-Z0-9-_]+\.(jpg|jpeg|png|)$/\<close>, for the extensions given.\<close>

definition valid_filename :: "string list \<Rightarrow> string \<Rightarrow> bool" where
  "valid_filename exts s \<longleftrightarrow>
     (case js_split (CHR ''.'') s of
        [base, ext] \<Rightarrow> base \<noteq> [] \<and> list_all name_char base \<and> ext \<in> set exts
      | _ \<Rightarrow> False)"

definition logo_extensions :: "string list" where
  "logo_extensions = [''jpg'', ''jpeg'', ''png'', []]"

definition favicon_extensions :: "string list" where
  "favicon_extensions = [''ico'', ''jpg'', ''jpeg'', ''png'', []]"

record logo_name =
  ln_valid :: bool
  ln_filename :: "string option"
  ln_notset :: bool

definition checked_name :: "string list \<Rightarrow> jsval \<Rightarrow> logo_name" where
  "checked_name exts v =
     (case v of
        JStr s \<Rightarrow> if s \<noteq> [] \<and> js_trim s \<noteq> [] \<and> valid_filename exts s
                 then \<lparr>ln_valid = True, ln_filename = Some s, ln_notset = False\<rparr>
                 else \<lparr>ln_valid = False, ln_filename = None, ln_notset = (s = [])\<rparr>
      | _ \<Rightarrow> \<lparr>ln_valid = False, ln_filename = None, ln_notset = \<not> truthy v\<rparr>)"

definition getLogo :: "logo_env \<Rightarrow> logo_name" where
  "getLogo env = checked_name logo_extensions (le_logo env)"

definition getFavicon :: "logo_env \<Rightarrow> logo_name" where
  "getFavicon env = checked_name favicon_extensions (le_favicon env)"

definition getFileExtension :: "string \<Rightarrow> string" where
  "getFileExtension filename = to_lower (drop 1 (path_ext filename))"

section \<open>Files\<close>

text \<open>\<open>path.relative\<close> between absolute paths.\<close>

fun drop_common :: "string list \<Rightarrow> string list \<Rightarrow> string list \<times> string list" where
  "drop_common (x # xs) (y # ys) = (if x = y then drop_common xs ys else (x # xs, y # ys))"
| "drop_common xs ys = (xs, ys)"

definition path_relative :: "string \<Rightarrow> string \<Rightarrow> string" where
  "path_relative base target =
     (let (up, down) = drop_common (norm_segments True [] (js_split (CHR ''/'') base)) (norm_segments True [] (js_split (CHR ''/'') target))
      in js_join ''/'' (replicate (length up) ''..'' @ down))"

datatype checked_path = NoPath | NotFound | ValidPath string

text \<open>A directory of images and the name of a file in it.\<close>

definition validate_in :: "(string \<Rightarrow> bool) \<Rightarrow> string option \<Rightarrow> string \<Rightarrow> checked_path" where
  "validate_in found directory name =
     (if name = [] \<or> the_default [] directory = [] then NoPath
      else let dir = the_default [] directory;
               filePath = (if hd name = CHR ''/'' then name else path_join dir (path_normalize name))
           in if \<not> starts_with filePath dir then NoPath
              else if \<not> found filePath then NotFound
              else ValidPath filePath)"

definition validateLogo :: "logo_env \<Rightarrow> string \<Rightarrow> bool \<Rightarrow> checked_path" where
  "validateLogo env logo relativePaths =
     (case validate_in (le_exists env) (le_images env) logo of
        ValidPath filePath \<Rightarrow>
          if relativePaths then ValidPath (''images/logos/'' @ path_relative (the_default [] (le_images env)) filePath)
          else ValidPath filePath
      | r \<Rightarrow> r)"

definition validateFavicon :: "logo_env \<Rightarrow> string \<Rightarrow> checked_path" where
  "validateFavicon env favicon = validate_in (le_exists env) (le_icons env) favicon"

definition encodeLogo :: "logo_env \<Rightarrow> string \<Rightarrow> string option" where
  "encodeLogo env filePath = map_option (\<lambda>b64. ''data:image/png;base64,'' @ b64) (le_png env False filePath)"

definition encodeFavicon :: "logo_env \<Rightarrow> string \<Rightarrow> string option" where
  "encodeFavicon env filePath =
     (if getFileExtension filePath = ''ico'' then map_option (\<lambda>b64. ''data:image/x-icon;base64,'' @ b64) (le_read env filePath)
      else map_option (\<lambda>b64. ''data:image/png;base64,'' @ b64) (le_png env True filePath))"

definition strip_extension :: "string \<Rightarrow> string" where
  "strip_extension s =
     (case js_split (CHR ''.'') s of
        [base, ext] \<Rightarrow> if ext \<in> {''jpg'', ''jpeg'', ''png''} then base else s
      | _ \<Rightarrow> s)"

definition getAllLogos :: "logo_env \<Rightarrow> (string \<times> string) list option" where
  "getAllLogos env =
     (let dir = the_default [] (le_images env)
      in if dir = [] \<or> \<not> le_exists env dir then None
         else Some (fold (\<lambda>f acc. if valid_filename logo_extensions f then AList.update (strip_extension f) (path_join dir f) acc else acc)
                (le_readdir env dir) []))"

definition getEncodedFavicon :: "logo_env \<Rightarrow> (string \<times> string) option" where
  "getEncodedFavicon env =
     (let favicon = getFavicon env; fallbackLogo = getLogo env;
          own = (if ln_valid favicon
                 then case validateFavicon env (the_default [] (ln_filename favicon)) of
                        ValidPath p \<Rightarrow> (case encodeFavicon env p of Some b64 \<Rightarrow> Some (b64, the_default [] (ln_filename favicon)) | None \<Rightarrow> None)
                      | _ \<Rightarrow> None
                 else None)
      in case own of
           Some r \<Rightarrow> Some r
         | None \<Rightarrow>
             if \<not> ln_valid fallbackLogo \<or> ln_notset fallbackLogo then None
             else case validateLogo env (the_default [] (ln_filename fallbackLogo)) False of
                    ValidPath p \<Rightarrow> (case encodeFavicon env p of Some b64 \<Rightarrow> Some (b64, the_default [] (ln_filename fallbackLogo)) | None \<Rightarrow> None)
                  | _ \<Rightarrow> None)"

section \<open>Handlers\<close>

definition getEncodedLogo :: "logo_env \<Rightarrow> http_result" where
  "getEncodedLogo env =
     (let logo = getLogo env
      in if ln_notset logo then httpResponse (Some ok) (JStr []) [] []
         else if \<not> ln_valid logo then httpResponse (Some badRequest) (JStr ''Bad logo specified'') [] []
         else case validateLogo env (the_default [] (ln_filename logo)) False of
                NotFound \<Rightarrow> httpResponse (Some notFound) (JStr ''Could not find logo'') [] []
              | NoPath \<Rightarrow> httpResponse (Some badRequest) (JStr []) [] []
              | ValidPath p \<Rightarrow>
                  (case encodeLogo env p of
                     None \<Rightarrow> httpResponse (Some internalServerError) (JStr ''Failed to load logo'') [] []
                   | Some b64 \<Rightarrow> httpResponse (Some ok) (JObj [(''b64'', JStr b64), (''logoName'', JStr (the_default [] (ln_filename logo)))]) [] []))"

definition getAllLogosHandler :: "logo_env \<Rightarrow> http_result" where
  "getAllLogosHandler env =
     (let validLogos = fold (\<lambda>(name, filePath) acc. case validateLogo env filePath True of ValidPath p \<Rightarrow> AList.update name (JStr p) acc | _ \<Rightarrow> acc)
            (the_default [] (getAllLogos env)) []
      in if validLogos = [] then httpResponse (Some notFound) (JStr ''No valid logos found'') [] []
         else httpResponse (Some ok) (JObj validLogos) [] [])"

section \<open>Properties\<close>

lemma valid_filename_plain:
  assumes "valid_filename exts s" "list_all (\<lambda>e. CHR ''/'' \<notin> set e) exts"
  shows "plain_segment s"
proof -
  obtain base ext where s: "js_split (CHR ''.'') s = [base, ext]" "base \<noteq> []" "list_all name_char base" "ext \<in> set exts"
    using assms(1) by (auto simp: valid_filename_def split: list.splits)
  then have "s = base @ ''.'' @ ext" using js_join_split [of "CHR ''.''" s] by simp
  moreover have "CHR ''/'' \<notin> set base" "hd base \<noteq> CHR ''.''"
    using s(2,3) by (cases base; auto simp: list_all_iff name_char_def)+
  ultimately show ?thesis using s(2,4) assms(2) by (cases base) (auto simp: plain_segment_def list_all_iff)
qed

lemma plain_ends: "plain_segment s \<Longrightarrow> s \<noteq> [] \<and> hd s \<noteq> CHR ''/'' \<and> last s \<noteq> CHR ''/''"
  by (metis hd_in_set last_in_set plain_segment_def)

lemma normalize_plain: "plain_segment s \<Longrightarrow> path_normalize s = s"
proof -
  assume s: "plain_segment s"
  then have "js_split (CHR ''/'') s = [s]" by (auto simp: plain_segment_def js_split_no_sep)
  then show ?thesis using s plain_ends [OF s] by (simp add: path_normalize_def plain_segment_def Let_def)
qed

lemma join_plain:
  assumes "list_all plain_segment ds" "ds \<noteq> []" "plain_segment s"
  shows "path_join (abs_path ds) s = abs_path (ds @ [s])"
proof -
  have "s \<noteq> []" "last s \<noteq> CHR ''/''" using plain_ends [OF assms(3)] by simp_all
  obtain r where r: "abs_path ds = CHR ''/'' # r" using assms(2) by (cases ds) (auto simp: abs_path_def)
  have path: "abs_path ds @ ''/'' @ s = abs_path (ds @ [s])" by (simp add: abs_path_def)
  have "norm_segments True [] (js_split (CHR ''/'') (abs_path (ds @ [s]))) = ds @ [s]"
    using split_abs_path [of "ds @ [s]"] norm_segments_id [of "ds @ [s]" True "[]"] assms by simp
  then have "path_normalize (abs_path (ds @ [s])) = ''/'' @ js_join ''/'' (ds @ [s])"
    using normalize_abs(1) [of "abs_path (ds @ [s])"] r path \<open>s \<noteq> []\<close> \<open>last s \<noteq> _\<close> by (auto simp: abs_path_def)
  then show ?thesis using r path \<open>s \<noteq> []\<close> by (simp add: path_join_def abs_path_join)
qed

lemma checked_name_plain:
  assumes "ln_valid (checked_name exts v)" "list_all (\<lambda>e. CHR ''/'' \<notin> set e) exts"
  obtains s where "ln_filename (checked_name exts v) = Some s" "plain_segment s"
  using assms valid_filename_plain by (auto simp: checked_name_def split: jsval.splits if_splits)

lemma validated_in:
  assumes "validate_in ex (Some (abs_path ds)) s = ValidPath p" "plain_segment s" "list_all plain_segment ds" "ds \<noteq> []"
  shows "p = abs_path (ds @ [s]) \<and> ex p"
proof -
  show ?thesis
    using plain_ends [OF assms(2)] assms(1) normalize_plain [OF assms(2)] join_plain [OF assms(3,4,2)] by (auto simp: validate_in_def Let_def split: if_splits)
qed

text \<open>
  The logo is a file of the directory of images: whatever the configuration says, a logo that is sent is the
  encoding of an existing file that lies in that directory itself, and the answer names it.
\<close>

theorem logo_in_images:
  assumes "le_images env = Some (abs_path ds)" "list_all plain_segment ds" "ds \<noteq> []"
    "getEncodedLogo env = httpResponse (Some ok) (JObj [(''b64'', JStr b64), (''logoName'', JStr name)]) [] []"
  shows "plain_segment name \<and> le_exists env (abs_path (ds @ [name])) \<and> encodeLogo env (abs_path (ds @ [name])) = Some b64"
proof -
  have codes: "httpResponse (Some ok) (JObj [(''b64'', JStr b64), (''logoName'', JStr name)]) [] [] \<noteq> httpResponse (Some c) (JStr m) [] []"
    "httpResponse (Some c) (JStr m) [] [] \<noteq> httpResponse (Some ok) (JObj [(''b64'', JStr b64), (''logoName'', JStr name)]) [] []" for c m
    by (auto simp: httpResponse_def of_code_def Let_def split: if_splits)
  have "ln_valid (getLogo env)" using assms(4) codes by (auto simp: getEncodedLogo_def Let_def split: if_splits)
  then obtain n where n: "ln_filename (getLogo env) = Some n" "plain_segment n"
    unfolding getLogo_def by (rule checked_name_plain) (simp add: logo_extensions_def)
  obtain p b where v: "validateLogo env n False = ValidPath p" "encodeLogo env p = Some b"
      "httpResponse (Some ok) (JObj [(''b64'', JStr b), (''logoName'', JStr n)]) [] [] =
       httpResponse (Some ok) (JObj [(''b64'', JStr b64), (''logoName'', JStr name)]) [] []"
    using assms(4) codes n(1) by (auto simp: getEncodedLogo_def Let_def split: if_splits checked_path.splits option.splits)
  then have "b = b64" "n = name" by (auto simp: httpResponse_def of_code_def Let_def)
  moreover have "validate_in (le_exists env) (Some (abs_path ds)) n = ValidPath p"
    using v(1) assms(1) by (auto simp: validateLogo_def split: checked_path.splits)
  ultimately show ?thesis using validated_in [OF _ n(2) assms(2,3)] n(2) v(2) by blast
qed

definition sample_logo :: logo_env where
  "sample_logo = \<lparr>le_logo = JStr ''acme.png'', le_favicon = JUndef, le_images = Some (abs_path [''srv'', ''img'']), le_icons = None,
     le_exists = (\<lambda>p. True), le_readdir = (\<lambda>d. []), le_png = (\<lambda>small p. Some ''AA''), le_read = (\<lambda>p. None)\<rparr>"

theorem logo_in_images_witness:
  "plain_segment ''acme.png'' \<and> le_exists sample_logo (abs_path ([''srv'', ''img''] @ [''acme.png''])) \<and>
     encodeLogo sample_logo (abs_path ([''srv'', ''img''] @ [''acme.png''])) = Some ''data:image/png;base64,AA''"
proof (rule logo_in_images)
  show "getEncodedLogo sample_logo =
      httpResponse (Some ok) (JObj [(''b64'', JStr ''data:image/png;base64,AA''), (''logoName'', JStr ''acme.png'')]) [] []"
    by code_simp
qed (simp_all add: sample_logo_def plain_segment_def)

text \<open>The favicon comes from the directory of icons or, in its absence, is the logo.\<close>

lemma favicon_in_directories:
  assumes "le_icons env = Some (abs_path is')" "list_all plain_segment is'" "is' \<noteq> []"
    "le_images env = Some (abs_path ds)" "list_all plain_segment ds" "ds \<noteq> []"
    "getEncodedFavicon env = Some (b64, name)"
  shows "\<exists>dir \<in> {is', ds}. plain_segment name \<and> le_exists env (abs_path (dir @ [name])) \<and> encodeFavicon env (abs_path (dir @ [name])) = Some b64"
proof -
  have own: "plain_segment n \<and> p = abs_path (is' @ [n]) \<and> le_exists env p"
    if "ln_valid (getFavicon env)" "ln_filename (getFavicon env) = Some n" "validateFavicon env n = ValidPath p" for n p
    using that checked_name_plain [of favicon_extensions "le_favicon env"] validated_in [of "le_exists env" is' n p] assms(1-3)
    by (auto simp: getFavicon_def favicon_extensions_def validateFavicon_def)
  have fallback: "plain_segment n \<and> p = abs_path (ds @ [n]) \<and> le_exists env p"
    if "ln_valid (getLogo env)" "ln_filename (getLogo env) = Some n" "validateLogo env n False = ValidPath p" for n p
    using that checked_name_plain [of logo_extensions "le_logo env"] validated_in [of "le_exists env" ds n p] assms(4-6)
    by (auto simp: getLogo_def logo_extensions_def validateLogo_def split: checked_path.splits)
  have named: "ln_valid (checked_name exts v) \<Longrightarrow> \<exists>n. ln_filename (checked_name exts v) = Some n" for exts v
    by (auto simp: checked_name_def split: jsval.splits if_splits)
  show ?thesis
    using assms(7) own fallback named
    by (fastforce simp: getEncodedFavicon_def getFavicon_def getLogo_def Let_def split: if_splits checked_path.splits option.splits)
qed

end
