(* ===== verification/Vm_Api.thy ===== *)
theory Vm_Api
  imports Auth One_Connect Vm Paths
begin

text \<open>
  The API for single virtual machines (\<open>server/routes/api/vm/functions.js\<close>): saving one as a template with the
  command line, sessions of the Guacamole consoles, and logs; with \<open>addPrependCommand\<close> and \<open>executeCommand\<close> of
  \<open>server/utils/server.js\<close>.

  The processes that are started, the replies of OpenNebula, the cipher, base 64 and the log files are parameters.
  A handler that goes on after an answer has a list of answers.  The number NaN is written as null, the way JSON
  writes it.
\<close>

section \<open>Commands\<close>

text \<open>A command line: with a command that comes first, the rest of it is one text.\<close>

definition addPrependCommand :: "string \<Rightarrow> string list \<Rightarrow> string \<Rightarrow> string \<times> string list" where
  "addPrependCommand command rsc prepend =
     (if prepend = [] then (command, rsc)
      else let splitPrepend = filter (\<lambda>el. el \<noteq> []) (js_split (CHR '' '') prepend);
               stringifyRestCommand = js_join '' '' (command # rsc)
           in (case splitPrepend of [] \<Rightarrow> ''undefined'' | c # _ \<Rightarrow> c, tl splitPrepend @ [stringifyRestCommand]))"

text \<open>The output of a process that has ended, its status and its errors.\<close>

record process =
  pr_stdout :: string
  pr_status :: int
  pr_stderr :: string

record command_result =
  cr_success :: bool
  cr_data :: "string option"

definition executeCommand :: "(string \<Rightarrow> string list \<Rightarrow> process) \<Rightarrow> string \<Rightarrow> string list \<Rightarrow> string \<Rightarrow> command_result" where
  "executeCommand spawn command resource prependCommand =
     (let (cmd, rsc) = addPrependCommand command resource prependCommand; execute = spawn cmd rsc
      in if pr_status execute = 0 then \<lparr>cr_success = True, cr_data = Some (pr_stdout execute)\<rparr>
         else if pr_stderr execute \<noteq> [] then \<lparr>cr_success = False, cr_data = Some (pr_stderr execute)\<rparr>
         else \<lparr>cr_success = False, cr_data = None\<rparr>)"

definition is_line_break :: "char \<Rightarrow> bool" where
  "is_line_break c \<longleftrightarrow> (of_char c :: nat) = 13 \<or> (of_char c :: nat) = 10"

text \<open>\<open>s.replace(/\r|\n/, '')\<close>: the first line break goes.\<close>

fun drop_first_break :: "string \<Rightarrow> string" where
  "drop_first_break [] = []"
| "drop_first_break (c # s) = (if is_line_break c then s else c # drop_first_break s)"

definition save_args :: "string \<Rightarrow> string \<Rightarrow> string \<Rightarrow> string list" where
  "save_args i name persistent = [''save'', i, name] @ (if persistent = ''true'' then [''--persistent''] else [])"

definition saveAsTemplate :: "(string \<Rightarrow> string list \<Rightarrow> process) \<Rightarrow> string \<Rightarrow> string \<Rightarrow> string \<Rightarrow> string \<Rightarrow> http_result" where
  "saveAsTemplate spawn prependCommand i name persistent =
     (if i \<noteq> [] \<and> name \<noteq> [] then
        (let executedCommand = executeCommand spawn ''onevm'' (save_args i name persistent) prependCommand
         in httpResponse (Some (if cr_success executedCommand then ok else internalServerError))
              (JStr (case cr_data executedCommand of Some d \<Rightarrow> drop_first_break d | None \<Rightarrow> [])) [] [])
      else httpResponse (Some badRequest) (JStr []) [] [])"

section \<open>Consoles\<close>

definition nic_list :: "jsval \<Rightarrow> jsval list" where
  "nic_list vmInfo = flat [or_empty (prop_get (prop_get vmInfo ''TEMPLATE'') ''NIC''), or_empty (prop_get (prop_get vmInfo ''TEMPLATE'') ''NIC_ALIAS'')]"

definition last_history :: "jsval \<Rightarrow> jsval" where
  "last_history vmInfo = (let data = getHistoryRecords vmInfo in if data = [] then JUndef else last data)"

definition or_else :: "jsval \<Rightarrow> jsval \<Rightarrow> jsval" where
  "or_else a b = (if nullish a then b else a)"

definition says_yes :: "string \<Rightarrow> jsval \<Rightarrow> bool" where
  "says_yes k nic \<longleftrightarrow> to_lower (to_string (prop_get nic k)) = ''yes''"

definition found_nic :: "(jsval \<Rightarrow> bool) \<Rightarrow> jsval \<Rightarrow> jsval" where
  "found_nic p vmInfo = the_default JUndef (find p (nic_list vmInfo))"

definition context_of :: "jsval \<Rightarrow> string \<Rightarrow> jsval" where
  "context_of vmInfo k = prop_get (prop_get (prop_get vmInfo ''TEMPLATE'') ''CONTEXT'') k"

definition getVncSettings :: "jsval \<Rightarrow> jsobj" where
  "getVncSettings vmInfo =
     (let graphics = prop_get (prop_get vmInfo ''TEMPLATE'') ''GRAPHICS''
      in [(''hostname'', or_else (prop_get (last_history vmInfo) ''HOSTNAME'') (JStr ''localhost'')),
          (''port'', or_else (prop_get graphics ''PORT'') (JStr ''5900'')),
          (''password'', or_else (prop_get graphics ''PASSWD'') JNull)])"

text \<open>The host and the port: of the last host with the range of forwarded ports, or of an interface with SSH.  The
  interface whose range is looked at is the first without one.\<close>

definition forwarded :: "jsval \<Rightarrow> (jsval \<times> jsval) option" where
  "forwarded vmInfo =
     (let nic = found_nic (\<lambda>nic. \<not> truthy (prop_get nic ''EXTERNAL_PORT_RANGE'')) vmInfo;
          portRange = prop_get nic ''EXTERNAL_PORT_RANGE''; lastHostname = prop_get (last_history vmInfo) ''HOSTNAME''
      in if truthy portRange \<and> truthy lastHostname
         then Some (lastHostname, case portRange of
                JStr s \<Rightarrow> (case parse_int (hd (js_split (CHR '':'') s)) of Some n \<Rightarrow> JNum (n + 21) | None \<Rightarrow> JNull)
              | _ \<Rightarrow> JNull)
         else None)"

definition getSshSettings :: "jsval \<Rightarrow> jsval \<Rightarrow> jsobj" where
  "getSshSettings vmInfo authUser =
     (let nicWithSsh = found_nic (says_yes ''SSH'') vmInfo;
          hostname = (case forwarded vmInfo of Some (h, _) \<Rightarrow> h
                      | None \<Rightarrow> or_else (prop_get nicWithSsh ''EXTERNAL_IP'') (prop_get nicWithSsh ''IP''));
          port = (case forwarded vmInfo of Some (_, p) \<Rightarrow> p | None \<Rightarrow> or_else (context_of vmInfo ''SSH_PORT'') (JStr ''22''))
      in if \<not> truthy hostname then [(''error'', JStr ''Wrong configuration. Cannot find a NIC with SSH'')]
         else [(''hostname'', hostname), (''port'', port)] @
           (if truthy (context_of vmInfo ''SSH_PUBLIC_KEY'')
            then [(''private-key'', prop_get (prop_get authUser ''TEMPLATE'') ''SSH_PRIVATE_KEY''),
                  (''passphrase'', prop_get (prop_get authUser ''TEMPLATE'') ''SSH_PASSPHRASE'')]
            else [(''username'', context_of vmInfo ''USERNAME''), (''password'', context_of vmInfo ''PASSWORD'')]))"

definition rdp_flags :: "(string \<times> string) list" where
  "rdp_flags =
     [(''disable-audio'', ''RDP_DISABLE_AUDIO''), (''enable-audio-input'', ''RDP_ENABLE_AUDIO_INPUT''),
      (''enable-wallpaper'', ''RDP_ENABLE_WALLPAPER''), (''enable-theming'', ''RDP_ENABLE_THEMING''),
      (''enable-font-smoothing'', ''RDP_ENABLE_FONT_SMOOTHING''), (''enable-full-window-drag'', ''RDP_ENABLE_FULL_WINDOW_DRAG''),
      (''enable-desktop-composition'', ''RDP_ENABLE_DESKTOP_COMPOSITION''), (''enable-menu-animations'', ''RDP_ENABLE_MENU_ANIMATIONS''),
      (''disable-bitmap-caching'', ''RDP_DISABLE_BITMAP_CACHING''), (''disable-offscreen-caching'', ''RDP_DISABLE_OFFSCREEN_CACHING''),
      (''disable-glyph-caching'', ''RDP_DISABLE_GLYPH_CACHING'')]"

definition getRdpSettings :: "jsval \<Rightarrow> jsobj" where
  "getRdpSettings vmInfo =
     (let nicWithRdp = found_nic (says_yes ''RDP'') vmInfo;
          hostname = or_else (prop_get nicWithRdp ''EXTERNAL_IP'') (prop_get nicWithRdp ''IP'')
      in if \<not> truthy hostname then [(''error'', JStr ''Wrong configuration. Cannot find a NIC with RDP'')]
         else [(''hostname'', hostname), (''security'', or_else (context_of vmInfo ''RDP_SECURITY'') (JStr ''rdp'')),
               (''port'', or_else (context_of vmInfo ''RDP_PORT'') (JStr ''3389'')), (''username'', context_of vmInfo ''USERNAME''),
               (''password'', context_of vmInfo ''PASSWORD''), (''server-layout'', prop_get nicWithRdp ''RDP_SERVER_LAYOUT''),
               (''resize-method'', or_else (prop_get nicWithRdp ''RDP_RESIZE_METHOD'') (JStr ''display-update''))] @
              map (\<lambda>(k, attr). (k, JBool (says_yes attr nicWithRdp))) rdp_flags)"

section \<open>Sessions of consoles\<close>

text \<open>The keys of a file of settings: the text before the value, the value by default, and whether it is negated.\<close>

record file_key =
  fk_key :: string
  fk_value :: jsval
  fk_reverse :: bool

definition keysRDP :: "(string \<times> file_key) list" where
  "keysRDP =
     [(''hostname'', \<lparr>fk_key = ''full address:s:'', fk_value = JStr [], fk_reverse = False\<rparr>),
      (''username'', \<lparr>fk_key = ''username:s:'', fk_value = JStr [], fk_reverse = False\<rparr>),
      (''password'', \<lparr>fk_key = ''password 51:b:'', fk_value = JStr [], fk_reverse = False\<rparr>),
      (''port'', \<lparr>fk_key = ''server port:i:'', fk_value = JStr [], fk_reverse = False\<rparr>),
      (''server-layout'', \<lparr>fk_key = ''keyboard layout:i:'', fk_value = JStr [], fk_reverse = False\<rparr>),
      (''disable-audio'', \<lparr>fk_key = ''audiomode:i:'', fk_value = JNum 0, fk_reverse = False\<rparr>),
      (''enable-audio-input'', \<lparr>fk_key = ''redirectaudiocapture:1:'', fk_value = JNum 0, fk_reverse = False\<rparr>),
      (''enable-wallpaper'', \<lparr>fk_key = ''disable wallpaper:i:'', fk_value = JNum 0, fk_reverse = True\<rparr>),
      (''enable-theming'', \<lparr>fk_key = ''disable themes:i:'', fk_value = JNum 0, fk_reverse = True\<rparr>),
      (''enable-font-smoothing'', \<lparr>fk_key = ''allow font smoothing:i:'', fk_value = JNum 1, fk_reverse = False\<rparr>),
      (''enable-full-window-drag'', \<lparr>fk_key = ''disable full window drag:i:'', fk_value = JNum 0, fk_reverse = True\<rparr>),
      (''enable-desktop-composition'', \<lparr>fk_key = ''allow desktop composition:i:'', fk_value = JNum 1, fk_reverse = False\<rparr>),
      (''enable-menu-animations'', \<lparr>fk_key = ''disable menu anims:i:'', fk_value = JNum 0, fk_reverse = True\<rparr>),
      (''disable-bitmap-caching'', \<lparr>fk_key = ''bitmapcachepersistenable:i:'', fk_value = JNum 0, fk_reverse = True\<rparr>),
      (''disable-offscreen-caching'', \<lparr>fk_key = ''offscreen caching:i:'', fk_value = JNum 1, fk_reverse = True\<rparr>),
      (''disable-glyph-caching'', \<lparr>fk_key = ''glyphcache:i:'', fk_value = JNum 0, fk_reverse = True\<rparr>)]"

definition keysVNC :: "(string \<times> file_key) list" where
  "keysVNC =
     [(''hostname'', \<lparr>fk_key = ''Host='', fk_value = JStr [], fk_reverse = False\<rparr>),
      (''port'', \<lparr>fk_key = ''Port='', fk_value = JStr [], fk_reverse = False\<rparr>),
      (''username'', \<lparr>fk_key = ''Username='', fk_value = JStr [], fk_reverse = False\<rparr>),
      (''password'', \<lparr>fk_key = ''Password='', fk_value = JStr [], fk_reverse = False\<rparr>)]"

definition file_line :: "(string \<times> file_key) list \<Rightarrow> string \<times> jsval \<Rightarrow> string option" where
  "file_line keys kv =
     (case map_of keys (fst kv) of
        None \<Rightarrow> None
      | Some k \<Rightarrow>
          let getValue = (if nullish (snd kv) then fk_value k else snd kv);
              parseValue = (case getValue of
                  JBool b \<Rightarrow> if (if fk_reverse k then \<not> b else b) then ''1'' else ''0''
                | _ \<Rightarrow> to_string getValue)
          in Some (fk_key k @ parseValue))"

definition file_text :: "string \<Rightarrow> string \<Rightarrow> jsobj \<Rightarrow> string" where
  "file_text type ensuredType settings =
     js_join [CHR 0x0A] (List.map_filter (file_line (if type = ''rdp'' then keysRDP else keysVNC))
       (obj_spread settings [(''protocol'', JStr ensuredType)]))"

text \<open>What a session needs besides OpenNebula: base 64 and the cipher, which gives the vector and the text that it
  encrypts with the key of FireEdge.\<close>

record console_env =
  ce_auth :: auth_env
  ce_one :: one_lib
  ce_zone :: string
  ce_base64 :: "string \<Rightarrow> string"
  ce_cipher :: "string \<Rightarrow> string \<Rightarrow> string \<times> string"

definition encryptConnection :: "console_env \<Rightarrow> string \<Rightarrow> jsval \<Rightarrow> jsval" where
  "encryptConnection env key data =
     (let (iv, value) = ce_cipher env key (case data of JStr s \<Rightarrow> s | _ \<Rightarrow> json_stringify data)
      in JObj [(''iv'', JStr iv), (''value'', JStr value)])"

definition console_settings :: "string \<Rightarrow> jsval \<Rightarrow> jsval \<Rightarrow> jsobj" where
  "console_settings ensuredType VM USER =
     (if ensuredType = ''vnc'' then getVncSettings VM
      else if ensuredType = ''ssh'' then getSshSettings VM USER
      else if ensuredType = ''rdp'' then getRdpSettings VM
      else [(''error'', JStr [])])"

definition base_settings :: jsobj where
  "base_settings = [(''security'', JStr ''any''), (''ignore-cert'', JStr ''true''), (''enable-drive'', JStr ''true''),
     (''create-drive-path'', JStr ''true'')]"

definition console_connection :: "string \<Rightarrow> jsobj \<Rightarrow> jsval" where
  "console_connection ensuredType settings =
     JObj [(''connection'', JObj [(''type'', JStr ensuredType), (''settings'', JObj (obj_spread base_settings settings))])]"

definition callbackVmInfo :: "console_env \<Rightarrow> string \<Rightarrow> string \<Rightarrow> bool \<Rightarrow> jsval \<Rightarrow> jsval \<Rightarrow> jsval \<Rightarrow> http_result" where
  "callbackVmInfo env key type download vmInfoErr VM USER =
     (let ensuredType = to_lower type
      in if truthy vmInfoErr \<or> \<not> truthy VM
         then httpResponse (Some (if \<not> truthy VM then internalServerError else unauthorized)) vmInfoErr [] []
         else let settings = console_settings ensuredType VM USER
              in if truthy (obj_get settings ''error'') then httpResponse (Some badRequest) (obj_get settings ''error'') [] []
                 else if download
                 then httpResponse (Some ok) (JStr (ce_base64 env (file_text type ensuredType (obj_spread base_settings settings)))) [] []
                 else httpResponse (Some ok) (JStr (ce_base64 env (json_stringify
                        (encryptConnection env key (console_connection ensuredType settings))))) [] [])"

text \<open>A callback that takes a field of the value: of null it throws, and nothing is answered.\<close>

definition with_field :: "string \<Rightarrow> (jsval \<Rightarrow> 'a list) \<Rightarrow> jsval \<Rightarrow> 'a list" where
  "with_field k f v = (if v = JNull then [] else f (prop_get v k))"

definition int_arg :: "string \<Rightarrow> jsval" where
  "int_arg s = (case parse_int s of Some n \<Rightarrow> JNum n | None \<Rightarrow> JNull)"

definition info_query :: "string \<Rightarrow> string \<Rightarrow> one_request" where
  "info_query action i =
     \<lparr>oq_action = action, oq_parameters = [int_arg i, JBool True], oq_fillHookResource = True, oq_parseXML = True\<rparr>"

record console_request =
  cq_id :: string
  cq_type :: string
  cq_download :: bool
  cq_userId :: string
  cq_user :: string

definition console_token :: "console_env \<Rightarrow> string" where
  "console_token env =
     (case getSunstoneAuth (ce_auth env) of
        None \<Rightarrow> []
      | Some sa \<Rightarrow>
          (case createTokenServerAdmin (ce_auth env) (sa_username sa) (sa_username sa) (sa_key sa) (sa_iv sa) False of
             Some t \<Rightarrow> td_token t
           | None \<Rightarrow> []))"

text \<open>The answers of a request, in their order: the handler does not stop at the first two.\<close>

definition console_calls :: "console_env \<Rightarrow> string \<Rightarrow> string \<Rightarrow> console_request \<Rightarrow> globals \<Rightarrow> http_result list" where
  "console_calls env key token q g =
     (let oneClient = (\<lambda>r g. opennebulaConnect (ce_one env) (cq_user q) token (ce_zone env) r g);
          (users, g') = oneClient (info_query ''user.info'' (cq_userId q)) g
      in concat (map (\<lambda>(userInfoErr, v). with_field ''USER'' (\<lambda>USER.
           if truthy userInfoErr \<or> \<not> truthy USER then [httpResponse (Some badRequest) userInfoErr [] []]
           else concat (map (\<lambda>(vmInfoErr, w). with_field ''VM'' (\<lambda>VM.
                  [callbackVmInfo env key (cq_type q) (cq_download q) vmInfoErr VM USER]) w)
                (fst (oneClient (info_query ''vm.info'' (cq_id q)) g')))) v) users))"

definition generateGuacamoleSession :: "console_env \<Rightarrow> string \<Rightarrow> console_request \<Rightarrow> globals \<Rightarrow> http_result list" where
  "generateGuacamoleSession env key q g =
     (let token = console_token env
      in (if to_lower (cq_type q) \<notin> {''vnc'', ''ssh'', ''rdp''}
          then [httpResponse (Some badRequest) (JStr ''Type connection isn't supported by Guacamole'') [] []] else []) @
         (if token = [] \<or> cq_user q = [] then [httpResponse (Some badRequest) (JStr []) [] []] else []) @
         console_calls env key token q g)"

section \<open>Logs\<close>

text \<open>Reading a file: the code of the error, or its content.\<close>

definition log_level :: "string \<Rightarrow> string" where
  "log_level line =
     (if str_includes line ''[E]'' then ''error''
      else if str_includes line ''[W]'' then ''warning''
      else if str_includes line ''[D]'' then ''debug''
      else if str_includes line ''[I]'' then ''info''
      else ''debug'')"

definition log_lines :: "string \<Rightarrow> string list" where
  "log_lines content = filter (\<lambda>line. js_trim line \<noteq> []) (js_split (CHR 0x0A) content)"

definition log_result :: "string \<Rightarrow> jsval" where
  "log_result content =
     (let lines = map (\<lambda>line. JObj [(''level'', JStr (log_level line)), (''text'', JStr line)]) (log_lines content)
      in JObj [(''meta'', JObj [(''mode'', JStr ''all''), (''total_lines'', JNum (int (length lines)))]), (''lines'', JArr lines)])"

definition log_path :: "string \<Rightarrow> string \<Rightarrow> string" where
  "log_path location i = location @ ''/'' @ i @ ''.log''"

definition vmLogs :: "(string \<Rightarrow> string + string) \<Rightarrow> string \<Rightarrow> string option \<Rightarrow> http_result" where
  "vmLogs readFile location i =
     (case i of
        Some d \<Rightarrow>
          if d \<noteq> [] \<and> string_number d \<noteq> None then
            (case readFile (log_path location d) of
               Inr content \<Rightarrow> httpResponse (Some ok) (log_result content) [] []
             | Inl code \<Rightarrow>
                 if code = ''ENOENT'' then httpResponse (Some notFound) (JStr ''Log file not found'') [] []
                 else httpResponse (Some internalServerError) JUndef [] [])
          else httpResponse (Some badRequest) (JStr []) [] []
      | None \<Rightarrow> httpResponse (Some badRequest) (JStr []) [] [])"

section \<open>Commands and their arguments\<close>

text \<open>
  The arguments of a command: without a command before it they are passed as they are; with one, the command and
  its arguments are one text, in which an argument with a blank is as good as two arguments.
\<close>

lemma js_join_blank: "js_join '' '' (ws @ [a @ '' '' @ b] @ vs) = js_join '' '' (ws @ [a, b] @ vs)"
proof (induction ws)
  case Nil
  then show ?case by (cases vs) simp_all
next
  case (Cons w ws)
  then show ?case by (cases "ws @ [a @ '' '' @ b] @ vs"; cases "ws @ [a, b] @ vs") auto
qed

theorem prepended_arguments_merge:
  "addPrependCommand command rsc [] = (command, rsc) \<and>
   (prepend \<noteq> [] \<longrightarrow> addPrependCommand command (ws @ [a @ '' '' @ b] @ vs) prepend = addPrependCommand command (ws @ [a, b] @ vs) prepend)"
  using js_join_blank [of "command # ws" a b vs] by (simp add: addPrependCommand_def)

theorem prepended_arguments_merge_witness:
  "addPrependCommand ''onevm'' (save_args ''3'' ''a --persistent'' []) ''ssh host'' =
   addPrependCommand ''onevm'' (save_args ''3'' ''a'' ''true'') ''ssh host''"
  using prepended_arguments_merge [of "''onevm''" "[]" "''ssh host''" "[''save'', ''3'']" "''a''" "''--persistent''" "[]"]
  by (simp add: save_args_def)

section \<open>Settings of consoles\<close>

text \<open>The forwarded ports are never used: the interface that is looked for is one without them.\<close>

lemma find_holds: "find p xs = Some x \<Longrightarrow> p x"
  by (induction xs) (auto split: if_splits)

lemma found_nic_holds: "found_nic p vmInfo \<noteq> JUndef \<Longrightarrow> p (found_nic p vmInfo)"
  using find_holds [of p "nic_list vmInfo"] by (cases "find p (nic_list vmInfo)") (simp_all add: found_nic_def)

theorem forwarded_never: "forwarded vmInfo = None"
proof -
  let ?p = "\<lambda>nic. \<not> truthy (prop_get nic ''EXTERNAL_PORT_RANGE'')"
  have "?p (found_nic ?p vmInfo)"
  proof (cases "found_nic ?p vmInfo = JUndef")
    case False
    then show ?thesis by (rule found_nic_holds)
  qed simp
  then show ?thesis by (simp add: forwarded_def Let_def)
qed

text \<open>A machine of which the NIC with SSH has an address is reached there, at the port of its context.\<close>

lemma ssh_settings_address:
  assumes "find (says_yes ''SSH'') (nic_list vmInfo) = Some nic" "truthy (prop_get nic ''EXTERNAL_IP'')"
  shows "obj_get (getSshSettings vmInfo u) ''hostname'' = prop_get nic ''EXTERNAL_IP''"
    "obj_get (getSshSettings vmInfo u) ''port'' = or_else (context_of vmInfo ''SSH_PORT'') (JStr ''22'')"
proof -
  have h: "or_else (prop_get nic ''EXTERNAL_IP'') (prop_get nic ''IP'') = prop_get nic ''EXTERNAL_IP''"
    using assms(2) by (cases "prop_get nic ''EXTERNAL_IP''") (simp_all add: or_else_def nullish_def)
  have n: "found_nic (says_yes ''SSH'') vmInfo = nic" using assms(1) by (simp add: found_nic_def)
  show "obj_get (getSshSettings vmInfo u) ''hostname'' = prop_get nic ''EXTERNAL_IP''"
    "obj_get (getSshSettings vmInfo u) ''port'' = or_else (context_of vmInfo ''SSH_PORT'') (JStr ''22'')"
    unfolding getSshSettings_def forwarded_never n Let_def option.case h using assms(2) by (simp_all add: obj_get_def)
qed

section \<open>Answers of a session\<close>

text \<open>The handler answers a request of an unsupported type, and goes on: where OpenNebula gives the user and the machine,
  it answers again, with a session of that type.\<close>

lemma settings_unsupported: "to_lower type \<notin> {''vnc'', ''ssh'', ''rdp''} \<Longrightarrow> console_settings (to_lower type) VM USER = [(''error'', JStr [])]"
  by (simp add: console_settings_def)

theorem unsupported_type_answered_twice:
  assumes "to_lower (cq_type q) \<notin> {''vnc'', ''ssh'', ''rdp''}" "console_token env \<noteq> []" "cq_user q \<noteq> []"
    "opennebulaConnect (ce_one env) (cq_user q) (console_token env) (ce_zone env) (info_query ''user.info'' (cq_userId q)) g =
       ([(JUndef, JObj [(''USER'', JObj user)])], g')"
    "opennebulaConnect (ce_one env) (cq_user q) (console_token env) (ce_zone env) (info_query ''vm.info'' (cq_id q)) g' =
       ([(JUndef, JObj [(''VM'', JObj vm)])], g'')"
  shows "map hr_id (generateGuacamoleSession env key q g) = [400, 200]"
  using assms(1-3) settings_unsupported [OF assms(1)]
  by (simp add: generateGuacamoleSession_def console_calls_def assms(4,5) with_field_def obj_get_def callbackVmInfo_def Let_def
      badRequest_def ok_def)

text \<open>A supported type is answered at most once for every callback; without a token nothing but the refusal is sent.\<close>

theorem console_refused_without_token:
  assumes "console_token env = []" "to_lower (cq_type q) \<in> {''vnc'', ''ssh'', ''rdp''}"
  shows "generateGuacamoleSession env key q g = [httpResponse (Some badRequest) (JStr []) [] []]"
  using assms by (simp add: generateGuacamoleSession_def console_calls_def opennebulaConnect_def)

section \<open>Logs that are read\<close>

lemma dropWhile_rest: "set s \<subseteq> set (dropWhile P s) \<union> Collect P"
  by (induction s) auto

lemma trim_rest: "set s \<subseteq> set (js_trim s) \<union> Collect is_space"
  using dropWhile_rest [of s is_space] dropWhile_rest [of "rev (dropWhile is_space s)" is_space] by (auto simp: js_trim_def)

lemma string_number_chars:
  assumes "string_number s \<noteq> None" "c \<in> set s"
  shows "is_space c \<or> is_digit c \<or> c = CHR ''+'' \<or> c = CHR ''-''"
proof -
  have "set s \<subseteq> set (js_trim s) \<union> Collect is_space" by (rule trim_rest)
  moreover have "x = CHR ''+'' \<or> x = CHR ''-'' \<or> is_digit x" if "x \<in> set (js_trim s)" for x
    using assms(1) that by (cases "js_trim s") (auto simp: string_number_def Let_def list_all_iff split: if_splits)
  ultimately show ?thesis using assms(2) by blast
qed

text \<open>
  The log that is read lies in the directory of the logs, whatever the client sends as an identifier.
\<close>

theorem log_path_contained:
  assumes "list_all plain_segment ds" "ds \<noteq> []" "string_number i \<noteq> None"
  shows "path_resolve (log_path (abs_path ds) i) = abs_path (ds @ [i @ ''.log''])"
proof -
  have "CHR ''/'' \<notin> set i" using string_number_chars [OF assms(3), of "CHR ''/''"] by (auto simp: is_space_def is_digit_def)
  then have "plain_segment (i @ ''.log'')" by (cases i) (auto simp: plain_segment_def)
  moreover from this have "js_split (CHR ''/'') (i @ ''.log'') = [i @ ''.log'']"
    by (intro js_split_no_sep) (simp add: plain_segment_def)
  ultimately show ?thesis
    using resolve_below [OF assms(1,2), of "i @ ''.log''"] norm_segments_id [of "[i @ ''.log'']" True "rev ds"]
    by (simp add: log_path_def abs_path_join)
qed

text \<open>The lines of a log are those that are not blank, in their order and unchanged.\<close>

lemma log_texts:
  "prop_get (log_result content) ''lines'' = JArr ls \<Longrightarrow>
   map (\<lambda>l. prop_get l ''text'') ls = map JStr (log_lines content) \<and>
   prop_get (prop_get (log_result content) ''meta'') ''total_lines'' = JNum (int (length ls))"
  by (auto simp: log_result_def obj_get_def comp_def)

lemma log_lines_joined:
  assumes "ls \<noteq> []" "\<forall>l \<in> set ls. CHR 0x0A \<notin> set l \<and> js_trim l \<noteq> []"
  shows "log_lines (js_join [CHR 0x0A] ls) = ls"
  using assms js_split_join [of ls "CHR 0x0A"] by (simp add: log_lines_def)

end
