(* ===== verification/Service_Template.thy ===== *)
theory Service_Template
  imports Resource_Helpers "HOL-Library.AList" "HOL-Library.Multiset"
begin

text \<open>
  The texts of service templates (\<open>modules/utils/parser/parseServiceTemplate.js\<close>) and the networks of the two forms
  that read and write them (\<open>modules/components/Forms/ServiceTemplate/CreateForm/Steps/index.js\<close> and
  \<open>InstantiateForm/Steps/index.js\<close>): user inputs, networks with their address ranges, security groups and sizes,
  the case of keys, and custom inputs.

  Reading a floating-point number is an argument; the number NaN is null, the way JSON writes it.  What the schema of a
  form casts and cleans afterwards is left out.
\<close>

section \<open>User inputs\<close>

definition USER_INPUT_TYPES :: "(string \<times> string) list" where
  "USER_INPUT_TYPES =
     [(''fixed'', ''fixed''), (''text'', ''text''), (''text64'', ''text64''), (''password'', ''password''), (''number'', ''number''),
      (''numberFloat'', ''number-float''), (''range'', ''range''), (''rangeFloat'', ''range-float''), (''boolean'', ''boolean''),
      (''list'', ''list''), (''array'', ''array''), (''listMultiple'', ''list-multiple'')]"

definition UserInputArrayTypes :: "string list" where
  "UserInputArrayTypes =
     filter (\<lambda>v. list_ex (\<lambda>prefix. starts_with v prefix) [''list'', ''array'', ''range'']) (map snd USER_INPUT_TYPES)"

text \<open>The default of a text: \<open>None\<close> is undefined.  Splitting it throws when there is none.\<close>

definition formatDefaultValue :: "(string \<Rightarrow> jsval) \<Rightarrow> string option \<Rightarrow> string option \<Rightarrow> jsval js" where
  "formatDefaultValue parseFloat def type =
     (let text = (case def of Some d \<Rightarrow> d | None \<Rightarrow> ''undefined'')
      in case type of
        None \<Rightarrow> Inr (case def of Some d \<Rightarrow> JStr d | None \<Rightarrow> JUndef)
      | Some t \<Rightarrow>
          if t \<in> set UserInputArrayTypes
          then (case def of Some d \<Rightarrow> Inr (JArr (map JStr (js_split (CHR '','') d))) | None \<Rightarrow> Inl TypeError)
          else if t = ''number'' then Inr (case parse_int text of Some n \<Rightarrow> JNum n | None \<Rightarrow> JNull)
          else if t = ''number-float'' then Inr (parseFloat text)
          else Inr (case def of Some d \<Rightarrow> JStr d | None \<Rightarrow> JUndef))"

record service_input =
  si_name :: string
  si_mandatory :: bool
  si_type :: "string option"
  si_description :: "string option"
  si_options :: jsval
  si_options_1 :: jsval
  si_default :: jsval

definition or_text :: "jsval \<Rightarrow> jsval" where
  "or_text v = (if v = JUndef then JStr [] else v)"

definition opt_text :: "string option \<Rightarrow> string" where
  "opt_text v = (case v of Some s \<Rightarrow> s | None \<Rightarrow> ''undefined'')"

definition toUserInputString :: "service_input \<Rightarrow> string \<times> string" where
  "toUserInputString u =
     (let options = or_text (si_options u); options_1 = or_text (si_options_1 u);
          opts = (case options of
              JArr xs \<Rightarrow> to_string (JArr xs)
            | _ \<Rightarrow> js_join ''..'' (map to_string (filter (\<lambda>v. v \<noteq> JNull \<and> v \<noteq> JUndef \<and> v \<noteq> JStr []) [options, options_1])))
      in (si_name u,
          js_join ''|'' [if si_mandatory u then ''M'' else ''O'', opt_text (si_type u),
            (case si_description u of Some d \<Rightarrow> d | None \<Rightarrow> []), opts, to_string (si_default u)]))"

definition at_or_undef :: "string list \<Rightarrow> nat \<Rightarrow> jsval" where
  "at_or_undef xs i = (if i < length xs then JStr (xs ! i) else JUndef)"

definition fromUserInputString :: "(string \<Rightarrow> jsval) \<Rightarrow> string \<times> string \<Rightarrow> service_input js" where
  "fromUserInputString parseFloat userInput =
     (let parts = js_split (CHR ''|'') (snd userInput)
      in case at_pos parts 3 of
           None \<Rightarrow> Inl TypeError
         | Some opts \<Rightarrow>
             let (options, options_1) =
                   (if opts = [] then (JUndef, JUndef)
                    else if str_includes opts ''..''
                    then (let bs = filter (\<lambda>b. b \<noteq> []) (split_range opts) in (at_or_undef bs 0, at_or_undef bs 1))
                    else (JArr (map JStr (js_split (CHR '','') opts)), JArr [JUndef]))
             in rbind (formatDefaultValue parseFloat (at_pos parts 4) (at_pos parts 1)) (\<lambda>fmtDefault.
                  Inr \<lparr>si_name = fst userInput, si_mandatory = (at_pos parts 0 = Some ''M''), si_type = at_pos parts 1,
                       si_description = at_pos parts 2, si_options = options, si_options_1 = options_1, si_default = fmtDefault\<rparr>))"

section \<open>Networks\<close>

record service_network =
  sn_name :: string
  sn_description :: string
  sn_type :: string
  sn_value :: "string option"
  sn_size :: "string option"

definition toNetworkString :: "service_network \<Rightarrow> string \<times> string" where
  "toNetworkString n = (sn_name n, ''M|network|'' @ sn_description n @ ''||'' @ sn_type n @ '':'' @ opt_text (sn_value n))"

text \<open>Too few parts throw; a value may be missing, which is written as the text undefined.\<close>

definition fromNetworkString :: "string \<times> string \<Rightarrow> service_network js" where
  "fromNetworkString network =
     (let parts = drop 2 (js_split (CHR ''|'') (snd network))
      in case at_pos parts 2 of
           None \<Rightarrow> Inl TypeError
         | Some tv \<Rightarrow>
             let ts = js_split (CHR '':'') tv
             in Inr \<lparr>sn_name = fst network, sn_description = opt_text (at_pos parts 0), sn_type = opt_text (at_pos ts 0),
                     sn_value = at_pos ts 1, sn_size = None\<rparr>)"

text \<open>The values of a network: address ranges, identifiers of security groups, and the size.\<close>

record network_conf =
  nc_AR :: "jsobj list"
  nc_SECURITY_GROUPS :: "string list"
  nc_size :: "string option"

text \<open>The order of the keys of an object: the array indices first, ascending, then the other keys the way they were added.\<close>

definition array_index :: "string \<Rightarrow> bool" where
  "array_index k \<longleftrightarrow> k \<noteq> [] \<and> list_all is_digit k \<and> (hd k \<noteq> CHR ''0'' \<or> length k = 1) \<and> digits_val k < 4294967295"

definition js_order :: "(string \<times> 'v) list \<Rightarrow> (string \<times> 'v) list" where
  "js_order es = sort_key (\<lambda>e. digits_val (fst e)) (filter (\<lambda>e. array_index (fst e)) es) @ filter (\<lambda>e. \<not> array_index (fst e)) es"

definition ar_body :: "jsobj \<Rightarrow> string" where
  "ar_body ar = js_join '','' (map (\<lambda>(key, valueAR). key @ ''='' @ to_string valueAR) (js_order ar))"

definition ar_text :: "jsobj \<Rightarrow> string" where
  "ar_text ar = ''AR=['' @ ar_body ar @ '']''"

definition sg_text :: "string list \<Rightarrow> string" where
  "sg_text groups = ''SECURITY_GROUPS='' @ [CHR 0x22] @ js_join '','' groups @ [CHR 0x22]"

definition extra_text :: "jsobj list \<Rightarrow> string list \<Rightarrow> string option \<Rightarrow> string" where
  "extra_text AR SECURITY_GROUPS size' =
     js_join '',''
       ((if AR \<noteq> [] then [js_join '','' (map ar_text AR)] else []) @
        (if SECURITY_GROUPS \<noteq> [] then [sg_text SECURITY_GROUPS] else []) @
        (case size' of Some n \<Rightarrow> if n \<noteq> [] then [''size='' @ n] else [] | None \<Rightarrow> []))"

record networks_value =
  nv_name :: string
  nv_type :: string
  nv_value :: "string option"
  nv_extra :: string

definition toNetworksValueString :: "service_network \<Rightarrow> network_conf option \<Rightarrow> networks_value option" where
  "toNetworksValueString n conf =
     (let (AR, SECURITY_GROUPS) = (case conf of Some c \<Rightarrow> (nc_AR c, nc_SECURITY_GROUPS c) | None \<Rightarrow> ([], []))
      in if sn_name n = [] then None
         else Some \<lparr>nv_name = sn_name n, nv_type = sn_type n, nv_value = sn_value n,
                    nv_extra = extra_text AR SECURITY_GROUPS (sn_size n)\<rparr>)"

text \<open>The first suffix of a text that matches.\<close>

fun scan :: "(string \<Rightarrow> 'a option) \<Rightarrow> string \<Rightarrow> 'a option" where
  "scan m [] = m []"
| "scan m (c # s) = (case m (c # s) of Some x \<Rightarrow> Some x | None \<Rightarrow> scan m s)"

text \<open>A prefix, one character or more up to a closing one, and that one; what is between, and the rest.\<close>

definition enclosed_at :: "string \<Rightarrow> char \<Rightarrow> string \<Rightarrow> (string \<times> string) option" where
  "enclosed_at prefix close s =
     (if starts_with s prefix then
        (let r = drop (length prefix) s; w = takeWhile (\<lambda>c. c \<noteq> close) r
         in if w \<noteq> [] \<and> dropWhile (\<lambda>c. c \<noteq> close) r \<noteq> [] then Some (w, tl (dropWhile (\<lambda>c. c \<noteq> close) r)) else None)
      else None)"

text \<open>All matches, each after the end of the one before.\<close>

function enclosed_all :: "string \<Rightarrow> char \<Rightarrow> string \<Rightarrow> string list" where
  "enclosed_all prefix close [] = []"
| "enclosed_all prefix close (c # s) =
     (case enclosed_at prefix close (c # s) of
        Some (w, rest) \<Rightarrow> w # enclosed_all prefix close rest
      | None \<Rightarrow> enclosed_all prefix close s)"
  by pat_completeness auto

lemma enclosed_at_shorter: "enclosed_at prefix close s = Some (w, rest) \<Longrightarrow> length rest < length s"
proof -
  assume a: "enclosed_at prefix close s = Some (w, rest)"
  let ?r = "drop (length prefix) s"
  have "rest = tl (dropWhile (\<lambda>c. c \<noteq> close) ?r)" "dropWhile (\<lambda>c. c \<noteq> close) ?r \<noteq> []"
    using a by (auto simp: enclosed_at_def Let_def split: if_splits)
  then have "length rest < length (dropWhile (\<lambda>c. c \<noteq> close) ?r)" by simp
  also have "\<dots> \<le> length ?r" by (rule length_dropWhile_le)
  finally show ?thesis by simp
qed

termination enclosed_all
  by (relation "measure (\<lambda>(p, c, s). length s)") (auto dest: enclosed_at_shorter)

text \<open>\<open>Object.fromEntries\<close>: a later entry of a key replaces the value; the keys are listed in the order of an object.\<close>

definition from_entries :: "(string \<times> 'v) list \<Rightarrow> (string \<times> 'v) list" where
  "from_entries es = js_order (fold (\<lambda>(k, v). AList.update k v) es [])"

definition ar_entry :: "string \<Rightarrow> string \<times> jsval" where
  "ar_entry arg = (let ps = js_split (CHR ''='') arg in (hd ps, at_or_undef ps 1))"

text \<open>A size is a whole segment between commas.\<close>

definition size_of_segment :: "string \<Rightarrow> string option" where
  "size_of_segment seg =
     (if starts_with seg ''size='' \<and> drop 5 seg \<noteq> [] \<and> list_all is_digit (drop 5 seg) then Some (drop 5 seg) else None)"

fun first_some :: "('a \<Rightarrow> 'b option) \<Rightarrow> 'a list \<Rightarrow> 'b option" where
  "first_some f [] = None"
| "first_some f (x # xs) = (case f x of Some y \<Rightarrow> Some y | None \<Rightarrow> first_some f xs)"

definition SG_PREFIX :: string where
  "SG_PREFIX = ''SECURITY_GROUPS='' @ [CHR 0x22]"

definition fromNetworksValueString :: "string \<Rightarrow> network_conf" where
  "fromNetworksValueString extra =
     \<lparr>nc_AR = map (\<lambda>body. from_entries (map ar_entry (js_split (CHR '','') body))) (enclosed_all ''AR=['' (CHR '']'') extra),
      nc_SECURITY_GROUPS = (case scan (enclosed_at SG_PREFIX (CHR 0x22)) extra of
         Some (w, _) \<Rightarrow> js_split (CHR '','') w | None \<Rightarrow> []),
      nc_size = first_some size_of_segment (js_split (CHR '','') extra)\<rparr>"

section \<open>The networks of the forms\<close>

text \<open>The values of a network that the template has for it, in either form.\<close>

definition matching_value :: "networks_value list \<Rightarrow> service_network \<Rightarrow> networks_value option" where
  "matching_value nvs n = List.find (\<lambda>nv. nv_name nv = sn_name n) nvs"

text \<open>The form for creation takes the size out of the values and gives it to the network.\<close>

definition create_network :: "networks_value list \<Rightarrow> string \<times> string \<Rightarrow> (service_network \<times> network_conf option) js" where
  "create_network nvs network =
     rbind (fromNetworkString network) (\<lambda>n.
       Inr (case matching_value nvs n of
          Some nv \<Rightarrow> let c = fromNetworksValueString (nv_extra nv) in (n\<lparr>sn_size := nc_size c\<rparr>, Some (c\<lparr>nc_size := None\<rparr>))
        | None \<Rightarrow> (n, None)))"

text \<open>The form for instantiation asks the values for \<open>SIZE\<close>, which they never have: the network gets none, and
  \<open>size\<close> stays among the values.\<close>

definition instantiate_network :: "networks_value list \<Rightarrow> string \<times> string \<Rightarrow> (service_network \<times> network_conf option) js" where
  "instantiate_network nvs network =
     rbind (fromNetworkString network) (\<lambda>n.
       Inr (case matching_value nvs n of
          Some nv \<Rightarrow> (n, Some (fromNetworksValueString (nv_extra nv)))
        | None \<Rightarrow> (n, None)))"

definition parse_networks ::
  "(networks_value list \<Rightarrow> string \<times> string \<Rightarrow> (service_network \<times> network_conf option) js) \<Rightarrow>
   (string \<times> string) list \<Rightarrow> networks_value list \<Rightarrow> (service_network list \<times> network_conf option list) js" where
  "parse_networks reader networks nvs =
     rbind (rmap (reader nvs) (js_order networks)) (\<lambda>ps. Inr (map fst ps, map snd ps))"

text \<open>What both forms submit; a network beyond the values has none.\<close>

definition conf_at :: "network_conf option list \<Rightarrow> nat \<Rightarrow> network_conf option" where
  "conf_at confs i = (if i < length confs then confs ! i else None)"

definition submit_networks :: "service_network list \<Rightarrow> network_conf option list \<Rightarrow> (string \<times> string) list \<times> networks_value list" where
  "submit_networks ns confs =
     (from_entries (map toNetworkString ns),
      List.map_filter (\<lambda>(i, n). toNetworksValueString n (conf_at confs i)) (enumerate 0 ns))"

section \<open>Keys\<close>

text \<open>\<open>convertKeysToCase\<close>: \<open>None\<close> is the infinite depth.  An array does not count as a level.\<close>

definition key_case :: "bool \<Rightarrow> string \<Rightarrow> string" where
  "key_case toLower key = (if toLower then to_lower key else to_upper key)"

definition pred_depth :: "nat option \<Rightarrow> nat option" where
  "pred_depth d = map_option (\<lambda>n. n - 1) d"

function convertKeysToCase :: "bool \<Rightarrow> nat option \<Rightarrow> jsval \<Rightarrow> jsval" where
  "convertKeysToCase toLower d (JArr xs) =
     (if d = Some 0 then JArr xs else JArr (map (convertKeysToCase toLower d) xs))"
| "convertKeysToCase toLower d (JObj fs) =
     (if d = Some 0 then JObj fs
      else JObj (from_entries (map (\<lambda>(k, v). (key_case toLower k,
        if d = Some 1 then v else convertKeysToCase toLower (pred_depth d) v)) (js_order fs))))"
| "convertKeysToCase toLower d JUndef = JUndef"
| "convertKeysToCase toLower d JNull = JNull"
| "convertKeysToCase toLower d (JBool b) = JBool b"
| "convertKeysToCase toLower d (JNum n) = JNum n"
| "convertKeysToCase toLower d (JStr s) = JStr s"
  by pat_completeness auto

lemma js_order_keeps: "set (js_order es) = set es" "distinct (map fst (js_order es)) \<longleftrightarrow> distinct (map fst es)"
proof -
  have m: "mset (js_order es) = mset es" by (simp add: js_order_def)
  then show "set (js_order es) = set es" by (rule mset_eq_setD)
  have "mset (map fst (js_order es)) = mset (map fst es)" using m by simp
  then show "distinct (map fst (js_order es)) \<longleftrightarrow> distinct (map fst es)" by (metis mset_eq_imp_distinct_iff)
qed

termination convertKeysToCase
  by (relation "measure (\<lambda>(l, d, v). size v)") (auto simp: js_order_keeps intro: size_list_estimation' le_imp_less_Suc dest: in_set_conv_decomp [THEN iffD1])

section \<open>Custom inputs\<close>

record custom_input =
  cu_name :: "string option"
  cu_mandatory :: jsval
  cu_type :: "string option"
  cu_description :: "string option"
  cu_min :: jsval
  cu_max :: jsval
  cu_list :: "string option"
  cu_default :: "string option"

definition is_list_type :: "string option \<Rightarrow> bool" where
  "is_list_type t \<longleftrightarrow> t = Some ''list'' \<or> t = Some ''list-multiple''"

definition number_value :: "string \<Rightarrow> jsval" where
  "number_value s = (case string_number s of Some n \<Rightarrow> JNum n | None \<Rightarrow> JNull)"

text \<open>The bounds of a range are integers here; a bound that is no number is NaN.\<close>

definition formatCustomInputString :: "string \<Rightarrow> custom_input option" where
  "formatCustomInputString s =
     (let parts = js_split (CHR ''|'') s
      in if length parts < 5 then None
         else let type = at_pos parts 2; rangeOrList = parts ! 4; bs = split_range rangeOrList
              in Some \<lparr>cu_name = at_pos parts 0, cu_mandatory = JBool (at_pos parts 1 = Some ''M''), cu_type = type,
                   cu_description = at_pos parts 3,
                   cu_min = (if is_range_type type then number_value (hd bs) else JUndef),
                   cu_max = (if is_range_type type \<and> 1 < length bs then number_value (bs ! 1) else JUndef),
                   cu_list = (if is_list_type type then Some rangeOrList else None),
                   cu_default = at_pos parts 5\<rparr>)"

definition parseCustomInputString :: "custom_input \<Rightarrow> string" where
  "parseCustomInputString a =
     js_join ''|'' [if cu_mandatory a \<noteq> JStr ''NO'' then ''M'' else ''0'', the_default [] (cu_type a), the_default [] (cu_description a),
       (if is_range_type (cu_type a) then to_string (cu_min a) @ ''..'' @ to_string (cu_max a)
        else if is_list_type (cu_type a) then opt_text (cu_list a) else []),
       the_default [] (cu_default a)]"

section \<open>What is written is read\<close>

text \<open>A text without the separators of an address range; a range, the identifiers of groups and a size that can be
  read back.\<close>

definition ar_safe :: "string \<Rightarrow> bool" where
  "ar_safe s \<longleftrightarrow> list_all (\<lambda>c. c \<noteq> CHR '','' \<and> c \<noteq> CHR ''='' \<and> c \<noteq> CHR '']'' \<and> c \<noteq> CHR ''['' \<and> c \<noteq> CHR 0x22) s"

definition ar_ok :: "jsobj \<Rightarrow> bool" where
  "ar_ok ar \<longleftrightarrow> ar \<noteq> [] \<and> distinct (map fst ar) \<and> js_order ar = ar \<and>
     list_all (\<lambda>(k, v). ar_safe k \<and> k \<noteq> ''size'' \<and> (case v of JStr s \<Rightarrow> ar_safe s | _ \<Rightarrow> False)) ar"

definition digits :: "string \<Rightarrow> bool" where
  "digits s \<longleftrightarrow> s \<noteq> [] \<and> list_all is_digit s"

definition conf_ok :: "network_conf \<Rightarrow> bool" where
  "conf_ok c \<longleftrightarrow> list_all ar_ok (nc_AR c) \<and> list_all digits (nc_SECURITY_GROUPS c) \<and> (case nc_size c of Some n \<Rightarrow> digits n | None \<Rightarrow> True)"

lemma update_new_key: "k \<notin> fst ` set al \<Longrightarrow> AList.update k v al = al @ [(k, v)]"
  by (induction al) auto

lemma fold_update_append:
  "distinct (map fst (acc @ es)) \<Longrightarrow> fold (\<lambda>(k, v). AList.update k v) es acc = acc @ es"
proof (induction es arbitrary: acc)
  case (Cons e es)
  obtain k v where e: "e = (k, v)" by (cases e)
  have "k \<notin> fst ` set acc" using Cons.prems e by auto
  then have "AList.update k v acc = acc @ [(k, v)]" by (rule update_new_key)
  then show ?case using Cons.IH [of "acc @ [(k, v)]"] Cons.prems e by simp
qed simp

lemma from_entries_distinct [simp]: "distinct (map fst es) \<Longrightarrow> from_entries es = js_order es"
  using fold_update_append [of "[]" es] by (simp add: from_entries_def)

lemma js_order_plain: "list_all (\<lambda>e. \<not> array_index (fst e)) es \<Longrightarrow> js_order es = es"
  by (simp add: js_order_def list_all_iff filter_empty_conv)

lemma js_order_idem [simp]: "js_order (js_order es) = js_order es"
proof -
  let ?f = "\<lambda>e. digits_val (fst e)"
  let ?i = "filter (\<lambda>e. array_index (fst e)) es" and ?r = "filter (\<lambda>e. \<not> array_index (fst e)) es"
  have "filter (\<lambda>e. array_index (fst e)) (sort_key ?f ?i) = sort_key ?f ?i" "filter (\<lambda>e. \<not> array_index (fst e)) (sort_key ?f ?i) = []"
    by (auto simp: filter_sort)
  moreover have "filter (\<lambda>e. array_index (fst e)) ?r = []" by auto
  moreover have "sort_key ?f (sort_key ?f ?i) = sort_key ?f ?i" by (rule sort_key_id_if_sorted) simp
  ultimately show ?thesis by (simp add: js_order_def)
qed

lemma ar_entry_text: "CHR ''='' \<notin> set k \<Longrightarrow> CHR ''='' \<notin> set v \<Longrightarrow> ar_entry (k @ ''='' @ v) = (k, JStr v)"
  using split_append_sep [of "CHR ''=''" k v] by (simp add: ar_entry_def js_split_no_sep at_or_undef_def)

lemma ar_ok_entry:
  assumes "ar_ok ar" "(k, v) \<in> set ar"
  obtains t where "v = JStr t" "ar_safe k" "k \<noteq> ''size''" "ar_safe t"
  using assms by (cases v) (fastforce simp: ar_ok_def list_all_iff)+

definition ar_args :: "jsobj \<Rightarrow> string list" where
  "ar_args ar = map (\<lambda>(key, valueAR). key @ ''='' @ to_string valueAR) ar"

lemma ar_args_safe:
  assumes "ar_ok ar" "w \<in> set (ar_args ar)" "c \<in> set w"
  shows "c \<noteq> CHR '','' \<and> c \<noteq> CHR '']'' \<and> c \<noteq> CHR ''['' \<and> c \<noteq> CHR 0x22"
proof -
  obtain k v where kv: "(k, v) \<in> set ar" "w = k @ ''='' @ to_string v" using assms(2) by (auto simp: ar_args_def)
  obtain t where "v = JStr t" "ar_safe k" "ar_safe t" using ar_ok_entry [OF assms(1) kv(1)] by blast
  then show ?thesis using kv(2) assms(3) by (auto simp: ar_safe_def list_all_iff)
qed

lemma ar_body_split:
  assumes "ar_ok ar"
  shows "js_split (CHR '','') (ar_body ar) = ar_args ar"
proof -
  have "ar_args ar \<noteq> []" using assms by (simp add: ar_args_def ar_ok_def)
  moreover have "\<forall>w \<in> set (ar_args ar). CHR '','' \<notin> set w" using ar_args_safe [OF assms] by blast
  ultimately have "js_split (CHR '','') (js_join '','' (ar_args ar)) = ar_args ar" by (rule js_split_join)
  then show ?thesis using assms by (simp add: ar_body_def ar_args_def ar_ok_def)
qed

lemma ar_read_back:
  assumes "ar_ok ar"
  shows "from_entries (map ar_entry (js_split (CHR '','') (ar_body ar))) = ar"
proof -
  have "ar_entry (k @ ''='' @ to_string v) = (k, v)" if kv: "(k, v) \<in> set ar" for k v
  proof -
    obtain t where t: "v = JStr t" "ar_safe k" "ar_safe t" using ar_ok_entry [OF assms kv] by blast
    then have "CHR ''='' \<notin> set k" "CHR ''='' \<notin> set t" by (auto simp: ar_safe_def list_all_iff)
    then show ?thesis using ar_entry_text [of k t] t(1) by simp
  qed
  then have "map ar_entry (ar_args ar) = ar" by (auto simp: ar_args_def intro!: map_idI)
  moreover have "distinct (map fst ar)" "js_order ar = ar" using assms by (simp_all add: ar_ok_def)
  ultimately show ?thesis by (simp add: ar_body_split [OF assms])
qed

lemma ar_body_safe:
  assumes "ar_ok ar"
  shows "ar_body ar \<noteq> []" "CHR '']'' \<notin> set (ar_body ar)" "CHR ''['' \<notin> set (ar_body ar)" "CHR 0x22 \<notin> set (ar_body ar)"
proof -
  have b: "ar_body ar = js_join '','' (ar_args ar)" using assms by (simp add: ar_body_def ar_args_def ar_ok_def)
  show "ar_body ar \<noteq> []" using assms by (cases ar; cases "tl ar") (auto simp: ar_body_def ar_ok_def)
  have "c \<noteq> CHR '']'' \<and> c \<noteq> CHR ''['' \<and> c \<noteq> CHR 0x22" if "c \<in> set (ar_body ar)" for c
    using that set_js_join [of "'',''" "ar_args ar"] ar_args_safe [OF assms] unfolding b by auto
  then show "CHR '']'' \<notin> set (ar_body ar)" "CHR ''['' \<notin> set (ar_body ar)" "CHR 0x22 \<notin> set (ar_body ar)" by blast+
qed

lemma enclosed_at_text:
  assumes "w \<noteq> []" "close \<notin> set w"
  shows "enclosed_at prefix close (prefix @ w @ close # rest) = Some (w, rest)"
proof -
  have "takeWhile (\<lambda>c. c \<noteq> close) (w @ close # rest) = w" "dropWhile (\<lambda>c. c \<noteq> close) (w @ close # rest) = close # rest"
    using assms(2) by (auto simp: takeWhile_append dropWhile_append)
  moreover have "starts_with (prefix @ w @ close # rest) prefix" by (auto simp: starts_with_iff)
  ultimately show ?thesis using assms(1) by (simp add: enclosed_at_def)
qed

lemma enclosed_at_prefix: "enclosed_at prefix close s = Some x \<Longrightarrow> \<exists>t. s = prefix @ t"
  by (auto simp: enclosed_at_def starts_with_iff split: if_splits)

lemma enclosed_all_none: "c \<in> set prefix \<Longrightarrow> c \<notin> set s \<Longrightarrow> enclosed_all prefix close s = []"
proof (induction s)
  case (Cons x s)
  then have "enclosed_at prefix close (x # s) = None"
    using enclosed_at_prefix [of prefix close "x # s"] by (cases "enclosed_at prefix close (x # s)") fastforce+
  then show ?case using Cons by simp
qed simp

lemma enclosed_all_text:
  assumes "w \<noteq> []" "close \<notin> set w" "prefix \<noteq> []"
  shows "enclosed_all prefix close (prefix @ w @ close # rest) = w # enclosed_all prefix close rest"
  using enclosed_at_text [OF assms(1,2), of prefix rest] assms(3) by (cases prefix) auto

lemma enclosed_all_skip:
  assumes "prefix \<noteq> []" "hd prefix \<noteq> c"
  shows "enclosed_all prefix close (c # s) = enclosed_all prefix close s"
proof -
  have "enclosed_at prefix close (c # s) = None"
    using enclosed_at_prefix [of prefix close "c # s"] assms by (cases "enclosed_at prefix close (c # s)"; cases prefix) auto
  then show ?thesis by simp
qed

lemma ars_matched:
  assumes "list_all ar_ok ars" "CHR ''['' \<notin> set rest"
  shows "enclosed_all ''AR=['' (CHR '']'') (js_join '','' (map ar_text ars) @ rest) = map ar_body ars"
  using assms
proof (induction "'',''" "map ar_text ars" arbitrary: ars rule: js_join.induct)
  case 1
  then show ?case by (simp add: enclosed_all_none [of "CHR ''[''"])
next
  case (2 w)
  then obtain ar where ar: "ars = [ar]" "ar_ok ar" by (cases ars) auto
  have "enclosed_all ''AR=['' (CHR '']'') rest = []" using 2(3) by (simp add: enclosed_all_none [of "CHR ''[''"])
  then show ?case using ar enclosed_all_text [OF ar_body_safe(1,2) [OF ar(2)], of "''AR=[''" rest] by (simp add: ar_text_def)
next
  case (3 w v ws)
  then obtain ar ars' where ar: "ars = ar # ars'" "ar_ok ar" "list_all ar_ok ars'" "v # ws = map ar_text ars'" by (cases ars) auto
  let ?t = "js_join '','' (map ar_text ars') @ rest"
  have "js_join '','' (map ar_text ars) @ rest = ''AR=['' @ ar_body ar @ CHR '']'' # CHR '','' # ?t"
    using ar(4) unfolding ar(1) list.map ar(4) [symmetric] by (simp add: ar_text_def)
  then show ?case
    using enclosed_all_text [OF ar_body_safe(1,2) [OF ar(2)], of "''AR=[''" "CHR '','' # ?t"] 3(1) [OF ar(4) ar(3) 3(4)] ar(1)
    by (simp add: enclosed_all_skip del: enclosed_all.simps(2))
qed

lemma scan_none: "c \<in> set prefix \<Longrightarrow> c \<notin> set s \<Longrightarrow> scan (enclosed_at prefix close) s = None"
proof (induction s)
  case Nil
  then show ?case using enclosed_at_prefix [of prefix close "[]"] by (cases "enclosed_at prefix close []") auto
next
  case (Cons x s)
  then have "enclosed_at prefix close (x # s) = None"
    using enclosed_at_prefix [of prefix close "x # s"] by (cases "enclosed_at prefix close (x # s)") fastforce+
  then show ?case using Cons by simp
qed

text \<open>A match does not run over a character that its prefix has not.\<close>

lemma scan_after:
  assumes "d \<in> set prefix" "d \<notin> set p" "sep \<notin> set prefix"
  shows "scan (enclosed_at prefix close) (p @ sep # r) = scan (enclosed_at prefix close) r"
  using assms(2)
proof (induction p)
  case Nil
  have "enclosed_at prefix close (sep # r) = None"
    using enclosed_at_prefix [of prefix close "sep # r"] assms(1,3)
    by (cases "enclosed_at prefix close (sep # r)"; cases prefix) auto
  then show ?case by simp
next
  case (Cons x p)
  have "\<nexists>t. x # p @ sep # r = prefix @ t"
  proof
    assume "\<exists>t. x # p @ sep # r = prefix @ t"
    then obtain t us where "x # p = prefix @ us \<or> (x # p) @ us = prefix \<and> sep # r = us @ t"
      using append_eq_append_conv2 [of "x # p" "sep # r" prefix] by auto
    then consider "x # p = prefix @ us" | "(x # p) @ us = prefix" "sep # r = us @ t" by blast
    then show False
    proof cases
      case 1
      then have "set prefix \<subseteq> set (x # p)" by (metis set_append sup_ge1)
      then show ?thesis using assms(1) Cons.prems by auto
    next
      case 2
      then show ?thesis using assms(1,3) Cons.prems by (cases us) auto
    qed
  qed
  then have "enclosed_at prefix close (x # p @ sep # r) = None"
    using enclosed_at_prefix [of prefix close "x # p @ sep # r"] by (cases "enclosed_at prefix close (x # p @ sep # r)") auto
  then show ?case using Cons by simp
qed

text \<open>The segments of a text between commas.\<close>

lemma first_some_append: "first_some f (xs @ ys) = (case first_some f xs of Some y \<Rightarrow> Some y | None \<Rightarrow> first_some f ys)"
  by (induction xs) (auto split: option.split)

lemma first_some_none: "list_all (\<lambda>x. f x = None) xs \<Longrightarrow> first_some f xs = None"
  by (induction xs) auto

definition no_sizes :: "string \<Rightarrow> bool" where
  "no_sizes t \<longleftrightarrow> list_all (\<lambda>w. size_of_segment w = None) (js_split (CHR '','') t)"

lemma no_sizes_comma: "no_sizes (a @ CHR '','' # b) \<longleftrightarrow> no_sizes a \<and> no_sizes b"
  by (simp add: no_sizes_def split_append_sep)

lemma no_sizes_join: "ws \<noteq> [] \<Longrightarrow> list_all no_sizes ws \<Longrightarrow> no_sizes (js_join '','' ws)"
proof (induction "'',''" ws rule: js_join.induct)
  case (3 w v ws)
  then show ?case using no_sizes_comma [of w "js_join '','' (v # ws)"] by simp
qed auto

lemma no_size_start: "w = [] \<or> hd w \<noteq> CHR ''s'' \<Longrightarrow> size_of_segment w = None"
  by (cases w) (auto simp: size_of_segment_def)

lemma no_size_end: "w \<noteq> [] \<Longrightarrow> \<not> is_digit (last w) \<Longrightarrow> size_of_segment w = None"
proof -
  assume a: "w \<noteq> []" "\<not> is_digit (last w)"
  have "last w = last (drop 5 w)" if "drop 5 w \<noteq> []" using that by (metis append_take_drop_id last_appendR)
  then have "\<not> list_all is_digit (drop 5 w)" if "drop 5 w \<noteq> []" using that a(2) last_in_set [of "drop 5 w"] by (auto simp: list_all_iff)
  then show ?thesis by (auto simp: size_of_segment_def)
qed

lemma arg_no_size:
  assumes "ar_ok ar" "w \<in> set (ar_args ar)"
  shows "size_of_segment w = None"
proof (rule ccontr)
  assume "size_of_segment w \<noteq> None"
  then have "\<exists>t. w = ''size='' @ t" by (auto simp: size_of_segment_def starts_with_iff split: if_splits)
  then obtain t where t: "w = ''size='' @ t" by blast
  obtain k v where kv: "(k, v) \<in> set ar" "w = k @ ''='' @ to_string v" using assms(2) by (auto simp: ar_args_def)
  have k: "CHR ''='' \<notin> set k" "k \<noteq> ''size''" using ar_ok_entry [OF assms(1) kv(1)] by (auto simp: ar_safe_def list_all_iff)
  have "takeWhile (\<lambda>c. c \<noteq> CHR ''='') w = k" using k(1) kv(2) by (auto simp: takeWhile_append)
  moreover have "takeWhile (\<lambda>c. c \<noteq> CHR ''='') w = ''size''" using t by simp
  ultimately show False using k(2) by simp
qed

lemma split_prepend: "c \<notin> set p \<Longrightarrow> js_split c (p @ t) = (p @ hd (js_split c t)) # tl (js_split c t)"
  by (induction p) auto

lemma split_postpend: "c \<notin> set q \<Longrightarrow> js_split c (t @ q) = butlast (js_split c t) @ [last (js_split c t) @ q]"
proof (induction t)
  case (Cons x t)
  obtain v vs where "js_split c t = v # vs" by (cases "js_split c t") auto
  then show ?case using Cons by (cases vs) auto
qed (simp add: js_split_no_sep)

lemma enclosed_segments:
  assumes "ws \<noteq> []" "\<forall>w \<in> set ws. c \<notin> set w" "c \<notin> set p" "c \<notin> set q" "w \<in> set (js_split c (p @ js_join [c] ws @ q))"
  shows "(\<exists>t. w = p @ t) \<or> w \<in> set ws \<or> (\<exists>v \<in> set ws. w = v @ q)"
proof -
  have "js_split c (js_join [c] ws @ q) = butlast ws @ [last ws @ q]"
    using split_postpend [OF assms(4)] js_split_join [OF assms(1,2)] by simp
  then have "w = p @ hd (butlast ws @ [last ws @ q]) \<or> w \<in> set (tl (butlast ws @ [last ws @ q]))"
    using assms(5) split_prepend [OF assms(3)] by auto
  moreover have "set (tl (butlast ws @ [last ws @ q])) \<subseteq> set (butlast ws @ [last ws @ q])" by (cases "butlast ws @ [last ws @ q]") auto
  ultimately show ?thesis using assms(1) in_set_butlastD [of w ws] last_in_set [of ws] by auto
qed

lemma ar_no_sizes:
  assumes "ar_ok ar"
  shows "no_sizes (ar_text ar)"
proof -
  have args: "ar_args ar \<noteq> []" using assms by (simp add: ar_args_def ar_ok_def)
  have commas: "\<forall>w \<in> set (ar_args ar). CHR '','' \<notin> set w" using ar_args_safe [OF assms] by blast
  have "size_of_segment w = None" if "w \<in> set (js_split (CHR '','') (''AR=['' @ js_join '','' (ar_args ar) @ '']''))" for w
  proof -
    have "(\<exists>t. w = ''AR=['' @ t) \<or> w \<in> set (ar_args ar) \<or> (\<exists>v \<in> set (ar_args ar). w = v @ '']'')"
      by (rule enclosed_segments [OF args commas _ _ that]) simp_all
    then show ?thesis using arg_no_size [OF assms] no_size_start [of w] no_size_end [of w] by (auto simp: is_digit_def)
  qed
  moreover have "js_order ar = ar" using assms by (simp add: ar_ok_def)
  ultimately show ?thesis by (simp add: no_sizes_def list_all_iff ar_text_def ar_body_def ar_args_def)
qed

lemma digits_safe: "digits g \<Longrightarrow> x \<in> set g \<Longrightarrow> x \<noteq> CHR '','' \<and> x \<noteq> CHR 0x22 \<and> x \<noteq> CHR ''['' \<and> x \<noteq> CHR ''s''"
  by (auto simp: digits_def list_all_iff is_digit_def)

lemma sg_no_sizes:
  assumes "gs \<noteq> []" "list_all digits gs"
  shows "no_sizes (sg_text gs)"
proof -
  have "size_of_segment w = None" if "w \<in> set (js_split (CHR '','') (SG_PREFIX @ js_join '','' gs @ [CHR 0x22]))" for w
  proof -
    have "(\<exists>t. w = SG_PREFIX @ t) \<or> w \<in> set gs \<or> (\<exists>v \<in> set gs. w = v @ [CHR 0x22])"
      by (rule enclosed_segments [OF _ _ _ _ that]) (use assms digits_safe in \<open>auto simp: list_all_iff SG_PREFIX_def\<close>)
    moreover have "hd v \<noteq> CHR ''s''" "v \<noteq> []" if "v \<in> set gs" for v
      using digits_safe [of v "hd v"] that assms(2) by (auto simp: list_all_iff digits_def)
    ultimately show ?thesis using no_size_start [of w] by (auto simp: SG_PREFIX_def)
  qed
  then show ?thesis by (simp add: no_sizes_def list_all_iff sg_text_def SG_PREFIX_def)
qed

text \<open>The parts of the values before the size, in their order.\<close>

definition conf_parts :: "jsobj list \<Rightarrow> string list \<Rightarrow> string list" where
  "conf_parts ars gs = (if ars \<noteq> [] then [js_join '','' (map ar_text ars)] else []) @ (if gs \<noteq> [] then [sg_text gs] else [])"

lemma conf_parts_no_sizes: "list_all ar_ok ars \<Longrightarrow> list_all digits gs \<Longrightarrow> list_all no_sizes (conf_parts ars gs)"
  using no_sizes_join [of "map ar_text ars"] ar_no_sizes sg_no_sizes [of gs] by (auto simp: conf_parts_def list_all_iff)

lemma no_sizes_first: "no_sizes t \<Longrightarrow> first_some size_of_segment (js_split (CHR '','') t) = None"
  by (simp add: no_sizes_def first_some_none)

lemma size_segment:
  assumes n: "digits n"
  shows "js_split (CHR '','') (''size='' @ n) = [''size='' @ n] \<and> size_of_segment (''size='' @ n) = Some n"
proof
  have "CHR '','' \<notin> set (''size='' @ n)" using digits_safe [OF n] by auto
  then show "js_split (CHR '','') (''size='' @ n) = [''size='' @ n]" by (rule js_split_no_sep)
  show "size_of_segment (''size='' @ n) = Some n" using n by (simp add: size_of_segment_def digits_def)
qed

lemma size_read_back:
  assumes "list_all no_sizes ws" "case sz of Some n \<Rightarrow> digits n | None \<Rightarrow> True"
  shows "first_some size_of_segment (js_split (CHR '','')
    (js_join '','' (ws @ (case sz of Some n \<Rightarrow> if n \<noteq> [] then [''size='' @ n] else [] | None \<Rightarrow> [])))) = sz"
proof (cases sz)
  case None
  then show ?thesis using no_sizes_join [OF _ assms(1)] no_sizes_first by (cases "ws = []") (auto simp: size_of_segment_def)
next
  case (Some n)
  then have n: "digits n" "n \<noteq> []" using assms(2) by (auto simp: digits_def)
  show ?thesis
  proof (cases "ws = []")
    case True
    then show ?thesis using Some n size_segment [OF n(1)] by simp
  next
    case False
    have "js_join '','' (ws @ [''size='' @ n]) = js_join '','' ws @ CHR '','' # ''size='' @ n"
      using False by (induction ws rule: list_nonempty_induct) (auto simp: neq_Nil_conv)
    then show ?thesis
      using Some n size_segment [OF n(1)] no_sizes_first [OF no_sizes_join [OF False assms(1)]] by (simp add: split_append_sep first_some_append)
  qed
qed

lemma join_cons: "js_join sep (w # ws) = w @ (if ws = [] then [] else sep @ js_join sep ws)"
  by (cases ws) simp_all

definition size_part :: "string option \<Rightarrow> string list" where
  "size_part sz = (case sz of Some n \<Rightarrow> if n \<noteq> [] then [''size='' @ n] else [] | None \<Rightarrow> [])"

lemma extra_parts: "extra_text ars gs sz = js_join '','' (conf_parts ars gs @ size_part sz)"
  by (simp add: extra_text_def conf_parts_def size_part_def)

text \<open>The values after the address ranges have no bracket, and without groups no quotation mark.\<close>

lemma size_part_safe:
  assumes "case sz of Some n \<Rightarrow> digits n | None \<Rightarrow> True" "w \<in> set (size_part sz)" "c \<in> set w"
  shows "c \<noteq> CHR ''['' \<and> c \<noteq> CHR 0x22"
  using assms digits_safe by (fastforce simp: size_part_def split: option.splits if_splits)

lemma sg_text_safe:
  assumes "list_all digits gs" "c \<in> set (sg_text gs)"
  shows "c \<noteq> CHR ''[''"
proof -
  have "c \<in> \<Union> (set ` set gs) \<or> c = CHR '','' \<or> c \<in> set (''SECURITY_GROUPS='' @ [CHR 0x22])"
    using assms(2) set_js_join [of "'',''" gs] by (auto simp: sg_text_def)
  then show ?thesis using assms(1) digits_safe by (auto simp: list_all_iff)
qed

lemma ar_texts_no_quote:
  assumes "list_all ar_ok ars"
  shows "CHR 0x22 \<notin> set (js_join '','' (map ar_text ars))"
  using set_js_join [of "'',''" "map ar_text ars"] assms ar_body_safe(4) by (fastforce simp: ar_text_def list_all_iff)

lemma extra_ranges:
  assumes "list_all ar_ok ars" "list_all digits gs" "case sz of Some n \<Rightarrow> digits n | None \<Rightarrow> True"
  shows "enclosed_all ''AR=['' (CHR '']'') (extra_text ars gs sz) = map ar_body ars"
proof -
  let ?ws = "(if gs \<noteq> [] then [sg_text gs] else []) @ size_part sz"
  have ws: "CHR ''['' \<notin> set (js_join '','' ?ws)"
    using set_js_join [of "'',''" ?ws] sg_text_safe [OF assms(2)] size_part_safe [OF assms(3)] by (fastforce split: if_splits)
  have "extra_text ars gs sz = js_join '','' (map ar_text ars) @ (if ars = [] then js_join '','' ?ws else if ?ws = [] then [] else '','' @ js_join '','' ?ws)"
    unfolding extra_parts conf_parts_def by (simp add: join_cons)
  moreover have "CHR ''['' \<notin> set (if ars = [] then js_join '','' ?ws else if ?ws = [] then [] else '','' @ js_join '','' ?ws)"
    using ws by auto
  ultimately show ?thesis using ars_matched [OF assms(1)] by simp
qed

lemma groups_matched:
  assumes "gs \<noteq> []" "list_all digits gs"
  shows "scan (enclosed_at SG_PREFIX (CHR 0x22)) (sg_text gs @ r) = Some (js_join '','' gs, r)"
proof -
  have "js_join '','' gs \<noteq> []" using assms by (cases gs) (auto simp: join_cons digits_def)
  moreover have "CHR 0x22 \<notin> set (js_join '','' gs)"
    using set_js_join [of "'',''" gs] assms(2) digits_safe by (fastforce simp: list_all_iff)
  ultimately have "enclosed_at SG_PREFIX (CHR 0x22) (sg_text gs @ r) = Some (js_join '','' gs, r)"
    using enclosed_at_text [of "js_join '','' gs" "CHR 0x22" SG_PREFIX r] by (simp add: sg_text_def SG_PREFIX_def)
  then show ?thesis by (cases "sg_text gs @ r") simp_all
qed

lemma extra_groups:
  assumes "list_all ar_ok ars" "list_all digits gs" "case sz of Some n \<Rightarrow> digits n | None \<Rightarrow> True"
  shows "scan (enclosed_at SG_PREFIX (CHR 0x22)) (extra_text ars gs sz) = None \<and> gs = [] \<or>
    (\<exists>r. scan (enclosed_at SG_PREFIX (CHR 0x22)) (extra_text ars gs sz) = Some (js_join '','' gs, r) \<and> gs \<noteq> [])"
proof (cases "gs = []")
  case True
  have "CHR 0x22 \<notin> set (extra_text ars gs sz)"
    using set_js_join [of "'',''" "conf_parts ars gs @ size_part sz"] ar_texts_no_quote [OF assms(1)] size_part_safe [OF assms(3)] True
    unfolding extra_parts conf_parts_def by (fastforce split: if_splits)
  then show ?thesis using True scan_none [of "CHR 0x22" SG_PREFIX] by (simp add: SG_PREFIX_def)
next
  case False
  let ?r = "if size_part sz = [] then [] else '','' @ js_join '','' (size_part sz)"
  have sg: "extra_text [] gs sz = sg_text gs @ ?r" using False by (simp add: extra_parts conf_parts_def join_cons)
  have "scan (enclosed_at SG_PREFIX (CHR 0x22)) (extra_text ars gs sz) = scan (enclosed_at SG_PREFIX (CHR 0x22)) (sg_text gs @ ?r)"
  proof (cases "ars = []")
    case False
    then have "extra_text ars gs sz = js_join '','' (map ar_text ars) @ CHR '','' # (sg_text gs @ ?r)"
      using \<open>gs \<noteq> []\<close> by (simp add: extra_parts conf_parts_def join_cons)
    then show ?thesis using scan_after [of "CHR 0x22" SG_PREFIX "js_join '','' (map ar_text ars)" "CHR '',''"] ar_texts_no_quote [OF assms(1)]
      by (simp add: SG_PREFIX_def)
  qed (simp add: sg)
  then show ?thesis using groups_matched [OF False assms(2)] False by simp
qed

lemma conf_read_back:
  assumes "conf_ok c"
  shows "fromNetworksValueString (extra_text (nc_AR c) (nc_SECURITY_GROUPS c) (nc_size c)) = c"
proof -
  have ok: "list_all ar_ok (nc_AR c)" "list_all digits (nc_SECURITY_GROUPS c)" "case nc_size c of Some n \<Rightarrow> digits n | None \<Rightarrow> True"
    using assms by (auto simp: conf_ok_def)
  have "map (\<lambda>body. from_entries (map ar_entry (js_split (CHR '','') body))) (map ar_body (nc_AR c)) = nc_AR c"
    using ok(1) ar_read_back by (auto simp: list_all_iff intro!: map_idI)
  moreover have "js_split (CHR '','') (js_join '','' (nc_SECURITY_GROUPS c)) = nc_SECURITY_GROUPS c" if "nc_SECURITY_GROUPS c \<noteq> []"
    using that ok(2) digits_safe by (intro js_split_join) (auto simp: list_all_iff)
  moreover have "first_some size_of_segment (js_split (CHR '','') (extra_text (nc_AR c) (nc_SECURITY_GROUPS c) (nc_size c))) = nc_size c"
    using size_read_back [OF conf_parts_no_sizes [OF ok(1,2)] ok(3)] by (simp add: extra_parts size_part_def)
  ultimately show ?thesis
    using extra_groups [OF ok] extra_ranges [OF ok] by (cases c) (auto simp: fromNetworksValueString_def)
qed

section \<open>The forms\<close>

definition network_ok :: "service_network \<Rightarrow> bool" where
  "network_ok n \<longleftrightarrow> sn_name n \<noteq> [] \<and> no_char (CHR ''|'') (sn_description n) \<and>
     (case sn_value n of
        Some v \<Rightarrow> list_all (\<lambda>s. no_char (CHR ''|'') s \<and> no_char (CHR '':'') s) [sn_type n, v]
      | None \<Rightarrow> False)"

lemma no_char_iff: "no_char c s \<longleftrightarrow> c \<notin> set s"
  by (auto simp: no_char_def list_all_iff)

lemma network_read_back:
  assumes "network_ok n"
  shows "fromNetworkString (toNetworkString n) = Inr (n\<lparr>sn_size := None\<rparr>)"
proof -
  obtain v where v: "sn_value n = Some v" using assms by (auto simp: network_ok_def split: option.splits)
  let ?ps = "[''M'', ''network'', sn_description n, [], sn_type n @ '':'' @ v]"
  have nc: "CHR ''|'' \<notin> set (sn_description n)" "CHR ''|'' \<notin> set (sn_type n)" "CHR ''|'' \<notin> set v" "CHR '':'' \<notin> set (sn_type n)" "CHR '':'' \<notin> set v"
    using assms v by (simp_all add: network_ok_def no_char_iff)
  have "snd (toNetworkString n) = js_join ''|'' ?ps" using v by (simp add: toNetworkString_def opt_text_def)
  moreover have "js_split (CHR ''|'') (js_join ''|'' ?ps) = ?ps" using nc by (intro js_split_join) simp_all
  moreover have "js_split (CHR '':'') (sn_type n @ '':'' @ v) = [sn_type n, v]"
    using split_append_sep [of "CHR '':''" "sn_type n" v] js_split_no_sep [OF nc(4)] js_split_no_sep [OF nc(5)] by simp
  ultimately have "fromNetworkString (toNetworkString n) =
      Inr \<lparr>sn_name = sn_name n, sn_description = sn_description n, sn_type = sn_type n, sn_value = Some v, sn_size = None\<rparr>"
    unfolding fromNetworkString_def Let_def by (simp add: at_pos_def opt_text_def toNetworkString_def del: js_split.simps)
  then show ?thesis using v by (cases n) simp
qed

definition submitted_value :: "service_network \<Rightarrow> network_conf \<Rightarrow> networks_value" where
  "submitted_value n c = \<lparr>nv_name = sn_name n, nv_type = sn_type n, nv_value = sn_value n,
     nv_extra = extra_text (nc_AR c) (nc_SECURITY_GROUPS c) (sn_size n)\<rparr>"

text \<open>A form that can be read back: named networks, distinct, in the order of the keys of an object, each with its values.\<close>

definition networks_ok :: "service_network list \<Rightarrow> network_conf list \<Rightarrow> bool" where
  "networks_ok ns confs \<longleftrightarrow> list_all network_ok ns \<and> distinct (map sn_name ns) \<and> js_order (map toNetworkString ns) = map toNetworkString ns \<and>
     list_all2 (\<lambda>n c. nc_size c = None \<and> conf_ok (c\<lparr>nc_size := sn_size n\<rparr>)) ns confs"

lemma submit_values:
  assumes "list_all (\<lambda>n. sn_name n \<noteq> []) ns" "length confs = length ns"
  shows "snd (submit_networks ns (map Some confs)) = map2 submitted_value ns confs"
proof -
  let ?f = "\<lambda>(i, n). toNetworksValueString n (conf_at (map Some confs) i)"
  have some: "?f (i, n) = Some (submitted_value n (confs ! i))" if "(i, n) \<in> set (enumerate 0 ns)" for i n
    using that assms by (auto simp: toNetworksValueString_def conf_at_def submitted_value_def list_all_iff in_set_enumerate_eq)
  have "filter (\<lambda>x. ?f x \<noteq> None) (enumerate 0 ns) = enumerate 0 ns" using some by (intro filter_True) force
  then have "List.map_filter ?f (enumerate 0 ns) = map (\<lambda>(i, n). submitted_value n (confs ! i)) (enumerate 0 ns)"
    using some by (auto simp: map_filter_def)
  also have "\<dots> = map2 submitted_value ns confs"
    using assms(2) by (intro nth_equalityI) (auto simp: nth_enumerate_eq)
  finally show ?thesis by (simp add: submit_networks_def)
qed

lemma submit_texts: "distinct (map sn_name ns) \<Longrightarrow> js_order (map toNetworkString ns) = map toNetworkString ns \<Longrightarrow> fst (submit_networks ns confs) = map toNetworkString ns"
proof -
  assume a: "distinct (map sn_name ns)" "js_order (map toNetworkString ns) = map toNetworkString ns"
  have "map fst (map toNetworkString ns) = map sn_name ns" by (simp add: toNetworkString_def)
  then show "fst (submit_networks ns confs) = map toNetworkString ns" using a by (simp add: submit_networks_def del: map_map)
qed

lemma find_named:
  assumes "distinct (map sn_name ns)" "i < length ns" "length confs = length ns"
  shows "matching_value (map2 submitted_value ns confs) (ns ! i) = Some (submitted_value (ns ! i) (confs ! i))"
  using assms
proof (induction ns arbitrary: i confs)
  case (Cons n ns)
  then obtain c cs where confs: "confs = c # cs" by (cases confs) auto
  show ?case
  proof (cases i)
    case (Suc j)
    then have "ns ! j \<in> set ns" using Cons.prems(2) by simp
    then have "sn_name (ns ! j) \<in> sn_name ` set ns" by (rule imageI)
    then have "sn_name (ns ! j) \<noteq> sn_name n" using Cons.prems(1) by (metis distinct.simps(2) list.simps(9) set_map)
    then show ?thesis using Suc Cons.IH [of j cs] Cons.prems confs by (simp add: matching_value_def submitted_value_def)
  qed (simp add: confs matching_value_def submitted_value_def)
qed simp

lemma parse_submitted:
  assumes "networks_ok ns confs" "\<And>i. i < length ns \<Longrightarrow> reader (map2 submitted_value ns confs) (toNetworkString (ns ! i)) = Inr (g (ns ! i) (confs ! i))"
  shows "(case submit_networks ns (map Some confs) of (nets, nvs) \<Rightarrow> parse_networks reader nets nvs) =
    Inr (map fst (map2 g ns confs), map snd (map2 g ns confs))"
proof -
  have len: "length confs = length ns" using assms(1) by (auto simp: networks_ok_def dest: list_all2_lengthD)
  have "list_all (\<lambda>n. sn_name n \<noteq> []) ns" using assms(1) by (auto simp: networks_ok_def network_ok_def list_all_iff)
  then have "submit_networks ns (map Some confs) = (map toNetworkString ns, map2 submitted_value ns confs)"
    using submit_values [OF _ len] submit_texts [of ns "map Some confs"] assms(1) by (auto simp: networks_ok_def prod_eq_iff)
  moreover have "rmap (reader (map2 submitted_value ns confs)) (map toNetworkString ns) = Inr (map2 g ns confs)"
    using assms(2) len by (simp add: rmap_Inr_iff list_all2_conv_all_nth)
  ultimately show ?thesis using assms(1) by (simp add: parse_networks_def networks_ok_def)
qed

lemma submitted_conf:
  assumes "networks_ok ns confs" "i < length ns"
  shows "fromNetworksValueString (nv_extra (submitted_value (ns ! i) (confs ! i))) = (confs ! i)\<lparr>nc_size := sn_size (ns ! i)\<rparr>"
    "nc_size (confs ! i) = None" "matching_value (map2 submitted_value ns confs) ((ns ! i)\<lparr>sn_size := None\<rparr>) = Some (submitted_value (ns ! i) (confs ! i))"
    "fromNetworkString (toNetworkString (ns ! i)) = Inr ((ns ! i)\<lparr>sn_size := None\<rparr>)"
proof -
  have c: "nc_size (confs ! i) = None" "conf_ok ((confs ! i)\<lparr>nc_size := sn_size (ns ! i)\<rparr>)" and len: "length confs = length ns"
    using assms by (auto simp: networks_ok_def list_all2_conv_all_nth)
  show "nc_size (confs ! i) = None" by (rule c(1))
  show "fromNetworksValueString (nv_extra (submitted_value (ns ! i) (confs ! i))) = (confs ! i)\<lparr>nc_size := sn_size (ns ! i)\<rparr>"
    using conf_read_back [OF c(2)] by (simp add: submitted_value_def)
  show "fromNetworkString (toNetworkString (ns ! i)) = Inr ((ns ! i)\<lparr>sn_size := None\<rparr>)"
    using assms by (intro network_read_back) (auto simp: networks_ok_def list_all_iff)
  show "matching_value (map2 submitted_value ns confs) ((ns ! i)\<lparr>sn_size := None\<rparr>) = Some (submitted_value (ns ! i) (confs ! i))"
    using find_named [OF _ assms(2) len] assms(1) by (simp add: networks_ok_def matching_value_def)
qed

section \<open>User inputs that are read back\<close>

lemma to_string_list: "to_string (JArr (map JStr xs)) = js_join '','' xs"
  by (simp add: comp_def)

text \<open>The options of a user input: none, two bounds, or a list without double dots.\<close>

definition options_text_ok :: "string \<Rightarrow> bool" where
  "options_text_ok opts \<longleftrightarrow>
     \<not> str_includes opts ''..'' \<or> (case split_range opts of [a, b] \<Rightarrow> a \<noteq> [] \<and> b \<noteq> [] \<and> opts = a @ ''..'' @ b | _ \<Rightarrow> False)"

definition default_text_ok :: "(string \<Rightarrow> jsval) \<Rightarrow> string \<Rightarrow> string \<Rightarrow> bool" where
  "default_text_ok parseFloat type def \<longleftrightarrow>
     (type = ''number'' \<longrightarrow> (case parse_int def of Some n \<Rightarrow> def = show_int n | None \<Rightarrow> False)) \<and>
     (type = ''number-float'' \<longrightarrow> to_string (parseFloat def) = def)"

lemma default_printed:
  assumes "default_text_ok parseFloat type def"
  shows "\<exists>v. formatDefaultValue parseFloat (Some def) (Some type) = Inr v \<and> to_string v = def"
  using assms js_join_split [of "CHR '',''" def] to_string_list
  by (auto simp: formatDefaultValue_def default_text_ok_def Let_def split: option.splits)

text \<open>What the options are read into, and the text that they are written as.\<close>

definition read_options :: "string \<Rightarrow> jsval \<times> jsval" where
  "read_options opts =
     (if opts = [] then (JUndef, JUndef)
      else if str_includes opts ''..''
      then (let bs = filter (\<lambda>b. b \<noteq> []) (split_range opts) in (at_or_undef bs 0, at_or_undef bs 1))
      else (JArr (map JStr (js_split (CHR '','') opts)), JArr [JUndef]))"

definition written_options :: "jsval \<Rightarrow> jsval \<Rightarrow> string" where
  "written_options options options_1 = (case or_text options of
      JArr xs \<Rightarrow> to_string (JArr xs)
    | _ \<Rightarrow> js_join ''..'' (map to_string (filter (\<lambda>v. v \<noteq> JNull \<and> v \<noteq> JUndef \<and> v \<noteq> JStr []) [or_text options, or_text options_1])))"

lemma options_printed:
  assumes "options_text_ok opts"
  shows "written_options (fst (read_options opts)) (snd (read_options opts)) = opts"
proof -
  consider "opts = []" | "opts \<noteq> []" "\<not> str_includes opts ''..''" | a b where "opts \<noteq> []" "str_includes opts ''..''" "split_range opts = [a, b]" "a \<noteq> []" "b \<noteq> []" "opts = a @ ''..'' @ b"
    using assms by (auto simp: options_text_ok_def split: list.splits)
  then show ?thesis
  proof cases
    case 1
    then show ?thesis by (simp add: read_options_def written_options_def or_text_def)
  next
    case 2
    then show ?thesis using js_join_split [of "CHR '',''" opts] to_string_list [of "js_split (CHR '','') opts"]
      by (simp add: read_options_def written_options_def or_text_def del: to_string.simps)
  next
    case 3
    then show ?thesis by (simp add: read_options_def written_options_def or_text_def at_or_undef_def)
  qed
qed

theorem user_input_text_roundtrip:
  assumes "list_all (no_char (CHR ''|'')) [type, description, opts, def]" "options_text_ok opts" "default_text_ok parseFloat type def"
    "text = js_join ''|'' [if mandatory then ''M'' else ''O'', type, description, opts, def]"
  shows "rbind (fromUserInputString parseFloat (name, text)) (\<lambda>u. Inr (toUserInputString u)) = Inr (name, text)"
proof -
  let ?ps = "[if mandatory then ''M'' else ''O'', type, description, opts, def]"
  have split: "js_split (CHR ''|'') text = ?ps" using assms(1,4) by (simp only: assms(4)) (intro js_split_join, simp_all add: no_char_iff)
  obtain v where v: "formatDefaultValue parseFloat (Some def) (Some type) = Inr v" "to_string v = def"
    using default_printed [OF assms(3)] by blast
  have "fromUserInputString parseFloat (name, text) =
      Inr \<lparr>si_name = name, si_mandatory = mandatory, si_type = Some type, si_description = Some description,
           si_options = fst (read_options opts), si_options_1 = snd (read_options opts), si_default = v\<rparr>"
    unfolding fromUserInputString_def Let_def snd_conv split read_options_def [symmetric]
    using v(1) by (simp add: at_pos_def rbind_def read_options_def Let_def)
  moreover have "toUserInputString \<lparr>si_name = name, si_mandatory = mandatory, si_type = Some type, si_description = Some description,
      si_options = fst (read_options opts), si_options_1 = snd (read_options opts), si_default = v\<rparr> = (name, text)"
    using options_printed [OF assms(2)] v(2) by (simp add: toUserInputString_def assms(4) opt_text_def Let_def written_options_def)
  ultimately show ?thesis by (simp add: rbind_def)
qed

text \<open>A user input without a default is written with the text undefined, and read with that as its default.\<close>

lemma missing_default_read_as_text:
  assumes "si_type u = Some type" "si_description u = Some d" "si_default u = JUndef" "si_options u = JUndef" "si_options_1 u = JUndef"
    "list_all (no_char (CHR ''|'')) [type, d]" "type \<notin> set UserInputArrayTypes" "type \<noteq> ''number''" "type \<noteq> ''number-float''"
  shows "fromUserInputString parseFloat (toUserInputString u) = Inr (u\<lparr>si_default := JStr ''undefined''\<rparr>)"
proof -
  let ?ps = "[if si_mandatory u then ''M'' else ''O'', type, d, [], ''undefined'']"
  have t: "toUserInputString u = (si_name u, js_join ''|'' ?ps)"
    using assms(1-5) by (simp add: toUserInputString_def or_text_def opt_text_def)
  have "js_split (CHR ''|'') (js_join ''|'' ?ps) = ?ps" using assms(6) by (intro js_split_join) (simp_all add: no_char_iff)
  then show ?thesis
    unfolding t fromUserInputString_def Let_def snd_conv fst_conv
    using assms by (cases u) (simp add: at_pos_def rbind_def formatDefaultValue_def del: js_split.simps js_join.simps)
qed

section \<open>Custom inputs that are not\<close>

text \<open>The text of a custom input starts without its name, which the reader expects: the flag is taken for the name.\<close>

lemma custom_input_shifted:
  assumes "cu_type a = Some t" "cu_description a = Some d" "cu_default a = Some v" "\<not> is_range_type (Some t)" "\<not> is_list_type (Some t)"
    "list_all (no_char (CHR ''|'')) [t, d, v]"
  shows "\<exists>r. formatCustomInputString (parseCustomInputString a) = Some r \<and> cu_name r \<in> {Some ''M'', Some ''0''} \<and>
    cu_mandatory r = JBool (t = ''M'') \<and> cu_type r = Some d \<and> cu_default r = None"
proof -
  let ?ps = "[if cu_mandatory a \<noteq> JStr ''NO'' then ''M'' else ''0'', t, d, [], v]"
  have p: "parseCustomInputString a = js_join ''|'' ?ps" using assms(1-5) by (simp add: parseCustomInputString_def)
  have "js_split (CHR ''|'') (js_join ''|'' ?ps) = ?ps" using assms(6) by (intro js_split_join) (simp_all add: no_char_iff)
  then show ?thesis unfolding p formatCustomInputString_def Let_def by (simp add: at_pos_def del: js_split.simps js_join.simps)
qed

section \<open>Keys in one case\<close>

lemma char_class: "(of_char (lower_char c) :: nat) = (let n = of_char c in if 65 \<le> n \<and> n \<le> 90 then n + 32 else n)"
  "(of_char (upper_char c) :: nat) = (let n = of_char c in if 97 \<le> n \<and> n \<le> 122 then n - 32 else n)"
  by (auto simp: lower_char_def upper_char_def Let_def intro!: mod_less)

lemma key_case_idem [simp]: "key_case l (key_case l k) = key_case l k"
proof -
  have lower: "lower_char d = d" if "\<not> (65 \<le> (of_char d :: nat) \<and> (of_char d :: nat) \<le> 90)" for d
    using that by (auto simp: lower_char_def Let_def)
  have upper: "upper_char d = d" if "\<not> (97 \<le> (of_char d :: nat) \<and> (of_char d :: nat) \<le> 122)" for d
    using that by (auto simp: upper_char_def Let_def)
  have "lower_char (lower_char c) = lower_char c" for c by (rule lower) (simp add: char_class Let_def)
  moreover have "upper_char (upper_char c) = upper_char c" for c by (rule upper) (auto simp: char_class Let_def)
  ultimately show ?thesis by (simp add: key_case_def to_lower_def to_upper_def comp_def)
qed

lemma from_entries_props: "distinct (map fst (from_entries es))" "set (from_entries es) \<subseteq> set es"
proof -
  have "distinct (map fst (fold (\<lambda>(k, v). AList.update k v) es acc)) \<and> set (fold (\<lambda>(k, v). AList.update k v) es acc) \<subseteq> set acc \<union> set es"
    if "distinct (map fst acc)" for acc
    using that
  proof (induction es arbitrary: acc)
    case (Cons e es)
    have "set (AList.update k v acc) \<subseteq> insert (k, v) (set acc)" for k v by (induction acc) auto
    then show ?case using Cons.IH [OF distinct_update [OF Cons.prems]] by (cases e) fastforce
  qed simp
  from this [of "[]"] show "distinct (map fst (from_entries es))" "set (from_entries es) \<subseteq> set es"
    by (simp_all add: from_entries_def js_order_keeps)
qed

text \<open>Converting the keys again changes nothing, whatever the depth.\<close>

lemma convert_keys_idem: "convertKeysToCase l d (convertKeysToCase l d v) = convertKeysToCase l d v"
proof (induction l d v rule: convertKeysToCase.induct)
  case (2 l d fs)
  let ?f = "\<lambda>(k, v). (key_case l k, if d = Some 1 then v else convertKeysToCase l (pred_depth d) v)"
  let ?r = "from_entries (map ?f (js_order fs))"
  show ?case
  proof (cases "d = Some 0")
    case False
    have "?f (?f (k, w)) = ?f (k, w)" if "(k, w) \<in> set (js_order fs)" for k w using 2 [OF False that refl] by simp
    then have "?f e = e" if "e \<in> set ?r" for e
      using subsetD [OF from_entries_props(2) that] by (force simp: image_iff)
    then have "map ?f ?r = ?r" by (rule map_idI)
    moreover have "js_order ?r = ?r" by (simp add: from_entries_def)
    ultimately show ?thesis using from_entries_props(1) [of "map ?f (js_order fs)"] False by simp
  qed simp
qed auto

section \<open>Properties\<close>


definition sample_networks :: "service_network list" where
  "sample_networks =
     [\<lparr>sn_name = ''Public'', sn_description = ''front'', sn_type = ''reserve_from'', sn_value = Some ''3'', sn_size = Some ''10''\<rparr>,
      \<lparr>sn_name = ''Backup'', sn_description = [], sn_type = ''id'', sn_value = Some ''5'', sn_size = None\<rparr>]"

definition sample_confs :: "network_conf list" where
  "sample_confs = [\<lparr>nc_AR = [[(''TYPE'', JStr ''IP4''), (''IP'', JStr ''10.0.0.1'')]], nc_SECURITY_GROUPS = [''0'', ''7''], nc_size = None\<rparr>,
     \<lparr>nc_AR = [], nc_SECURITY_GROUPS = [], nc_size = None\<rparr>]"

lemma sample_networks_ok: "networks_ok sample_networks sample_confs"
  by code_simp


text \<open>Networks named by numbers come back in the order of the numbers, not the one of the form.\<close>

lemma numbered_networks_reordered:
  "map fst (fst (submit_networks (map (\<lambda>name. \<lparr>sn_name = name, sn_description = [], sn_type = ''id'', sn_value = Some ''5'', sn_size = None\<rparr>)
     [''b'', ''10'', ''2'']) [])) = [''2'', ''10'', ''b'']"
proof -
  have "array_index ''10''" "array_index ''2''" "\<not> array_index ''b''" "digits_val ''2'' < digits_val ''10''"
    by (simp_all add: array_index_def is_digit_def digits_val_def digit_val_def)
  then show ?thesis by (simp add: submit_networks_def toNetworkString_def js_order_def)
qed

text \<open>
  Instantiating a service loses the sizes of its networks: the form for instantiation looks for the size under
  another key than the one it was read into, so that the networks it shows have none, and what it submits
  unchanged has the same networks, address ranges and security groups without any size.
\<close>

theorem instantiation_drops_sizes:
  assumes "networks_ok ns confs"
  shows "\<exists>ns' confs'. (case submit_networks ns (map Some confs) of (nets, nvs) \<Rightarrow> parse_networks instantiate_network nets nvs) = Inr (ns', confs') \<and>
    ns' = map (\<lambda>n. n\<lparr>sn_size := None\<rparr>) ns \<and> snd (submit_networks ns' confs') = map2 (\<lambda>n c. submitted_value (n\<lparr>sn_size := None\<rparr>) c) ns confs"
proof (intro exI conjI)
  let ?g = "\<lambda>n c. (n\<lparr>sn_size := None\<rparr>, Some (c\<lparr>nc_size := sn_size n\<rparr>))"
  let ?cs = "map2 (\<lambda>n c. c\<lparr>nc_size := sn_size n\<rparr>) ns confs"
  have len: "length confs = length ns" using assms by (auto simp: networks_ok_def dest: list_all2_lengthD)
  have "instantiate_network (map2 submitted_value ns confs) (toNetworkString (ns ! i)) = Inr (?g (ns ! i) (confs ! i))" if "i < length ns" for i
    using submitted_conf [OF assms that] by (simp add: instantiate_network_def)
  then have "(case submit_networks ns (map Some confs) of (nets, nvs) \<Rightarrow> parse_networks instantiate_network nets nvs) =
      Inr (map fst (map2 ?g ns confs), map snd (map2 ?g ns confs))" by (rule parse_submitted [OF assms])
  moreover have "map fst (map2 ?g ns confs) = map (\<lambda>n. n\<lparr>sn_size := None\<rparr>) ns" "map snd (map2 ?g ns confs) = map Some ?cs"
    using len by (auto intro: nth_equalityI)
  ultimately show "(case submit_networks ns (map Some confs) of (nets, nvs) \<Rightarrow> parse_networks instantiate_network nets nvs) =
      Inr (map (\<lambda>n. n\<lparr>sn_size := None\<rparr>) ns, map Some ?cs)" by simp
  show "map (\<lambda>n. n\<lparr>sn_size := None\<rparr>) ns = map (\<lambda>n. n\<lparr>sn_size := None\<rparr>) ns" ..
  have named: "list_all (\<lambda>n. sn_name n \<noteq> []) (map (\<lambda>n. n\<lparr>sn_size := None\<rparr>) ns)"
    using assms by (auto simp: networks_ok_def network_ok_def list_all_iff)
  have "snd (submit_networks (map (\<lambda>n. n\<lparr>sn_size := None\<rparr>) ns) (map Some ?cs)) = map2 submitted_value (map (\<lambda>n. n\<lparr>sn_size := None\<rparr>) ns) ?cs"
    by (rule submit_values [OF named]) (simp add: len)
  also have "\<dots> = map2 (\<lambda>n c. submitted_value (n\<lparr>sn_size := None\<rparr>) c) ns confs"
    using len by (intro nth_equalityI) (auto simp: submitted_value_def)
  finally show "snd (submit_networks (map (\<lambda>n. n\<lparr>sn_size := None\<rparr>) ns) (map Some ?cs)) =
      map2 (\<lambda>n c. submitted_value (n\<lparr>sn_size := None\<rparr>) c) ns confs" .
qed

theorem instantiation_drops_sizes_witness:
  "\<exists>ns' confs'. (case submit_networks sample_networks (map Some sample_confs) of (nets, nvs) \<Rightarrow> parse_networks instantiate_network nets nvs) = Inr (ns', confs') \<and>
    ns' = map (\<lambda>n. n\<lparr>sn_size := None\<rparr>) sample_networks \<and>
    snd (submit_networks ns' confs') = map2 (\<lambda>n c. submitted_value (n\<lparr>sn_size := None\<rparr>) c) sample_networks sample_confs"
  by (rule instantiation_drops_sizes [OF sample_networks_ok])

end
