(* ===== verification/Resources.thy ===== *)
theory Resources
  imports Vm
begin

text \<open>
  The other resources as the client reads them from the answers of the server (\<open>modules/models/Host.js\<close>,
  \<open>Image.js\<close>, \<open>Datastore.js\<close>, \<open>VirtualNetwork.js\<close>, \<open>Marketplace.js\<close>, \<open>MarketplaceApp.js\<close>, \<open>Service.js\<close>,
  \<open>Zone.js\<close>, \<open>VmGroup.js\<close>, \<open>User.js\<close>, \<open>Group.js\<close>, with their tables of \<open>modules/constants\<close>): states and types
  by number, how full something is, and which actions networks offer.  The numbers of the core and of OneFlow are those
  of \<open>include/*.h\<close> and \<open>flow/lib/models\<close>.

  The fields of an answer are texts, since the server does not parse the values of tags.  A quotient is a rational or
  infinite; numbers with a fraction in a field are outside the model.
\<close>

section \<open>States and types\<close>

definition HOST_STATES :: "state_info list" where
  "HOST_STATES = map state_named [''INIT'', ''MONITORING_MONITORED'', ''MONITORED'', ''ERROR'', ''DISABLED'', ''MONITORING_ERROR'',
     ''MONITORING_INIT'', ''MONITORING_DISABLED'', ''OFFLINE'']"

definition getHostState :: "jsval \<Rightarrow> state_info option" where
  "getHostState host = state_numbered HOST_STATES (prop_get host ''STATE'')"

definition IMAGE_TYPES :: "string list" where
  "IMAGE_TYPES = [''OS'', ''CDROM'', ''DATABLOCK'', ''KERNEL'', ''RAMDISK'', ''CONTEXT'', ''BACKUP'']"

definition DISK_TYPES :: "string list" where
  "DISK_TYPES = [''FILE'', ''CDROM'', ''BLOCK'', ''RBD'', ''RBD CDROM'', ''GLUSTER'', ''GLUSTER CDROM'', ''SHEEPDOG'', ''SHEEPDOG CDROM'', ''ISCII'']"

definition IMAGE_STATES :: "state_info list" where
  "IMAGE_STATES = map state_named [''INIT'', ''READY'', ''USED'', ''DISABLED'', ''LOCKED'', ''ERROR'', ''CLONE'', ''DELETE'', ''USED_PERS'',
     ''LOCKED_USED'', ''LOCKED_USED_PERS'']"

text \<open>A type that is no number is its own name.\<close>

definition type_named :: "string list \<Rightarrow> jsval \<Rightarrow> jsval" where
  "type_named types v =
     (case to_number v of
        None \<Rightarrow> v
      | Some n \<Rightarrow> if 0 \<le> n \<and> nat n < length types then JStr (types ! nat n) else JUndef)"

definition getImageType :: "jsval \<Rightarrow> jsval" where
  "getImageType img = type_named IMAGE_TYPES (prop_get img ''TYPE'')"

definition getDiskType :: "jsval \<Rightarrow> jsval" where
  "getDiskType img = type_named DISK_TYPES (prop_get img ''DISK_TYPE'')"

definition getImageState :: "jsval \<Rightarrow> state_info option" where
  "getImageState img = state_numbered IMAGE_STATES (prop_get img ''STATE'')"

text \<open>Taking the snapshots of an image apart throws when it has none.\<close>

definition getSnapshots :: "jsval \<Rightarrow> jsval list js" where
  "getSnapshots img =
     (if nullish (prop_get img ''SNAPSHOTS'') then Inl TypeError
      else Inr (filter truthy (flat [prop_get (prop_get img ''SNAPSHOTS'') ''SNAPSHOT''])))"

definition DATASTORE_STATES :: "state_info list" where
  "DATASTORE_STATES = map state_named [''READY'', ''DISABLED'']"

definition DATASTORE_TYPES :: "(string \<times> int \<times> string) list" where
  "DATASTORE_TYPES = [(''IMAGE'', 0, ''Image''), (''SYSTEM'', 1, ''System''), (''FILE'', 2, ''File''), (''BACKUP'', 3, ''Backup'')]"

definition getDatastoreType :: "jsval \<Rightarrow> string" where
  "getDatastoreType datastore =
     to_upper (case List.find (\<lambda>(_, i, _). to_number (prop_get datastore ''TYPE'') = Some i) DATASTORE_TYPES of
       Some (_, _, name) \<Rightarrow> name | None \<Rightarrow> ''Unknown'')"

definition getDatastoreState :: "jsval \<Rightarrow> state_info option" where
  "getDatastoreState datastore = state_at DATASTORE_STATES (defaulted (JNum 0) (prop_get datastore ''STATE''))"

definition getDeployMode :: "jsval \<Rightarrow> string list js" where
  "getDeployMode datastore =
     (if getDatastoreType datastore = ''IMAGE''
      then rbind (split_comma (prop_get (prop_get datastore ''TEMPLATE'') ''TM_MAD_SYSTEM''))
        (\<lambda>s. Inr (case s of Some ws \<Rightarrow> filter (\<lambda>w. w \<noteq> []) ws | None \<Rightarrow> []))
      else Inr [])"

definition VN_STATES :: "state_info list" where
  "VN_STATES = map state_named [''INIT'', ''READY'', ''LOCK_CREATE'', ''LOCK_DELETE'', ''DONE'', ''ERROR'', ''UPDATE_FAILURE'']"

definition getVirtualNetworkState :: "jsval \<Rightarrow> state_info option" where
  "getVirtualNetworkState vnet = state_numbered VN_STATES (defaulted (JNum 0) (prop_get vnet ''STATE''))"

definition MARKETPLACE_STATES :: "state_info list" where
  "MARKETPLACE_STATES = map state_named [''ENABLED'', ''DISABLED'']"

definition getMarketplaceState :: "jsval \<Rightarrow> state_info option" where
  "getMarketplaceState m = state_numbered MARKETPLACE_STATES (prop_get m ''STATE'')"

definition MARKETPLACE_APP_TYPES :: "string list" where
  "MARKETPLACE_APP_TYPES = [''UNKNOWN'', ''IMAGE'', ''VM TEMPLATE'', ''SERVICE TEMPLATE'']"

definition MARKETPLACE_APP_STATES :: "state_info list" where
  "MARKETPLACE_APP_STATES = map state_named [''INIT'', ''READY'', ''LOCKED'', ''ERROR'', ''DISABLED'']"

definition getMarketplaceAppType :: "jsval \<Rightarrow> string option" where
  "getMarketplaceAppType app =
     (case to_number (defaulted (JNum 0) (prop_get app ''TYPE'')) of
        Some n \<Rightarrow> if 0 \<le> n \<and> nat n < length MARKETPLACE_APP_TYPES then Some (MARKETPLACE_APP_TYPES ! nat n) else None
      | None \<Rightarrow> None)"

definition getMarketplaceAppState :: "jsval \<Rightarrow> state_info option" where
  "getMarketplaceAppState app = state_numbered MARKETPLACE_APP_STATES (defaulted (JNum 0) (prop_get app ''STATE''))"

definition ZONE_STATES :: "state_info list" where
  "ZONE_STATES = map state_named [''ENABLED'', ''DISABLED'']"

definition getZoneState :: "jsval \<Rightarrow> state_info option" where
  "getZoneState zone = state_numbered ZONE_STATES (defaulted (JNum 0) (prop_get zone ''STATE''))"

definition VMGROUP_STATES :: "state_info list" where
  "VMGROUP_STATES = map state_named [''ENABLED'', ''DISABLED'']"

definition getVmGroupState :: "jsval \<Rightarrow> state_info option" where
  "getVmGroupState vmgroup = state_at VMGROUP_STATES (defaulted (JStr ''0'') (prop_get vmgroup ''LOCKED''))"

definition USER_STATES :: "state_info list" where
  "USER_STATES = map state_named [''DISABLED'', ''ENABLED'']"

definition getUserState :: "jsval \<Rightarrow> state_info option" where
  "getUserState user = state_at USER_STATES (defaulted (JStr ''0'') (prop_get user ''ENABLED''))"

definition SERVICE_STATES :: "state_info list" where
  "SERVICE_STATES = map state_named [''PENDING'', ''DEPLOYING'', ''RUNNING'', ''UNDEPLOYING'', ''WARNING'', ''DONE'', ''FAILED_UNDEPLOYING'',
     ''FAILED_DEPLOYING'', ''SCALING'', ''FAILED_SCALING'', ''COOLDOWN'', ''DEPLOYING_NETS'', ''UNDEPLOYING_NETS'', ''FAILED_DEPLOYING_NETS'',
     ''FAILED_UNDEPLOYING_NETS'', ''HOLD'']"

definition ROLE_STATES :: "state_info list" where
  "ROLE_STATES = map state_named [''PENDING'', ''DEPLOYING'', ''RUNNING'', ''UNDEPLOYING'', ''WARNING'', ''DONE'', ''FAILED_UNDEPLOYING'',
     ''FAILED_DEPLOYING'', ''SCALING'', ''FAILED_SCALING'', ''COOLDOWN'', ''HOLD'']"

definition getServiceState :: "jsval \<Rightarrow> state_info option" where
  "getServiceState service = state_at SERVICE_STATES (prop_get (prop_get (prop_get service ''TEMPLATE'') ''BODY'') ''state'')"

text \<open>The state of a role is read from the states of services.\<close>

definition getRoleState :: "jsval \<Rightarrow> state_info option" where
  "getRoleState state = state_at SERVICE_STATES state"

section \<open>How full a resource is\<close>

text \<open>A quotient \<open>(u * 100) / t || 0\<close>: what is not a number is zero.  The fields are integers, and the quotient is exact:
  the rounding of a double in its last bit is left out.\<close>

datatype quotient = Finite rat | PosInfinity | NegInfinity

definition percent_of :: "int option \<Rightarrow> int option \<Rightarrow> quotient" where
  "percent_of used tot =
     (case (used, tot) of
        (Some u, Some t) \<Rightarrow>
          if t = 0 then (if u = 0 then Finite 0 else if 0 < u then PosInfinity else NegInfinity)
          else Finite (of_int u * 100 / of_int t)
      | _ \<Rightarrow> Finite 0)"

definition math_round :: "rat \<Rightarrow> int" where
  "math_round x = \<lfloor>x + 1 / 2\<rfloor>"

fun show_round :: "quotient \<Rightarrow> string" where
  "show_round (Finite q) = show_int (math_round q)"
| "show_round PosInfinity = ''Infinity''"
| "show_round NegInfinity = ''-Infinity''"

text \<open>\<open>Math.round(isFinite(q) ? q : '--')\<close>.\<close>

fun show_finite :: "quotient \<Rightarrow> string" where
  "show_finite (Finite q) = show_int (math_round q)"
| "show_finite _ = ''NaN''"

definition pretty_number :: "int option \<Rightarrow> string \<Rightarrow> string" where
  "pretty_number n unit = (case n of Some v \<Rightarrow> prettyBytes v unit 0 | None \<Rightarrow> ''NaN '' @ unit)"

record usage =
  us_percent :: quotient
  us_label :: string

definition getDatastoreCapacityInfo :: "jsval \<Rightarrow> usage" where
  "getDatastoreCapacityInfo d =
     (let used = to_number (prop_get d ''USED_MB''); total = to_number (prop_get d ''TOTAL_MB''); percentOfUsed = percent_of used total
      in \<lparr>us_percent = percentOfUsed,
          us_label = pretty_number used ''MB'' @ '' / '' @ pretty_number total ''MB'' @ '' ('' @ show_round percentOfUsed @ ''%)''\<rparr>)"

definition getMarketplaceCapacityInfo :: "jsval \<Rightarrow> usage" where
  "getMarketplaceCapacityInfo m =
     (let used = to_number (prop_get m ''USED_MB''); total = to_number (prop_get m ''TOTAL_MB''); percentOfUsed = percent_of used total
      in \<lparr>us_percent = percentOfUsed,
          us_label = pretty_number used ''MB'' @ '' / '' @ pretty_number total ''MB'' @ '' ('' @ show_round percentOfUsed @ ''%)''\<rparr>)"

text \<open>The sizes of the ranges of a network; one that is no number makes the sum none.\<close>

definition getTotalLeases :: "jsval \<Rightarrow> int option" where
  "getTotalLeases vnet =
     foldl (\<lambda>total ar. case (total, to_number (defaulted (JNum 0) (prop_get ar ''SIZE''))) of
        (Some t, Some n) \<Rightarrow> Some (t + n) | _ \<Rightarrow> None)
       (Some 0) (flat [or_empty (prop_get (prop_get vnet ''AR_POOL'') ''AR'')])"

definition getLeasesInfo :: "jsval \<Rightarrow> usage" where
  "getLeasesInfo vnet =
     (let used = prop_get vnet ''USED_LEASES''; totalLeases = getTotalLeases vnet; percentOfUsed = percent_of (to_number used) totalLeases
      in \<lparr>us_percent = percentOfUsed,
          us_label = to_string used @ '' / '' @ (case totalLeases of Some n \<Rightarrow> show_int n | None \<Rightarrow> ''NaN'') @ '' ('' @ show_round percentOfUsed @ ''%)''\<rparr>)"

definition getARLeasesInfo :: "jsval \<Rightarrow> usage" where
  "getARLeasesInfo ar =
     (let used = prop_get ar ''USED_LEASES''; sz = prop_get ar ''SIZE''; percentOfUsed = percent_of (to_number used) (to_number sz)
      in \<lparr>us_percent = percentOfUsed, us_label = to_string used @ '' / '' @ to_string sz @ '' ('' @ show_round percentOfUsed @ ''%)''\<rparr>)"

text \<open>The label of memory: a minus sign, then the absolute value; the label goes over two lines.\<close>

definition memory_usage :: "jsval \<Rightarrow> jsval \<Rightarrow> usage" where
  "memory_usage used tot =
     (let u = to_number used; t = to_number tot; percentMemUsed = percent_of u t
      in \<lparr>us_percent = percentMemUsed,
          us_label = (case u of Some n \<Rightarrow> if n < 0 then ''-'' else [] | None \<Rightarrow> []) @ pretty_number (map_option abs u) ''KB'' @ '' / '' @
            pretty_number t ''KB'' @ '' '' @ [CHR 0x0A] @ ''      ('' @ show_finite percentMemUsed @ ''%)''\<rparr>)"

definition getNumaMemory :: "jsval \<Rightarrow> usage" where
  "getNumaMemory numa =
     memory_usage (defaulted (JNum 0) (prop_get (prop_get numa ''MEMORY'') ''USED'')) (defaulted (JNum 0) (prop_get (prop_get numa ''MEMORY'') ''TOTAL''))"

text \<open>\<open>a < b\<close>: texts are compared character by character, all else as numbers.\<close>

fun text_less :: "string \<Rightarrow> string \<Rightarrow> bool" where
  "text_less [] t = (t \<noteq> [])"
| "text_less (a # s) [] = False"
| "text_less (a # s) (b # t) = (if a = b then text_less s t else (of_char a :: nat) < of_char b)"

definition js_less :: "jsval \<Rightarrow> jsval \<Rightarrow> bool" where
  "js_less a b =
     (case (a, b) of
        (JStr s, JStr t) \<Rightarrow> text_less s t
      | _ \<Rightarrow> (case (to_number a, to_number b) of (Some m, Some n) \<Rightarrow> m < n | _ \<Rightarrow> False))"

definition usage_color :: "jsval \<Rightarrow> jsval \<Rightarrow> string" where
  "usage_color maximum tot = (if js_less tot maximum then ''error'' else if js_less maximum tot then ''success'' else [])"

record allocated_info =
  ai_cpu :: usage
  ai_mem :: usage
  ai_totalCpu :: jsval
  ai_totalMem :: jsval
  ai_maxCpu :: jsval
  ai_maxMem :: jsval
  ai_usageCpu :: jsval
  ai_usageMem :: jsval
  ai_reservedCpu :: jsval
  ai_reservedMem :: jsval
  ai_colorCpu :: string
  ai_colorMem :: string

definition cpu_usage :: "jsval \<Rightarrow> jsval \<Rightarrow> usage" where
  "cpu_usage used maximum =
     (let percentCpuUsed = percent_of (to_number used) (to_number maximum)
      in \<lparr>us_percent = percentCpuUsed,
          us_label = to_string used @ '' / '' @ to_string maximum @ '' '' @ [CHR 0x0A] @ ''    ('' @ show_finite percentCpuUsed @ ''%)''\<rparr>)"

definition getAllocatedInfo :: "jsval \<Rightarrow> allocated_info" where
  "getAllocatedInfo host =
     (let share = prop_get (prop_get host ''HOST_SHARE''); template = prop_get (prop_get host ''TEMPLATE'')
      in \<lparr>ai_cpu = cpu_usage (share ''CPU_USAGE'') (share ''MAX_CPU''), ai_mem = memory_usage (share ''MEM_USAGE'') (share ''MAX_MEM''),
          ai_totalCpu = share ''TOTAL_CPU'', ai_totalMem = share ''TOTAL_MEM'', ai_maxCpu = share ''MAX_CPU'', ai_maxMem = share ''MAX_MEM'',
          ai_usageCpu = share ''CPU_USAGE'', ai_usageMem = share ''MEM_USAGE'', ai_reservedCpu = template ''RESERVED_CPU'',
          ai_reservedMem = template ''RESERVED_MEM'', ai_colorCpu = usage_color (share ''MAX_CPU'') (share ''TOTAL_CPU''),
          ai_colorMem = usage_color (share ''MAX_MEM'') (share ''TOTAL_MEM'')\<rparr>)"

section \<open>What hosts offer\<close>

definition getDatastores :: "jsval \<Rightarrow> jsval list" where
  "getDatastores host = flat [or_empty (prop_get (prop_get (prop_get host ''HOST_SHARE'') ''DATASTORES'') ''DS'')]"

definition numa_nodes :: "jsval \<Rightarrow> jsval" where
  "numa_nodes host = prop_get (prop_get (prop_get host ''HOST_SHARE'') ''NUMA_NODES'') ''NODE''"

definition getHostNuma :: "jsval \<Rightarrow> jsval list" where
  "getHostNuma host = flat [or_empty (numa_nodes host)]"

definition hugepages_of :: "jsval \<Rightarrow> jsval list" where
  "hugepages_of node = (case prop_get node ''HUGEPAGE'' of JArr xs \<Rightarrow> xs | v \<Rightarrow> [v])"

definition getHugepageSizes :: "jsval \<Rightarrow> int option list" where
  "getHugepageSizes host =
     (let wrapHost = (case host of JArr xs \<Rightarrow> xs | _ \<Rightarrow> [host]); numaNodes = flat (map numa_nodes wrapHost)
      in concat (map (\<lambda>node. map (\<lambda>page. to_number (prop_get page ''SIZE'')) (hugepages_of node))
           (filter (\<lambda>node. truthy (prop_get node ''NODE_ID'') \<and> truthy (prop_get node ''HUGEPAGE'')) numaNodes)))"

definition pci_devices :: "jsval \<Rightarrow> jsval" where
  "pci_devices host = prop_get (prop_get (prop_get host ''HOST_SHARE'') ''PCI_DEVICES'') ''PCI''"

definition getPciDevices :: "jsval \<Rightarrow> jsval list" where
  "getPciDevices host = filter truthy (flat [or_empty (pci_devices host)])"

definition getHostPcis :: "jsval \<Rightarrow> jsval list" where
  "getHostPcis host = (let pcis = pci_devices host in if truthy pcis then (case pcis of JArr xs \<Rightarrow> xs | _ \<Rightarrow> [pcis]) else [])"

text \<open>An attribute of the template of a host, split: nothing when it is missing.\<close>

definition split_attr :: "char \<Rightarrow> string \<Rightarrow> jsval \<Rightarrow> string list option" where
  "split_attr c k host = (case prop_get (prop_get host ''TEMPLATE'') k of JStr s \<Rightarrow> Some (js_split c s) | _ \<Rightarrow> None)"

definition has_hypervisor :: "string list \<Rightarrow> jsval \<Rightarrow> bool" where
  "has_hypervisor hs host \<longleftrightarrow> prop_get (prop_get host ''TEMPLATE'') ''HYPERVISOR'' \<in> JStr ` set hs"

definition getKvmCpuModels :: "jsval list \<Rightarrow> bool \<Rightarrow> string list" where
  "getKvmCpuModels hosts common =
     (let hostData = filter (\<lambda>m. m \<noteq> []) (concat (map (\<lambda>host. the_default [] (split_attr (CHR '' '') ''KVM_CPU_MODELS'' host))
            (filter (has_hypervisor [''kvm'', ''dummy'']) hosts)))
      in if common then (if hostData = [] \<or> length hostData < length hosts then [] else uniq hostData)
         else uniq hostData)"

definition getKvmCpuFeatures :: "jsval list \<Rightarrow> string list" where
  "getKvmCpuFeatures hosts =
     uniq (concat (map (\<lambda>host. the_default [] (split_attr (CHR '','') ''KVM_CPU_FEATURES'' host)) (filter (has_hypervisor [''kvm'', ''dummy'']) hosts)))"

definition DEFAULT_CPU_MODELS :: "string list" where
  "DEFAULT_CPU_MODELS = [''host-passthrough'']"

text \<open>The first element is the array of default models itself; a host without machines throws.\<close>

definition getKvmMachines :: "jsval list \<Rightarrow> jsval list js" where
  "getKvmMachines hosts =
     rbind (rmap (\<lambda>host. case split_attr (CHR '' '') ''KVM_MACHINES'' host of Some ws \<Rightarrow> Inr ws | None \<Rightarrow> Inl TypeError)
        (filter (has_hypervisor [''kvm'']) hosts))
       (\<lambda>wss. Inr (uniq (JArr (map JStr DEFAULT_CPU_MODELS) # map JStr (concat wss))))"

text \<open>\<open>s.split(', ')\<close>.\<close>

fun split_comma_blank :: "string \<Rightarrow> string list" where
  "split_comma_blank (a # b # r) =
     (if a = CHR '','' \<and> b = CHR '' '' then [] # split_comma_blank r
      else case split_comma_blank (b # r) of [] \<Rightarrow> [[a]] | w # ws \<Rightarrow> (a # w) # ws)"
| "split_comma_blank s = [s]"

definition importable_named :: "string \<Rightarrow> jsval \<Rightarrow> jsval list" where
  "importable_named k host =
     (let names = (case prop_get (prop_get host ''TEMPLATE'') k of JStr s \<Rightarrow> split_comma_blank s | _ \<Rightarrow> []);
          vms = filter (\<lambda>vm. truthy (prop_get vm ''IMPORT_TEMPLATE'')) (flat [or_empty (prop_get (prop_get host ''TEMPLATE'') ''VM'')])
      in filter (\<lambda>vm. truthy (prop_get vm ''VM_NAME'') \<and> (case prop_get vm ''VM_NAME'' of JStr n \<Rightarrow> n \<in> set names | _ \<Rightarrow> False)) vms)"

definition getHostZombies :: "jsval \<Rightarrow> jsval list" where
  "getHostZombies host = importable_named ''ZOMBIES'' host"

definition getHostWilds :: "jsval \<Rightarrow> jsval list" where
  "getHostWilds host = importable_named ''WILDS'' host"

definition CUSTOM_HOST_HYPERVISOR :: jsval where
  "CUSTOM_HOST_HYPERVISOR = JObj [(''NAME'', JStr ''Custom''), (''SUNSTONE_NAME'', JStr ''Custom'')]"

definition getHostHypervisors :: "bool \<Rightarrow> jsval \<Rightarrow> (jsval \<times> jsval) list" where
  "getHostHypervisors includeCustom data =
     map (\<lambda>hypervisor. (prop_get hypervisor ''SUNSTONE_NAME'', prop_get hypervisor ''NAME''))
       (flat [or_empty (prop_get data ''VM_MAD''), if includeCustom then CUSTOM_HOST_HYPERVISOR else JArr []])"

section \<open>Names, marketplaces and networks\<close>

text \<open>The name of a disk: of its image, or by its type; \<open>+SIZE\<close> that is zero or no number is a dash.\<close>

definition getDiskName :: "jsval \<Rightarrow> jsval" where
  "getDiskName disk =
     (let sz = (case to_number (prop_get disk ''SIZE'') of Some n \<Rightarrow> if n \<noteq> 0 then prettyBytes n ''MB'' 0 else ''-'' | None \<Rightarrow> ''-'');
          type = to_lower (to_string (prop_get disk ''TYPE''))
      in if \<not> nullish (prop_get disk ''IMAGE'') then prop_get disk ''IMAGE''
         else if type = ''fs'' then JStr (to_string (prop_get disk ''FORMAT'') @ '' - '' @ sz)
         else if type = ''swap'' then JStr sz
         else JUndef)"

definition elems_of :: "jsval \<Rightarrow> jsval list" where
  "elems_of v = (case v of JArr xs \<Rightarrow> xs | _ \<Rightarrow> [])"

text \<open>\<open>v.includes(x)\<close> of an array or a text.\<close>

definition includes_text :: "jsval \<Rightarrow> string \<Rightarrow> bool" where
  "includes_text v x = (case v of JArr xs \<Rightarrow> JStr x \<in> set xs | JStr s \<Rightarrow> str_includes s x | _ \<Rightarrow> False)"

definition isMarketExportSupport :: "jsval \<Rightarrow> jsval \<Rightarrow> bool" where
  "isMarketExportSupport datastore oneConfig \<longleftrightarrow>
     \<not> truthy (prop_get datastore ''NAME'') \<or>
     list_ex (\<lambda>dsMad. prop_get dsMad ''NAME'' = prop_get datastore ''NAME'' \<and> includes_text (prop_get dsMad ''MARKETPLACE_ACTIONS'') ''export'')
       (elems_of (prop_get oneConfig ''DS_MAD_CONF''))"

definition onedConfIncludesAction :: "jsval \<Rightarrow> jsval \<Rightarrow> string \<Rightarrow> bool" where
  "onedConfIncludesAction marketplace onedConf action \<longleftrightarrow>
     (let zone = prop_get (prop_get onedConf ''FEDERATION'') ''ZONE_ID''
      in (if nullish zone then JStr ''0'' else zone) = prop_get marketplace ''ZONE_ID'' \<and>
         list_ex (\<lambda>mad. includes_text (prop_get mad ''APP_ACTIONS'') action \<and>
             to_lower (to_string (prop_get mad ''NAME'')) = to_lower (to_string (prop_get marketplace ''MARKET_MAD'')))
           (elems_of (prop_get onedConf ''MARKET_MAD_CONF'')))"

text \<open>The actions of networks: \<open>VN_ACTIONS\<close> has no \<open>UPDATE\<close>, so that one key is the text undefined.\<close>

definition VN_ACTIONS_BY_STATE :: "(string \<times> string list) list" where
  "VN_ACTIONS_BY_STATE =
     [(''delete'', [''READY'']), (''recover'', [''INIT'', ''LOCK_CREATE'', ''LOCK_DELETE'', ''ERROR'', ''UPDATE_FAILURE'']),
      (''undefined'', [''READY'']), (''rename'', []), (''chmod'', []), (''chown'', []), (''chgrp'', [])]"

definition isVnAvailableAction :: "string \<Rightarrow> jsval list \<Rightarrow> bool" where
  "isVnAvailableAction action vnets \<longleftrightarrow>
     (case map_of VN_ACTIONS_BY_STATE action of
        Some [] \<Rightarrow> True
      | Some states \<Rightarrow> list_all (\<lambda>vnet. case state_at VN_STATES (prop_get vnet ''STATE'') of
            Some s \<Rightarrow> si_name s \<in> set states | None \<Rightarrow> False) vnets
      | None \<Rightarrow> vnets = [])"

section \<open>Quotas\<close>

record quota_usage =
  qu_percent :: "rat option"
  qu_label :: string

text \<open>A quota of -2 has no limit, and a percentage \<open>None\<close> is NaN; its label is two signs of infinity, written here as words.\<close>

definition computeQuotaUsageDetails :: "jsval \<Rightarrow> jsval \<Rightarrow> quota_usage" where
  "computeQuotaUsageDetails used max' =
     (let usedValue = defaulted (JStr ''0'') used; maxValue = defaulted (JStr ''-1'') max'
      in if maxValue = JStr ''-2'' then \<lparr>qu_percent = Some 100, qu_label = ''infinity/infinity''\<rparr>
         else \<lparr>qu_percent = (case (to_number usedValue, to_number maxValue) of
                 (Some u, Some m) \<Rightarrow> Some (if 0 < m then of_int u * 100 / of_int m else 0)
               | (None, Some m) \<Rightarrow> if 0 < m then None else Some 0
               | (_, None) \<Rightarrow> Some 0),
               qu_label = to_string usedValue @ ''/'' @ to_string maxValue\<rparr>)"

definition quota_fields :: "string \<Rightarrow> (string \<times> string) list" where
  "quota_fields type =
     (if type = ''DATASTORE'' then [(''images'', ''IMAGES''), (''size'', ''SIZE'')]
      else if type = ''VM'' then
        [(''vms'', ''VMS''), (''runningVms'', ''RUNNING_VMS''), (''memory'', ''MEMORY''), (''runningMemory'', ''RUNNING_MEMORY''), (''cpu'', ''CPU''),
         (''runningCpu'', ''RUNNING_CPU''), (''systemDiskSize'', ''SYSTEM_DISK_SIZE'')]
      else if type = ''NETWORK'' then [(''leases'', ''LEASES'')]
      else if type = ''IMAGE'' then [(''rvms'', ''RVMS'')]
      else [])"

definition quota_usages :: "string \<Rightarrow> jsval \<Rightarrow> (string \<times> quota_usage) list" where
  "quota_usages type quota =
     map (\<lambda>(name, field). (name, computeQuotaUsageDetails (prop_get quota (field @ ''_USED'')) (prop_get quota field))) (quota_fields type)"

definition getUserQuotaUsage :: "string \<Rightarrow> jsval \<Rightarrow> (string \<times> quota_usage) list js" where
  "getUserQuotaUsage type quota = (if nullish quota \<and> quota_fields type \<noteq> [] then Inl TypeError else Inr (quota_usages type quota))"

definition getGroupQuotaUsage :: "string \<Rightarrow> jsval \<Rightarrow> (string \<times> quota_usage) list" where
  "getGroupQuotaUsage type quota = quota_usages type quota"

section \<open>The numbering of the core and of OneFlow\<close>

definition core_host_states :: "(string \<times> nat) list" where
  "core_host_states = [(''INIT'', 0), (''MONITORED'', 2), (''ERROR'', 3), (''DISABLED'', 4), (''OFFLINE'', 8)]"

definition core_image_states :: "(string \<times> nat) list" where
  "core_image_states = [(''INIT'', 0), (''READY'', 1), (''USED'', 2), (''DISABLED'', 3), (''LOCKED'', 4), (''ERROR'', 5), (''CLONE'', 6), (''DELETE'', 7),
     (''USED_PERS'', 8), (''LOCKED_USED'', 9), (''LOCKED_USED_PERS'', 10)]"

definition core_image_types :: "(string \<times> nat) list" where
  "core_image_types = [(''OS'', 0), (''CDROM'', 1), (''DATABLOCK'', 2), (''KERNEL'', 3), (''RAMDISK'', 4), (''CONTEXT'', 5), (''BACKUP'', 6), (''FILESYSTEM'', 7)]"

definition core_vn_states :: "(string \<times> nat) list" where
  "core_vn_states = [(''INIT'', 0), (''READY'', 1), (''LOCK_CREATE'', 2), (''LOCK_DELETE'', 3), (''DONE'', 4), (''ERROR'', 5), (''UPDATE_FAILURE'', 6)]"

definition oneflow_role_states :: "(string \<times> nat) list" where
  "oneflow_role_states = [(''PENDING'', 0), (''DEPLOYING'', 1), (''RUNNING'', 2), (''UNDEPLOYING'', 3), (''WARNING'', 4), (''DONE'', 5), (''FAILED_UNDEPLOYING'', 6),
     (''FAILED_DEPLOYING'', 7), (''SCALING'', 8), (''FAILED_SCALING'', 9), (''COOLDOWN'', 10), (''HOLD'', 11)]"

abbreviation numbered_as :: "(jsval \<Rightarrow> state_info option) \<Rightarrow> string \<times> nat \<Rightarrow> bool" where
  "numbered_as f \<equiv> (\<lambda>(n, i). map_option si_name (f (JStr (show_int (int i)))) = Some n)"

lemma states_of_core:
  "list_all (numbered_as (\<lambda>v. getHostState (JObj [(''STATE'', v)]))) core_host_states"
  "list_all (numbered_as (\<lambda>v. getImageState (JObj [(''STATE'', v)]))) core_image_states"
  "list_all (numbered_as (\<lambda>v. getVirtualNetworkState (JObj [(''STATE'', v)]))) core_vn_states"
  by code_simp+

text \<open>The type of a file system is the one that has no name.\<close>

lemma image_types_of_core:
  "filter (\<lambda>(n, i). getImageType (JObj [(''TYPE'', JStr (show_int (int i)))]) \<noteq> JStr n) core_image_types = [(''FILESYSTEM'', 7)]"
  "getImageType (JObj [(''TYPE'', JStr ''7'')]) = JUndef"
  by code_simp+

text \<open>A role on hold, and no other, is shown in a wrong state.\<close>

lemma role_on_hold_misnamed:
  "filter (\<lambda>e. \<not> numbered_as getRoleState e) oneflow_role_states = [(''HOLD'', 11)]"
  "map_option si_name (getRoleState (JStr ''11'')) = Some ''DEPLOYING_NETS''"
  by code_simp+

text \<open>Common models are not common: the models of two hosts that share none are all returned.\<close>

lemma common_models_not_common:
  "getKvmCpuModels [JObj [(''TEMPLATE'', JObj [(''HYPERVISOR'', JStr ''kvm''), (''KVM_CPU_MODELS'', JStr ''a b'')])],
     JObj [(''TEMPLATE'', JObj [(''HYPERVISOR'', JStr ''kvm''), (''KVM_CPU_MODELS'', JStr ''c'')])]] True = [''a'', ''b'', ''c'']"
  by code_simp

text \<open>The list of machines starts with a list.\<close>

lemma machines_start_with_list: "getKvmMachines [] = Inr [JArr [JStr ''host-passthrough'']]"
  by code_simp

section \<open>Actions of networks\<close>

lemma recover_offered:
  assumes "\<forall>v \<in> set vnets. \<exists>i < 7. prop_get v ''STATE'' = JStr (show_int (int i))"
  shows "isVnAvailableAction ''recover'' vnets \<longleftrightarrow> (\<forall>v \<in> set vnets. prop_get v ''STATE'' \<notin> {JStr ''1'', JStr ''4''})"
proof -
  have "(case state_at VN_STATES (JStr (show_int (int i))) of Some s \<Rightarrow> si_name s \<in> set [''INIT'', ''LOCK_CREATE'', ''LOCK_DELETE'', ''ERROR'', ''UPDATE_FAILURE''] | None \<Rightarrow> False)
      \<longleftrightarrow> JStr (show_int (int i)) \<notin> {JStr ''1'', JStr ''4''}" if "i < 7" for i :: nat
  proof -
    have "i \<in> set [0..<7]" using that by simp
    moreover have "list_all (\<lambda>i. (case state_at VN_STATES (JStr (show_int (int i))) of Some s \<Rightarrow> si_name s \<in> set [''INIT'', ''LOCK_CREATE'', ''LOCK_DELETE'', ''ERROR'', ''UPDATE_FAILURE''] | None \<Rightarrow> False)
      \<longleftrightarrow> JStr (show_int (int i)) \<notin> {JStr ''1'', JStr ''4''}) [0..<7]" by code_simp
    ultimately show ?thesis by (simp only: list_all_iff)
  qed
  then show ?thesis using assms by (fastforce simp: isVnAvailableAction_def VN_ACTIONS_BY_STATE_def list_all_iff)
qed

text \<open>The dialog that updates a network has no state in which it would be offered.\<close>

lemma update_dialog_never_offered: "isVnAvailableAction ''update_dialog'' vnets \<longleftrightarrow> vnets = []"
  by (simp add: isVnAvailableAction_def VN_ACTIONS_BY_STATE_def)

section \<open>Digits compared as texts\<close>

lemma foldl_digits: "foldl (\<lambda>acc c. 10 * acc + digit_val c) a s = a * 10 ^ length s + foldl (\<lambda>acc c. 10 * acc + digit_val c) 0 s"
proof (induction s arbitrary: a)
  case (Cons c s)
  show ?case
    unfolding foldl_Cons by (subst Cons, subst (2) Cons) (simp add: algebra_simps)
qed simp

lemma digits_val_cons: "digits_val (c # s) = digit_val c * 10 ^ length s + digits_val s"
  using foldl_digits [of "digit_val c" s] by (simp add: digits_val_def)

lemma digits_val_less: "list_all is_digit s \<Longrightarrow> digits_val s < 10 ^ length s"
proof (induction s)
  case (Cons c s)
  then have "digit_val c \<le> 9" by (auto simp: digit_val_def is_digit_def Let_def)
  then have "digit_val c * 10 ^ length s \<le> 9 * 10 ^ length s" by (rule mult_le_mono1)
  moreover have "digits_val s < 10 ^ length s" using Cons by simp
  ultimately have "digit_val c * 10 ^ length s + digits_val s < 10 * 10 ^ length s" by linarith
  then show ?case by (simp add: digits_val_cons)
qed (simp add: digits_val_def)

lemma text_less_digits:
  assumes "length s = length t" "list_all is_digit s" "list_all is_digit t"
  shows "text_less s t \<longleftrightarrow> digits_val s < digits_val t"
  using assms
proof (induction s t rule: text_less.induct)
  case (3 a s b t)
  then have b: "digits_val s < 10 ^ length s" "digits_val t < 10 ^ length s" using digits_val_less by force+
  have ab: "(of_char a :: nat) = digit_val a + 48" "(of_char b :: nat) = digit_val b + 48"
    using 3(3,4) by (auto simp: digit_val_def is_digit_def Let_def)
  have less: "x * 10 ^ length s + p < y * 10 ^ length s + q" if "x < y" "p < 10 ^ length s" for x y p q :: nat
  proof -
    have "x * 10 ^ length s + 10 ^ length s \<le> y * 10 ^ length s" using that(1) by (metis Suc_leI add.commute mult_Suc mult_le_mono1)
    then show ?thesis using that(2) by linarith
  qed
  consider "digit_val a < digit_val b" | "digit_val b < digit_val a" | "a = b" using ab by (metis linorder_neqE_nat of_char_eq_iff)
  then show ?case
  proof cases
    case 1
    then show ?thesis using less [OF 1 b(1)] ab 3(2) by (auto simp: digits_val_cons)
  next
    case 2
    then show ?thesis using less [OF 2 b(2)] ab 3(2) by (auto simp: digits_val_cons) (metis less_asym)
  next
    case 3
    then show ?thesis using "3.IH" "3.prems" by (auto simp: digits_val_cons)
  qed
qed (auto simp: digits_val_def)

lemma text_less_numbers:
  assumes "0 \<le> m" "0 \<le> n" "length (show_int m) = length (show_int n)"
  shows "text_less (show_int m) (show_int n) \<longleftrightarrow> m < n"
proof -
  have show_nat: "show_int k = to_base 10 (nat k)" if "0 \<le> k" for k using that by (simp add: show_int_def)
  have "text_less (to_base 10 (nat m)) (to_base 10 (nat n)) \<longleftrightarrow> digits_val (to_base 10 (nat m)) < digits_val (to_base 10 (nat n))"
    by (rule text_less_digits) (use assms show_nat to_base10_digits in \<open>auto simp: list_all_iff\<close>)
  then show ?thesis using assms(1,2) show_nat by (auto simp: digits_val_to_base)
qed

lemma percent_bounds:
  assumes "0 \<le> u" "u \<le> t" "0 < t"
  shows "\<exists>q. percent_of (Some u) (Some t) = Finite q \<and> 0 \<le> q \<and> q \<le> 100 \<and> (q = 100 \<longleftrightarrow> u = t) \<and> 0 \<le> math_round q \<and> math_round q \<le> 100 \<and>
    (math_round q = 100 \<longleftrightarrow> 199 * t \<le> 200 * u)"
proof (intro exI conjI)
  let ?q = "of_int u * 100 / of_int t :: rat"
  have t: "(0 :: rat) < of_int t" using assms(3) by simp
  show "percent_of (Some u) (Some t) = Finite ?q" using assms(3) by (simp add: percent_of_def)
  show "0 \<le> ?q" using assms by simp
  show le: "?q \<le> 100" using t assms(2) by (simp add: divide_le_eq)
  show "?q = 100 \<longleftrightarrow> u = t" using t by (simp add: divide_eq_eq)
  show "0 \<le> math_round ?q" using \<open>0 \<le> ?q\<close> by (simp add: math_round_def)
  have "math_round ?q \<le> \<lfloor>100 + 1 / 2 :: rat\<rfloor>" unfolding math_round_def using le by (intro floor_mono) simp
  moreover have "\<lfloor>100 + 1 / 2 :: rat\<rfloor> = 100" by (simp add: floor_eq_iff)
  ultimately show r: "math_round ?q \<le> 100" by simp
  then have "math_round ?q = 100 \<longleftrightarrow> 100 \<le> math_round ?q" by auto
  also have "\<dots> \<longleftrightarrow> 100 \<le> ?q + 1 / 2" unfolding math_round_def by (simp add: le_floor_iff)
  also have "\<dots> \<longleftrightarrow> 199 / 2 \<le> ?q" by linarith
  also have "\<dots> \<longleftrightarrow> (of_int (199 * t) :: rat) \<le> of_int (200 * u)" using t by (simp add: le_divide_eq)
  also have "\<dots> \<longleftrightarrow> 199 * t \<le> 200 * u" by (rule of_int_le_iff)
  finally show "math_round ?q = 100 \<longleftrightarrow> 199 * t \<le> 200 * u" .
qed

section \<open>Properties\<close>

text \<open>
  C35. A resource that is not used beyond its size is shown as used by 0 to 100 per cent: the percentage of a
  datastore, of the addresses of a range, and of the CPU and the memory of a host is 100 only when it is full.  The
  label of a range shows it rounded, so that it says 100 from 99.5 per cent on, before the range is full.
\<close>

theorem usage_percent_bounds:
  assumes "to_number used = Some u" "to_number tot = Some t" "0 \<le> u" "u \<le> t" "0 < t"
  shows "\<exists>q. us_percent (getDatastoreCapacityInfo (JObj [(''USED_MB'', used), (''TOTAL_MB'', tot)])) = Finite q \<and>
     us_percent (getARLeasesInfo (JObj [(''USED_LEASES'', used), (''SIZE'', tot)])) = Finite q \<and>
     us_percent (cpu_usage used tot) = Finite q \<and> us_percent (memory_usage used tot) = Finite q \<and>
     0 \<le> q \<and> q \<le> 100 \<and> (q = 100 \<longleftrightarrow> u = t) \<and>
     us_label (getARLeasesInfo (JObj [(''USED_LEASES'', used), (''SIZE'', tot)])) =
       to_string used @ '' / '' @ to_string tot @ '' ('' @ show_int (math_round q) @ ''%)'' \<and>
     0 \<le> math_round q \<and> math_round q \<le> 100 \<and> (math_round q = 100 \<longleftrightarrow> 199 * t \<le> 200 * u)"
proof -
  obtain q where q: "percent_of (Some u) (Some t) = Finite q" "0 \<le> q" "q \<le> 100" "q = 100 \<longleftrightarrow> u = t"
    "0 \<le> math_round q" "math_round q \<le> 100" "math_round q = 100 \<longleftrightarrow> 199 * t \<le> 200 * u"
    using percent_bounds [OF assms(3-5)] by blast
  have "us_label (getARLeasesInfo (JObj [(''USED_LEASES'', used), (''SIZE'', tot)])) =
      to_string used @ '' / '' @ to_string tot @ '' ('' @ show_int (math_round q) @ ''%)''"
    using assms(1,2) q(1) by (simp add: getARLeasesInfo_def obj_get_def Let_def)
  moreover have "us_percent (getDatastoreCapacityInfo (JObj [(''USED_MB'', used), (''TOTAL_MB'', tot)])) = Finite q"
    "us_percent (getARLeasesInfo (JObj [(''USED_LEASES'', used), (''SIZE'', tot)])) = Finite q"
    "us_percent (cpu_usage used tot) = Finite q" "us_percent (memory_usage used tot) = Finite q"
    using assms(1,2) q(1) by (simp_all add: getDatastoreCapacityInfo_def getARLeasesInfo_def cpu_usage_def memory_usage_def obj_get_def Let_def)
  ultimately show ?thesis using q(2-7) by blast
qed

text \<open>A range with 995 of its 1000 addresses in use is not full, and its label says 100 per cent.\<close>

theorem usage_percent_bounds_witness:
  "\<exists>q. us_percent (getARLeasesInfo (JObj [(''USED_LEASES'', JStr ''995''), (''SIZE'', JStr ''1000'')])) = Finite q \<and> q < 100 \<and>
    us_label (getARLeasesInfo (JObj [(''USED_LEASES'', JStr ''995''), (''SIZE'', JStr ''1000'')])) = ''995 / 1000 (100%)''"
proof -
  have "to_number (JStr ''995'') = Some 995" "to_number (JStr ''1000'') = Some 1000" by code_simp+
  from usage_percent_bounds [OF this] obtain q where
    q: "us_percent (getARLeasesInfo (JObj [(''USED_LEASES'', JStr ''995''), (''SIZE'', JStr ''1000'')])) = Finite q" "q \<le> 100" "q \<noteq> 100"
      "math_round q = 100"
      "us_label (getARLeasesInfo (JObj [(''USED_LEASES'', JStr ''995''), (''SIZE'', JStr ''1000'')])) =
        ''995'' @ '' / '' @ ''1000'' @ '' ('' @ show_int (math_round q) @ ''%)''"
    by auto
  moreover have "show_int 100 = ''100''" by code_simp
  ultimately show ?thesis by auto
qed

text \<open>
  The colour of a host says whether more is promised than the host has when both numbers have as many digits,
  and may say the opposite when they have not: the fields are texts and compared as such, so that a host with 800
  that promises 1000 is shown as one with room to spare.
\<close>

theorem overcommit_color:
  assumes "0 \<le> m" "0 \<le> n" "length (show_int m) = length (show_int n)"
  shows "ai_colorCpu (getAllocatedInfo (JObj [(''HOST_SHARE'', JObj [(''MAX_CPU'', JStr (show_int m)), (''TOTAL_CPU'', JStr (show_int n))])])) =
      (if m > n then ''error'' else if m < n then ''success'' else []) \<and>
    ai_colorCpu (getAllocatedInfo (JObj [(''HOST_SHARE'', JObj [(''MAX_CPU'', JStr ''1000''), (''TOTAL_CPU'', JStr ''800'')])])) = ''success''"
proof
  show "ai_colorCpu (getAllocatedInfo (JObj [(''HOST_SHARE'', JObj [(''MAX_CPU'', JStr (show_int m)), (''TOTAL_CPU'', JStr (show_int n))])])) =
      (if m > n then ''error'' else if m < n then ''success'' else [])"
    using text_less_numbers [OF assms] text_less_numbers [OF assms(2,1) assms(3) [symmetric]]
    by (simp add: getAllocatedInfo_def usage_color_def js_less_def obj_get_def Let_def)
  have "js_less (JStr ''800'') (JStr ''1000'') = False" "js_less (JStr ''1000'') (JStr ''800'')" by code_simp+
  then show "ai_colorCpu (getAllocatedInfo (JObj [(''HOST_SHARE'', JObj [(''MAX_CPU'', JStr ''1000''), (''TOTAL_CPU'', JStr ''800'')])])) = ''success''"
    by (simp add: getAllocatedInfo_def usage_color_def obj_get_def Let_def)
qed

theorem overcommit_color_witness:
  "ai_colorCpu (getAllocatedInfo (JObj [(''HOST_SHARE'', JObj [(''MAX_CPU'', JStr (show_int 1200)), (''TOTAL_CPU'', JStr (show_int 1000))])])) = ''error''"
proof -
  have "length (show_int 1200) = length (show_int 1000)" by code_simp
  then show ?thesis using overcommit_color [of 1200 1000] by simp
qed

end
