(* ===== verification/Template_Filter.thy ===== *)
theory Template_Filter
  imports Client_State Client_Requests Client_Text
begin

text \<open>
  What the forms of virtual machine templates submit (\<open>modules/utils/parser/vmTemplateFilter.js\<close>): of the values of a
  form those that the user has changed, by the map of changes that the store keeps (\<open>Client_State\<close>), over the values
  the template had before; and what is done to the result for creation and for instantiation.

  The map of changes is an object of booleans and objects, and arrays of objects in which deleted items carry
  \<open>__delete__\<close>.  \<open>merge\<close>, \<open>get\<close> and \<open>isEmpty\<close> of lodash are arguments.  What is copied before it is changed is
  not shared, so that objects are values here.
\<close>

section \<open>Changes\<close>

definition marked :: "jsval \<Rightarrow> bool" where
  "marked m \<longleftrightarrow> is_object m \<and> truthy (js_get m ''__delete__'')"

definition obj_del :: "string \<Rightarrow> jsobj \<Rightarrow> jsobj" where
  "obj_del k fs = filter (\<lambda>e. fst e \<noteq> k) fs"

definition obj_set :: "string \<Rightarrow> jsval \<Rightarrow> jsobj \<Rightarrow> jsobj" where
  "obj_set k v fs = AList.update k v fs"

definition has_field :: "jsobj \<Rightarrow> string \<Rightarrow> bool" where
  "has_field fs k \<longleftrightarrow> k \<in> fst ` set fs"

text \<open>A field of a value that must not be null or undefined.\<close>

definition field :: "jsval \<Rightarrow> string \<Rightarrow> jsval js" where
  "field v k = (if nullish v then Inl TypeError else Inr (js_get v k))"

definition alwaysIncludeAttributes :: jsval where
  "alwaysIncludeAttributes =
     JObj [(''general'', JObj [(''AS_UID'', JBool True), (''AS_GID'', JBool True)]),
       (''extra'', JObj [
          (''OsCpu'', JObj [(''OS'', JObj [(''BOOT'', JBool True), (''FIRMWARE'', JBool True)]), (''MEMORY_ENCRYPTION'', JObj [(''TYPE'', JBool True)])]),
          (''InputOutput'', JObj [(''INPUT'', JBool True)]),
          (''Context'', JObj [(''INPUTS_ORDER'', JBool True), (''USER_INPUTS'', JBool True)]),
          (''Placement'', JObj [(''SCHED_REQUIREMENTS'', JBool True)])])]"

definition alwaysIncludePci :: jsobj where
  "alwaysIncludePci = [(''TYPE'', JBool True), (''VENDOR'', JBool True), (''DEVICE'', JBool True), (''CLASS'', JBool True), (''SHORT_ADDRESS'', JBool True)]"

definition alwaysIncludeNic :: jsobj where
  "alwaysIncludeNic = []"

definition alwaysIncludeNicAlias :: jsobj where
  "alwaysIncludeNicAlias = [(''PARENT'', JBool True)]"

definition defaultValuesCreate :: jsval where
  "defaultValuesCreate =
     JObj [(''general'', JObj [(''HYPERVISOR'', JBool True)]),
       (''extra'', JObj [
          (''Context'', JObj [(''CONTEXT'', JObj [(''NETWORK'', JBool True), (''SSH_PUBLIC_KEY'', JBool True)])]),
          (''InputOutput'', JObj [(''GRAPHICS'', JObj [(''LISTEN'', JBool True), (''TYPE'', JBool True)])]),
          (''OsCpu'', JObj [(''MEMORY_ENCRYPTION'', JBool True)]),
          (''Placement'', JObj [(''SCHED_REQUIREMENTS'', JBool True)])])]"

definition defaultValuesUpdate :: jsval where
  "defaultValuesUpdate =
     JObj [(''extra'', JObj [
          (''Context'', JObj [(''CONTEXT'', JObj [(''START_SCRIPT'', JBool True), (''START_SCRIPT_BASE64'', JBool True)])]),
          (''OsCpu'', JObj [(''MEMORY_ENCRYPTION'', JBool True)]),
          (''InputOutput'', JObj [(''GRAPHICS'', JObj [(''LISTEN'', JBool True), (''TYPE'', JBool True)])])])]"

section \<open>The general section\<close>

text \<open>The changes one after the other, over the values there were.\<close>

fun reduce_corrections :: "jsval \<Rightarrow> jsobj \<Rightarrow> jsobj \<Rightarrow> jsobj \<Rightarrow> jsobj js" where
  "reduce_corrections form existing [] acc = Inr acc"
| "reduce_corrections form existing ((key, JBool b) # cs) acc =
     (if b then rbind (field form key) (\<lambda>v. reduce_corrections form existing cs (obj_set key v acc))
      else reduce_corrections form existing cs acc)"
| "reduce_corrections form existing ((key, JObj fs) # cs) acc =
     (if truthy (obj_get fs ''__delete__'') then reduce_corrections form existing cs (obj_del key acc)
      else rbind (field form key) (\<lambda>child.
        rbind (reduce_corrections child (entries (obj_get existing key)) fs (entries (obj_get existing key))) (\<lambda>children.
          reduce_corrections form existing cs (obj_set key (JObj children) acc))))"
| "reduce_corrections form existing ((key, c) # cs) acc = reduce_corrections form existing cs acc"

definition reduceGeneral :: "lodash \<Rightarrow> jsval \<Rightarrow> jsval \<Rightarrow> jsobj \<Rightarrow> jsval \<Rightarrow> jsobj js" where
  "reduceGeneral lo formData itemModifications existingTemplate alwaysInclude =
     (let correctionMap = lo_merge lo (lo_merge lo (JObj []) itemModifications) (js_get alwaysInclude ''general'')
      in reduce_corrections formData existingTemplate (entries correctionMap) existingTemplate)"

text \<open>A \<open>reduce\<close> or a loop whose body may throw.\<close>

fun fold_js :: "('a \<Rightarrow> 's \<Rightarrow> 's js) \<Rightarrow> 'a list \<Rightarrow> 's \<Rightarrow> 's js" where
  "fold_js f [] s = Inr s"
| "fold_js f (x # xs) s = rbind (f x s) (fold_js f xs)"

section \<open>Lists of items\<close>

definition deleted_at :: "jsval list \<Rightarrow> nat \<Rightarrow> bool js" where
  "deleted_at mods i =
     (if i < length mods then rbind (field (mods ! i) ''__delete__'') (\<lambda>d. Inr (truthy d)) else Inr False)"

definition deleteItemsOnExistingData :: "jsval list \<Rightarrow> jsval list \<Rightarrow> jsval list js" where
  "deleteItemsOnExistingData existingData mods =
     rbind (rmap (\<lambda>(i, x). rbind (deleted_at mods i) (\<lambda>d. Inr (d, x))) (enumerate 0 existingData))
       (\<lambda>ps. Inr (map snd (filter (\<lambda>p. \<not> fst p) ps)))"

text \<open>An array, or a type error where the code calls \<open>filter\<close> or \<open>map\<close>.\<close>

definition array_of :: "jsval \<Rightarrow> jsval list js" where
  "array_of v = (case v of JArr xs \<Rightarrow> Inr xs | _ \<Rightarrow> Inl TypeError)"

definition wrapped :: "jsval \<Rightarrow> jsval list" where
  "wrapped v = (case v of JArr xs \<Rightarrow> xs | _ \<Rightarrow> [v])"

text \<open>An item that was moved from another list starts from the values it had there.\<close>

definition moved_from :: "string \<Rightarrow> (string \<times> string) list" where
  "moved_from type =
     (if type = ''NIC'' then [(''__aliasIndex__'', ''NIC_ALIAS''), (''__aliasPci__'', ''PCI'')]
      else if type = ''NIC_ALIAS'' then [(''__nicIndex__'', ''NIC''), (''__aliasPci__'', ''PCI'')]
      else if type = ''PCI'' then [(''__nicIndex__'', ''NIC''), (''__aliasIndex__'', ''NIC_ALIAS'')]
      else [])"

fun take_moved :: "jsobj \<Rightarrow> nat \<Rightarrow> jsval \<Rightarrow> (string \<times> string) list \<Rightarrow> jsval list \<Rightarrow> jsval list js" where
  "take_moved originalData i value [] ws = Inr ws"
| "take_moved originalData i value ((flg, source) # rest) ws =
     (if js_get value flg \<noteq> JUndef
      then rbind (field (obj_get originalData source) (to_string (js_get value flg))) (\<lambda>item.
        take_moved originalData i value rest (put_at ws i (JObj (entries item))))
      else take_moved originalData i value rest ws)"

fun take_all_moved :: "string \<Rightarrow> jsobj \<Rightarrow> nat \<Rightarrow> jsval list \<Rightarrow> jsval list \<Rightarrow> jsval list js" where
  "take_all_moved type originalData i [] ws = Inr ws"
| "take_all_moved type originalData i (m # ms) ws =
     rbind (take_moved originalData i m (moved_from type) ws) (take_all_moved type originalData (Suc i) ms)"

text \<open>The changes of an item: of its steps together, or of its own for a device of the other section.\<close>

definition step_changes :: "jsval \<Rightarrow> jsobj \<Rightarrow> jsobj" where
  "step_changes m alwaysInclude = foldl (\<lambda>acc e. obj_spread (obj_spread acc (entries (snd e))) alwaysInclude) [] (entries m)"

definition item_changes :: "string \<Rightarrow> jsval \<Rightarrow> jsval \<Rightarrow> jsobj \<Rightarrow> jsobj" where
  "item_changes type item m alwaysInclude =
     (if type = ''PCI'' \<and> \<not> truthy (js_get item ''TYPE'') then obj_spread (entries m) alwaysInclude else step_changes m alwaysInclude)"

text \<open>
  Fields that were changed and are empty now are taken out of the values there were.  The filter reads a property
  of every change, so that one that is null or undefined throws.
\<close>

definition drop_cleared :: "jsobj \<Rightarrow> jsval \<Rightarrow> jsobj \<Rightarrow> jsobj js" where
  "drop_cleared changes item base =
     (if list_ex (\<lambda>e. nullish (snd e)) changes then Inl TypeError
      else Inr (foldl (\<lambda>acc e. if truthy (snd e) \<and> \<not> truthy (js_get item (fst e)) \<and> truthy (obj_get acc (fst e))
                              then obj_del (fst e) acc else acc) base changes))"

text \<open>The type of null is \<open>object\<close>: reading \<open>__delete__\<close> of it throws.\<close>

definition apply_change :: "jsobj \<Rightarrow> jsval \<Rightarrow> string \<Rightarrow> jsobj \<Rightarrow> jsobj js" where
  "apply_change changes v key acc =
     (if obj_get changes key = JBool True then Inr (obj_set key v acc)
      else if obj_get changes key = JNull then Inl TypeError
      else if marked (obj_get changes key) then Inr (obj_del key acc)
      else Inr acc)"

text \<open>An item on top of the value there was; \<open>Object.keys\<close> of a missing item throws.\<close>

definition network_item :: "jsobj \<Rightarrow> jsval \<Rightarrow> jsval \<Rightarrow> jsobj js" where
  "network_item changes item there =
     (if nullish item then Inl TypeError
      else rbind (if truthy there then drop_cleared changes item (entries there) else Inr [])
             (fold_js (\<lambda>e. apply_change changes (snd e) (fst e)) (entries item)))"

definition handleNetwork :: "lodash \<Rightarrow> jsval \<Rightarrow> jsval \<Rightarrow> jsobj \<Rightarrow> string \<Rightarrow> string \<Rightarrow> jsobj \<Rightarrow> jsobj \<Rightarrow> jsobj js" where
  "handleNetwork lo formExtra correctionMap newExtra section type originalData alwaysInclude =
     (if \<not> truthy (js_get formExtra type) then Inr newExtra
      else rbind (array_of (lo_get lo correctionMap section (JArr []))) (\<lambda>mods.
        rbind (if truthy (obj_get newExtra type) then deleteItemsOnExistingData (wrapped (obj_get newExtra type)) mods else Inr []) (\<lambda>existing.
          rbind (deleteItemsOnExistingData mods mods) (\<lambda>sectionModifications.
            rbind (take_all_moved type originalData 0 sectionModifications existing) (\<lambda>base.
              rbind (array_of (js_get formExtra type)) (\<lambda>items.
                rbind (rmap (\<lambda>(i, item).
                    if i < length sectionModifications
                    then rbind (network_item (item_changes type item (sectionModifications ! i) alwaysInclude) item (Client_Values.at base i))
                           (\<lambda>fs. Inr (JObj fs))
                    else Inr item) (enumerate 0 items)) (\<lambda>modifiedData.
                  Inr (obj_set type (JArr modifiedData) newExtra))))))))"

definition apply_disk_change :: "jsobj \<Rightarrow> jsval \<Rightarrow> string \<Rightarrow> jsobj \<Rightarrow> jsobj js" where
  "apply_disk_change changes v key acc =
     (if obj_get changes key = JBool True then Inr (obj_set key v acc)
      else if obj_get changes key = JNull then Inl TypeError
      else if marked (obj_get changes key) then Inr (obj_del key acc)
      else if key = ''SIZE'' \<and> truthy (obj_get changes ''SIZEUNIT'') then Inr (obj_set key v acc)
      else Inr acc)"

definition disk_item :: "jsobj \<Rightarrow> jsval \<Rightarrow> jsval \<Rightarrow> jsobj js" where
  "disk_item changes disk there =
     (if nullish disk then Inl TypeError
      else fold_js (\<lambda>e. apply_disk_change changes (snd e) (fst e)) (entries disk) (if truthy there then entries there else []))"

text \<open>A type that the form does not have ends the loop over the types.\<close>

fun handleStorage :: "jsval \<Rightarrow> jsval \<Rightarrow> string list \<Rightarrow> jsobj \<Rightarrow> jsobj js" where
  "handleStorage formExtra storageChanges [] newExtra = Inr newExtra"
| "handleStorage formExtra storageChanges (type # types) newExtra =
     (let newExtra' = (case js_get formExtra type of
            JStr s \<Rightarrow> if type = ''TM_MAD_SYSTEM'' then obj_set type (JStr s) newExtra else newExtra | _ \<Rightarrow> newExtra)
      in if \<not> truthy (js_get formExtra type) then Inr newExtra'
         else rbind (array_of storageChanges) (\<lambda>mods.
           rbind (deleteItemsOnExistingData (wrapped (obj_get newExtra' type)) mods) (\<lambda>existing.
             rbind (deleteItemsOnExistingData mods mods) (\<lambda>sectionModifications.
               rbind
                 (case js_get formExtra type of
                    JArr disks \<Rightarrow>
                      rbind (rmap (\<lambda>(i, disk).
                          if i < length sectionModifications
                          then rbind (disk_item (step_changes (sectionModifications ! i) []) disk (Client_Values.at existing i))
                                 (\<lambda>fs. Inr (JObj fs))
                          else Inr disk) (enumerate 0 disks)) (\<lambda>modifiedData.
                        Inr (obj_set type (JArr modifiedData) newExtra'))
                  | _ \<Rightarrow> Inr newExtra') (handleStorage formExtra storageChanges types)))))"

section \<open>Single sections\<close>

text \<open>The children of a section: marked ones go, changed ones are taken from the form, or go when it has them no more.\<close>

definition apply_child :: "jsval \<Rightarrow> jsobj \<Rightarrow> string \<times> jsval \<Rightarrow> jsobj js" where
  "apply_child value acc c =
     (if marked (snd c) then Inr (obj_del (fst c) acc)
      else if snd c = JBool True then
        (if nullish value then Inl TypeError
         else if has_key value (fst c) then Inr (if js_get value (fst c) \<noteq> JNull then obj_set (fst c) (js_get value (fst c)) acc else acc)
         else Inr (obj_del (fst c) acc))
      else Inr acc)"

fun apply_children :: "jsval \<Rightarrow> jsobj \<Rightarrow> (string \<times> jsval) list \<Rightarrow> jsobj js" where
  "apply_children value acc [] = Inr acc"
| "apply_children value acc (c # cs) = rbind (apply_child value acc c) (\<lambda>acc'. apply_children value acc' cs)"

definition filterSingleSection :: "jsval \<Rightarrow> jsval \<Rightarrow> string \<Rightarrow> string \<Rightarrow> jsobj \<Rightarrow> jsobj js" where
  "filterSingleSection formExtra extraChanges section key newExtra =
     (let changes = js_get (js_get extraChanges section) key; value = js_get formExtra key
      in if (has_key formExtra key \<or> has_key (js_get extraChanges section) key) \<and> truthy changes then
           (if is_array value \<or> key = ''USER_INPUTS'' \<or> \<not> (is_object value \<or> value = JNull)
            then Inr (obj_set key value newExtra)
            else rbind (apply_children value (entries (obj_get newExtra key)) (entries changes))
                   (\<lambda>children. Inr (obj_set key (JObj children) newExtra)))
         else Inr newExtra)"

definition other_section :: "lodash \<Rightarrow> jsval \<Rightarrow> jsval \<Rightarrow> string \<Rightarrow> jsobj \<Rightarrow> string \<Rightarrow> jsobj \<Rightarrow> jsobj js" where
  "other_section lo formExtra extraChanges section originalData key newExtra =
     (if key = ''SCHED_ACTION'' then Inr (obj_set key (js_get formExtra key) newExtra)
      else if key = ''PCI'' then handleNetwork lo formExtra (js_get extraChanges ''PciDevices'') newExtra ''PCI'' ''PCI'' originalData alwaysIncludePci
      else if key = ''MEMORY_ENCRYPTION'' then
        (if truthy (js_get formExtra key) then Inr (obj_set key (JObj (entries (js_get formExtra key))) newExtra)
         else if truthy (js_get (js_get extraChanges section) key) then filterSingleSection formExtra extraChanges section key newExtra
         else Inr newExtra)
      else rbind (filterSingleSection formExtra extraChanges section key newExtra) (\<lambda>e.
        Inr (if section = ''Context'' \<and> key = ''USER_INPUTS'' \<and> truthy (js_get (js_get extraChanges ''Context'') ''USER_INPUTS'')
             then obj_set ''INPUTS_ORDER'' (js_get formExtra ''INPUTS_ORDER'') e else e)))"

definition handleOtherSections :: "lodash \<Rightarrow> jsval \<Rightarrow> jsval \<Rightarrow> string \<Rightarrow> (string \<times> string list) list \<Rightarrow> jsobj \<Rightarrow> jsobj \<Rightarrow> jsobj js" where
  "handleOtherSections lo formExtra extraChanges section tabFormMap originalData newExtra =
     fold_js (other_section lo formExtra extraChanges section originalData) (the_default [] (map_of tabFormMap section)) newExtra"

section \<open>The extra section\<close>

definition ensure_arrays :: "jsobj \<Rightarrow> jsobj" where
  "ensure_arrays extra =
     foldl (\<lambda>e k. if truthy (obj_get e k) then obj_set k (JArr (wrapped (obj_get e k))) e else e) extra [''NIC'', ''NIC_ALIAS'', ''PCI'']"

definition network_section :: "lodash \<Rightarrow> jsval \<Rightarrow> jsval \<Rightarrow> jsobj \<Rightarrow> string \<Rightarrow> jsobj \<Rightarrow> jsobj js" where
  "network_section lo formExtra extraChanges originalData sub newExtra =
     (if sub = ''NIC'' then handleNetwork lo formExtra (js_get extraChanges ''Network'') newExtra sub ''NIC'' originalData alwaysIncludeNic
      else if sub = ''NIC_ALIAS'' then handleNetwork lo formExtra (js_get extraChanges ''Network'') newExtra sub ''NIC_ALIAS'' originalData alwaysIncludeNicAlias
      else if sub = ''NIC_DEFAULT'' then filterSingleSection formExtra extraChanges ''Network'' ''NIC_DEFAULT'' newExtra
      else Inr newExtra)"

definition extra_section ::
  "lodash \<Rightarrow> jsval \<Rightarrow> jsval \<Rightarrow> (string \<times> string list) list \<Rightarrow> jsobj \<Rightarrow> string \<times> jsval \<Rightarrow> jsobj \<Rightarrow> jsobj js" where
  "extra_section lo formExtra extraChanges tabFormMap originalData s newExtra =
     (if fst s = ''Network'' then fold_js (network_section lo formExtra extraChanges originalData) (map fst (entries (snd s))) newExtra
      else if fst s = ''Storage'' then handleStorage formExtra (snd s) [''DISK'', ''TM_MAD_SYSTEM''] newExtra
      else handleOtherSections lo formExtra extraChanges (fst s) tabFormMap originalData newExtra)"

text \<open>The encryption of memory: the section goes when its type is not set, and then all that is empty.\<close>

definition encryption_type_set :: "jsval \<Rightarrow> bool" where
  "encryption_type_set formExtra =
     (let v = prop_get (prop_get formExtra ''MEMORY_ENCRYPTION'') ''TYPE'' in truthy v \<and> v \<noteq> JStr ''undefined'')"

definition clean_extra :: "(jsval \<Rightarrow> bool) \<Rightarrow> jsval \<Rightarrow> jsval \<Rightarrow> jsobj \<Rightarrow> jsobj" where
  "clean_extra isEmpty formExtra extraChanges newExtra =
     (let touched = has_key formExtra ''MEMORY_ENCRYPTION'' \<or> truthy (prop_get (prop_get extraChanges ''OsCpu'') ''MEMORY_ENCRYPTION'');
          e1 = (if touched \<and> \<not> encryption_type_set formExtra then obj_del ''MEMORY_ENCRYPTION'' newExtra else newExtra);
          filtered = filter (\<lambda>(k, v). k = ''MEMORY_ENCRYPTION'' \<and> truthy (prop_get v ''TYPE'') \<or> \<not> isEmpty v) e1
      in if truthy (obj_get filtered ''MEMORY_ENCRYPTION'') then
           (let enc = filter (\<lambda>(k, v). \<not> nullish v \<and> v \<noteq> JStr []) (entries (obj_get filtered ''MEMORY_ENCRYPTION''))
            in if truthy (obj_get enc ''TYPE'') then obj_set ''MEMORY_ENCRYPTION'' (JObj enc) filtered else obj_del ''MEMORY_ENCRYPTION'' filtered)
         else filtered)"

definition reduceExtra ::
  "lodash \<Rightarrow> (jsval \<Rightarrow> bool) \<Rightarrow> jsval \<Rightarrow> jsval \<Rightarrow> jsobj \<Rightarrow> (string \<times> string list) list \<Rightarrow> jsval \<Rightarrow> jsobj js" where
  "reduceExtra lo isEmpty formData itemModifications existingExtra tabFormMap alwaysInclude =
     (let newExtra = ensure_arrays existingExtra;
          correctionMap = lo_merge lo (lo_merge lo (JObj []) itemModifications) alwaysInclude;
          extraChanges = js_get correctionMap ''extra''; formExtra = prop_get formData ''extra''
      in rbind (fold_js (extra_section lo formExtra extraChanges tabFormMap newExtra) (entries extraChanges) newExtra)
           (\<lambda>e. Inr (clean_extra isEmpty formExtra extraChanges e)))"

section \<open>The whole form\<close>

record normalized =
  no_general :: jsobj
  no_extra :: jsobj
  no_custom :: jsval

definition normalizeTemplate :: "jsobj \<Rightarrow> (string \<times> string list) list \<Rightarrow> normalized" where
  "normalizeTemplate existingTemplate tabFormMap =
     (let inTab = (\<lambda>k. k \<in> set (concat (map snd tabFormMap)))
      in \<lparr>no_general = filter (\<lambda>(k, v). \<not> inTab k) existingTemplate, no_extra = filter (\<lambda>(k, v). inTab k) existingTemplate,
          no_custom = obj_get existingTemplate ''custom-variables''\<rparr>)"

definition merge_all :: "lodash \<Rightarrow> jsval list \<Rightarrow> jsval" where
  "merge_all lo vs = foldl (lo_merge lo) (JObj []) vs"

definition include_attributes :: "lodash \<Rightarrow> bool \<Rightarrow> bool \<Rightarrow> jsval" where
  "include_attributes lo update instantiate =
     (if instantiate then alwaysIncludeAttributes
      else merge_all lo [alwaysIncludeAttributes, if update then defaultValuesUpdate else defaultValuesCreate])"

text \<open>The context of a form with a step for user inputs: what refers to an input gets its value.\<close>

definition context_value :: "jsval \<Rightarrow> jsval \<Rightarrow> jsval js" where
  "context_value user_inputs v =
     (if nullish v then Inr v
      else case v of
        JStr s \<Rightarrow> Inr (if starts_with s ''$'' then js_get user_inputs (tl s) else v)
      | _ \<Rightarrow> Inl TypeError)"

definition context_with_inputs :: "jsval \<Rightarrow> jsval \<Rightarrow> jsobj js" where
  "context_with_inputs user_inputs context' =
     (if nullish context' then Inl TypeError
      else rbind (rmap (\<lambda>(k, v). rbind (context_value user_inputs v) (\<lambda>w. Inr (k, w))) (entries context'))
             (\<lambda>ctx. Inr (obj_spread (entries user_inputs) ctx)))"

definition filterTemplateData ::
  "lodash \<Rightarrow> (jsval \<Rightarrow> bool) \<Rightarrow> jsval \<Rightarrow> jsval \<Rightarrow> jsobj \<Rightarrow> (string \<times> string list) list \<Rightarrow> bool \<Rightarrow> bool \<Rightarrow> jsobj js" where
  "filterTemplateData lo isEmpty formData modifiedFields existingTemplate tabFormMap update instantiate =
     (let norm = normalizeTemplate existingTemplate tabFormMap; include = include_attributes lo update instantiate
      in rbind (reduceGeneral lo (prop_get formData ''general'') (prop_get modifiedFields ''general'') (no_general norm) include) (\<lambda>newGeneral.
         rbind (reduceExtra lo isEmpty formData modifiedFields (no_extra norm) tabFormMap include) (\<lambda>newExtra.
           let newCustomVariables = obj_spread (entries (no_custom norm)) (entries (prop_get formData ''custom-variables''));
               result = entries (merge_all lo [JObj newGeneral, JObj newExtra, JObj newCustomVariables, prop_get formData ''user_inputs''])
           in if truthy (prop_get formData ''user_inputs'')
              then rbind (context_with_inputs (prop_get formData ''user_inputs'') (obj_get result ''CONTEXT''))
                     (\<lambda>ctx. Inr (obj_set ''CONTEXT'' (JObj ctx) result))
              else Inr result)))"

section \<open>After the filter\<close>

definition capacity_inputs :: "string list" where
  "capacity_inputs = [''MEMORY'', ''CPU'', ''VCPU'']"

text \<open>User inputs are referred to in the context, unless they are capacity or there already.\<close>

definition add_input :: "jsobj \<Rightarrow> string \<Rightarrow> jsobj" where
  "add_input ctx name =
     (let upperName = to_upper name
      in if name \<notin> set capacity_inputs \<and> \<not> has_field ctx upperName then obj_set upperName (JStr (CHR ''$'' # upperName)) ctx else ctx)"

text \<open>Memory in megabytes, as far as it is a whole number of them.\<close>

definition memory_in_mb :: "jsval \<Rightarrow> jsval \<Rightarrow> jsval" where
  "memory_in_mb v unit =
     (case unit of
        JStr u \<Rightarrow>
          if u \<in> {''KB'', ''GB'', ''TB''} then (case to_number v of Some n \<Rightarrow> JNum \<lfloor>convertToMB (of_int n) u\<rfloor> | None \<Rightarrow> JNull) else v
      | _ \<Rightarrow> v)"

definition without_name :: "jsval \<Rightarrow> jsval" where
  "without_name action = (case action of JObj fs \<Rightarrow> JObj (obj_del ''NAME'' fs) | _ \<Rightarrow> action)"

definition transformActionsCommon :: "jsobj \<Rightarrow> jsobj" where
  "transformActionsCommon template =
     (let newContext = foldl add_input (entries (obj_get template ''CONTEXT'')) (map fst (entries (obj_get template ''USER_INPUTS'')));
          t1 = obj_set ''CONTEXT'' (JObj newContext) template;
          t2 = (if obj_get t1 ''MEMORY_RESIZE_MODE'' \<noteq> JStr ''HOTPLUG'' then obj_del ''MEMORY_SLOTS'' t1 else t1);
          t3 = obj_del ''MEMORYUNIT'' (obj_set ''MEMORY'' (memory_in_mb (obj_get t2 ''MEMORY'') (obj_get t2 ''MEMORYUNIT'')) t2);
          t4 = (case prop_get (obj_get t3 ''CPU_MODEL'') ''FEATURES'' of
              JArr fs \<Rightarrow> obj_set ''CPU_MODEL'' (JObj (obj_set ''FEATURES'' (JStr (js_join '', '' (map joined fs))) (entries (obj_get t3 ''CPU_MODEL'')))) t3
            | _ \<Rightarrow> t3)
      in if truthy (obj_get t4 ''SCHED_ACTION'')
         then obj_set ''SCHED_ACTION'' (JArr (map without_name (wrapped (obj_get t4 ''SCHED_ACTION'')))) t4 else t4)"

definition transformActionsCreate :: "jsobj \<Rightarrow> jsobj" where
  "transformActionsCreate template =
     (let t = transformActionsCommon template; raw = obj_get t ''RAW''
      in if truthy raw then
           (if truthy (js_get raw ''DATA'') then obj_set ''RAW'' (JObj (obj_set ''TYPE'' (obj_get t ''HYPERVISOR'') (entries raw))) t
            else obj_del ''RAW'' t)
         else t)"

definition emptied :: jsval where
  "emptied = JStr ''![CDATA[]]''"

text \<open>A list that the original has and the form no more is written as empty.\<close>

definition mark_emptied :: "jsval \<Rightarrow> jsobj \<Rightarrow> string \<Rightarrow> jsobj" where
  "mark_emptied original t k =
     (if truthy (js_get original k) \<and> (\<not> truthy (obj_get t k) \<or> js_get (obj_get t k) ''length'' = JNum 0) then obj_set k emptied t else t)"

definition context_from_original :: "jsobj \<Rightarrow> jsobj \<Rightarrow> jsobj" where
  "context_from_original original ctx =
     map (\<lambda>(k, v). (k, if (nullish v \<or> v = JStr []) \<and> has_field original k then obj_get original k else v)) ctx"

text \<open>The number of CPUs by a factor, rounded to hundredths; a number with a fraction is the text it is written as.\<close>

definition show_hundredths :: "int \<Rightarrow> jsval" where
  "show_hundredths c =
     (let n = nat \<bar>c\<bar>; sign = (if c < 0 then ''-'' else []); d = n mod 100
      in if d = 0 then JNum (c div 100)
         else JStr (sign @ to_base 10 (n div 100) @ ''.'' @
           (if d mod 10 = 0 then to_base 10 (d div 10) else (if d < 10 then ''0'' else []) @ to_base 10 d)))"

definition scaleVcpuByCpuFactor :: "jsval \<Rightarrow> rat \<Rightarrow> jsval" where
  "scaleVcpuByCpuFactor vcpu cpuFactor =
     (case to_number vcpu of
        None \<Rightarrow> JUndef
      | Some n \<Rightarrow>
          if cpuFactor = 0 \<or> n = 0 then JUndef
          else if cpuFactor = 1 then vcpu
          else show_hundredths \<lfloor>of_int n * cpuFactor * 100 + 1 / 2\<rfloor>)"

definition transformActionsInstantiate :: "jsobj \<Rightarrow> jsval \<Rightarrow> rat option \<Rightarrow> jsobj js" where
  "transformActionsInstantiate template original cpu_factor =
     (let t0 = transformActionsCommon template;
          t1 = (case cpu_factor of
              Some factor \<Rightarrow> if truthy (obj_get t0 ''VCPU'') \<and> factor \<noteq> 0
                then obj_set ''CPU'' (scaleVcpuByCpuFactor (obj_get t0 ''VCPU'') factor) t0 else t0
            | None \<Rightarrow> t0);
          orig = prop_get original ''TEMPLATE'';
          t2 = (if truthy (prop_get orig ''OS'') \<and> truthy (obj_get t1 ''OS'')
                then obj_set ''OS'' (JObj (obj_spread (entries (prop_get orig ''OS'')) (entries (obj_get t1 ''OS'')))) t1 else t1)
      in if nullish orig then Inl TypeError
         else let t3 = foldl (mark_emptied orig) t2 [''NIC'', ''DISK'', ''SCHED_ACTION'']
              in Inr (obj_set ''CONTEXT'' (JObj (context_from_original (entries (js_get orig ''CONTEXT'')) (entries (obj_get t3 ''CONTEXT'')))) t3))"

section \<open>Objects and changes of their fields\<close>

text \<open>What the proofs use of objects: reading a field after it was set or deleted.  A list of changes takes, drops
  or keeps each field, and a field is decided by the one change of its name.\<close>

datatype decision = Take | Drop | Keep

fun decided :: "('v \<Rightarrow> 'd \<Rightarrow> 'd) \<Rightarrow> ('d \<Rightarrow> 'd) \<Rightarrow> decision \<Rightarrow> 'v \<Rightarrow> 'd \<Rightarrow> 'd" where
  "decided put del Take v d = put v d"
| "decided put del Drop v d = del d"
| "decided put del Keep v d = d"

locale fields =
  fixes get :: "'d \<Rightarrow> 'k \<Rightarrow> 'v" and put :: "'k \<Rightarrow> 'v \<Rightarrow> 'd \<Rightarrow> 'd" and del :: "'k \<Rightarrow> 'd \<Rightarrow> 'd" and missing :: 'v
  assumes get_put: "get (put k v d) k' = (if k' = k then v else get d k')"
    and get_del: "get (del k d) k' = (if k' = k then missing else get d k')"
begin

lemma get_other:
  assumes "k \<notin> fst ` set es"
  shows "get (foldl (\<lambda>acc e. decided (put (fst e)) (del (fst e)) (d (fst e)) (snd e) acc) base es) k = get base k"
  using assms
proof (induction es arbitrary: base)
  case (Cons e es)
  have "get (decided (put (fst e)) (del (fst e)) (d (fst e)) (snd e) base) k = get base k"
    using Cons.prems by (cases "d (fst e)") (auto simp: get_put get_del)
  then show ?case using Cons by simp
qed simp

lemma get_decided:
  assumes "distinct (map fst es)" "(k, v) \<in> set es"
  shows "get (foldl (\<lambda>acc e. decided (put (fst e)) (del (fst e)) (d (fst e)) (snd e) acc) base es) k =
    (case d k of Take \<Rightarrow> v | Drop \<Rightarrow> missing | Keep \<Rightarrow> get base k)"
  using assms
proof (induction es arbitrary: base)
  case (Cons e es)
  show ?case
  proof (cases "fst e = k")
    case True
    then have k: "k \<notin> fst ` set es" using Cons.prems(1) by simp
    then have "(k, v) \<notin> set es" by (metis fst_conv imageI)
    then have e: "e = (k, v)" "k \<notin> fst ` set es" using Cons.prems(2) k by auto
    then show ?thesis using get_other [OF e(2)] by (cases "d k") (simp_all add: get_put get_del)
  next
    case False
    then have "get (decided (put (fst e)) (del (fst e)) (d (fst e)) (snd e) base) k = get base k"
      by (cases "d (fst e)") (auto simp: get_put get_del)
    moreover have "(k, v) \<in> set es" "distinct (map fst es)" using Cons.prems False by auto
    ultimately show ?thesis using Cons.IH by (simp split: decision.split)
  qed
qed simp

end

lemma obj_get_set: "obj_get (obj_set k v fs) k' = (if k' = k then v else obj_get fs k')"
  by (simp add: obj_get_def obj_set_def map_of_update)

lemma map_of_del: "map_of (obj_del k fs) k' = (if k' = k then None else map_of fs k')"
  by (induction fs) (auto simp: obj_del_def)

lemma obj_get_del: "obj_get (obj_del k fs) k' = (if k' = k then JUndef else obj_get fs k')"
  by (simp add: obj_get_def map_of_del)

interpretation obj: fields obj_get obj_set obj_del JUndef
  by unfold_locales (simp_all add: obj_get_set obj_get_del)

lemma obj_get_member: "distinct (map fst fs) \<Longrightarrow> (k, v) \<in> set fs \<Longrightarrow> obj_get fs k = v"
  by (simp add: obj_get_def)

lemma obj_get_missing: "k \<notin> fst ` set fs \<Longrightarrow> obj_get fs k = JUndef"
  by (simp add: obj_get_def map_of_eq_None_iff split: option.split) (metis map_of_eq_None_iff option.distinct(1))

section \<open>Items\<close>

definition disk_decision :: "jsobj \<Rightarrow> string \<Rightarrow> decision" where
  "disk_decision changes k =
     (if obj_get changes k = JBool True then Take
      else if marked (obj_get changes k) then Drop
      else if k = ''SIZE'' \<and> truthy (obj_get changes ''SIZEUNIT'') then Take
      else Keep)"

definition network_decision :: "jsobj \<Rightarrow> string \<Rightarrow> decision" where
  "network_decision changes k = (if obj_get changes k = JBool True then Take else if marked (obj_get changes k) then Drop else Keep)"

lemma fold_js_total: "(\<And>x s. x \<in> set xs \<Longrightarrow> f x s = Inr (g s x)) \<Longrightarrow> fold_js f xs s = Inr (foldl g s xs)"
  by (induction xs arbitrary: s) simp_all

text \<open>Changes none of which is null decide the fields of an item.\<close>

definition no_null :: "jsobj \<Rightarrow> bool" where
  "no_null changes = list_all (\<lambda>e. \<not> nullish (snd e)) changes"

lemma no_null_get: "no_null changes \<Longrightarrow> obj_get changes k \<noteq> JNull"
  by (auto simp: no_null_def list_all_iff obj_get_def nullish_def split: option.splits dest!: map_of_SomeD)

lemma disk_item_decided:
  assumes "no_null changes"
  shows "disk_item changes (JObj fs) there = Inr (foldl (\<lambda>acc e. decided (obj_set (fst e)) (obj_del (fst e))
    (disk_decision changes (fst e)) (snd e) acc) (if truthy there then entries there else []) fs)"
proof -
  have "fold_js (\<lambda>e. apply_disk_change changes (snd e) (fst e)) fs b =
      Inr (foldl (\<lambda>acc e. decided (obj_set (fst e)) (obj_del (fst e)) (disk_decision changes (fst e)) (snd e) acc) b fs)" for b
    by (rule fold_js_total) (simp add: apply_disk_change_def disk_decision_def no_null_get [OF assms])
  then show ?thesis by (simp add: disk_item_def nullish_def)
qed

text \<open>What dropping the cleared fields leaves.\<close>

definition cleared_base :: "jsobj \<Rightarrow> jsval \<Rightarrow> jsobj \<Rightarrow> jsobj" where
  "cleared_base changes item base =
     foldl (\<lambda>acc e. if truthy (snd e) \<and> \<not> truthy (js_get item (fst e)) \<and> truthy (obj_get acc (fst e))
                   then obj_del (fst e) acc else acc) base changes"

lemma network_item_decided:
  assumes "no_null changes"
  shows "network_item changes (JObj fs) there = Inr (foldl (\<lambda>acc e. decided (obj_set (fst e)) (obj_del (fst e))
    (network_decision changes (fst e)) (snd e) acc) (if truthy there then cleared_base changes (JObj fs) (entries there) else []) fs)"
proof -
  have "fold_js (\<lambda>e. apply_change changes (snd e) (fst e)) fs b =
      Inr (foldl (\<lambda>acc e. decided (obj_set (fst e)) (obj_del (fst e)) (network_decision changes (fst e)) (snd e) acc) b fs)" for b
    by (rule fold_js_total) (simp add: apply_change_def network_decision_def no_null_get [OF assms])
  moreover have "drop_cleared changes (JObj fs) (entries there) = Inr (cleared_base changes (JObj fs) (entries there))"
    using assms by (auto simp: drop_cleared_def cleared_base_def no_null_def list_ex_iff list_all_iff)
  ultimately show ?thesis by (simp add: network_item_def nullish_def)
qed

text \<open>Without a change an item is what it was.\<close>

lemma foldl_keep: "(\<And>e. e \<in> set es \<Longrightarrow> f b e = b) \<Longrightarrow> foldl f b es = b"
  by (induction es) auto

lemma items_unchanged:
  "disk_item [] (JObj fs) there = Inr (if truthy there then entries there else [])"
  "network_item [] (JObj fs) there = Inr (if truthy there then entries there else [])"
  by (subst disk_item_decided network_item_decided, simp add: no_null_def,
      subst foldl_keep, simp add: disk_decision_def network_decision_def obj_get_def marked_def is_object_def, simp add: cleared_base_def)+

text \<open>A field that was cleared: gone from the base of a network interface.\<close>

lemma drop_cleared_field:
  assumes "distinct (map fst changes)" "(k, c) \<in> set changes" "truthy c" "\<not> truthy (js_get item k)" "truthy (obj_get base k)"
  shows "obj_get (cleared_base changes item base) k = JUndef"
proof -
  obtain as bs where split: "changes = as @ (k, c) # bs" using assms(2) split_list by fast
  let ?f = "\<lambda>acc e. if truthy (snd e) \<and> \<not> truthy (js_get item (fst e)) \<and> truthy (obj_get acc (fst e)) then obj_del (fst e) acc else acc"
  have other: "obj_get (foldl ?f b es) k = obj_get b k" if "k \<notin> fst ` set es" for b es
    using that by (induction es arbitrary: b) (auto simp: obj_get_del)
  have as: "k \<notin> fst ` set as" and bs: "k \<notin> fst ` set bs" using assms(1) unfolding split by auto
  have d: "cleared_base changes item base = foldl ?f (?f (foldl ?f base as) (k, c)) bs" by (simp add: cleared_base_def split)
  have "obj_get (?f (foldl ?f base as) (k, c)) k = JUndef" using other [OF as, of base] assms(3-5) by (simp add: obj_get_del)
  then show ?thesis unfolding d other [OF bs] .
qed

section \<open>Lists of items after deletions\<close>

text \<open>The items that are left: those whose change does not delete them, and those beyond the changes.\<close>

definition kept :: "'a list \<Rightarrow> jsval list \<Rightarrow> 'a list" where
  "kept xs mods = map snd (filter (\<lambda>(i, x). \<not> (i < length mods \<and> \<not> visible (mods ! i))) (enumerate 0 xs))"

lemma deleted_at_object: "\<forall>m \<in> set mods. \<exists>fs. m = JObj fs \<Longrightarrow> deleted_at mods i = Inr (i < length mods \<and> \<not> visible (mods ! i))"
proof (cases "i < length mods")
  case True
  assume "\<forall>m \<in> set mods. \<exists>fs. m = JObj fs"
  then obtain fs where "mods ! i = JObj fs" using True by (meson nth_mem)
  then show ?thesis using True by (simp add: deleted_at_def field_def nullish_def visible_def)
qed (simp add: deleted_at_def)

lemma deleteItems_kept:
  assumes "\<forall>m \<in> set mods. \<exists>fs. m = JObj fs"
  shows "deleteItemsOnExistingData xs mods = Inr (kept xs mods)"
proof -
  have "rmap (\<lambda>(i, x). rbind (deleted_at mods i) (\<lambda>d. Inr (d, x))) (enumerate 0 xs) =
      Inr (map (\<lambda>(i, x). (i < length mods \<and> \<not> visible (mods ! i), x)) (enumerate 0 xs))"
    by (rule rmap_total) (auto simp: deleted_at_object [OF assms])
  then show ?thesis
    by (simp add: deleteItemsOnExistingData_def kept_def filter_map comp_def split_def)
qed

lemma kept_self: "kept mods mods = filter visible mods"
proof -
  have "filter (\<lambda>(i, x). \<not> (i < length mods \<and> \<not> visible (mods ! i))) (enumerate 0 mods) = filter (\<lambda>p. visible (snd p)) (enumerate 0 mods)"
    by (rule filter_cong) (auto simp: in_set_enumerate_eq)
  then show ?thesis by (simp add: kept_def filter_map [symmetric, unfolded comp_def])
qed

text \<open>A null among the changes throws.\<close>

lemma null_change_throws:
  assumes "i < length xs" "i < length mods" "nullish (mods ! i)"
  shows "\<exists>e. deleteItemsOnExistingData xs mods = Inl e"
proof -
  let ?f = "\<lambda>(i, x). rbind (deleted_at mods i) (\<lambda>d. Inr (d, x))"
  have "(i, xs ! i) \<in> set (enumerate 0 xs)" using assms(1) by (simp add: in_set_enumerate_eq)
  moreover have "?f (i, xs ! i) = Inl TypeError" using assms(2,3) by (simp add: deleted_at_def field_def)
  ultimately have "\<nexists>ys. rmap ?f (enumerate 0 xs) = Inr ys"
    by (auto simp: rmap_Inr_iff list_all2_conv_all_nth in_set_conv_nth)
  then show ?thesis by (cases "rmap ?f (enumerate 0 xs)") (auto simp: deleteItemsOnExistingData_def)
qed

text \<open>Changes that delete items or say nothing of them.\<close>

definition only_deletes :: "jsval list \<Rightarrow> bool" where
  "only_deletes mods \<longleftrightarrow> (\<forall>m \<in> set mods. (\<exists>fs. m = JObj fs) \<and>
     (visible m \<longrightarrow> step_changes m [] = [] \<and> (\<forall>f \<in> {''__aliasIndex__'', ''__aliasPci__'', ''__nicIndex__''}. js_get m f = JUndef)))"

text \<open>A form that shows as many items as are left, and beyond the changes the items themselves.\<close>

definition shows_rest :: "jsval list \<Rightarrow> jsval list \<Rightarrow> jsval list \<Rightarrow> bool" where
  "shows_rest items es mods \<longleftrightarrow> length items = length (kept es mods) \<and> (\<forall>item \<in> set items. \<exists>fs. item = JObj fs) \<and>
     (\<forall>i < length items. length (filter visible mods) \<le> i \<longrightarrow> items ! i = kept es mods ! i)"

lemma rest_submitted:
  assumes "only_deletes mods" "shows_rest items es mods" "\<forall>e \<in> set es. \<exists>fs. e = JObj fs"
    "\<And>m fs there. m \<in> set (filter visible mods) \<Longrightarrow> g m (JObj fs) there = Inr (if truthy there then entries there else [])"
  shows "rmap (\<lambda>(i, item). if i < length (filter visible mods)
      then rbind (g (filter visible mods ! i) item (Client_Values.at (kept es mods) i)) (\<lambda>fs. Inr (JObj fs)) else Inr item)
    (enumerate 0 items) = Inr (kept es mods)" (is "rmap ?f _ = _")
proof -
  have len: "length items = length (kept es mods)" using assms(2) by (simp add: shows_rest_def)
  have "?f (i, items ! i) = Inr (kept es mods ! i)" if i: "i < length items" for i
  proof (cases "i < length (filter visible mods)")
    case True
    have "set (kept es mods) \<subseteq> set es" by (auto simp: kept_def in_set_enumerate_eq)
    moreover have "kept es mods ! i \<in> set (kept es mods)" using i len by simp
    ultimately obtain fs where fs: "kept es mods ! i = JObj fs" using assms(3) by blast
    obtain gs where gs: "items ! i = JObj gs" using assms(2) nth_mem [OF i] by (auto simp: shows_rest_def)
    have at: "Client_Values.at (kept es mods) i = JObj fs" using i len fs by (simp add: Client_Values.at_def)
    have "g (filter visible mods ! i) (items ! i) (JObj fs) = Inr fs"
      unfolding gs using assms(4) [OF nth_mem [OF True], of gs "JObj fs"] by simp
    then show ?thesis using True at fs by simp
  next
    case False
    then show ?thesis using i assms(2) by (simp add: shows_rest_def)
  qed
  then show ?thesis
    by (subst rmap_Inr_iff) (simp add: list_all2_conv_all_nth len nth_enumerate_eq)
qed

lemma nothing_moved:
  assumes "\<forall>m \<in> set ms. \<forall>f \<in> {''__aliasIndex__'', ''__aliasPci__'', ''__nicIndex__''}. js_get m f = JUndef"
  shows "take_all_moved type orig i ms ws = Inr ws"
  using assms
proof (induction ms arbitrary: i)
  case (Cons m ms)
  then have "take_moved orig i m (moved_from type) ws = Inr ws" by (auto simp: moved_from_def)
  then show ?case using Cons by simp
qed simp

section \<open>Properties\<close>


definition sample_disks :: "jsval list" where
  "sample_disks = [JObj [(''IMAGE_ID'', JStr ''1''), (''TARGET'', JStr ''vda'')], JObj [(''IMAGE_ID'', JStr ''2''), (''TARGET'', JStr ''vdb'')]]"

definition sample_nics :: "jsval list" where
  "sample_nics = [JObj [(''NETWORK'', JStr ''lan''), (''MODEL'', JStr ''virtio'')]]"

definition sample_disk_mods :: "jsval list" where
  "sample_disk_mods = [JObj [(''__delete__'', JBool True)], JObj []]"

definition sample_filter_form :: jsval where
  "sample_filter_form = JObj [(''DISK'', JArr [JObj [(''IMAGE_ID'', JStr ''2'')]]), (''NIC'', JArr [JObj [(''NETWORK'', JStr ''lan'')]])]"


text \<open>
  A field that was changed is taken from the form, in an interface and in a disk; one that was changed and is no
  longer in the form is taken out of an interface, but keeps its old value in a disk, where clearing it has no effect.
\<close>

theorem changed_fields_submitted:
  assumes "no_null changes" "distinct (map fst changes)" "distinct (map fst fs)" "(k, JBool True) \<in> set changes"
  shows "(\<exists>d. disk_item changes (JObj ((k, v) # obj_del k fs)) (JObj base) = Inr d \<and> obj_get d k = v) \<and>
    (\<exists>n. network_item changes (JObj ((k, v) # obj_del k fs)) (JObj base) = Inr n \<and> obj_get n k = v) \<and>
    (truthy (obj_get base k) \<longrightarrow>
       (\<exists>n. network_item changes (JObj (obj_del k fs)) (JObj base) = Inr n \<and> obj_get n k = JUndef) \<and>
       (\<exists>d. disk_item changes (JObj (obj_del k fs)) (JObj base) = Inr d \<and> obj_get d k = obj_get base k))"
proof -
  have c: "obj_get changes k = JBool True" by (rule obj_get_member [OF assms(2,4)])
  then have d: "disk_decision changes k = Take" "network_decision changes k = Take" by (simp_all add: disk_decision_def network_decision_def)
  have no: "k \<notin> fst ` set (obj_del k fs)" by (auto simp: obj_del_def)
  have dist: "distinct (map fst ((k, v) # obj_del k fs))"
    using assms(3) no by (simp add: obj_del_def distinct_map_filter)
  have mem: "(k, v) \<in> set ((k, v) # obj_del k fs)" by simp
  have "obj_get (cleared_base changes (JObj (obj_del k fs)) base) k = JUndef" if "truthy (obj_get base k)"
    using that by (intro drop_cleared_field [OF assms(2,4)]) (simp_all add: obj_get_del)
  then show ?thesis
    unfolding disk_item_decided [OF assms(1)] network_item_decided [OF assms(1)] sum.inject
    using obj.get_decided [OF dist mem] obj.get_other [OF no] d by (simp add: obj_get_set)
qed

theorem changed_fields_submitted_witness:
  "network_item [(''MODEL'', JBool True)] (JObj []) (JObj [(''MODEL'', JStr ''virtio'')]) = Inr [] \<and>
   disk_item [(''MODEL'', JBool True)] (JObj []) (JObj [(''MODEL'', JStr ''virtio'')]) = Inr [(''MODEL'', JStr ''virtio'')]"
proof -
  have "no_null [(''MODEL'', JBool True)]" by (simp add: no_null_def nullish_def)
  from changed_fields_submitted [OF this, of "[]" "''MODEL''" JNull "[(''MODEL'', JStr ''virtio'')]"] show ?thesis
    by (simp add: obj_get_def obj_del_def network_item_def disk_item_def drop_cleared_def nullish_def)
qed

text \<open>A change that is null makes the filter throw, for a disk and for an interface that shows the field.\<close>

lemma null_field_throws:
  assumes "obj_get changes k = JNull"
  shows "disk_item changes (JObj ((k, v) # fs)) there = Inl TypeError"
    and "\<not> truthy there \<Longrightarrow> network_item changes (JObj ((k, v) # fs)) there = Inl TypeError"
  using assms by (simp_all add: disk_item_def network_item_def apply_disk_change_def apply_change_def nullish_def)

section \<open>Other sections\<close>

text \<open>A form without disks submits no choice of a transfer manager either.\<close>

lemma storage_needs_disks:
  assumes "js_get formExtra ''DISK'' = JUndef"
  shows "handleStorage formExtra changes [''DISK'', ''TM_MAD_SYSTEM''] extra = Inr extra"
  using assms by simp

text \<open>The general section: a key without a change keeps its value, a changed one has that of the form, a marked one is gone.\<close>

lemma general_other:
  "reduce_corrections form existing cs acc = Inr r \<Longrightarrow> k \<notin> fst ` set cs \<Longrightarrow> obj_get r k = obj_get acc k"
proof (induction form existing cs acc arbitrary: r rule: reduce_corrections.induct)
  case (2 form existing key b cs acc)
  then show ?case by (auto simp: rbind_eq_Inr obj_get_set split: if_splits)
next
  case (3 form existing key fs cs acc)
  then show ?case by (auto simp: rbind_eq_Inr obj_get_set obj_get_del split: if_splits)
qed auto

lemma general_changed:
  assumes "reduce_corrections form existing cs acc = Inr r" "distinct (map fst cs)" "(k, c) \<in> set cs"
  shows "(c = JBool True \<longrightarrow> obj_get r k = js_get form k) \<and> (marked c \<and> \<not> is_array c \<longrightarrow> obj_get r k = JUndef)"
  using assms
proof (induction form existing cs acc arbitrary: r rule: reduce_corrections.induct)
  case (2 form existing key b cs acc)
  have other: "obj_get r key = obj_get a key" if "reduce_corrections form existing cs a = Inr r" for a
    using general_other [OF that] "2.prems"(2) by simp
  show ?case
  proof (cases "k = key")
    case True
    then have "c = JBool b" using "2.prems"(2,3) by (auto simp: image_iff)
    then show ?thesis using True "2.prems"(1) other by (auto simp: rbind_eq_Inr obj_get_set field_def marked_def is_object_def split: if_splits)
  next
    case False
    then show ?thesis using 2 by (auto simp: rbind_eq_Inr split: if_splits)
  qed
next
  case (3 form existing key fs cs acc)
  have other: "obj_get r key = obj_get a key" if "reduce_corrections form existing cs a = Inr r" for a
    using general_other [OF that] "3.prems"(2) by simp
  show ?case
  proof (cases "k = key")
    case True
    then have "c = JObj fs" using "3.prems"(2,3) by (auto simp: image_iff)
    then show ?thesis using True "3.prems"(1) other by (auto simp: rbind_eq_Inr obj_get_del marked_def is_object_def split: if_splits)
  next
    case False
    then show ?thesis using 3 by (auto simp: rbind_eq_Inr split: if_splits)
  qed
qed (auto simp: marked_def is_object_def is_array_def)

text \<open>Numbers of the extra section are dropped, where a number counts as empty.\<close>

lemma numbers_dropped:
  assumes "isEmpty (JNum n)" "k \<noteq> ''MEMORY_ENCRYPTION''" "distinct (map fst extra)" "(k, JNum n) \<in> set extra"
  shows "obj_get (clean_extra isEmpty formExtra changes extra) k = JUndef"
proof -
  let ?P = "\<lambda>(k, v). k = ''MEMORY_ENCRYPTION'' \<and> truthy (prop_get v ''TYPE'') \<or> \<not> isEmpty v"
  have gone: "obj_get (filter ?P e) k = JUndef" if e: "set e \<subseteq> set extra" for e
  proof (rule obj_get_missing)
    have "v = JNum n" if "(k, v) \<in> set e" for v using e that eq_key_imp_eq_value [OF assms(3) assms(4)] by blast
    then show "k \<notin> fst ` set (filter ?P e)" using assms(1,2) by auto
  qed
  have sub: "set (if b then obj_del ''MEMORY_ENCRYPTION'' extra else extra) \<subseteq> set extra" for b by (auto simp: obj_del_def)
  show ?thesis unfolding clean_extra_def Let_def using gone [OF sub] assms(2) by (simp add: obj_get_set obj_get_del)
qed

section \<open>User inputs in the context\<close>

lemma obj_set_has: "has_field (obj_set k v fs) k' \<longleftrightarrow> k' = k \<or> has_field fs k'"
  by (auto simp: obj_set_def has_field_def dom_update image_iff)

lemma add_input_keeps: "has_field ctx k \<Longrightarrow> has_field (add_input ctx name) k \<and> obj_get (add_input ctx name) k = obj_get ctx k"
  by (auto simp: add_input_def Let_def obj_set_has obj_get_set)

lemma add_inputs_keep: "has_field ctx k \<Longrightarrow> has_field (foldl add_input ctx names) k \<and> obj_get (foldl add_input ctx names) k = obj_get ctx k"
proof (induction names arbitrary: ctx)
  case (Cons n names)
  then show ?case using add_input_keeps [OF Cons.prems, of n] by simp
qed simp

definition refers :: "jsobj \<Rightarrow> jsobj \<Rightarrow> string \<Rightarrow> bool" where
  "refers before_ctx ctx k \<longleftrightarrow> obj_get ctx k = (if has_field before_ctx k then obj_get before_ctx k else JStr (CHR ''$'' # k))"

lemma add_inputs_refer:
  assumes "name \<in> set names" "name \<notin> set capacity_inputs"
  shows "refers ctx (foldl add_input ctx names) (to_upper name)"
  using assms(1)
proof (induction names arbitrary: ctx)
  case (Cons n names)
  let ?k = "to_upper name"
  show ?case
  proof (cases "has_field ctx ?k")
    case True
    then show ?thesis using add_inputs_keep [OF True, of "n # names"] by (simp add: refers_def)
  next
    case False
    show ?thesis
    proof (cases "has_field (add_input ctx n) ?k")
      case True
      then have "obj_get (add_input ctx n) ?k = JStr (CHR ''$'' # ?k)"
        using False by (auto simp: add_input_def Let_def obj_set_has obj_get_set split: if_splits)
      then show ?thesis using add_inputs_keep [OF True, of names] False by (simp add: refers_def)
    next
      case nope: False
      then have "n \<noteq> name" using False assms(2) by (auto simp: add_input_def Let_def obj_set_has split: if_splits)
      then show ?thesis using Cons nope False by (simp add: refers_def)
    qed
  qed
qed simp

text \<open>Every user input that is no capacity is referred to in the context, unless the context had the name.\<close>

lemma inputs_in_context:
  assumes "obj_get t ''USER_INPUTS'' = JObj inputs" "name \<in> fst ` set inputs" "name \<notin> set capacity_inputs"
  shows "refers (entries (obj_get t ''CONTEXT'')) (entries (obj_get (transformActionsCommon t) ''CONTEXT'')) (to_upper name)"
proof -
  have "obj_get (transformActionsCommon t) ''CONTEXT'' = JObj (foldl add_input (entries (obj_get t ''CONTEXT'')) (map fst inputs))"
    using assms(1) unfolding transformActionsCommon_def Let_def by (simp add: obj_get_set obj_get_del split: jsval.split)
  then show ?thesis using add_inputs_refer [of name "map fst inputs"] assms(2,3) by simp
qed

end
