(* ===== verification/Gateway.thy ===== *)
theory Gateway
  imports One_Connect Client_Values Resource_Helpers
begin

text \<open>
  What the gateways to OneKS, OneForm and OneFlow share: the routes of functions
  (\<open>server/routes/entrypoints/Api/functions.js\<close>, \<open>server/routes/api/index.js\<close>), the connection to a service
  (\<open>utils.js\<close> of each of them), \<open>addPrintf\<close> of \<open>server/utils/general.js\<close> and \<open>parsePostData\<close> of
  \<open>server/utils/server.js\<close>.

  The packages axios, jsonschema and btoa are parameters.  A text is the list of its bytes, so that base 64 works
  on it directly.  What a handler does is a value: an answer, a request to the service, the call of machines of
  a service, nothing, or an exception.
\<close>

named_theorems gateway_simps \<open>the handlers of the gateways\<close>

section \<open>Placeholders\<close>

text \<open>\<open>/{(\d+)}/\<close> after its brace: the digits and the rest.\<close>

definition placeholder :: "string \<Rightarrow> (string \<times> string) option" where
  "placeholder s =
     (let ds = takeWhile is_digit s; r = dropWhile is_digit s
      in if ds \<noteq> [] \<and> r \<noteq> [] \<and> hd r = CHR ''}'' then Some (ds, tl r) else None)"

lemma placeholder_shorter: "placeholder s = Some (ds, r) \<Longrightarrow> length r < length s"
proof -
  assume a: "placeholder s = Some (ds, r)"
  then have "r = tl (dropWhile is_digit s)" and "dropWhile is_digit s \<noteq> []"
    by (auto simp: placeholder_def Let_def split: if_splits)
  moreover have "length (dropWhile is_digit s) \<le> length s" by (rule length_dropWhile_le)
  ultimately show "length r < length s" by (cases "dropWhile is_digit s") auto
qed

text \<open>\<open>replacers[number]\<close> with the digits as the name of the property: \<open>01\<close> names nothing.\<close>

definition replacer :: "jsval list \<Rightarrow> string \<Rightarrow> jsval" where
  "replacer rs ds =
     (let n = digits_val ds in if ds = to_base 10 n \<and> n < length rs then rs ! n else JUndef)"

function fill_places :: "jsval list \<Rightarrow> string \<Rightarrow> string" where
  "fill_places rs [] = []"
| "fill_places rs (c # s) =
     (if c = CHR ''{'' then
        (case placeholder s of
           Some (ds, r) \<Rightarrow>
             (case replacer rs ds of JUndef \<Rightarrow> c # ds @ ''}'' | v \<Rightarrow> to_string v) @ fill_places rs r
         | None \<Rightarrow> c # fill_places rs s)
      else c # fill_places rs s)"
  by pat_completeness auto
termination by (relation "measure (\<lambda>(rs, s). length s)") (auto dest: placeholder_shorter)

definition addPrintf :: "string \<Rightarrow> jsval \<Rightarrow> string" where
  "addPrintf string args =
     (if string \<noteq> [] \<and> truthy args then fill_places (case args of JArr xs \<Rightarrow> xs | _ \<Rightarrow> [args]) string else string)"

text \<open>A path as its author sees it: texts and holes.\<close>

datatype path_part = Text string | Hole nat

fun part_pattern :: "path_part \<Rightarrow> string" where
  "part_pattern (Text t) = t"
| "part_pattern (Hole n) = ''{'' @ to_base 10 n @ ''}''"

fun part_value :: "jsval list \<Rightarrow> path_part \<Rightarrow> string" where
  "part_value rs (Text t) = t"
| "part_value rs (Hole n) = to_string (rs ! n)"

fun part_ok :: "jsval list \<Rightarrow> path_part \<Rightarrow> bool" where
  "part_ok rs (Text t) = (CHR ''{'' \<notin> set t)"
| "part_ok rs (Hole n) = (n < length rs \<and> rs ! n \<noteq> JUndef)"

lemma fill_text: "CHR ''{'' \<notin> set t \<Longrightarrow> fill_places rs (t @ s) = t @ fill_places rs s"
  by (induction t) auto

lemma placeholder_number: "placeholder (to_base 10 n @ ''}'' @ s) = Some (to_base 10 n, s)"
proof -
  have all: "\<forall>c \<in> set (to_base 10 n). is_digit c" by (simp add: to_base10_digits)
  have "takeWhile is_digit (to_base 10 n @ ''}'' @ s) = to_base 10 n"
    "dropWhile is_digit (to_base 10 n @ ''}'' @ s) = ''}'' @ s"
    using all by (simp_all add: takeWhile_append2 dropWhile_append2 is_digit_def)
  then show ?thesis by (simp add: placeholder_def)
qed

lemma replacer_number: "n < length rs \<Longrightarrow> replacer rs (to_base 10 n) = rs ! n"
  by (simp add: replacer_def digits_val_to_base)

lemma fill_hole:
  assumes "n < length rs" and "rs ! n \<noteq> JUndef"
  shows "fill_places rs (part_pattern (Hole n) @ s) = to_string (rs ! n) @ fill_places rs s"
  using assms placeholder_number [of n s]
  by (simp add: replacer_number split: jsval.split)

lemma fill_parts:
  "list_all (part_ok rs) ps \<Longrightarrow>
   fill_places rs (concat (map part_pattern ps)) = concat (map (part_value rs) ps)"
proof (induction ps)
  case Nil
  show ?case by simp
next
  case (Cons p ps)
  then show ?case
    by (cases p) (simp_all add: fill_text fill_hole del: part_pattern.simps(2))
qed

section \<open>Base 64\<close>

definition b64_char :: "nat \<Rightarrow> char" where
  "b64_char n =
     (if n < 26 then char_of (65 + n) else if n < 52 then char_of (71 + n) else if n < 62 then char_of (n - 4)
      else if n = 62 then CHR ''+'' else CHR ''/'')"

definition b64_val :: "char \<Rightarrow> nat option" where
  "b64_val c =
     (let n = of_char c :: nat
      in if 65 \<le> n \<and> n \<le> 90 then Some (n - 65) else if 97 \<le> n \<and> n \<le> 122 then Some (n - 71)
         else if 48 \<le> n \<and> n \<le> 57 then Some (n + 4) else if n = 43 then Some 62 else if n = 47 then Some 63 else None)"

text \<open>\<open>Buffer.from(s, 'utf-8').toString('base64')\<close>: three bytes are four characters of six bits.\<close>

definition b64_pad :: char where "b64_pad = CHR ''=''"

fun base64 :: "string \<Rightarrow> string" where
  "base64 [] = []"
| "base64 [a] = (let x = of_char a in [b64_char (x div 4), b64_char (x mod 4 * 16), b64_pad, b64_pad])"
| "base64 [a, b] =
     (let x = of_char a; y = of_char b
      in [b64_char (x div 4), b64_char (x mod 4 * 16 + y div 16), b64_char (y mod 16 * 4), b64_pad])"
| "base64 (a # b # c # r) =
     (let x = of_char a; y = of_char b; z = of_char c
      in [b64_char (x div 4), b64_char (x mod 4 * 16 + y div 16), b64_char (y mod 16 * 4 + z div 64), b64_char (z mod 64)])
     @ base64 r"

text \<open>How a server reads it.\<close>

definition b64_bytes :: "nat \<Rightarrow> nat \<Rightarrow> nat \<Rightarrow> nat \<Rightarrow> string" where
  "b64_bytes p q r s = [char_of (p * 4 + q div 16), char_of (q mod 16 * 16 + r div 4), char_of (r mod 4 * 64 + s)]"

fun base64_decode :: "string \<Rightarrow> string option" where
  "base64_decode [] = Some []"
| "base64_decode (a # b # c # d # r) =
     (case (b64_val a, b64_val b) of
        (Some p, Some q) \<Rightarrow>
          if c = b64_pad then (if d = b64_pad \<and> r = [] then Some (take 1 (b64_bytes p q 0 0)) else None)
          else (case b64_val c of
              Some u \<Rightarrow>
                if d = b64_pad then (if r = [] then Some (take 2 (b64_bytes p q u 0)) else None)
                else (case (b64_val d, base64_decode r) of
                    (Some v, Some t) \<Rightarrow> Some (b64_bytes p q u v @ t)
                  | _ \<Rightarrow> None)
            | None \<Rightarrow> None)
      | _ \<Rightarrow> None)"
| "base64_decode _ = None"

lemma b64_val_char: "n < 64 \<Longrightarrow> b64_val (b64_char n) = Some n"
  by (auto simp: b64_val_def b64_char_def Let_def)

lemma b64_char_pad: "n < 64 \<Longrightarrow> b64_char n \<noteq> b64_pad"
  using b64_val_char [of n] by (auto simp: b64_val_def b64_pad_def)

lemma byte_less: "(of_char c :: nat) < 256"
  using nat_of_char_less_256 by simp

lemma byte_parts: "(of_char c :: nat) div 4 < 64" "(of_char c :: nat) div 16 < 16" "(of_char c :: nat) div 64 < 4"
  using byte_less [of c] by (simp_all add: less_mult_imp_div_less)

lemma sextets:
  fixes x y :: nat
  shows "x mod 4 * 16 < 64" "y < 16 \<Longrightarrow> x mod 4 * 16 + y < 64" "x mod 16 * 4 < 64" "y < 4 \<Longrightarrow> x mod 16 * 4 + y < 64" "x mod 64 < 64"
proof -
  have "x mod 4 \<le> 3" "x mod 16 \<le> 15" by (simp_all add: less_Suc_eq_le [symmetric])
  then show "x mod 4 * 16 < 64" "y < 16 \<Longrightarrow> x mod 4 * 16 + y < 64" "x mod 16 * 4 < 64" "y < 4 \<Longrightarrow> x mod 16 * 4 + y < 64"
    by linarith+
qed simp

lemma b64_groups:
  fixes a b c :: char
  shows "b64_bytes (of_char a div 4) (of_char a mod 4 * 16 + of_char b div 16) (of_char b mod 16 * 4 + of_char c div 64) (of_char c mod 64) = [a, b, c]"
    "take 2 (b64_bytes (of_char a div 4) (of_char a mod 4 * 16 + of_char b div 16) (of_char b mod 16 * 4) 0) = [a, b]"
    "take 1 (b64_bytes (of_char a div 4) (of_char a mod 4 * 16) 0 0) = [a]"
  using byte_parts [of b] byte_parts [of c] by (simp_all add: b64_bytes_def)

lemmas b64_simps = Let_def b64_val_char b64_char_pad byte_parts sextets b64_groups

lemma base64_roundtrip: "base64_decode (base64 s) = Some s"
  by (induction s rule: base64.induct)
    (simp_all add: b64_simps del: One_nat_def)

section \<open>Numbers\<close>

text \<open>The texts \<open>Number\<close> reads: blanks, digits with a fraction and an exponent, \<open>Infinity\<close>, and the literals of
  other bases.\<close>

definition unsigned_part :: "string \<Rightarrow> string" where
  "unsigned_part t = (case t of c # r \<Rightarrow> if c = CHR ''-'' \<or> c = CHR ''+'' then r else t | [] \<Rightarrow> [])"

definition all_digits :: "string \<Rightarrow> bool" where
  "all_digits s \<longleftrightarrow> s \<noteq> [] \<and> list_all is_digit s"

definition decimal_text :: "string \<Rightarrow> bool" where
  "decimal_text u =
     (let i = takeWhile is_digit u; r = dropWhile is_digit u;
          dotted = (r \<noteq> [] \<and> hd r = CHR ''.'');
          f = (if dotted then takeWhile is_digit (tl r) else []);
          e = (if dotted then dropWhile is_digit (tl r) else r)
      in (i \<noteq> [] \<or> f \<noteq> []) \<and>
         (e = [] \<or> (hd e = CHR ''e'' \<or> hd e = CHR ''E'') \<and> all_digits (unsigned_part (tl e))))"

definition radix_text :: "string \<Rightarrow> bool" where
  "radix_text t =
     (case t of
        z # b # ds \<Rightarrow> z = CHR ''0'' \<and> ds \<noteq> [] \<and>
          ((b = CHR ''x'' \<or> b = CHR ''X'') \<and> list_all (\<lambda>c. hex_digit c \<noteq> None) ds \<or>
           (b = CHR ''o'' \<or> b = CHR ''O'') \<and> list_all (\<lambda>c. is_digit c \<and> digit_val c < 8) ds \<or>
           (b = CHR ''b'' \<or> b = CHR ''B'') \<and> list_all (\<lambda>c. is_digit c \<and> digit_val c < 2) ds)
      | _ \<Rightarrow> False)"

definition numeric_text :: "string \<Rightarrow> bool" where
  "numeric_text s =
     (let t = js_trim s in t = [] \<or> radix_text t \<or> unsigned_part t = ''Infinity'' \<or> decimal_text (unsigned_part t))"

text \<open>\<open>isNaN(Number(v))\<close>.  A parameter that is an object is no number and is written \<open>[object Object]\<close>; one with a field
  \<open>toString\<close> or \<open>valueOf\<close> of its own, which makes JavaScript throw, is outside the model.\<close>

fun js_isNaN :: "jsval \<Rightarrow> bool" where
  "js_isNaN JUndef = True"
| "js_isNaN JNull = False"
| "js_isNaN (JBool b) = False"
| "js_isNaN (JNum n) = False"
| "js_isNaN (JStr s) = (\<not> numeric_text s)"
| "js_isNaN (JArr xs) = (\<not> numeric_text (to_string (JArr xs)))"
| "js_isNaN (JObj fs) = True"

definition parseToNumber :: "jsval \<Rightarrow> jsval" where
  "parseToNumber validate = (case parse_int (to_string validate) of None \<Rightarrow> validate | Some n \<Rightarrow> JNum n)"

text \<open>\<open>Number.isInteger(parseInt(v, 10))\<close>.\<close>

definition integer_id :: "jsval \<Rightarrow> bool" where
  "integer_id v \<longleftrightarrow> parse_int (to_string v) \<noteq> None"

section \<open>Posted data\<close>

text \<open>The inner \<open>try\<close>: a value whose text is JSON becomes what the text says.\<close>

definition reparse :: "jsval \<Rightarrow> jsval" where
  "reparse v = (case json_parse (to_string v) of Inl _ \<Rightarrow> v | Inr w \<Rightarrow> w)"

text \<open>\<open>JSON.parse\<close> gives every value to its reviver, the parts of a value before the value.\<close>

fun revive :: "jsval \<Rightarrow> jsval" where
  "revive (JArr xs) = reparse (JArr (map revive xs))"
| "revive (JObj fs) = reparse (JObj (map (\<lambda>(k, v). (k, revive v)) fs))"
| "revive v = reparse v"

definition parse_field :: "jsval \<Rightarrow> jsval" where
  "parse_field v = (case json_parse (to_string v) of Inl _ \<Rightarrow> v | Inr w \<Rightarrow> revive w)"

definition object_entries :: "jsval \<Rightarrow> jsobj js" where
  "object_entries v =
     (case v of
        JObj fs \<Rightarrow> Inr fs
      | JArr xs \<Rightarrow> Inr (map (\<lambda>(i, x). (to_base 10 i, x)) (enumerate 0 xs))
      | JStr s \<Rightarrow> Inr (map (\<lambda>(i, c). (to_base 10 i, JStr [c])) (enumerate 0 s))
      | JUndef \<Rightarrow> Inl TypeError
      | JNull \<Rightarrow> Inl TypeError
      | _ \<Rightarrow> Inr [])"

definition parsePostData :: "jsval \<Rightarrow> jsval js" where
  "parsePostData postData =
     rbind (object_entries (if postData = JUndef then JObj [] else postData))
       (\<lambda>es. Inr (JObj (map (\<lambda>(k, v). (k, parse_field v)) es)))"

section \<open>Handlers\<close>

record user_data =
  ud_user :: string
  ud_password :: string

definition no_credentials :: "user_data \<Rightarrow> bool" where
  "no_credentials ud \<longleftrightarrow> ud_user ud = [] \<or> ud_password ud = []"

record gw_command =
  gm_path :: string
  gm_apiPath :: string
  gm_httpMethod :: string
  gm_params :: params

text \<open>The sources of a parameter.\<close>

abbreviation from_path :: param_spec where "from_path \<equiv> arg from_resource JUndef"
abbreviation from_body :: param_spec where "from_body \<equiv> arg from_postBody JUndef"
abbreviation from_url :: param_spec where "from_url \<equiv> arg from_query JUndef"

record gw_config =
  gc_method :: string
  gc_path :: string
  gc_user :: string
  gc_password :: string
  gc_request :: jsval
  gc_post :: jsval
  gc_query :: jsval

text \<open>A call of the daemon for each machine of a service: the command and the parameters after the machine.\<close>

record sched_call =
  sc_action :: string
  sc_args :: "jsval list"

datatype gw_step =
    GwAnswer http_result
  | GwSend gw_config
  | GwSched gw_config sched_call
  | GwSilent
  | GwThrow js_error

type_synonym gw_action = "user_data \<Rightarrow> jsobj \<Rightarrow> gw_step"

definition refuse :: "http_code \<Rightarrow> string \<Rightarrow> string \<Rightarrow> gw_step" where
  "refuse code data message = GwAnswer (httpResponse (Some code) (JStr data) message [])"

definition missing_credentials :: gw_step where
  "missing_credentials = refuse methodNotAllowed [] ''missing credentials''"

text \<open>\<open>Commands[Actions.NAME]\<close>: a name the actions do not have is the key \<open>undefined\<close>, both where the table is
  written and where it is read.\<close>

definition action_key :: "(string \<times> string) list \<Rightarrow> string \<Rightarrow> string" where
  "action_key actions name = the_default ''undefined'' (map_of actions name)"

text \<open>Using the fields of a command that is undefined throws.\<close>

definition with_command :: "gw_command option \<Rightarrow> (gw_command \<Rightarrow> gw_step) \<Rightarrow> gw_step" where
  "with_command command f = (case command of None \<Rightarrow> GwThrow TypeError | Some c \<Rightarrow> f c)"

definition with_post :: "jsval \<Rightarrow> (jsval \<Rightarrow> gw_step) \<Rightarrow> gw_step" where
  "with_post v f = (case parsePostData v of Inl e \<Rightarrow> GwThrow e | Inr t \<Rightarrow> f t)"

text \<open>The handlers with a \<open>try\<close> catch an exception without calling the next handler: nothing is answered.\<close>

definition in_try :: "gw_step \<Rightarrow> gw_step" where
  "in_try step = (case step of GwThrow _ \<Rightarrow> GwSilent | _ \<Rightarrow> step)"

definition request_to :: "string \<Rightarrow> string \<Rightarrow> user_data \<Rightarrow> gw_config" where
  "request_to verb path ud =
     \<lparr>gc_method = verb, gc_path = path, gc_user = ud_user ud, gc_password = ud_password ud,
      gc_request = JUndef, gc_post = JUndef, gc_query = JUndef\<rparr>"

text \<open>The body of a change of owner: the group is left out when it is falsy.\<close>

definition owner_post :: "jsobj \<Rightarrow> jsval" where
  "owner_post ps =
     JObj ((''owner_id'', obj_get ps ''owner_id'') #
       (if truthy (obj_get ps ''group_id'') then [(''group_id'', obj_get ps ''group_id'')] else []))"

section \<open>Schemas\<close>

text \<open>The result of a validator, given the schemas added to it, the value and the schema of the value.\<close>

record validation =
  vl_valid :: bool
  vl_errors :: "jsval list"

type_synonym validator = "(string \<times> jsval) list \<Rightarrow> jsval \<Rightarrow> jsval \<Rightarrow> validation"

definition returnSchemaError :: "jsval list \<Rightarrow> string" where
  "returnSchemaError error =
     js_join '','' (map (\<lambda>element. if truthy (prop_get element ''stack'') then to_string (prop_get element ''stack'') else []) error)"

text \<open>The fields of a schema.\<close>

definition schema_field :: "string \<Rightarrow> bool \<Rightarrow> jsval" where
  "schema_field type required = JObj [(''type'', JStr type), (''required'', JBool required)]"

definition schema_any :: "bool \<Rightarrow> jsval" where
  "schema_any required = JObj [(''type'', JStr ''object''), (''required'', JBool required), (''additionalProperties'', JBool True)]"

definition invalid_schema :: "validation \<Rightarrow> jsval \<Rightarrow> gw_step" where
  "invalid_schema valSchema template =
     refuse internalServerError ''Invalid schema''
       (''Invalid schema: '' @ returnSchemaError (vl_errors valSchema) @ '', Received template: '' @ json_stringify template)"

section \<open>The connection\<close>

text \<open>What axios is given, without the status codes it accepts (200 to 399), and what it gives back: a response it
  accepted or an error.\<close>

record gw_options =
  go_method :: string
  go_baseURL :: string
  go_url :: string
  go_headers :: "(string \<times> string) list"
  go_data :: jsval
  go_params :: jsval

record axios_response =
  ar_statusText :: string
  ar_method :: string
  ar_data :: jsval

datatype axios_result = Resolved axios_response | Failed jsval

definition connection_options ::
  "string \<Rightarrow> (string \<Rightarrow> string) \<Rightarrow> (string \<times> string) list \<Rightarrow> gw_config \<Rightarrow> gw_options" where
  "connection_options baseURL encode headers cfg =
     (let optionPath = (if gc_path cfg \<noteq> [] then gc_path cfg else ''/'')
      in \<lparr>go_method = (if gc_method cfg \<noteq> [] then gc_method cfg else ''GET''),
          go_baseURL = baseURL,
          go_url = (if truthy (gc_request cfg) then addPrintf optionPath (gc_request cfg) else optionPath),
          go_headers = (''Authorization'', ''Basic '' @ encode (gc_user cfg @ '':'' @ gc_password cfg)) # headers,
          go_data = (if truthy (gc_post cfg) then gc_post cfg else JUndef),
          go_params = (if truthy (gc_query cfg) then gc_query cfg else JUndef)\<rparr>)"

text \<open>The first \<open>then\<close>: \<open>Inl\<close> goes to \<open>error\<close>, \<open>Inr\<close> to \<open>success\<close>.\<close>

definition first_request :: "jsval \<Rightarrow> jsval" where
  "first_request v = (case v of JArr (x # _) \<Rightarrow> x | JArr [] \<Rightarrow> JUndef | _ \<Rightarrow> v)"

definition connection_result :: "jsval \<Rightarrow> axios_result \<Rightarrow> jsval + jsval" where
  "connection_result request result =
     (case result of
        Failed e \<Rightarrow> Inl e
      | Resolved response \<Rightarrow>
          if ar_statusText response = [] then Inl (JObj [(''message'', JStr [])])
          else if to_upper (ar_method response) = ''DELETE'' then Inr (parseToNumber (first_request request))
          else Inr (ar_data response))"

definition success :: "jsval \<Rightarrow> http_result" where
  "success data = httpResponse (Some ok) data [] []"

definition error :: "jsval \<Rightarrow> http_result" where
  "error data =
     (let response_data = prop_get (prop_get data ''response'') ''data''
      in httpResponse (Some internalServerError)
           (js_and data (if truthy response_data then response_data else prop_get data ''message'')) [] [])"

definition connection_answer :: "(jsval \<Rightarrow> http_result) \<Rightarrow> jsval + jsval \<Rightarrow> http_result" where
  "connection_answer failed r = (case r of Inl e \<Rightarrow> failed e | Inr d \<Rightarrow> success d)"

section \<open>Routes of functions\<close>

text \<open>An endpoint: an action that the file of functions may not have, and the spread of a command that the table
  may not have.\<close>

record gw_endpoint =
  ge_path :: string
  ge_httpMethod :: string
  ge_auth :: bool
  ge_params :: params
  ge_action :: "gw_action option"

definition endpoint :: "gw_action option \<Rightarrow> gw_command option \<Rightarrow> gw_endpoint" where
  "endpoint action command =
     (case command of
        None \<Rightarrow> \<lparr>ge_path = [], ge_httpMethod = [], ge_auth = False, ge_params = [], ge_action = action\<rparr>
      | Some c \<Rightarrow> \<lparr>ge_path = gm_path c, ge_httpMethod = gm_httpMethod c, ge_auth = True, ge_params = gm_params c, ge_action = action\<rparr>)"

definition routed :: "gw_endpoint \<Rightarrow> bool" where
  "routed e \<longleftrightarrow> ge_path e \<noteq> [] \<and> validateHttpMethod (ge_httpMethod e) \<noteq> None \<and> ge_action e \<noteq> None"

definition functionsRoutes :: "gw_endpoint list \<Rightarrow> gw_endpoint list" where
  "functionsRoutes routes = filter routed routes"

text \<open>The middleware of a route: the session, the zone, and the action with the parameters its route declares.
  \<open>Inl\<close> is the answer of the middleware itself.\<close>

record fn_env =
  fe_jwt :: jwt_lib
  fe_now :: int
  fe_config :: zone_config
  fe_zones :: "zone list"

definition run_action :: "gw_endpoint \<Rightarrow> user_data \<Rightarrow> request \<Rightarrow> gw_step" where
  "run_action e ud req =
     (case ge_action e of
        None \<Rightarrow> GwSilent
      | Some action \<Rightarrow> action ud (getRequestParameters (ge_params e) (server_data_source req)))"

definition functions_handler :: "fn_env \<Rightarrow> gw_endpoint \<Rightarrow> request \<Rightarrow> globals \<Rightarrow> (reply + gw_step) \<times> globals" where
  "functions_handler env e req g =
     (case validateSession (fe_jwt env) (fe_now env) (ge_auth e) (rq_cookie req) g of
        (Rejected r, g1) \<Rightarrow> (Inl (ReplyJson r), g1)
      | (Expired, g1) \<Rightarrow> (Inl ReplyExpired, g1)
      | (Next auth, g1) \<Rightarrow>
          (case fst (getZone (fe_config env) (rq_zone req) (fe_zones env) g1) of
             None \<Rightarrow>
               (Inl (jsonResponser (Some (httpResponse (Some internalServerError) (JStr [])
                  (hc_message internalServerError @ '': Invalid Zone'') []))), g1)
           | Some z \<Rightarrow>
               (Inr (run_action e (case auth of Some a \<Rightarrow> \<lparr>ud_user = ra_user a, ud_password = ra_password a\<rparr>
                                   | None \<Rightarrow> \<lparr>ud_user = [], ud_password = []\<rparr>) req), g1)))"

section \<open>What a gateway promises\<close>

text \<open>A step a handler may take for a user: what it sends carries the credentials of the user, and it does not
  throw.\<close>

definition sends_as :: "user_data \<Rightarrow> string \<Rightarrow> gw_config \<Rightarrow> bool" where
  "sends_as ud verb c \<longleftrightarrow>
     \<not> no_credentials ud \<and> gc_user c = ud_user ud \<and> gc_password c = ud_password ud \<and> gc_method c = verb"

fun proper :: "user_data \<Rightarrow> string \<Rightarrow> gw_step \<Rightarrow> bool" where
  "proper ud verb (GwAnswer r) = (400 \<le> hr_id r)"
| "proper ud verb (GwSend c) = sends_as ud verb c"
| "proper ud verb (GwSched c s) = sends_as ud ''GET'' c"
| "proper ud verb GwSilent = no_credentials ud"
| "proper ud verb (GwThrow e) = False"

lemma proper_refuse [gateway_simps]: "400 \<le> hc_id code \<Longrightarrow> proper ud verb (refuse code d m)"
  by (simp add: refuse_def)

lemma codes_refuse [gateway_simps]: "400 \<le> hc_id methodNotAllowed" "400 \<le> hc_id internalServerError"
  by (simp_all add: methodNotAllowed_def internalServerError_def)

lemma proper_missing [gateway_simps]: "proper ud verb missing_credentials"
  by (simp add: missing_credentials_def gateway_simps)

lemma proper_schema [gateway_simps]: "proper ud verb (invalid_schema v t)"
  by (simp add: invalid_schema_def gateway_simps)

lemma object_entries_truthy: "truthy v \<Longrightarrow> \<exists>es. object_entries v = Inr es"
  by (cases v) (auto simp: object_entries_def)

lemma parsePostData_truthy: "truthy v \<Longrightarrow> \<exists>t. parsePostData v = Inr t"
  using object_entries_truthy [of v] by (auto simp: parsePostData_def)

lemma proper_with_post [gateway_simps]: "truthy v \<Longrightarrow> (\<And>t. proper ud verb (f t)) \<Longrightarrow> proper ud verb (with_post v f)"
  using parsePostData_truthy [of v] by (auto simp: with_post_def)

lemma proper_in_try [gateway_simps]: "proper ud verb step \<Longrightarrow> proper ud verb (in_try step)"
  by (cases step) (simp_all add: in_try_def)

lemma proper_request_to [gateway_simps]:
  "\<not> no_credentials ud \<Longrightarrow> sends_as ud verb (request_to verb path ud)"
  "sends_as ud verb (c\<lparr>gc_request := r\<rparr>) = sends_as ud verb c"
  "sends_as ud verb (c\<lparr>gc_post := p\<rparr>) = sends_as ud verb c"
  "sends_as ud verb (c\<lparr>gc_query := q\<rparr>) = sends_as ud verb c"
  by (simp_all add: sends_as_def request_to_def)

text \<open>The contract of a table of endpoints, and what it means for a request.\<close>

locale gateway =
  fixes endpoints :: "gw_endpoint list"
  assumes authenticated: "e \<in> set endpoints \<Longrightarrow> routed e \<Longrightarrow> ge_auth e"
    and proper_action: "e \<in> set endpoints \<Longrightarrow> routed e \<Longrightarrow> ge_action e = Some f \<Longrightarrow> proper ud (ge_httpMethod e) (f ud ps)"
begin

lemma proper_run: "e \<in> set (functionsRoutes endpoints) \<Longrightarrow> proper ud (ge_httpMethod e) (run_action e ud req)"
  by (auto simp: functionsRoutes_def run_action_def routed_def intro: proper_action split: option.split)

lemma live_session:
  assumes e: "e \<in> set (functionsRoutes endpoints)" and h: "functions_handler env e req g = (Inr step, g')"
  obtains u p where "session_valid (fe_now env) u p g" and "step = run_action e \<lparr>ud_user = u, ud_password = p\<rparr> req"
    and "proper \<lparr>ud_user = u, ud_password = p\<rparr> (ge_httpMethod e) step"
proof -
  have "ge_auth e" using e authenticated by (auto simp: functionsRoutes_def)
  with h obtain auth g1 where v: "validateSession (fe_jwt env) (fe_now env) True (rq_cookie req) g = (Next auth, g1)"
    and step: "step = run_action e (case auth of Some a \<Rightarrow> \<lparr>ud_user = ra_user a, ud_password = ra_password a\<rparr>
                                   | None \<Rightarrow> \<lparr>ud_user = [], ud_password = []\<rparr>) req"
    by (auto simp: functions_handler_def split: prod.splits session_outcome.splits option.splits)
  from v obtain a where a: "auth = Some a" "session_valid (fe_now env) (ra_user a) (ra_password a) g"
    by (rule validateSession_Next)
  show thesis
    using that [OF a(2)] step a(1) proper_run [OF e] by simp
qed

end

section \<open>What is read of posted data\<close>

definition not_json :: "string \<Rightarrow> bool" where
  "not_json s = (case json_parse s of Inl _ \<Rightarrow> True | Inr _ \<Rightarrow> False)"

text \<open>The values that are not taken for the text of other values: no text in them is JSON, nor is the text of an
  array.\<close>

fun plain :: "jsval \<Rightarrow> bool" where
  "plain (JStr s) = not_json s"
| "plain (JArr xs) = (list_all plain xs \<and> not_json (to_string (JArr xs)))"
| "plain (JObj fs) = list_all (\<lambda>(k, v). plain v) fs"
| "plain v = True"

lemma object_text_not_json: "not_json ''[object Object]''"
  by code_simp

lemma reparse_not_json: "not_json (to_string v) \<Longrightarrow> reparse v = v"
  by (simp add: not_json_def reparse_def split: sum.splits)

lemma reparse_scalar: "reparse JNull = JNull" "reparse (JBool b) = JBool b" "reparse (JNum n) = JNum n"
  using json_roundtrip [of JNull] json_roundtrip [of "JBool b"] json_roundtrip [of "JNum n"]
  by (simp_all add: reparse_def)

lemma revive_plain: "json_ok v \<Longrightarrow> plain v \<Longrightarrow> revive v = v"
proof (induction v rule: revive.induct)
  case (1 xs)
  then have "map revive xs = xs" by (auto simp: list_all_iff intro: map_idI)
  with 1 show ?case by (simp add: reparse_not_json)
next
  case (2 fs)
  have "(case p of (k, v) \<Rightarrow> (k, revive v)) = p" if "p \<in> set fs" for p
    using 2 that by (cases p) (fastforce simp: list_all_iff)
  then have "map (\<lambda>(k, v). (k, revive v)) fs = fs" by (intro map_idI) blast
  then show ?case by (simp add: reparse_not_json object_text_not_json)
qed (simp_all add: reparse_scalar reparse_not_json)

lemma parse_field_json: "json_ok v \<Longrightarrow> plain v \<Longrightarrow> parse_field (JStr (json_stringify v)) = v"
  by (simp add: parse_field_def json_roundtrip revive_plain)

lemma parse_field_object: "parse_field (JObj fs) = JObj fs"
  using object_text_not_json by (simp add: parse_field_def not_json_def split: sum.splits)

text \<open>
  C36. Posted fields arrive as they were meant: a field that holds the JSON of a value in which no text, and no array
  written as a text (its elements with commas between), is itself JSON is read as that value, and a field that is an
  object is read as it is; the names and the order of the fields stay.  The condition on arrays excludes \<open>[7]\<close>, which is
  read as 7.
\<close>

theorem posted_fields_read:
  assumes "list_all (\<lambda>(k, v). json_ok v \<and> plain v) fs"
  shows "parsePostData (JObj (map (\<lambda>(k, v). (k, JStr (json_stringify v))) fs @ map (\<lambda>(k, gs). (k, JObj gs)) os)) =
    Inr (JObj (fs @ map (\<lambda>(k, gs). (k, JObj gs)) os))"
proof -
  have "map (\<lambda>(k, v). (k, parse_field v)) (map (\<lambda>(k, v). (k, JStr (json_stringify v))) fs) = fs"
    using assms by (induction fs) (auto simp: parse_field_json)
  moreover have "map (\<lambda>(k, v). (k, parse_field v)) (map (\<lambda>(k, gs). (k, JObj gs)) os) = map (\<lambda>(k, gs). (k, JObj gs)) os"
    by (auto simp: parse_field_object)
  ultimately show ?thesis by (simp add: parsePostData_def object_entries_def del: map_map)
qed

theorem posted_fields_read_witness:
  "parsePostData (JObj [(''roles'', JStr (json_stringify (JArr [JObj [(''name'', JStr ''web''), (''cardinality'', JNum 2)]]))),
      (''networks'', JObj [(''a'', JStr ''5'')])]) =
    Inr (JObj [(''roles'', JArr [JObj [(''name'', JStr ''web''), (''cardinality'', JNum 2)]]), (''networks'', JObj [(''a'', JStr ''5'')])])"
proof -
  have "list_all (\<lambda>(k, v). json_ok v \<and> plain v) [(''roles'', JArr [JObj [(''name'', JStr ''web''), (''cardinality'', JNum 2)]])]"
    by code_simp
  from posted_fields_read [OF this, of "[(''networks'', [(''a'', JStr ''5'')])]"] show ?thesis by simp
qed

text \<open>A text that is JSON loses its type: a name of digits becomes a number, which no schema of a name accepts, and a
  list of one number becomes the number.\<close>

theorem posted_digits_become_numbers:
  "parsePostData (JObj [(''name'', JStr ''123'')]) = Inr (JObj [(''name'', JNum 123)])"
  "parsePostData (JObj [(''ids'', JArr [JStr ''7''])]) = Inr (JObj [(''ids'', JNum 7)])"
  by code_simp+

section \<open>Addresses\<close>

text \<open>
  Filling a path: for a path written as texts without braces and numbered holes, each filled by a given value,
  the address is the texts with the values in the places of the holes, nothing else is replaced, and a value that
  itself looks like a hole stays as it is.
\<close>

theorem placeholders_filled:
  assumes "list_all (part_ok rs) ps"
  shows "addPrintf (concat (map part_pattern ps)) (JArr rs) = concat (map (part_value rs) ps)"
proof (cases "concat (map part_pattern ps) = []")
  case True
  then have "\<forall>p \<in> set ps. p = Text []" by (metis UN_iff concat_eq_Nil_conv imageI list.set_map part_pattern.elims append_is_Nil_conv list.distinct(1))
  then have "concat (map (part_value rs) ps) = []" by auto
  then show ?thesis unfolding True by (simp only: addPrintf_def) simp
next
  case False
  then show ?thesis using assms by (simp add: addPrintf_def fill_parts)
qed

theorem placeholders_filled_witness:
  "addPrintf ''/clusters/{0}/nodegroups/{1}'' (JArr [JStr ''4'', JStr ''{0}'']) = ''/clusters/4/nodegroups/{0}''"
proof -
  have "to_base 10 0 = ''0''" "to_base 10 1 = ''1''" by code_simp+
  then show ?thesis
    using placeholders_filled [of "[JStr ''4'', JStr ''{0}'']" "[Text ''/clusters/'', Hole 0, Text ''/nodegroups/'', Hole 1]"]
    by (simp del: One_nat_def)
qed

section \<open>Credentials\<close>

text \<open>What a service reads from the header of a request.\<close>

definition basic_credentials :: "gw_options \<Rightarrow> string option" where
  "basic_credentials opts =
     (case map_of (go_headers opts) ''Authorization'' of
        Some h \<Rightarrow> if take 6 h = ''Basic '' then base64_decode (drop 6 h) else None
      | None \<Rightarrow> None)"

lemma credentials_read_back:
  "basic_credentials (connection_options b base64 hs cfg) = Some (gc_user cfg @ '':'' @ gc_password cfg)"
  by (simp add: basic_credentials_def connection_options_def Let_def base64_roundtrip)

end
