(* ===== verification/Oneks.thy ===== *)
theory Oneks
  imports Gateway
begin

text \<open>
  The gateway to OneKS, the service of Kubernetes clusters (\<open>server/routes/api/oneks\<close>): its table of commands, the
  schemas of what is posted, one handler for each command, the connection and the endpoints.  The shared parts are
  in \<open>Gateway\<close>.
\<close>

section \<open>Commands\<close>

definition ApiBasePath :: string where "ApiBasePath = ''/clusters''"
definition ApiBasePathNodeGroups :: string where "ApiBasePathNodeGroups = ''/nodegroups''"

definition oneks_Actions :: "(string \<times> string) list" where
  "oneks_Actions =
     [(''LIST'', ''oneks.list''), (''LIST_FAMILIES'', ''oneks.list_families''),
      (''LIST_NODEGROUP_FAMILIES'', ''oneks.list_nodegroup_families''), (''SHOW'', ''oneks.show''),
      (''SHOW_FAMILY'', ''oneks.show_families''), (''CREATE'', ''oneks.create''), (''DELETE'', ''oneks.delete''),
      (''KUBECONFIG'', ''oneks.kubeconfig''), (''ENDPOINT'', ''oneks.endpoint''),
      (''CREATE_NODEGROUP'', ''oneks.create_nodegroup''), (''UPDATE_NODEGROUP'', ''oneks.update_nodegroup''),
      (''DELETE_NODEGROUP'', ''oneks.delete_nodegroup''), (''SCALE_NODEGROUP'', ''oneks.scale_nodegroup''),
      (''LOG'', ''oneks.log''), (''RECOVER'', ''oneks.recover''), (''RECOVER_NODEGROUP'', ''oneks.recover_nodegroup''),
      (''CHMOD'', ''oneks.chmod''), (''CHOWN'', ''oneks.chown''), (''CHGRP'', ''oneks.chgrp''),
      (''UPDATE_DOCUMENT'', ''oneks.update_document''),
      (''UPGRADE_KUBERNETES_VERSION'', ''oneks.upgrade_kubernetes_version'')]"


definition oneks_LIST :: gw_command where
  "oneks_LIST = \<lparr>gm_path = ''/oneks/'', gm_apiPath = ApiBasePath, gm_httpMethod = ''GET'',
     gm_params = []\<rparr>"

definition oneks_LIST_FAMILIES :: gw_command where
  "oneks_LIST_FAMILIES = \<lparr>gm_path = ''/oneks/families'', gm_apiPath = ApiBasePath @ ''/families'', gm_httpMethod = ''GET'',
     gm_params = []\<rparr>"

definition oneks_LIST_NODEGROUP_FAMILIES :: gw_command where
  "oneks_LIST_NODEGROUP_FAMILIES = \<lparr>gm_path = ''/oneks/nodegroups/families'', gm_apiPath = ApiBasePathNodeGroups @ ''/families'', gm_httpMethod = ''GET'',
     gm_params = []\<rparr>"

definition oneks_SHOW :: gw_command where
  "oneks_SHOW = \<lparr>gm_path = ''/oneks/:id'', gm_apiPath = ApiBasePath @ ''/{0}'', gm_httpMethod = ''GET'',
     gm_params = [(''id'', from_path), (''expand'', arg from_query (JBool False))]\<rparr>"

definition oneks_SHOW_FAMILY :: gw_command where
  "oneks_SHOW_FAMILY = \<lparr>gm_path = ''/oneks/families/:name'', gm_apiPath = ApiBasePath @ ''/families/{0}'', gm_httpMethod = ''GET'',
     gm_params = [(''name'', from_path)]\<rparr>"

definition oneks_CREATE :: gw_command where
  "oneks_CREATE = \<lparr>gm_path = ''/oneks'', gm_apiPath = ApiBasePath, gm_httpMethod = ''POST'',
     gm_params = [(''template'', from_body)]\<rparr>"

definition oneks_DELETE :: gw_command where
  "oneks_DELETE = \<lparr>gm_path = ''/oneks/:id'', gm_apiPath = ApiBasePath @ ''/{0}'', gm_httpMethod = ''DELETE'',
     gm_params = [(''id'', from_path), (''force'', from_url)]\<rparr>"

definition oneks_SCALE_NODEGROUP :: gw_command where
  "oneks_SCALE_NODEGROUP = \<lparr>gm_path = ''/oneks/:id/nodegroups/:nodegroup_id/scale'', gm_apiPath = ApiBasePath @ ''/{0}/nodegroups/{1}/scale'', gm_httpMethod = ''POST'',
     gm_params = [(''id'', from_path), (''nodegroup_id'', from_path), (''template'', from_body)]\<rparr>"

definition oneks_KUBECONFIG :: gw_command where
  "oneks_KUBECONFIG = \<lparr>gm_path = ''/oneks/kubeconfig/:id'', gm_apiPath = ApiBasePath @ ''/{0}/kubeconfig'', gm_httpMethod = ''GET'',
     gm_params = [(''id'', from_path)]\<rparr>"

definition oneks_ENDPOINT :: gw_command where
  "oneks_ENDPOINT = \<lparr>gm_path = ''/oneks/endpoint/:id'', gm_apiPath = ApiBasePath @ ''/{0}/endpoint'', gm_httpMethod = ''GET'',
     gm_params = [(''id'', from_path)]\<rparr>"

definition oneks_CREATE_NODEGROUP :: gw_command where
  "oneks_CREATE_NODEGROUP = \<lparr>gm_path = ''/oneks/:id/nodegroups'', gm_apiPath = ApiBasePath @ ''/{0}/nodegroups'', gm_httpMethod = ''POST'',
     gm_params = [(''id'', from_path), (''template'', from_body)]\<rparr>"

definition oneks_UPDATE_NODEGROUP :: gw_command where
  "oneks_UPDATE_NODEGROUP = \<lparr>gm_path = ''/oneks/:id/nodegroups/:nodegroup_id'', gm_apiPath = ApiBasePath @ ''/{0}/nodegroups/{1}'', gm_httpMethod = ''PATCH'',
     gm_params = [(''id'', from_path), (''nodegroup_id'', from_path), (''template'', from_body)]\<rparr>"

definition oneks_DELETE_NODEGROUP :: gw_command where
  "oneks_DELETE_NODEGROUP = \<lparr>gm_path = ''/oneks/:id/nodegroups/:nodegroup_id'', gm_apiPath = ApiBasePath @ ''/{0}/nodegroups/{1}'', gm_httpMethod = ''DELETE'',
     gm_params = [(''id'', from_path), (''nodegroup_id'', from_path)]\<rparr>"

definition oneks_LOGS :: gw_command where
  "oneks_LOGS = \<lparr>gm_path = ''/oneks/:id/logs'', gm_apiPath = ApiBasePath @ ''/{0}/logs'', gm_httpMethod = ''GET'',
     gm_params = [(''id'', from_path)]\<rparr>"

definition oneks_RECOVER :: gw_command where
  "oneks_RECOVER = \<lparr>gm_path = ''/oneks/:id/recover'', gm_apiPath = ApiBasePath @ ''/{0}/recover'', gm_httpMethod = ''POST'',
     gm_params = [(''id'', from_path)]\<rparr>"

definition oneks_RECOVER_NODEGROUP :: gw_command where
  "oneks_RECOVER_NODEGROUP = \<lparr>gm_path = ''/oneks/:id/nodegroups/:nodegroup_id/recover'', gm_apiPath = ApiBasePath @ ''/{0}/nodegroups/{1}/recover'', gm_httpMethod = ''POST'',
     gm_params = [(''id'', from_path), (''nodegroup_id'', from_path)]\<rparr>"

definition oneks_CHMOD :: gw_command where
  "oneks_CHMOD = \<lparr>gm_path = ''/oneks/:id/chmod'', gm_apiPath = ApiBasePath @ ''/{0}/chmod'', gm_httpMethod = ''POST'',
     gm_params = [(''id'', from_path), (''octet'', from_body)]\<rparr>"

definition oneks_CHOWN :: gw_command where
  "oneks_CHOWN = \<lparr>gm_path = ''/oneks/:id/chown'', gm_apiPath = ApiBasePath @ ''/{0}/chown'', gm_httpMethod = ''POST'',
     gm_params = [(''id'', from_path), (''owner_id'', from_body), (''group_id'', from_body)]\<rparr>"

definition oneks_CHGRP :: gw_command where
  "oneks_CHGRP = \<lparr>gm_path = ''/oneks/:id/chgrp'', gm_apiPath = ApiBasePath @ ''/{0}/chgrp'', gm_httpMethod = ''POST'',
     gm_params = [(''id'', from_path), (''group_id'', from_body)]\<rparr>"

definition oneks_UPGRADE_KUBERNETES_VERSION :: gw_command where
  "oneks_UPGRADE_KUBERNETES_VERSION = \<lparr>gm_path = ''/oneks/:id/upgrade'', gm_apiPath = ApiBasePath @ ''/{0}/upgrade'', gm_httpMethod = ''POST'',
     gm_params = [(''id'', from_path), (''template'', from_body)]\<rparr>"

definition oneks_UPDATE_DOCUMENT :: gw_command where
  "oneks_UPDATE_DOCUMENT = \<lparr>gm_path = ''/oneks/:id'', gm_apiPath = ApiBasePath @ ''/{0}'', gm_httpMethod = ''PATCH'',
     gm_params = [(''id'', from_path), (''template'', from_body)]\<rparr>"

definition oneks_Commands :: "(string \<times> gw_command) list" where
  "oneks_Commands = obj_literal (map (\<lambda>(name, c). (action_key oneks_Actions name, c))
     [(''LIST'', oneks_LIST),
      (''LIST_FAMILIES'', oneks_LIST_FAMILIES),
      (''LIST_NODEGROUP_FAMILIES'', oneks_LIST_NODEGROUP_FAMILIES),
      (''SHOW'', oneks_SHOW),
      (''SHOW_FAMILY'', oneks_SHOW_FAMILY),
      (''CREATE'', oneks_CREATE),
      (''DELETE'', oneks_DELETE),
      (''SCALE_NODEGROUP'', oneks_SCALE_NODEGROUP),
      (''KUBECONFIG'', oneks_KUBECONFIG),
      (''ENDPOINT'', oneks_ENDPOINT),
      (''CREATE_NODEGROUP'', oneks_CREATE_NODEGROUP),
      (''UPDATE_NODEGROUP'', oneks_UPDATE_NODEGROUP),
      (''DELETE_NODEGROUP'', oneks_DELETE_NODEGROUP),
      (''LOGS'', oneks_LOGS),
      (''RECOVER'', oneks_RECOVER),
      (''RECOVER_NODEGROUP'', oneks_RECOVER_NODEGROUP),
      (''CHMOD'', oneks_CHMOD),
      (''CHOWN'', oneks_CHOWN),
      (''CHGRP'', oneks_CHGRP),
      (''UPGRADE_KUBERNETES_VERSION'', oneks_UPGRADE_KUBERNETES_VERSION),
      (''UPDATE_DOCUMENT'', oneks_UPDATE_DOCUMENT)])"

definition oneks_command :: "string \<Rightarrow> gw_command option" where
  "oneks_command name = map_of oneks_Commands (action_key oneks_Actions name)"


section \<open>Schemas\<close>

definition oneKsSchema :: jsval where
  "oneKsSchema = JObj [(''id'', JStr ''/Oneks''), (''type'', JStr ''object''),
     (''properties'', JObj
       [(''name'', schema_field ''string'' True), (''description'', schema_field ''string'' False),
        (''kubernetes_version'', schema_field ''string'' True), (''public_network'', schema_field ''integer'' True),
        (''private_network'', schema_field ''integer'' True),
        (''spec'', JObj [(''type'', JStr ''object''), (''required'', JBool True),
          (''properties'', JObj
            [(''name'', schema_field ''string'' True), (''description'', schema_field ''string'' False),
             (''family'', schema_field ''string'' False), (''flavour'', schema_field ''string'' True),
             (''user_inputs_values'', schema_any True)])])])]"

definition oneKsScaleNodeGroupSchema :: jsval where
  "oneKsScaleNodeGroupSchema = JObj [(''id'', JStr ''/OneKsScaleNodeGroup''), (''type'', JStr ''object''),
     (''properties'', JObj [(''target'', schema_field ''integer'' True)])]"

definition oneKsCreateNodeGroupSchema :: jsval where
  "oneKsCreateNodeGroupSchema = JObj [(''id'', JStr ''/OneKsCreateNodeGroup''), (''type'', JStr ''object''),
     (''properties'', JObj
       [(''name'', schema_field ''string'' True), (''family'', schema_field ''string'' False),
        (''flavour'', schema_field ''string'' True), (''description'', schema_field ''string'' False),
        (''user_inputs_values'', schema_any False)])]"

section \<open>Handlers\<close>

definition clusters :: gw_action where
  "clusters ud _ =
     (if no_credentials ud then missing_credentials
      else with_command (oneks_command ''LIST'') (\<lambda>c. GwSend (request_to (gm_httpMethod c) (gm_apiPath c) ud)))"

definition clustersFamilies :: gw_action where
  "clustersFamilies ud _ =
     (if no_credentials ud then missing_credentials
      else with_command (oneks_command ''LIST_FAMILIES'') (\<lambda>c. GwSend (request_to (gm_httpMethod c) (gm_apiPath c) ud)))"

definition cluster :: gw_action where
  "cluster ud ps =
     (if no_credentials ud then missing_credentials
      else if \<not> truthy (obj_get ps ''id'') then refuse methodNotAllowed [] ''missing cluster id''
      else with_command (oneks_command ''SHOW'') (\<lambda>c.
        GwSend ((request_to (gm_httpMethod c)
           (if truthy (obj_get ps ''expand'') then gm_apiPath c @ ''?expand'' else gm_apiPath c) ud)
             \<lparr>gc_request := obj_get ps ''id''\<rparr>)))"

definition clusterFamily :: gw_action where
  "clusterFamily ud ps =
     (if no_credentials ud then missing_credentials
      else if \<not> truthy (obj_get ps ''name'') then refuse methodNotAllowed [] ''missing cluster family name''
      else with_command (oneks_command ''SHOW_FAMILY'') (\<lambda>c.
        GwSend ((request_to (gm_httpMethod c) (gm_apiPath c) ud)\<lparr>gc_request := obj_get ps ''name''\<rparr>)))"

definition nodegroupFamilies :: gw_action where
  "nodegroupFamilies ud _ =
     (if no_credentials ud then missing_credentials
      else with_command (oneks_command ''LIST_NODEGROUP_FAMILIES'') (\<lambda>c.
        GwSend (request_to (gm_httpMethod c) (gm_apiPath c) ud)))"

definition create :: "validator \<Rightarrow> gw_action" where
  "create validate ud ps =
     (if no_credentials ud \<or> \<not> truthy (obj_get ps ''template'')
      then refuse methodNotAllowed ''Invalid OneKs json'' (''Invalid OneKs json: received params: '' @ json_stringify (JObj ps))
      else with_post (obj_get ps ''template'') (\<lambda>template.
        let valSchema = validate [(''/Oneks'', oneKsSchema)] template oneKsSchema
        in if \<not> vl_valid valSchema then invalid_schema valSchema template
           else in_try (with_command (oneks_command ''CREATE'') (\<lambda>c.
             GwSend ((request_to (gm_httpMethod c) (gm_apiPath c) ud)\<lparr>gc_post := obj_get ps ''template''\<rparr>)))))"

definition clusterDelete :: gw_action where
  "clusterDelete ud ps =
     (if no_credentials ud then missing_credentials
      else if \<not> truthy (obj_get ps ''id'') then refuse methodNotAllowed [] ''missing cluster id''
      else with_command (oneks_command ''DELETE'') (\<lambda>c.
        GwSend ((request_to (gm_httpMethod c)
           (if truthy (obj_get ps ''force'') then gm_apiPath c @ ''?force=true'' else gm_apiPath c) ud)
             \<lparr>gc_request := obj_get ps ''id''\<rparr>)))"

definition clusterKubeconfig :: gw_action where
  "clusterKubeconfig ud ps =
     (if no_credentials ud then missing_credentials
      else if \<not> truthy (obj_get ps ''id'') then refuse methodNotAllowed [] ''missing cluster id''
      else with_command (oneks_command ''KUBECONFIG'') (\<lambda>c.
        GwSend ((request_to (gm_httpMethod c) (gm_apiPath c) ud)\<lparr>gc_request := obj_get ps ''id''\<rparr>)))"

definition clusterEndpoint :: gw_action where
  "clusterEndpoint ud ps =
     (if no_credentials ud then missing_credentials
      else if \<not> truthy (obj_get ps ''id'') then refuse methodNotAllowed [] ''missing cluster id''
      else with_command (oneks_command ''ENDPOINT'') (\<lambda>c.
        GwSend ((request_to (gm_httpMethod c) (gm_apiPath c) ud)\<lparr>gc_request := obj_get ps ''id''\<rparr>)))"

definition updateNodeGroup :: gw_action where
  "updateNodeGroup ud ps =
     (if no_credentials ud \<or> \<not> truthy (obj_get ps ''id'') \<or> \<not> truthy (obj_get ps ''nodegroup_id'') \<or> \<not> truthy (obj_get ps ''template'')
      then refuse methodNotAllowed ''invalid cluster ID, node group ID or invalid template''
             (''invalid cluster ID, node group ID or invalid template: received params: '' @ json_stringify (JObj ps))
      else with_command (oneks_command ''UPDATE_NODEGROUP'') (\<lambda>c.
        with_post (obj_get ps ''template'') (\<lambda>template.
          GwSend ((request_to (gm_httpMethod c) (gm_apiPath c) ud)
            \<lparr>gc_request := JArr [obj_get ps ''id'', obj_get ps ''nodegroup_id''], gc_post := template\<rparr>))))"

definition createNodeGroup :: "validator \<Rightarrow> gw_action" where
  "createNodeGroup validate ud ps =
     (if no_credentials ud \<or> \<not> truthy (obj_get ps ''id'') \<or> \<not> truthy (obj_get ps ''template'')
      then refuse methodNotAllowed ''invalid cluster ID, or invalid template''
             (''invalid cluster ID, or invalid template: received params: '' @ json_stringify (JObj ps))
      else with_post (obj_get ps ''template'') (\<lambda>template.
        let valSchema = validate [(''/OneKsCreateNodeGroup'', oneKsCreateNodeGroupSchema)] template oneKsCreateNodeGroupSchema
        in if \<not> vl_valid valSchema then invalid_schema valSchema template
           else with_command (oneks_command ''CREATE_NODEGROUP'') (\<lambda>c.
             GwSend ((request_to (gm_httpMethod c) (gm_apiPath c) ud)
               \<lparr>gc_request := obj_get ps ''id'', gc_post := obj_get ps ''template''\<rparr>))))"

definition deleteNodeGroup :: gw_action where
  "deleteNodeGroup ud ps =
     (if no_credentials ud \<or> \<not> truthy (obj_get ps ''id'') \<or> \<not> truthy (obj_get ps ''nodegroup_id'')
      then refuse methodNotAllowed ''invalid cluster ID or invalid Node group ID''
             (''invalid cluster ID or invalid Node group ID: '' @ json_stringify (JObj ps))
      else with_command (oneks_command ''DELETE_NODEGROUP'') (\<lambda>c.
        GwSend ((request_to (gm_httpMethod c) (gm_apiPath c) ud)
          \<lparr>gc_request := JArr [obj_get ps ''id'', obj_get ps ''nodegroup_id'']\<rparr>)))"

definition oneksLogs :: gw_action where
  "oneksLogs ud ps =
     (if no_credentials ud then missing_credentials
      else if \<not> truthy (obj_get ps ''id'') then refuse methodNotAllowed [] ''invalid provision ID''
      else with_command (oneks_command ''LOGS'') (\<lambda>c.
        GwSend ((request_to (gm_httpMethod c) (gm_apiPath c) ud)\<lparr>gc_request := obj_get ps ''id''\<rparr>)))"

definition scaleNodeGroup :: "validator \<Rightarrow> gw_action" where
  "scaleNodeGroup validate ud ps =
     (if no_credentials ud \<or> \<not> truthy (obj_get ps ''id'') \<or> \<not> truthy (obj_get ps ''nodegroup_id'') \<or> \<not> truthy (obj_get ps ''template'')
      then refuse methodNotAllowed ''invalid cluster ID, node group ID or invalid template''
             (''invalid cluster ID, node group ID or invalid template: '' @ json_stringify (JObj ps))
      else with_post (obj_get ps ''template'') (\<lambda>template.
        let valSchema = validate [(''/OneKsScaleNodeGroup'', oneKsScaleNodeGroupSchema)] template oneKsScaleNodeGroupSchema
        in if \<not> vl_valid valSchema then invalid_schema valSchema template
           else with_command (oneks_command ''SCALE_NODEGROUP'') (\<lambda>c.
             GwSend ((request_to (gm_httpMethod c) (gm_apiPath c) ud)
               \<lparr>gc_request := JArr [obj_get ps ''id'', obj_get ps ''nodegroup_id''], gc_post := obj_get ps ''template''\<rparr>))))"

definition recover :: gw_action where
  "recover ud ps =
     (if no_credentials ud \<or> \<not> truthy (obj_get ps ''id'')
      then refuse methodNotAllowed ''invalid cluster ID'' (''invalid cluster ID: '' @ json_stringify (JObj ps))
      else with_command (oneks_command ''RECOVER'') (\<lambda>c.
        GwSend ((request_to (gm_httpMethod c) (gm_apiPath c) ud)\<lparr>gc_request := JArr [obj_get ps ''id'']\<rparr>)))"

definition recoverNodeGroup :: gw_action where
  "recoverNodeGroup ud ps =
     (if no_credentials ud \<or> \<not> truthy (obj_get ps ''id'') \<or> \<not> truthy (obj_get ps ''nodegroup_id'')
      then refuse methodNotAllowed ''invalid cluster ID or node group ID''
             (''invalid cluster ID or node group ID: '' @ json_stringify (JObj ps))
      else with_command (oneks_command ''RECOVER_NODEGROUP'') (\<lambda>c.
        GwSend ((request_to (gm_httpMethod c) (gm_apiPath c) ud)
          \<lparr>gc_request := JArr [obj_get ps ''id'', obj_get ps ''nodegroup_id'']\<rparr>)))"

definition oneksChmod :: gw_action where
  "oneksChmod ud ps =
     (if no_credentials ud \<or> \<not> truthy (obj_get ps ''id'') then refuse methodNotAllowed [] ''invalid provision ID''
      else if \<not> truthy (obj_get ps ''octet'') then refuse methodNotAllowed [] ''invalid octet''
      else with_command (oneks_command ''CHMOD'') (\<lambda>c.
        GwSend ((request_to (gm_httpMethod c) (gm_apiPath c) ud)
          \<lparr>gc_request := obj_get ps ''id'', gc_post := JObj [(''octet'', obj_get ps ''octet'')]\<rparr>)))"

definition oneksChown :: gw_action where
  "oneksChown ud ps =
     (if no_credentials ud \<or> \<not> truthy (obj_get ps ''id'') then refuse methodNotAllowed [] ''invalid provision ID''
      else if nullish (obj_get ps ''owner_id'') \<or> js_isNaN (obj_get ps ''owner_id'') then refuse methodNotAllowed [] ''invalid owner ID''
      else if obj_get ps ''group_id'' \<noteq> JNull \<and> js_isNaN (obj_get ps ''group_id'') then refuse methodNotAllowed [] ''invalid group ID''
      else with_command (oneks_command ''CHOWN'') (\<lambda>c.
        GwSend ((request_to (gm_httpMethod c) (gm_apiPath c) ud)
          \<lparr>gc_request := obj_get ps ''id'', gc_post := owner_post ps\<rparr>)))"

definition oneksChgrp :: gw_action where
  "oneksChgrp ud ps =
     (if no_credentials ud \<or> \<not> truthy (obj_get ps ''id'') then refuse methodNotAllowed [] ''invalid provision ID''
      else if nullish (obj_get ps ''group_id'') \<or> js_isNaN (obj_get ps ''group_id'') then refuse methodNotAllowed [] ''invalid group ID''
      else with_command (oneks_command ''CHGRP'') (\<lambda>c.
        GwSend ((request_to (gm_httpMethod c) (gm_apiPath c) ud)
          \<lparr>gc_request := obj_get ps ''id'', gc_post := JObj [(''group_id'', obj_get ps ''group_id'')]\<rparr>)))"

definition updateDocumentOneKs :: gw_action where
  "updateDocumentOneKs ud ps =
     (if no_credentials ud \<or> \<not> truthy (obj_get ps ''id'') \<or> \<not> truthy (obj_get ps ''template'')
      then refuse methodNotAllowed ''invalid cluster ID, node group ID or invalid template''
             (''invalid cluster ID, node group ID or invalid template: received params: '' @ json_stringify (JObj ps))
      else with_command (oneks_command ''UPDATE_DOCUMENT'') (\<lambda>c.
        GwSend ((request_to (gm_httpMethod c) (gm_apiPath c) ud)
          \<lparr>gc_request := obj_get ps ''id'', gc_post := obj_get ps ''template''\<rparr>)))"

definition upgradeKubernetesVersion :: gw_action where
  "upgradeKubernetesVersion ud ps =
     (if no_credentials ud \<or> \<not> truthy (obj_get ps ''id'') \<or> \<not> truthy (obj_get ps ''template'')
      then refuse methodNotAllowed ''invalid cluster ID, node group ID or invalid template''
             (''invalid cluster ID, node group ID or invalid template: received params: '' @ json_stringify (JObj ps))
      else with_command (oneks_command ''UPGRADE_KUBERNETES_VERSION'') (\<lambda>c.
        GwSend ((request_to (gm_httpMethod c) (gm_apiPath c) ud)
          \<lparr>gc_request := obj_get ps ''id'', gc_post := obj_get ps ''template''\<rparr>)))"

section \<open>Endpoints and connection\<close>

definition oneks_endpoints :: "validator \<Rightarrow> gw_endpoint list" where
  "oneks_endpoints validate =
     [endpoint (Some clusters) (oneks_command ''LIST''),
      endpoint (Some clustersFamilies) (oneks_command ''LIST_FAMILIES''),
      endpoint (Some nodegroupFamilies) (oneks_command ''LIST_NODEGROUP_FAMILIES''),
      endpoint (Some clusterFamily) (oneks_command ''SHOW_FAMILY''),
      endpoint (Some clusterKubeconfig) (oneks_command ''KUBECONFIG''),
      endpoint (Some clusterEndpoint) (oneks_command ''ENDPOINT''),
      endpoint (Some cluster) (oneks_command ''SHOW''),
      endpoint (Some (create validate)) (oneks_command ''CREATE''),
      endpoint (Some clusterDelete) (oneks_command ''DELETE''),
      endpoint (Some (createNodeGroup validate)) (oneks_command ''CREATE_NODEGROUP''),
      endpoint (Some updateNodeGroup) (oneks_command ''UPDATE_NODEGROUP''),
      endpoint (Some deleteNodeGroup) (oneks_command ''DELETE_NODEGROUP''),
      endpoint (Some (scaleNodeGroup validate)) (oneks_command ''SCALE_NODEGROUP''),
      endpoint (Some oneksLogs) (oneks_command ''LOGS''),
      endpoint (Some recover) (oneks_command ''RECOVER''),
      endpoint (Some recoverNodeGroup) (oneks_command ''RECOVER_NODEGROUP''),
      endpoint (Some oneksChmod) (oneks_command ''CHMOD''),
      endpoint (Some oneksChown) (oneks_command ''CHOWN''),
      endpoint (Some oneksChgrp) (oneks_command ''CHGRP''),
      endpoint (Some updateDocumentOneKs) (oneks_command ''UPDATE_DOCUMENT''),
      endpoint (Some upgradeKubernetesVersion) (oneks_command ''UPGRADE_KUBERNETES_VERSION'')]"

definition defaultOneKsServer :: string where "defaultOneKsServer = ''http://localhost:10780/api/v1''"

definition json_header :: "(string \<times> string) list" where
  "json_header = [(''Content-Type'', ''application/json'')]"

text \<open>The connection does not read \<open>query\<close>.  The first argument is the option \<open>oneks_server\<close>.\<close>

definition oneks_options :: "string \<Rightarrow> gw_config \<Rightarrow> gw_options" where
  "oneks_options server cfg =
     connection_options (if server \<noteq> [] then server else defaultOneKsServer) base64 json_header (cfg\<lparr>gc_query := JUndef\<rparr>)"

definition oneKsConnection :: "string \<Rightarrow> (gw_options \<Rightarrow> axios_result) \<Rightarrow> gw_config \<Rightarrow> jsval + jsval" where
  "oneKsConnection server axios cfg = connection_result (gc_request cfg) (axios (oneks_options server cfg))"

section \<open>The table\<close>

lemma oneks_keys:
  "action_key oneks_Actions ''LIST'' = ''oneks.list''"
  "action_key oneks_Actions ''LIST_FAMILIES'' = ''oneks.list_families''"
  "action_key oneks_Actions ''LIST_NODEGROUP_FAMILIES'' = ''oneks.list_nodegroup_families''"
  "action_key oneks_Actions ''SHOW'' = ''oneks.show''"
  "action_key oneks_Actions ''SHOW_FAMILY'' = ''oneks.show_families''"
  "action_key oneks_Actions ''CREATE'' = ''oneks.create''"
  "action_key oneks_Actions ''DELETE'' = ''oneks.delete''"
  "action_key oneks_Actions ''SCALE_NODEGROUP'' = ''oneks.scale_nodegroup''"
  "action_key oneks_Actions ''KUBECONFIG'' = ''oneks.kubeconfig''"
  "action_key oneks_Actions ''ENDPOINT'' = ''oneks.endpoint''"
  "action_key oneks_Actions ''CREATE_NODEGROUP'' = ''oneks.create_nodegroup''"
  "action_key oneks_Actions ''UPDATE_NODEGROUP'' = ''oneks.update_nodegroup''"
  "action_key oneks_Actions ''DELETE_NODEGROUP'' = ''oneks.delete_nodegroup''"
  "action_key oneks_Actions ''LOGS'' = ''undefined''"
  "action_key oneks_Actions ''RECOVER'' = ''oneks.recover''"
  "action_key oneks_Actions ''RECOVER_NODEGROUP'' = ''oneks.recover_nodegroup''"
  "action_key oneks_Actions ''CHMOD'' = ''oneks.chmod''"
  "action_key oneks_Actions ''CHOWN'' = ''oneks.chown''"
  "action_key oneks_Actions ''CHGRP'' = ''oneks.chgrp''"
  "action_key oneks_Actions ''UPGRADE_KUBERNETES_VERSION'' = ''oneks.upgrade_kubernetes_version''"
  "action_key oneks_Actions ''UPDATE_DOCUMENT'' = ''oneks.update_document''"
  by (simp_all add: action_key_def oneks_Actions_def)

lemma oneks_commands:
  "oneks_command ''LIST'' = Some oneks_LIST"
  "oneks_command ''LIST_FAMILIES'' = Some oneks_LIST_FAMILIES"
  "oneks_command ''LIST_NODEGROUP_FAMILIES'' = Some oneks_LIST_NODEGROUP_FAMILIES"
  "oneks_command ''SHOW'' = Some oneks_SHOW"
  "oneks_command ''SHOW_FAMILY'' = Some oneks_SHOW_FAMILY"
  "oneks_command ''CREATE'' = Some oneks_CREATE"
  "oneks_command ''DELETE'' = Some oneks_DELETE"
  "oneks_command ''SCALE_NODEGROUP'' = Some oneks_SCALE_NODEGROUP"
  "oneks_command ''KUBECONFIG'' = Some oneks_KUBECONFIG"
  "oneks_command ''ENDPOINT'' = Some oneks_ENDPOINT"
  "oneks_command ''CREATE_NODEGROUP'' = Some oneks_CREATE_NODEGROUP"
  "oneks_command ''UPDATE_NODEGROUP'' = Some oneks_UPDATE_NODEGROUP"
  "oneks_command ''DELETE_NODEGROUP'' = Some oneks_DELETE_NODEGROUP"
  "oneks_command ''LOGS'' = Some oneks_LOGS"
  "oneks_command ''RECOVER'' = Some oneks_RECOVER"
  "oneks_command ''RECOVER_NODEGROUP'' = Some oneks_RECOVER_NODEGROUP"
  "oneks_command ''CHMOD'' = Some oneks_CHMOD"
  "oneks_command ''CHOWN'' = Some oneks_CHOWN"
  "oneks_command ''CHGRP'' = Some oneks_CHGRP"
  "oneks_command ''UPGRADE_KUBERNETES_VERSION'' = Some oneks_UPGRADE_KUBERNETES_VERSION"
  "oneks_command ''UPDATE_DOCUMENT'' = Some oneks_UPDATE_DOCUMENT"
  by (simp_all add: oneks_command_def oneks_Commands_def map_of_obj_literal oneks_keys)

lemmas oneks_handlers =
  clusters_def clustersFamilies_def cluster_def clusterFamily_def nodegroupFamilies_def 
  create_def clusterDelete_def clusterKubeconfig_def clusterEndpoint_def updateNodeGroup_def 
  createNodeGroup_def deleteNodeGroup_def oneksLogs_def scaleNodeGroup_def recover_def 
  recoverNodeGroup_def oneksChmod_def oneksChown_def oneksChgrp_def updateDocumentOneKs_def 
  upgradeKubernetesVersion_def

lemma oneks_verbs [gateway_simps]:
  "gm_httpMethod oneks_LIST = ''GET''"
  "gm_httpMethod oneks_LIST_FAMILIES = ''GET''"
  "gm_httpMethod oneks_LIST_NODEGROUP_FAMILIES = ''GET''"
  "gm_httpMethod oneks_SHOW = ''GET''"
  "gm_httpMethod oneks_SHOW_FAMILY = ''GET''"
  "gm_httpMethod oneks_CREATE = ''POST''"
  "gm_httpMethod oneks_DELETE = ''DELETE''"
  "gm_httpMethod oneks_SCALE_NODEGROUP = ''POST''"
  "gm_httpMethod oneks_KUBECONFIG = ''GET''"
  "gm_httpMethod oneks_ENDPOINT = ''GET''"
  "gm_httpMethod oneks_CREATE_NODEGROUP = ''POST''"
  "gm_httpMethod oneks_UPDATE_NODEGROUP = ''PATCH''"
  "gm_httpMethod oneks_DELETE_NODEGROUP = ''DELETE''"
  "gm_httpMethod oneks_LOGS = ''GET''"
  "gm_httpMethod oneks_RECOVER = ''POST''"
  "gm_httpMethod oneks_RECOVER_NODEGROUP = ''POST''"
  "gm_httpMethod oneks_CHMOD = ''POST''"
  "gm_httpMethod oneks_CHOWN = ''POST''"
  "gm_httpMethod oneks_CHGRP = ''POST''"
  "gm_httpMethod oneks_UPGRADE_KUBERNETES_VERSION = ''POST''"
  "gm_httpMethod oneks_UPDATE_DOCUMENT = ''PATCH''"
  by (simp_all add: oneks_LIST_def oneks_LIST_FAMILIES_def oneks_LIST_NODEGROUP_FAMILIES_def oneks_SHOW_def oneks_SHOW_FAMILY_def oneks_CREATE_def oneks_DELETE_def oneks_SCALE_NODEGROUP_def oneks_KUBECONFIG_def oneks_ENDPOINT_def oneks_CREATE_NODEGROUP_def oneks_UPDATE_NODEGROUP_def oneks_DELETE_NODEGROUP_def oneks_LOGS_def oneks_RECOVER_def oneks_RECOVER_NODEGROUP_def oneks_CHMOD_def oneks_CHOWN_def oneks_CHGRP_def oneks_UPGRADE_KUBERNETES_VERSION_def oneks_UPDATE_DOCUMENT_def)

lemma oneks_proper [gateway_simps]:
  "proper ud ''GET'' (clusters ud ps)"
  "proper ud ''GET'' (clustersFamilies ud ps)"
  "proper ud ''GET'' (cluster ud ps)"
  "proper ud ''GET'' (clusterFamily ud ps)"
  "proper ud ''GET'' (nodegroupFamilies ud ps)"
  "proper ud ''POST'' (create validate ud ps)"
  "proper ud ''DELETE'' (clusterDelete ud ps)"
  "proper ud ''GET'' (clusterKubeconfig ud ps)"
  "proper ud ''GET'' (clusterEndpoint ud ps)"
  "proper ud ''PATCH'' (updateNodeGroup ud ps)"
  "proper ud ''POST'' (createNodeGroup validate ud ps)"
  "proper ud ''DELETE'' (deleteNodeGroup ud ps)"
  "proper ud ''GET'' (oneksLogs ud ps)"
  "proper ud ''POST'' (scaleNodeGroup validate ud ps)"
  "proper ud ''POST'' (recover ud ps)"
  "proper ud ''POST'' (recoverNodeGroup ud ps)"
  "proper ud ''POST'' (oneksChmod ud ps)"
  "proper ud ''POST'' (oneksChown ud ps)"
  "proper ud ''POST'' (oneksChgrp ud ps)"
  "proper ud ''PATCH'' (updateDocumentOneKs ud ps)"
  "proper ud ''POST'' (upgradeKubernetesVersion ud ps)"
  by (simp_all add: oneks_handlers with_command_def oneks_commands Let_def gateway_simps)

interpretation oneks: gateway "oneks_endpoints validate" for validate
proof
  fix e f ud ps
  assume e: "e \<in> set (oneks_endpoints validate)"
  show "ge_auth e" using e by (auto simp: oneks_endpoints_def endpoint_def oneks_commands)
  assume "ge_action e = Some f"
  with e show "proper ud (ge_httpMethod e) (f ud ps)"
    by (auto simp: oneks_endpoints_def endpoint_def oneks_commands gateway_simps)
qed

end
