(* ===== verification/Oneform.thy ===== *)
theory Oneform
  imports Gateway
begin

text \<open>
  The gateway to OneForm, the service of provisions (\<open>server/routes/api/oneform\<close>): drivers, providers and
  provisions, each with its table of commands and one handler for each command, the schemas of what is posted, the
  connection and the endpoints.  The shared parts are in \<open>Gateway\<close>.

  A number of nodes written as a text is decimal without a fraction or an exponent.
\<close>

section \<open>Commands\<close>

definition drivers_Actions :: "(string \<times> string) list" where
  "drivers_Actions =
     [(''LIST'', ''drivers.list''),
      (''SHOW'', ''drivers.show''),
      (''ENABLE'', ''drivers.enable''),
      (''DISABLE'', ''drivers.disable''),
      (''SYNC'', ''drivers.sync'')]"

definition drivers_LIST :: gw_command where
  "drivers_LIST = \<lparr>gm_path = ''/drivers'', gm_apiPath = [], gm_httpMethod = ''GET'',
     gm_params = []\<rparr>"

definition drivers_SHOW :: gw_command where
  "drivers_SHOW = \<lparr>gm_path = ''/drivers/:name'', gm_apiPath = [], gm_httpMethod = ''GET'',
     gm_params = [(''name'', from_path)]\<rparr>"

definition drivers_ENABLE :: gw_command where
  "drivers_ENABLE = \<lparr>gm_path = ''/drivers/:name/enable'', gm_apiPath = [], gm_httpMethod = ''POST'',
     gm_params = [(''name'', from_path)]\<rparr>"

definition drivers_DISABLE :: gw_command where
  "drivers_DISABLE = \<lparr>gm_path = ''/drivers/:name/disable'', gm_apiPath = [], gm_httpMethod = ''POST'',
     gm_params = [(''name'', from_path)]\<rparr>"

definition drivers_SYNC :: gw_command where
  "drivers_SYNC = \<lparr>gm_path = ''/drivers/sync'', gm_apiPath = [], gm_httpMethod = ''POST'',
     gm_params = []\<rparr>"

definition drivers_Commands :: "(string \<times> gw_command) list" where
  "drivers_Commands = obj_literal (map (\<lambda>(name, c). (action_key drivers_Actions name, c))
     [(''LIST'', drivers_LIST),
      (''SHOW'', drivers_SHOW),
      (''ENABLE'', drivers_ENABLE),
      (''DISABLE'', drivers_DISABLE),
      (''SYNC'', drivers_SYNC)])"

definition drivers_command :: "string \<Rightarrow> gw_command option" where
  "drivers_command name = map_of drivers_Commands (action_key drivers_Actions name)"

definition providers_Actions :: "(string \<times> string) list" where
  "providers_Actions =
     [(''LIST'', ''providers.list''),
      (''CREATE'', ''providers.create''),
      (''SHOW'', ''providers.show''),
      (''UPDATE'', ''providers.update''),
      (''DELETE'', ''providers.delete''),
      (''CHMOD'', ''providers.chmod''),
      (''CHOWN'', ''providers.chown''),
      (''CHGRP'', ''providers.chgrp'')]"

definition providers_LIST :: gw_command where
  "providers_LIST = \<lparr>gm_path = ''/providers'', gm_apiPath = [], gm_httpMethod = ''GET'',
     gm_params = []\<rparr>"

definition providers_SHOW :: gw_command where
  "providers_SHOW = \<lparr>gm_path = ''/providers/:id'', gm_apiPath = [], gm_httpMethod = ''GET'',
     gm_params = [(''id'', from_path)]\<rparr>"

definition providers_CREATE :: gw_command where
  "providers_CREATE = \<lparr>gm_path = ''/providers'', gm_apiPath = [], gm_httpMethod = ''POST'',
     gm_params = [(''template'', from_body)]\<rparr>"

definition providers_UPDATE :: gw_command where
  "providers_UPDATE = \<lparr>gm_path = ''/providers/:id'', gm_apiPath = [], gm_httpMethod = ''PATCH'',
     gm_params = [(''id'', from_path), (''template'', from_body)]\<rparr>"

definition providers_DELETE :: gw_command where
  "providers_DELETE = \<lparr>gm_path = ''/providers/:id'', gm_apiPath = [], gm_httpMethod = ''DELETE'',
     gm_params = [(''id'', from_path)]\<rparr>"

definition providers_CHMOD :: gw_command where
  "providers_CHMOD = \<lparr>gm_path = ''/providers/:id/chmod'', gm_apiPath = [], gm_httpMethod = ''POST'',
     gm_params = [(''id'', from_path), (''octet'', from_body)]\<rparr>"

definition providers_CHOWN :: gw_command where
  "providers_CHOWN = \<lparr>gm_path = ''/providers/:id/chown'', gm_apiPath = [], gm_httpMethod = ''POST'',
     gm_params = [(''id'', from_path), (''owner_id'', from_body), (''group_id'', from_body)]\<rparr>"

definition providers_CHGRP :: gw_command where
  "providers_CHGRP = \<lparr>gm_path = ''/providers/:id/chgrp'', gm_apiPath = [], gm_httpMethod = ''POST'',
     gm_params = [(''id'', from_path), (''group_id'', from_body)]\<rparr>"

definition providers_Commands :: "(string \<times> gw_command) list" where
  "providers_Commands = obj_literal (map (\<lambda>(name, c). (action_key providers_Actions name, c))
     [(''LIST'', providers_LIST),
      (''SHOW'', providers_SHOW),
      (''CREATE'', providers_CREATE),
      (''UPDATE'', providers_UPDATE),
      (''DELETE'', providers_DELETE),
      (''CHMOD'', providers_CHMOD),
      (''CHOWN'', providers_CHOWN),
      (''CHGRP'', providers_CHGRP)])"

definition providers_command :: "string \<Rightarrow> gw_command option" where
  "providers_command name = map_of providers_Commands (action_key providers_Actions name)"

definition provisions_Actions :: "(string \<times> string) list" where
  "provisions_Actions =
     [(''LIST'', ''provisions.list''),
      (''CREATE'', ''provisions.create''),
      (''SHOW'', ''provisions.show''),
      (''UPDATE'', ''provisions.update''),
      (''DELETE'', ''provisions.delete''),
      (''UNDEPLOY'', ''provisions.undeploy''),
      (''RETRY'', ''provisions.retry''),
      (''SCALE'', ''provisions.scale''),
      (''ADD_IP'', ''provisions.addIp''),
      (''REMOVE_IP'', ''provisions.removeIp''),
      (''CHMOD'', ''provisions.chmod''),
      (''CHOWN'', ''provisions.chown''),
      (''CHGRP'', ''provisions.chgrp''),
      (''LOGS'', ''provisions.logs'')]"

definition provisions_LIST :: gw_command where
  "provisions_LIST = \<lparr>gm_path = ''/provisions'', gm_apiPath = [], gm_httpMethod = ''GET'',
     gm_params = [(''extended'', arg from_query (JStr ''false''))]\<rparr>"

definition provisions_SHOW :: gw_command where
  "provisions_SHOW = \<lparr>gm_path = ''/provisions/:id'', gm_apiPath = [], gm_httpMethod = ''GET'',
     gm_params = [(''id'', from_path), (''extended'', arg from_query (JStr ''false''))]\<rparr>"

definition provisions_LOGS :: gw_command where
  "provisions_LOGS = \<lparr>gm_path = ''/provisions/:id/logs'', gm_apiPath = [], gm_httpMethod = ''GET'',
     gm_params = [(''id'', from_path), (''all'', arg from_query (JStr ''true''))]\<rparr>"

definition provisions_CREATE :: gw_command where
  "provisions_CREATE = \<lparr>gm_path = ''/provisions'', gm_apiPath = [], gm_httpMethod = ''POST'',
     gm_params = [(''template'', from_body)]\<rparr>"

definition provisions_UPDATE :: gw_command where
  "provisions_UPDATE = \<lparr>gm_path = ''/provisions/:id'', gm_apiPath = [], gm_httpMethod = ''PATCH'',
     gm_params = [(''id'', from_path), (''template'', from_body)]\<rparr>"

definition provisions_DELETE :: gw_command where
  "provisions_DELETE = \<lparr>gm_path = ''/provisions/:id'', gm_apiPath = [], gm_httpMethod = ''DELETE'',
     gm_params = [(''id'', from_path), (''force'', arg from_query (JBool False))]\<rparr>"

definition provisions_UNDEPLOY :: gw_command where
  "provisions_UNDEPLOY = \<lparr>gm_path = ''/provisions/:id/undeploy'', gm_apiPath = [], gm_httpMethod = ''POST'',
     gm_params = [(''id'', from_path), (''force'', from_body)]\<rparr>"

definition provisions_RETRY :: gw_command where
  "provisions_RETRY = \<lparr>gm_path = ''/provisions/:id/retry'', gm_apiPath = [], gm_httpMethod = ''POST'',
     gm_params = [(''id'', from_path)]\<rparr>"

definition provisions_SCALE :: gw_command where
  "provisions_SCALE = \<lparr>gm_path = ''/provisions/:id/scale'', gm_apiPath = [], gm_httpMethod = ''POST'',
     gm_params = [(''id'', from_path), (''nodes'', from_body), (''direction'', from_body)]\<rparr>"

definition provisions_ADD_IP :: gw_command where
  "provisions_ADD_IP = \<lparr>gm_path = ''/provisions/:id/add-ip'', gm_apiPath = [], gm_httpMethod = ''POST'',
     gm_params = [(''id'', from_path), (''amount'', from_body)]\<rparr>"

definition provisions_REMOVE_IP :: gw_command where
  "provisions_REMOVE_IP = \<lparr>gm_path = ''/provisions/:id/remove-ip'', gm_apiPath = [], gm_httpMethod = ''POST'',
     gm_params = [(''id'', from_path), (''ar_id'', from_body)]\<rparr>"

definition provisions_CHMOD :: gw_command where
  "provisions_CHMOD = \<lparr>gm_path = ''/provisions/:id/chmod'', gm_apiPath = [], gm_httpMethod = ''POST'',
     gm_params = [(''id'', from_path), (''octet'', from_body)]\<rparr>"

definition provisions_CHOWN :: gw_command where
  "provisions_CHOWN = \<lparr>gm_path = ''/provisions/:id/chown'', gm_apiPath = [], gm_httpMethod = ''POST'',
     gm_params = [(''id'', from_path), (''owner_id'', from_body), (''group_id'', from_body)]\<rparr>"

definition provisions_CHGRP :: gw_command where
  "provisions_CHGRP = \<lparr>gm_path = ''/provisions/:id/chgrp'', gm_apiPath = [], gm_httpMethod = ''POST'',
     gm_params = [(''id'', from_path), (''group_id'', from_body)]\<rparr>"

definition provisions_Commands :: "(string \<times> gw_command) list" where
  "provisions_Commands = obj_literal (map (\<lambda>(name, c). (action_key provisions_Actions name, c))
     [(''LIST'', provisions_LIST),
      (''SHOW'', provisions_SHOW),
      (''LOGS'', provisions_LOGS),
      (''CREATE'', provisions_CREATE),
      (''UPDATE'', provisions_UPDATE),
      (''DELETE'', provisions_DELETE),
      (''UNDEPLOY'', provisions_UNDEPLOY),
      (''RETRY'', provisions_RETRY),
      (''SCALE'', provisions_SCALE),
      (''ADD_IP'', provisions_ADD_IP),
      (''REMOVE_IP'', provisions_REMOVE_IP),
      (''CHMOD'', provisions_CHMOD),
      (''CHOWN'', provisions_CHOWN),
      (''CHGRP'', provisions_CHGRP)])"

definition provisions_command :: "string \<Rightarrow> gw_command option" where
  "provisions_command name = map_of provisions_Commands (action_key provisions_Actions name)"

section \<open>Schemas\<close>

definition providerSchema :: jsval where
  "providerSchema = JObj [(''id'', JStr ''/Provider''), (''type'', JStr ''object''),
     (''properties'', JObj
       [(''name'', schema_field ''string'' False), (''description'', schema_field ''string'' False),
        (''driver'', schema_field ''string'' True), (''connection_values'', schema_any True)])]"

definition provisionSchema :: jsval where
  "provisionSchema = JObj [(''id'', JStr ''/Provision''), (''type'', JStr ''object''),
     (''properties'', JObj
       [(''name'', schema_field ''string'' False), (''description'', schema_field ''string'' False),
        (''driver'', schema_field ''string'' True), (''deployment_type'', schema_field ''string'' True),
        (''provider_id'', schema_field ''integer'' True), (''onedeploy_tags'', schema_field ''string'' False),
        (''user_inputs_values'', schema_any True)])]"

section \<open>Drivers\<close>

definition driver :: gw_action where
  "driver ud ps =
     (if no_credentials ud then missing_credentials
      else if \<not> truthy (obj_get ps ''name'') then refuse methodNotAllowed [] ''missing driver name''
      else with_command (drivers_command ''SHOW'') (\<lambda>c.
        GwSend ((request_to (gm_httpMethod c) ''drivers/{0}'' ud)\<lparr>gc_request := obj_get ps ''name''\<rparr>)))"

definition drivers :: gw_action where
  "drivers ud _ =
     (if no_credentials ud then missing_credentials
      else with_command (drivers_command ''LIST'') (\<lambda>c.
        GwSend (request_to (gm_httpMethod c) (gm_path c) ud)))"

definition driverEnable :: gw_action where
  "driverEnable ud ps =
     (if no_credentials ud \<or> \<not> truthy (obj_get ps ''name'') then refuse methodNotAllowed [] ''invalid driver name''
      else with_command (drivers_command ''ENABLE'') (\<lambda>c.
        GwSend ((request_to (gm_httpMethod c) ''drivers/{0}/enable'' ud)\<lparr>gc_request := obj_get ps ''name''\<rparr>)))"

definition driverDisable :: gw_action where
  "driverDisable ud ps =
     (if no_credentials ud \<or> \<not> truthy (obj_get ps ''name'') then refuse methodNotAllowed [] ''invalid driver name''
      else with_command (drivers_command ''DISABLE'') (\<lambda>c.
        GwSend ((request_to (gm_httpMethod c) ''drivers/{0}/disable'' ud)\<lparr>gc_request := obj_get ps ''name''\<rparr>)))"

definition driverSync :: gw_action where
  "driverSync ud _ =
     (if no_credentials ud then missing_credentials
      else with_command (drivers_command ''SYNC'') (\<lambda>c.
        GwSend (request_to (gm_httpMethod c) (gm_path c) ud)))"

section \<open>Providers\<close>

definition provider :: gw_action where
  "provider ud ps =
     (if no_credentials ud then missing_credentials
      else if \<not> truthy (obj_get ps ''id'') then refuse methodNotAllowed [] ''invalid provider ID''
      else with_command (providers_command ''SHOW'') (\<lambda>c.
        GwSend ((request_to (gm_httpMethod c) ''providers/{0}'' ud)\<lparr>gc_request := obj_get ps ''id''\<rparr>)))"

definition providers :: gw_action where
  "providers ud _ =
     (if no_credentials ud then missing_credentials
      else with_command (providers_command ''LIST'') (\<lambda>c.
        GwSend (request_to (gm_httpMethod c) (gm_path c) ud)))"

definition providerCreate :: "validator \<Rightarrow> gw_action" where
  "providerCreate validate ud ps =
     (if no_credentials ud \<or> \<not> truthy (obj_get ps ''template'')
      then refuse methodNotAllowed ''Invalid provider json'' (''Invalid provider json: received params: '' @ json_stringify (JObj ps))
      else with_post (obj_get ps ''template'') (\<lambda>template.
        let valSchema = validate [(''/Provider'', providerSchema)] template providerSchema
        in if \<not> vl_valid valSchema then invalid_schema valSchema template
           else in_try (with_command (providers_command ''CREATE'') (\<lambda>c.
             GwSend ((request_to (gm_httpMethod c) (gm_path c) ud)\<lparr>gc_post := template\<rparr>)))))"

definition providerUpdate :: gw_action where
  "providerUpdate ud ps =
     (if no_credentials ud \<or> \<not> truthy (obj_get ps ''template'')
      then refuse methodNotAllowed ''Invalid provider json'' (''Invalid provider json: received params: '' @ json_stringify (JObj ps))
      else in_try (with_post (obj_get ps ''template'') (\<lambda>template.
        with_command (providers_command ''UPDATE'') (\<lambda>c.
          GwSend ((request_to (gm_httpMethod c) ''providers/{0}'' ud)\<lparr>gc_request := obj_get ps ''id'', gc_post := template\<rparr>)))))"

definition providerDelete :: gw_action where
  "providerDelete ud ps =
     (if no_credentials ud \<or> \<not> truthy (obj_get ps ''id'') then refuse methodNotAllowed [] ''invalid provider ID''
      else with_command (providers_command ''DELETE'') (\<lambda>c.
        GwSend ((request_to (gm_httpMethod c) ''/providers/{0}'' ud)\<lparr>gc_request := obj_get ps ''id''\<rparr>)))"

definition providerChmod :: gw_action where
  "providerChmod ud ps =
     (if no_credentials ud \<or> \<not> truthy (obj_get ps ''id'') then refuse methodNotAllowed [] ''invalid provider ID''
      else if \<not> truthy (obj_get ps ''octet'') then refuse methodNotAllowed [] ''invalid octet''
      else with_command (providers_command ''CHMOD'') (\<lambda>c.
        GwSend ((request_to (gm_httpMethod c) ''/providers/{0}/chmod'' ud)\<lparr>gc_request := obj_get ps ''id'', gc_post := JObj [(''octet'', obj_get ps ''octet'')]\<rparr>)))"

definition providerChown :: gw_action where
  "providerChown ud ps =
     (if no_credentials ud \<or> \<not> truthy (obj_get ps ''id'') then refuse methodNotAllowed [] ''invalid provider ID''
      else if nullish (obj_get ps ''owner_id'') \<or> js_isNaN (obj_get ps ''owner_id'') then refuse methodNotAllowed [] ''invalid owner ID''
      else if obj_get ps ''group_id'' \<noteq> JNull \<and> js_isNaN (obj_get ps ''group_id'') then refuse methodNotAllowed [] ''invalid group ID''
      else with_command (providers_command ''CHOWN'') (\<lambda>c.
        GwSend ((request_to (gm_httpMethod c) ''/providers/{0}/chown'' ud)\<lparr>gc_request := obj_get ps ''id'', gc_post := owner_post ps\<rparr>)))"

definition providerChgrp :: gw_action where
  "providerChgrp ud ps =
     (if no_credentials ud \<or> \<not> truthy (obj_get ps ''id'') then refuse methodNotAllowed [] ''invalid provider ID''
      else if nullish (obj_get ps ''group_id'') \<or> js_isNaN (obj_get ps ''group_id'') then refuse methodNotAllowed [] ''invalid group ID''
      else with_command (providers_command ''CHGRP'') (\<lambda>c.
        GwSend ((request_to (gm_httpMethod c) ''/providers/{0}/chgrp'' ud)\<lparr>gc_request := obj_get ps ''id'', gc_post := JObj [(''group_id'', obj_get ps ''group_id'')]\<rparr>)))"

section \<open>Provisions\<close>

definition provision :: gw_action where
  "provision ud ps =
     (if no_credentials ud then missing_credentials
      else if \<not> truthy (obj_get ps ''id'') then refuse methodNotAllowed [] ''invalid provision ID''
      else with_command (provisions_command ''SHOW'') (\<lambda>c.
        GwSend ((request_to (gm_httpMethod c) ''/provisions/{0}'' ud)\<lparr>gc_request := obj_get ps ''id''\<rparr>)))"

definition provisions :: gw_action where
  "provisions ud ps =
     (if no_credentials ud then missing_credentials
      else with_command (provisions_command ''LIST'') (\<lambda>c.
        GwSend ((request_to (gm_httpMethod c) (gm_path c) ud)\<lparr>gc_query := (if truthy (obj_get ps ''extended'') then JObj [(''include_provider'', obj_get ps ''extended'')] else JUndef)\<rparr>)))"

text \<open>The path ends in what \<open>params?.all && '?all={1}'\<close> gives, as a text.\<close>

definition logs_query :: "jsval \<Rightarrow> string" where
  "logs_query all = (if truthy all then ''?all={1}'' else to_string all)"

definition provisionLogs :: gw_action where
  "provisionLogs ud ps =
     (if no_credentials ud then missing_credentials
      else if \<not> truthy (obj_get ps ''id'') then refuse methodNotAllowed [] ''invalid provision ID''
      else with_command (provisions_command ''LOGS'') (\<lambda>c.
        GwSend ((request_to (gm_httpMethod c) (''/provisions/{0}/logs'' @ logs_query (obj_get ps ''all'')) ud)\<lparr>gc_request := JArr [obj_get ps ''id'', obj_get ps ''all'']\<rparr>)))"

definition provisionCreate :: "validator \<Rightarrow> gw_action" where
  "provisionCreate validate ud ps =
     (if no_credentials ud \<or> \<not> truthy (obj_get ps ''template'')
      then refuse methodNotAllowed ''Invalid provision json'' (''Invalid provision json: received params: '' @ json_stringify (JObj ps))
      else with_post (obj_get ps ''template'') (\<lambda>template.
        let valSchema = validate [(''/Provision'', provisionSchema)] template provisionSchema
        in if \<not> vl_valid valSchema then invalid_schema valSchema template
           else in_try (with_command (provisions_command ''CREATE'') (\<lambda>c.
             GwSend ((request_to (gm_httpMethod c) (gm_path c) ud)\<lparr>gc_post := obj_get ps ''template''\<rparr>)))))"

definition provisionUpdate :: gw_action where
  "provisionUpdate ud ps =
     (if no_credentials ud \<or> \<not> truthy (obj_get ps ''template'')
      then refuse methodNotAllowed ''Invalid provision json'' (''Invalid provision json: received params: '' @ json_stringify (JObj ps))
      else in_try (with_post (obj_get ps ''template'') (\<lambda>template.
        with_command (provisions_command ''UPDATE'') (\<lambda>c.
          GwSend ((request_to (gm_httpMethod c) ''/provisions/{0}'' ud)\<lparr>gc_request := obj_get ps ''id'', gc_post := template\<rparr>)))))"

definition force_field :: "jsobj \<Rightarrow> jsval" where
  "force_field ps = JObj (if obj_get ps ''force'' \<noteq> JUndef then [(''force'', obj_get ps ''force'')] else [])"

definition provisionDelete :: gw_action where
  "provisionDelete ud ps =
     (if no_credentials ud \<or> \<not> truthy (obj_get ps ''id'') then refuse methodNotAllowed [] ''invalid provision ID''
      else with_command (provisions_command ''DELETE'') (\<lambda>c.
        GwSend ((request_to (gm_httpMethod c) ''/provisions/{0}'' ud)\<lparr>gc_request := obj_get ps ''id'', gc_query := force_field ps\<rparr>)))"

definition provisionUndeploy :: gw_action where
  "provisionUndeploy ud ps =
     (if no_credentials ud \<or> \<not> truthy (obj_get ps ''id'') then refuse methodNotAllowed [] ''invalid provision ID''
      else with_command (provisions_command ''UNDEPLOY'') (\<lambda>c.
        GwSend ((request_to (gm_httpMethod c) ''/provisions/{0}/undeploy'' ud)\<lparr>gc_request := obj_get ps ''id'', gc_post := force_field ps\<rparr>)))"

definition provisionRetry :: gw_action where
  "provisionRetry ud ps =
     (if no_credentials ud \<or> \<not> truthy (obj_get ps ''id'') then refuse methodNotAllowed [] ''invalid provision ID''
      else with_command (provisions_command ''RETRY'') (\<lambda>c.
        GwSend ((request_to (gm_httpMethod c) ''/provisions/{0}/retry'' ud)\<lparr>gc_request := obj_get ps ''id'', gc_post := force_field ps\<rparr>)))"

definition isPositiveNumber :: "jsval \<Rightarrow> bool" where
  "isPositiveNumber nodes =
     (case nodes of
        JNum n \<Rightarrow> 0 < n
      | JStr s \<Rightarrow> (case string_number s of Some n \<Rightarrow> 0 < n | None \<Rightarrow> False)
      | _ \<Rightarrow> False)"

definition isArrayOfStrings :: "jsval \<Rightarrow> bool" where
  "isArrayOfStrings nodes = (case nodes of JArr xs \<Rightarrow> list_all (\<lambda>v. case v of JStr _ \<Rightarrow> True | _ \<Rightarrow> False) xs | _ \<Rightarrow> False)"

definition provisionScaleHost :: gw_action where
  "provisionScaleHost ud ps =
     (if no_credentials ud \<or> \<not> truthy (obj_get ps ''id'') then refuse methodNotAllowed [] ''invalid provision ID''
      else if nullish (obj_get ps ''nodes'') \<or> \<not> isPositiveNumber (obj_get ps ''nodes'') \<and> \<not> isArrayOfStrings (obj_get ps ''nodes'')
      then refuse methodNotAllowed [] (''invalid nodes '' @ to_string (obj_get ps ''nodes''))
      else if obj_get ps ''direction'' \<notin> {JStr ''up'', JStr ''down''} then refuse methodNotAllowed [] ''invalid direction''
      else with_command (provisions_command ''SCALE'') (\<lambda>c.
        GwSend ((request_to (gm_httpMethod c) ''/provisions/{0}/scale'' ud)\<lparr>gc_request := obj_get ps ''id'',
          gc_post := JObj [(''direction'', obj_get ps ''direction''), (''nodes'', obj_get ps ''nodes'')]\<rparr>)))"

definition provisionAddIp :: gw_action where
  "provisionAddIp ud ps =
     (if no_credentials ud \<or> \<not> truthy (obj_get ps ''id'') then refuse methodNotAllowed [] ''invalid provision ID''
      else if \<not> truthy (obj_get ps ''amount'') then refuse methodNotAllowed [] ''invalid amount''
      else with_command (provisions_command ''ADD_IP'') (\<lambda>c.
        GwSend ((request_to (gm_httpMethod c) ''/provisions/{0}/add-ip'' ud)\<lparr>gc_request := obj_get ps ''id'', gc_post := JObj [(''amount'', obj_get ps ''amount'')]\<rparr>)))"

definition given_fields :: "string list \<Rightarrow> jsobj \<Rightarrow> jsval" where
  "given_fields ks ps = JObj (map (\<lambda>k. (k, obj_get ps k)) (filter (\<lambda>k. truthy (obj_get ps k)) ks))"

definition provisionAddHost :: gw_action where
  "provisionAddHost ud ps =
     (if no_credentials ud \<or> \<not> truthy (obj_get ps ''id'') then refuse methodNotAllowed [] ''invalid provision ID''
      else with_command (provisions_command ''ADD_HOST'') (\<lambda>c.
        GwSend ((request_to (gm_httpMethod c) ''/provisions/{0}/add-host'' ud)\<lparr>gc_request := obj_get ps ''id'', gc_post := given_fields [''ips'', ''amount''] ps\<rparr>)))"

definition provisionRemoveHost :: gw_action where
  "provisionRemoveHost ud ps =
     (if no_credentials ud \<or> \<not> truthy (obj_get ps ''id'') then refuse methodNotAllowed [] ''invalid provision ID''
      else with_command (provisions_command ''REMOVE_HOST'') (\<lambda>c.
        GwSend ((request_to (gm_httpMethod c) ''/provisions/{0}/remove-host'' ud)\<lparr>gc_request := obj_get ps ''id'', gc_post := given_fields [''ids'', ''amount''] ps\<rparr>)))"

definition provisionRemoveIp :: gw_action where
  "provisionRemoveIp ud ps =
     (if no_credentials ud \<or> \<not> truthy (obj_get ps ''id'') then refuse methodNotAllowed [] ''invalid provision ID''
      else if \<not> truthy (obj_get ps ''ar_id'') then refuse methodNotAllowed [] ''invalid address range ID''
      else with_command (provisions_command ''REMOVE_IP'') (\<lambda>c.
        GwSend ((request_to (gm_httpMethod c) ''/provisions/{0}/remove-ip'' ud)\<lparr>gc_request := obj_get ps ''id'', gc_post := JObj [(''ar_id'', obj_get ps ''ar_id'')]\<rparr>)))"

definition provisionChmod :: gw_action where
  "provisionChmod ud ps =
     (if no_credentials ud \<or> \<not> truthy (obj_get ps ''id'') then refuse methodNotAllowed [] ''invalid provision ID''
      else if \<not> truthy (obj_get ps ''octet'') then refuse methodNotAllowed [] ''invalid octet''
      else with_command (provisions_command ''CHMOD'') (\<lambda>c.
        GwSend ((request_to (gm_httpMethod c) ''/provisions/{0}/chmod'' ud)\<lparr>gc_request := obj_get ps ''id'', gc_post := JObj [(''octet'', obj_get ps ''octet'')]\<rparr>)))"

definition provisionChown :: gw_action where
  "provisionChown ud ps =
     (if no_credentials ud \<or> \<not> truthy (obj_get ps ''id'') then refuse methodNotAllowed [] ''invalid provision ID''
      else if nullish (obj_get ps ''owner_id'') \<or> js_isNaN (obj_get ps ''owner_id'') then refuse methodNotAllowed [] ''invalid owner ID''
      else if obj_get ps ''group_id'' \<noteq> JNull \<and> js_isNaN (obj_get ps ''group_id'') then refuse methodNotAllowed [] ''invalid group ID''
      else with_command (provisions_command ''CHOWN'') (\<lambda>c.
        GwSend ((request_to (gm_httpMethod c) ''/provisions/{0}/chown'' ud)\<lparr>gc_request := obj_get ps ''id'', gc_post := owner_post ps\<rparr>)))"

definition provisionChgrp :: gw_action where
  "provisionChgrp ud ps =
     (if no_credentials ud \<or> \<not> truthy (obj_get ps ''id'') then refuse methodNotAllowed [] ''invalid provision ID''
      else if nullish (obj_get ps ''group_id'') \<or> js_isNaN (obj_get ps ''group_id'') then refuse methodNotAllowed [] ''invalid group ID''
      else with_command (provisions_command ''CHGRP'') (\<lambda>c.
        GwSend ((request_to (gm_httpMethod c) ''/provisions/{0}/chgrp'' ud)\<lparr>gc_request := obj_get ps ''id'', gc_post := JObj [(''group_id'', obj_get ps ''group_id'')]\<rparr>)))"

section \<open>Endpoints and connection\<close>

definition driverEndpoints :: "gw_endpoint list" where
  "driverEndpoints =
     [endpoint (Some drivers) (drivers_command ''LIST''),
      endpoint (Some driver) (drivers_command ''SHOW''),
      endpoint (Some driverEnable) (drivers_command ''ENABLE''),
      endpoint (Some driverDisable) (drivers_command ''DISABLE''),
      endpoint (Some driverSync) (drivers_command ''SYNC'')]"

definition providerEndpoints :: "validator \<Rightarrow> gw_endpoint list" where
  "providerEndpoints validate =
     [endpoint (Some providers) (providers_command ''LIST''),
      endpoint (Some provider) (providers_command ''SHOW''),
      endpoint (Some (providerCreate validate)) (providers_command ''CREATE''),
      endpoint (Some providerUpdate) (providers_command ''UPDATE''),
      endpoint (Some providerDelete) (providers_command ''DELETE''),
      endpoint (Some providerChmod) (providers_command ''CHMOD''),
      endpoint (Some providerChown) (providers_command ''CHOWN''),
      endpoint (Some providerChgrp) (providers_command ''CHGRP'')]"

text \<open>The functions have no \<open>provisionRecover\<close>.\<close>

definition provisionEndpoints :: "validator \<Rightarrow> gw_endpoint list" where
  "provisionEndpoints validate =
     [endpoint (Some provisions) (provisions_command ''LIST''),
      endpoint (Some provision) (provisions_command ''SHOW''),
      endpoint (Some provisionLogs) (provisions_command ''LOGS''),
      endpoint (Some (provisionCreate validate)) (provisions_command ''CREATE''),
      endpoint (Some provisionUpdate) (provisions_command ''UPDATE''),
      endpoint (Some provisionDelete) (provisions_command ''DELETE''),
      endpoint (Some provisionUndeploy) (provisions_command ''UNDEPLOY''),
      endpoint None (provisions_command ''RECOVER''),
      endpoint (Some provisionRetry) (provisions_command ''RETRY''),
      endpoint (Some provisionScaleHost) (provisions_command ''SCALE''),
      endpoint (Some provisionAddIp) (provisions_command ''ADD_IP''),
      endpoint (Some provisionAddHost) (provisions_command ''ADD_HOST''),
      endpoint (Some provisionRemoveIp) (provisions_command ''REMOVE_IP''),
      endpoint (Some provisionRemoveHost) (provisions_command ''REMOVE_HOST''),
      endpoint (Some provisionChmod) (provisions_command ''CHMOD''),
      endpoint (Some provisionChown) (provisions_command ''CHOWN''),
      endpoint (Some provisionChgrp) (provisions_command ''CHGRP'')]"

definition oneform_endpoints :: "validator \<Rightarrow> gw_endpoint list" where
  "oneform_endpoints validate = driverEndpoints @ providerEndpoints validate @ provisionEndpoints validate"

definition defaultOneFormServer :: string where "defaultOneFormServer = ''http://localhost:13013''"

definition oneform_options :: "string \<Rightarrow> gw_config \<Rightarrow> gw_options" where
  "oneform_options server cfg =
     connection_options (if server \<noteq> [] then server else defaultOneFormServer) base64
       [(''Content-Type'', ''application/json'')] cfg"

definition oneFormConnection :: "string \<Rightarrow> (gw_options \<Rightarrow> axios_result) \<Rightarrow> gw_config \<Rightarrow> jsval + jsval" where
  "oneFormConnection server axios cfg = connection_result (gc_request cfg) (axios (oneform_options server cfg))"

section \<open>The tables\<close>

lemma drivers_commands:
  "drivers_command ''LIST'' = Some drivers_LIST"
  "drivers_command ''SHOW'' = Some drivers_SHOW"
  "drivers_command ''ENABLE'' = Some drivers_ENABLE"
  "drivers_command ''DISABLE'' = Some drivers_DISABLE"
  "drivers_command ''SYNC'' = Some drivers_SYNC"
  by (simp_all add: drivers_command_def drivers_Commands_def map_of_obj_literal action_key_def drivers_Actions_def)

lemma drivers_verbs [gateway_simps]:
  "gm_httpMethod drivers_LIST = ''GET''"
  "gm_httpMethod drivers_SHOW = ''GET''"
  "gm_httpMethod drivers_ENABLE = ''POST''"
  "gm_httpMethod drivers_DISABLE = ''POST''"
  "gm_httpMethod drivers_SYNC = ''POST''"
  by (simp_all add: drivers_LIST_def drivers_SHOW_def drivers_ENABLE_def drivers_DISABLE_def drivers_SYNC_def)

lemma providers_commands:
  "providers_command ''LIST'' = Some providers_LIST"
  "providers_command ''SHOW'' = Some providers_SHOW"
  "providers_command ''CREATE'' = Some providers_CREATE"
  "providers_command ''UPDATE'' = Some providers_UPDATE"
  "providers_command ''DELETE'' = Some providers_DELETE"
  "providers_command ''CHMOD'' = Some providers_CHMOD"
  "providers_command ''CHOWN'' = Some providers_CHOWN"
  "providers_command ''CHGRP'' = Some providers_CHGRP"
  by (simp_all add: providers_command_def providers_Commands_def map_of_obj_literal action_key_def providers_Actions_def)

lemma providers_verbs [gateway_simps]:
  "gm_httpMethod providers_LIST = ''GET''"
  "gm_httpMethod providers_SHOW = ''GET''"
  "gm_httpMethod providers_CREATE = ''POST''"
  "gm_httpMethod providers_UPDATE = ''PATCH''"
  "gm_httpMethod providers_DELETE = ''DELETE''"
  "gm_httpMethod providers_CHMOD = ''POST''"
  "gm_httpMethod providers_CHOWN = ''POST''"
  "gm_httpMethod providers_CHGRP = ''POST''"
  by (simp_all add: providers_LIST_def providers_SHOW_def providers_CREATE_def providers_UPDATE_def providers_DELETE_def providers_CHMOD_def providers_CHOWN_def providers_CHGRP_def)

lemma provisions_commands:
  "provisions_command ''LIST'' = Some provisions_LIST"
  "provisions_command ''SHOW'' = Some provisions_SHOW"
  "provisions_command ''LOGS'' = Some provisions_LOGS"
  "provisions_command ''CREATE'' = Some provisions_CREATE"
  "provisions_command ''UPDATE'' = Some provisions_UPDATE"
  "provisions_command ''DELETE'' = Some provisions_DELETE"
  "provisions_command ''UNDEPLOY'' = Some provisions_UNDEPLOY"
  "provisions_command ''RETRY'' = Some provisions_RETRY"
  "provisions_command ''SCALE'' = Some provisions_SCALE"
  "provisions_command ''ADD_IP'' = Some provisions_ADD_IP"
  "provisions_command ''REMOVE_IP'' = Some provisions_REMOVE_IP"
  "provisions_command ''CHMOD'' = Some provisions_CHMOD"
  "provisions_command ''CHOWN'' = Some provisions_CHOWN"
  "provisions_command ''CHGRP'' = Some provisions_CHGRP"
  "provisions_command ''RECOVER'' = None"
  "provisions_command ''ADD_HOST'' = None"
  "provisions_command ''REMOVE_HOST'' = None"
  by (simp_all add: provisions_command_def provisions_Commands_def map_of_obj_literal action_key_def provisions_Actions_def)

lemma provisions_verbs [gateway_simps]:
  "gm_httpMethod provisions_LIST = ''GET''"
  "gm_httpMethod provisions_SHOW = ''GET''"
  "gm_httpMethod provisions_LOGS = ''GET''"
  "gm_httpMethod provisions_CREATE = ''POST''"
  "gm_httpMethod provisions_UPDATE = ''PATCH''"
  "gm_httpMethod provisions_DELETE = ''DELETE''"
  "gm_httpMethod provisions_UNDEPLOY = ''POST''"
  "gm_httpMethod provisions_RETRY = ''POST''"
  "gm_httpMethod provisions_SCALE = ''POST''"
  "gm_httpMethod provisions_ADD_IP = ''POST''"
  "gm_httpMethod provisions_REMOVE_IP = ''POST''"
  "gm_httpMethod provisions_CHMOD = ''POST''"
  "gm_httpMethod provisions_CHOWN = ''POST''"
  "gm_httpMethod provisions_CHGRP = ''POST''"
  by (simp_all add: provisions_LIST_def provisions_SHOW_def provisions_LOGS_def provisions_CREATE_def provisions_UPDATE_def provisions_DELETE_def provisions_UNDEPLOY_def provisions_RETRY_def provisions_SCALE_def provisions_ADD_IP_def provisions_REMOVE_IP_def provisions_CHMOD_def provisions_CHOWN_def provisions_CHGRP_def)

lemmas oneform_commands = drivers_commands providers_commands provisions_commands

lemmas oneform_handlers =
  drivers_def driver_def driverEnable_def driverDisable_def driverSync_def 
  providers_def provider_def providerCreate_def providerUpdate_def providerDelete_def 
  providerChmod_def providerChown_def providerChgrp_def provisions_def provision_def 
  provisionLogs_def provisionCreate_def provisionUpdate_def provisionDelete_def provisionUndeploy_def 
  provisionRetry_def provisionScaleHost_def provisionAddIp_def provisionAddHost_def provisionRemoveIp_def 
  provisionRemoveHost_def provisionChmod_def provisionChown_def provisionChgrp_def

lemma oneform_proper [gateway_simps]:
  "proper ud ''GET'' (drivers ud ps)"
  "proper ud ''GET'' (driver ud ps)"
  "proper ud ''POST'' (driverEnable ud ps)"
  "proper ud ''POST'' (driverDisable ud ps)"
  "proper ud ''POST'' (driverSync ud ps)"
  "proper ud ''GET'' (providers ud ps)"
  "proper ud ''GET'' (provider ud ps)"
  "proper ud ''POST'' (providerCreate validate ud ps)"
  "proper ud ''PATCH'' (providerUpdate ud ps)"
  "proper ud ''DELETE'' (providerDelete ud ps)"
  "proper ud ''POST'' (providerChmod ud ps)"
  "proper ud ''POST'' (providerChown ud ps)"
  "proper ud ''POST'' (providerChgrp ud ps)"
  "proper ud ''GET'' (provisions ud ps)"
  "proper ud ''GET'' (provision ud ps)"
  "proper ud ''GET'' (provisionLogs ud ps)"
  "proper ud ''POST'' (provisionCreate validate ud ps)"
  "proper ud ''PATCH'' (provisionUpdate ud ps)"
  "proper ud ''DELETE'' (provisionDelete ud ps)"
  "proper ud ''POST'' (provisionUndeploy ud ps)"
  "proper ud ''POST'' (provisionRetry ud ps)"
  "proper ud ''POST'' (provisionScaleHost ud ps)"
  "proper ud ''POST'' (provisionAddIp ud ps)"
  "proper ud ''POST'' (provisionRemoveIp ud ps)"
  "proper ud ''POST'' (provisionChmod ud ps)"
  "proper ud ''POST'' (provisionChown ud ps)"
  "proper ud ''POST'' (provisionChgrp ud ps)"
  by (simp_all add: oneform_handlers with_command_def oneform_commands Let_def gateway_simps)

lemma oneform_unrouted:
  "\<not> routed (endpoint f (provisions_command ''RECOVER''))" "\<not> routed (endpoint f (provisions_command ''ADD_HOST''))"
  "\<not> routed (endpoint f (provisions_command ''REMOVE_HOST''))"
  by (simp_all add: oneform_commands endpoint_def routed_def)

interpretation oneform: gateway "oneform_endpoints validate" for validate
proof
  fix e f ud ps
  assume e: "e \<in> set (oneform_endpoints validate)" and r: "routed e"
  show "ge_auth e" using e r
    by (auto simp: oneform_endpoints_def driverEndpoints_def providerEndpoints_def provisionEndpoints_def oneform_unrouted)
      (simp_all add: endpoint_def oneform_commands)
  assume "ge_action e = Some f"
  with e r show "proper ud (ge_httpMethod e) (f ud ps)"
    by (auto simp: oneform_endpoints_def driverEndpoints_def providerEndpoints_def provisionEndpoints_def oneform_unrouted)
      (auto simp: endpoint_def oneform_commands gateway_simps)
qed

end
