(* ===== verification/Oneflow.thy ===== *)
theory Oneflow
  imports Gateway Auth
begin

text \<open>
  The gateway to OneFlow, the service of groups of virtual machines (\<open>server/routes/api/oneflow\<close>): services and
  templates of services, with their commands, schemas, handlers, connection and endpoints.  The shared parts are in
  \<open>Gateway\<close>.

  Actions with a schedule go to the daemon, one call for each machine of the service.  The calls run concurrently:
  their callbacks are a list of events, each with the position of its machine and the two arguments of the callback,
  in the order in which they come.
\<close>

section \<open>Commands\<close>

definition service_SHOW :: gw_command where
  "service_SHOW = \<lparr>gm_path = ''/service/:id?'', gm_apiPath = [], gm_httpMethod = ''GET'',
     gm_params = [(''id'', from_path)]\<rparr>"

definition service_ADD_ACTION :: gw_command where
  "service_ADD_ACTION = \<lparr>gm_path = ''/service/action/:id'', gm_apiPath = [], gm_httpMethod = ''POST'',
     gm_params = [(''id'', from_path), (''action'', from_body)]\<rparr>"

definition service_ADD_SCALE :: gw_command where
  "service_ADD_SCALE = \<lparr>gm_path = ''/service/:id/scale'', gm_apiPath = [], gm_httpMethod = ''POST'',
     gm_params = [(''id'', from_path), (''action'', from_body)]\<rparr>"

definition service_ADD_ROLE :: gw_command where
  "service_ADD_ROLE = \<lparr>gm_path = ''/service/:id/role_action'', gm_apiPath = [], gm_httpMethod = ''POST'',
     gm_params = [(''id'', from_path), (''action'', from_body)]\<rparr>"

definition service_ADD_ROLEACTION :: gw_command where
  "service_ADD_ROLEACTION = \<lparr>gm_path = ''/service/:id/role/:role/action'', gm_apiPath = [], gm_httpMethod = ''POST'',
     gm_params = [(''id'', from_path), (''role'', from_path), (''action'', from_body)]\<rparr>"

definition service_ADD_SCHEDACTION :: gw_command where
  "service_ADD_SCHEDACTION = \<lparr>gm_path = ''/service/sched_action/:id'', gm_apiPath = [], gm_httpMethod = ''POST'',
     gm_params = [(''id'', from_path), (''sched_action'', from_body)]\<rparr>"

definition service_UPDATE_SCHEDACTION :: gw_command where
  "service_UPDATE_SCHEDACTION = \<lparr>gm_path = ''/service/sched_action/:id/:id_sched'', gm_apiPath = [], gm_httpMethod = ''PUT'',
     gm_params = [(''id'', from_path), (''id_sched'', from_path), (''sched_action'', from_body)]\<rparr>"

definition service_DELETE_SCHEDACTION :: gw_command where
  "service_DELETE_SCHEDACTION = \<lparr>gm_path = ''/service/sched_action/:id/:id_sched'', gm_apiPath = [], gm_httpMethod = ''DELETE'',
     gm_params = [(''id'', from_path), (''id_sched'', from_path)]\<rparr>"

definition service_DELETE :: gw_command where
  "service_DELETE = \<lparr>gm_path = ''/service/:id'', gm_apiPath = [], gm_httpMethod = ''DELETE'',
     gm_params = [(''id'', from_path)]\<rparr>"

definition service_template_SHOW :: gw_command where
  "service_template_SHOW = \<lparr>gm_path = ''/service_template/:id?'', gm_apiPath = [], gm_httpMethod = ''GET'',
     gm_params = [(''id'', from_path)]\<rparr>"

definition service_template_ACTION :: gw_command where
  "service_template_ACTION = \<lparr>gm_path = ''/service_template/action/:id'', gm_apiPath = [], gm_httpMethod = ''POST'',
     gm_params = [(''id'', from_path), (''action'', from_body)]\<rparr>"

definition service_template_CREATE :: gw_command where
  "service_template_CREATE = \<lparr>gm_path = ''/service_template'', gm_apiPath = [], gm_httpMethod = ''POST'',
     gm_params = [(''template'', from_body)]\<rparr>"

definition service_template_UPDATE :: gw_command where
  "service_template_UPDATE = \<lparr>gm_path = ''/service_template/:id'', gm_apiPath = [], gm_httpMethod = ''PUT'',
     gm_params = [(''id'', from_path), (''template'', from_body)]\<rparr>"

definition service_template_DELETE :: gw_command where
  "service_template_DELETE = \<lparr>gm_path = ''/service_template/:id'', gm_apiPath = [], gm_httpMethod = ''DELETE'',
     gm_params = [(''id'', from_path)]\<rparr>"

section \<open>Schemas\<close>

definition typed :: "string \<Rightarrow> jsobj \<Rightarrow> jsval" where
  "typed type rest = JObj ((''type'', JStr type) # rest)"

definition not_required :: jsobj where "not_required = [(''required'', JBool False)]"

definition at_least :: "int \<Rightarrow> jsobj" where "at_least n = not_required @ [(''minimum'', JNum n)]"

definition policy_type :: jsval where
  "policy_type = typed ''string'' [(''enum'', JArr [JStr ''CHANGE'', JStr ''CARDINALITY'', JStr ''PERCENTAGE_CHANGE'']), (''required'', JBool True)]"

definition elasticity_policies :: jsval where
  "elasticity_policies = typed ''array'' [(''items'', typed ''object'' [(''properties'', JObj
     [(''type'', policy_type), (''adjust'', schema_field ''integer'' True), (''min_adjust_step'', typed ''integer'' (at_least 1)),
      (''period_number'', typed ''integer'' (at_least 0)), (''period'', typed ''integer'' (at_least 0)),
      (''expression'', schema_field ''string'' True), (''cooldown'', typed ''integer'' (at_least 0))])])]"

definition scheduled_policies :: jsval where
  "scheduled_policies = typed ''array'' [(''items'', typed ''object'' [(''properties'', JObj
     [(''type'', policy_type), (''adjust'', schema_field ''integer'' True), (''min_adjust_step'', typed ''integer'' (at_least 1)),
      (''start_time'', schema_field ''string'' False), (''recurrence'', schema_field ''string'' False)])])]"

definition role_schema :: jsval where
  "role_schema = JObj [(''id'', JStr ''/Role''), (''type'', JStr ''object''),
     (''properties'', JObj
       [(''name'', schema_field ''string'' True),
        (''cardinality'', typed ''integer'' [(''default'', JNum 1), (''minimum'', JNum 0)]),
        (''template_id'', schema_field ''integer'' True), (''type'', schema_field ''string'' True),
        (''ha_mode'', schema_field ''boolean'' False), (''floating_ip'', schema_field ''string'' False),
        (''template_contents'', schema_field ''object'' False),
        (''parents'', typed ''array'' [(''items'', typed ''string'' [])]),
        (''shutdown_action'', typed ''string'' ((''enum'', JArr [JStr ''shutdown'', JStr ''shutdown-hard'']) # not_required)),
        (''min_vms'', typed ''integer'' (at_least 0)), (''max_vms'', typed ''integer'' (at_least 0)),
        (''cooldown'', typed ''integer'' (at_least 0)), (''elasticity_policies'', elasticity_policies),
        (''scheduled_policies'', scheduled_policies)])]"

definition action_schema :: jsval where
  "action_schema = JObj [(''id'', JStr ''/Action''), (''type'', JStr ''object''),
     (''properties'', JObj
       [(''perform'', schema_field ''string'' False),
        (''params'', JObj [(''type'', JStr ''object''), (''additionalProperties'', JBool True), (''required'', JBool False)])])]"

definition service_schema :: jsval where
  "service_schema = JObj [(''type'', JStr ''object''),
     (''properties'', JObj
       [(''name'', schema_field ''string'' True),
        (''deployment'', typed ''string'' [(''enum'', JArr [JStr ''none'', JStr ''straight'']), (''default'', JStr ''none'')]),
        (''description'', schema_field ''string'' False),
        (''shutdown_action'', typed ''string''
          ((''enum'', JArr [JStr ''terminate'', JStr ''terminate-hard'', JStr ''shutdown'', JStr ''shutdown-hard'']) # not_required)),
        (''roles'', typed ''array'' [(''items'', JObj [(''$ref'', JStr ''/Role'')]), (''required'', JBool True)]),
        (''user_inputs'', typed ''object'' ((''properties'', JObj []) # not_required)),
        (''networks'', typed ''object'' ((''properties'', JObj []) # not_required)),
        (''networks_values'', typed ''array'' ((''items'', typed ''object'' [(''properties'', JObj [])]) # not_required)),
        (''ready_status_gate'', schema_field ''boolean'' False)])]"

section \<open>Services\<close>

definition invalid_flow_schema :: "validation \<Rightarrow> gw_step" where
  "invalid_flow_schema valSchema = refuse internalServerError [] (''invalid schema '' @ returnSchemaError (vl_errors valSchema))"

definition service :: gw_action where
  "service ud ps =
     (if \<not> no_credentials ud
      then if integer_id (obj_get ps ''id'')
           then GwSend ((request_to ''GET'' ''/service/{0}'' ud)\<lparr>gc_request := obj_get ps ''id''\<rparr>)
           else GwSend (request_to ''GET'' ''/service'' ud)
      else GwSilent)"

definition serviceDelete :: gw_action where
  "serviceDelete ud ps =
     (if integer_id (obj_get ps ''id'') \<and> \<not> no_credentials ud
      then GwSend ((request_to ''DELETE'' ''/service/{0}'' ud)\<lparr>gc_request := obj_get ps ''id''\<rparr>)
      else refuse methodNotAllowed [] ''invalid id service'')"

definition serviceAddAction :: "validator \<Rightarrow> gw_action" where
  "serviceAddAction validate ud ps =
     (if integer_id (obj_get ps ''id'') \<and> truthy (obj_get ps ''action'') \<and> \<not> no_credentials ud
      then with_post (obj_get ps ''action'') (\<lambda>postAction.
        let valSchema = validate [] postAction action_schema
        in if vl_valid valSchema
           then GwSend ((request_to ''POST'' ''/service/{0}/action'' ud)
             \<lparr>gc_request := obj_get ps ''id'', gc_post := JObj [(''action'', postAction)]\<rparr>)
           else invalid_flow_schema valSchema)
      else refuse methodNotAllowed [] ''invalid id service'')"

definition serviceAddScale :: "validator \<Rightarrow> gw_action" where
  "serviceAddScale validate ud ps =
     (if integer_id (obj_get ps ''id'') \<and> truthy (obj_get ps ''action'') \<and> \<not> no_credentials ud
      then with_post (obj_get ps ''action'') (\<lambda>postAction.
        let valSchema = validate [] postAction action_schema
        in if vl_valid valSchema
           then GwSend ((request_to ''POST'' ''/service/{0}/scale'' ud)
             \<lparr>gc_request := obj_get ps ''id'', gc_post := postAction\<rparr>)
           else invalid_flow_schema valSchema)
      else refuse methodNotAllowed [] ''invalid id service'')"

definition serviceAddRole :: "validator \<Rightarrow> gw_action" where
  "serviceAddRole validate ud ps =
     (if integer_id (obj_get ps ''id'') \<and> truthy (obj_get ps ''action'') \<and> \<not> no_credentials ud
      then with_post (obj_get ps ''action'') (\<lambda>postAction.
        let valSchema = validate [] postAction action_schema
        in if vl_valid valSchema
           then GwSend ((request_to ''POST'' ''/service/{0}/role_action'' ud)
             \<lparr>gc_request := obj_get ps ''id'', gc_post := JObj [(''action'', postAction)]\<rparr>)
           else invalid_flow_schema valSchema)
      else refuse methodNotAllowed [] ''invalid action, id service or role'')"

definition serviceAddRoleAction :: "validator \<Rightarrow> gw_action" where
  "serviceAddRoleAction validate ud ps =
     (if truthy (obj_get ps ''role'') \<and> integer_id (obj_get ps ''id'') \<and> truthy (obj_get ps ''action'') \<and> \<not> no_credentials ud
      then with_post (obj_get ps ''action'') (\<lambda>postAction.
        let valSchema = validate [] postAction action_schema
        in if vl_valid valSchema
           then GwSend ((request_to ''POST'' ''/service/{0}/role/{1}/action'' ud)
             \<lparr>gc_request := JArr [obj_get ps ''id'', obj_get ps ''role''], gc_post := JObj [(''action'', postAction)]\<rparr>)
           else invalid_flow_schema valSchema)
      else refuse methodNotAllowed [] ''invalid action, id service or role'')"

section \<open>Actions with a schedule\<close>

text \<open>The machines of a service that are deployed.\<close>

definition list_of :: "jsval \<Rightarrow> jsval list" where
  "list_of v = (case v of JArr xs \<Rightarrow> xs | _ \<Rightarrow> [v])"

definition role_nodes :: "jsval \<Rightarrow> jsval list" where
  "role_nodes role =
     (if truthy (prop_get role ''nodes'')
      then filter (\<lambda>node. truthy node \<and> ge_zero (prop_get node ''deploy_id'')) (list_of (prop_get role ''nodes''))
      else [])"

definition service_nodes :: "jsval \<Rightarrow> jsval list" where
  "service_nodes serviceData =
     (let roles = prop_get (prop_get (prop_get (prop_get serviceData ''DOCUMENT'') ''TEMPLATE'') ''BODY'') ''roles''
      in if truthy roles then concat (map role_nodes (list_of roles)) else [])"

text \<open>The request of \<open>getNodesService\<close>, sent when there is a service to ask for.\<close>

definition getNodesService :: "user_data \<Rightarrow> jsval \<Rightarrow> sched_call \<Rightarrow> gw_step" where
  "getNodesService ud serviceID s =
     (if \<not> no_credentials ud \<and> truthy serviceID
      then GwSched ((request_to ''GET'' ''/service/{0}'' ud)\<lparr>gc_request := serviceID\<rparr>) s
      else GwAnswer (error (JStr [])))"

text \<open>\<open>generateNewResourceTemplate({}, action, [], wrapper)\<close>: what is not an object has no fields to spread, an array
  or a text has its positions.\<close>

definition sched_text :: "jsval \<Rightarrow> string" where
  "sched_text v =
     generateNewResourceTemplate [] (map (\<lambda>(k, x). (k, to_string x)) (case object_entries v of Inr es \<Rightarrow> es | Inl _ \<Rightarrow> []))
       [] (''SCHED_ACTION=['', '']'')"

definition parseSchedActionsToString :: "jsval \<Rightarrow> jsval" where
  "parseSchedActionsToString schedAction =
     (case json_parse (to_string schedAction) of
        Inl _ \<Rightarrow> schedAction
      | Inr (JArr xs) \<Rightarrow> JStr (js_join '' '' (map sched_text xs))
      | Inr (JObj fs) \<Rightarrow> JStr (sched_text (JObj fs))
      | Inr JNull \<Rightarrow> JStr (sched_text JNull)
      | Inr _ \<Rightarrow> schedAction)"

text \<open>\<open>parseInt(idSched, 10)\<close> where it is a number.\<close>

definition sched_id :: "jsval \<Rightarrow> jsval" where
  "sched_id idSched = (case parse_int (to_string idSched) of Some n \<Rightarrow> JNum n | None \<Rightarrow> JNull)"

definition serviceAddSchedAction :: gw_action where
  "serviceAddSchedAction ud ps =
     (if integer_id (obj_get ps ''id'') \<and> truthy (obj_get ps ''sched_action'') \<and> \<not> no_credentials ud
      then getNodesService ud (obj_get ps ''id'')
        \<lparr>sc_action = ''vm.schedadd'', sc_args = [parseSchedActionsToString (obj_get ps ''sched_action'')]\<rparr>
      else refuse methodNotAllowed [] ''invalid id service or sched_action template'')"

definition serviceUpdateSchedAction :: gw_action where
  "serviceUpdateSchedAction ud ps =
     (if integer_id (obj_get ps ''id'') \<and> integer_id (obj_get ps ''id_sched'') \<and> truthy (obj_get ps ''sched_action'') \<and> \<not> no_credentials ud
      then getNodesService ud (obj_get ps ''id'')
        \<lparr>sc_action = ''vm.schedupdate'',
         sc_args = [sched_id (obj_get ps ''id_sched''), parseSchedActionsToString (obj_get ps ''sched_action'')]\<rparr>
      else refuse methodNotAllowed [] ''invalid id service, id sched action or sched_action template'')"

definition serviceDeleteSchedAction :: gw_action where
  "serviceDeleteSchedAction ud ps =
     (if integer_id (obj_get ps ''id'') \<and> integer_id (obj_get ps ''id_sched'') \<and> \<not> no_credentials ud
      then getNodesService ud (obj_get ps ''id'')
        \<lparr>sc_action = ''vm.scheddelete'', sc_args = [sched_id (obj_get ps ''id_sched'')]\<rparr>
      else refuse methodNotAllowed [] ''invalid id service or id sched action'')"

text \<open>The calls for the machines, all issued before the first callback, and the callbacks: the machine is added to
  the list of updated ones when its call succeeded, and the callback of the last machine answers.\<close>

definition sched_params :: "jsval list \<Rightarrow> sched_call \<Rightarrow> jsval list list" where
  "sched_params nodes s = map (\<lambda>node. prop_get node ''deploy_id'' # sc_args s) nodes"

type_synonym sched_event = "nat \<times> jsval \<times> jsval"

definition event_ok :: "sched_event \<Rightarrow> bool" where
  "event_ok ev = (case ev of (i, err, value) \<Rightarrow> \<not> truthy err \<and> \<not> js_isNaN value)"

definition updated :: "jsval list \<Rightarrow> sched_event \<Rightarrow> jsval list \<Rightarrow> jsval list" where
  "updated nodes ev nodesUpdated =
     (if event_ok ev then nodesUpdated @ [prop_get (nodes ! fst ev) ''deploy_id''] else nodesUpdated)"

fun sched_callbacks :: "jsval list \<Rightarrow> sched_event list \<Rightarrow> jsval list \<Rightarrow> http_result list" where
  "sched_callbacks nodes [] nodesUpdated = []"
| "sched_callbacks nodes (ev # evs) nodesUpdated =
     (let nodesUpdated' = updated nodes ev nodesUpdated
      in (if length nodes = fst ev + 1 then [success (JArr nodesUpdated')] else []) @
         sched_callbacks nodes evs nodesUpdated')"

section \<open>Templates of services\<close>

definition serviceTemplate :: gw_action where
  "serviceTemplate ud ps =
     (if \<not> no_credentials ud
      then if truthy (obj_get ps ''id'')
           then GwSend ((request_to ''GET'' ''/service_template/{0}'' ud)\<lparr>gc_request := obj_get ps ''id''\<rparr>)
           else GwSend (request_to ''GET'' ''/service_template'' ud)
      else GwSilent)"

definition serviceTemplateDelete :: gw_action where
  "serviceTemplateDelete ud ps =
     (if truthy (obj_get ps ''id'') \<and> \<not> no_credentials ud
      then GwSend ((request_to ''DELETE'' ''/service_template/{0}'' ud)\<lparr>gc_request := obj_get ps ''id''\<rparr>)
      else refuse methodNotAllowed [] ''invalid id service template'')"

text \<open>The outer \<open>try\<close> has nothing to catch: posted data that is truthy is always read.\<close>

definition serviceTemplateCreate :: "validator \<Rightarrow> gw_action" where
  "serviceTemplateCreate validate ud ps =
     (if truthy (obj_get ps ''template'') \<and> \<not> no_credentials ud
      then with_post (obj_get ps ''template'') (\<lambda>template.
        let valSchema = validate [(''/Role'', role_schema)] template service_schema
        in if vl_valid valSchema
           then in_try (GwSend ((request_to ''POST'' ''/service_template'' ud)\<lparr>gc_post := template\<rparr>))
           else invalid_schema valSchema template)
      else refuse methodNotAllowed ''Invalid service json'' (''Invalid service json: Received params: '' @ json_stringify (JObj ps)))"

definition serviceTemplateUpdate :: "validator \<Rightarrow> gw_action" where
  "serviceTemplateUpdate validate ud ps =
     (if truthy (obj_get ps ''id'') \<and> truthy (obj_get ps ''template'') \<and> \<not> no_credentials ud
      then with_post (obj_get ps ''template'') (\<lambda>template.
        let valSchema = validate [(''/Role'', role_schema)] template service_schema
        in if vl_valid valSchema
           then GwSend ((request_to ''PUT'' ''/service_template/{0}'' ud)\<lparr>gc_request := obj_get ps ''id'', gc_post := template\<rparr>)
           else invalid_flow_schema valSchema)
      else refuse methodNotAllowed [] ''invalid service json or id'')"

definition serviceTemplateAction :: gw_action where
  "serviceTemplateAction ud ps =
     (if truthy (obj_get ps ''id'') \<and> truthy (obj_get ps ''action'') \<and> \<not> no_credentials ud
      then with_post (obj_get ps ''action'') (\<lambda>action.
        GwSend ((request_to ''POST'' ''/service_template/{0}/action'' ud)
          \<lparr>gc_request := obj_get ps ''id'', gc_post := JObj [(''action'', action)]\<rparr>))
      else refuse methodNotAllowed [] ''invalid action or id'')"

section \<open>Endpoints and connection\<close>

definition oneflow_endpoints :: "validator \<Rightarrow> gw_endpoint list" where
  "oneflow_endpoints validate =
     [endpoint (Some service) (Some service_SHOW),
      endpoint (Some (serviceAddAction validate)) (Some service_ADD_ACTION),
      endpoint (Some (serviceAddScale validate)) (Some service_ADD_SCALE),
      endpoint (Some (serviceAddRole validate)) (Some service_ADD_ROLE),
      endpoint (Some (serviceAddRoleAction validate)) (Some service_ADD_ROLEACTION),
      endpoint (Some serviceAddSchedAction) (Some service_ADD_SCHEDACTION),
      endpoint (Some serviceUpdateSchedAction) (Some service_UPDATE_SCHEDACTION),
      endpoint (Some serviceDeleteSchedAction) (Some service_DELETE_SCHEDACTION),
      endpoint (Some serviceDelete) (Some service_DELETE),
      endpoint (Some serviceTemplate) (Some service_template_SHOW),
      endpoint (Some serviceTemplateAction) (Some service_template_ACTION),
      endpoint (Some (serviceTemplateCreate validate)) (Some service_template_CREATE),
      endpoint (Some (serviceTemplateUpdate validate)) (Some service_template_UPDATE),
      endpoint (Some serviceTemplateDelete) (Some service_template_DELETE)]"

definition defaultOneFlowServer :: string where "defaultOneFlowServer = ''http://localhost:2474''"

text \<open>The package btoa is the second argument; the connection sets no type of content and does not read \<open>query\<close>.\<close>

definition oneflow_options :: "string \<Rightarrow> (string \<Rightarrow> string) \<Rightarrow> gw_config \<Rightarrow> gw_options" where
  "oneflow_options server btoa cfg =
     connection_options (if server \<noteq> [] then server else defaultOneFlowServer) btoa [] (cfg\<lparr>gc_query := JUndef\<rparr>)"

definition oneFlowConnection ::
  "string \<Rightarrow> (string \<Rightarrow> string) \<Rightarrow> (gw_options \<Rightarrow> axios_result) \<Rightarrow> gw_config \<Rightarrow> jsval + jsval" where
  "oneFlowConnection server btoa axios cfg = connection_result (gc_request cfg) (axios (oneflow_options server btoa cfg))"

text \<open>The answers of the templates tell less of an error.\<close>

definition template_error :: "jsval \<Rightarrow> http_result" where
  "template_error data =
     httpResponse (Some internalServerError) (js_and data (prop_get (prop_get data ''response'') ''data'')) [] []"

text \<open>The answers to a request, given what the service says and the callbacks of the daemon.\<close>

definition flow_answers ::
  "(gw_config \<Rightarrow> jsval + jsval) \<Rightarrow> (jsval \<Rightarrow> http_result) \<Rightarrow> sched_event list \<Rightarrow> gw_step \<Rightarrow> http_result list" where
  "flow_answers connect failed evs step =
     (case step of
        GwAnswer r \<Rightarrow> [r]
      | GwSend c \<Rightarrow> [connection_answer failed (connect c)]
      | GwSched c s \<Rightarrow> (case connect c of Inl e \<Rightarrow> [error e] | Inr d \<Rightarrow> sched_callbacks (service_nodes d) evs [])
      | GwSilent \<Rightarrow> []
      | GwThrow e \<Rightarrow> [])"

section \<open>The table\<close>

lemma oneflow_verbs [gateway_simps]:
  "gm_httpMethod service_SHOW = ''GET''"
  "gm_httpMethod service_ADD_ACTION = ''POST''"
  "gm_httpMethod service_ADD_SCALE = ''POST''"
  "gm_httpMethod service_ADD_ROLE = ''POST''"
  "gm_httpMethod service_ADD_ROLEACTION = ''POST''"
  "gm_httpMethod service_ADD_SCHEDACTION = ''POST''"
  "gm_httpMethod service_UPDATE_SCHEDACTION = ''PUT''"
  "gm_httpMethod service_DELETE_SCHEDACTION = ''DELETE''"
  "gm_httpMethod service_DELETE = ''DELETE''"
  "gm_httpMethod service_template_SHOW = ''GET''"
  "gm_httpMethod service_template_ACTION = ''POST''"
  "gm_httpMethod service_template_CREATE = ''POST''"
  "gm_httpMethod service_template_UPDATE = ''PUT''"
  "gm_httpMethod service_template_DELETE = ''DELETE''"
  by (simp_all add: service_SHOW_def service_ADD_ACTION_def service_ADD_SCALE_def service_ADD_ROLE_def service_ADD_ROLEACTION_def service_ADD_SCHEDACTION_def service_UPDATE_SCHEDACTION_def service_DELETE_SCHEDACTION_def service_DELETE_def
    service_template_SHOW_def service_template_ACTION_def service_template_CREATE_def service_template_UPDATE_def service_template_DELETE_def)

lemmas oneflow_handlers =
  service_def serviceAddAction_def serviceAddScale_def serviceAddRole_def serviceAddRoleAction_def 
  serviceAddSchedAction_def serviceUpdateSchedAction_def serviceDeleteSchedAction_def serviceDelete_def serviceTemplate_def 
  serviceTemplateAction_def serviceTemplateCreate_def serviceTemplateUpdate_def serviceTemplateDelete_def

lemma proper_nodes [gateway_simps]: "proper ud verb (getNodesService ud i s)"
  by (simp add: getNodesService_def error_def internalServerError_def gateway_simps)

lemma proper_flow_schema [gateway_simps]: "proper ud verb (invalid_flow_schema v)"
  by (simp add: invalid_flow_schema_def gateway_simps)

lemma oneflow_proper [gateway_simps]:
  "proper ud ''GET'' (service ud ps)"
  "proper ud ''POST'' (serviceAddAction validate ud ps)"
  "proper ud ''POST'' (serviceAddScale validate ud ps)"
  "proper ud ''POST'' (serviceAddRole validate ud ps)"
  "proper ud ''POST'' (serviceAddRoleAction validate ud ps)"
  "proper ud ''POST'' (serviceAddSchedAction ud ps)"
  "proper ud ''PUT'' (serviceUpdateSchedAction ud ps)"
  "proper ud ''DELETE'' (serviceDeleteSchedAction ud ps)"
  "proper ud ''DELETE'' (serviceDelete ud ps)"
  "proper ud ''GET'' (serviceTemplate ud ps)"
  "proper ud ''POST'' (serviceTemplateAction ud ps)"
  "proper ud ''POST'' (serviceTemplateCreate validate ud ps)"
  "proper ud ''PUT'' (serviceTemplateUpdate validate ud ps)"
  "proper ud ''DELETE'' (serviceTemplateDelete ud ps)"
  by (simp_all add: oneflow_handlers Let_def gateway_simps)

interpretation oneflow: gateway "oneflow_endpoints validate" for validate
proof
  fix e f ud ps
  assume e: "e \<in> set (oneflow_endpoints validate)"
  show "ge_auth e" using e by (auto simp: oneflow_endpoints_def endpoint_def)
  assume "ge_action e = Some f"
  with e show "proper ud (ge_httpMethod e) (f ud ps)"
    by (auto simp: oneflow_endpoints_def endpoint_def gateway_simps)
qed

section \<open>The answers to actions with a schedule\<close>

text \<open>What the callbacks that have come leave in the list of updated machines.\<close>

definition updated_by :: "jsval list \<Rightarrow> sched_event list \<Rightarrow> jsval list" where
  "updated_by nodes evs = map (\<lambda>ev. prop_get (nodes ! fst ev) ''deploy_id'') (filter event_ok evs)"

lemma updated_snoc: "updated nodes ev (updated_by nodes evs) = updated_by nodes (evs @ [ev])"
  by (simp add: updated_def updated_by_def)

lemma sched_callbacks_append:
  "sched_callbacks nodes (evs @ evs') upd =
   sched_callbacks nodes evs upd @ sched_callbacks nodes evs' (upd @ updated_by nodes evs)"
  by (induction evs arbitrary: upd) (simp_all add: Let_def updated_def updated_by_def)

lemma sched_callbacks_none:
  "(\<And>ev. ev \<in> set evs \<Longrightarrow> length nodes \<noteq> fst ev + 1) \<Longrightarrow> sched_callbacks nodes evs upd = []"
  by (induction evs arbitrary: upd) (simp_all add: Let_def)

lemma sched_callbacks_last:
  assumes "\<And>ev. ev \<in> set (evs @ evs') \<Longrightarrow> length nodes \<noteq> fst ev + 1" and "length nodes = i + 1"
  shows "sched_callbacks nodes (evs @ (i, r) # evs') [] = [success (JArr (updated_by nodes (evs @ [(i, r)])))]"
proof -
  have a: "sched_callbacks nodes evs [] = []" by (rule sched_callbacks_none) (use assms(1) in auto)
  have b: "sched_callbacks nodes evs' upd = []" for upd by (rule sched_callbacks_none) (use assms(1) in auto)
  show ?thesis
    by (simp add: sched_callbacks_append a b assms(2) Let_def updated_def updated_by_def)
qed

text \<open>
  C15. An action with a schedule for a service is answered once, by the callback of its last machine, whatever the
  order of the callbacks, with the machines whose calls had succeeded by then: with all of them when that callback
  comes last, but without those whose callbacks come after it, and never when the service has no machine that is
  deployed.
\<close>

theorem sched_action_answered:
  assumes d: "connect c = Inr d" and once: "distinct (map fst evs)" and all: "set (map fst evs) = {..<length (service_nodes d)}"
  shows "(service_nodes d = [] \<longrightarrow> flow_answers connect failed evs (GwSched c s) = []) \<and>
    (\<forall>earlier ev later. evs = earlier @ ev # later \<longrightarrow> fst ev + 1 = length (service_nodes d) \<longrightarrow>
       flow_answers connect failed evs (GwSched c s) = [success (JArr (updated_by (service_nodes d) (earlier @ [ev])))])"
proof (intro conjI allI impI)
  assume "service_nodes d = []"
  with all have "evs = []" by simp
  then show "flow_answers connect failed evs (GwSched c s) = []" by (simp add: flow_answers_def d)
next
  fix earlier ev later
  assume evs: "evs = earlier @ ev # later" and l: "fst ev + 1 = length (service_nodes d)"
  obtain i r where ev: "ev = (i, r)" by (cases ev)
  have len: "length (service_nodes d) = i + 1" using l by (simp add: ev)
  have "length (service_nodes d) \<noteq> fst e + 1" if "e \<in> set (earlier @ later)" for e
    using once that l by (force simp: evs)
  then have "sched_callbacks (service_nodes d) (earlier @ (i, r) # later) [] =
      [success (JArr (updated_by (service_nodes d) (earlier @ [(i, r)])))]"
    by (rule sched_callbacks_last [OF _ len])
  then show "flow_answers connect failed evs (GwSched c s) = [success (JArr (updated_by (service_nodes d) (earlier @ [ev])))]"
    by (simp add: flow_answers_def d evs ev)
qed

text \<open>A service of two machines and the callbacks of both, in the order of the calls and in the other order.\<close>

definition two_machines :: jsval where
  "two_machines = JObj [(''DOCUMENT'', JObj [(''TEMPLATE'', JObj [(''BODY'', JObj [(''roles'', JArr
     [JObj [(''nodes'', JArr [JObj [(''deploy_id'', JNum 7)]])], JObj [(''nodes'', JArr [JObj [(''deploy_id'', JNum 8)]])]])])])])]"

definition accepted_by :: "nat \<Rightarrow> sched_event" where
  "accepted_by i = (i, JNull, JNum 0)"

definition delete_sched :: gw_step where
  "delete_sched = serviceDeleteSchedAction \<lparr>ud_user = ''ana'', ud_password = ''token''\<rparr> [(''id'', JStr ''3''), (''id_sched'', JStr ''0'')]"

lemma delete_sched_step:
  "delete_sched = GwSched ((request_to ''GET'' ''/service/{0}'' \<lparr>ud_user = ''ana'', ud_password = ''token''\<rparr>)\<lparr>gc_request := JStr ''3''\<rparr>)
     \<lparr>sc_action = ''vm.scheddelete'', sc_args = [JNum 0]\<rparr>"
  by code_simp

lemma two_machines_nodes: "service_nodes two_machines = [JObj [(''deploy_id'', JNum 7)], JObj [(''deploy_id'', JNum 8)]]"
  by code_simp

theorem sched_action_answered_witness:
  "flow_answers (\<lambda>_. Inr two_machines) error [accepted_by 1, accepted_by 0] delete_sched = [success (JArr [JNum 8])]"
proof -
  let ?evs = "[accepted_by 1, accepted_by 0]"
  have "distinct (map fst ?evs)" "set (map fst ?evs) = {..<length (service_nodes two_machines)}"
    by (auto simp: accepted_by_def two_machines_nodes)
  note answered = sched_action_answered [where connect = "\<lambda>_. Inr two_machines", OF refl this, THEN conjunct2, rule_format,
      of "[]" "accepted_by 1" "[accepted_by 0]"]
  have "flow_answers (\<lambda>_. Inr two_machines) error ?evs delete_sched =
       [success (JArr (updated_by (service_nodes two_machines) ([] @ [accepted_by 1])))]"
    unfolding delete_sched_step by (rule answered) (simp_all add: accepted_by_def two_machines_nodes)
  also have "updated_by (service_nodes two_machines) ([] @ [accepted_by 1]) = [JNum 8]" by code_simp
  finally show ?thesis .
qed

text \<open>The same calls and the same success, but the first machine is missing from the answer when the callback of the
  second comes first.\<close>

theorem sched_answer_race:
  "flow_answers (\<lambda>_. Inr two_machines) error [accepted_by 0, accepted_by 1] delete_sched = [success (JArr [JNum 7, JNum 8])]"
  "flow_answers (\<lambda>_. Inr two_machines) error [accepted_by 1, accepted_by 0] delete_sched = [success (JArr [JNum 8])]"
  by code_simp+

end
