(* ===== verification/Gateways.thy ===== *)
theory Gateways
  imports Oneks Oneform Oneflow
begin

text \<open>
  The gateways to OneKS, OneForm and OneFlow together: for whom they act, what they let through, and where their
  requests go.
\<close>

section \<open>For whom they act\<close>

definition gateway_endpoints :: "validator \<Rightarrow> gw_endpoint list" where
  "gateway_endpoints validate = oneks_endpoints validate @ oneform_endpoints validate @ oneflow_endpoints validate"

interpretation services: gateway "gateway_endpoints validate" for validate
  by unfold_locales
    (auto simp: gateway_endpoints_def intro: oneks.authenticated oneks.proper_action oneform.authenticated
      oneform.proper_action oneflow.authenticated oneflow.proper_action)

text \<open>The requests of a step.\<close>

fun sent_by :: "gw_step \<Rightarrow> gw_config list" where
  "sent_by (GwSend c) = [c]"
| "sent_by (GwSched c s) = [c]"
| "sent_by _ = []"

lemma proper_sent: "proper ud verb step \<Longrightarrow> c \<in> set (sent_by step) \<Longrightarrow> gc_user c = ud_user ud \<and> gc_password c = ud_password ud"
  by (cases step) (auto simp: sends_as_def)

text \<open>
  C37. Whatever request an action of a gateway sends to its service carries the user and the token of a session that is
  live at that moment: OneKS and OneForm read exactly them, with a colon between, from the header, and the header for
  OneFlow is the word Basic and what the package btoa makes of them.
\<close>

theorem gateways_act_for_session:
  assumes "e \<in> set (functionsRoutes (gateway_endpoints validate))" and "functions_handler env e req g = (Inr step, g')"
  shows "\<exists>u p. session_valid (fe_now env) u p g \<and>
       list_all (\<lambda>c. gc_user c = u \<and> gc_password c = p \<and>
          basic_credentials (oneks_options server c) = Some (u @ '':'' @ p) \<and>
          basic_credentials (oneform_options server c) = Some (u @ '':'' @ p) \<and>
          map_of (go_headers (oneflow_options server btoa c)) ''Authorization'' = Some (''Basic '' @ btoa (u @ '':'' @ p))) (sent_by step)"
proof -
  obtain u p where live: "session_valid (fe_now env) u p g"
    and proper: "proper \<lparr>ud_user = u, ud_password = p\<rparr> (ge_httpMethod e) step"
    using services.live_session [OF assms] by blast
  have "gc_user c = u \<and> gc_password c = p" if "c \<in> set (sent_by step)" for c
    using proper_sent [OF proper that] by simp
  then have "list_all (\<lambda>c. gc_user c = u \<and> gc_password c = p \<and>
          basic_credentials (oneks_options server c) = Some (u @ '':'' @ p) \<and>
          basic_credentials (oneform_options server c) = Some (u @ '':'' @ p) \<and>
          map_of (go_headers (oneflow_options server btoa c)) ''Authorization'' = Some (''Basic '' @ btoa (u @ '':'' @ p))) (sent_by step)"
    by (simp add: list_all_iff oneks_options_def oneform_options_def credentials_read_back)
      (simp add: oneflow_options_def connection_options_def Let_def)
  then show ?thesis using live by blast
qed

text \<open>Within the model, where a parameter that is an object is written as the text \<open>[object Object]\<close>, no routed action throws.\<close>

lemma routed_actions_answer:
  assumes "e \<in> set (functionsRoutes (gateway_endpoints validate))" and "functions_handler env e req g = (Inr step, g')"
  shows "step \<noteq> GwThrow x"
proof -
  obtain u p where "proper \<lparr>ud_user = u, ud_password = p\<rparr> (ge_httpMethod e) step"
    using services.live_session [OF assms] by blast
  then show ?thesis by (cases step) auto
qed

text \<open>A concrete request: the logs of cluster 4, with the session and the request of the XML-RPC example.\<close>

definition accept_all :: validator where
  "accept_all _ _ _ = \<lparr>vl_valid = True, vl_errors = []\<rparr>"

definition gateway_env :: fn_env where
  "gateway_env = \<lparr>fe_jwt = xe_jwt demo_env, fe_now = 0, fe_config = xe_config demo_env, fe_zones = xe_zones demo_env\<rparr>"

definition logs_route :: gw_endpoint where
  "logs_route = endpoint (Some oneksLogs) (oneks_command ''LOGS'')"

definition logs_config :: gw_config where
  "logs_config = (request_to ''GET'' ''/clusters/{0}/logs'' \<lparr>ud_user = ''serveradmin:bob'', ud_password = ''tok''\<rparr>)
     \<lparr>gc_request := JNum 4\<rparr>"

lemma logs_route_routed: "logs_route \<in> set (functionsRoutes (gateway_endpoints accept_all))"
proof -
  have "logs_route \<in> set (oneks_endpoints accept_all)" by (simp add: logs_route_def oneks_endpoints_def)
  moreover have "routed logs_route"
    by (simp add: routed_def logs_route_def endpoint_def oneks_commands oneks_LOGS_def validateHttpMethod_def httpMethods_def)
  ultimately show ?thesis by (simp add: functionsRoutes_def gateway_endpoints_def)
qed

lemma logs_handled: "fst (functions_handler gateway_env logs_route demo_request demo_globals) = Inr (GwSend logs_config)"
proof -
  have "run_action logs_route \<lparr>ud_user = ''serveradmin:bob'', ud_password = ''tok''\<rparr> demo_request = GwSend logs_config"
    by (simp add: run_action_def logs_route_def endpoint_def oneks_commands oneks_LOGS_def demo_request_def
        server_data_source_def getRequestParameters_def arg_def from_defs obj_get_def oneksLogs_def no_credentials_def
        with_command_def logs_config_def ApiBasePath_def)
  moreover have "ge_auth logs_route" "rq_zone demo_request = []"
    by (simp_all add: logs_route_def endpoint_def oneks_commands demo_request_def)
  ultimately show ?thesis
    using demo_session demo_zone by (simp add: functions_handler_def gateway_env_def)
qed

theorem gateways_act_for_session_witness:
  "basic_credentials (oneks_options [] logs_config) = Some ''serveradmin:bob:tok'' \<and>
   session_valid 0 ''serveradmin:bob'' ''tok'' demo_globals"
proof -
  obtain g' where "functions_handler gateway_env logs_route demo_request demo_globals = (Inr (GwSend logs_config), g')"
    using logs_handled by (metis prod.collapse)
  from gateways_act_for_session [OF logs_route_routed this, of "[]" base64]
  show ?thesis by (auto simp: gateway_env_def logs_config_def request_to_def)
qed

section \<open>What they let through\<close>

text \<open>A step sends nothing but a template that the validator accepted, as it was posted or as it was read.\<close>

definition checked ::
  "validator \<Rightarrow> (string \<times> jsval) list \<Rightarrow> jsval \<Rightarrow> jsobj \<Rightarrow> (jsval \<Rightarrow> jsval \<Rightarrow> jsval) \<Rightarrow> gw_step \<Rightarrow> bool" where
  "checked validate added schema ps pick step \<longleftrightarrow>
     (\<forall>c. step = GwSend c \<longrightarrow>
        (\<exists>t. parsePostData (obj_get ps ''template'') = Inr t \<and> vl_valid (validate added t schema) \<and>
             gc_post c = pick (obj_get ps ''template'') t))"

definition as_posted :: "jsval \<Rightarrow> jsval \<Rightarrow> jsval" where "as_posted raw read = raw"
definition as_read :: "jsval \<Rightarrow> jsval \<Rightarrow> jsval" where "as_read raw read = read"

lemmas refusals = refuse_def invalid_schema_def invalid_flow_schema_def

lemma checked_post:
  assumes "\<And>t c. parsePostData (obj_get ps ''template'') = Inr t \<Longrightarrow> f t = GwSend c \<Longrightarrow>
     vl_valid (validate added t schema) \<and> gc_post c = pick (obj_get ps ''template'') t"
  shows "checked validate added schema ps pick (with_post (obj_get ps ''template'') f)"
  using assms by (auto simp: checked_def with_post_def split: sum.splits)

lemma checked_refuse: "checked validate added schema ps pick (refuse code d m)"
  by (simp add: checked_def refuse_def)

lemmas checked_rules = checked_post checked_refuse

text \<open>
  C14. What is created or scaled was validated: the seven actions that validate (the creation of a cluster, of a node
  group, of a provision, of a provider and of a template of a service, the scale of a node group and the update of a
  template of a service) send a template only when the validator accepted what was read of it.  Providers and templates
  of services are sent as they were read; clusters, node groups, their scale and provisions are sent as they were
  posted, which is not what was validated.  Other updates are not validated at all, see below.
\<close>

theorem templates_validated:
  "checked validate [(''/Oneks'', oneKsSchema)] oneKsSchema ps as_posted (create validate ud ps) \<and>
   checked validate [(''/OneKsCreateNodeGroup'', oneKsCreateNodeGroupSchema)] oneKsCreateNodeGroupSchema ps as_posted
     (createNodeGroup validate ud ps) \<and>
   checked validate [(''/OneKsScaleNodeGroup'', oneKsScaleNodeGroupSchema)] oneKsScaleNodeGroupSchema ps as_posted
     (scaleNodeGroup validate ud ps) \<and>
   checked validate [(''/Provision'', provisionSchema)] provisionSchema ps as_posted (provisionCreate validate ud ps) \<and>
   checked validate [(''/Provider'', providerSchema)] providerSchema ps as_read (providerCreate validate ud ps) \<and>
   checked validate [(''/Role'', role_schema)] service_schema ps as_read (serviceTemplateCreate validate ud ps) \<and>
   checked validate [(''/Role'', role_schema)] service_schema ps as_read (serviceTemplateUpdate validate ud ps)"
proof (intro conjI)
  note sent = with_command_def in_try_def refusals oneks_commands oneform_commands Let_def as_posted_def as_read_def
  show "checked validate [(''/Oneks'', oneKsSchema)] oneKsSchema ps as_posted (create validate ud ps)"
    by (auto simp: create_def sent split: if_splits intro!: checked_rules [unfolded refuse_def])
  show "checked validate [(''/OneKsCreateNodeGroup'', oneKsCreateNodeGroupSchema)] oneKsCreateNodeGroupSchema ps as_posted
     (createNodeGroup validate ud ps)"
    by (auto simp: createNodeGroup_def sent split: if_splits intro!: checked_rules [unfolded refuse_def])
  show "checked validate [(''/OneKsScaleNodeGroup'', oneKsScaleNodeGroupSchema)] oneKsScaleNodeGroupSchema ps as_posted
     (scaleNodeGroup validate ud ps)"
    by (auto simp: scaleNodeGroup_def sent split: if_splits intro!: checked_rules [unfolded refuse_def])
  show "checked validate [(''/Provision'', provisionSchema)] provisionSchema ps as_posted (provisionCreate validate ud ps)"
    by (auto simp: provisionCreate_def sent split: if_splits intro!: checked_rules [unfolded refuse_def])
  show "checked validate [(''/Provider'', providerSchema)] providerSchema ps as_read (providerCreate validate ud ps)"
    by (auto simp: providerCreate_def sent split: if_splits intro!: checked_rules [unfolded refuse_def])
  show "checked validate [(''/Role'', role_schema)] service_schema ps as_read (serviceTemplateCreate validate ud ps)"
    by (auto simp: serviceTemplateCreate_def sent split: if_splits intro!: checked_rules [unfolded refuse_def])
  show "checked validate [(''/Role'', role_schema)] service_schema ps as_read (serviceTemplateUpdate validate ud ps)"
    by (auto simp: serviceTemplateUpdate_def sent split: if_splits intro!: checked_rules [unfolded refuse_def])
qed

text \<open>The updates of a node group, of the document of a cluster, of a provider and of a provision have no validator:
  any object is sent.\<close>

theorem updates_not_validated:
  assumes "\<not> no_credentials ud" and "truthy (obj_get ps ''id'')" and "truthy (obj_get ps ''nodegroup_id'')"
    and "obj_get ps ''template'' = JObj fs" and "parsePostData (JObj fs) = Inr t"
  shows "map gc_post (sent_by (updateNodeGroup ud ps)) = [t] \<and> map gc_post (sent_by (providerUpdate ud ps)) = [t] \<and>
    map gc_post (sent_by (provisionUpdate ud ps)) = [t] \<and> map gc_post (sent_by (updateDocumentOneKs ud ps)) = [JObj fs]"
  using assms
  by (simp add: updateNodeGroup_def providerUpdate_def provisionUpdate_def updateDocumentOneKs_def with_command_def with_post_def
      in_try_def oneks_commands oneform_commands)

text \<open>A target given as a text is validated as a number and sent as the text.\<close>

theorem target_validated_not_sent:
  "\<not> no_credentials ud \<Longrightarrow>
   (\<forall>added t schema. vl_valid (validate added t schema) = (t = JObj [(''target'', JNum 3)])) \<Longrightarrow>
   \<exists>c. scaleNodeGroup validate ud [(''id'', JStr ''4''), (''nodegroup_id'', JStr ''2''), (''template'', JObj [(''target'', JStr ''3'')])] =
         GwSend c \<and> gc_post c = JObj [(''target'', JStr ''3'')]"
proof -
  have read: "parsePostData (JObj [(''target'', JStr ''3'')]) = Inr (JObj [(''target'', JNum 3)])" by code_simp
  assume "\<not> no_credentials ud" "\<forall>added t schema. vl_valid (validate added t schema) = (t = JObj [(''target'', JNum 3)])"
  then show ?thesis
    by (simp add: scaleNodeGroup_def obj_get_def with_post_def read with_command_def oneks_commands Let_def)
qed

section \<open>Where requests go\<close>

text \<open>The verb and the address of the request of a step to OneKS and to OneForm.\<close>

definition address :: "gw_step \<Rightarrow> (string \<times> string) option" where
  "address step =
     (case step of
        GwSend c \<Rightarrow> Some (go_method (connection_options [] base64 [] c), go_url (connection_options [] base64 [] c))
      | _ \<Rightarrow> None)"

lemma address_options:
  "go_url (oneks_options server c) = go_url (connection_options [] base64 [] c)"
  "go_method (oneks_options server c) = go_method (connection_options [] base64 [] c)"
  "go_url (oneform_options server c) = go_url (connection_options [] base64 [] c)"
  "go_method (oneform_options server c) = go_method (connection_options [] base64 [] c)"
  by (simp_all add: oneks_options_def oneform_options_def connection_options_def Let_def)

definition of_cluster :: "string \<Rightarrow> jsobj" where "of_cluster i = [(''id'', JStr i)]"
definition of_group :: "string \<Rightarrow> string \<Rightarrow> jsobj" where "of_group i n = [(''id'', JStr i), (''nodegroup_id'', JStr n)]"

declare fill_places.simps(2) [simp del]

lemma fill_in:
  "fill_places rs [] = []"
  "c \<noteq> CHR ''{'' \<Longrightarrow> fill_places rs (c # s) = c # fill_places rs s"
  "x \<noteq> JUndef \<Longrightarrow> fill_places (x # rs) (CHR ''{'' # CHR ''0'' # CHR ''}'' # s) = to_string x @ fill_places (x # rs) s"
  "y \<noteq> JUndef \<Longrightarrow> fill_places (x # y # rs) (CHR ''{'' # CHR ''1'' # CHR ''}'' # s) = to_string y @ fill_places (x # y # rs) s"
proof -
  have d: "to_base 10 0 = ''0''" "to_base 10 1 = ''1''" by code_simp+
  show "fill_places (x # rs) (CHR ''{'' # CHR ''0'' # CHR ''}'' # s) = to_string x @ fill_places (x # rs) s" if "x \<noteq> JUndef"
    using fill_hole [of 0 "x # rs" s] that by (simp add: d)
  show "fill_places (x # y # rs) (CHR ''{'' # CHR ''1'' # CHR ''}'' # s) = to_string y @ fill_places (x # y # rs) s" if "y \<noteq> JUndef"
    using fill_hole [of 1 "x # y # rs" s] that by (simp add: d [unfolded One_nat_def] d)
qed (simp_all add: fill_places.simps)

lemmas address_simps = address_def connection_options_def addPrintf_def request_to_def with_command_def oneks_commands
  obj_get_def of_cluster_def of_group_def Let_def fill_in ApiBasePath_def

text \<open>
  Each request about a cluster or a node group goes to the address of that cluster and group: for any
  identifiers that are not empty, the verb of the route and the identifiers in their places.
\<close>

theorem oneks_addresses:
  assumes "\<not> no_credentials ud" and "i \<noteq> []" and "n \<noteq> []"
  shows "address (cluster ud (of_cluster i)) = Some (''GET'', ''/clusters/'' @ i) \<and>
    address (clusterKubeconfig ud (of_cluster i)) = Some (''GET'', ''/clusters/'' @ i @ ''/kubeconfig'') \<and>
    address (clusterEndpoint ud (of_cluster i)) = Some (''GET'', ''/clusters/'' @ i @ ''/endpoint'') \<and>
    address (oneksLogs ud (of_cluster i)) = Some (''GET'', ''/clusters/'' @ i @ ''/logs'') \<and>
    address (recover ud (of_cluster i)) = Some (''POST'', ''/clusters/'' @ i @ ''/recover'') \<and>
    address (clusterDelete ud (of_cluster i)) = Some (''DELETE'', ''/clusters/'' @ i) \<and>
    address (deleteNodeGroup ud (of_group i n)) = Some (''DELETE'', ''/clusters/'' @ i @ ''/nodegroups/'' @ n) \<and>
    address (recoverNodeGroup ud (of_group i n)) = Some (''POST'', ''/clusters/'' @ i @ ''/nodegroups/'' @ n @ ''/recover'')"
proof (intro conjI)
  show "address (cluster ud (of_cluster i)) = Some (''GET'', ''/clusters/'' @ i)"
    using assms by (simp add: cluster_def address_simps oneks_SHOW_def)
  show "address (clusterKubeconfig ud (of_cluster i)) = Some (''GET'', ''/clusters/'' @ i @ ''/kubeconfig'')"
    using assms by (simp add: clusterKubeconfig_def address_simps oneks_KUBECONFIG_def)
  show "address (clusterEndpoint ud (of_cluster i)) = Some (''GET'', ''/clusters/'' @ i @ ''/endpoint'')"
    using assms by (simp add: clusterEndpoint_def address_simps oneks_ENDPOINT_def)
  show "address (oneksLogs ud (of_cluster i)) = Some (''GET'', ''/clusters/'' @ i @ ''/logs'')"
    using assms by (simp add: oneksLogs_def address_simps oneks_LOGS_def)
  show "address (recover ud (of_cluster i)) = Some (''POST'', ''/clusters/'' @ i @ ''/recover'')"
    using assms by (simp add: recover_def address_simps oneks_RECOVER_def)
  show "address (clusterDelete ud (of_cluster i)) = Some (''DELETE'', ''/clusters/'' @ i)"
    using assms by (simp add: clusterDelete_def address_simps oneks_DELETE_def)
  show "address (deleteNodeGroup ud (of_group i n)) = Some (''DELETE'', ''/clusters/'' @ i @ ''/nodegroups/'' @ n)"
    using assms by (simp add: deleteNodeGroup_def address_simps oneks_DELETE_NODEGROUP_def)
  show "address (recoverNodeGroup ud (of_group i n)) = Some (''POST'', ''/clusters/'' @ i @ ''/nodegroups/'' @ n @ ''/recover'')"
    using assms by (simp add: recoverNodeGroup_def address_simps oneks_RECOVER_NODEGROUP_def)
qed

definition ana :: user_data where "ana = \<lparr>ud_user = ''ana'', ud_password = ''token''\<rparr>"

lemma ana_credentials: "\<not> no_credentials ana"
  by (simp add: ana_def no_credentials_def)

theorem oneks_addresses_witness:
  "address (deleteNodeGroup ana (of_group ''4'' ''2'')) = Some (''DELETE'', ''/clusters/4/nodegroups/2'')"
  using oneks_addresses [OF ana_credentials, of "''4''" "''2''"] by simp

text \<open>Identifiers are not encoded: the deletion of a cluster whose identifier has slashes deletes a node group.\<close>

theorem cluster_identifier_names_group:
  "address (clusterDelete ana (of_cluster ''4/nodegroups/2'')) = address (deleteNodeGroup ana (of_group ''4'' ''2''))"
  using ana_credentials
  by (simp add: clusterDelete_def deleteNodeGroup_def address_simps oneks_DELETE_def oneks_DELETE_NODEGROUP_def)

text \<open>The logs of a provision: without the parameter \<open>all\<close>, whose default nobody applies, the address ends in the
  text of undefined.\<close>

theorem provision_logs_address:
  assumes "\<not> no_credentials ud" and "i \<noteq> []"
  shows "address (provisionLogs ud [(''id'', JStr i), (''all'', JStr ''true'')]) = Some (''GET'', ''/provisions/'' @ i @ ''/logs?all=true'')"
    and "address (provisionLogs ud [(''id'', JStr i), (''all'', JUndef)]) = Some (''GET'', ''/provisions/'' @ i @ ''/logsundefined'')"
  using assms
  by (simp_all add: provisionLogs_def logs_query_def address_simps oneform_commands provisions_LOGS_def)

text \<open>The hosts of a provision can not be added or removed one by one: the two actions and the recovery have no route,
  and the actions throw.\<close>

theorem host_actions_unreachable:
  "\<not> no_credentials ud \<Longrightarrow> truthy (obj_get ps ''id'') \<Longrightarrow>
     provisionAddHost ud ps = GwThrow TypeError \<and> provisionRemoveHost ud ps = GwThrow TypeError"
  "length (functionsRoutes (provisionEndpoints validate)) + 3 = length (provisionEndpoints validate)"
  by (simp_all add: provisionAddHost_def provisionRemoveHost_def with_command_def oneform_commands functionsRoutes_def
      provisionEndpoints_def routed_def endpoint_def provisions_verbs validateHttpMethod_def httpMethods_def
      provisions_LIST_def provisions_SHOW_def provisions_LOGS_def provisions_CREATE_def provisions_UPDATE_def
      provisions_DELETE_def provisions_UNDEPLOY_def provisions_RETRY_def provisions_SCALE_def provisions_ADD_IP_def
      provisions_REMOVE_IP_def provisions_CHMOD_def provisions_CHOWN_def provisions_CHGRP_def)

text \<open>A new owner without a new group is refused by all three, though the body leaves the group out when there is none;
  and the group with the number 0 is left out.\<close>

theorem owner_needs_group:
  assumes "obj_get ps ''group_id'' = JUndef"
  shows "address (oneksChown ud ps) = None" "address (providerChown ud ps) = None" "address (provisionChown ud ps) = None"
  using assms by (simp_all add: oneksChown_def providerChown_def provisionChown_def address_def refuse_def)

theorem group_zero_left_out:
  "owner_post [(''owner_id'', JNum 2), (''group_id'', JNum 0)] = JObj [(''owner_id'', JNum 2)]"
  by (simp add: owner_post_def obj_get_def)

section \<open>What is answered\<close>

text \<open>A deletion that the service accepted is answered with the identifier, as a number when it starts with one; a
  response without the text of its status is an error, whatever its status.\<close>

theorem deletion_answered:
  assumes "axios (oneks_options server c) = Resolved r" and "to_upper (ar_method r) = ''DELETE''" and "ar_statusText r \<noteq> []"
    and "gc_request c = JStr i" and "parse_int i = Some n"
  shows "connection_answer error (oneKsConnection server axios c) = httpResponse (Some ok) (JNum n) [] []"
  using assms
  by (simp add: oneKsConnection_def connection_result_def first_request_def parseToNumber_def connection_answer_def success_def)

theorem unnamed_status_is_error:
  assumes "axios (oneks_options server c) = Resolved r" and "ar_statusText r = []"
  shows "hr_id (connection_answer error (oneKsConnection server axios c)) = 500"
  using assms
  by (simp add: oneKsConnection_def connection_result_def connection_answer_def error_def internalServerError_def Let_def)

end
