(* ===== verification/Zendesk.thy ===== *)
theory Zendesk
  imports Gateway
begin

text \<open>
  Support tickets (\<open>server/routes/api/zendesk\<close>).  A login at Zendesk is remembered in the session of the user; the
  other handlers use what is remembered there.  The package node-zendesk is a parameter: what its calls give their
  callbacks.  The number NaN is written as null, the way JSON writes it.

  A handler runs with its callback; the callbacks of the uploads of one request come in any order and are a list.
\<close>

section \<open>Sessions\<close>

text \<open>An entry of the session store with what \<open>session.zendesk\<close> holds.\<close>

record zd_entry = token_entry +
  te_zendesk :: "jsobj option"

type_synonym zd_store = "string \<rightharpoonup> zd_entry list"

definition getSession :: "zd_store \<Rightarrow> string \<Rightarrow> string \<Rightarrow> zd_entry option" where
  "getSession st username token =
     (if username = [] \<or> token = [] then None
      else case st username of None \<Rightarrow> None | Some es \<Rightarrow> find (\<lambda>e. te_token e = token) es)"

text \<open>Writing to the session that was found.\<close>

fun update_first :: "('a \<Rightarrow> bool) \<Rightarrow> ('a \<Rightarrow> 'a) \<Rightarrow> 'a list \<Rightarrow> 'a list" where
  "update_first p f [] = []"
| "update_first p f (x # xs) = (if p x then f x # xs else x # update_first p f xs)"

definition set_zendesk :: "zd_store \<Rightarrow> string \<Rightarrow> string \<Rightarrow> jsobj option \<Rightarrow> zd_store" where
  "set_zendesk st username token z =
     (case st username of
        None \<Rightarrow> st
      | Some es \<Rightarrow> st(username \<mapsto> update_first (\<lambda>e. te_token e = token) (\<lambda>e. e\<lparr>te_zendesk := z\<rparr>) es))"

section \<open>The service\<close>

text \<open>The error and the result each call gives its callback.\<close>

type_synonym zd_reply = "jsval \<times> jsval"

record zendesk_lib =
  zl_auth :: "jsobj \<Rightarrow> zd_reply"
  zl_getRequest :: "jsobj \<Rightarrow> zd_reply"
  zl_listComments :: "jsobj \<Rightarrow> jsval \<Rightarrow> zd_reply"
  zl_create :: "jsobj \<Rightarrow> jsval \<Rightarrow> zd_reply"
  zl_update :: "jsobj \<Rightarrow> jsval \<Rightarrow> jsval \<Rightarrow> zd_reply"

definition uploads_field :: "jsval \<Rightarrow> jsobj" where
  "uploads_field attachments =
     (case attachments of JArr (a # as) \<Rightarrow> [(''uploads'', JArr (filter truthy (a # as)))] | _ \<Rightarrow> [])"

definition formatCreate :: "jsobj \<Rightarrow> jsval" where
  "formatCreate ps =
     (let subject = obj_get ps ''subject''; body = obj_get ps ''body'';
          version = obj_get ps ''version''; severity = obj_get ps ''severity''
      in if \<not> (truthy subject \<and> truthy body \<and> truthy version \<and> truthy severity) then JUndef
         else JObj [(''request'', JObj
           [(''subject'', subject), (''comment'', JObj ((''body'', body) # uploads_field (obj_get ps ''attachments''))),
            (''custom_fields'', JArr [JObj [(''id'', JNum 391130), (''value'', version)], JObj [(''id'', JNum 391197), (''value'', severity)]]),
            (''can_be_solved_by_me'', JBool False), (''tags'', JArr [severity])])])"

definition formatComment :: "jsobj \<Rightarrow> jsval" where
  "formatComment ps =
     (if \<not> truthy (obj_get ps ''body'') then JUndef
      else JObj [(''request'', JObj
        ((''comment'', JObj ([(''html_body'', obj_get ps ''body''), (''public'', JBool True)] @ uploads_field (obj_get ps ''attachments''))) #
         (if truthy (obj_get ps ''solved'') then [(''solved'', JStr ''true'')] else [])))])"

definition parseBufferError :: "jsval \<Rightarrow> jsval" where
  "parseBufferError err =
     (if \<not> truthy (prop_get err ''result'') then JUndef
      else case json_parse (to_string (prop_get err ''result'')) of
          Inl _ \<Rightarrow> JStr []
        | Inr errorJson \<Rightarrow>
            let e = prop_get errorJson ''error'';
                title = prop_get e ''title''; message = prop_get e ''message''
            in if \<not> truthy e then JUndef
               else JStr ((if truthy title then to_string title @ '': '' else []) @
                          (if nullish message then [] else to_string message)))"

section \<open>Handlers\<close>

datatype zd_event = ZdAnswer http_result | ZdThrow js_error

definition zd_badRequest :: http_result where
  "zd_badRequest = httpResponse (Some badRequest) (JStr []) [] []"

definition service_reply :: "zd_reply \<Rightarrow> http_result" where
  "service_reply reply =
     (case reply of (err, result) \<Rightarrow>
        if truthy err then httpResponse (Some internalServerError) (parseBufferError err) [] []
        else httpResponse (Some ok) (if truthy result then result else JStr []) [] [])"

text \<open>The fields given to the client of Zendesk: the credentials, the address and whether it logs.\<close>

definition zendesk_data :: "string \<Rightarrow> bool \<Rightarrow> jsobj \<Rightarrow> jsobj" where
  "zendesk_data remoteUri debug ps =
     [(''username'', obj_get ps ''user''), (''password'', obj_get ps ''pass''), (''remoteUri'', JStr remoteUri), (''debug'', JBool debug)]"

text \<open>A login: an incomplete one is answered and goes on.  Writing to a session that was not found throws.\<close>

definition zd_login ::
  "zendesk_lib \<Rightarrow> string \<Rightarrow> bool \<Rightarrow> user_data \<Rightarrow> jsobj \<Rightarrow> zd_store \<Rightarrow> zd_event list \<times> zd_store" where
  "zd_login lib remoteUri debug ud ps st =
     (let incomplete = \<not> (remoteUri \<noteq> [] \<and> truthy (obj_get ps ''user'') \<and> truthy (obj_get ps ''pass'') \<and> \<not> no_credentials ud);
          zendeskData = zendesk_data remoteUri debug ps;
          session = getSession st (ud_user ud) (ud_password ud);
          (err, result) = zl_auth lib zendeskData;
          accepted = truthy (prop_get result ''authenticity_token'');
          st1 = (if truthy err then set_zendesk st (ud_user ud) (ud_password ud) None else st);
          st2 = (if accepted
                 then set_zendesk st1 (ud_user ud) (ud_password ud) (Some (zendeskData @ [(''id'', prop_get result ''id'')])) else st1);
          answer = (if truthy err then httpResponse (Some internalServerError) (parseBufferError err) [] []
                    else httpResponse (Some ok) result [] [])
      in ((if incomplete then [ZdAnswer zd_badRequest] else []) @
          (if session = None \<and> (truthy err \<or> accepted) then [ZdThrow TypeError] else [ZdAnswer answer]),
          if session = None then st else st2))"

text \<open>The sessions of a handler: a session without data is refused; one that is not there throws.\<close>

definition with_zendesk :: "bool \<Rightarrow> zd_store \<Rightarrow> user_data \<Rightarrow> (jsobj \<Rightarrow> zd_event list) \<Rightarrow> zd_event list" where
  "with_zendesk needs_id st ud f =
     (case getSession st (ud_user ud) (ud_password ud) of
        None \<Rightarrow> [ZdThrow TypeError]
      | Some e \<Rightarrow>
          (case te_zendesk e of
             Some z \<Rightarrow> if needs_id \<and> \<not> truthy (obj_get z ''id'') then [ZdAnswer (httpResponse (Some unauthorized) JUndef [] [])] else f z
           | None \<Rightarrow> [ZdAnswer (httpResponse (Some unauthorized) JUndef [] [])]))"

definition no_tickets :: jsobj where
  "no_tickets = map (\<lambda>s. (s, JNum 0)) [''new'', ''open'', ''pending'', ''hold'', ''solved'', ''closed'']"

definition count_ticket :: "jsval \<Rightarrow> jsobj \<Rightarrow> jsobj" where
  "count_ticket ticket counts =
     (let status = prop_get ticket ''status''; k = to_string status
      in if truthy status
         then AList.update k (case obj_get counts k of JNum n \<Rightarrow> JNum (n + 1) | _ \<Rightarrow> JNull) counts
         else counts)"

definition zd_list :: "zendesk_lib \<Rightarrow> user_data \<Rightarrow> zd_store \<Rightarrow> zd_event list" where
  "zd_list lib ud st =
     (if no_credentials ud then [ZdAnswer zd_badRequest]
      else with_zendesk True st ud (\<lambda>z.
        let (err, result) = zl_getRequest lib z
        in if truthy err then [ZdAnswer (httpResponse (Some internalServerError) (parseBufferError err) [] [])]
           else if truthy result
           then (case result of
               JArr tickets \<Rightarrow>
                 [ZdAnswer (httpResponse (Some ok) (JObj (obj_spread [(''tickets'', result)] (fold count_ticket tickets no_tickets))) [] [])]
             | _ \<Rightarrow> [ZdThrow TypeError])
           else [ZdAnswer (httpResponse (Some ok) (JStr []) [] [])]))"

definition comments :: "zendesk_lib \<Rightarrow> user_data \<Rightarrow> jsobj \<Rightarrow> zd_store \<Rightarrow> zd_event list" where
  "comments lib ud ps st =
     (if integer_id (obj_get ps ''id'') \<and> \<not> no_credentials ud
      then with_zendesk False st ud (\<lambda>z. [ZdAnswer (service_reply (zl_listComments lib z (obj_get ps ''id'')))])
      else [ZdAnswer zd_badRequest])"

section \<open>Attachments\<close>

text \<open>The uploads that are started, and the lists of tokens with which the ticket is sent, as the callbacks come.\<close>

definition uploaded_files :: "jsval list \<Rightarrow> jsval list" where
  "uploaded_files attachments = filter (\<lambda>att. truthy (prop_get att ''originalname'') \<and> truthy (prop_get att ''path'')) attachments"

definition upload_token :: "jsval \<Rightarrow> jsval" where
  "upload_token result = (let t = prop_get (prop_get result ''upload'') ''token'' in if truthy t then t else JStr [])"

fun upload_callbacks :: "nat \<Rightarrow> zd_reply list \<Rightarrow> jsval list \<Rightarrow> jsval list list" where
  "upload_callbacks n [] uploaded = []"
| "upload_callbacks n ((err, result) # rs) uploaded =
     (let token = upload_token result; uploaded' = uploaded @ [token]
      in (if \<not> truthy err \<and> truthy token \<and> length uploaded' = n then [uploaded'] else []) @
         upload_callbacks n rs uploaded')"

definition with_attachments :: "jsval \<Rightarrow> zd_reply list \<Rightarrow> (jsval \<Rightarrow> http_result) \<Rightarrow> zd_event list" where
  "with_attachments attachments uploads sendRequest =
     (if truthy attachments
      then (case attachments of
          JArr atts \<Rightarrow> map (\<lambda>tokens. ZdAnswer (sendRequest (JArr tokens))) (upload_callbacks (length atts) uploads [])
        | _ \<Rightarrow> [ZdThrow TypeError])
      else [ZdAnswer (sendRequest attachments)])"

definition defaultSeverities :: "jsval list" where
  "defaultSeverities = [JStr ''severity_1'', JStr ''severity_2'', JStr ''severity_3'', JStr ''severity_4'']"

definition zd_create :: "zendesk_lib \<Rightarrow> user_data \<Rightarrow> jsobj \<Rightarrow> zd_reply list \<Rightarrow> zd_store \<Rightarrow> zd_event list" where
  "zd_create lib ud ps uploads st =
     (if truthy (obj_get ps ''subject'') \<and> truthy (obj_get ps ''body'') \<and> truthy (obj_get ps ''version'') \<and>
         truthy (obj_get ps ''severity'') \<and> obj_get ps ''severity'' \<in> set defaultSeverities \<and> \<not> no_credentials ud
      then with_zendesk True st ud (\<lambda>z.
        with_attachments (obj_get ps ''attachments'') uploads (\<lambda>atts.
          service_reply (zl_create lib z (formatCreate (AList.update ''attachments'' atts ps)))))
      else [ZdAnswer zd_badRequest])"

definition zd_update :: "zendesk_lib \<Rightarrow> user_data \<Rightarrow> jsobj \<Rightarrow> zd_reply list \<Rightarrow> zd_store \<Rightarrow> zd_event list" where
  "zd_update lib ud ps uploads st =
     (if integer_id (obj_get ps ''id'') \<and> truthy (obj_get ps ''body'') \<and> \<not> no_credentials ud
      then with_zendesk True st ud (\<lambda>z.
        with_attachments (obj_get ps ''attachments'') uploads (\<lambda>atts.
          service_reply (zl_update lib z (obj_get ps ''id'') (formatComment (AList.update ''attachments'' atts ps)))))
      else [ZdAnswer zd_badRequest])"

section \<open>Routes\<close>

definition cmd_ZENDESK_LOGIN :: gw_command where
  "cmd_ZENDESK_LOGIN = \<lparr>gm_path = ''/zendesk/login'', gm_apiPath = [], gm_httpMethod = ''POST'',
     gm_params = [(''user'', from_body), (''pass'', from_body)]\<rparr>"

definition cmd_ZENDESK_CREATE :: gw_command where
  "cmd_ZENDESK_CREATE = \<lparr>gm_path = ''/zendesk'', gm_apiPath = [], gm_httpMethod = ''POST'',
     gm_params = [(''subject'', from_body), (''body'', from_body), (''version'', from_body), (''severity'', from_body),
       (''attachments'', arg ''files'' JUndef)]\<rparr>"

definition cmd_ZENDESK_UPDATE :: gw_command where
  "cmd_ZENDESK_UPDATE = \<lparr>gm_path = ''/zendesk/:id'', gm_apiPath = [], gm_httpMethod = ''PUT'',
     gm_params = [(''id'', from_path), (''body'', from_body), (''solved'', from_body), (''attachments'', arg ''files'' JUndef)]\<rparr>"

definition cmd_ZENDESK_COMMENT :: gw_command where
  "cmd_ZENDESK_COMMENT = \<lparr>gm_path = ''/zendesk/comments/:id'', gm_apiPath = [], gm_httpMethod = ''GET'',
     gm_params = [(''id'', from_path)]\<rparr>"

definition cmd_ZENDESK_LIST :: gw_command where
  "cmd_ZENDESK_LIST = \<lparr>gm_path = ''/zendesk'', gm_apiPath = [], gm_httpMethod = ''GET'', gm_params = []\<rparr>"

section \<open>Uploads\<close>

text \<open>A callback that may complete the uploads.\<close>

definition uploaded_ok :: "zd_reply \<Rightarrow> bool" where
  "uploaded_ok r \<longleftrightarrow> \<not> truthy (fst r) \<and> truthy (upload_token (snd r))"

lemma upload_callbacks_short: "length rs + length acc < n \<Longrightarrow> upload_callbacks n rs acc = []"
  by (induction n rs acc rule: upload_callbacks.induct) (simp_all add: Let_def)

lemma upload_callbacks_exact:
  "rs \<noteq> [] \<Longrightarrow> length rs + length acc = n \<Longrightarrow>
   upload_callbacks n rs acc = (if uploaded_ok (last rs) then [acc @ map (upload_token \<circ> snd) rs] else [])"
proof (induction n rs acc rule: upload_callbacks.induct)
  case (2 n err result rs uploaded)
  then show ?case by (cases rs) (simp_all add: Let_def uploaded_ok_def)
qed simp

definition logged_in :: "zd_store \<Rightarrow> user_data \<Rightarrow> jsobj \<Rightarrow> bool" where
  "logged_in st ud z \<longleftrightarrow>
     (\<exists>e. getSession st (ud_user ud) (ud_password ud) = Some e \<and> te_zendesk e = Some z \<and> truthy (obj_get z ''id''))"

definition ticket_ok :: "jsobj \<Rightarrow> bool" where
  "ticket_ok ps \<longleftrightarrow> truthy (obj_get ps ''subject'') \<and> truthy (obj_get ps ''body'') \<and> truthy (obj_get ps ''version'') \<and>
     obj_get ps ''severity'' \<in> set defaultSeverities"

lemma getSession_credentials: "getSession st (ud_user ud) (ud_password ud) = Some e \<Longrightarrow> \<not> no_credentials ud"
  by (auto simp: getSession_def no_credentials_def split: if_splits)

lemma with_zendesk_logged_in: "logged_in st ud z \<Longrightarrow> with_zendesk b st ud f = f z"
  by (auto simp: logged_in_def with_zendesk_def)

lemma severities_truthy: "v \<in> set defaultSeverities \<Longrightarrow> truthy v"
  by (auto simp: defaultSeverities_def)

text \<open>Attachments are sent without the empty tokens of failed uploads.\<close>

lemma formatCreate_tokens:
  assumes "filter truthy ts \<noteq> []"
  shows "formatCreate (AList.update ''attachments'' (JArr ts) ps) = formatCreate (AList.update ''attachments'' (JArr (filter truthy ts)) ps)"
proof -
  have field: "uploads_field (JArr xs) = (if xs = [] then [] else [(''uploads'', JArr (filter truthy xs))])" for xs
    by (cases xs) (simp_all add: uploads_field_def)
  have "ts \<noteq> []" using assms by auto
  then have "uploads_field (JArr ts) = uploads_field (JArr (filter truthy ts))" using assms by (simp add: field)
  then show ?thesis by (simp add: formatCreate_def obj_get_def Let_def)
qed

lemma callbacks_all:
  assumes "length uploads = length (uploaded_files atts)"
  shows "upload_callbacks (length atts) uploads [] =
    (if atts \<noteq> [] \<and> uploaded_files atts = atts \<and> uploaded_ok (last uploads) then [map (upload_token \<circ> snd) uploads] else [])"
proof (cases "uploaded_files atts = atts")
  case True
  then have len: "length uploads = length atts" using assms by simp
  then show ?thesis
    using upload_callbacks_exact [of uploads "[]" "length atts"] True by (cases "uploads = []") auto
next
  case False
  then have "length (uploaded_files atts) < length atts"
    unfolding uploaded_files_def by (auto simp: filter_id_conv intro: length_filter_less)
  then show ?thesis using False assms upload_callbacks_short [of uploads "[]" "length atts"] by simp
qed

text \<open>
  C19. A valid ticket of a user that is logged in at Zendesk is created and answered at most once.  Without attachments
  it is sent at once.  With attachments, each upload of which calls back once, it is sent when every attachment has a
  name and a path and the last callback brings a token, with the tokens of those uploads that brought one, in the order
  of their callbacks: an earlier upload that failed is left out silently.  Otherwise, and for an empty list of
  attachments, it is neither created nor answered.
\<close>

theorem ticket_created_once:
  assumes "logged_in st ud z" and "ticket_ok ps" and "\<not> truthy (obj_get ps ''attachments'') \<or> obj_get ps ''attachments'' = JArr atts"
    and "length uploads = length (uploaded_files atts)"
  shows "zd_create lib ud ps uploads st =
    (let send = (\<lambda>attachments. [ZdAnswer (service_reply (zl_create lib z (formatCreate (AList.update ''attachments'' attachments ps))))])
     in if \<not> truthy (obj_get ps ''attachments'') then send (obj_get ps ''attachments'')
        else if atts \<noteq> [] \<and> uploaded_files atts = atts \<and> uploaded_ok (last uploads)
        then send (JArr (filter truthy (map (upload_token \<circ> snd) uploads))) else [])"
proof -
  let ?send = "\<lambda>a. service_reply (zl_create lib z (formatCreate (AList.update ''attachments'' a ps)))"
  let ?ts = "map (upload_token \<circ> snd) uploads"
  have "\<not> no_credentials ud" using assms(1) by (auto simp: logged_in_def dest: getSession_credentials)
  then have create: "zd_create lib ud ps uploads st = with_attachments (obj_get ps ''attachments'') uploads ?send"
    using assms(2) severities_truthy with_zendesk_logged_in [OF assms(1)] by (simp add: zd_create_def ticket_ok_def)
  have sent: "?send (JArr ?ts) = ?send (JArr (filter truthy ?ts))" if "uploaded_files atts = atts" "atts \<noteq> []" "uploaded_ok (last uploads)"
  proof -
    have "uploads \<noteq> []" using that assms(4) by auto
    then have "last uploads \<in> set uploads" by (rule last_in_set)
    then have "filter truthy ?ts \<noteq> []" using that(3) by (auto simp: filter_empty_conv uploaded_ok_def)
    then show ?thesis using formatCreate_tokens by metis
  qed
  show ?thesis
  proof (cases "truthy (obj_get ps ''attachments'')")
    case True
    then have a: "obj_get ps ''attachments'' = JArr atts" using assms(3) by blast
    show ?thesis
      unfolding create with_attachments_def a Let_def using callbacks_all [OF assms(4)] sent by simp
  qed (simp add: create with_attachments_def Let_def)
qed

section \<open>Counts\<close>

definition ticket_statuses :: "string list" where
  "ticket_statuses = [''new'', ''open'', ''pending'', ''hold'', ''solved'', ''closed'']"

definition has_status :: "string \<Rightarrow> jsval \<Rightarrow> bool" where
  "has_status s ticket \<longleftrightarrow> truthy (prop_get ticket ''status'') \<and> to_string (prop_get ticket ''status'') = s"

lemma field_updated: "obj_get (AList.update k v fs) s = (if s = k then v else obj_get fs s)"
  by (simp add: obj_get_def)

lemma fold_count_ticket:
  "obj_get counts s = JNum n \<Longrightarrow>
   obj_get (fold count_ticket tickets counts) s = JNum (n + int (length (filter (has_status s) tickets)))"
proof (induction tickets arbitrary: counts n)
  case (Cons t ts)
  have "obj_get (count_ticket t counts) s = JNum (if has_status s t then n + 1 else n)"
    using Cons.prems by (auto simp: count_ticket_def has_status_def field_updated Let_def)
  then show ?case using Cons.IH [of "count_ticket t counts"] by simp
qed simp

theorem tickets_counted:
  "s \<in> set ticket_statuses \<Longrightarrow>
   obj_get (fold count_ticket tickets no_tickets) s = JNum (int (length (filter (has_status s) tickets)))"
proof -
  assume "s \<in> set ticket_statuses"
  then have "obj_get no_tickets s = JNum 0" by (auto simp: ticket_statuses_def no_tickets_def obj_get_def)
  then show ?thesis by (simp add: fold_count_ticket)
qed

section \<open>What sessions remember\<close>

text \<open>Data that Zendesk has accepted.\<close>

definition verified :: "zendesk_lib \<Rightarrow> string \<Rightarrow> bool \<Rightarrow> jsobj \<Rightarrow> bool" where
  "verified lib remoteUri debug z \<longleftrightarrow>
     (\<exists>ps i. z = zendesk_data remoteUri debug ps @ [(''id'', i)] \<and>
        truthy (prop_get (snd (zl_auth lib (zendesk_data remoteUri debug ps))) ''authenticity_token''))"

definition all_verified :: "zendesk_lib \<Rightarrow> string \<Rightarrow> bool \<Rightarrow> zd_store \<Rightarrow> bool" where
  "all_verified lib remoteUri debug st \<longleftrightarrow>
     (\<forall>u es e z. st u = Some es \<longrightarrow> e \<in> set es \<longrightarrow> te_zendesk e = Some z \<longrightarrow> verified lib remoteUri debug z)"

text \<open>
  The session store with what Zendesk has left in it: \<^term>\<open>addUserSession\<close> and \<^term>\<open>removeUserSession\<close> on entries that
  may hold data for Zendesk.  A new entry holds none; a removed one takes its data along.
\<close>

record zd_state =
  zs_store :: zd_store
  zs_index :: "string \<rightharpoonup> token_pos"

definition zd_addUserSession :: "string \<Rightarrow> token_entry \<Rightarrow> zd_state \<Rightarrow> zd_state" where
  "zd_addUserSession user te s =
     (let tokens = the_default [] (zs_store s user)
      in \<lparr>zs_store = (zs_store s)(user \<mapsto> tokens @ [\<lparr>te_token = te_token te, te_expires = te_expires te, te_zendesk = None\<rparr>]),
          zs_index = (zs_index s)(te_token te \<mapsto> \<lparr>tp_user = user, tp_pos = length tokens\<rparr>)\<rparr>)"

definition zd_removeUserSession :: "string \<Rightarrow> zd_state \<Rightarrow> zd_state" where
  "zd_removeUserSession token s =
     (case zs_index s token of
        None \<Rightarrow> s
      | Some i \<Rightarrow>
          (case zs_store s (tp_user i) of
             None \<Rightarrow> s
           | Some ts \<Rightarrow>
               let tokens = splice1 (tp_pos i) ts
               in \<lparr>zs_store = (zs_store s)(tp_user i := (if tokens = [] then None else Some tokens)),
                   zs_index = (zs_index s)(token := None)\<rparr>))"

text \<open>Without the data, these are the two operations of the session store.\<close>

definition erased :: "zd_state \<Rightarrow> globals \<Rightarrow> globals" where
  "erased s g = g\<lparr>sessionStore := Some (\<lambda>u. map_option (map token_entry.truncate) (zs_store s u)), tokenIndex := Some (zs_index s)\<rparr>"

lemma store_erased: "store (erased s g) u = map_option (map token_entry.truncate) (zs_store s u)" "index (erased s g) = zs_index s"
  by (simp_all add: erased_def store_def index_def)

lemma zd_add_refines: "erased (zd_addUserSession u te s) g = addUserSession u te (erased s g)"
proof -
  have "token_entry.truncate \<lparr>te_token = te_token te, te_expires = te_expires te, te_zendesk = None\<rparr> = te"
    by (simp add: token_entry.truncate_def)
  then show ?thesis
    by (cases "zs_store s u")
      (auto simp: zd_addUserSession_def addUserSession_def ensureSessionStore_def erased_def store_def index_def Let_def fun_eq_iff)
qed

lemma map_splice1: "map f (splice1 p xs) = splice1 p (map f xs)"
  by (simp add: splice1_def take_map drop_map)

lemma zd_remove_refines: "erased (zd_removeUserSession t s) g = removeUserSession t (erased s g)"
  by (auto simp: zd_removeUserSession_def removeUserSession_def ensureSessionStore_def erased_def store_def index_def Let_def fun_eq_iff
      map_splice1 [symmetric] split: option.splits)

text \<open>The states of a server: logins at OpenNebula add sessions, logouts and purges remove them, and logins at Zendesk
  write to them.\<close>

inductive zd_reachable :: "zendesk_lib \<Rightarrow> string \<Rightarrow> bool \<Rightarrow> zd_state \<Rightarrow> bool" for lib remoteUri debug where
  start: "zd_reachable lib remoteUri debug \<lparr>zs_store = Map.empty, zs_index = Map.empty\<rparr>"
| add: "zd_reachable lib remoteUri debug s \<Longrightarrow> zd_reachable lib remoteUri debug (zd_addUserSession u te s)"
| remove: "zd_reachable lib remoteUri debug s \<Longrightarrow> zd_reachable lib remoteUri debug (zd_removeUserSession t s)"
| zendesk: "zd_reachable lib remoteUri debug s \<Longrightarrow> zd_login lib remoteUri debug ud ps (zs_store s) = (evs, st') \<Longrightarrow>
    zd_reachable lib remoteUri debug (s\<lparr>zs_store := st'\<rparr>)"

lemma set_update_first: "x \<in> set (update_first p f xs) \<Longrightarrow> x \<in> set xs \<or> (\<exists>y \<in> set xs. x = f y)"
  by (induction xs) (auto split: if_splits)

lemma all_verified_set:
  assumes "all_verified lib remoteUri debug st" and "\<And>z. v = Some z \<Longrightarrow> verified lib remoteUri debug z"
  shows "all_verified lib remoteUri debug (set_zendesk st u t v)"
  unfolding all_verified_def
proof (intro allI impI)
  fix w es e z
  assume w: "set_zendesk st u t v w = Some es" and e: "e \<in> set es" and z: "te_zendesk e = Some z"
  show "verified lib remoteUri debug z"
  proof (cases "w = u \<and> st u \<noteq> None")
    case True
    then obtain es0 where "st u = Some es0" by auto
    then have "e \<in> set es0 \<or> (\<exists>y \<in> set es0. e = y\<lparr>te_zendesk := v\<rparr>)"
      using w e True set_update_first by (fastforce simp: set_zendesk_def)
    then show ?thesis using assms z \<open>st u = Some es0\<close> by (auto simp: all_verified_def)
  next
    case False
    then have "st w = Some es" using w by (auto simp: set_zendesk_def split: option.splits if_splits)
    then show ?thesis using assms(1) e z by (auto simp: all_verified_def)
  qed
qed

lemma login_verified:
  assumes "all_verified lib remoteUri debug st" and "zd_login lib remoteUri debug ud ps st = (evs, st')"
  shows "all_verified lib remoteUri debug st'"
proof -
  obtain err result where auth: "zl_auth lib (zendesk_data remoteUri debug ps) = (err, result)" by fastforce
  define st1 where "st1 = (if truthy err then set_zendesk st (ud_user ud) (ud_password ud) None else st)"
  let ?z = "zendesk_data remoteUri debug ps @ [(''id'', prop_get result ''id'')]"
  have "all_verified lib remoteUri debug st1"
    using assms(1) all_verified_set [OF assms(1), of None] by (simp add: st1_def)
  moreover have "verified lib remoteUri debug ?z" if "truthy (prop_get result ''authenticity_token'')"
    using that auth by (auto simp: verified_def)
  ultimately have "all_verified lib remoteUri debug
      (if truthy (prop_get result ''authenticity_token'') then set_zendesk st1 (ud_user ud) (ud_password ud) (Some ?z) else st1)"
    by (auto intro: all_verified_set)
  then show ?thesis using assms by (auto simp: zd_login_def auth Let_def st1_def split: if_splits)
qed

lemma reachable_verified: "zd_reachable lib remoteUri debug s \<Longrightarrow> all_verified lib remoteUri debug (zs_store s)"
proof (induction rule: zd_reachable.induct)
  case start
  show ?case by (simp add: all_verified_def)
next
  case (add s u te)
  then show ?case by (cases "zs_store s u") (auto simp: all_verified_def zd_addUserSession_def Let_def split: if_splits)
next
  case (remove s t)
  show ?case
    unfolding all_verified_def
  proof (intro allI impI)
    fix w es e z
    assume w: "zs_store (zd_removeUserSession t s) w = Some es" and e: "e \<in> set es" and z: "te_zendesk e = Some z"
    obtain es0 where "zs_store s w = Some es0" "set es \<subseteq> set es0"
      using w by (auto simp: zd_removeUserSession_def Let_def set_splice1 split: option.splits if_splits)
    then show "verified lib remoteUri debug z" using remove.IH e z by (auto simp: all_verified_def)
  qed
next
  case (zendesk s ud ps evs st')
  then show ?case using login_verified by simp
qed

lemma getSession_set:
  "getSession (set_zendesk st u t v) u' t' =
     map_option (\<lambda>e. if u' = u \<and> t' = t then e\<lparr>te_zendesk := v\<rparr> else e) (getSession st u' t')"
proof -
  have "find (\<lambda>e. te_token e = t') (update_first (\<lambda>e. te_token e = t) (\<lambda>e. e\<lparr>te_zendesk := v\<rparr>) es) =
      map_option (\<lambda>e. if t' = t then e\<lparr>te_zendesk := v\<rparr> else e) (find (\<lambda>e. te_token e = t') es)" for es :: "zd_entry list"
    by (induction es) (auto simp: option.map_ident)
  then show ?thesis
    by (cases "u' = u"; cases "st u"; cases "st u'") (auto simp: getSession_def set_zendesk_def option.map_ident)
qed

text \<open>What a login at Zendesk leaves in the session it is made with: the data when the service gave a token, nothing when
  it gave an error and no token, and what was there when it gave neither.\<close>

definition remembered :: "zd_reply \<Rightarrow> jsobj \<Rightarrow> jsobj option \<Rightarrow> jsobj option" where
  "remembered reply zendeskData old =
     (case reply of (err, result) \<Rightarrow>
        if truthy (prop_get result ''authenticity_token'') then Some (zendeskData @ [(''id'', prop_get result ''id'')])
        else if truthy err then None else old)"

lemma login_remembers:
  assumes "zd_login lib remoteUri debug ud ps st = (evs, st')"
  shows "getSession st' u t =
    map_option (\<lambda>e. if u = ud_user ud \<and> t = ud_password ud
      then e\<lparr>te_zendesk := remembered (zl_auth lib (zendesk_data remoteUri debug ps)) (zendesk_data remoteUri debug ps) (te_zendesk e)\<rparr>
      else e) (getSession st u t)"
proof -
  obtain err result where auth: "zl_auth lib (zendesk_data remoteUri debug ps) = (err, result)" by fastforce
  show ?thesis
  proof (cases "getSession st (ud_user ud) (ud_password ud)")
    case None
    then have "st' = st" using assms by (simp add: zd_login_def auth Let_def)
    moreover have "getSession st u t = None" if "u = ud_user ud" "t = ud_password ud" using None that by simp
    ultimately show ?thesis by (cases "getSession st u t") auto
  next
    case (Some e)
    then have "st' = (let st1 = if truthy err then set_zendesk st (ud_user ud) (ud_password ud) None else st
      in if truthy (prop_get result ''authenticity_token'')
         then set_zendesk st1 (ud_user ud) (ud_password ud) (Some (zendesk_data remoteUri debug ps @ [(''id'', prop_get result ''id'')])) else st1)"
      using assms by (simp add: zd_login_def auth Let_def)
    then show ?thesis by (cases "getSession st u t") (auto simp: getSession_set remembered_def auth Let_def)
  qed
qed

text \<open>
  C38. The data a session holds for Zendesk is data that Zendesk accepted: in every state that the additions and removals
  of sessions and the logins at Zendesk lead to, whatever the other handlers give to the client of Zendesk holds the name
  and the password of a login that was answered with a token.  A further login leaves every other session as it is; in
  its own, if there is one, it writes its data when the service gave a token, and takes the old data away when the service
  gave an error and no token.
\<close>

theorem remembered_logins_verified:
  assumes "zd_reachable lib remoteUri debug s" and "zd_login lib remoteUri debug ud ps (zs_store s) = (evs, st')"
  shows "(\<forall>u t e z. getSession (zs_store s) u t = Some e \<and> te_zendesk e = Some z \<longrightarrow>
      (\<exists>ps i. z = zendesk_data remoteUri debug ps @ [(''id'', i)] \<and>
         truthy (prop_get (snd (zl_auth lib (zendesk_data remoteUri debug ps))) ''authenticity_token''))) \<and>
    (\<forall>u t. (u, t) \<noteq> (ud_user ud, ud_password ud) \<longrightarrow> getSession st' u t = getSession (zs_store s) u t) \<and>
    getSession st' (ud_user ud) (ud_password ud) =
      map_option (\<lambda>e. e\<lparr>te_zendesk := remembered (zl_auth lib (zendesk_data remoteUri debug ps)) (zendesk_data remoteUri debug ps) (te_zendesk e)\<rparr>)
        (getSession (zs_store s) (ud_user ud) (ud_password ud))"
proof (intro conjI allI impI)
  fix u t e z
  assume a: "getSession (zs_store s) u t = Some e \<and> te_zendesk e = Some z"
  then obtain es where "zs_store s u = Some es" "e \<in> set es"
    by (auto simp: getSession_def find_Some_iff split: if_splits option.splits)
  then show "\<exists>ps i. z = zendesk_data remoteUri debug ps @ [(''id'', i)] \<and>
      truthy (prop_get (snd (zl_auth lib (zendesk_data remoteUri debug ps))) ''authenticity_token'')"
    using reachable_verified [OF assms(1)] a by (auto simp: all_verified_def verified_def)
next
  fix u t
  assume "(u, t) \<noteq> (ud_user ud, ud_password ud)"
  then show "getSession st' u t = getSession (zs_store s) u t"
    using login_remembers [OF assms(2), of u t] by (cases "getSession (zs_store s) u t") auto
qed (simp add: login_remembers [OF assms(2)])

text \<open>A concrete server: one session, a Zendesk that accepts one password and creates every ticket.\<close>

definition sample_zendesk :: zendesk_lib where
  "sample_zendesk =
     \<lparr>zl_auth = (\<lambda>z. if obj_get z ''password'' = JStr ''pw'' then (JNull, JObj [(''id'', JNum 5), (''authenticity_token'', JStr ''t'')])
                     else (JObj [], JNull)),
      zl_getRequest = (\<lambda>z. (JNull, JArr [])), zl_listComments = (\<lambda>z i. (JNull, JArr [])),
      zl_create = (\<lambda>z t. (JNull, t)), zl_update = (\<lambda>z i t. (JNull, t))\<rparr>"

definition bob :: user_data where "bob = \<lparr>ud_user = ''bob'', ud_password = ''tok''\<rparr>"

definition bob_login :: jsobj where "bob_login = [(''user'', JStr ''b@x''), (''pass'', JStr ''pw'')]"

definition bob_store :: "jsobj option \<Rightarrow> zd_store" where
  "bob_store z = Map.empty(''bob'' \<mapsto> [\<lparr>te_token = ''tok'', te_expires = 9, te_zendesk = z\<rparr>])"

definition bob_data :: jsobj where
  "bob_data = zendesk_data ''https://z'' False bob_login @ [(''id'', JNum 5)]"

definition bob_state :: "jsobj option \<Rightarrow> zd_state" where
  "bob_state z = \<lparr>zs_store = bob_store z, zs_index = Map.empty(''tok'' \<mapsto> \<lparr>tp_user = ''bob'', tp_pos = 0\<rparr>)\<rparr>"

definition wrong_login :: jsobj where "wrong_login = [(''user'', JStr ''b@x''), (''pass'', JStr ''no'')]"

lemma bob_logs_in: "snd (zd_login sample_zendesk ''https://z'' False bob bob_login (bob_store None)) = bob_store (Some bob_data)"
  by (simp add: zd_login_def sample_zendesk_def bob_def bob_login_def bob_store_def bob_data_def zendesk_data_def obj_get_def
      getSession_def set_zendesk_def no_credentials_def)

lemma bob_reachable: "zd_reachable sample_zendesk ''https://z'' False (bob_state (Some bob_data))"
proof -
  have "zd_reachable sample_zendesk ''https://z'' False (bob_state None)"
    using zd_reachable.add [OF zd_reachable.start, of sample_zendesk "''https://z''" False "''bob''" "\<lparr>te_token = ''tok'', te_expires = 9\<rparr>"]
    by (simp add: bob_state_def bob_store_def zd_addUserSession_def)
  from zd_reachable.zendesk [OF this, of bob bob_login _ "bob_store (Some bob_data)"] show ?thesis
    using bob_logs_in by (simp add: bob_state_def prod_eq_iff)
qed

lemma bob_session: "getSession (bob_store z) ''bob'' ''tok'' = Some \<lparr>te_token = ''tok'', te_expires = 9, te_zendesk = z\<rparr>"
  by (simp add: getSession_def bob_store_def)

text \<open>A login with a wrong password takes the data of the first one away.\<close>

theorem remembered_logins_verified_witness:
  "(\<exists>ps i. bob_data = zendesk_data ''https://z'' False ps @ [(''id'', i)] \<and>
     truthy (prop_get (snd (zl_auth sample_zendesk (zendesk_data ''https://z'' False ps))) ''authenticity_token'')) \<and>
   getSession (snd (zd_login sample_zendesk ''https://z'' False bob wrong_login (bob_store (Some bob_data)))) ''bob'' ''tok'' =
     Some \<lparr>te_token = ''tok'', te_expires = 9, te_zendesk = None\<rparr>"
proof -
  obtain evs st' where l: "zd_login sample_zendesk ''https://z'' False bob wrong_login (zs_store (bob_state (Some bob_data))) = (evs, st')"
    by fastforce
  have forgets: "remembered (zl_auth sample_zendesk (zendesk_data ''https://z'' False wrong_login)) (zendesk_data ''https://z'' False wrong_login) z = None" for z
    by (simp add: remembered_def sample_zendesk_def wrong_login_def zendesk_data_def obj_get_def)
  have st: "zs_store (bob_state (Some bob_data)) = bob_store (Some bob_data)" by (simp add: bob_state_def)
  note both = remembered_logins_verified [OF bob_reachable l, unfolded st forgets]
  have "getSession st' ''bob'' ''tok'' = Some \<lparr>te_token = ''tok'', te_expires = 9, te_zendesk = None\<rparr>"
    using both bob_session [of "Some bob_data"] by (simp add: bob_def)
  moreover have "snd (zd_login sample_zendesk ''https://z'' False bob wrong_login (bob_store (Some bob_data))) = st'" using l st by simp
  moreover have "\<exists>ps i. bob_data = zendesk_data ''https://z'' False ps @ [(''id'', i)] \<and>
     truthy (prop_get (snd (zl_auth sample_zendesk (zendesk_data ''https://z'' False ps))) ''authenticity_token'')"
    using both bob_session [of "Some bob_data"] by fastforce
  ultimately show ?thesis by simp
qed

definition two_files :: "jsval list" where
  "two_files = [JObj [(''originalname'', JStr ''a''), (''path'', JStr ''/tmp/1'')], JObj [(''originalname'', JStr ''b''), (''path'', JStr ''/tmp/2'')]]"

definition bob_ticket :: jsobj where
  "bob_ticket = [(''subject'', JStr ''s''), (''body'', JStr ''b''), (''version'', JStr ''7''), (''severity'', JStr ''severity_2''),
     (''attachments'', JArr two_files)]"

definition upload_of :: "string \<Rightarrow> zd_reply" where
  "upload_of t = (JNull, JObj [(''upload'', JObj [(''token'', JStr t)])])"

lemma bob_logged_in: "logged_in (bob_store (Some bob_data)) bob bob_data"
  using bob_session [of "Some bob_data"] by (simp add: logged_in_def bob_def bob_data_def zendesk_data_def obj_get_def)

theorem ticket_created_once_witness:
  "zd_create sample_zendesk bob bob_ticket [upload_of ''u'', (JBool True, JNull)] (bob_store (Some bob_data)) = [] \<and>
   length (zd_create sample_zendesk bob bob_ticket [(JBool True, JNull), upload_of ''u''] (bob_store (Some bob_data))) = 1"
proof -
  have t: "ticket_ok bob_ticket" "obj_get bob_ticket ''attachments'' = JArr two_files" "two_files \<noteq> []" "uploaded_files two_files = two_files"
    by (simp_all add: ticket_ok_def bob_ticket_def obj_get_def defaultSeverities_def two_files_def uploaded_files_def)
  have l: "length [a, b] = length (uploaded_files two_files)" for a b :: zd_reply
    by (simp add: t(4)) (simp add: two_files_def)
  show ?thesis
    unfolding ticket_created_once [OF bob_logged_in t(1) disjI2 [OF t(2)] l]
    unfolding t(2) Let_def by (simp add: t(3,4) uploaded_ok_def upload_of_def upload_token_def obj_get_def)
qed

section \<open>Defects\<close>

text \<open>An incomplete login is answered twice.\<close>

theorem incomplete_login_answered_twice:
  "getSession st (ud_user ud) (ud_password ud) = Some e \<Longrightarrow> \<not> truthy (obj_get ps ''pass'') \<Longrightarrow>
   \<exists>r. fst (zd_login lib remoteUri debug ud ps st) = [ZdAnswer zd_badRequest, ZdAnswer r]"
  by (simp add: zd_login_def Let_def split: prod.split)

text \<open>A comment with \<open>solved\<close> given as the text false solves the ticket.\<close>

theorem not_solved_solves:
  "formatComment [(''body'', JStr b), (''solved'', JStr ''false'')] = formatComment [(''body'', JStr b), (''solved'', JStr ''true'')]"
  by (simp add: formatComment_def obj_get_def)

end
