(* ===== verification/Config_Files.thy ===== *)
theory Config_Files
  imports Files_Api Gateway
begin

text \<open>
  The files a server is configured with: options and their protected keys (\<open>server/utils/yml.js\<close>), the drivers of
  virtual machines (\<open>vmm.js\<close>, \<open>parseConfigFile\<close> of \<open>general.js\<close>), profiles of operating systems (\<open>profiles.js\<close>),
  labels and forecasts (\<open>config.js\<close>), and the handlers that hand them out (\<open>routes/api/system\<close>,
  \<open>routes/api/sunstone\<close>).

  The disk is the one of \<open>Files_Api\<close>; the parser of YAML is a parameter, \<open>None\<close> where it throws.  An exception is
  its message, without the words of the parser; the fields of objects are in the order in which they were written.
\<close>

section \<open>Reading\<close>

definition read_text :: "disk \<Rightarrow> string \<Rightarrow> string option" where
  "read_text d path = (case dk_node d path of Some (FileNode s) \<Rightarrow> Some s | _ \<Rightarrow> None)"

type_synonym yaml = "string \<Rightarrow> jsval option"

type_synonym 'a thrown = "string + 'a"

text \<open>\<open>Object.keys(v).length\<close>.\<close>

definition key_count :: "jsval \<Rightarrow> nat" where
  "key_count v = (case object_entries v of Inr es \<Rightarrow> length es | Inl _ \<Rightarrow> 0)"

section \<open>Options\<close>

text \<open>\<open>readYAMLFile\<close>: \<open>onError\<close> is compared with the text function, which no function equals, so that it is never
  called: a file that can not be read or parsed is an empty object.\<close>

definition readYAMLFile :: "disk \<Rightarrow> yaml \<Rightarrow> string \<Rightarrow> jsval" where
  "readYAMLFile d parse filePath =
     (if filePath \<noteq> [] \<and> existsFile d filePath
      then (case parse (the_default [] (read_text d filePath)) of Some v \<Rightarrow> v | None \<Rightarrow> JObj [])
      else JObj [])"

definition protectedConfigData :: "string list" where
  "protectedConfigData = [''support_url'', ''sunstone_prepend'', ''guacd'', ''tmpdir'', ''max_upload_file_size'', ''proxy'']"

definition boolProtectedConfigData :: "string list" where
  "boolProtectedConfigData = [''token_remote_support'']"

definition filterByProtectedKeys :: "jsval \<Rightarrow> string list \<Rightarrow> string list \<Rightarrow> jsval" where
  "filterByProtectedKeys config keys boolKeys =
     (let es = (case object_entries config of Inr es \<Rightarrow> es | Inl _ \<Rightarrow> [])
      in JObj (map (\<lambda>(k, v). (k, if k \<in> set boolKeys then JBool (truthy v) else v))
           (filter (\<lambda>(k, v). k \<notin> set keys) es)))"

text \<open>The configuration of Sunstone, with and without what is protected.\<close>

definition getSunstoneConfig :: "disk \<Rightarrow> yaml \<Rightarrow> string \<Rightarrow> bool \<Rightarrow> jsval" where
  "getSunstoneConfig d parse SUNSTONE_CONFIG includeProtectedConfig =
     (let config = readYAMLFile d parse SUNSTONE_CONFIG
      in if truthy config \<and> \<not> includeProtectedConfig
         then filterByProtectedKeys config protectedConfigData boolProtectedConfigData
         else config)"

definition sunstone_getConfig :: "disk \<Rightarrow> yaml \<Rightarrow> string \<Rightarrow> http_result" where
  "sunstone_getConfig d parse path = httpResponse (Some ok) (getSunstoneConfig d parse path False) [] []"

section \<open>Files of drivers\<close>

definition word_text :: "string \<Rightarrow> bool" where
  "word_text s \<longleftrightarrow> s \<noteq> [] \<and> list_all (\<lambda>c. let n = of_char c :: nat in
     (48 \<le> n \<and> n \<le> 57) \<or> (65 \<le> n \<and> n \<le> 90) \<or> (97 \<le> n \<and> n \<le> 122) \<or> n = 95) s"

definition ends_in :: "string \<Rightarrow> char \<Rightarrow> bool" where
  "ends_in s c \<longleftrightarrow> s \<noteq> [] \<and> last s = c"

record config_state =
  cs_config :: "(string \<times> string) list"
  cs_inBlock :: bool
  cs_currentKey :: string
  cs_blockContent :: "string list"
  cs_blockEndMarker :: char

definition new_line :: char where "new_line = CHR 0x0A"
definition quote_mark :: char where "quote_mark = CHR 0x22"

definition config_line :: "string \<Rightarrow> config_state \<Rightarrow> config_state" where
  "config_line line st =
     (if \<not> cs_inBlock st then
        (let parts = js_split (CHR ''='') (js_trim line); key = hd parts; k = js_trim key;
             val = js_trim (js_join ''='' (tl parts))
         in if key \<noteq> [] \<and> word_text k then
              (if val \<noteq> [] \<and> (hd val = CHR ''['' \<or> hd val = quote_mark) then
                 (let m = (if hd val = CHR ''['' then CHR '']'' else quote_mark)
                  in if ends_in val m \<and> length val > 1
                     then st\<lparr>cs_currentKey := k, cs_blockEndMarker := m, cs_config := AList.update k val (cs_config st)\<rparr>
                     else st\<lparr>cs_currentKey := k, cs_blockEndMarker := m, cs_inBlock := True, cs_blockContent := [val]\<rparr>)
               else st\<lparr>cs_currentKey := k, cs_config := AList.update k val (cs_config st)\<rparr>)
            else st)
      else
        (let content = cs_blockContent st @ [line]
         in if ends_in line (cs_blockEndMarker st)
            then st\<lparr>cs_config := AList.update (cs_currentKey st) (js_join [new_line] content) (cs_config st),
                    cs_inBlock := False, cs_currentKey := [], cs_blockContent := []\<rparr>
            else st\<lparr>cs_blockContent := content\<rparr>))"

definition config_start :: config_state where
  "config_start = \<lparr>cs_config = [], cs_inBlock = False, cs_currentKey = [], cs_blockContent = [], cs_blockEndMarker = CHR 0x00\<rparr>"

definition config_end :: "config_state \<Rightarrow> (string \<times> string) list" where
  "config_end st =
     (if cs_inBlock st \<and> cs_currentKey st \<noteq> []
      then AList.update (cs_currentKey st) (js_join [new_line] (cs_blockContent st)) (cs_config st)
      else cs_config st)"

definition config_lines :: "string \<Rightarrow> string list" where
  "config_lines fileContent = filter (\<lambda>line. line \<noteq> [] \<and> hd line \<noteq> CHR ''#'') (js_split new_line fileContent)"

definition parseConfigFile :: "string \<Rightarrow> (string \<times> string) list" where
  "parseConfigFile fileContent = config_end (fold config_line (config_lines fileContent) config_start)"

definition getVmmConfig :: "disk \<Rightarrow> string \<Rightarrow> jsval \<Rightarrow> jsobj thrown" where
  "getVmmConfig d dir hypervisor =
     (let configFilePath = path_join dir (''vmm_exec_'' @ to_string hypervisor @ ''.conf'')
      in if dk_node d configFilePath = None then Inl (''Configuration file not found: '' @ configFilePath)
         else case read_text d configFilePath of
             None \<Rightarrow> Inl (''Error parsing config file: '' @ configFilePath)
           | Some fileContent \<Rightarrow> Inr (map (\<lambda>(k, v). (k, JStr v)) (parseConfigFile fileContent)))"

definition getVmmConfigHandler :: "disk \<Rightarrow> string \<Rightarrow> jsobj \<Rightarrow> http_result" where
  "getVmmConfigHandler d dir ps =
     (case getVmmConfig d dir (obj_get ps ''hypervisor'') of
        Inl _ \<Rightarrow> httpResponse (Some internalServerError) (JStr ''Failed to load vmm_exec config'') [] []
      | Inr vmmConfig \<Rightarrow>
          if vmmConfig = [] then httpResponse (Some notFound) (JStr ''No valid vmm_exec config found'') [] []
          else httpResponse (Some ok) (JObj vmmConfig) [] [])"

section \<open>Profiles\<close>

definition profile_names :: "(string \<times> node) list \<Rightarrow> string list" where
  "profile_names items =
     map (\<lambda>f. take (length f - length ''.yaml'') f) (filter (\<lambda>f. path_ext f = ''.yaml'') (map fst items))"

definition getProfiles :: "disk \<Rightarrow> yaml \<Rightarrow> string \<Rightarrow> jsval \<Rightarrow> jsval thrown" where
  "getProfiles d parse dir i0 =
     (let i = (if i0 = JUndef then JStr ''-1'' else i0); one = (truthy i \<and> i \<noteq> JStr ''-1'');
          profileFilePath = (if one then path_join dir (to_string i @ ''.yaml'') else dir)
      in if dir = [] then Inl ''OS_PROFILES path is not defined.''
         else case dk_node d profileFilePath of
             None \<Rightarrow> Inl (if one then ''OS profile not found'' else ''No OS profiles found'')
           | Some (FileNode text) \<Rightarrow>
               (case parse text of Some v \<Rightarrow> Inr v | None \<Rightarrow> Inl ''Error parsing profile: '')
           | Some (DirNode items) \<Rightarrow>
               if profile_names items = [] then Inl ''No OS profiles found''
               else Inr (JArr (map JStr (profile_names items))))"

definition getTemplateProfiles :: "disk \<Rightarrow> yaml \<Rightarrow> string \<Rightarrow> jsobj \<Rightarrow> http_result" where
  "getTemplateProfiles d parse dir ps =
     (let i = obj_get ps ''id''
      in case getProfiles d parse dir i of
          Inl m \<Rightarrow> httpResponse (Some internalServerError) (JStr (if m \<noteq> [] then m else ''Error loading OS profiles'')) [] []
        | Inr found \<Rightarrow>
            if i = JStr ''-1'' then
              (case found of
                 JArr (x # xs) \<Rightarrow> httpResponse (Some ok) found [] []
               | _ \<Rightarrow> httpResponse (Some notFound) (JStr ''No OS profiles found'') [] [])
            else if \<not> truthy found \<or> key_count found = 0 then httpResponse (Some notFound) (JStr ''OS profile not found'') [] []
            else httpResponse (Some ok) found [] [])"

section \<open>Labels and forecasts\<close>

definition word_char :: "char \<Rightarrow> bool" where
  "word_char c \<longleftrightarrow> (let n = of_char c :: nat in (48 \<le> n \<and> n \<le> 57) \<or> (65 \<le> n \<and> n \<le> 90) \<or> (97 \<le> n \<and> n \<le> 122))"

definition fmtKey :: "string \<Rightarrow> string" where
  "fmtKey key = ''$'' @ filter word_char key"

fun removeNulls :: "nat \<Rightarrow> jsval \<Rightarrow> jsval" where
  "removeNulls depth JNull = JObj []"
| "removeNulls depth (JArr xs) = JArr (map (removeNulls (depth + 1)) xs)"
| "removeNulls depth (JObj fs) =
     JObj (obj_spread [] (map (\<lambda>(k, v). (if depth > 0 then fmtKey k else k, removeNulls (depth + 1) v)) fs))"
| "removeNulls depth v = v"

definition getDefaultLabels :: "disk \<Rightarrow> yaml \<Rightarrow> string \<Rightarrow> jsval thrown" where
  "getDefaultLabels d parse path =
     (if path = [] then Inr JUndef
      else case dk_node d path of
          None \<Rightarrow> Inl ''No default labels found''
        | Some (DirNode _) \<Rightarrow> Inr JUndef
        | Some (FileNode text) \<Rightarrow>
            (case parse text of Some v \<Rightarrow> Inr (removeNulls 0 v) | None \<Rightarrow> Inl ''No default labels found''))"

definition getDefaultLabelsHandler :: "disk \<Rightarrow> yaml \<Rightarrow> string \<Rightarrow> http_result" where
  "getDefaultLabelsHandler d parse path =
     (case getDefaultLabels d parse path of
        Inl _ \<Rightarrow> httpResponse (Some internalServerError) (JStr []) [] []
      | Inr v \<Rightarrow>
          let labels = (if nullish v then JObj [] else v)
          in if \<not> truthy labels \<or> key_count labels = 0 then httpResponse (Some noContent) (JStr ''No default labels found'') [] []
             else httpResponse (Some ok) labels [] [])"

text \<open>The probes of the drivers: directories with the ending, each with its file of forecasts if it has one.\<close>

definition probes_ending :: string where "probes_ending = ''-probes.d''"

definition forecast_dirs :: "(string \<times> node) list \<Rightarrow> string list" where
  "forecast_dirs items =
     map fst (filter (\<lambda>(name, n). (case n of DirNode _ \<Rightarrow> True | FileNode _ \<Rightarrow> False) \<and> starts_with (rev name) (rev probes_ending)) items)"

fun forecast_configs :: "disk \<Rightarrow> yaml \<Rightarrow> string \<Rightarrow> string list \<Rightarrow> jsobj \<Rightarrow> jsobj thrown" where
  "forecast_configs d parse base [] acc = Inr acc"
| "forecast_configs d parse base (dir # dirs) acc =
     (let path = path_join base (dir @ ''/forecast.conf'')
      in case dk_node d path of
          None \<Rightarrow> forecast_configs d parse base dirs acc
        | Some n \<Rightarrow>
            (case Option.bind (case n of FileNode s \<Rightarrow> Some s | DirNode _ \<Rightarrow> None) parse of
               Some v \<Rightarrow> forecast_configs d parse base dirs (AList.update (replace_first probes_ending dir) v acc)
             | None \<Rightarrow> Inl (''Error parsing config file: '' @ path)))"

definition getForecastConfig :: "disk \<Rightarrow> yaml \<Rightarrow> string \<Rightarrow> jsobj thrown" where
  "getForecastConfig d parse remotesImPath =
     (case dk_node d remotesImPath of
        Some (DirNode items) \<Rightarrow>
          if forecast_dirs items = [] then Inl ''No forecast configuration files found''
          else forecast_configs d parse remotesImPath (forecast_dirs items) []
      | _ \<Rightarrow> Inl ''scandir'')"

section \<open>Views\<close>

text \<open>\<open>getDirectories\<close>: the names of the directories, and whether the directory could be read.\<close>

definition getDirectories :: "disk \<Rightarrow> string \<Rightarrow> string list \<times> bool" where
  "getDirectories d dir =
     (if dir = [] then ([], True)
      else case dk_node d dir of
          Some (DirNode items) \<Rightarrow> (map fst (filter (\<lambda>(name, n). case n of DirNode _ \<Rightarrow> True | FileNode _ \<Rightarrow> False) items), True)
        | _ \<Rightarrow> ([], False))"

definition view_description :: "jsval \<Rightarrow> string \<Rightarrow> jsval" where
  "view_description viewsData name =
     (let v = prop_get viewsData name
      in if truthy v
         then JObj [(''type'', JStr name), (''name'', prop_get v ''name''), (''description'', prop_get v ''description'')]
         else JObj [(''type'', JStr name), (''name'', JStr name)])"

text \<open>The answers of the handler, which goes on after the first.  A file of views that does not parse throws.\<close>

definition getAvailableViews :: "disk \<Rightarrow> yaml \<Rightarrow> string \<Rightarrow> string \<Rightarrow> http_result list \<times> bool" where
  "getAvailableViews d parse SUNSTONE_PATH SUNSTONE_VIEWS =
     (let (dirs, readable) = getDirectories d SUNSTONE_PATH;
          first = (if readable then [] else [httpResponse (Some notFound) (JBool True) [] []])
      in if existsFile d SUNSTONE_VIEWS
         then (case parse (the_default [] (read_text d SUNSTONE_VIEWS)) of
             None \<Rightarrow> (first, False)
           | Some v \<Rightarrow>
               let viewsData = prop_get (if truthy v then v else JObj []) ''views''
               in (first @ [httpResponse (Some ok) (JArr (map (view_description viewsData) dirs)) [] []], True))
         else (first @ [httpResponse (Some ok) (JArr (map (\<lambda>n. JObj [(''name'', JStr n)]) dirs)) [] []], True))"

section \<open>What the options give away\<close>

lemma obj_get_filter:
  "obj_get (map (\<lambda>(k, v). (k, f k v)) (filter (\<lambda>(k, v). k \<notin> S) fs)) k =
     (if k \<in> S then JUndef else case map_of fs k of None \<Rightarrow> JUndef | Some v \<Rightarrow> f k v)"
  by (induction fs) (auto simp: obj_get_def)

lemma filtered_key:
  "prop_get (filterByProtectedKeys config keys boolKeys) k =
     (if k \<in> set keys then JUndef
      else case map_of (case object_entries config of Inr es \<Rightarrow> es | Inl _ \<Rightarrow> []) k of
          None \<Rightarrow> JUndef | Some v \<Rightarrow> if k \<in> set boolKeys then JBool (truthy v) else v)"
  by (simp add: filterByProtectedKeys_def Let_def obj_get_filter [where f = "\<lambda>k v. if k \<in> set boolKeys then JBool (truthy v) else v"])

text \<open>
  C17. The configuration handed out to clients: whatever the file holds, no protected option is in it, the token of
  the support is in it as a flag alone, and every other option is there with its value.
\<close>

theorem protected_config_hidden:
  "list_all (\<lambda>k. prop_get (getSunstoneConfig d parse path False) k = JUndef) protectedConfigData \<and>
   prop_get (getSunstoneConfig d parse path False) ''token_remote_support'' \<in> {JUndef, JBool True, JBool False} \<and>
   (readYAMLFile d parse path = JObj fs \<longrightarrow> k \<notin> set (protectedConfigData @ boolProtectedConfigData) \<longrightarrow>
      prop_get (getSunstoneConfig d parse path False) k = obj_get fs k)"
proof (intro conjI impI)
  let ?c = "readYAMLFile d parse path"
  have falsy: "prop_get v k = JUndef" if "\<not> truthy v" for v k using that by (cases v) auto
  show "list_all (\<lambda>k. prop_get (getSunstoneConfig d parse path False) k = JUndef) protectedConfigData"
    by (auto simp: list_all_iff getSunstoneConfig_def Let_def filtered_key falsy)
  show "prop_get (getSunstoneConfig d parse path False) ''token_remote_support'' \<in> {JUndef, JBool True, JBool False}"
    by (auto simp: getSunstoneConfig_def Let_def filtered_key falsy boolProtectedConfigData_def split: option.split)
  assume "?c = JObj fs" and "k \<notin> set (protectedConfigData @ boolProtectedConfigData)"
  then show "prop_get (getSunstoneConfig d parse path False) k = obj_get fs k"
    by (simp add: getSunstoneConfig_def Let_def filtered_key object_entries_def obj_get_def split: option.split)
qed

text \<open>A concrete disk with one file.\<close>

definition one_file :: "string \<Rightarrow> string \<Rightarrow> disk" where
  "one_file path text = \<lparr>dk_node = (\<lambda>p. if p = path then Some (FileNode text) else None), dk_mkdirs = (\<lambda>_. None),
     dk_move = (\<lambda>_ _ _. None), dk_remove = (\<lambda>_. None)\<rparr>"

definition sample_options :: jsobj where
  "sample_options = [(''support_url'', JStr ''u''), (''token_remote_support'', JStr ''secret''), (''themes'', JStr ''dark'')]"

theorem protected_config_hidden_witness:
  "prop_get (getSunstoneConfig (one_file ''/c'' ''y'') (\<lambda>_. Some (JObj sample_options)) ''/c'' False) ''themes'' = JStr ''dark'' \<and>
   prop_get (getSunstoneConfig (one_file ''/c'' ''y'') (\<lambda>_. Some (JObj sample_options)) ''/c'' False) ''support_url'' = JUndef"
proof -
  have "readYAMLFile (one_file ''/c'' ''y'') (\<lambda>_. Some (JObj sample_options)) ''/c'' = JObj sample_options"
    by (simp add: readYAMLFile_def one_file_def existsFile_def)
  moreover have "''themes'' \<notin> set (protectedConfigData @ boolProtectedConfigData)"
    by (simp add: protectedConfigData_def boolProtectedConfigData_def)
  ultimately show ?thesis
    using protected_config_hidden [of "one_file ''/c'' ''y''" "\<lambda>_. Some (JObj sample_options)" "''/c''" sample_options "''themes''"]
    by (simp add: protectedConfigData_def sample_options_def obj_get_def)
qed

theorem unreadable_config_is_ok:
  assumes "\<not> existsFile d path \<or> parse (the_default [] (read_text d path)) = None"
  shows "sunstone_getConfig d parse path = httpResponse (Some ok) (JObj []) [] []"
  using assms
  by (auto simp: sunstone_getConfig_def getSunstoneConfig_def readYAMLFile_def filterByProtectedKeys_def object_entries_def Let_def)

section \<open>Files of drivers are read as they are written\<close>

text \<open>An option on one line, or a block whose first line opens it and whose last line closes it.\<close>

datatype config_entry = Line string string | Block string string "string list" string

fun entry_key :: "config_entry \<Rightarrow> string" where
  "entry_key (Line k v) = k"
| "entry_key (Block k f ms l) = k"

fun entry_value :: "config_entry \<Rightarrow> string" where
  "entry_value (Line k v) = v"
| "entry_value (Block k f ms l) = js_join [new_line] (f # ms @ [l])"

text \<open>A line that sets an option: the name, an equals sign and the value, with blanks around each.\<close>

definition option_line :: "string \<Rightarrow> string \<Rightarrow> string \<Rightarrow> bool" where
  "option_line k v line \<longleftrightarrow> CHR ''='' \<in> set line \<and> js_trim (takeWhile (\<lambda>c. c \<noteq> CHR ''='') line) = k \<and>
     js_trim (tl (dropWhile (\<lambda>c. c \<noteq> CHR ''='') line)) = v"

fun entry_lines :: "config_entry \<Rightarrow> string list \<Rightarrow> bool" where
  "entry_lines (Line k v) ls = (case ls of [line] \<Rightarrow> option_line k v line | _ \<Rightarrow> False)"
| "entry_lines (Block k f ms l) ls = (case ls of line # rest \<Rightarrow> option_line k f line \<and> rest = ms @ [l] | [] \<Rightarrow> False)"

definition block_end :: "string \<Rightarrow> char" where
  "block_end v = (if hd v = CHR ''['' then CHR '']'' else quote_mark)"

definition opens :: "string \<Rightarrow> bool" where
  "opens v \<longleftrightarrow> v \<noteq> [] \<and> (hd v = CHR ''['' \<or> hd v = quote_mark)"

definition closed :: "string \<Rightarrow> bool" where
  "closed v \<longleftrightarrow> ends_in v (block_end v) \<and> length v > 1"

text \<open>Names start with a letter: the fields of an object that are numbers come first whatever their order, and
  \<open>__proto__\<close> is none.\<close>

definition option_name :: "string \<Rightarrow> bool" where
  "option_name k \<longleftrightarrow> word_text k \<and> (let n = of_char (hd k) :: nat in 65 \<le> n \<and> n \<noteq> 95)"

fun entry_ok :: "config_entry \<Rightarrow> bool" where
  "entry_ok (Line k v) = (option_name k \<and> (opens v \<longrightarrow> closed v))"
| "entry_ok (Block k f ms l) =
     (option_name k \<and> opens f \<and> \<not> closed f \<and> list_all (\<lambda>m. \<not> ends_in m (block_end f)) ms \<and> ends_in l (block_end f))"

definition trim_end :: "string \<Rightarrow> string" where
  "trim_end s = rev (dropWhile is_space (rev s))"

lemma trim_split: "js_trim s = trim_end (dropWhile is_space s)"
  by (simp add: js_trim_def trim_end_def)

lemma trim_start [simp]: "js_trim (dropWhile is_space s) = js_trim s"
proof -
  have "dropWhile is_space (dropWhile is_space s) = dropWhile is_space s" by (induction s) simp_all
  then show ?thesis by (simp add: trim_split)
qed

lemma trim_end_append: "c \<in> set b \<Longrightarrow> \<not> is_space c \<Longrightarrow> trim_end (a @ b) = a @ trim_end b"
  by (simp add: trim_end_def dropWhile_append1 [of c])

lemma trim_end_Cons: "\<not> is_space c \<Longrightarrow> trim_end (c # s) = c # trim_end s"
  by (simp add: trim_end_def dropWhile_append)

lemma trim_end_Nil [simp]: "trim_end [] = []"
  by (simp add: trim_end_def)

lemma trim_end_idem: "trim_end (trim_end s) = trim_end s"
proof -
  have "dropWhile is_space (dropWhile is_space t) = dropWhile is_space t" for t by (induction t) simp_all
  then show ?thesis by (simp add: trim_end_def)
qed

lemma trim_trim_end [simp]: "js_trim (trim_end s) = js_trim s"
proof (induction s)
  case (Cons c s)
  show ?case
  proof (cases "is_space c")
    case True
    show ?thesis
    proof (cases "\<exists>d \<in> set s. \<not> is_space d")
      case True
      then obtain d where "d \<in> set s" "\<not> is_space d" by blast
      then have "trim_end (c # s) = c # trim_end s" using trim_end_append [of d s "[c]"] by simp
      then show ?thesis using Cons \<open>is_space c\<close> by (simp add: trim_split)
    next
      case False
      then have "dropWhile is_space (rev (c # s)) = []" "dropWhile is_space (c # s) = []"
        using \<open>is_space c\<close> by (auto simp: dropWhile_eq_Nil_conv)
      then have "trim_end (c # s) = []" "js_trim (c # s) = []" "js_trim [] = []" by (simp_all only: js_trim_def trim_end_def rev.simps dropWhile.simps)
      then show ?thesis by simp
    qed
  next
    case False
    then have "dropWhile is_space (trim_end (c # s)) = trim_end (c # s)" by (simp add: trim_end_Cons)
    then show ?thesis using False by (simp add: trim_split trim_end_idem)
  qed
qed (simp add: trim_end_def)

lemma split_option:
  assumes "option_line k v line" and "word_text k"
  shows "\<exists>a b. js_split (CHR ''='') (js_trim line) = a # js_split (CHR ''='') b \<and> a \<noteq> [] \<and> js_trim a = k \<and> js_trim b = v"
proof -
  let ?a = "takeWhile (\<lambda>c. c \<noteq> CHR ''='') line" and ?b = "tl (dropWhile (\<lambda>c. c \<noteq> CHR ''='') line)"
  have "dropWhile (\<lambda>c. c \<noteq> CHR ''='') line = CHR ''='' # ?b"
    using assms(1) hd_dropWhile [of "\<lambda>c. c \<noteq> CHR ''=''" line] by (cases "dropWhile (\<lambda>c. c \<noteq> CHR ''='') line") (auto simp: option_line_def dropWhile_eq_Nil_conv)
  then have line: "line = ?a @ CHR ''='' # ?b" by (metis takeWhile_dropWhile_id)
  have k: "js_trim ?a = k" "js_trim ?b = v" "k \<noteq> []" using assms by (auto simp: option_line_def word_text_def)
  have a0: "dropWhile is_space ?a \<noteq> []" using k(1,3) by (metis trim_split trim_end_Nil)
  have sp: "\<not> is_space (CHR ''='')" by (simp add: is_space_def)
  have "dropWhile is_space (?a @ CHR ''='' # ?b) = dropWhile is_space ?a @ CHR ''='' # ?b"
    using a0 by (auto simp: dropWhile_eq_Nil_conv intro: dropWhile_append1)
  then have "js_trim line = dropWhile is_space ?a @ trim_end (CHR ''='' # ?b)"
    using line sp trim_end_append [of "CHR ''=''" "CHR ''='' # ?b"] by (metis list.set_intros(1) trim_split)
  moreover have "trim_end (CHR ''='' # ?b) = CHR ''='' # trim_end ?b"
    using sp by (rule trim_end_Cons)
  moreover have "CHR ''='' \<notin> set (dropWhile is_space ?a)" using set_dropWhileD [of _ is_space ?a] set_takeWhileD by fastforce
  ultimately have "js_split (CHR ''='') (js_trim line) = dropWhile is_space ?a # js_split (CHR ''='') (trim_end ?b)"
    using js_split_append [of "CHR ''=''" "dropWhile is_space ?a" "trim_end ?b"] by simp
  then show ?thesis using k a0 by (intro exI [of _ "dropWhile is_space ?a"] exI [of _ "trim_end ?b"]) simp
qed

lemma config_line_option:
  assumes "option_line k v line" and "word_text k" and "\<not> cs_inBlock st"
  shows "config_line line st =
    (if opens v then
       (if closed v then st\<lparr>cs_currentKey := k, cs_blockEndMarker := block_end v, cs_config := AList.update k v (cs_config st)\<rparr>
        else st\<lparr>cs_currentKey := k, cs_blockEndMarker := block_end v, cs_inBlock := True, cs_blockContent := [v]\<rparr>)
     else st\<lparr>cs_currentKey := k, cs_config := AList.update k v (cs_config st)\<rparr>)"
proof -
  obtain a b where ab: "js_split (CHR ''='') (js_trim line) = a # js_split (CHR ''='') b" "a \<noteq> []" "js_trim a = k" "js_trim b = v"
    using split_option [OF assms(1,2)] by blast
  have "js_join ''='' (tl (js_split (CHR ''='') (js_trim line))) = b" "hd (js_split (CHR ''='') (js_trim line)) = a"
    using ab(1) js_join_split [of "CHR ''=''" b] by simp_all
  then show ?thesis
    using assms(2,3) ab(2-4) unfolding config_line_def Let_def
    by (simp only: opens_def closed_def block_end_def if_True if_False simp_thms)
qed

text \<open>A whole entry takes the reader from outside of a block to outside of a block.\<close>

lemma block_middle:
  assumes "cs_inBlock st" and "list_all (\<lambda>m. \<not> ends_in m (cs_blockEndMarker st)) ms"
  shows "fold config_line ms st = st\<lparr>cs_blockContent := cs_blockContent st @ ms\<rparr>"
  using assms
proof (induction ms arbitrary: st)
  case (Cons m ms)
  have "config_line m st = st\<lparr>cs_blockContent := cs_blockContent st @ [m]\<rparr>"
    using Cons.prems by (simp add: config_line_def Let_def)
  then show ?case using Cons.prems Cons.IH [of "st\<lparr>cs_blockContent := cs_blockContent st @ [m]\<rparr>"] by simp
qed simp

lemma entry_read:
  assumes "entry_ok e" and "entry_lines e ls" and "\<not> cs_inBlock st"
  shows "\<not> cs_inBlock (fold config_line ls st) \<and>
    cs_config (fold config_line ls st) = AList.update (entry_key e) (entry_value e) (cs_config st)"
proof (cases e)
  case (Line k v)
  then obtain line where "ls = [line]" "option_line k v line" using assms(2) by (auto split: list.splits)
  then show ?thesis using assms(1,3) Line config_line_option [of k v line st] by (auto simp: option_name_def)
next
  case (Block k f ms l)
  let ?st = "st\<lparr>cs_currentKey := k, cs_blockEndMarker := block_end f, cs_inBlock := True, cs_blockContent := [f]\<rparr>"
  obtain line where ls: "ls = line # ms @ [l]" "option_line k f line" using assms(2) Block by (auto split: list.splits)
  have ok: "word_text k" "opens f" "\<not> closed f" "ends_in l (block_end f)" "list_all (\<lambda>m. \<not> ends_in m (block_end f)) ms"
    using assms(1) Block by (auto simp: option_name_def)
  have "config_line line st = ?st" using ok assms(3) ls(2) config_line_option [of k f line st] by simp
  moreover have "fold config_line ms ?st = ?st\<lparr>cs_blockContent := f # ms\<rparr>"
    using block_middle [of ?st ms] ok(5) by simp
  moreover have "config_line l (?st\<lparr>cs_blockContent := f # ms\<rparr>) =
      ?st\<lparr>cs_blockContent := [], cs_config := AList.update k (js_join [new_line] (f # ms @ [l])) (cs_config st),
        cs_inBlock := False, cs_currentKey := []\<rparr>"
    using ok(4) by (simp add: config_line_def)
  ultimately show ?thesis by (simp add: Block ls(1))
qed

lemma entries_read:
  "list_all2 entry_lines es lss \<Longrightarrow> list_all entry_ok es \<Longrightarrow> \<not> cs_inBlock st \<Longrightarrow>
   \<not> cs_inBlock (fold config_line (concat lss) st) \<and>
   cs_config (fold config_line (concat lss) st) = obj_spread (cs_config st) (map (\<lambda>e. (entry_key e, entry_value e)) es)"
proof (induction es lss arbitrary: st rule: list_all2_induct)
  case Nil
  then show ?case by (simp add: obj_spread_def)
next
  case (Cons e es ls lss)
  then show ?case using entry_read [of e ls st] by (simp add: obj_spread_def)
qed

text \<open>
  C39. A file of options is read as it is written: options on a line and blocks of lines, with the comments and the
  empty lines between them, come back with their names, their values and their order.  A line that sets an option has
  blanks around the name, the equals sign and the value, as it likes; names are words that start with a letter, each
  used once.  A value that opens a bracket or a quotation closes it on its line, or starts a block: the first later
  line that ends in the closing character, with no blank after it, ends the block.  A comment starts in the first column.
\<close>

theorem config_file_read_back:
  assumes "list_all entry_ok es" and "distinct (map entry_key es)" and "ls \<noteq> []" and "list_all (\<lambda>l. new_line \<notin> set l) ls"
    and "filter (\<lambda>l. l \<noteq> [] \<and> hd l \<noteq> CHR ''#'') ls = concat lss" and "list_all2 entry_lines es lss"
  shows "parseConfigFile (js_join [new_line] ls) = map (\<lambda>e. (entry_key e, entry_value e)) es"
proof -
  have "config_lines (js_join [new_line] ls) = concat lss"
    using js_split_join [OF assms(3), of new_line] assms(4,5) by (simp add: config_lines_def list_all_iff)
  moreover have "\<not> cs_inBlock config_start" "cs_config config_start = []" by (simp_all add: config_start_def)
  moreover have "obj_spread [] (map (\<lambda>e. (entry_key e, entry_value e)) es) = map (\<lambda>e. (entry_key e, entry_value e)) es"
    using obj_spread_fresh [of "map (\<lambda>e. (entry_key e, entry_value e)) es" "[]"] assms(2) by (simp add: comp_def)
  ultimately show ?thesis
    using entries_read [OF assms(6,1), of config_start] by (simp add: parseConfigFile_def config_end_def)
qed

text \<open>Lines of the driver file for KVM.\<close>

definition quoted_text :: "string \<Rightarrow> string" where
  "quoted_text s = quote_mark # s @ [quote_mark]"

definition sample_entries :: "config_entry list" where
  "sample_entries =
     [Line ''MEMORY_SLOTS'' ''16'',
      Block ''OS'' ''['' [''    ARCH    = '' @ quoted_text ''x86_64'' @ '','', ''    MACHINE = '' @ quoted_text ''q35''] '']'',
      Block ''TIMERS'' [quote_mark] [] (''    <kvmclock/>'' @ [quote_mark])]"

definition sample_lines :: "string list" where
  "sample_lines =
     [''# kvm'', ''MEMORY_SLOTS = 16'', [], ''OS = ['', ''    ARCH    = '' @ quoted_text ''x86_64'' @ '','',
      ''    MACHINE = '' @ quoted_text ''q35'', '']'', ''TIMERS = '' @ [quote_mark], ''    <kvmclock/>'' @ [quote_mark]]"

definition sample_parts :: "string list list" where
  "sample_parts = [[''MEMORY_SLOTS = 16''],
     [''OS = ['', ''    ARCH    = '' @ quoted_text ''x86_64'' @ '','', ''    MACHINE = '' @ quoted_text ''q35'', '']''],
     [''TIMERS = '' @ [quote_mark], ''    <kvmclock/>'' @ [quote_mark]]]"

theorem config_file_read_back_witness:
  "map fst (parseConfigFile (js_join [new_line] sample_lines)) = [''MEMORY_SLOTS'', ''OS'', ''TIMERS''] \<and>
   map_of (parseConfigFile (js_join [new_line] sample_lines)) ''MEMORY_SLOTS'' = Some ''16'' \<and>
   map_of (parseConfigFile (js_join [new_line] sample_lines)) ''OS'' =
     Some (js_join [new_line] [''['', ''    ARCH    = '' @ quoted_text ''x86_64'' @ '','', ''    MACHINE = '' @ quoted_text ''q35'', '']''])"
proof -
  have "list_all entry_ok sample_entries" "distinct (map entry_key sample_entries)" "sample_lines \<noteq> []"
    "list_all (\<lambda>l. new_line \<notin> set l) sample_lines"
    "filter (\<lambda>l. l \<noteq> [] \<and> hd l \<noteq> CHR ''#'') sample_lines = concat sample_parts" "list_all2 entry_lines sample_entries sample_parts"
    by code_simp+
  from config_file_read_back [OF this] show ?thesis by (simp add: sample_entries_def)
qed

section \<open>Labels\<close>

fun has_null :: "jsval \<Rightarrow> bool" where
  "has_null JNull = True"
| "has_null (JArr xs) = list_ex has_null xs"
| "has_null (JObj fs) = list_ex (\<lambda>(k, v). has_null v) fs"
| "has_null v = False"

text \<open>The labels have no null, at any depth.\<close>

theorem labels_without_nulls: "\<not> has_null (removeNulls depth v)"
proof (induction depth v rule: removeNulls.induct)
  case (2 depth xs)
  then show ?case by (auto simp: list_ex_iff)
next
  case (3 depth fs)
  let ?gs = "map (\<lambda>(k, v). (if depth > 0 then fmtKey k else k, removeNulls (depth + 1) v)) fs"
  have "\<not> has_null v" if "(k, v) \<in> set ?gs" for k v using 3 that by auto
  moreover have "set (obj_spread [] ?gs) \<subseteq> set ?gs" using set_obj_spread [of "[]" ?gs] by simp
  ultimately have "\<And>p. p \<in> set (obj_spread [] ?gs) \<Longrightarrow> \<not> (case p of (k, v) \<Rightarrow> has_null v)" by blast
  then have "\<not> list_ex (\<lambda>(k, v). has_null v) (obj_spread [] ?gs)" unfolding list_ex_iff by blast
  then show ?case by simp
qed simp_all

section \<open>Defects\<close>

text \<open>The name of the hypervisor is put into a path: any user who is logged in reads every file that ends in
  \<open>.conf\<close>, among them the one of the daemon with the password of its database.\<close>

theorem driver_name_climbs:
  "path_join ''/etc/one/vmm_exec'' (''vmm_exec_'' @ ''x/../../oned'' @ ''.conf'') = ''/etc/one/oned.conf''"
  by code_simp

theorem daemon_config_readable:
  assumes "read_text d ''/etc/one/oned.conf'' = Some text" and "parseConfigFile text \<noteq> []"
  shows "getVmmConfigHandler d ''/etc/one/vmm_exec'' [(''hypervisor'', JStr ''x/../../oned'')] =
    httpResponse (Some ok) (JObj (map (\<lambda>(k, v). (k, JStr v)) (parseConfigFile text))) [] []"
proof -
  have "dk_node d ''/etc/one/oned.conf'' \<noteq> None" using assms(1) by (simp add: read_text_def split: option.splits)
  then have "getVmmConfig d ''/etc/one/vmm_exec'' (JStr ''x/../../oned'') = Inr (map (\<lambda>(k, v). (k, JStr v)) (parseConfigFile text))"
    unfolding getVmmConfig_def Let_def to_string.simps driver_name_climbs using assms(1) by simp
  then show ?thesis using assms(2) by (simp add: getVmmConfigHandler_def obj_get_def)
qed

text \<open>The default of the hypervisor is not applied: a request without one asks for the driver undefined.\<close>

theorem driver_default_unused:
  "dk_node d (path_join dir ''vmm_exec_undefined.conf'') = None \<Longrightarrow>
   hr_id (getVmmConfigHandler d dir (getRequestParameters [(''hypervisor'', arg from_query (JStr ''kvm''))] [(from_query, JObj [])])) = 500"
  by (simp add: getVmmConfigHandler_def getVmmConfig_def getRequestParameters_def arg_def from_defs obj_get_def internalServerError_def)

text \<open>Without the directory of the views two answers are given.\<close>

theorem views_answered_twice:
  "dir \<noteq> [] \<Longrightarrow> dk_node d dir = None \<Longrightarrow> \<not> existsFile d views \<Longrightarrow>
   map hr_id (fst (getAvailableViews d parse dir views)) = [404, 200]"
  by (simp add: getAvailableViews_def getDirectories_def notFound_def ok_def)

end
