(* ===== verification/Admin_Api.thy ===== *)
theory Admin_Api
  imports Auth_Security Vm_Api Config_Files
begin

text \<open>
  Handlers that act on the installation: hosts (\<open>server/routes/api/host\<close>), clusters (\<open>cluster\<close>), the configuration
  of the daemon (\<open>system\<close>), marketplace apps (\<open>marketapp\<close>), uploads of images (\<open>image\<close>) and the subscription
  (\<open>support\<close>).

  A handler is the list of what it does, in its order: calls of OpenNebula with the credentials they are made with,
  commands, requests, answers and exceptions.  OpenNebula is behind \<open>opennebulaConnect\<close>; processes and the server of
  subscriptions are parameters.  Calls that are started together are answered after the code that starts them; their
  callbacks do not depend on each other and are in the order of the calls.  The number NaN is written as null.
\<close>

section \<open>Calls\<close>

datatype ad_event =
    AdCall string string one_request
  | AdAnswer http_result
  | AdThrow js_error
  | AdSpawn string "string list"
  | AdShell string string

record admin_env =
  ad_auth :: auth_env
  ad_one :: one_lib
  ad_zone :: string
  ad_spawn :: "string \<Rightarrow> string list \<Rightarrow> process"
  ad_prepend :: string
  ad_downloader :: string

text \<open>What is started, and what the callbacks are given.\<close>

definition issued :: "admin_env \<Rightarrow> string \<Rightarrow> string \<Rightarrow> one_request \<Rightarrow> ad_event list" where
  "issued env u p q = (if u \<noteq> [] \<and> p \<noteq> [] \<and> ad_zone env \<noteq> [] \<and> oq_action q \<noteq> [] then [AdCall u p q] else [])"

definition replies :: "admin_env \<Rightarrow> string \<Rightarrow> string \<Rightarrow> one_request \<Rightarrow> (jsval \<times> jsval) list" where
  "replies env u p q = fst (opennebulaConnect (ad_one env) u p (ad_zone env) q initial_globals)"

definition returned :: "admin_env \<Rightarrow> string \<Rightarrow> string \<Rightarrow> one_request \<Rightarrow> (jsval \<Rightarrow> jsval \<Rightarrow> ad_event list) \<Rightarrow> ad_event list" where
  "returned env u p q k = concat (map (\<lambda>(err, value). k err value) (replies env u p q))"

definition connect :: "admin_env \<Rightarrow> string \<Rightarrow> string \<Rightarrow> one_request \<Rightarrow> (jsval \<Rightarrow> jsval \<Rightarrow> ad_event list) \<Rightarrow> ad_event list" where
  "connect env u p q k = issued env u p q @ returned env u p q k"

definition query_of :: "string \<Rightarrow> jsval list \<Rightarrow> one_request" where
  "query_of action ps = \<lparr>oq_action = action, oq_parameters = ps, oq_fillHookResource = True, oq_parseXML = True\<rparr>"

text \<open>\<open>const { k = d } = value\<close> with a value that is an empty object when it is left out: null throws.\<close>

definition field_default :: "string \<Rightarrow> jsval \<Rightarrow> jsval \<Rightarrow> (jsval \<Rightarrow> ad_event list) \<Rightarrow> ad_event list" where
  "field_default k d value f =
     (if value = JNull then [AdThrow TypeError] else f (let v = prop_get value k in if v = JUndef then d else v))"

text \<open>\<open>parseInt\<close>.\<close>

definition int_of :: "jsval \<Rightarrow> jsval" where
  "int_of v = int_arg (to_string v)"

text \<open>The server administrator; credentials that can not be read throw, and the token is an object, never falsy.\<close>

definition server_admin_of :: "auth_env \<Rightarrow> (server_admin \<times> token_data) option" where
  "server_admin_of env =
     (case fst (getServerAdmin env \<lparr>glob = initial_globals, calls = []\<rparr>) of Inl _ \<Rightarrow> None | Inr p \<Rightarrow> Some p)"

definition as_server_admin :: "admin_env \<Rightarrow> (string \<Rightarrow> string \<Rightarrow> ad_event list) \<Rightarrow> ad_event list" where
  "as_server_admin env f =
     (case server_admin_of (ad_auth env) of
        None \<Rightarrow> [AdThrow TypeError]
      | Some (sa, t) \<Rightarrow> f (sa_username sa @ '':'' @ sa_username sa) (td_token t))"

section \<open>Hosts\<close>

definition refused :: "jsval \<Rightarrow> ad_event list" where
  "refused err = [AdAnswer (httpResponse (Some unauthorized) err [] [])]"

definition pool_query :: one_request where
  "pool_query = query_of ''hostpool.info'' (getDefaultParamsOfOpennebulaCommand ''hostpool.info'' ''GET'')"

definition host_show :: "admin_env \<Rightarrow> ad_event list" where
  "host_show env = as_server_admin env (\<lambda>u p.
     connect env u p pool_query (\<lambda>err value. field_default ''HOST_POOL'' (JArr []) value (\<lambda>HOST_POOL.
       if truthy err then refused err
       else [AdAnswer (httpResponse (Some ok) (JObj [(''HOST_POOL'', HOST_POOL)]) [] [])])))"

definition reschedVM :: "jsval \<Rightarrow> one_request" where
  "reschedVM i = query_of ''vm.action'' [JStr ''resched'', int_of i]"

definition disableHost :: "jsval \<Rightarrow> one_request" where
  "disableHost i = query_of ''host.status'' [int_of i, JNum 1]"

text \<open>The callback of these two calls.\<close>

definition on_failure :: "jsval \<Rightarrow> jsval \<Rightarrow> ad_event list" where
  "on_failure err value = (if truthy err then refused err else [])"

definition vms_ids :: "jsval \<Rightarrow> jsval list" where
  "vms_ids v = (case v of JArr xs \<Rightarrow> xs | _ \<Rightarrow> [v])"

definition host_query :: "jsval \<Rightarrow> one_request" where
  "host_query i = query_of ''host.info'' [int_of i, JBool False]"

definition flush_calls :: "jsval \<Rightarrow> jsval \<Rightarrow> one_request list" where
  "flush_calls i vms = disableHost i # map reschedVM (vms_ids vms)"

definition flushHost :: "admin_env \<Rightarrow> string \<Rightarrow> string \<Rightarrow> jsobj \<Rightarrow> ad_event list" where
  "flushHost env u p ps =
     (let i = obj_get ps ''id''
      in connect env u p (host_query i) (\<lambda>err value. field_default ''HOST'' (JArr []) value (\<lambda>HOST.
        if truthy err then refused err
        else if nullish HOST \<or> nullish (prop_get HOST ''VMS'') then [AdThrow TypeError]
        else
          (let vms = prop_get (prop_get HOST ''VMS'') ''ID''
           in if \<not> truthy vms
              then [AdAnswer (httpResponse (Some badRequest) (JObj [(''type'', JStr ''err_host_is_empty'')]) [] [])]
              else concat (map (issued env u p) (flush_calls i vms)) @
                   [AdAnswer (httpResponse (Some ok) (JObj [(''HOST'', HOST)]) [] [])] @
                   concat (map (\<lambda>q. returned env u p q on_failure) (flush_calls i vms))))))"

definition one_host :: "ad_event list" where
  "one_host = [AdAnswer (httpResponse (Some conflict) (JObj [(''type'', JStr ''err_one_host'')]) [] [])]"

definition enabled_hosts :: "jsval list \<Rightarrow> nat" where
  "enabled_hosts hostList = length (filter (\<lambda>h. prop_get h ''STATE'' = JStr ''2'') hostList)"

text \<open>The data of the user are a parameter that the handler does not use.\<close>

definition flush :: "admin_env \<Rightarrow> user_data \<Rightarrow> jsobj \<Rightarrow> ad_event list" where
  "flush env ud ps = as_server_admin env (\<lambda>u p.
     connect env u p pool_query (\<lambda>err value. field_default ''HOST_POOL'' (JArr []) value (\<lambda>HOST_POOL.
       if truthy err then refused err
       else if HOST_POOL = JNull then [AdThrow TypeError]
       else (case prop_get HOST_POOL ''HOST'' of
               JArr hostList \<Rightarrow>
                 if length hostList > 1 then (if enabled_hosts hostList < 2 then one_host else flushHost env u p ps)
                 else one_host
             | _ \<Rightarrow> one_host))))"

section \<open>Clusters\<close>

definition cluster_show :: "admin_env \<Rightarrow> jsobj \<Rightarrow> ad_event list" where
  "cluster_show env ps =
     (let (username, authToken) =
            (case getSunstoneAuth (ad_auth env) of
               None \<Rightarrow> ([], [])
             | Some sa \<Rightarrow>
                 (sa_username sa,
                  case createTokenServerAdmin (ad_auth env) (sa_username sa) (sa_username sa) (sa_key sa) (sa_iv sa) False of
                    Some t \<Rightarrow> td_token t | None \<Rightarrow> []))
      in if authToken = [] then [AdAnswer (httpResponse (Some badRequest) (JStr []) [] [])]
         else connect env (username @ '':'' @ username) authToken (query_of ''cluster.info'' [int_of (obj_get ps ''id''), JBool True])
           (\<lambda>clusterInfoErr data. field_default ''CLUSTER'' JUndef data (\<lambda>CLUSTER.
             if truthy clusterInfoErr then refused clusterInfoErr
             else if \<not> truthy CLUSTER then [AdAnswer (httpResponse (Some badRequest) (JStr []) ''Cluster not found'' [])]
             else [AdAnswer (httpResponse (Some ok) CLUSTER [] [])])))"

section \<open>The configuration of the daemon\<close>

definition ALLOWED_KEYS_ONED_CONF :: "string list" where
  "ALLOWED_KEYS_ONED_CONF =
     [''CONTEXT_ALLOW_ETH_UPDATES'', ''DEFAULT_COST'', ''DRS_INTERVAL'', ''DS_MAD_CONF'', ''MARKET_MAD_CONF'', ''VM_MAD'',
      ''VN_MAD_CONF'', ''IM_MAD'', ''AUTH_MAD'', ''FEDERATION'', ''VM_RESTRICTED_ATTR'', ''IMAGE_RESTRICTED_ATTR'',
      ''VNET_RESTRICTED_ATTR'', ''QUOTA_VM_ATTRIBUTE'', ''VNC_PORTS'']"

definition filter_data :: "jsobj \<Rightarrow> jsobj" where
  "filter_data es = filter (\<lambda>(keyOned, valueOned). keyOned \<in> set ALLOWED_KEYS_ONED_CONF) es"

definition config_query :: one_request where
  "config_query = query_of ''system.config'' (getDefaultParamsOfOpennebulaCommand ''system.config'' ''GET'')"

text \<open>An error is noted in the response, which is not sent: there is no event.\<close>

definition config_callback :: "jsval \<Rightarrow> jsval \<Rightarrow> ad_event list" where
  "config_callback err value =
     (if truthy err then []
      else if nullish value then [AdThrow TypeError]
      else case object_entries (prop_get value ''OPENNEBULA_CONFIGURATION'') of
          Inl e \<Rightarrow> [AdThrow e]
        | Inr es \<Rightarrow> [AdAnswer (httpResponse (Some ok) (JObj (filter_data es)) [] [])])"

definition getConfig :: "admin_env \<Rightarrow> ad_event list" where
  "getConfig env =
     (let rtn = [AdAnswer (httpResponse (Some badRequest) (JStr []) [] [])]
      in case getSunstoneAuth (ad_auth env) of
          None \<Rightarrow> [AdThrow TypeError]
        | Some sa \<Rightarrow>
            (case createTokenServerAdmin (ad_auth env) (sa_username sa) (sa_username sa) (sa_key sa) (sa_iv sa) False of
               None \<Rightarrow> rtn
             | Some t \<Rightarrow>
                 if td_token t = [] then rtn
                 else connect env (sa_username sa @ '':'' @ sa_username sa) (td_token t) config_query config_callback))"

section \<open>Marketplace apps\<close>

definition defaultCommandMarketApp :: string where "defaultCommandMarketApp = ''onemarketapp''"

text \<open>A command with arguments that may be no texts: alone it throws, after a prefix it is joined.\<close>

definition arg_text :: "jsval \<Rightarrow> string" where
  "arg_text v = (if nullish v then [] else to_string v)"

definition is_text :: "jsval \<Rightarrow> bool" where
  "is_text v = (case v of JStr _ \<Rightarrow> True | _ \<Rightarrow> False)"

definition run_marketapp :: "admin_env \<Rightarrow> jsval list \<Rightarrow> ad_event list" where
  "run_marketapp env paramsCommand =
     (if ad_prepend env = [] \<and> \<not> list_all is_text paramsCommand then [AdThrow TypeError]
      else
        (let args = map arg_text paramsCommand;
             (cmd, rsc) = addPrependCommand defaultCommandMarketApp args (ad_prepend env);
             executedCommand = executeCommand (ad_spawn env) defaultCommandMarketApp args (ad_prepend env)
         in [AdSpawn cmd rsc,
             AdAnswer (httpResponse (Some (if cr_success executedCommand then ok else internalServerError))
               (JStr (case cr_data executedCommand of Some d \<Rightarrow> d | None \<Rightarrow> [])) [] [])]))"

definition ad_badRequest :: "ad_event list" where
  "ad_badRequest = [AdAnswer (httpResponse (Some badRequest) (JStr []) [] [])]"

definition option_args :: "string \<Rightarrow> jsval \<Rightarrow> jsval list" where
  "option_args name v = (if truthy v then [JStr name, v] else [])"

text \<open>The condition is a comma expression, whose value is the password.\<close>

definition exportApp :: "admin_env \<Rightarrow> user_data \<Rightarrow> jsobj \<Rightarrow> ad_event list" where
  "exportApp env ud ps =
     (if ud_password ud \<noteq> [] then
        run_marketapp env
          ([JStr ''export'', JStr (to_string (obj_get ps ''id'')), JStr (to_string (obj_get ps ''name'')), JStr ''--datastore'',
            obj_get ps ''datastore''] @
           option_args ''--file-datastore'' (obj_get ps ''file'') @
           (if obj_get ps ''associated'' = JStr ''false'' then [JStr ''--no''] else []) @
           option_args ''--tag'' (obj_get ps ''tag'') @ option_args ''--template'' (obj_get ps ''template'') @
           option_args ''--vmname'' (obj_get ps ''vmname'') @ option_args ''--user'' (JStr (ud_user ud)) @
           option_args ''--password'' (JStr (ud_password ud)))
      else ad_badRequest)"

definition importMarket :: "admin_env \<Rightarrow> jsobj \<Rightarrow> ad_event list" where
  "importMarket env ps =
     (if truthy (obj_get ps ''id'') \<and> obj_get ps ''resource'' \<in> {JStr ''vm'', JStr ''vm-template''} then
        run_marketapp env
          ([obj_get ps ''resource'', JStr ''import'', JStr (to_string (obj_get ps ''id'')),
            JStr (if obj_get ps ''associated'' = JStr ''true'' then ''--yes'' else ''--no'')] @
           option_args ''--market'' (obj_get ps ''marketId'') @ option_args ''--vmname'' (obj_get ps ''vmname''))
      else ad_badRequest)"

definition getMarketApp :: "admin_env \<Rightarrow> string \<Rightarrow> string \<Rightarrow> jsval \<Rightarrow> (jsval \<Rightarrow> ad_event list) \<Rightarrow> ad_event list \<Rightarrow> ad_event list" where
  "getMarketApp env u p i onSuccess err_events =
     connect env u p (query_of ''marketapp.info'' [int_of i]) (\<lambda>err marketApp.
       if truthy err \<or> \<not> truthy (prop_get marketApp ''MARKETPLACEAPP'') then err_events
       else onSuccess (prop_get marketApp ''MARKETPLACEAPP''))"

text \<open>With \<open>parseXML\<close> off the success is given the text of the daemon.\<close>

definition getMarket :: "admin_env \<Rightarrow> string \<Rightarrow> string \<Rightarrow> jsval \<Rightarrow> (jsval \<Rightarrow> ad_event list) \<Rightarrow> ad_event list \<Rightarrow> bool \<Rightarrow> ad_event list" where
  "getMarket env u p i onSuccess err_events parseXML =
     connect env u p \<lparr>oq_action = ''market.info'', oq_parameters = [int_of i], oq_fillHookResource = False, oq_parseXML = parseXML\<rparr>
       (\<lambda>err market0.
         let market = (if market0 = JUndef then JObj [] else market0)
         in if truthy err \<or> (parseXML \<and> \<not> truthy (prop_get market ''MARKETPLACE'')) then err_events
            else onSuccess (if parseXML then prop_get market ''MARKETPLACE'' else market))"

definition downloadCmd :: "string \<Rightarrow> jsval \<Rightarrow> jsval \<Rightarrow> string" where
  "downloadCmd downloader MARKET SOURCE =
     ''DRV_ACTION='' @ base64 (''<DS_DRIVER_ACTION_DATA>'' @ to_string MARKET @ ''</DS_DRIVER_ACTION_DATA>'') @ ''; '' @
     downloader @ '' '' @ to_string SOURCE @ '' -''"

text \<open>A download: the shell runs the command and its output is the file of the given name.  The cookie is decoded
  and nothing else is asked.\<close>

definition downloadApp :: "admin_env \<Rightarrow> jwt_lib \<Rightarrow> globals \<Rightarrow> jsval \<Rightarrow> jsobj \<Rightarrow> ad_event list" where
  "downloadApp env lib g cookie ps =
     (let i = obj_get ps ''id''; notfound = [AdAnswer (httpResponse (Some notFound) (JStr []) [] [])]
      in if \<not> integer_id i then notfound
         else case validateAuth lib g cookie of
             None \<Rightarrow> refused (JStr [])
           | Some session \<Rightarrow>
               if jp_aud session = [] \<or> jp_jti session = [] then refused (JStr [])
               else getMarketApp env (jp_aud session) (jp_jti session) i
                 (\<lambda>app. if integer_id (prop_get app ''MARKETPLACE_ID'')
                   then getMarket env (jp_aud session) (jp_jti session) (prop_get app ''MARKETPLACE_ID'')
                     (\<lambda>MARKET. [AdShell (''one-marketplaceapp-'' @ to_string i)
                        (downloadCmd (ad_downloader env) MARKET (prop_get app ''SOURCE''))])
                     notfound False
                   else [])
                 notfound)"

section \<open>Images and the subscription\<close>

text \<open>Files that are no list throw, which is caught: the answer is the one the route set before.\<close>

definition image_upload :: "user_data \<Rightarrow> jsval \<Rightarrow> http_result" where
  "image_upload ud files =
     (if truthy files \<and> \<not> no_credentials ud then
        (case files of
           JArr fs \<Rightarrow> httpResponse (Some ok) (if fs = [] then JStr [] else JArr (map (\<lambda>f. prop_get f ''path'') fs)) [] []
         | _ \<Rightarrow> httpResponse (Some internalServerError) JUndef [] [])
      else httpResponse (Some badRequest) (JStr []) [] [])"

definition headerUserAgent :: "string \<times> string" where
  "headerUserAgent = (''User-Agent'', ''OpenNebula Subscription Validation'')"

definition defaultEnterpriseRepo :: string where "defaultEnterpriseRepo = ''https://enterprise.opennebula.io/repo/''"

definition support_headers :: "string \<Rightarrow> (string \<times> string) list" where
  "support_headers token = [(''Authorization'', ''Basic '' @ base64 token), headerUserAgent]"

text \<open>The server of subscriptions gives the data of its answer, or the message of an error.\<close>

definition checkSupport :: "(string \<Rightarrow> (string \<times> string) list \<Rightarrow> string + jsval) \<Rightarrow> jsval \<Rightarrow> http_result" where
  "checkSupport fetch token =
     (if \<not> truthy token then httpResponse (Some badRequest) (JStr ''empty/null token'') [] []
      else case fetch defaultEnterpriseRepo (support_headers (to_string token)) of
          Inr data \<Rightarrow> httpResponse (Some (if truthy data then ok else badRequest)) (JStr []) [] []
        | Inl message \<Rightarrow> httpResponse (Some badRequest) (JStr message) [] [])"

section \<open>What a flush does\<close>

fun calls_of :: "ad_event list \<Rightarrow> (string \<times> string \<times> one_request) list" where
  "calls_of [] = []"
| "calls_of (AdCall u p q # es) = (u, p, q) # calls_of es"
| "calls_of (_ # es) = calls_of es"

fun answers_of :: "ad_event list \<Rightarrow> int list" where
  "answers_of [] = []"
| "answers_of (AdAnswer r # es) = hr_id r # answers_of es"
| "answers_of (_ # es) = answers_of es"

lemma calls_of_append [simp]: "calls_of (xs @ ys) = calls_of xs @ calls_of ys"
  by (induction xs rule: calls_of.induct) simp_all

lemma answers_of_append [simp]: "answers_of (xs @ ys) = answers_of xs @ answers_of ys"
  by (induction xs rule: answers_of.induct) simp_all

lemma answers_of_concat: "answers_of (concat ess) = concat (map answers_of ess)"
  by (induction ess) simp_all

lemma refused_calls [simp]: "calls_of (refused err) = []" "answers_of (refused err) = [401]"
  by (simp_all add: refused_def unauthorized_def)

lemma one_host_calls [simp]: "calls_of one_host = []" "answers_of one_host = [409]"
  by (simp_all add: one_host_def conflict_def)

lemma issued_all:
  assumes "u \<noteq> []" "p \<noteq> []" "ad_zone env \<noteq> []" "list_all (\<lambda>q. oq_action q \<noteq> []) qs"
  shows "concat (map (issued env u p) qs) = map (AdCall u p) qs"
  using assms(4) by (induction qs) (simp_all add: issued_def assms(1-3))

lemma calls_of_issued: "calls_of (map (AdCall u p) qs) = map (\<lambda>q. (u, p, q)) qs" "answers_of (map (AdCall u p) qs) = []"
  by (induction qs) simp_all

lemma late_calls: "calls_of (concat (map (\<lambda>q. returned env u p q on_failure) qs)) = []"
proof (induction qs)
  case (Cons q qs)
  have "calls_of (concat (map (\<lambda>(e, v). on_failure e v) rs)) = []" for rs
    by (induction rs) (auto simp: on_failure_def)
  then show ?case using Cons by (simp add: returned_def)
qed simp

lemma query_of_action [simp]: "oq_action (query_of a ps) = a"
  by (simp add: query_of_def)

lemma flush_calls_actions: "list_all (\<lambda>q. oq_action q \<noteq> []) (flush_calls i v)"
  by (auto simp: flush_calls_def list_all_iff disableHost_def reschedVM_def)

text \<open>What the pool and the host say.\<close>

definition two_enabled :: "jsval \<Rightarrow> bool" where
  "two_enabled pool \<longleftrightarrow>
     (case prop_get (prop_get pool ''HOST_POOL'') ''HOST'' of JArr hs \<Rightarrow> 2 \<le> enabled_hosts hs | _ \<Rightarrow> False)"

definition machines :: "jsval \<Rightarrow> jsval" where
  "machines info = prop_get (prop_get (prop_get info ''HOST'') ''VMS'') ''ID''"

lemma connect_once:
  assumes "u \<noteq> []" "p \<noteq> []" "ad_zone env \<noteq> []" "oq_action q \<noteq> []" "replies env u p q = [(err, value)]"
  shows "connect env u p q k = AdCall u p q # k err value"
  using assms by (simp add: connect_def issued_def returned_def)

lemma flushHost_calls:
  assumes "u \<noteq> []" "p \<noteq> []" "ad_zone env \<noteq> []" "replies env u p (host_query (obj_get ps ''id'')) = [(err, info)]"
  shows "calls_of (flushHost env u p ps) = (u, p, host_query (obj_get ps ''id'')) #
    (if \<not> truthy err \<and> truthy (machines info) then map (\<lambda>q. (u, p, q)) (flush_calls (obj_get ps ''id'') (machines info)) else [])"
proof -
  let ?i = "obj_get ps ''id''"
  have call: "flushHost env u p ps = AdCall u p (host_query ?i) # field_default ''HOST'' (JArr []) info (\<lambda>HOST.
      if truthy err then refused err
      else if nullish HOST \<or> nullish (prop_get HOST ''VMS'') then [AdThrow TypeError]
      else let vms = prop_get (prop_get HOST ''VMS'') ''ID''
        in if \<not> truthy vms then [AdAnswer (httpResponse (Some badRequest) (JObj [(''type'', JStr ''err_host_is_empty'')]) [] [])]
           else concat (map (issued env u p) (flush_calls ?i vms)) @ [AdAnswer (httpResponse (Some ok) (JObj [(''HOST'', HOST)]) [] [])] @
             concat (map (\<lambda>q. returned env u p q on_failure) (flush_calls ?i vms)))"
    unfolding flushHost_def Let_def by (rule connect_once [OF assms(1-3) _ assms(4)]) (simp add: host_query_def)
  have some: "truthy (machines info) \<Longrightarrow> info \<noteq> JNull \<and> prop_get info ''HOST'' \<noteq> JUndef \<and> \<not> nullish (prop_get info ''HOST'')
      \<and> \<not> nullish (prop_get (prop_get info ''HOST'') ''VMS'')"
    by (auto simp: machines_def nullish_def)
  show ?thesis
    unfolding call
    using some issued_all [OF assms(1-3) flush_calls_actions [of ?i]]
    by (auto simp: field_default_def Let_def calls_of_issued late_calls machines_def)
qed

text \<open>
  C16. A flush touches a host only when the pool has two hosts that are enabled and the host runs machines: then it
  is disabled and each of its machines is scheduled anew, by these calls in this order and no other; in every other
  case nothing but the pool and the host is asked for.  All of it is done with the credentials of the server
  administrator, whoever asks.
\<close>

theorem flush_exact:
  assumes admin: "server_admin_of (ad_auth env) = Some (sa, t)" "td_token t \<noteq> []" "ad_zone env \<noteq> []"
    and creds: "u = sa_username sa @ '':'' @ sa_username sa" "p = td_token t" "i = obj_get ps ''id''"
    and pool: "replies env u p pool_query = [(err1, pool)]"
    and host: "replies env u p (host_query i) = [(err2, info)]"
  shows "calls_of (flush env ud ps) = (u, p, pool_query) #
    (if truthy err1 \<or> \<not> two_enabled pool then []
     else (u, p, host_query i) #
       (if truthy err2 \<or> \<not> truthy (machines info) then []
        else map (\<lambda>q. (u, p, q)) (disableHost i # map reschedVM (vms_ids (machines info)))))"
proof -
  have up: "u \<noteq> []" "p \<noteq> []" using admin(2) creds by simp_all
  have call: "flush env ud ps = AdCall u p pool_query # field_default ''HOST_POOL'' (JArr []) pool (\<lambda>HOST_POOL.
      if truthy err1 then refused err1
      else if HOST_POOL = JNull then [AdThrow TypeError]
      else (case prop_get HOST_POOL ''HOST'' of
              JArr hostList \<Rightarrow> if length hostList > 1 then (if enabled_hosts hostList < 2 then one_host else flushHost env u p ps) else one_host
            | _ \<Rightarrow> one_host))"
    unfolding flush_def as_server_admin_def admin(1) option.case prod.case creds(1,2) [symmetric]
    by (rule connect_once [OF up admin(3) _ pool]) (simp add: pool_query_def)
  have hosts: "2 \<le> enabled_hosts hs \<Longrightarrow> length hs > 1" for hs
    using length_filter_le [of "\<lambda>h. prop_get h ''STATE'' = JStr ''2''" hs] unfolding enabled_hosts_def by linarith
  have flushed: "calls_of (flushHost env u p ps) = (u, p, host_query i) #
      (if \<not> truthy err2 \<and> truthy (machines info) then map (\<lambda>q. (u, p, q)) (flush_calls i (machines info)) else [])"
    using flushHost_calls [OF up admin(3)] host creds(3) by simp
  show ?thesis
    unfolding call
    using hosts flushed by (auto simp: field_default_def two_enabled_def flush_calls_def Let_def split: jsval.split)
qed

text \<open>A pool and a host whose daemon answers with the name of the call, which the parser reads.\<close>

definition sample_pool :: jsobj where
  "sample_pool = [(''HOST_POOL'', JObj [(''HOST'', JArr [JObj [(''STATE'', JStr ''2'')], JObj [(''STATE'', JStr ''2'')]])])]"

definition sample_host :: jsobj where
  "sample_host = [(''HOST'', JObj [(''VMS'', JObj [(''ID'', JArr [JStr ''7'', JStr ''9''])])])]"

definition sample_config :: jsobj where
  "sample_config = [(''OPENNEBULA_CONFIGURATION'', JObj [(''DB'', JStr ''secret''), (''VNC_PORTS'', JStr ''5900'')])]"

definition sample_answer :: "string \<Rightarrow> jsobj" where
  "sample_answer a = (if a = ''one.hostpool.info'' then sample_pool else if a = ''one.system.config'' then sample_config else sample_host)"

definition sample_admin :: admin_env where
  "sample_admin = \<lparr>ad_auth = demo_auth False None,
     ad_one = \<lparr>ol_rpc = (\<lambda>url name args. (None, daemon_reply True (JStr name) 0)),
       ol_parse = (\<lambda>s. Inr (sample_answer s)),
       ol_namespace = []\<rparr>,
     ad_zone = ''http://one'', ad_spawn = (\<lambda>c as. \<lparr>pr_stdout = [], pr_status = 0, pr_stderr = []\<rparr>), ad_prepend = [],
     ad_downloader = ''downloader.sh''\<rparr>"

lemma parsed_callback:
  assumes "u \<noteq> []" "p \<noteq> []" "url \<noteq> []" "oq_action q \<noteq> []" "ol_namespace lib = []" "oq_parseXML q"
    "ol_rpc lib url (''one.'' @ oq_action q) (JStr (u @ '':'' @ p) # oq_parameters q) = (None, daemon_reply True (JStr xml) code)"
    "xml \<noteq> []" "ol_parse lib xml = Inr fs" "fs \<noteq> []"
  shows "fst (opennebulaConnect lib u p url q g) = [(JUndef, JObj fs)]"
proof -
  have "ol_rpc lib url ((if ol_namespace lib = [] then defaultNamespace else ol_namespace lib) @ ''.'' @ oq_action q)
      (JStr (u @ '':'' @ p) # oq_parameters q) = (None, daemon_reply True (JStr xml) code)"
    using assms(5,7) by (simp add: defaultNamespace_def)
  then show ?thesis
    using assms(1-4,6,8-10) reply_parsed [of xml lib "oq_fillHookResource q" code] by (simp add: one_connect_defs xml2json_def rbind_def)
qed

lemma sample_replies:
  assumes "u \<noteq> []" "p \<noteq> []" "a \<noteq> []"
  shows "replies sample_admin u p (query_of a ps) = [(JUndef, JObj (sample_answer (''one.'' @ a)))]"
  unfolding replies_def
  by (rule parsed_callback [where xml = "''one.'' @ a" and code = 0])
    (simp_all add: assms sample_admin_def query_of_def sample_answer_def sample_pool_def sample_host_def sample_config_def)

definition sample_token :: string where
  "sample_token = ''serveradmin:serveradmin:'' @ show_int (d_expireMs (getDates (demo_auth False None) False) div 1000)"

lemma sample_server_admin:
  "server_admin_of (ad_auth sample_admin) =
     Some (\<lparr>sa_username = ''serveradmin'', sa_key = ''pw'', sa_iv = ''pw''\<rparr>,
       \<lparr>td_token = sample_token, td_time = d_expireMs (getDates (demo_auth False None) False) div 1000\<rparr>)"
proof -
  have "js_split (CHR '':'') ''serveradmin:pw'' = [''serveradmin'', ''pw'']" by code_simp
  then have "getSunstoneAuth (demo_auth False None) = Some \<lparr>sa_username = ''serveradmin'', sa_key = ''pw'', sa_iv = ''pw''\<rparr>"
    by (simp add: getSunstoneAuth_def demo_auth_def replaceEscapeSequence_def Let_def)
  moreover have "ae_encrypt (demo_auth False None) x k v = Some x" for x k v by (simp add: demo_auth_def)
  ultimately show ?thesis
    by (simp add: server_admin_of_def getServerAdmin_def createTokenServerAdmin_def sample_admin_def sample_token_def areturn_def Let_def)
qed

theorem flush_exact_witness:
  "calls_of (flush sample_admin \<lparr>ud_user = ''bob'', ud_password = ''tok''\<rparr> [(''id'', JStr ''3'')]) =
    map (\<lambda>q. (''serveradmin:serveradmin'', sample_token, q))
      [pool_query, host_query (JStr ''3''), disableHost (JStr ''3''), reschedVM (JStr ''7''), reschedVM (JStr ''9'')]"
proof -
  let ?u = "''serveradmin:serveradmin''" and ?p = sample_token
  have "?p \<noteq> []" by (simp add: sample_token_def)
  then have "replies sample_admin ?u ?p pool_query = [(JUndef, JObj sample_pool)]"
    "replies sample_admin ?u ?p (host_query (JStr ''3'')) = [(JUndef, JObj sample_host)]"
    by (simp_all add: pool_query_def host_query_def sample_replies sample_answer_def)
  from flush_exact [OF sample_server_admin _ _ _ _ _ this, of "[(''id'', JStr ''3'')]" "\<lparr>ud_user = ''bob'', ud_password = ''tok''\<rparr>"]
  show ?thesis
    by (simp add: sample_token_def sample_admin_def two_enabled_def enabled_hosts_def machines_def vms_ids_def sample_pool_def sample_host_def obj_get_def)
qed

section \<open>What the daemon's options give away\<close>

text \<open>
  C40. Of the options of the daemon, which are asked for with the credentials of the server administrator, users
  get the ones of the list, all of them and with their values, and no other; an error is never answered.
\<close>

theorem daemon_options_filtered:
  "(AdAnswer r \<in> set (getConfig env) \<and> hr_id r = 200 \<longrightarrow>
      (\<exists>fs. hr_data r = Some (JObj fs) \<and> set (map fst fs) \<subseteq> set ALLOWED_KEYS_ONED_CONF)) \<and>
   (prop_get value ''OPENNEBULA_CONFIGURATION'' = JObj es \<longrightarrow> \<not> truthy err \<longrightarrow>
      config_callback err value = [AdAnswer (httpResponse (Some ok) (JObj (filter_data es)) [] [])]) \<and>
   (k \<in> set ALLOWED_KEYS_ONED_CONF \<longrightarrow> obj_get (filter_data es) k = obj_get es k) \<and>
   answers_of (config_callback (JStr (c # cs)) value) = []"
proof (intro conjI impI)
  have keys: "set (map fst (filter_data fs)) \<subseteq> set ALLOWED_KEYS_ONED_CONF" for fs by (auto simp: filter_data_def)
  have cb: "AdAnswer r \<in> set (config_callback e v) \<Longrightarrow>
      \<exists>fs. hr_data r = Some (JObj fs) \<and> set (map fst fs) \<subseteq> set ALLOWED_KEYS_ONED_CONF" for e v
    using keys by (auto simp: config_callback_def httpResponse_def Let_def of_code_def split: if_splits sum.splits)
  assume "AdAnswer r \<in> set (getConfig env) \<and> hr_id r = 200"
  then show "\<exists>fs. hr_data r = Some (JObj fs) \<and> set (map fst fs) \<subseteq> set ALLOWED_KEYS_ONED_CONF"
    using cb by (fastforce simp: getConfig_def connect_def issued_def returned_def badRequest_def Let_def
        split: option.splits if_splits)
next
  assume "prop_get value ''OPENNEBULA_CONFIGURATION'' = JObj es" and "\<not> truthy err"
  moreover from this(1) have "\<not> nullish value" by (auto simp: nullish_def)
  ultimately show "config_callback err value = [AdAnswer (httpResponse (Some ok) (JObj (filter_data es)) [] [])]"
    by (simp add: config_callback_def object_entries_def)
next
  assume "k \<in> set ALLOWED_KEYS_ONED_CONF"
  then show "obj_get (filter_data es) k = obj_get es k"
    unfolding filter_data_def obj_get_def by (induction es) auto
qed (simp add: config_callback_def)

theorem daemon_options_filtered_witness:
  "config_callback JUndef (JObj sample_config) = [AdAnswer (httpResponse (Some ok) (JObj [(''VNC_PORTS'', JStr ''5900'')]) [] [])]"
  using daemon_options_filtered [of _ sample_admin "JObj sample_config" "[(''DB'', JStr ''secret''), (''VNC_PORTS'', JStr ''5900'')]" JUndef]
  by (simp add: sample_config_def obj_get_def filter_data_def ALLOWED_KEYS_ONED_CONF_def)

section \<open>Defects\<close>

text \<open>A flush is answered before its calls are, and each call that fails is answered once more.\<close>

theorem failed_flush_answered_again:
  assumes "u \<noteq> []" "p \<noteq> []" "ad_zone env \<noteq> []" "i = obj_get ps ''id''"
    and "replies env u p (host_query i) = [(JUndef, JObj [(''HOST'', JObj [(''VMS'', JObj [(''ID'', JStr v)])])])]" "v \<noteq> []"
    and "replies env u p (disableHost i) = [(JStr (c # cs), JUndef)]" "replies env u p (reschedVM (JStr v)) = []"
  shows "answers_of (flushHost env u p ps) = [200, 401]"
proof -
  have "flushHost env u p ps = [AdCall u p (host_query i), AdCall u p (disableHost i), AdCall u p (reschedVM (JStr v)),
      AdAnswer (httpResponse (Some ok) (JObj [(''HOST'', JObj [(''VMS'', JObj [(''ID'', JStr v)])])]) [] [])] @ refused (JStr (c # cs))"
    unfolding flushHost_def Let_def assms(4) [symmetric]
    using assms issued_all [OF assms(1-3) flush_calls_actions [of i "JStr v"]]
    by (simp add: connect_def issued_def returned_def host_query_def field_default_def obj_get_def nullish_def
        flush_calls_def vms_ids_def on_failure_def)
  then show ?thesis by (simp add: ok_def)
qed

text \<open>The comma leaves the password as the only condition: an app without a name is exported as undefined.\<close>

theorem export_without_name:
  assumes "ad_prepend env = []" "ud_password ud \<noteq> []"
  shows "\<exists>rest. hd (exportApp env ud [(''id'', JStr ''5''), (''datastore'', JStr ''1'')]) =
    AdSpawn ''onemarketapp'' ([''export'', ''5'', ''undefined'', ''--datastore'', ''1''] @ rest)"
  using assms
  by (simp add: exportApp_def run_marketapp_def option_args_def obj_get_def is_text_def arg_text_def nullish_def
      addPrependCommand_def defaultCommandMarketApp_def Let_def)

text \<open>An import runs as the user of the server, whoever asks: the command has no credentials.\<close>

theorem import_without_credentials:
  "ad_prepend env = [] \<Longrightarrow>
   hd (importMarket env [(''id'', JStr ''5''), (''resource'', JStr ''vm'')]) = AdSpawn ''onemarketapp'' [''vm'', ''import'', ''5'', ''--no'']"
  by (simp add: importMarket_def run_marketapp_def option_args_def obj_get_def is_text_def arg_text_def nullish_def
      addPrependCommand_def defaultCommandMarketApp_def Let_def)

text \<open>The source of an app goes to the shell as it is.\<close>

theorem download_source_unquoted:
  "\<exists>pre. downloadCmd downloader MARKET (JStr (''x; '' @ command @ '' #'')) = pre @ '' x; '' @ command @ '' # -''"
  by (simp add: downloadCmd_def)

text \<open>A download asks the signature of the token alone: after a logout it is answered as before.\<close>

theorem download_without_session:
  assumes "signing_key g = signing_key g'"
  shows "downloadApp env lib g cookie ps = downloadApp env lib g' cookie ps"
proof -
  have "jwtDecode lib g = jwtDecode lib g'" by (rule ext) (simp add: jwtDecode_def assms)
  then show ?thesis by (simp only: downloadApp_def validateAuth_def)
qed

end
