(* ===== verification/Views.thy ===== *)
theory Views
  imports Admin_Api "HOL-Library.Multiset"
begin

text \<open>
  What the client shows: the views of the user's group (\<open>getViews\<close> of \<open>server/routes/api/sunstone/functions.js\<close>),
  the manifest of its tabs and where its modules are loaded from (\<open>server/utils/remoteModules.js\<close>).

  The disk is the one of \<open>Files_Api\<close>, OpenNebula is behind \<open>opennebulaConnect\<close> and the parser of YAML is a
  parameter, \<open>None\<close> where it throws.  Names of views are no names of members that every object has.
\<close>

section \<open>Files of views\<close>

record views_env =
  vw_admin :: admin_env
  vw_disk :: disk
  vw_parse :: yaml
  vw_VIEWS :: string
  vw_PATH :: string

type_synonym views = "(string \<times> jsval list) list"

text \<open>One file of a view: its description is kept when it names its resource.\<close>

definition fill_file :: "views_env \<Rightarrow> string \<Rightarrow> string \<Rightarrow> views \<Rightarrow> views js" where
  "fill_file env view viewPath rtn =
     (if existsFile (vw_disk env) viewPath then
        (let seen = (case map_of rtn view of Some xs \<Rightarrow> xs | None \<Rightarrow> [])
         in case vw_parse env (the_default [] (read_text (vw_disk env) viewPath)) of
             None \<Rightarrow> Inl SyntaxError
           | Some jsonViewData \<Rightarrow>
               Inr (AList.update view
                 (if truthy (prop_get jsonViewData ''resource_name'') then seen @ [jsonViewData] else seen) rtn))
      else Inr rtn)"

fun fill_files :: "views_env \<Rightarrow> string \<Rightarrow> string list \<Rightarrow> views \<Rightarrow> views js" where
  "fill_files env view [] rtn = Inr rtn"
| "fill_files env view (p # ps) rtn = rbind (fill_file env view p rtn) (fill_files env view ps)"

fun fillViewsInfo :: "views_env \<Rightarrow> string list \<Rightarrow> views \<Rightarrow> views js" where
  "fillViewsInfo env [] rtn = Inr rtn"
| "fillViewsInfo env (view # vs) rtn =
     rbind (fill_files env view (getFiles (vw_disk env) (vw_PATH env @ view) False) rtn) (fillViewsInfo env vs)"

section \<open>The views of a user\<close>

text \<open>\<open>v?.split(',')\<close>: only texts can be split.\<close>

definition split_views :: "jsval \<Rightarrow> string list option js" where
  "split_views v =
     (if nullish v then Inr None else case v of JStr s \<Rightarrow> Inr (Some (js_split (CHR '','') s)) | _ \<Rightarrow> Inl TypeError)"

definition fireedge_of :: "jsval \<Rightarrow> string \<Rightarrow> jsval" where
  "fireedge_of x k = prop_get (prop_get (prop_get x ''TEMPLATE'') ''FIREEDGE'') k"

definition isAdminGroup :: "jsval \<Rightarrow> jsval \<Rightarrow> bool" where
  "isAdminGroup USER GROUP =
     (let i = prop_get (prop_get GROUP ''ADMINS'') ''ID''
      in prop_get USER ''ID'' \<in> set (case i of JArr xs \<Rightarrow> xs | _ \<Rightarrow> [i]))"

definition views_value :: "views \<Rightarrow> jsval" where
  "views_value rtn = JObj (map (\<lambda>(k, xs). (k, JArr xs)) rtn)"

definition views_answer :: "views \<Rightarrow> jsval \<Rightarrow> ad_event list" where
  "views_answer rtn defaultView =
     [AdAnswer (httpResponse (Some ok) (JObj [(''views'', views_value rtn), (''defaultView'', defaultView)]) [] [])]"

text \<open>\<open>a || b\<close>.\<close>

definition view_or :: "jsval \<Rightarrow> jsval \<Rightarrow> jsval" where
  "view_or a b = (if truthy a then a else b)"

text \<open>The default of a user comes before the one of the group; \<open>views[0]\<close> is the view named 0.\<close>

definition group_answer :: "views_env \<Rightarrow> jsval \<Rightarrow> jsval \<Rightarrow> string list \<Rightarrow> string \<Rightarrow> ad_event list" where
  "group_answer env USER GROUP names default_key =
     (case fillViewsInfo env names [] of
        Inl e \<Rightarrow> [AdThrow e]
      | Inr rtn \<Rightarrow>
          let defaultView = view_or (fireedge_of USER ''DEFAULT_VIEW'') (fireedge_of GROUP default_key)
          in views_answer rtn (view_or defaultView (prop_get (views_value rtn) ''0'')))"

text \<open>Groups without views have the ones of the file; a file without groups or defaults is never answered.\<close>

definition file_views_answer :: "views_env \<Rightarrow> jsval \<Rightarrow> ad_event list" where
  "file_views_answer env GROUP =
     (if existsFile (vw_disk env) (vw_VIEWS env) then
        (case vw_parse env (the_default [] (read_text (vw_disk env) (vw_VIEWS env))) of
           None \<Rightarrow> [AdThrow SyntaxError]
         | Some jsonFileData \<Rightarrow>
             if truthy (prop_get jsonFileData ''groups'') \<and> truthy (prop_get jsonFileData ''default'') then
               (case view_or (prop_get (prop_get jsonFileData ''groups'') (to_string (prop_get GROUP ''NAME''))) (prop_get jsonFileData ''default'') of
                  JArr vs \<Rightarrow>
                    (case fillViewsInfo env (map to_string vs) [] of Inl e \<Rightarrow> [AdThrow e] | Inr rtn \<Rightarrow> views_answer rtn JUndef)
                | _ \<Rightarrow> [AdThrow TypeError])
             else [])
      else [AdAnswer (of_code notFound)])"

definition group_views :: "views_env \<Rightarrow> jsval \<Rightarrow> jsval \<Rightarrow> ad_event list" where
  "group_views env USER GROUP =
     (case split_views (fireedge_of GROUP ''VIEWS'') of
        Inl e \<Rightarrow> [AdThrow e]
      | Inr groupViews \<Rightarrow>
          (case split_views (fireedge_of GROUP ''GROUP_ADMIN_VIEWS'') of
             Inl e \<Rightarrow> [AdThrow e]
           | Inr groupAdminViews \<Rightarrow>
               (case (if isAdminGroup USER GROUP then groupAdminViews else None) of
                  Some vs \<Rightarrow> group_answer env USER GROUP vs ''GROUP_ADMIN_DEFAULT_VIEW''
                | None \<Rightarrow>
                    (case groupViews of
                       Some vs \<Rightarrow> group_answer env USER GROUP vs ''DEFAULT_VIEW''
                     | None \<Rightarrow> file_views_answer env GROUP))))"

definition views_error :: "ad_event list" where
  "views_error = [AdAnswer (httpResponse (Some internalServerError) (JStr []) [] [])]"

definition silent_query :: "string \<Rightarrow> jsval list \<Rightarrow> one_request" where
  "silent_query action ps = \<lparr>oq_action = action, oq_parameters = ps, oq_fillHookResource = False, oq_parseXML = True\<rparr>"

definition getInfoGroup :: "views_env \<Rightarrow> user_data \<Rightarrow> jsval \<Rightarrow> (jsval \<Rightarrow> jsval \<Rightarrow> ad_event list) \<Rightarrow> ad_event list" where
  "getInfoGroup env ud idGroup callback =
     connect (vw_admin env) (ud_user ud) (ud_password ud) (silent_query ''group.info'' [int_of idGroup, JBool False]) callback"

definition getViews :: "views_env \<Rightarrow> user_data \<Rightarrow> ad_event list" where
  "getViews env ud =
     (if \<not> no_credentials ud \<and> vw_VIEWS env \<noteq> [] \<and> vw_PATH env \<noteq> [] then
        connect (vw_admin env) (ud_user ud) (ud_password ud) (silent_query ''user.info'' [JNum (-1), JBool False])
          (\<lambda>err dataUser.
            let USER = prop_get dataUser ''USER''
            in if truthy (prop_get USER ''GID'')
               then getInfoGroup env ud (prop_get USER ''GID'') (\<lambda>err vmgroupData.
                 let GROUP = prop_get vmgroupData ''GROUP''
                 in if truthy (prop_get GROUP ''NAME'') then group_views env USER GROUP else views_error)
               else views_error)
      else views_error)"

section \<open>Tabs and modules\<close>

text \<open>The order in which JavaScript sorts texts.\<close>

fun text_le :: "string \<Rightarrow> string \<Rightarrow> bool" where
  "text_le [] t = True"
| "text_le (c # s) [] = False"
| "text_le (c # s) (e # t) \<longleftrightarrow> (of_char c :: nat) < of_char e \<or> (c = e \<and> text_le s t)"

fun insert_text :: "string \<Rightarrow> string list \<Rightarrow> string list" where
  "insert_text s [] = [s]"
| "insert_text s (t # ts) = (if text_le s t then s # t # ts else t # insert_text s ts)"

definition sort_texts :: "string list \<Rightarrow> string list" where
  "sort_texts ts = foldr insert_text ts []"

text \<open>\<open>xs.flat()\<close>: lists are spliced, one level deep.\<close>

definition flat_values :: "jsval list \<Rightarrow> jsval list" where
  "flat_values vs = concat (map (\<lambda>v. case v of JArr xs \<Rightarrow> xs | _ \<Rightarrow> [v]) vs)"

definition overlay_files :: "string \<Rightarrow> node \<Rightarrow> string list" where
  "overlay_files dir n =
     sort_texts (map path_normalize (filter (\<lambda>f. to_lower (path_ext f) \<in> {''.yaml'', ''.yml''}) (files_below True dir n)))"

definition read_yaml :: "disk \<Rightarrow> yaml \<Rightarrow> string \<Rightarrow> jsval option" where
  "read_yaml d parse path = Option.bind (read_text d path) parse"

fun read_all :: "disk \<Rightarrow> yaml \<Rightarrow> string list \<Rightarrow> jsval list option" where
  "read_all d parse [] = Some []"
| "read_all d parse (p # ps) =
     Option.bind (read_yaml d parse p) (\<lambda>v. Option.bind (read_all d parse ps) (\<lambda>vs. Some (v # vs)))"

text \<open>\<open>None\<close> is the exception: a missing or unreadable file, or a directory that is none.\<close>

definition getTabManifest :: "disk \<Rightarrow> yaml \<Rightarrow> string \<Rightarrow> string \<Rightarrow> jsval option" where
  "getTabManifest d parse dir path =
     (if dk_node d path = None then None
      else
        (let overlayFiles =
               (case dk_node d dir of
                  None \<Rightarrow> Some []
                | Some (FileNode _) \<Rightarrow> None
                | Some n \<Rightarrow> Some (overlay_files dir n))
         in Option.bind overlayFiles (\<lambda>fs. Option.bind (read_all d parse (path # fs)) (\<lambda>vs. Some (JArr (flat_values vs))))))"

definition getTabManifestHandler :: "disk \<Rightarrow> yaml \<Rightarrow> string \<Rightarrow> string \<Rightarrow> http_result" where
  "getTabManifestHandler d parse dir path =
     (case getTabManifest d parse dir path of
        None \<Rightarrow> httpResponse (Some internalServerError) (JStr ''Failed to load tab-manifest'') [] []
      | Some tabManifest \<Rightarrow>
          if key_count tabManifest = 0 then httpResponse (Some notFound) (JStr ''No valid tab manifest found'') [] []
          else httpResponse (Some ok) tabManifest [] [])"

definition defaultRemoteModules :: "string list" where
  "defaultRemoteModules = [''UtilsModule'', ''ConstantsModule'', ''ContainersModule'', ''ComponentsModule'', ''FeaturesModule'',
     ''ProvidersModule'', ''ModelsModule'', ''HooksModule'']"

definition fallbackConfig :: jsobj where
  "fallbackConfig =
     map (\<lambda>m. (m, JObj [(''name'', JStr m), (''entry'', JStr (''__HOST__/fireedge/modules/'' @ m @ ''/remoteEntry.js''))])) defaultRemoteModules @
     [(''fallback'', JBool True)]"

definition getRemotesConfig :: "disk \<Rightarrow> yaml \<Rightarrow> string \<Rightarrow> jsval" where
  "getRemotesConfig d parse path = (case read_yaml d parse path of Some config \<Rightarrow> config | None \<Rightarrow> JObj fallbackConfig)"

section \<open>Views of one's own group\<close>

definition resources_named :: "views \<Rightarrow> bool" where
  "resources_named rtn \<longleftrightarrow> list_all (\<lambda>(k, xs). list_all (\<lambda>x. truthy (prop_get x ''resource_name'')) xs) rtn"

lemma named_update: "resources_named rtn \<Longrightarrow> list_all (\<lambda>x. truthy (prop_get x ''resource_name'')) xs \<Longrightarrow> resources_named (AList.update k xs rtn)"
  unfolding resources_named_def by (induction rtn) auto

lemma named_seen: "resources_named rtn \<Longrightarrow> map_of rtn k = Some xs \<Longrightarrow> list_all (\<lambda>x. truthy (prop_get x ''resource_name'')) xs"
  by (drule map_of_SomeD) (auto simp: resources_named_def list_all_iff)

lemma fill_file_views:
  assumes "fill_file env view p rtn = Inr rtn'" "resources_named rtn"
  shows "fst ` set rtn' \<subseteq> insert view (fst ` set rtn) \<and> resources_named rtn'"
proof (cases "existsFile (vw_disk env) p")
  case True
  define seen where "seen = (case map_of rtn view of Some ys \<Rightarrow> ys | None \<Rightarrow> [])"
  have seen: "list_all (\<lambda>x. truthy (prop_get x ''resource_name'')) seen"
    using named_seen [OF assms(2)] by (auto simp: seen_def split: option.split)
  obtain v where "rtn' = AList.update view (if truthy (prop_get v ''resource_name'') then seen @ [v] else seen) rtn"
    using assms(1) True unfolding fill_file_def Let_def seen_def [symmetric] by (auto split: option.splits)
  then show ?thesis using named_update [OF assms(2)] seen by (auto simp: dom_update)
qed (use assms in \<open>auto simp: fill_file_def\<close>)

lemma fill_files_views:
  "fill_files env view ps rtn = Inr rtn' \<Longrightarrow> resources_named rtn \<Longrightarrow> fst ` set rtn' \<subseteq> insert view (fst ` set rtn) \<and> resources_named rtn'"
proof (induction ps arbitrary: rtn)
  case (Cons p ps)
  then obtain r where r: "fill_file env view p rtn = Inr r" "fill_files env view ps r = Inr rtn'"
    by (auto simp: rbind_def split: sum.splits)
  then show ?case using Cons fill_file_views [OF r(1)] by blast
qed auto

lemma fillViewsInfo_views:
  "fillViewsInfo env vs rtn = Inr rtn' \<Longrightarrow> resources_named rtn \<Longrightarrow> fst ` set rtn' \<subseteq> set vs \<union> fst ` set rtn \<and> resources_named rtn'"
proof (induction vs arbitrary: rtn)
  case (Cons v vs)
  then obtain r where r: "fill_files env v (getFiles (vw_disk env) (vw_PATH env @ v) False) rtn = Inr r" "fillViewsInfo env vs r = Inr rtn'"
    by (auto simp: rbind_def split: sum.splits)
  then have "fst ` set r \<subseteq> insert v (fst ` set rtn)" "resources_named r" using Cons.prems(2) fill_files_views [OF r(1)] by simp_all
  then show ?case using Cons.IH [OF r(2)] unfolding list.set by blast
qed simp

text \<open>The list of names that counts for a user: the one for administrators of the group, or the one of the group.\<close>

definition granted :: "jsval \<Rightarrow> jsval \<Rightarrow> jsval" where
  "granted USER GROUP =
     (if isAdminGroup USER GROUP \<and> \<not> nullish (fireedge_of GROUP ''GROUP_ADMIN_VIEWS'') then fireedge_of GROUP ''GROUP_ADMIN_VIEWS''
      else fireedge_of GROUP ''VIEWS'')"

lemma group_answer_views:
  assumes "AdAnswer r \<in> set (group_answer env USER GROUP names k)"
  shows "\<exists>rtn dv. r = httpResponse (Some ok) (JObj [(''views'', views_value rtn), (''defaultView'', dv)]) [] [] \<and>
    fst ` set rtn \<subseteq> set names \<and> resources_named rtn"
proof -
  obtain rtn where rtn: "fillViewsInfo env names [] = Inr rtn"
    using assms by (auto simp: group_answer_def split: sum.splits)
  then have "fst ` set rtn \<subseteq> set names" "resources_named rtn" using fillViewsInfo_views [OF rtn] by (simp_all add: resources_named_def)
  then show ?thesis using assms rtn by (auto simp: group_answer_def views_answer_def Let_def)
qed

text \<open>The names that the file of views has for a group: those under its name, or the default ones.\<close>

definition file_names :: "views_env \<Rightarrow> jsval \<Rightarrow> string list" where
  "file_names env GROUP =
     (let d = the_default JUndef (vw_parse env (the_default [] (read_text (vw_disk env) (vw_VIEWS env))));
          own = prop_get (prop_get d ''groups'') (to_string (prop_get GROUP ''NAME''))
      in case (if truthy own then own else prop_get d ''default'') of JArr vs \<Rightarrow> map to_string vs | _ \<Rightarrow> [])"

definition granted_names :: "views_env \<Rightarrow> jsval \<Rightarrow> jsval \<Rightarrow> string list" where
  "granted_names env USER GROUP =
     (case granted USER GROUP of JStr s \<Rightarrow> js_split (CHR '','') s | _ \<Rightarrow> file_names env GROUP)"

lemma file_answer_views:
  assumes "AdAnswer r \<in> set (file_views_answer env GROUP)" "hr_id r = 200"
  shows "\<exists>rtn dv. r = httpResponse (Some ok) (JObj [(''views'', views_value rtn), (''defaultView'', dv)]) [] [] \<and>
    fst ` set rtn \<subseteq> set (file_names env GROUP) \<and> resources_named rtn"
proof -
  have nf: "r \<noteq> of_code notFound" using assms(2) by (auto simp: of_code_def notFound_def)
  obtain d where d: "vw_parse env (the_default [] (read_text (vw_disk env) (vw_VIEWS env))) = Some d"
    using assms(1) nf by (auto simp: file_views_answer_def split: if_splits option.splits)
  obtain vs rtn where vs: "view_or (prop_get (prop_get d ''groups'') (to_string (prop_get GROUP ''NAME''))) (prop_get d ''default'') = JArr vs"
    and rtn: "fillViewsInfo env (map to_string vs) [] = Inr rtn" and r: "AdAnswer r \<in> set (views_answer rtn JUndef)"
    using assms(1) nf d by (auto simp: file_views_answer_def split: if_splits jsval.splits sum.splits)
  have "file_names env GROUP = map to_string vs" using d vs by (simp add: file_names_def view_or_def Let_def)
  moreover have "fst ` set rtn \<subseteq> set (map to_string vs)" "resources_named rtn"
    using fillViewsInfo_views [OF rtn] by (simp_all add: resources_named_def)
  ultimately show ?thesis using r by (auto simp: views_answer_def)
qed

lemma split_views_cases:
  "split_views v = Inr (Some vs) \<longleftrightarrow> (\<exists>s. v = JStr s \<and> vs = js_split (CHR '','') s)" "split_views v = Inr None \<longleftrightarrow> nullish v"
  by (cases v; auto simp: split_views_def nullish_def)+

lemma group_views_source:
  assumes "AdAnswer r \<in> set (group_views env USER GROUP)"
  shows "(\<exists>s k. granted USER GROUP = JStr s \<and> AdAnswer r \<in> set (group_answer env USER GROUP (js_split (CHR '','') s) k)) \<or>
    nullish (granted USER GROUP) \<and> AdAnswer r \<in> set (file_views_answer env GROUP)"
proof -
  obtain gv ga where gv: "split_views (fireedge_of GROUP ''VIEWS'') = Inr gv" and ga: "split_views (fireedge_of GROUP ''GROUP_ADMIN_VIEWS'') = Inr ga"
    using assms by (auto simp: group_views_def split: sum.splits)
  have r: "AdAnswer r \<in> set (case (if isAdminGroup USER GROUP then ga else None) of
      Some vs \<Rightarrow> group_answer env USER GROUP vs ''GROUP_ADMIN_DEFAULT_VIEW''
    | None \<Rightarrow> (case gv of Some vs \<Rightarrow> group_answer env USER GROUP vs ''DEFAULT_VIEW'' | None \<Rightarrow> file_views_answer env GROUP))"
    using assms by (simp add: group_views_def gv ga)
  show ?thesis
  proof (cases "isAdminGroup USER GROUP \<and> ga \<noteq> None")
    case True
    then obtain vs s where "ga = Some vs" "fireedge_of GROUP ''GROUP_ADMIN_VIEWS'' = JStr s" "vs = js_split (CHR '','') s"
      using ga split_views_cases(1) by (cases ga) auto
    then show ?thesis using r True by (auto simp: granted_def nullish_def)
  next
    case False
    then have g: "granted USER GROUP = fireedge_of GROUP ''VIEWS''" using ga split_views_cases(2) by (auto simp: granted_def)
    show ?thesis
    proof (cases gv)
      case None
      then show ?thesis using r False gv g split_views_cases(2) by (auto split: if_splits)
    next
      case (Some vs)
      then obtain s where "fireedge_of GROUP ''VIEWS'' = JStr s" "vs = js_split (CHR '','') s" using gv split_views_cases(1) by auto
      then show ?thesis using r False Some g by (auto split: if_splits)
    qed
  qed
qed

text \<open>
  C18. A user is shown the views of the own group and no other: what OpenNebula says of the user and of the group is
  asked for with the credentials of the user, and every view in the answer is in the list that the group has for its
  administrators, when the user is one of them, or for its members, or, when the group has neither, in the list that the
  file of views has under the name of the group, or else in its default list; each description names its resource.
\<close>

theorem views_of_own_group:
  assumes "replies (vw_admin env) (ud_user ud) (ud_password ud) (silent_query ''user.info'' [JNum (-1), JBool False]) = [(e1, dataUser)]"
    and "USER = prop_get dataUser ''USER''"
    and "replies (vw_admin env) (ud_user ud) (ud_password ud) (silent_query ''group.info'' [int_of (prop_get USER ''GID''), JBool False]) =
      [(e2, vmgroupData)]"
    and "GROUP = prop_get vmgroupData ''GROUP''"
    and "AdAnswer r \<in> set (getViews env ud)" and "hr_id r = 200"
  shows "\<exists>rtn dv. r = httpResponse (Some ok) (JObj [(''views'', views_value rtn), (''defaultView'', dv)]) [] [] \<and>
    fst ` set rtn \<subseteq> set (granted_names env USER GROUP) \<and> resources_named rtn"
proof -
  have "AdAnswer r \<notin> set views_error" using assms(6) by (auto simp: views_error_def internalServerError_def)
  then have "AdAnswer r \<in> set (group_views env USER GROUP)"
    using assms(1-5)
    by (auto simp: getViews_def getInfoGroup_def connect_def issued_def returned_def Let_def split: if_splits)
  then consider s k where "granted USER GROUP = JStr s" "AdAnswer r \<in> set (group_answer env USER GROUP (js_split (CHR '','') s) k)"
    | "nullish (granted USER GROUP)" "AdAnswer r \<in> set (file_views_answer env GROUP)"
    using group_views_source by blast
  then show ?thesis
  proof cases
    case 1
    then show ?thesis using group_answer_views [OF 1(2)] by (simp add: granted_names_def)
  next
    case 2
    then have "granted_names env USER GROUP = file_names env GROUP" by (auto simp: granted_names_def nullish_def)
    then show ?thesis using file_answer_views [OF 2(2) assms(6)] by simp
  qed
qed

text \<open>A user of a group with two views, one of which is on the disk.\<close>

definition bob_user :: jsval where
  "bob_user = JObj [(''ID'', JStr ''2''), (''GID'', JStr ''1'')]"

definition bob_group :: jsval where
  "bob_group = JObj [(''NAME'', JStr ''users''), (''TEMPLATE'', JObj [(''FIREEDGE'', JObj [(''VIEWS'', JStr ''user,cloud''), (''GROUP_ADMIN_VIEWS'', JStr ''groupadmin'')])])]"

definition vm_description :: jsval where
  "vm_description = JObj [(''resource_name'', JStr ''VM'')]"

definition sample_views :: views_env where
  "sample_views = \<lparr>
     vw_admin = sample_admin\<lparr>ad_one := \<lparr>ol_rpc = (\<lambda>url name args. (None, daemon_reply True (JStr name) 0)),
       ol_parse = (\<lambda>s. Inr (if s = ''one.user.info'' then [(''USER'', bob_user)] else [(''GROUP'', bob_group)])), ol_namespace = []\<rparr>\<rparr>,
     vw_disk = (one_file ''/v/user/vm.yaml'' ''y'')\<lparr>dk_node := (\<lambda>p. if p = ''/v/user'' then Some (DirNode [(''vm.yaml'', FileNode ''y'')])
       else if p = ''/v/user/vm.yaml'' then Some (FileNode ''y'') else None)\<rparr>,
     vw_parse = (\<lambda>_. Some vm_description), vw_VIEWS = ''/views.yaml'', vw_PATH = ''/v/''\<rparr>"

definition sample_shown :: http_result where
  "sample_shown = httpResponse (Some ok) (JObj [(''views'', JObj [(''user'', JArr [vm_description])]), (''defaultView'', JUndef)]) [] []"

lemma sample_views_replies:
  assumes "u \<noteq> []" "p \<noteq> []"
  shows "replies (vw_admin sample_views) u p (silent_query ''user.info'' ps) = [(JUndef, JObj [(''USER'', bob_user)])]"
    and "replies (vw_admin sample_views) u p (silent_query ''group.info'' ps) = [(JUndef, JObj [(''GROUP'', bob_group)])]"
  unfolding replies_def
  by (rule parsed_callback [where xml = "''one.user.info''" and code = 0],
      simp_all add: assms sample_views_def sample_admin_def silent_query_def)
     (rule parsed_callback [where xml = "''one.group.info''" and code = 0],
      simp_all add: assms sample_views_def sample_admin_def silent_query_def)

lemma sample_group_views: "group_views sample_views bob_user bob_group = [AdAnswer sample_shown]"
proof -
  have "js_split (CHR '','') ''user,cloud'' = [''user'', ''cloud'']" by code_simp
  then have "split_views (fireedge_of bob_group ''VIEWS'') = Inr (Some [''user'', ''cloud''])"
    by (simp add: split_views_def fireedge_of_def bob_group_def obj_get_def nullish_def)
  moreover have "\<exists>x. split_views (fireedge_of bob_group ''GROUP_ADMIN_VIEWS'') = Inr x"
    by (simp add: split_views_def fireedge_of_def bob_group_def obj_get_def nullish_def)
  moreover have "\<not> isAdminGroup bob_user bob_group" by (simp add: isAdminGroup_def bob_user_def bob_group_def obj_get_def)
  moreover have "fillViewsInfo sample_views [''user'', ''cloud''] [] = Inr [(''user'', [vm_description])]"
    by (simp add: fill_file_def getFiles_def existsFile_def sample_views_def one_file_def rbind_def vm_description_def obj_get_def)
  ultimately show ?thesis
    by (auto simp: group_views_def group_answer_def views_answer_def views_value_def view_or_def fireedge_of_def bob_user_def
        bob_group_def obj_get_def sample_shown_def)
qed

theorem views_of_own_group_witness:
  "\<exists>rtn dv. sample_shown = httpResponse (Some ok) (JObj [(''views'', views_value rtn), (''defaultView'', dv)]) [] [] \<and>
    fst ` set rtn \<subseteq> set (js_split (CHR '','') ''user,cloud'') \<and> resources_named rtn"
proof -
  let ?ud = "\<lparr>ud_user = ''bob'', ud_password = ''tok''\<rparr>"
  have u: "replies (vw_admin sample_views) (ud_user ?ud) (ud_password ?ud) (silent_query ''user.info'' [JNum (-1), JBool False]) =
      [(JUndef, JObj [(''USER'', bob_user)])]" by (rule sample_views_replies) simp_all
  have g: "replies (vw_admin sample_views) (ud_user ?ud) (ud_password ?ud) (silent_query ''group.info'' [int_of (prop_get bob_user ''GID''), JBool False]) =
      [(JUndef, JObj [(''GROUP'', bob_group)])]" by (rule sample_views_replies) simp_all
  have "AdAnswer sample_shown \<in> set (getViews sample_views ?ud)"
    using u g sample_group_views
    by (simp add: getViews_def getInfoGroup_def connect_def returned_def no_credentials_def obj_get_def bob_user_def bob_group_def
        sample_views_def)
  moreover have "granted bob_user bob_group = JStr ''user,cloud''"
    by (simp add: granted_def isAdminGroup_def fireedge_of_def bob_user_def bob_group_def obj_get_def)
  then have "granted_names sample_views bob_user bob_group = js_split (CHR '','') ''user,cloud''" by (simp add: granted_names_def)
  ultimately show ?thesis
    using views_of_own_group [OF u _ _ _, of bob_user JUndef "JObj [(''GROUP'', bob_group)]" bob_group sample_shown] g
    by (simp add: obj_get_def sample_shown_def ok_def)
qed

section \<open>The order of the overlays\<close>

lemma text_le_refl [simp]: "text_le s s"
  by (induction s) simp_all

lemma text_le_linear: "text_le s t \<or> text_le t s"
proof (induction s t rule: text_le.induct)
  case (3 c s e t)
  have "(of_char c :: nat) < of_char e \<or> (of_char e :: nat) < of_char c \<or> c = e" by (metis of_char_eq_iff linorder_neqE_nat)
  then show ?case using 3 by auto
qed simp_all

lemma text_le_trans: "text_le s t \<Longrightarrow> text_le t w \<Longrightarrow> text_le s w"
proof (induction s t arbitrary: w rule: text_le.induct)
  case (3 c s e t)
  then show ?case by (cases w) auto
qed simp_all

lemma insert_text_sorted: "sorted_wrt text_le ts \<Longrightarrow> sorted_wrt text_le (insert_text s ts) \<and> mset (insert_text s ts) = add_mset s (mset ts)"
proof (induction ts)
  case (Cons t ts)
  show ?case
  proof (cases "text_le s t")
    case True
    then show ?thesis using Cons.prems by (auto intro: text_le_trans)
  next
    case False
    have "set (insert_text s ts) = insert s (set ts)" by (induction ts) auto
    then show ?thesis using Cons False text_le_linear [of s t] by auto
  qed
qed simp

text \<open>The overlays of the manifest are all of them, in the order of their paths.\<close>

theorem overlays_sorted: "sorted_wrt text_le (sort_texts ts) \<and> mset (sort_texts ts) = mset ts"
proof (induction ts)
  case (Cons t ts)
  then show ?case using insert_text_sorted [of "sort_texts ts" t] by (simp add: sort_texts_def)
qed (simp add: sort_texts_def)

text \<open>The manifest has the tabs of the file and of every overlay.\<close>

theorem tabs_of_every_overlay:
  assumes "getTabManifest d parse dir path = Some (JArr tabs)" "dk_node d dir = Some n"
    and "f \<in> set (files_below True dir n)" "to_lower (path_ext f) = ''.yaml''"
  shows "\<exists>v. read_yaml d parse (path_normalize f) = Some v \<and> set (flat_values [v]) \<subseteq> set tabs"
proof -
  have all: "read_all d parse ps = Some vs \<Longrightarrow> p \<in> set ps \<Longrightarrow> \<exists>v. read_yaml d parse p = Some v \<and> v \<in> set vs" for ps vs p
    by (induction ps arbitrary: vs) (auto simp: bind_eq_Some_conv)
  have "path_normalize f \<in> set_mset (mset (overlay_files dir n))"
    using assms(3,4) overlays_sorted unfolding overlay_files_def by auto
  then have "path_normalize f \<in> set (path # overlay_files dir n)" by simp
  moreover obtain vs where "read_all d parse (path # overlay_files dir n) = Some vs" "tabs = flat_values vs"
    using assms(1,2) by (auto simp: getTabManifest_def Let_def bind_eq_Some_conv split: if_splits node.splits)
  ultimately obtain v where "read_yaml d parse (path_normalize f) = Some v" "v \<in> set vs" using all by blast
  then show ?thesis using \<open>tabs = flat_values vs\<close> unfolding flat_values_def by auto
qed

section \<open>Defects\<close>

text \<open>Without a default the first view is meant, but views are named: the default is undefined.\<close>

theorem no_first_view:
  assumes "fillViewsInfo env names [] = Inr rtn" "''0'' \<notin> set names"
    "\<not> truthy (fireedge_of USER ''DEFAULT_VIEW'')" "\<not> truthy (fireedge_of GROUP k)"
  shows "group_answer env USER GROUP names k = views_answer rtn JUndef"
proof -
  have "''0'' \<notin> fst ` set rtn" using fillViewsInfo_views [OF assms(1)] assms(2) by (auto simp: resources_named_def)
  then have "map_of (map (\<lambda>(k, xs). (k, JArr xs)) rtn) ''0'' = None" by (induction rtn) auto
  then have "prop_get (views_value rtn) ''0'' = JUndef" by (simp add: views_value_def obj_get_def)
  then show ?thesis using assms by (simp add: group_answer_def view_or_def)
qed

text \<open>A file of views without groups or without a default is never answered.\<close>

theorem incomplete_views_unanswered:
  assumes "existsFile (vw_disk env) (vw_VIEWS env)" "vw_parse env (the_default [] (read_text (vw_disk env) (vw_VIEWS env))) = Some (JObj fs)"
    "obj_get fs ''default'' = JUndef"
  shows "file_views_answer env GROUP = []"
  using assms by (simp add: file_views_answer_def)

end
