(* ===== verification/Spec2Isabelle.thy ===== *)
theory Spec2Isabelle
  imports Auth_Security Two_Factor Acl Platform Client_State Client_Requests Scheduler Files_Api Vdc Vmpool Logo Vm_Api Service_Template Resources Template_Filter Gateways Zendesk Views
begin

text \<open>
  \<^bold>\<open>OpenAsst AI: the FireEdge server and client, and the platform server\<close>

  \<^bold>\<open>The program.\<close>  The repository is the cloud manager OpenNebula with two JavaScript programs on top of it.
  FireEdge (\<open>src/src/fireedge\<close>) is a web server and the web client Sunstone that it serves: the client turns
  what a user does into HTTP requests, the server authenticates them and turns them into XML-RPC calls to the
  OpenNebula daemon, or handles them itself (login, second factor, files).  The platform
  (\<open>src/openasstai-platform\<close>) is a small server of its own with an API for instances and their agents.  Paths
  below are relative to \<open>src/src/fireedge/src\<close> unless they start with \<open>openasstai-platform\<close>.

  \<^bold>\<open>How the parts interact.\<close>  A login (\<open>auth\<close>) asks OpenNebula for the user, checks the second factor, obtains or
  reuses a token, records it in the session store and answers with a cookie that carries a signed token.  Every
  later request passes \<open>validateSession\<close>, which decodes the cookie and asks the session store; a request for a
  command is then given to the daemon with the token of the session, its parameters taken from the request as
  the command table declares.  What a user last asked information about is remembered, and decides which hook
  sockets the user may open.  In the client a query of a command is made into a request by the same table, its
  answer goes through an interceptor and the base query, and a 401 is seen by the middleware of the store, which
  logs the client out.

  \<^bold>\<open>Library of the language.\<close>
  \<^item> \<open>Js_Prelude\<close>: values (\<open>jsval\<close>: undefined, null, booleans, integers, rationals, strings, arrays, objects as
    association lists in insertion order), truthiness, property access, numbers from text, splitting and joining,
    and results with errors as \<open>error + 'a\<close>.
  \<^item> \<open>Json\<close>: \<open>JSON.stringify\<close> and \<open>JSON.parse\<close> with the round trip on every value that JSON can carry, stated
    as the locale \<open>codec\<close>; \<open>Uri\<close>: the encoding of cookies, a second interpretation of \<open>codec\<close>.
  \<^item> \<open>Paths\<close>: the path module of Node on POSIX paths, with the lemmas on what climbs out of a directory.

  \<^bold>\<open>The server.\<close>
  \<^item> \<open>Globals\<close>, \<open>Sessions\<close> (\<open>server/utils/sessions.js\<close>, \<open>validateUser\<close>): the session store as a record of the
    process globals.  The locale \<open>session_store\<close> states the contract between login, logout and the check, and is
    interpreted on the store.  Reachable states are an inductive relation; what a run of additions grants is exact, the
    first removal is exact, no removal grants anything, and the second logout of a user can remove the wrong session.
    The purge of expired tokens in a login is part of \<open>Auth\<close>, where it can remove a live token.
  \<^item> \<open>Http\<close> (\<open>server/utils/server.js\<close>, \<open>http-codes.js\<close>, \<open>defaults.js\<close>, \<open>routes/api/index.js\<close>): responses,
    declared parameters, uploads, zones.
  \<^item> \<open>Jwt\<close> (\<open>server/utils/jwt.js\<close>, \<open>middlewares.js\<close>): tokens and the session middleware; the JWT library is a
    parameter with the hypothesis \<open>jwt_correct\<close>.
  \<^item> \<open>Hook_Sockets\<close> (\<open>server/utils/opennebula.js\<close>, \<open>server.js\<close>): the gate of the hook sockets, over the history of the
    calls that open it; a parameter of a handshake may be absent, single or repeated.
  \<^item> \<open>Command_Base\<close>, \<open>Commands_A\<close>, \<open>Commands_B\<close>, \<open>Commands_C\<close> (\<open>server/utils/constants/commands\<close>): the
    tables of all commands; \<open>Xmlrpc\<close> (\<open>routes/entrypoints/Api\<close>, \<open>utils/worker.js\<close>): routes, the arguments of a
    call, the handler and the worker.  A call is made for a live session alone; its arguments have the types of
    the declared defaults; every command has one route.
  \<^item> \<open>One_Connect\<close> (\<open>utils/opennebula.js\<close>, \<open>general.js\<close>, \<open>index.worker.js\<close>): what the callback of a call is given
    for every reply of the daemon.  A refused call arrives as a success, which opens a hook socket.
  \<^item> \<open>Auth\<close> (\<open>routes/api/auth\<close>): login, remote and x509 login, second factor, token creation and reuse, logout,
    as functions on a state of globals and the calls made to OpenNebula, which is a parameter.
    \<open>Auth_Security\<close>: the cookie of a login is accepted for its whole age as long as no later login purges by
    stale positions, the second factor is enforced and its set-up stored, the loop over reusable tokens stays within
    the array that it shortens, and what a logout revokes and what it does not.
  \<^item> \<open>Files_Api\<close> (\<open>routes/api/files/functions.js\<close>): the files of users, over an abstract disk.  Without double dots
    users reach their own files alone; with them, every file.
  \<^item> \<open>Two_Factor\<close> (\<open>routes/api/2fa/functions.js\<close>): set-up and deletion of second factors of users who are logged
    in, in the state of \<open>Auth\<close>; \<open>Logo\<close> (\<open>utils/logo.js\<close>, \<open>routes/api/logo\<close>): a logo lies in its directory.
  \<^item> \<open>Vdc\<close> (\<open>routes/api/vdc/functions.js\<close>): data centres.  The calls of an update are carried out, and their
    callbacks run, in any order: an update reaches what was asked for and ends once.  What a call does to a data centre
    is read off \<open>src/src/vdc/Vdc.cc\<close>, with the identifier -10 that stands for a whole zone.
  \<^item> \<open>Vmpool\<close> (\<open>routes/api/vmpool/functions.js\<close>): accounting, and the pool fetched in batches of pages, with the
    page sizes for which the loop ends and those for which it does not; which machines a call returns is read off
    \<open>src/src/pool/PoolSQL.cc\<close> and \<open>src/src/rm/api/PoolSharedAPI.cc\<close>.
  \<^item> \<open>Vm_Api\<close> (\<open>routes/api/vm/functions.js\<close>, \<open>utils/server.js\<close>): command lines, sessions of consoles with all the
    answers a request gets, and logs.
  \<^item> \<open>Gateway\<close> (\<open>routes/entrypoints/Api/functions.js\<close>, \<open>utils/general.js\<close>, \<open>utils/server.js\<close>), \<open>Oneks\<close>, \<open>Oneform\<close> and
    \<open>Oneflow\<close> (\<open>routes/api/oneks\<close>, \<open>oneform\<close>, \<open>oneflow\<close>): the routes of functions and the gateways to the other
    services, every handler of them.  The locale \<open>gateway\<close> is the contract of a table of endpoints, interpreted on
    each of the three and in \<open>Gateways\<close> on all: actions send what they send for a live session; the templates of
    seven handlers are validated, those of four updates are not; requests go to the addresses of their objects.  Posted fields are read back, and
    actions with a schedule are answered once, by the callback of the last machine.
  \<^item> \<open>Zendesk\<close> (\<open>routes/api/zendesk\<close>): logins remembered in sessions were accepted by the service; a ticket is sent
    at most once, with the tokens of the uploads that succeeded.
  \<^item> \<open>Config_Files\<close> (\<open>utils/yml.js\<close>, \<open>vmm.js\<close>, \<open>profiles.js\<close>, \<open>config.js\<close>): protected options are not handed out, and
    the files of drivers are read as they are written.
  \<^item> \<open>Admin_Api\<close> (\<open>routes/api/host\<close>, \<open>cluster\<close>, \<open>system\<close>, \<open>marketapp\<close>, \<open>image\<close>, \<open>support\<close>): what a flush of a host
    calls and with whose credentials, which options of the daemon are shown, and the commands of marketplace apps.
  \<^item> \<open>Views\<close> (\<open>routes/api/sunstone\<close>, \<open>utils/remoteModules.js\<close>): the views of a user are those of the own group; tabs,
    in the order of their overlays, and modules.

  \<^bold>\<open>The client.\<close>
  \<^item> \<open>Acl\<close> (\<open>modules/constants/acl.js\<close>, \<open>modules/models/ACL.js\<close>, \<open>utils/parser/parseACL.js\<close>): access rules from
    the form to the bit masks of the API and back.
  \<^item> \<open>Resource_Helpers\<close> (\<open>modules/models/Helper.js\<close>), \<open>Client_Values\<close> and \<open>Client_Text\<close> (\<open>modules/utils\<close>): the
    helpers on values, texts and numbers; 32-bit integers are kept as words.
  \<^item> \<open>Client_State\<close> (\<open>modules/features\<close>, \<open>client/store\<close>): the reducers of every slice, their composition and the
    middleware that ends an expired session.  The locale \<open>reducer\<close> gives invariants of all runs of a reducer, and
    \<open>reducer_refines\<close> a refinement; both are interpreted on the console and the login slices.
  \<^item> \<open>Client_Requests\<close> (\<open>modules/utils/request.js\<close>, \<open>rest.js\<close>, \<open>OneApi/oneApi.js\<close>): from a query to a request
    and from an answer to what the user is told; composed with \<open>Xmlrpc\<close>, what a query asks for arrives as the
    arguments of the call.
  \<^item> \<open>Vm_Tables\<close>, \<open>Vm\<close> (\<open>modules/constants/vm.js\<close>, \<open>modules/models/VirtualMachine.js\<close>, \<open>SecurityGroup.js\<close>):
    states, actions and hypervisors, compared with the numbering of the core (\<open>VirtualMachine.h\<close>,
    \<open>VMActions.cc\<close>); \<open>Scheduler\<close> (\<open>modules/models/Scheduler.js\<close>): schedules, periods and charters.
  \<^item> \<open>Service_Template\<close> (\<open>modules/utils/parser/parseServiceTemplate.js\<close> and the networks of the forms of service
    templates): what a form writes is what it reads, and what the form for instantiation loses.
  \<^item> \<open>Resources\<close> (the other files of \<open>modules/models\<close>): hosts, images, datastores, networks, marketplaces,
    services and quotas: states by the numbers of the core, percentages within their bounds, colours.
  \<^item> \<open>Template_Filter\<close> (\<open>modules/utils/parser/vmTemplateFilter.js\<close>): what a form of VM templates submits of the
    changes its user made: fields that were changed are sent, items that were not touched are kept.

  \<^bold>\<open>The platform.\<close>  \<open>Platform\<close> (\<open>openasstai-platform/src/server\<close>): the API, the file server and the data.  The
  file server stays inside the client directory, an internal error has one of three causes (an address that the URL
  parser rejects, a bad body, a file that is not served), requests to one instance leave the others alone.

  \<^bold>\<open>Parameters.\<close>  Code outside the repository is an argument of the definitions that use it: the JWT library, the
  one-time-password and cryptographic functions, OpenNebula behind the XML-RPC client, the XML parser, the image
  encoder, processes, lodash, axios, the validator of schemas, btoa,
  node-zendesk, the parsers of YAML and of URLs, the disk, the clock.

  \<^bold>\<open>Bounds.\<close>  The parser of JSON has as much fuel as its text has tokens, twice over, which \<open>json_roundtrip\<close> shows to
  be enough for whatever is written.  The loop over the batches of a pool may run forever: \<open>runBatches\<close> is a partial
  function into option, \<open>None\<close> is never answering, and that it returns is proved for pages of at least two machines.  All
  other functions are total.  The loops of the source are structural recursions or have a termination proof: the
  token loop runs over an index bounded by the array it reads, the scaling loop of \<open>prettyBytes\<close> over the units,
  the replacement of placeholders over the rest of the text.  Numbers are integers or rationals where the source does arithmetic on them that
  is exact there (identifiers below \<open>2 ^ 53\<close>; percentages are exact quotients, without the last rounding of a double);
  the shifts of colours wrap at 32 bits.

  \<^bold>\<open>Objects and coercions.\<close>  An object has its own fields and no prototype; where a name from outside becomes a key (the
  users and tokens of the session store) the keys have a form that no inherited member has.  Fields are listed in the
  order in which they were added; where array indices among the names change that order (\<open>Service_Template\<close>) it is the one
  of JavaScript.  A value that is written as text or read as a number never throws: an object with a field \<open>toString\<close> or
  \<open>valueOf\<close> of its own, which would, is outside the model.

  \<^bold>\<open>Not modelled.\<close>  React components, hooks and providers (rendering); the endpoint tables of OneApi (each a
  command name and a mapping of its answer); translations and style constants; the proxies
  of Guacamole, VMM and SSH (network and process I/O); logging; build configuration; and the C++, Ruby and shell parts of OpenNebula, of which only the numbering of states and actions,
  the resources of a data centre and the pages of a pool are used.
\<close>

end
